(* ===== verification/Cctools_Prelude.thy ===== *)
theory Cctools_Prelude
  imports Main "HOL-Library.Word"
begin

text \<open>
  Shared vocabulary of the development: fixed-width integers of the C sources,
  byte strings, the two byte orders a host can have, reading and writing
  fixed-width integers in a byte buffer, and the lemma collections that the
  component theories extend.

  A host machine is a value of \<open>endian\<close>.  Memory that C code reaches through a
  pointer is a list of bytes; \<open>get16\<close>, \<open>get32\<close> and \<open>get64\<close> read an integer the way
  a load instruction of that host does, \<open>put16\<close>, \<open>put32\<close> and \<open>put64\<close> give the
  bytes that a store leaves behind.
\<close>

unbundle bit_operations_syntax

type_synonym u8 = "8 word"
type_synonym u16 = "16 word"
type_synonym u32 = "32 word"
type_synonym u64 = "64 word"
type_synonym bytes = "8 word list"

named_theorems byte_simps

section \<open>Integers as byte strings\<close>

datatype endian = Little | Big

fun flip :: "endian \<Rightarrow> endian" where
  "flip Little = Big"
| "flip Big = Little"

fun order :: "endian \<Rightarrow> bytes \<Rightarrow> bytes" where
  "order Little bs = bs"
| "order Big bs = rev bs"

fun of_bytes :: "bytes \<Rightarrow> 'a::len word" where
  "of_bytes [] = 0"
| "of_bytes (b # bs) = ucast b OR push_bit 8 (of_bytes bs)"

definition bytes_of :: "nat \<Rightarrow> 'a::len word \<Rightarrow> bytes" where
  "bytes_of n w = map (\<lambda>i. ucast (drop_bit (8 * i) w)) [0..<n]"

definition subbytes :: "nat \<Rightarrow> nat \<Rightarrow> bytes \<Rightarrow> bytes" where
  "subbytes p n m = take n (drop p m)"

definition get8 :: "bytes \<Rightarrow> nat \<Rightarrow> u8" where
  "get8 m p = m ! p"

definition put8 :: "u8 \<Rightarrow> bytes" where
  "put8 w = [w]"

definition get16 :: "endian \<Rightarrow> bytes \<Rightarrow> nat \<Rightarrow> u16" where
  "get16 e m p = of_bytes (order e (subbytes p 2 m))"

definition get32 :: "endian \<Rightarrow> bytes \<Rightarrow> nat \<Rightarrow> u32" where
  "get32 e m p = of_bytes (order e (subbytes p 4 m))"

definition get64 :: "endian \<Rightarrow> bytes \<Rightarrow> nat \<Rightarrow> u64" where
  "get64 e m p = of_bytes (order e (subbytes p 8 m))"

definition put16 :: "endian \<Rightarrow> u16 \<Rightarrow> bytes" where
  "put16 e w = order e (bytes_of 2 w)"

definition put32 :: "endian \<Rightarrow> u32 \<Rightarrow> bytes" where
  "put32 e w = order e (bytes_of 4 w)"

definition put64 :: "endian \<Rightarrow> u64 \<Rightarrow> bytes" where
  "put64 e w = order e (bytes_of 8 w)"

text \<open>An array of 32-bit or 64-bit integers inside a structure.\<close>

definition get32s :: "endian \<Rightarrow> bytes \<Rightarrow> nat \<Rightarrow> nat \<Rightarrow> u32 list" where
  "get32s e m p n = map (\<lambda>i. get32 e m (p + 4 * i)) [0..<n]"

definition get64s :: "endian \<Rightarrow> bytes \<Rightarrow> nat \<Rightarrow> nat \<Rightarrow> u64 list" where
  "get64s e m p n = map (\<lambda>i. get64 e m (p + 8 * i)) [0..<n]"

definition put32s :: "endian \<Rightarrow> u32 list \<Rightarrow> bytes" where
  "put32s e ws = concat (map (put32 e) ws)"

definition put64s :: "endian \<Rightarrow> u64 list \<Rightarrow> bytes" where
  "put64s e ws = concat (map (put64 e) ws)"

subsection \<open>Byte order\<close>

lemma flip_flip [simp]: "flip (flip e) = e"
  by (cases e) auto

lemma flip_neq [simp]: "flip e \<noteq> e" "e \<noteq> flip e"
  by (cases e; simp)+

lemma length_order [simp]: "length (order e bs) = length bs"
  by (cases e) auto

lemma order_flip: "order (flip e) bs = rev (order e bs)"
  by (cases e) auto

lemma order_order [simp]: "order e (order e bs) = bs"
  by (cases e) auto

lemma length_bytes_of [simp]: "length (bytes_of n w) = n"
  by (simp add: bytes_of_def)

lemma bit_of_bytes:
  "bit (of_bytes bs :: 'a::len word) n \<longleftrightarrow>
     n < LENGTH('a) \<and> n < 8 * length bs \<and> bit (bs ! (n div 8)) (n mod 8)"
proof (induction bs arbitrary: n)
  case Nil
  then show ?case by simp
next
  case (Cons b bs)
  show ?case
  proof (cases "n < 8")
    case True
    then show ?thesis by (auto simp: bit_simps)
  next
    case False
    then obtain m where m: "n = 8 + m" by (metis add.commute le_add_diff_inverse2 not_less)
    then have high: "\<not> bit b n"
      by (auto dest: bit_imp_le_length)
    have "(8 + m) div 8 = Suc (m div 8)" by simp
    then show ?thesis
      using Cons.IH [of m] high by (auto simp: m bit_simps)
  qed
qed

lemma bytes_of_nth [simp]: "i < n \<Longrightarrow> bytes_of n w ! i = ucast (drop_bit (8 * i) w)"
  by (simp add: bytes_of_def)

lemma of_bytes_of:
  assumes "LENGTH('a::len) = 8 * n"
  shows "of_bytes (bytes_of n (w :: 'a word)) = w"
proof (rule bit_word_eqI)
  fix k assume k: "k < LENGTH('a)"
  then have "k div 8 < n" using assms by auto
  then show "bit (of_bytes (bytes_of n w) :: 'a word) k = bit w k"
    using k assms by (simp add: bit_of_bytes bit_simps)
qed

lemma bytes_of_of_bytes:
  assumes "length bs = n" and "8 * n \<le> LENGTH('a::len)"
  shows "bytes_of n (of_bytes bs :: 'a word) = bs"
proof (rule nth_equalityI)
  show "length (bytes_of n (of_bytes bs :: 'a word)) = length bs"
    using assms by simp
next
  fix i assume "i < length (bytes_of n (of_bytes bs :: 'a word))"
  then have i: "i < n" by simp
  have "ucast (drop_bit (8 * i) (of_bytes bs :: 'a word)) = bs ! i"
  proof (rule bit_word_eqI)
    fix k assume k: "k < LENGTH(8)"
    then have "(8 * i + k) div 8 = i" "(8 * i + k) mod 8 = k" by auto
    then show "bit (ucast (drop_bit (8 * i) (of_bytes bs :: 'a word)) :: u8) k = bit (bs ! i) k"
      using i k assms by (simp add: bit_of_bytes bit_simps)
  qed
  then show "bytes_of n (of_bytes bs :: 'a word) ! i = bs ! i"
    using i by simp
qed

subsection \<open>Slices of a buffer\<close>

lemma length_subbytes [simp]: "p + n \<le> length m \<Longrightarrow> length (subbytes p n m) = n"
  by (simp add: subbytes_def)

lemma subbytes_append: "subbytes p a m @ subbytes (p + a) b m = subbytes p (a + b) m"
  by (simp add: subbytes_def take_add add.commute)

lemma subbytes_append_numeral [byte_simps]:
  "q = p + a \<Longrightarrow> subbytes p a m @ subbytes q b m = subbytes p (a + b) m"
  "q = p + a \<Longrightarrow> subbytes p a m @ subbytes q b m @ zs = subbytes p (a + b) m @ zs"
  by (simp_all add: subbytes_append flip: append_assoc)

lemma subbytes_all [simp]: "length m \<le> n \<Longrightarrow> subbytes 0 n m = m"
  by (simp add: subbytes_def)

lemma subbytes_Nil [simp]: "subbytes p 0 m = []"
  by (simp add: subbytes_def)

lemma subbytes_at_append [byte_simps]:
  "p + n \<le> length xs \<Longrightarrow> subbytes p n (xs @ ys) = subbytes p n xs"
  "length xs \<le> p \<Longrightarrow> subbytes p n (xs @ ys) = subbytes (p - length xs) n ys"
  by (simp_all add: subbytes_def)

lemma subbytes_subbytes [byte_simps]:
  "p + n \<le> k \<Longrightarrow> subbytes p n (subbytes q k m) = subbytes (q + p) n m"
  by (simp add: subbytes_def drop_take min_def add.commute)

subsection \<open>Loads and stores\<close>

lemma length_put [simp]:
  "length (put16 e w2) = 2" "length (put32 e w4) = 4" "length (put64 e w8) = 8"
  by (simp_all add: put16_def put32_def put64_def)

lemma length_put32s [simp]: "length (put32s e ws) = 4 * length ws"
  by (induction ws) (auto simp: put32s_def)

lemma length_put64s [simp]: "length (put64s e ws) = 8 * length ws"
  by (induction ws) (auto simp: put64s_def)

lemma length_get32s [simp]: "length (get32s e m p n) = n"
  by (simp add: get32s_def)

lemma length_get64s [simp]: "length (get64s e m p n) = n"
  by (simp add: get64s_def)

lemma put_get [byte_simps]:
  "p + 2 \<le> length m \<Longrightarrow> put16 e (get16 e m p) = subbytes p 2 m"
  "p + 4 \<le> length m \<Longrightarrow> put32 e (get32 e m p) = subbytes p 4 m"
  "p + 8 \<le> length m \<Longrightarrow> put64 e (get64 e m p) = subbytes p 8 m"
  by (simp_all add: put16_def put32_def put64_def get16_def get32_def get64_def
      bytes_of_of_bytes)

lemma get_put [byte_simps]:
  "get16 e (put16 e w2) 0 = w2" "get32 e (put32 e w4) 0 = w4" "get64 e (put64 e w8) 0 = w8"
  by (simp_all add: put16_def put32_def put64_def get16_def get32_def get64_def of_bytes_of)

lemma get_at_append [byte_simps]:
  "p + 2 \<le> length xs \<Longrightarrow> get16 e (xs @ ys) p = get16 e xs p"
  "p + 4 \<le> length xs \<Longrightarrow> get32 e (xs @ ys) p = get32 e xs p"
  "p + 8 \<le> length xs \<Longrightarrow> get64 e (xs @ ys) p = get64 e xs p"
  "length xs \<le> p \<Longrightarrow> get16 e (xs @ ys) p = get16 e ys (p - length xs)"
  "length xs \<le> p \<Longrightarrow> get32 e (xs @ ys) p = get32 e ys (p - length xs)"
  "length xs \<le> p \<Longrightarrow> get64 e (xs @ ys) p = get64 e ys (p - length xs)"
  by (simp_all add: get16_def get32_def get64_def subbytes_at_append)

lemma length_put8 [simp]: "length (put8 w) = 1"
  by (simp add: put8_def)

lemma put8_get8 [byte_simps]: "p + 1 \<le> length m \<Longrightarrow> put8 (get8 m p) = subbytes p 1 m"
  by (simp add: put8_def get8_def subbytes_def take_Suc_conv_app_nth take_drop)

lemma get8_put8 [byte_simps]: "get8 (put8 w) 0 = w"
  by (simp add: put8_def get8_def)

lemma get8_at_append [byte_simps]:
  "p + 1 \<le> length xs \<Longrightarrow> get8 (xs @ ys) p = get8 xs p"
  "length xs \<le> p \<Longrightarrow> get8 (xs @ ys) p = get8 ys (p - length xs)"
  by (simp_all add: get8_def nth_append)

lemma get_subbytes [byte_simps]:
  "i < n \<Longrightarrow> p \<le> length m \<Longrightarrow> get8 (subbytes p n m) i = get8 m (p + i)"
  "i + 2 \<le> n \<Longrightarrow> get16 e (subbytes p n m) i = get16 e m (p + i)"
  "i + 4 \<le> n \<Longrightarrow> get32 e (subbytes p n m) i = get32 e m (p + i)"
  "i + 8 \<le> n \<Longrightarrow> get64 e (subbytes p n m) i = get64 e m (p + i)"
  by (simp_all add: get8_def get16_def get32_def get64_def subbytes_subbytes)
     (simp add: subbytes_def)

lemma get32s_Suc: "get32s e m p (Suc n) = get32 e m p # get32s e m (p + 4) n"
proof -
  have *: "[0..<Suc n] = 0 # map Suc [0..<n]"
    by (simp add: map_Suc_upt upt_conv_Cons del: upt_Suc)
  show ?thesis by (simp add: get32s_def * algebra_simps comp_def del: upt_Suc)
qed

lemma get64s_Suc: "get64s e m p (Suc n) = get64 e m p # get64s e m (p + 8) n"
proof -
  have *: "[0..<Suc n] = 0 # map Suc [0..<n]"
    by (simp add: map_Suc_upt upt_conv_Cons del: upt_Suc)
  show ?thesis by (simp add: get64s_def * algebra_simps comp_def del: upt_Suc)
qed

lemma put32s_get32s [byte_simps]:
  "p + 4 * n \<le> length m \<Longrightarrow> put32s e (get32s e m p n) = subbytes p (4 * n) m"
proof (induction n arbitrary: p)
  case 0
  then show ?case by (simp add: get32s_def put32s_def)
next
  case (Suc n)
  then have "put32s e (get32s e m (p + 4) n) = subbytes (p + 4) (4 * n) m" by simp
  then show ?case
    using Suc.prems by (simp add: get32s_Suc put32s_def put_get subbytes_append)
qed

lemma put64s_get64s [byte_simps]:
  "p + 8 * n \<le> length m \<Longrightarrow> put64s e (get64s e m p n) = subbytes p (8 * n) m"
proof (induction n arbitrary: p)
  case 0
  then show ?case by (simp add: get64s_def put64s_def)
next
  case (Suc n)
  then have "put64s e (get64s e m (p + 8) n) = subbytes (p + 8) (8 * n) m" by simp
  then show ?case
    using Suc.prems by (simp add: get64s_Suc put64s_def put_get subbytes_append)
qed

lemma get32s_put32s [byte_simps]:
  "n = length ws \<Longrightarrow> get32s e (put32s e ws) 0 n = ws"
proof (induction ws arbitrary: n)
  case Nil
  then show ?case by (simp add: get32s_def)
next
  case (Cons w ws)
  have shift: "get32s e (put32 e w @ zs) 4 k = get32s e zs 0 k" for zs k
    by (simp add: get32s_def get_at_append)
  show ?case
    using Cons shift by (simp add: get32s_Suc put32s_def byte_simps)
qed

lemma get64s_put64s [byte_simps]:
  "n = length ws \<Longrightarrow> get64s e (put64s e ws) 0 n = ws"
proof (induction ws arbitrary: n)
  case Nil
  then show ?case by (simp add: get64s_def)
next
  case (Cons w ws)
  have shift: "get64s e (put64 e w @ zs) 8 k = get64s e zs 0 k" for zs k
    by (simp add: get64s_def get_at_append)
  show ?case
    using Cons shift by (simp add: get64s_Suc put64s_def byte_simps)
qed

lemma get32s_at_append [byte_simps]:
  "p + 4 * n \<le> length xs \<Longrightarrow> get32s e (xs @ ys) p n = get32s e xs p n"
  "length xs \<le> p \<Longrightarrow> get32s e (xs @ ys) p n = get32s e ys (p - length xs) n"
  by (auto simp: get32s_def get_at_append)

lemma get64s_at_append [byte_simps]:
  "p + 8 * n \<le> length xs \<Longrightarrow> get64s e (xs @ ys) p n = get64s e xs p n"
  "length xs \<le> p \<Longrightarrow> get64s e (xs @ ys) p n = get64s e ys (p - length xs) n"
  by (auto simp: get64s_def get_at_append)

lemma unat_ucast_32_64: "unat (ucast (w :: u32) :: u64) = unat w"
  by (simp add: unsigned_ucast_eq take_bit_nat_eq_self less_trans [OF unsigned_less])

end
