(* ===== verification/Byte_Swap.thy ===== *)
theory Byte_Swap
  imports Cctools_Prelude
begin

text \<open>
  The byte-swapping primitives of \<open>include/stuff/bytesex.h\<close> and
  \<open>libstuff/bytesex.c\<close> (\<open>SWAP_SHORT\<close>, \<open>SWAP_INT\<close>, \<open>SWAP_LONG_LONG\<close>,
  \<open>SWAP_DOUBLE\<close>, \<open>SWAP_FLOAT\<close>, \<open>get_host_byte_sex\<close>) and the two interfaces every
  swapped structure is checked against: \<open>struct_layout\<close> (a C structure without
  padding, laid out in a byte buffer) and \<open>struct_codec\<close> (its swap routine turns
  what the host reads into what a host of the other byte order would read).
\<close>

section \<open>The primitives\<close>

datatype byte_sex = UNKNOWN_BYTE_SEX | BIG_ENDIAN_BYTE_SEX | LITTLE_ENDIAN_BYTE_SEX

text \<open>The enumerators have the values 0, 1 and 2 in declaration order.\<close>

fun byte_sex_value :: "byte_sex \<Rightarrow> u32" where
  "byte_sex_value UNKNOWN_BYTE_SEX = 0"
| "byte_sex_value BIG_ENDIAN_BYTE_SEX = 1"
| "byte_sex_value LITTLE_ENDIAN_BYTE_SEX = 2"

definition byte_sex_of_char :: "u8 \<Rightarrow> byte_sex" where
  "byte_sex_of_char c =
     (if c = 1 then BIG_ENDIAN_BYTE_SEX
      else if c = 2 then LITTLE_ENDIAN_BYTE_SEX else UNKNOWN_BYTE_SEX)"

text \<open>
  \<open>get_host_byte_sex\<close> stores a word that has the big-endian tag in its top byte and
  the little-endian tag in its bottom byte and reads the first byte of it back.
\<close>

definition get_host_byte_sex :: "endian \<Rightarrow> byte_sex" where
  "get_host_byte_sex e =
     (let s = push_bit 24 (byte_sex_value BIG_ENDIAN_BYTE_SEX) OR
              byte_sex_value LITTLE_ENDIAN_BYTE_SEX
      in byte_sex_of_char (hd (put32 e s)))"

definition SWAP_SHORT :: "u16 \<Rightarrow> u16" where
  "SWAP_SHORT a = push_bit 8 (a AND 0xff) OR drop_bit 8 a"

definition SWAP_INT :: "u32 \<Rightarrow> u32" where
  "SWAP_INT a = push_bit 24 a OR
                (push_bit 8 a AND 0x00ff0000) OR
                (drop_bit 8 a AND 0x0000ff00) OR
                drop_bit 24 a"

text \<open>
  The wider swaps copy the bytes of a union in reverse.  \<open>swap_union64\<close> and
  \<open>swap_union32\<close> are that code on a host of the given byte order;
  the value does not depend on the host (\<open>swap_union64_host\<close>), so the
  primitives are stated for the little-endian one.
\<close>

definition swap_union64 :: "endian \<Rightarrow> u64 \<Rightarrow> u64" where
  "swap_union64 e ll =
     (let c = put64 e ll
      in get64 e [c ! 7, c ! 6, c ! 5, c ! 4, c ! 3, c ! 2, c ! 1, c ! 0] 0)"

definition swap_union32 :: "endian \<Rightarrow> u32 \<Rightarrow> u32" where
  "swap_union32 e f = (let c = put32 e f in get32 e [c ! 3, c ! 2, c ! 1, c ! 0] 0)"

definition SWAP_LONG_LONG :: "u64 \<Rightarrow> u64" where
  "SWAP_LONG_LONG ll = swap_union64 Little ll"

text \<open>A \<open>double\<close> or \<open>float\<close> is modelled by its bit pattern.\<close>

definition SWAP_DOUBLE :: "u64 \<Rightarrow> u64" where
  "SWAP_DOUBLE d = swap_union64 Little d"

definition SWAP_FLOAT :: "u32 \<Rightarrow> u32" where
  "SWAP_FLOAT f = swap_union32 Little f"

section \<open>Swapping reverses the bytes\<close>

lemma get_host_byte_sex_Little [simp]: "get_host_byte_sex Little = LITTLE_ENDIAN_BYTE_SEX"
  by code_simp

lemma get_host_byte_sex_Big [simp]: "get_host_byte_sex Big = BIG_ENDIAN_BYTE_SEX"
  by code_simp

lemma byte_masks:
  "(0x00ff0000 :: u32) = push_bit 16 (mask 8)"
  "(0x0000ff00 :: u32) = push_bit 8 (mask 8)"
  "(0xff :: u16) = mask 8"
  by (simp_all add: mask_eq_exp_minus_1 push_bit_eq_mult)

lemma bytes_of_2: "bytes_of 2 w = [ucast w, ucast (drop_bit 8 w)]"
  by (simp add: bytes_of_def upt_rec)

lemma bytes_of_4:
  "bytes_of 4 w = [ucast w, ucast (drop_bit 8 w), ucast (drop_bit 16 w), ucast (drop_bit 24 w)]"
  by (simp add: bytes_of_def upt_rec)

lemma bytes_of_SWAP_SHORT: "bytes_of 2 (SWAP_SHORT a) = rev (bytes_of 2 a)"
proof -
  have "ucast (SWAP_SHORT a) = (ucast (drop_bit 8 a) :: u8)"
    unfolding SWAP_SHORT_def byte_masks by (rule bit_word_eqI) (auto simp: bit_simps)
  moreover have "ucast (drop_bit 8 (SWAP_SHORT a)) = (ucast a :: u8)"
    unfolding SWAP_SHORT_def byte_masks
    by (rule bit_word_eqI) (auto simp: bit_simps dest: bit_imp_le_length)
  ultimately show ?thesis by (simp add: bytes_of_2)
qed

lemma bytes_of_SWAP_INT: "bytes_of 4 (SWAP_INT a) = rev (bytes_of 4 a)"
proof -
  have "ucast (SWAP_INT a) = (ucast (drop_bit 24 a) :: u8)"
    unfolding SWAP_INT_def byte_masks by (rule bit_word_eqI) (auto simp: bit_simps)
  moreover have "ucast (drop_bit 8 (SWAP_INT a)) = (ucast (drop_bit 16 a) :: u8)"
    unfolding SWAP_INT_def byte_masks
    by (rule bit_word_eqI) (auto simp: bit_simps dest: bit_imp_le_length)
  moreover have "ucast (drop_bit 16 (SWAP_INT a)) = (ucast (drop_bit 8 a) :: u8)"
    unfolding SWAP_INT_def byte_masks
    by (rule bit_word_eqI) (auto simp: bit_simps dest: bit_imp_le_length)
  moreover have "ucast (drop_bit 24 (SWAP_INT a)) = (ucast a :: u8)"
    unfolding SWAP_INT_def byte_masks
    by (rule bit_word_eqI) (auto simp: bit_simps dest: bit_imp_le_length)
  ultimately show ?thesis by (simp add: bytes_of_4)
qed

lemma SWAP_SHORT_of_bytes:
  assumes "length bs = 2" shows "SWAP_SHORT (of_bytes bs) = of_bytes (rev bs)"
proof -
  have "SWAP_SHORT (of_bytes bs) = of_bytes (bytes_of 2 (SWAP_SHORT (of_bytes bs)))"
    by (simp add: of_bytes_of)
  also have "\<dots> = of_bytes (rev bs)"
    using assms by (simp add: bytes_of_SWAP_SHORT bytes_of_of_bytes)
  finally show ?thesis .
qed

lemma SWAP_INT_of_bytes:
  assumes "length bs = 4" shows "SWAP_INT (of_bytes bs) = of_bytes (rev bs)"
proof -
  have "SWAP_INT (of_bytes bs) = of_bytes (bytes_of 4 (SWAP_INT (of_bytes bs)))"
    by (simp add: of_bytes_of)
  also have "\<dots> = of_bytes (rev bs)"
    using assms by (simp add: bytes_of_SWAP_INT bytes_of_of_bytes)
  finally show ?thesis .
qed

lemma rev_nth8: "length c = 8 \<Longrightarrow> [c ! 7, c ! 6, c ! 5, c ! 4, c ! 3, c ! 2, c ! 1, c ! 0] = rev c"
  by (rule nth_equalityI) (auto simp: rev_nth less_Suc_eq numeral_eq_Suc)

lemma rev_nth4: "length c = 4 \<Longrightarrow> [c ! 3, c ! 2, c ! 1, c ! 0] = rev c"
  by (rule nth_equalityI) (auto simp: rev_nth less_Suc_eq numeral_eq_Suc)

lemma order_rev: "order e (rev bs) = rev (order e bs)"
  by (cases e) auto

lemma swap_union64_host: "swap_union64 e ll = of_bytes (rev (bytes_of 8 ll))"
  by (simp add: swap_union64_def Let_def rev_nth8 get64_def put64_def order_rev del: One_nat_def)

lemma swap_union32_host: "swap_union32 e f = of_bytes (rev (bytes_of 4 f))"
  by (simp add: swap_union32_def Let_def rev_nth4 get32_def put32_def order_rev del: One_nat_def)

lemma SWAP_LONG_LONG_of_bytes:
  "length bs = 8 \<Longrightarrow> SWAP_LONG_LONG (of_bytes bs) = of_bytes (rev bs)"
  by (simp add: SWAP_LONG_LONG_def swap_union64_host bytes_of_of_bytes)

lemma SWAP_DOUBLE_eq [byte_simps]: "SWAP_DOUBLE = SWAP_LONG_LONG"
  by (simp add: fun_eq_iff SWAP_DOUBLE_def SWAP_LONG_LONG_def)

lemma SWAP_SHORT_SHORT [simp]: "SWAP_SHORT (SWAP_SHORT a) = a"
proof -
  have a: "a = of_bytes (bytes_of 2 a)" by (simp add: of_bytes_of)
  show ?thesis by (subst a, subst (2) a) (simp add: SWAP_SHORT_of_bytes)
qed

lemma SWAP_INT_INT [simp]: "SWAP_INT (SWAP_INT a) = a"
proof -
  have a: "a = of_bytes (bytes_of 4 a)" by (simp add: of_bytes_of)
  show ?thesis by (subst a, subst (2) a) (simp add: SWAP_INT_of_bytes)
qed

lemma SWAP_LONG_LONG_LONG [simp]: "SWAP_LONG_LONG (SWAP_LONG_LONG a) = a"
proof -
  have a: "a = of_bytes (bytes_of 8 a)" by (simp add: of_bytes_of)
  show ?thesis by (subst a, subst (2) a) (simp add: SWAP_LONG_LONG_of_bytes)
qed

lemma SWAP_FLOAT_eq: "SWAP_FLOAT = SWAP_INT"
proof
  fix f :: u32
  have f: "f = of_bytes (bytes_of 4 f)" by (simp add: of_bytes_of)
  have "SWAP_INT f = of_bytes (rev (bytes_of 4 f))"
    by (subst f) (simp add: SWAP_INT_of_bytes)
  then show "SWAP_FLOAT f = SWAP_INT f"
    by (simp add: SWAP_FLOAT_def swap_union32_host)
qed

text \<open>A load by a host of the other byte order is the swap of the host's own load.\<close>

lemma get_flip [byte_simps]:
  "p + 2 \<le> length m \<Longrightarrow> get16 (flip e) m p = SWAP_SHORT (get16 e m p)"
  "p + 4 \<le> length m \<Longrightarrow> get32 (flip e) m p = SWAP_INT (get32 e m p)"
  "p + 8 \<le> length m \<Longrightarrow> get64 (flip e) m p = SWAP_LONG_LONG (get64 e m p)"
  by (simp_all add: get16_def get32_def get64_def order_flip SWAP_SHORT_of_bytes
      SWAP_INT_of_bytes SWAP_LONG_LONG_of_bytes)

lemma get32s_flip [byte_simps]:
  "p + 4 * n \<le> length m \<Longrightarrow> get32s (flip e) m p n = map SWAP_INT (get32s e m p n)"
  by (auto simp: get32s_def get_flip)

lemma get64s_flip [byte_simps]:
  "p + 8 * n \<le> length m \<Longrightarrow> get64s (flip e) m p n = map SWAP_LONG_LONG (get64s e m p n)"
  by (auto simp: get64s_def get_flip)

lemma map_SWAP_SWAP [simp]:
  "map (SWAP_INT \<circ> SWAP_INT) ws = ws" "map (SWAP_LONG_LONG \<circ> SWAP_LONG_LONG) vs = vs"
  by (simp_all add: comp_def)

section \<open>Structures in a buffer\<close>

text \<open>
  \<open>struct_layout\<close> is the contract of a structure of \<open>sz\<close> bytes: \<open>load\<close> gives the
  fields that a host of byte order \<open>e\<close> reads, \<open>store\<close> the bytes it writes; storing
  what was loaded gives the same bytes back, so the fields cover every byte.
\<close>

locale struct_layout =
  fixes sz :: nat
    and load :: "endian \<Rightarrow> bytes \<Rightarrow> 'a"
    and store :: "endian \<Rightarrow> 'a \<Rightarrow> bytes"
  assumes store_load: "length m = sz \<Longrightarrow> store e (load e m) = m"
    and length_store: "length m = sz \<Longrightarrow> length (store e (load e' m)) = sz"
    and load_store: "length m = sz \<Longrightarrow> load e (store e (load e' m)) = load e' m"
begin

lemma load_inj: "length m = sz \<Longrightarrow> length m' = sz \<Longrightarrow> load e m = load e m' \<longleftrightarrow> m = m'"
  by (metis store_load)

end

text \<open>
  \<open>struct_codec\<close> adds the contract of the structure's swap routine.
\<close>

locale struct_codec = struct_layout +
  fixes swap :: "'a \<Rightarrow> 'a"
  assumes load_flip: "length m = sz \<Longrightarrow> load (flip e) m = swap (load e m)"
    and swap_swap: "swap (swap x) = x"

text \<open>Swapping a structure in place: load it, run the swap routine on it, store it.\<close>

definition inplace :: "(endian \<Rightarrow> bytes \<Rightarrow> 'a) \<Rightarrow> (endian \<Rightarrow> 'a \<Rightarrow> bytes) \<Rightarrow> ('a \<Rightarrow> 'a) \<Rightarrow>
    endian \<Rightarrow> bytes \<Rightarrow> bytes" where
  "inplace load store swap e m = store e (swap (load e m))"

text \<open>An array of \<open>n\<close> structures of \<open>sz\<close> bytes each.\<close>

definition load_array :: "nat \<Rightarrow> (endian \<Rightarrow> bytes \<Rightarrow> 'a) \<Rightarrow> nat \<Rightarrow> endian \<Rightarrow> bytes \<Rightarrow> 'a list" where
  "load_array sz load n e m = map (\<lambda>i. load e (subbytes (i * sz) sz m)) [0..<n]"

definition store_array :: "(endian \<Rightarrow> 'a \<Rightarrow> bytes) \<Rightarrow> endian \<Rightarrow> 'a list \<Rightarrow> bytes" where
  "store_array store e xs = concat (map (store e) xs)"

text \<open>A routine \<open>swap n\<close> that loops over an array, run on the bytes of the array.\<close>

definition swap_array :: "nat \<Rightarrow> (endian \<Rightarrow> bytes \<Rightarrow> 'a) \<Rightarrow> (endian \<Rightarrow> 'a \<Rightarrow> bytes) \<Rightarrow>
    (u32 \<Rightarrow> 'a list \<Rightarrow> 'a list) \<Rightarrow> u32 \<Rightarrow> endian \<Rightarrow> bytes \<Rightarrow> bytes" where
  "swap_array sz load store swap n e b =
     store_array store e (swap n (load_array sz load (unat n) e b))"

lemma load_array_Suc:
  "load_array sz load (Suc n) e m =
     load e (subbytes 0 sz m) # load_array sz load n e (drop sz m)"
proof -
  have *: "[0..<Suc n] = 0 # map Suc [0..<n]"
    by (simp add: map_Suc_upt upt_conv_Cons del: upt_Suc)
  show ?thesis by (simp add: load_array_def * subbytes_def comp_def add.commute del: upt_Suc)
qed

lemma length_load_array [simp]: "length (load_array sz load n e m) = n"
  by (simp add: load_array_def)

lemma load_array_0 [simp]: "load_array sz load 0 e m = []"
  by (simp add: load_array_def)

context struct_layout
begin

lemma store_load_array:
  "length m = n * sz \<Longrightarrow> store_array store e (load_array sz load n e m) = m"
proof (induction n arbitrary: m)
  case 0
  then show ?case by (simp add: store_array_def)
next
  case (Suc n)
  then have "store_array store e (load_array sz load n e (drop sz m)) = drop sz m" by simp
  moreover have "store e (load e (subbytes 0 sz m)) = subbytes 0 sz m"
    using Suc.prems by (intro store_load) simp
  ultimately show ?case
    by (simp add: load_array_Suc store_array_def subbytes_def)
qed

lemma length_store_array:
  "length m = n * sz \<Longrightarrow> length (store_array store e (load_array sz load n e' m)) = n * sz"
proof (induction n arbitrary: m)
  case 0
  then show ?case by (simp add: store_array_def)
next
  case (Suc n)
  then have "length (store_array store e (load_array sz load n e' (drop sz m))) = n * sz" by simp
  moreover have "length (store e (load e' (subbytes 0 sz m))) = sz"
    using Suc.prems by (intro length_store) simp
  ultimately show ?case by (simp add: load_array_Suc store_array_def)
qed

lemma load_store_array:
  "length m = n * sz \<Longrightarrow>
     load_array sz load n e (store_array store e (load_array sz load n e' m)) =
     load_array sz load n e' m"
proof (induction n arbitrary: m)
  case 0
  then show ?case by simp
next
  case (Suc n)
  let ?hd = "store e (load e' (subbytes 0 sz m))"
  let ?tl = "store_array store e (load_array sz load n e' (drop sz m))"
  have hd: "length ?hd = sz" "load e ?hd = load e' (subbytes 0 sz m)"
    using Suc.prems by (auto intro!: length_store load_store)
  have "store_array store e (load_array sz load (Suc n) e' m) = ?hd @ ?tl"
    by (simp add: load_array_Suc store_array_def)
  moreover have "load_array sz load n e ?tl = load_array sz load n e' (drop sz m)"
    using Suc by simp
  ultimately show ?case
    using hd by (simp add: load_array_Suc subbytes_def)
qed

lemma array_layout: "struct_layout (n * sz) (load_array sz load n) (store_array store)"
  by unfold_locales (simp_all add: store_load_array length_store_array load_store_array)

end

context struct_codec
begin

lemma load_array_flip:
  "length m = n * sz \<Longrightarrow> load_array sz load n (flip e) m = map swap (load_array sz load n e m)"
proof (induction n arbitrary: m)
  case 0
  then show ?case by simp
next
  case (Suc n)
  then show ?case by (simp add: load_array_Suc load_flip)
qed

lemma array_codec:
  "struct_codec (n * sz) (load_array sz load n) (store_array store) (map swap)"
  by (intro struct_codec.intro struct_codec_axioms.intro array_layout)
     (simp_all add: load_array_flip swap_swap map_idI)

lemma length_inplace: "length m = sz \<Longrightarrow> length (inplace load store swap e m) = sz"
  by (metis inplace_def load_flip length_store)

text \<open>The other host reads from the swapped buffer what this host read before.\<close>

lemma inplace_load:
  "length m = sz \<Longrightarrow> load (flip e) (inplace load store swap e m) = load e m"
  by (metis inplace_def length_store load_flip load_store swap_swap)

lemma inplace_inplace:
  "length m = sz \<Longrightarrow> inplace load store swap e (inplace load store swap e m) = m"
  by (metis inplace_def length_inplace load_flip load_store store_load swap_swap)

text \<open>The other host reads from a swapped array what this host read before.\<close>

lemma swap_array_read:
  assumes "\<And>xs. swap_n n xs = map swap (take (unat n) xs) @ drop (unat n) xs"
    and "length b = unat n * sz"
  shows "load_array sz load (unat n) (flip e) (swap_array sz load store swap_n n e b) =
         load_array sz load (unat n) e b"
proof -
  have "swap_array sz load store swap_n n e b =
      inplace (load_array sz load (unat n)) (store_array store) (map swap) e b"
    by (simp add: swap_array_def inplace_def assms(1))
  then show ?thesis using struct_codec.inplace_load [OF array_codec assms(2)] by simp
qed

end

text \<open>
  A buffer with a structure at some offset: \<open>modify_at\<close> runs an in-place operation on
  \<open>n\<close> bytes at offset \<open>p\<close>.  An access that is not inside the buffer, which in C is
  undefined behaviour, has no result.
\<close>

definition modify_at :: "nat \<Rightarrow> nat \<Rightarrow> (bytes \<Rightarrow> bytes) \<Rightarrow> bytes \<Rightarrow> bytes option" where
  "modify_at p n f m =
     (if p + n \<le> length m then Some (take p m @ f (subbytes p n m) @ drop (p + n) m) else None)"

end
