(* ===== verification/Macho_Tables.thy ===== *)
theory Macho_Tables
  imports Byte_Swap
begin

text \<open>
  The tables a Mach-O file or an archive refers to (symbols, tables of contents,
  module tables, data-in-code entries), as records with their layout and the
  routines of \<open>libstuff/bytesex.c\<close> that swap them, in the form of theory
  \<open>Macho_Headers\<close>.  Entries with bit fields are in theory \<open>Macho_Bitfields\<close>.
\<close>

section \<open>Symbol tables and archive tables of contents\<close>

record nlist =
  n_n_strx :: u32
  n_n_type :: u8
  n_n_sect :: u8
  n_n_desc :: u16
  n_n_value :: u32

definition sizeof_nlist :: nat where
  "sizeof_nlist = 12"

definition load_nlist :: "endian \<Rightarrow> bytes \<Rightarrow> nlist" where
  "load_nlist e m =
     \<lparr>n_n_strx = get32 e m 0, n_n_type = get8 m 4, n_n_sect = get8 m 5, n_n_desc = get16 e m 6,
      n_n_value = get32 e m 8\<rparr>"

definition store_nlist :: "endian \<Rightarrow> nlist \<Rightarrow> bytes" where
  "store_nlist e x =
     put32 e (n_n_strx x) @ put8 (n_n_type x) @ put8 (n_n_sect x) @ put16 e (n_n_desc x) @
     put32 e (n_n_value x)"

definition swap_nlist_entry :: "nlist \<Rightarrow> nlist" where
  "swap_nlist_entry x = x
     \<lparr>n_n_strx := SWAP_INT (n_n_strx x), n_n_desc := SWAP_SHORT (n_n_desc x),
      n_n_value := SWAP_INT (n_n_value x)\<rparr>"

definition swap_nlist :: "u32 \<Rightarrow> nlist list \<Rightarrow> nlist list" where
  "swap_nlist nsymbols xs =
     map swap_nlist_entry (take (unat nsymbols) xs) @ drop (unat nsymbols) xs"

lemmas nlist_defs =
  sizeof_nlist_def load_nlist_def store_nlist_def swap_nlist_entry_def

interpretation nlist: struct_codec
    sizeof_nlist load_nlist store_nlist swap_nlist_entry
  by unfold_locales (simp_all add: nlist_defs byte_simps)


record nlist_64 =
  n64_n_strx :: u32
  n64_n_type :: u8
  n64_n_sect :: u8
  n64_n_desc :: u16
  n64_n_value :: u64

definition sizeof_nlist_64 :: nat where
  "sizeof_nlist_64 = 16"

definition load_nlist_64 :: "endian \<Rightarrow> bytes \<Rightarrow> nlist_64" where
  "load_nlist_64 e m =
     \<lparr>n64_n_strx = get32 e m 0, n64_n_type = get8 m 4, n64_n_sect = get8 m 5,
      n64_n_desc = get16 e m 6, n64_n_value = get64 e m 8\<rparr>"

definition store_nlist_64 :: "endian \<Rightarrow> nlist_64 \<Rightarrow> bytes" where
  "store_nlist_64 e x =
     put32 e (n64_n_strx x) @ put8 (n64_n_type x) @ put8 (n64_n_sect x) @
     put16 e (n64_n_desc x) @ put64 e (n64_n_value x)"

definition swap_nlist_64_entry :: "nlist_64 \<Rightarrow> nlist_64" where
  "swap_nlist_64_entry x = x
     \<lparr>n64_n_strx := SWAP_INT (n64_n_strx x), n64_n_desc := SWAP_SHORT (n64_n_desc x),
      n64_n_value := SWAP_LONG_LONG (n64_n_value x)\<rparr>"

definition swap_nlist_64 :: "u32 \<Rightarrow> nlist_64 list \<Rightarrow> nlist_64 list" where
  "swap_nlist_64 nsymbols xs =
     map swap_nlist_64_entry (take (unat nsymbols) xs) @ drop (unat nsymbols) xs"

lemmas nlist_64_defs =
  sizeof_nlist_64_def load_nlist_64_def store_nlist_64_def swap_nlist_64_entry_def

interpretation nlist_64: struct_codec
    sizeof_nlist_64 load_nlist_64 store_nlist_64 swap_nlist_64_entry
  by unfold_locales (simp_all add: nlist_64_defs byte_simps)


record ranlib =
  ran_ran_strx :: u32
  ran_ran_off :: u32

definition sizeof_ranlib :: nat where
  "sizeof_ranlib = 8"

definition load_ranlib :: "endian \<Rightarrow> bytes \<Rightarrow> ranlib" where
  "load_ranlib e m =
     \<lparr>ran_ran_strx = get32 e m 0, ran_ran_off = get32 e m 4\<rparr>"

definition store_ranlib :: "endian \<Rightarrow> ranlib \<Rightarrow> bytes" where
  "store_ranlib e x =
     put32 e (ran_ran_strx x) @ put32 e (ran_ran_off x)"

definition swap_ranlib_entry :: "ranlib \<Rightarrow> ranlib" where
  "swap_ranlib_entry x = x
     \<lparr>ran_ran_strx := SWAP_INT (ran_ran_strx x), ran_ran_off := SWAP_INT (ran_ran_off x)\<rparr>"

definition swap_ranlib :: "u32 \<Rightarrow> ranlib list \<Rightarrow> ranlib list" where
  "swap_ranlib nranlibs xs =
     map swap_ranlib_entry (take (unat nranlibs) xs) @ drop (unat nranlibs) xs"

lemmas ranlib_defs =
  sizeof_ranlib_def load_ranlib_def store_ranlib_def swap_ranlib_entry_def

interpretation ranlib: struct_codec
    sizeof_ranlib load_ranlib store_ranlib swap_ranlib_entry
  by unfold_locales (simp_all add: ranlib_defs byte_simps)


record ranlib_64 =
  ran64_ran_strx :: u64
  ran64_ran_off :: u64

definition sizeof_ranlib_64 :: nat where
  "sizeof_ranlib_64 = 16"

definition load_ranlib_64 :: "endian \<Rightarrow> bytes \<Rightarrow> ranlib_64" where
  "load_ranlib_64 e m =
     \<lparr>ran64_ran_strx = get64 e m 0, ran64_ran_off = get64 e m 8\<rparr>"

definition store_ranlib_64 :: "endian \<Rightarrow> ranlib_64 \<Rightarrow> bytes" where
  "store_ranlib_64 e x =
     put64 e (ran64_ran_strx x) @ put64 e (ran64_ran_off x)"

definition swap_ranlib_64_entry :: "ranlib_64 \<Rightarrow> ranlib_64" where
  "swap_ranlib_64_entry x = x
     \<lparr>ran64_ran_strx := SWAP_LONG_LONG (ran64_ran_strx x),
      ran64_ran_off := SWAP_LONG_LONG (ran64_ran_off x)\<rparr>"

definition swap_ranlib_64 :: "u64 \<Rightarrow> ranlib_64 list \<Rightarrow> ranlib_64 list" where
  "swap_ranlib_64 nranlibs xs =
     map swap_ranlib_64_entry (take (unat nranlibs) xs) @ drop (unat nranlibs) xs"

lemmas ranlib_64_defs =
  sizeof_ranlib_64_def load_ranlib_64_def store_ranlib_64_def swap_ranlib_64_entry_def

interpretation ranlib_64: struct_codec
    sizeof_ranlib_64 load_ranlib_64 store_ranlib_64 swap_ranlib_64_entry
  by unfold_locales (simp_all add: ranlib_64_defs byte_simps)


section \<open>Dynamic library tables\<close>

record dylib_module =
  mod_module_name :: u32
  mod_iextdefsym :: u32
  mod_nextdefsym :: u32
  mod_irefsym :: u32
  mod_nrefsym :: u32
  mod_ilocalsym :: u32
  mod_nlocalsym :: u32
  mod_iextrel :: u32
  mod_nextrel :: u32
  mod_iinit_iterm :: u32
  mod_ninit_nterm :: u32
  mod_objc_module_info_addr :: u32
  mod_objc_module_info_size :: u32

definition sizeof_dylib_module :: nat where
  "sizeof_dylib_module = 52"

definition load_dylib_module :: "endian \<Rightarrow> bytes \<Rightarrow> dylib_module" where
  "load_dylib_module e m =
     \<lparr>mod_module_name = get32 e m 0, mod_iextdefsym = get32 e m 4, mod_nextdefsym = get32 e m 8,
      mod_irefsym = get32 e m 12, mod_nrefsym = get32 e m 16, mod_ilocalsym = get32 e m 20,
      mod_nlocalsym = get32 e m 24, mod_iextrel = get32 e m 28, mod_nextrel = get32 e m 32,
      mod_iinit_iterm = get32 e m 36, mod_ninit_nterm = get32 e m 40,
      mod_objc_module_info_addr = get32 e m 44, mod_objc_module_info_size = get32 e m 48\<rparr>"

definition store_dylib_module :: "endian \<Rightarrow> dylib_module \<Rightarrow> bytes" where
  "store_dylib_module e x =
     put32 e (mod_module_name x) @ put32 e (mod_iextdefsym x) @ put32 e (mod_nextdefsym x) @
     put32 e (mod_irefsym x) @ put32 e (mod_nrefsym x) @ put32 e (mod_ilocalsym x) @
     put32 e (mod_nlocalsym x) @ put32 e (mod_iextrel x) @ put32 e (mod_nextrel x) @
     put32 e (mod_iinit_iterm x) @ put32 e (mod_ninit_nterm x) @
     put32 e (mod_objc_module_info_addr x) @ put32 e (mod_objc_module_info_size x)"

definition swap_dylib_module_entry :: "dylib_module \<Rightarrow> dylib_module" where
  "swap_dylib_module_entry x = x
     \<lparr>mod_module_name := SWAP_INT (mod_module_name x),
      mod_iextdefsym := SWAP_INT (mod_iextdefsym x),
      mod_nextdefsym := SWAP_INT (mod_nextdefsym x), mod_irefsym := SWAP_INT (mod_irefsym x),
      mod_nrefsym := SWAP_INT (mod_nrefsym x), mod_ilocalsym := SWAP_INT (mod_ilocalsym x),
      mod_nlocalsym := SWAP_INT (mod_nlocalsym x), mod_iextrel := SWAP_INT (mod_iextrel x),
      mod_nextrel := SWAP_INT (mod_nextrel x), mod_iinit_iterm := SWAP_INT (mod_iinit_iterm x),
      mod_ninit_nterm := SWAP_INT (mod_ninit_nterm x),
      mod_objc_module_info_addr := SWAP_INT (mod_objc_module_info_addr x),
      mod_objc_module_info_size := SWAP_INT (mod_objc_module_info_size x)\<rparr>"

definition swap_dylib_module :: "u32 \<Rightarrow> dylib_module list \<Rightarrow> dylib_module list" where
  "swap_dylib_module nmods xs =
     map swap_dylib_module_entry (take (unat nmods) xs) @ drop (unat nmods) xs"

lemmas dylib_module_defs =
  sizeof_dylib_module_def load_dylib_module_def store_dylib_module_def swap_dylib_module_entry_def

interpretation dylib_module: struct_codec
    sizeof_dylib_module load_dylib_module store_dylib_module swap_dylib_module_entry
  by unfold_locales (simp_all add: dylib_module_defs byte_simps)


record dylib_module_64 =
  mod64_module_name :: u32
  mod64_iextdefsym :: u32
  mod64_nextdefsym :: u32
  mod64_irefsym :: u32
  mod64_nrefsym :: u32
  mod64_ilocalsym :: u32
  mod64_nlocalsym :: u32
  mod64_iextrel :: u32
  mod64_nextrel :: u32
  mod64_iinit_iterm :: u32
  mod64_ninit_nterm :: u32
  mod64_objc_module_info_size :: u32
  mod64_objc_module_info_addr :: u64

definition sizeof_dylib_module_64 :: nat where
  "sizeof_dylib_module_64 = 56"

definition load_dylib_module_64 :: "endian \<Rightarrow> bytes \<Rightarrow> dylib_module_64" where
  "load_dylib_module_64 e m =
     \<lparr>mod64_module_name = get32 e m 0, mod64_iextdefsym = get32 e m 4,
      mod64_nextdefsym = get32 e m 8, mod64_irefsym = get32 e m 12,
      mod64_nrefsym = get32 e m 16, mod64_ilocalsym = get32 e m 20,
      mod64_nlocalsym = get32 e m 24, mod64_iextrel = get32 e m 28,
      mod64_nextrel = get32 e m 32, mod64_iinit_iterm = get32 e m 36,
      mod64_ninit_nterm = get32 e m 40, mod64_objc_module_info_size = get32 e m 44,
      mod64_objc_module_info_addr = get64 e m 48\<rparr>"

definition store_dylib_module_64 :: "endian \<Rightarrow> dylib_module_64 \<Rightarrow> bytes" where
  "store_dylib_module_64 e x =
     put32 e (mod64_module_name x) @ put32 e (mod64_iextdefsym x) @
     put32 e (mod64_nextdefsym x) @ put32 e (mod64_irefsym x) @ put32 e (mod64_nrefsym x) @
     put32 e (mod64_ilocalsym x) @ put32 e (mod64_nlocalsym x) @ put32 e (mod64_iextrel x) @
     put32 e (mod64_nextrel x) @ put32 e (mod64_iinit_iterm x) @ put32 e (mod64_ninit_nterm x) @
     put32 e (mod64_objc_module_info_size x) @ put64 e (mod64_objc_module_info_addr x)"

definition swap_dylib_module_64_entry :: "dylib_module_64 \<Rightarrow> dylib_module_64" where
  "swap_dylib_module_64_entry x = x
     \<lparr>mod64_module_name := SWAP_INT (mod64_module_name x),
      mod64_iextdefsym := SWAP_INT (mod64_iextdefsym x),
      mod64_nextdefsym := SWAP_INT (mod64_nextdefsym x),
      mod64_irefsym := SWAP_INT (mod64_irefsym x), mod64_nrefsym := SWAP_INT (mod64_nrefsym x),
      mod64_ilocalsym := SWAP_INT (mod64_ilocalsym x),
      mod64_nlocalsym := SWAP_INT (mod64_nlocalsym x),
      mod64_iextrel := SWAP_INT (mod64_iextrel x), mod64_nextrel := SWAP_INT (mod64_nextrel x),
      mod64_iinit_iterm := SWAP_INT (mod64_iinit_iterm x),
      mod64_ninit_nterm := SWAP_INT (mod64_ninit_nterm x),
      mod64_objc_module_info_addr := SWAP_LONG_LONG (mod64_objc_module_info_addr x),
      mod64_objc_module_info_size := SWAP_INT (mod64_objc_module_info_size x)\<rparr>"

definition swap_dylib_module_64 :: "u32 \<Rightarrow> dylib_module_64 list \<Rightarrow> dylib_module_64 list" where
  "swap_dylib_module_64 nmods xs =
     map swap_dylib_module_64_entry (take (unat nmods) xs) @ drop (unat nmods) xs"

lemmas dylib_module_64_defs =
  sizeof_dylib_module_64_def load_dylib_module_64_def store_dylib_module_64_def swap_dylib_module_64_entry_def

interpretation dylib_module_64: struct_codec
    sizeof_dylib_module_64 load_dylib_module_64 store_dylib_module_64 swap_dylib_module_64_entry
  by unfold_locales (simp_all add: dylib_module_64_defs byte_simps)


record dylib_table_of_contents =
  toc_symbol_index :: u32
  toc_module_index :: u32

definition sizeof_dylib_table_of_contents :: nat where
  "sizeof_dylib_table_of_contents = 8"

definition load_dylib_table_of_contents :: "endian \<Rightarrow> bytes \<Rightarrow> dylib_table_of_contents" where
  "load_dylib_table_of_contents e m =
     \<lparr>toc_symbol_index = get32 e m 0, toc_module_index = get32 e m 4\<rparr>"

definition store_dylib_table_of_contents :: "endian \<Rightarrow> dylib_table_of_contents \<Rightarrow> bytes" where
  "store_dylib_table_of_contents e x =
     put32 e (toc_symbol_index x) @ put32 e (toc_module_index x)"

definition swap_dylib_table_of_contents_entry :: "dylib_table_of_contents \<Rightarrow> dylib_table_of_contents" where
  "swap_dylib_table_of_contents_entry x = x
     \<lparr>toc_symbol_index := SWAP_INT (toc_symbol_index x),
      toc_module_index := SWAP_INT (toc_module_index x)\<rparr>"

definition swap_dylib_table_of_contents :: "u32 \<Rightarrow> dylib_table_of_contents list \<Rightarrow> dylib_table_of_contents list" where
  "swap_dylib_table_of_contents ntocs xs =
     map swap_dylib_table_of_contents_entry (take (unat ntocs) xs) @ drop (unat ntocs) xs"

lemmas dylib_table_of_contents_defs =
  sizeof_dylib_table_of_contents_def load_dylib_table_of_contents_def store_dylib_table_of_contents_def swap_dylib_table_of_contents_entry_def

interpretation dylib_table_of_contents: struct_codec
    sizeof_dylib_table_of_contents load_dylib_table_of_contents store_dylib_table_of_contents swap_dylib_table_of_contents_entry
  by unfold_locales (simp_all add: dylib_table_of_contents_defs byte_simps)


section \<open>Data in code\<close>

text \<open>
  The 16-bit fields go through the 32-bit macro: the argument is promoted and the
  result truncated.  This structure has a layout but not the swap contract.
\<close>

record data_in_code_entry =
  dice_offset :: u32
  dice_length :: u16
  dice_kind :: u16

definition sizeof_data_in_code_entry :: nat where
  "sizeof_data_in_code_entry = 8"

definition load_data_in_code_entry :: "endian \<Rightarrow> bytes \<Rightarrow> data_in_code_entry" where
  "load_data_in_code_entry e m =
     \<lparr>dice_offset = get32 e m 0, dice_length = get16 e m 4, dice_kind = get16 e m 6\<rparr>"

definition store_data_in_code_entry :: "endian \<Rightarrow> data_in_code_entry \<Rightarrow> bytes" where
  "store_data_in_code_entry e x =
     put32 e (dice_offset x) @ put16 e (dice_length x) @ put16 e (dice_kind x)"

definition swap_data_in_code_entry_entry :: "data_in_code_entry \<Rightarrow> data_in_code_entry" where
  "swap_data_in_code_entry_entry x = x
     \<lparr>dice_offset := SWAP_INT (dice_offset x),
      dice_length := ucast (SWAP_INT (ucast (dice_length x))),
      dice_kind := ucast (SWAP_INT (ucast (dice_kind x)))\<rparr>"

definition swap_data_in_code_entry :: "u32 \<Rightarrow> data_in_code_entry list \<Rightarrow> data_in_code_entry list" where
  "swap_data_in_code_entry ndices xs =
     map swap_data_in_code_entry_entry (take (unat ndices) xs) @ drop (unat ndices) xs"

lemmas data_in_code_entry_defs =
  sizeof_data_in_code_entry_def load_data_in_code_entry_def store_data_in_code_entry_def swap_data_in_code_entry_entry_def

interpretation data_in_code_entry: struct_layout
    sizeof_data_in_code_entry load_data_in_code_entry store_data_in_code_entry
  by unfold_locales (simp_all add: data_in_code_entry_defs byte_simps)


section \<open>Archives of other tools\<close>

record xar_header =
  xar_magic :: u32
  xar_size :: u16
  xar_version :: u16
  xar_toc_length_compressed :: u64
  xar_toc_length_uncompressed :: u64
  xar_cksum_alg :: u32

definition sizeof_xar_header :: nat where
  "sizeof_xar_header = 28"

definition load_xar_header :: "endian \<Rightarrow> bytes \<Rightarrow> xar_header" where
  "load_xar_header e m =
     \<lparr>xar_magic = get32 e m 0, xar_size = get16 e m 4, xar_version = get16 e m 6,
      xar_toc_length_compressed = get64 e m 8, xar_toc_length_uncompressed = get64 e m 16,
      xar_cksum_alg = get32 e m 24\<rparr>"

definition store_xar_header :: "endian \<Rightarrow> xar_header \<Rightarrow> bytes" where
  "store_xar_header e x =
     put32 e (xar_magic x) @ put16 e (xar_size x) @ put16 e (xar_version x) @
     put64 e (xar_toc_length_compressed x) @ put64 e (xar_toc_length_uncompressed x) @
     put32 e (xar_cksum_alg x)"

definition swap_xar_header :: "xar_header \<Rightarrow> xar_header" where
  "swap_xar_header x = x
     \<lparr>xar_magic := SWAP_INT (xar_magic x), xar_size := SWAP_SHORT (xar_size x),
      xar_version := SWAP_SHORT (xar_version x),
      xar_toc_length_compressed := SWAP_LONG_LONG (xar_toc_length_compressed x),
      xar_toc_length_uncompressed := SWAP_LONG_LONG (xar_toc_length_uncompressed x),
      xar_cksum_alg := SWAP_INT (xar_cksum_alg x)\<rparr>"

lemmas xar_header_defs =
  sizeof_xar_header_def load_xar_header_def store_xar_header_def swap_xar_header_def

interpretation xar_header: struct_codec
    sizeof_xar_header load_xar_header store_xar_header swap_xar_header
  by unfold_locales (simp_all add: xar_header_defs byte_simps)


end
