(* ===== verification/Outcomes.thy ===== *)
theory Outcomes
  imports Cctools_Prelude
begin

text \<open>
  The outcome of code that can fail: a value, an error that the code reports (and with
  which a tool ends), or \<open>Fault\<close>, an access outside a buffer, which C leaves undefined.
\<close>

datatype ('err, 'a) result = Ok 'a | Error 'err | Fault

fun bind :: "('err, 'a) result \<Rightarrow> ('a \<Rightarrow> ('err, 'b) result) \<Rightarrow> ('err, 'b) result" where
  "bind (Ok x) f = f x"
| "bind (Error err) f = Error err"
| "bind Fault f = Fault"

definition guard :: "bool \<Rightarrow> 'err \<Rightarrow> ('err, unit) result" where
  "guard ok err = (if ok then Ok () else Error err)"

definition within :: "bool \<Rightarrow> 'a \<Rightarrow> ('err, 'a) result" where
  "within inside x = (if inside then Ok x else Fault)"

definition read_u32 :: "endian \<Rightarrow> bytes \<Rightarrow> nat \<Rightarrow> ('err, u32) result" where
  "read_u32 e m p = (if p + 4 \<le> length m then Ok (get32 e m p) else Fault)"

text \<open>The \<open>n\<close> bytes at \<open>p\<close>, as \<open>memcpy\<close> and a structure assignment read them.\<close>

definition read_bytes :: "bytes \<Rightarrow> nat \<Rightarrow> nat \<Rightarrow> ('err, bytes) result" where
  "read_bytes m p n = (if p + n \<le> length m then Ok (subbytes p n m) else Fault)"

lemma bind_cong:
  "x = x' \<Longrightarrow> (\<And>y. x' = Ok y \<Longrightarrow> f y = f' y) \<Longrightarrow> bind x f = bind x' f'"
  by (cases x') auto

lemma bind_eq_Ok: "bind x f = Ok y \<longleftrightarrow> (\<exists>z. x = Ok z \<and> f z = Ok y)"
  by (cases x) auto

lemma bind_eq_Fault: "bind x f = Fault \<longleftrightarrow> x = Fault \<or> (\<exists>z. x = Ok z \<and> f z = Fault)"
  by (cases x) auto

lemma bind_eq_Error:
  "bind x f = Error err \<longleftrightarrow> x = Error err \<or> (\<exists>z. x = Ok z \<and> f z = Error err)"
  by (cases x) auto

lemmas bind_iffs = bind_eq_Ok bind_eq_Fault bind_eq_Error

lemma guard_iffs [simp]:
  "guard b err = Ok u \<longleftrightarrow> b" "guard b err \<noteq> Fault" "guard b err = Error err' \<longleftrightarrow> \<not> b \<and> err' = err"
  by (auto simp: guard_def)

lemma within_eq_Ok [simp]: "within b x = Ok y \<longleftrightarrow> b \<and> x = y"
  by (simp add: within_def)

lemma read_bytes_eq_Ok [simp]:
  "read_bytes m p n = Ok b \<longleftrightarrow> p + n \<le> length m \<and> b = subbytes p n m"
  by (auto simp: read_bytes_def)

end
