(* ===== verification/Macho_Constants.thy ===== *)
theory Macho_Constants
  imports Cctools_Prelude
begin

text \<open>
  Constants of \<open>include/mach-o/loader.h\<close> and \<open>include/mach/machine.h\<close>: the load commands,
  the CPU types and the magic numbers of the mach headers.
\<close>

abbreviation LC_SEGMENT :: u32 where "LC_SEGMENT \<equiv> 0x1"
abbreviation LC_SYMTAB :: u32 where "LC_SYMTAB \<equiv> 0x2"
abbreviation LC_SYMSEG :: u32 where "LC_SYMSEG \<equiv> 0x3"
abbreviation LC_THREAD :: u32 where "LC_THREAD \<equiv> 0x4"
abbreviation LC_UNIXTHREAD :: u32 where "LC_UNIXTHREAD \<equiv> 0x5"
abbreviation LC_LOADFVMLIB :: u32 where "LC_LOADFVMLIB \<equiv> 0x6"
abbreviation LC_IDFVMLIB :: u32 where "LC_IDFVMLIB \<equiv> 0x7"
abbreviation LC_IDENT :: u32 where "LC_IDENT \<equiv> 0x8"
abbreviation LC_DYSYMTAB :: u32 where "LC_DYSYMTAB \<equiv> 0xb"
abbreviation LC_LOAD_DYLIB :: u32 where "LC_LOAD_DYLIB \<equiv> 0xc"
abbreviation LC_ID_DYLIB :: u32 where "LC_ID_DYLIB \<equiv> 0xd"
abbreviation LC_LOAD_DYLINKER :: u32 where "LC_LOAD_DYLINKER \<equiv> 0xe"
abbreviation LC_ID_DYLINKER :: u32 where "LC_ID_DYLINKER \<equiv> 0xf"
abbreviation LC_PREBOUND_DYLIB :: u32 where "LC_PREBOUND_DYLIB \<equiv> 0x10"
abbreviation LC_ROUTINES :: u32 where "LC_ROUTINES \<equiv> 0x11"
abbreviation LC_SUB_FRAMEWORK :: u32 where "LC_SUB_FRAMEWORK \<equiv> 0x12"
abbreviation LC_SUB_UMBRELLA :: u32 where "LC_SUB_UMBRELLA \<equiv> 0x13"
abbreviation LC_SUB_CLIENT :: u32 where "LC_SUB_CLIENT \<equiv> 0x14"
abbreviation LC_SUB_LIBRARY :: u32 where "LC_SUB_LIBRARY \<equiv> 0x15"
abbreviation LC_TWOLEVEL_HINTS :: u32 where "LC_TWOLEVEL_HINTS \<equiv> 0x16"
abbreviation LC_PREBIND_CKSUM :: u32 where "LC_PREBIND_CKSUM \<equiv> 0x17"
abbreviation LC_LOAD_WEAK_DYLIB :: u32 where "LC_LOAD_WEAK_DYLIB \<equiv> 0x80000018"
abbreviation LC_SEGMENT_64 :: u32 where "LC_SEGMENT_64 \<equiv> 0x19"
abbreviation LC_ROUTINES_64 :: u32 where "LC_ROUTINES_64 \<equiv> 0x1a"
abbreviation LC_UUID :: u32 where "LC_UUID \<equiv> 0x1b"
abbreviation LC_RPATH :: u32 where "LC_RPATH \<equiv> 0x8000001c"
abbreviation LC_CODE_SIGNATURE :: u32 where "LC_CODE_SIGNATURE \<equiv> 0x1d"
abbreviation LC_SEGMENT_SPLIT_INFO :: u32 where "LC_SEGMENT_SPLIT_INFO \<equiv> 0x1e"
abbreviation LC_REEXPORT_DYLIB :: u32 where "LC_REEXPORT_DYLIB \<equiv> 0x8000001f"
abbreviation LC_LAZY_LOAD_DYLIB :: u32 where "LC_LAZY_LOAD_DYLIB \<equiv> 0x20"
abbreviation LC_ENCRYPTION_INFO :: u32 where "LC_ENCRYPTION_INFO \<equiv> 0x21"
abbreviation LC_DYLD_INFO :: u32 where "LC_DYLD_INFO \<equiv> 0x22"
abbreviation LC_DYLD_INFO_ONLY :: u32 where "LC_DYLD_INFO_ONLY \<equiv> 0x80000022"
abbreviation LC_LOAD_UPWARD_DYLIB :: u32 where "LC_LOAD_UPWARD_DYLIB \<equiv> 0x80000023"
abbreviation LC_VERSION_MIN_MACOSX :: u32 where "LC_VERSION_MIN_MACOSX \<equiv> 0x24"
abbreviation LC_VERSION_MIN_IPHONEOS :: u32 where "LC_VERSION_MIN_IPHONEOS \<equiv> 0x25"
abbreviation LC_FUNCTION_STARTS :: u32 where "LC_FUNCTION_STARTS \<equiv> 0x26"
abbreviation LC_DYLD_ENVIRONMENT :: u32 where "LC_DYLD_ENVIRONMENT \<equiv> 0x27"
abbreviation LC_MAIN :: u32 where "LC_MAIN \<equiv> 0x80000028"
abbreviation LC_DATA_IN_CODE :: u32 where "LC_DATA_IN_CODE \<equiv> 0x29"
abbreviation LC_SOURCE_VERSION :: u32 where "LC_SOURCE_VERSION \<equiv> 0x2a"
abbreviation LC_DYLIB_CODE_SIGN_DRS :: u32 where "LC_DYLIB_CODE_SIGN_DRS \<equiv> 0x2b"
abbreviation LC_ENCRYPTION_INFO_64 :: u32 where "LC_ENCRYPTION_INFO_64 \<equiv> 0x2c"
abbreviation LC_LINKER_OPTION :: u32 where "LC_LINKER_OPTION \<equiv> 0x2d"
abbreviation LC_LINKER_OPTIMIZATION_HINT :: u32 where "LC_LINKER_OPTIMIZATION_HINT \<equiv> 0x2e"
abbreviation LC_VERSION_MIN_TVOS :: u32 where "LC_VERSION_MIN_TVOS \<equiv> 0x2f"
abbreviation LC_VERSION_MIN_WATCHOS :: u32 where "LC_VERSION_MIN_WATCHOS \<equiv> 0x30"
abbreviation LC_NOTE :: u32 where "LC_NOTE \<equiv> 0x31"
abbreviation LC_BUILD_VERSION :: u32 where "LC_BUILD_VERSION \<equiv> 0x32"
abbreviation LC_DYLD_EXPORTS_TRIE :: u32 where "LC_DYLD_EXPORTS_TRIE \<equiv> 0x80000033"
abbreviation LC_DYLD_CHAINED_FIXUPS :: u32 where "LC_DYLD_CHAINED_FIXUPS \<equiv> 0x80000034"
abbreviation LC_ATOM_INFO :: u32 where "LC_ATOM_INFO \<equiv> 0x36"

abbreviation CPU_TYPE_MC680x0 :: u32 where "CPU_TYPE_MC680x0 \<equiv> 6"
abbreviation CPU_TYPE_I386 :: u32 where "CPU_TYPE_I386 \<equiv> 7"
abbreviation CPU_TYPE_HPPA :: u32 where "CPU_TYPE_HPPA \<equiv> 11"
abbreviation CPU_TYPE_ARM :: u32 where "CPU_TYPE_ARM \<equiv> 12"
abbreviation CPU_TYPE_MC88000 :: u32 where "CPU_TYPE_MC88000 \<equiv> 13"
abbreviation CPU_TYPE_SPARC :: u32 where "CPU_TYPE_SPARC \<equiv> 14"
abbreviation CPU_TYPE_I860 :: u32 where "CPU_TYPE_I860 \<equiv> 15"
abbreviation CPU_TYPE_POWERPC :: u32 where "CPU_TYPE_POWERPC \<equiv> 18"
abbreviation CPU_TYPE_VEO :: u32 where "CPU_TYPE_VEO \<equiv> 255"
abbreviation CPU_TYPE_X86_64 :: u32 where "CPU_TYPE_X86_64 \<equiv> 0x1000007"
abbreviation CPU_TYPE_ARM64 :: u32 where "CPU_TYPE_ARM64 \<equiv> 0x100000c"
abbreviation CPU_TYPE_POWERPC64 :: u32 where "CPU_TYPE_POWERPC64 \<equiv> 0x1000012"

abbreviation CPU_TYPE_ANY :: u32 where "CPU_TYPE_ANY \<equiv> 0xffffffff"
abbreviation CPU_TYPE_ARM64_32 :: u32 where "CPU_TYPE_ARM64_32 \<equiv> 0x200000c"

abbreviation CPU_SUBTYPE_MASK :: u32 where "CPU_SUBTYPE_MASK \<equiv> 0xff000000"
abbreviation CPU_SUBTYPE_MULTIPLE :: u32 where "CPU_SUBTYPE_MULTIPLE \<equiv> 0xffffffff"
abbreviation CPU_SUBTYPE_I386_ALL :: u32 where "CPU_SUBTYPE_I386_ALL \<equiv> 0x3"
abbreviation CPU_SUBTYPE_X86_64_ALL :: u32 where "CPU_SUBTYPE_X86_64_ALL \<equiv> 0x3"
abbreviation CPU_SUBTYPE_486 :: u32 where "CPU_SUBTYPE_486 \<equiv> 0x4"
abbreviation CPU_SUBTYPE_486SX :: u32 where "CPU_SUBTYPE_486SX \<equiv> 0x84"
abbreviation CPU_SUBTYPE_586 :: u32 where "CPU_SUBTYPE_586 \<equiv> 0x5"
abbreviation CPU_SUBTYPE_PENT :: u32 where "CPU_SUBTYPE_PENT \<equiv> 0x5"
abbreviation CPU_SUBTYPE_PENTPRO :: u32 where "CPU_SUBTYPE_PENTPRO \<equiv> 0x16"
abbreviation CPU_SUBTYPE_PENTII_M3 :: u32 where "CPU_SUBTYPE_PENTII_M3 \<equiv> 0x36"
abbreviation CPU_SUBTYPE_PENTII_M5 :: u32 where "CPU_SUBTYPE_PENTII_M5 \<equiv> 0x56"
abbreviation CPU_SUBTYPE_PENTIUM_4 :: u32 where "CPU_SUBTYPE_PENTIUM_4 \<equiv> 0xa"
abbreviation CPU_SUBTYPE_X86_64_H :: u32 where "CPU_SUBTYPE_X86_64_H \<equiv> 0x8"
abbreviation CPU_SUBTYPE_MC680x0_ALL :: u32 where "CPU_SUBTYPE_MC680x0_ALL \<equiv> 0x1"
abbreviation CPU_SUBTYPE_MC68030 :: u32 where "CPU_SUBTYPE_MC68030 \<equiv> 0x1"
abbreviation CPU_SUBTYPE_MC68040 :: u32 where "CPU_SUBTYPE_MC68040 \<equiv> 0x2"
abbreviation CPU_SUBTYPE_MC68030_ONLY :: u32 where "CPU_SUBTYPE_MC68030_ONLY \<equiv> 0x3"
abbreviation CPU_SUBTYPE_HPPA_ALL :: u32 where "CPU_SUBTYPE_HPPA_ALL \<equiv> 0x0"
abbreviation CPU_SUBTYPE_HPPA_7100 :: u32 where "CPU_SUBTYPE_HPPA_7100 \<equiv> 0x0"
abbreviation CPU_SUBTYPE_HPPA_7100LC :: u32 where "CPU_SUBTYPE_HPPA_7100LC \<equiv> 0x1"
abbreviation CPU_SUBTYPE_ARM_ALL :: u32 where "CPU_SUBTYPE_ARM_ALL \<equiv> 0x0"
abbreviation CPU_SUBTYPE_ARM_V4T :: u32 where "CPU_SUBTYPE_ARM_V4T \<equiv> 0x5"
abbreviation CPU_SUBTYPE_ARM_V6 :: u32 where "CPU_SUBTYPE_ARM_V6 \<equiv> 0x6"
abbreviation CPU_SUBTYPE_ARM_V5TEJ :: u32 where "CPU_SUBTYPE_ARM_V5TEJ \<equiv> 0x7"
abbreviation CPU_SUBTYPE_ARM_XSCALE :: u32 where "CPU_SUBTYPE_ARM_XSCALE \<equiv> 0x8"
abbreviation CPU_SUBTYPE_ARM_V7 :: u32 where "CPU_SUBTYPE_ARM_V7 \<equiv> 0x9"
abbreviation CPU_SUBTYPE_ARM_V7F :: u32 where "CPU_SUBTYPE_ARM_V7F \<equiv> 0xa"
abbreviation CPU_SUBTYPE_ARM_V7S :: u32 where "CPU_SUBTYPE_ARM_V7S \<equiv> 0xb"
abbreviation CPU_SUBTYPE_ARM_V7K :: u32 where "CPU_SUBTYPE_ARM_V7K \<equiv> 0xc"
abbreviation CPU_SUBTYPE_ARM_V6M :: u32 where "CPU_SUBTYPE_ARM_V6M \<equiv> 0xe"
abbreviation CPU_SUBTYPE_ARM_V7M :: u32 where "CPU_SUBTYPE_ARM_V7M \<equiv> 0xf"
abbreviation CPU_SUBTYPE_ARM_V7EM :: u32 where "CPU_SUBTYPE_ARM_V7EM \<equiv> 0x10"
abbreviation CPU_SUBTYPE_ARM64_ALL :: u32 where "CPU_SUBTYPE_ARM64_ALL \<equiv> 0x0"
abbreviation CPU_SUBTYPE_ARM64_V8 :: u32 where "CPU_SUBTYPE_ARM64_V8 \<equiv> 0x1"
abbreviation CPU_SUBTYPE_ARM64E :: u32 where "CPU_SUBTYPE_ARM64E \<equiv> 0x2"
abbreviation CPU_SUBTYPE_ARM64_32_V8 :: u32 where "CPU_SUBTYPE_ARM64_32_V8 \<equiv> 0x1"
abbreviation CPU_SUBTYPE_MC88000_ALL :: u32 where "CPU_SUBTYPE_MC88000_ALL \<equiv> 0x0"
abbreviation CPU_SUBTYPE_MC88110 :: u32 where "CPU_SUBTYPE_MC88110 \<equiv> 0x2"
abbreviation CPU_SUBTYPE_I860_ALL :: u32 where "CPU_SUBTYPE_I860_ALL \<equiv> 0x0"
abbreviation CPU_SUBTYPE_I860_860 :: u32 where "CPU_SUBTYPE_I860_860 \<equiv> 0x1"
abbreviation CPU_SUBTYPE_LITTLE_ENDIAN :: u32 where "CPU_SUBTYPE_LITTLE_ENDIAN \<equiv> 0x0"
abbreviation CPU_SUBTYPE_BIG_ENDIAN :: u32 where "CPU_SUBTYPE_BIG_ENDIAN \<equiv> 0x1"
abbreviation CPU_SUBTYPE_SPARC_ALL :: u32 where "CPU_SUBTYPE_SPARC_ALL \<equiv> 0x0"
abbreviation CPU_SUBTYPE_POWERPC_ALL :: u32 where "CPU_SUBTYPE_POWERPC_ALL \<equiv> 0x0"
abbreviation CPU_SUBTYPE_POWERPC_601 :: u32 where "CPU_SUBTYPE_POWERPC_601 \<equiv> 0x1"
abbreviation CPU_SUBTYPE_POWERPC_602 :: u32 where "CPU_SUBTYPE_POWERPC_602 \<equiv> 0x2"
abbreviation CPU_SUBTYPE_POWERPC_603 :: u32 where "CPU_SUBTYPE_POWERPC_603 \<equiv> 0x3"
abbreviation CPU_SUBTYPE_POWERPC_603e :: u32 where "CPU_SUBTYPE_POWERPC_603e \<equiv> 0x4"
abbreviation CPU_SUBTYPE_POWERPC_603ev :: u32 where "CPU_SUBTYPE_POWERPC_603ev \<equiv> 0x5"
abbreviation CPU_SUBTYPE_POWERPC_604 :: u32 where "CPU_SUBTYPE_POWERPC_604 \<equiv> 0x6"
abbreviation CPU_SUBTYPE_POWERPC_604e :: u32 where "CPU_SUBTYPE_POWERPC_604e \<equiv> 0x7"
abbreviation CPU_SUBTYPE_POWERPC_620 :: u32 where "CPU_SUBTYPE_POWERPC_620 \<equiv> 0x8"
abbreviation CPU_SUBTYPE_POWERPC_750 :: u32 where "CPU_SUBTYPE_POWERPC_750 \<equiv> 0x9"
abbreviation CPU_SUBTYPE_POWERPC_7400 :: u32 where "CPU_SUBTYPE_POWERPC_7400 \<equiv> 0xa"
abbreviation CPU_SUBTYPE_POWERPC_7450 :: u32 where "CPU_SUBTYPE_POWERPC_7450 \<equiv> 0xb"
abbreviation CPU_SUBTYPE_POWERPC_970 :: u32 where "CPU_SUBTYPE_POWERPC_970 \<equiv> 0x64"
abbreviation CPU_SUBTYPE_VEO_1 :: u32 where "CPU_SUBTYPE_VEO_1 \<equiv> 0x1"
abbreviation CPU_SUBTYPE_VEO_2 :: u32 where "CPU_SUBTYPE_VEO_2 \<equiv> 0x2"
abbreviation CPU_SUBTYPE_VEO_3 :: u32 where "CPU_SUBTYPE_VEO_3 \<equiv> 0x3"
abbreviation CPU_SUBTYPE_VEO_4 :: u32 where "CPU_SUBTYPE_VEO_4 \<equiv> 0x4"
abbreviation CPU_SUBTYPE_VEO_ALL :: u32 where "CPU_SUBTYPE_VEO_ALL \<equiv> 0x2"

abbreviation MH_MAGIC :: u32 where "MH_MAGIC \<equiv> 0xfeedface"
abbreviation MH_MAGIC_64 :: u32 where "MH_MAGIC_64 \<equiv> 0xfeedfacf"

end
