(* ===== verification/Macho_Headers.thy ===== *)
theory Macho_Headers
  imports Byte_Swap
begin

text \<open>
  The headers of fat files and Mach-O files, segments and sections
  (\<open>include/mach-o/fat.h\<close>, \<open>include/mach-o/loader.h\<close>) as records, their layout in a
  buffer, and the routines of \<open>libstuff/bytesex.c\<close> that swap them.  Each structure
  has its size, its \<open>load\<close> and \<open>store\<close>, its swap routine, and an interpretation that
  proves the layout and the swap contract.  A routine that swaps an array has a
  definition for one entry and one for the loop over the array.
\<close>

section \<open>Fat files\<close>

record fat_header =
  fh_magic :: u32
  fh_nfat_arch :: u32

definition sizeof_fat_header :: nat where
  "sizeof_fat_header = 8"

definition load_fat_header :: "endian \<Rightarrow> bytes \<Rightarrow> fat_header" where
  "load_fat_header e m =
     \<lparr>fh_magic = get32 e m 0, fh_nfat_arch = get32 e m 4\<rparr>"

definition store_fat_header :: "endian \<Rightarrow> fat_header \<Rightarrow> bytes" where
  "store_fat_header e x =
     put32 e (fh_magic x) @ put32 e (fh_nfat_arch x)"

definition swap_fat_header :: "fat_header \<Rightarrow> fat_header" where
  "swap_fat_header x = x
     \<lparr>fh_magic := SWAP_INT (fh_magic x), fh_nfat_arch := SWAP_INT (fh_nfat_arch x)\<rparr>"

lemmas fat_header_defs =
  sizeof_fat_header_def load_fat_header_def store_fat_header_def swap_fat_header_def

interpretation fat_header: struct_codec
    sizeof_fat_header load_fat_header store_fat_header swap_fat_header
  by unfold_locales (simp_all add: fat_header_defs byte_simps)


record fat_arch =
  fa_cputype :: u32
  fa_cpusubtype :: u32
  fa_offset :: u32
  fa_size :: u32
  fa_align :: u32

definition sizeof_fat_arch :: nat where
  "sizeof_fat_arch = 20"

definition load_fat_arch :: "endian \<Rightarrow> bytes \<Rightarrow> fat_arch" where
  "load_fat_arch e m =
     \<lparr>fa_cputype = get32 e m 0, fa_cpusubtype = get32 e m 4, fa_offset = get32 e m 8,
      fa_size = get32 e m 12, fa_align = get32 e m 16\<rparr>"

definition store_fat_arch :: "endian \<Rightarrow> fat_arch \<Rightarrow> bytes" where
  "store_fat_arch e x =
     put32 e (fa_cputype x) @ put32 e (fa_cpusubtype x) @ put32 e (fa_offset x) @
     put32 e (fa_size x) @ put32 e (fa_align x)"

definition swap_fat_arch_entry :: "fat_arch \<Rightarrow> fat_arch" where
  "swap_fat_arch_entry x = x
     \<lparr>fa_cputype := SWAP_INT (fa_cputype x), fa_cpusubtype := SWAP_INT (fa_cpusubtype x),
      fa_offset := SWAP_INT (fa_offset x), fa_size := SWAP_INT (fa_size x),
      fa_align := SWAP_INT (fa_align x)\<rparr>"

definition swap_fat_arch :: "u32 \<Rightarrow> fat_arch list \<Rightarrow> fat_arch list" where
  "swap_fat_arch nfat_arch xs =
     map swap_fat_arch_entry (take (unat nfat_arch) xs) @ drop (unat nfat_arch) xs"

lemmas fat_arch_defs =
  sizeof_fat_arch_def load_fat_arch_def store_fat_arch_def swap_fat_arch_entry_def

interpretation fat_arch: struct_codec
    sizeof_fat_arch load_fat_arch store_fat_arch swap_fat_arch_entry
  by unfold_locales (simp_all add: fat_arch_defs byte_simps)


record fat_arch_64 =
  fa64_cputype :: u32
  fa64_cpusubtype :: u32
  fa64_offset :: u64
  fa64_size :: u64
  fa64_align :: u32
  fa64_reserved :: u32

definition sizeof_fat_arch_64 :: nat where
  "sizeof_fat_arch_64 = 32"

definition load_fat_arch_64 :: "endian \<Rightarrow> bytes \<Rightarrow> fat_arch_64" where
  "load_fat_arch_64 e m =
     \<lparr>fa64_cputype = get32 e m 0, fa64_cpusubtype = get32 e m 4, fa64_offset = get64 e m 8,
      fa64_size = get64 e m 16, fa64_align = get32 e m 24, fa64_reserved = get32 e m 28\<rparr>"

definition store_fat_arch_64 :: "endian \<Rightarrow> fat_arch_64 \<Rightarrow> bytes" where
  "store_fat_arch_64 e x =
     put32 e (fa64_cputype x) @ put32 e (fa64_cpusubtype x) @ put64 e (fa64_offset x) @
     put64 e (fa64_size x) @ put32 e (fa64_align x) @ put32 e (fa64_reserved x)"

definition swap_fat_arch_64_entry :: "fat_arch_64 \<Rightarrow> fat_arch_64" where
  "swap_fat_arch_64_entry x = x
     \<lparr>fa64_cputype := SWAP_INT (fa64_cputype x),
      fa64_cpusubtype := SWAP_INT (fa64_cpusubtype x),
      fa64_offset := SWAP_LONG_LONG (fa64_offset x), fa64_size := SWAP_LONG_LONG (fa64_size x),
      fa64_align := SWAP_INT (fa64_align x), fa64_reserved := SWAP_INT (fa64_reserved x)\<rparr>"

definition swap_fat_arch_64 :: "u32 \<Rightarrow> fat_arch_64 list \<Rightarrow> fat_arch_64 list" where
  "swap_fat_arch_64 nfat_arch xs =
     map swap_fat_arch_64_entry (take (unat nfat_arch) xs) @ drop (unat nfat_arch) xs"

lemmas fat_arch_64_defs =
  sizeof_fat_arch_64_def load_fat_arch_64_def store_fat_arch_64_def swap_fat_arch_64_entry_def

interpretation fat_arch_64: struct_codec
    sizeof_fat_arch_64 load_fat_arch_64 store_fat_arch_64 swap_fat_arch_64_entry
  by unfold_locales (simp_all add: fat_arch_64_defs byte_simps)


section \<open>Mach-O headers and load commands\<close>

record mach_header =
  mh_magic :: u32
  mh_cputype :: u32
  mh_cpusubtype :: u32
  mh_filetype :: u32
  mh_ncmds :: u32
  mh_sizeofcmds :: u32
  mh_flags :: u32

definition sizeof_mach_header :: nat where
  "sizeof_mach_header = 28"

definition load_mach_header :: "endian \<Rightarrow> bytes \<Rightarrow> mach_header" where
  "load_mach_header e m =
     \<lparr>mh_magic = get32 e m 0, mh_cputype = get32 e m 4, mh_cpusubtype = get32 e m 8,
      mh_filetype = get32 e m 12, mh_ncmds = get32 e m 16, mh_sizeofcmds = get32 e m 20,
      mh_flags = get32 e m 24\<rparr>"

definition store_mach_header :: "endian \<Rightarrow> mach_header \<Rightarrow> bytes" where
  "store_mach_header e x =
     put32 e (mh_magic x) @ put32 e (mh_cputype x) @ put32 e (mh_cpusubtype x) @
     put32 e (mh_filetype x) @ put32 e (mh_ncmds x) @ put32 e (mh_sizeofcmds x) @
     put32 e (mh_flags x)"

definition swap_mach_header :: "mach_header \<Rightarrow> mach_header" where
  "swap_mach_header x = x
     \<lparr>mh_magic := SWAP_INT (mh_magic x), mh_cputype := SWAP_INT (mh_cputype x),
      mh_cpusubtype := SWAP_INT (mh_cpusubtype x), mh_filetype := SWAP_INT (mh_filetype x),
      mh_ncmds := SWAP_INT (mh_ncmds x), mh_sizeofcmds := SWAP_INT (mh_sizeofcmds x),
      mh_flags := SWAP_INT (mh_flags x)\<rparr>"

lemmas mach_header_defs =
  sizeof_mach_header_def load_mach_header_def store_mach_header_def swap_mach_header_def

interpretation mach_header: struct_codec
    sizeof_mach_header load_mach_header store_mach_header swap_mach_header
  by unfold_locales (simp_all add: mach_header_defs byte_simps)


record mach_header_64 =
  mh64_magic :: u32
  mh64_cputype :: u32
  mh64_cpusubtype :: u32
  mh64_filetype :: u32
  mh64_ncmds :: u32
  mh64_sizeofcmds :: u32
  mh64_flags :: u32
  mh64_reserved :: u32

definition sizeof_mach_header_64 :: nat where
  "sizeof_mach_header_64 = 32"

definition load_mach_header_64 :: "endian \<Rightarrow> bytes \<Rightarrow> mach_header_64" where
  "load_mach_header_64 e m =
     \<lparr>mh64_magic = get32 e m 0, mh64_cputype = get32 e m 4, mh64_cpusubtype = get32 e m 8,
      mh64_filetype = get32 e m 12, mh64_ncmds = get32 e m 16, mh64_sizeofcmds = get32 e m 20,
      mh64_flags = get32 e m 24, mh64_reserved = get32 e m 28\<rparr>"

definition store_mach_header_64 :: "endian \<Rightarrow> mach_header_64 \<Rightarrow> bytes" where
  "store_mach_header_64 e x =
     put32 e (mh64_magic x) @ put32 e (mh64_cputype x) @ put32 e (mh64_cpusubtype x) @
     put32 e (mh64_filetype x) @ put32 e (mh64_ncmds x) @ put32 e (mh64_sizeofcmds x) @
     put32 e (mh64_flags x) @ put32 e (mh64_reserved x)"

definition swap_mach_header_64 :: "mach_header_64 \<Rightarrow> mach_header_64" where
  "swap_mach_header_64 x = x
     \<lparr>mh64_magic := SWAP_INT (mh64_magic x), mh64_cputype := SWAP_INT (mh64_cputype x),
      mh64_cpusubtype := SWAP_INT (mh64_cpusubtype x),
      mh64_filetype := SWAP_INT (mh64_filetype x), mh64_ncmds := SWAP_INT (mh64_ncmds x),
      mh64_sizeofcmds := SWAP_INT (mh64_sizeofcmds x), mh64_flags := SWAP_INT (mh64_flags x),
      mh64_reserved := SWAP_INT (mh64_reserved x)\<rparr>"

lemmas mach_header_64_defs =
  sizeof_mach_header_64_def load_mach_header_64_def store_mach_header_64_def swap_mach_header_64_def

interpretation mach_header_64: struct_codec
    sizeof_mach_header_64 load_mach_header_64 store_mach_header_64 swap_mach_header_64
  by unfold_locales (simp_all add: mach_header_64_defs byte_simps)


record load_command =
  lc_cmd :: u32
  lc_cmdsize :: u32

definition sizeof_load_command :: nat where
  "sizeof_load_command = 8"

definition load_load_command :: "endian \<Rightarrow> bytes \<Rightarrow> load_command" where
  "load_load_command e m =
     \<lparr>lc_cmd = get32 e m 0, lc_cmdsize = get32 e m 4\<rparr>"

definition store_load_command :: "endian \<Rightarrow> load_command \<Rightarrow> bytes" where
  "store_load_command e x =
     put32 e (lc_cmd x) @ put32 e (lc_cmdsize x)"

definition swap_load_command :: "load_command \<Rightarrow> load_command" where
  "swap_load_command x = x
     \<lparr>lc_cmd := SWAP_INT (lc_cmd x), lc_cmdsize := SWAP_INT (lc_cmdsize x)\<rparr>"

lemmas load_command_defs =
  sizeof_load_command_def load_load_command_def store_load_command_def swap_load_command_def

interpretation load_command: struct_codec
    sizeof_load_command load_load_command store_load_command swap_load_command
  by unfold_locales (simp_all add: load_command_defs byte_simps)


section \<open>Segments and sections\<close>

record segment_command =
  sg_cmd :: u32
  sg_cmdsize :: u32
  sg_segname :: bytes
  sg_vmaddr :: u32
  sg_vmsize :: u32
  sg_fileoff :: u32
  sg_filesize :: u32
  sg_maxprot :: u32
  sg_initprot :: u32
  sg_nsects :: u32
  sg_flags :: u32

definition sizeof_segment_command :: nat where
  "sizeof_segment_command = 56"

definition load_segment_command :: "endian \<Rightarrow> bytes \<Rightarrow> segment_command" where
  "load_segment_command e m =
     \<lparr>sg_cmd = get32 e m 0, sg_cmdsize = get32 e m 4, sg_segname = subbytes 8 16 m,
      sg_vmaddr = get32 e m 24, sg_vmsize = get32 e m 28, sg_fileoff = get32 e m 32,
      sg_filesize = get32 e m 36, sg_maxprot = get32 e m 40, sg_initprot = get32 e m 44,
      sg_nsects = get32 e m 48, sg_flags = get32 e m 52\<rparr>"

definition store_segment_command :: "endian \<Rightarrow> segment_command \<Rightarrow> bytes" where
  "store_segment_command e x =
     put32 e (sg_cmd x) @ put32 e (sg_cmdsize x) @ sg_segname x @ put32 e (sg_vmaddr x) @
     put32 e (sg_vmsize x) @ put32 e (sg_fileoff x) @ put32 e (sg_filesize x) @
     put32 e (sg_maxprot x) @ put32 e (sg_initprot x) @ put32 e (sg_nsects x) @
     put32 e (sg_flags x)"

definition swap_segment_command :: "segment_command \<Rightarrow> segment_command" where
  "swap_segment_command x = x
     \<lparr>sg_cmd := SWAP_INT (sg_cmd x), sg_cmdsize := SWAP_INT (sg_cmdsize x),
      sg_vmaddr := SWAP_INT (sg_vmaddr x), sg_vmsize := SWAP_INT (sg_vmsize x),
      sg_fileoff := SWAP_INT (sg_fileoff x), sg_filesize := SWAP_INT (sg_filesize x),
      sg_maxprot := SWAP_INT (sg_maxprot x), sg_initprot := SWAP_INT (sg_initprot x),
      sg_nsects := SWAP_INT (sg_nsects x), sg_flags := SWAP_INT (sg_flags x)\<rparr>"

lemmas segment_command_defs =
  sizeof_segment_command_def load_segment_command_def store_segment_command_def swap_segment_command_def

interpretation segment_command: struct_codec
    sizeof_segment_command load_segment_command store_segment_command swap_segment_command
  by unfold_locales (simp_all add: segment_command_defs byte_simps)


record segment_command_64 =
  sg64_cmd :: u32
  sg64_cmdsize :: u32
  sg64_segname :: bytes
  sg64_vmaddr :: u64
  sg64_vmsize :: u64
  sg64_fileoff :: u64
  sg64_filesize :: u64
  sg64_maxprot :: u32
  sg64_initprot :: u32
  sg64_nsects :: u32
  sg64_flags :: u32

definition sizeof_segment_command_64 :: nat where
  "sizeof_segment_command_64 = 72"

definition load_segment_command_64 :: "endian \<Rightarrow> bytes \<Rightarrow> segment_command_64" where
  "load_segment_command_64 e m =
     \<lparr>sg64_cmd = get32 e m 0, sg64_cmdsize = get32 e m 4, sg64_segname = subbytes 8 16 m,
      sg64_vmaddr = get64 e m 24, sg64_vmsize = get64 e m 32, sg64_fileoff = get64 e m 40,
      sg64_filesize = get64 e m 48, sg64_maxprot = get32 e m 56, sg64_initprot = get32 e m 60,
      sg64_nsects = get32 e m 64, sg64_flags = get32 e m 68\<rparr>"

definition store_segment_command_64 :: "endian \<Rightarrow> segment_command_64 \<Rightarrow> bytes" where
  "store_segment_command_64 e x =
     put32 e (sg64_cmd x) @ put32 e (sg64_cmdsize x) @ sg64_segname x @
     put64 e (sg64_vmaddr x) @ put64 e (sg64_vmsize x) @ put64 e (sg64_fileoff x) @
     put64 e (sg64_filesize x) @ put32 e (sg64_maxprot x) @ put32 e (sg64_initprot x) @
     put32 e (sg64_nsects x) @ put32 e (sg64_flags x)"

definition swap_segment_command_64 :: "segment_command_64 \<Rightarrow> segment_command_64" where
  "swap_segment_command_64 x = x
     \<lparr>sg64_cmd := SWAP_INT (sg64_cmd x), sg64_cmdsize := SWAP_INT (sg64_cmdsize x),
      sg64_vmaddr := SWAP_LONG_LONG (sg64_vmaddr x),
      sg64_vmsize := SWAP_LONG_LONG (sg64_vmsize x),
      sg64_fileoff := SWAP_LONG_LONG (sg64_fileoff x),
      sg64_filesize := SWAP_LONG_LONG (sg64_filesize x),
      sg64_maxprot := SWAP_INT (sg64_maxprot x), sg64_initprot := SWAP_INT (sg64_initprot x),
      sg64_nsects := SWAP_INT (sg64_nsects x), sg64_flags := SWAP_INT (sg64_flags x)\<rparr>"

lemmas segment_command_64_defs =
  sizeof_segment_command_64_def load_segment_command_64_def store_segment_command_64_def swap_segment_command_64_def

interpretation segment_command_64: struct_codec
    sizeof_segment_command_64 load_segment_command_64 store_segment_command_64 swap_segment_command_64
  by unfold_locales (simp_all add: segment_command_64_defs byte_simps)


record section_32 =
  s_sectname :: bytes
  s_segname :: bytes
  s_addr :: u32
  s_size :: u32
  s_offset :: u32
  s_align :: u32
  s_reloff :: u32
  s_nreloc :: u32
  s_flags :: u32
  s_reserved1 :: u32
  s_reserved2 :: u32

definition sizeof_section_32 :: nat where
  "sizeof_section_32 = 68"

definition load_section_32 :: "endian \<Rightarrow> bytes \<Rightarrow> section_32" where
  "load_section_32 e m =
     \<lparr>s_sectname = subbytes 0 16 m, s_segname = subbytes 16 16 m, s_addr = get32 e m 32,
      s_size = get32 e m 36, s_offset = get32 e m 40, s_align = get32 e m 44,
      s_reloff = get32 e m 48, s_nreloc = get32 e m 52, s_flags = get32 e m 56,
      s_reserved1 = get32 e m 60, s_reserved2 = get32 e m 64\<rparr>"

definition store_section_32 :: "endian \<Rightarrow> section_32 \<Rightarrow> bytes" where
  "store_section_32 e x =
     s_sectname x @ s_segname x @ put32 e (s_addr x) @ put32 e (s_size x) @
     put32 e (s_offset x) @ put32 e (s_align x) @ put32 e (s_reloff x) @ put32 e (s_nreloc x) @
     put32 e (s_flags x) @ put32 e (s_reserved1 x) @ put32 e (s_reserved2 x)"

definition swap_section_entry :: "section_32 \<Rightarrow> section_32" where
  "swap_section_entry x = x
     \<lparr>s_addr := SWAP_INT (s_addr x), s_size := SWAP_INT (s_size x),
      s_offset := SWAP_INT (s_offset x), s_align := SWAP_INT (s_align x),
      s_reloff := SWAP_INT (s_reloff x), s_nreloc := SWAP_INT (s_nreloc x),
      s_flags := SWAP_INT (s_flags x), s_reserved1 := SWAP_INT (s_reserved1 x),
      s_reserved2 := SWAP_INT (s_reserved2 x)\<rparr>"

definition swap_section :: "u32 \<Rightarrow> section_32 list \<Rightarrow> section_32 list" where
  "swap_section nsects xs =
     map swap_section_entry (take (unat nsects) xs) @ drop (unat nsects) xs"

lemmas section_32_defs =
  sizeof_section_32_def load_section_32_def store_section_32_def swap_section_entry_def

interpretation section_32: struct_codec
    sizeof_section_32 load_section_32 store_section_32 swap_section_entry
  by unfold_locales (simp_all add: section_32_defs byte_simps)


text \<open>
  The routine for 64-bit sections leaves \<open>reserved3\<close> as it is, so this structure
  has a layout but not the swap contract.
\<close>

record section_64 =
  s64_sectname :: bytes
  s64_segname :: bytes
  s64_addr :: u64
  s64_size :: u64
  s64_offset :: u32
  s64_align :: u32
  s64_reloff :: u32
  s64_nreloc :: u32
  s64_flags :: u32
  s64_reserved1 :: u32
  s64_reserved2 :: u32
  s64_reserved3 :: u32

definition sizeof_section_64 :: nat where
  "sizeof_section_64 = 80"

definition load_section_64 :: "endian \<Rightarrow> bytes \<Rightarrow> section_64" where
  "load_section_64 e m =
     \<lparr>s64_sectname = subbytes 0 16 m, s64_segname = subbytes 16 16 m, s64_addr = get64 e m 32,
      s64_size = get64 e m 40, s64_offset = get32 e m 48, s64_align = get32 e m 52,
      s64_reloff = get32 e m 56, s64_nreloc = get32 e m 60, s64_flags = get32 e m 64,
      s64_reserved1 = get32 e m 68, s64_reserved2 = get32 e m 72, s64_reserved3 = get32 e m 76\<rparr>"

definition store_section_64 :: "endian \<Rightarrow> section_64 \<Rightarrow> bytes" where
  "store_section_64 e x =
     s64_sectname x @ s64_segname x @ put64 e (s64_addr x) @ put64 e (s64_size x) @
     put32 e (s64_offset x) @ put32 e (s64_align x) @ put32 e (s64_reloff x) @
     put32 e (s64_nreloc x) @ put32 e (s64_flags x) @ put32 e (s64_reserved1 x) @
     put32 e (s64_reserved2 x) @ put32 e (s64_reserved3 x)"

definition swap_section_64_entry :: "section_64 \<Rightarrow> section_64" where
  "swap_section_64_entry x = x
     \<lparr>s64_addr := SWAP_LONG_LONG (s64_addr x), s64_size := SWAP_LONG_LONG (s64_size x),
      s64_offset := SWAP_INT (s64_offset x), s64_align := SWAP_INT (s64_align x),
      s64_reloff := SWAP_INT (s64_reloff x), s64_nreloc := SWAP_INT (s64_nreloc x),
      s64_flags := SWAP_INT (s64_flags x), s64_reserved1 := SWAP_INT (s64_reserved1 x),
      s64_reserved2 := SWAP_INT (s64_reserved2 x)\<rparr>"

definition swap_section_64 :: "u32 \<Rightarrow> section_64 list \<Rightarrow> section_64 list" where
  "swap_section_64 nsects xs =
     map swap_section_64_entry (take (unat nsects) xs) @ drop (unat nsects) xs"

lemmas section_64_defs =
  sizeof_section_64_def load_section_64_def store_section_64_def swap_section_64_entry_def

interpretation section_64: struct_layout
    sizeof_section_64 load_section_64 store_section_64
  by unfold_locales (simp_all add: section_64_defs byte_simps)


end
