(* ===== verification/Macho_Commands.thy ===== *)
theory Macho_Commands
  imports Macho_Headers
begin

text \<open>
  The load commands of \<open>include/mach-o/loader.h\<close> and the routines of
  \<open>libstuff/bytesex.c\<close> that swap them, in the form of theory \<open>Macho_Headers\<close>.  A
  \<open>union lc_str\<close> holds the 32-bit offset of the string; a command with a nested
  structure (\<open>fvmlib\<close>, \<open>dylib\<close>) has the fields of that structure in place.
\<close>

record symtab_command =
  st_cmd :: u32
  st_cmdsize :: u32
  st_symoff :: u32
  st_nsyms :: u32
  st_stroff :: u32
  st_strsize :: u32

definition sizeof_symtab_command :: nat where
  "sizeof_symtab_command = 24"

definition load_symtab_command :: "endian \<Rightarrow> bytes \<Rightarrow> symtab_command" where
  "load_symtab_command e m =
     \<lparr>st_cmd = get32 e m 0, st_cmdsize = get32 e m 4, st_symoff = get32 e m 8,
      st_nsyms = get32 e m 12, st_stroff = get32 e m 16, st_strsize = get32 e m 20\<rparr>"

definition store_symtab_command :: "endian \<Rightarrow> symtab_command \<Rightarrow> bytes" where
  "store_symtab_command e x =
     put32 e (st_cmd x) @ put32 e (st_cmdsize x) @ put32 e (st_symoff x) @
     put32 e (st_nsyms x) @ put32 e (st_stroff x) @ put32 e (st_strsize x)"

definition swap_symtab_command :: "symtab_command \<Rightarrow> symtab_command" where
  "swap_symtab_command x = x
     \<lparr>st_cmd := SWAP_INT (st_cmd x), st_cmdsize := SWAP_INT (st_cmdsize x),
      st_symoff := SWAP_INT (st_symoff x), st_nsyms := SWAP_INT (st_nsyms x),
      st_stroff := SWAP_INT (st_stroff x), st_strsize := SWAP_INT (st_strsize x)\<rparr>"

lemmas symtab_command_defs =
  sizeof_symtab_command_def load_symtab_command_def store_symtab_command_def swap_symtab_command_def

interpretation symtab_command: struct_codec
    sizeof_symtab_command load_symtab_command store_symtab_command swap_symtab_command
  by unfold_locales (simp_all add: symtab_command_defs byte_simps)


record dysymtab_command =
  dyst_cmd :: u32
  dyst_cmdsize :: u32
  dyst_ilocalsym :: u32
  dyst_nlocalsym :: u32
  dyst_iextdefsym :: u32
  dyst_nextdefsym :: u32
  dyst_iundefsym :: u32
  dyst_nundefsym :: u32
  dyst_tocoff :: u32
  dyst_ntoc :: u32
  dyst_modtaboff :: u32
  dyst_nmodtab :: u32
  dyst_extrefsymoff :: u32
  dyst_nextrefsyms :: u32
  dyst_indirectsymoff :: u32
  dyst_nindirectsyms :: u32
  dyst_extreloff :: u32
  dyst_nextrel :: u32
  dyst_locreloff :: u32
  dyst_nlocrel :: u32

definition sizeof_dysymtab_command :: nat where
  "sizeof_dysymtab_command = 80"

definition load_dysymtab_command :: "endian \<Rightarrow> bytes \<Rightarrow> dysymtab_command" where
  "load_dysymtab_command e m =
     \<lparr>dyst_cmd = get32 e m 0, dyst_cmdsize = get32 e m 4, dyst_ilocalsym = get32 e m 8,
      dyst_nlocalsym = get32 e m 12, dyst_iextdefsym = get32 e m 16,
      dyst_nextdefsym = get32 e m 20, dyst_iundefsym = get32 e m 24,
      dyst_nundefsym = get32 e m 28, dyst_tocoff = get32 e m 32, dyst_ntoc = get32 e m 36,
      dyst_modtaboff = get32 e m 40, dyst_nmodtab = get32 e m 44,
      dyst_extrefsymoff = get32 e m 48, dyst_nextrefsyms = get32 e m 52,
      dyst_indirectsymoff = get32 e m 56, dyst_nindirectsyms = get32 e m 60,
      dyst_extreloff = get32 e m 64, dyst_nextrel = get32 e m 68, dyst_locreloff = get32 e m 72,
      dyst_nlocrel = get32 e m 76\<rparr>"

definition store_dysymtab_command :: "endian \<Rightarrow> dysymtab_command \<Rightarrow> bytes" where
  "store_dysymtab_command e x =
     put32 e (dyst_cmd x) @ put32 e (dyst_cmdsize x) @ put32 e (dyst_ilocalsym x) @
     put32 e (dyst_nlocalsym x) @ put32 e (dyst_iextdefsym x) @ put32 e (dyst_nextdefsym x) @
     put32 e (dyst_iundefsym x) @ put32 e (dyst_nundefsym x) @ put32 e (dyst_tocoff x) @
     put32 e (dyst_ntoc x) @ put32 e (dyst_modtaboff x) @ put32 e (dyst_nmodtab x) @
     put32 e (dyst_extrefsymoff x) @ put32 e (dyst_nextrefsyms x) @
     put32 e (dyst_indirectsymoff x) @ put32 e (dyst_nindirectsyms x) @
     put32 e (dyst_extreloff x) @ put32 e (dyst_nextrel x) @ put32 e (dyst_locreloff x) @
     put32 e (dyst_nlocrel x)"

definition swap_dysymtab_command :: "dysymtab_command \<Rightarrow> dysymtab_command" where
  "swap_dysymtab_command x = x
     \<lparr>dyst_cmd := SWAP_INT (dyst_cmd x), dyst_cmdsize := SWAP_INT (dyst_cmdsize x),
      dyst_ilocalsym := SWAP_INT (dyst_ilocalsym x),
      dyst_nlocalsym := SWAP_INT (dyst_nlocalsym x),
      dyst_iextdefsym := SWAP_INT (dyst_iextdefsym x),
      dyst_nextdefsym := SWAP_INT (dyst_nextdefsym x),
      dyst_iundefsym := SWAP_INT (dyst_iundefsym x),
      dyst_nundefsym := SWAP_INT (dyst_nundefsym x), dyst_tocoff := SWAP_INT (dyst_tocoff x),
      dyst_ntoc := SWAP_INT (dyst_ntoc x), dyst_modtaboff := SWAP_INT (dyst_modtaboff x),
      dyst_nmodtab := SWAP_INT (dyst_nmodtab x),
      dyst_extrefsymoff := SWAP_INT (dyst_extrefsymoff x),
      dyst_nextrefsyms := SWAP_INT (dyst_nextrefsyms x),
      dyst_indirectsymoff := SWAP_INT (dyst_indirectsymoff x),
      dyst_nindirectsyms := SWAP_INT (dyst_nindirectsyms x),
      dyst_extreloff := SWAP_INT (dyst_extreloff x), dyst_nextrel := SWAP_INT (dyst_nextrel x),
      dyst_locreloff := SWAP_INT (dyst_locreloff x), dyst_nlocrel := SWAP_INT (dyst_nlocrel x)\<rparr>"

lemmas dysymtab_command_defs =
  sizeof_dysymtab_command_def load_dysymtab_command_def store_dysymtab_command_def swap_dysymtab_command_def

interpretation dysymtab_command: struct_codec
    sizeof_dysymtab_command load_dysymtab_command store_dysymtab_command swap_dysymtab_command
  by unfold_locales (simp_all add: dysymtab_command_defs byte_simps)


record symseg_command =
  ss_cmd :: u32
  ss_cmdsize :: u32
  ss_offset :: u32
  ss_size :: u32

definition sizeof_symseg_command :: nat where
  "sizeof_symseg_command = 16"

definition load_symseg_command :: "endian \<Rightarrow> bytes \<Rightarrow> symseg_command" where
  "load_symseg_command e m =
     \<lparr>ss_cmd = get32 e m 0, ss_cmdsize = get32 e m 4, ss_offset = get32 e m 8,
      ss_size = get32 e m 12\<rparr>"

definition store_symseg_command :: "endian \<Rightarrow> symseg_command \<Rightarrow> bytes" where
  "store_symseg_command e x =
     put32 e (ss_cmd x) @ put32 e (ss_cmdsize x) @ put32 e (ss_offset x) @ put32 e (ss_size x)"

definition swap_symseg_command :: "symseg_command \<Rightarrow> symseg_command" where
  "swap_symseg_command x = x
     \<lparr>ss_cmd := SWAP_INT (ss_cmd x), ss_cmdsize := SWAP_INT (ss_cmdsize x),
      ss_offset := SWAP_INT (ss_offset x), ss_size := SWAP_INT (ss_size x)\<rparr>"

lemmas symseg_command_defs =
  sizeof_symseg_command_def load_symseg_command_def store_symseg_command_def swap_symseg_command_def

interpretation symseg_command: struct_codec
    sizeof_symseg_command load_symseg_command store_symseg_command swap_symseg_command
  by unfold_locales (simp_all add: symseg_command_defs byte_simps)


record fvmlib_command =
  fl_cmd :: u32
  fl_cmdsize :: u32
  fl_name :: u32
  fl_minor_version :: u32
  fl_header_addr :: u32

definition sizeof_fvmlib_command :: nat where
  "sizeof_fvmlib_command = 20"

definition load_fvmlib_command :: "endian \<Rightarrow> bytes \<Rightarrow> fvmlib_command" where
  "load_fvmlib_command e m =
     \<lparr>fl_cmd = get32 e m 0, fl_cmdsize = get32 e m 4, fl_name = get32 e m 8,
      fl_minor_version = get32 e m 12, fl_header_addr = get32 e m 16\<rparr>"

definition store_fvmlib_command :: "endian \<Rightarrow> fvmlib_command \<Rightarrow> bytes" where
  "store_fvmlib_command e x =
     put32 e (fl_cmd x) @ put32 e (fl_cmdsize x) @ put32 e (fl_name x) @
     put32 e (fl_minor_version x) @ put32 e (fl_header_addr x)"

definition swap_fvmlib_command :: "fvmlib_command \<Rightarrow> fvmlib_command" where
  "swap_fvmlib_command x = x
     \<lparr>fl_cmd := SWAP_INT (fl_cmd x), fl_cmdsize := SWAP_INT (fl_cmdsize x),
      fl_name := SWAP_INT (fl_name x), fl_minor_version := SWAP_INT (fl_minor_version x),
      fl_header_addr := SWAP_INT (fl_header_addr x)\<rparr>"

lemmas fvmlib_command_defs =
  sizeof_fvmlib_command_def load_fvmlib_command_def store_fvmlib_command_def swap_fvmlib_command_def

interpretation fvmlib_command: struct_codec
    sizeof_fvmlib_command load_fvmlib_command store_fvmlib_command swap_fvmlib_command
  by unfold_locales (simp_all add: fvmlib_command_defs byte_simps)


record dylib_command =
  dl_cmd :: u32
  dl_cmdsize :: u32
  dl_name :: u32
  dl_timestamp :: u32
  dl_current_version :: u32
  dl_compatibility_version :: u32

definition sizeof_dylib_command :: nat where
  "sizeof_dylib_command = 24"

definition load_dylib_command :: "endian \<Rightarrow> bytes \<Rightarrow> dylib_command" where
  "load_dylib_command e m =
     \<lparr>dl_cmd = get32 e m 0, dl_cmdsize = get32 e m 4, dl_name = get32 e m 8,
      dl_timestamp = get32 e m 12, dl_current_version = get32 e m 16,
      dl_compatibility_version = get32 e m 20\<rparr>"

definition store_dylib_command :: "endian \<Rightarrow> dylib_command \<Rightarrow> bytes" where
  "store_dylib_command e x =
     put32 e (dl_cmd x) @ put32 e (dl_cmdsize x) @ put32 e (dl_name x) @
     put32 e (dl_timestamp x) @ put32 e (dl_current_version x) @
     put32 e (dl_compatibility_version x)"

definition swap_dylib_command :: "dylib_command \<Rightarrow> dylib_command" where
  "swap_dylib_command x = x
     \<lparr>dl_cmd := SWAP_INT (dl_cmd x), dl_cmdsize := SWAP_INT (dl_cmdsize x),
      dl_name := SWAP_INT (dl_name x), dl_timestamp := SWAP_INT (dl_timestamp x),
      dl_current_version := SWAP_INT (dl_current_version x),
      dl_compatibility_version := SWAP_INT (dl_compatibility_version x)\<rparr>"

lemmas dylib_command_defs =
  sizeof_dylib_command_def load_dylib_command_def store_dylib_command_def swap_dylib_command_def

interpretation dylib_command: struct_codec
    sizeof_dylib_command load_dylib_command store_dylib_command swap_dylib_command
  by unfold_locales (simp_all add: dylib_command_defs byte_simps)


record sub_framework_command =
  sub_cmd :: u32
  sub_cmdsize :: u32
  sub_umbrella :: u32

definition sizeof_sub_framework_command :: nat where
  "sizeof_sub_framework_command = 12"

definition load_sub_framework_command :: "endian \<Rightarrow> bytes \<Rightarrow> sub_framework_command" where
  "load_sub_framework_command e m =
     \<lparr>sub_cmd = get32 e m 0, sub_cmdsize = get32 e m 4, sub_umbrella = get32 e m 8\<rparr>"

definition store_sub_framework_command :: "endian \<Rightarrow> sub_framework_command \<Rightarrow> bytes" where
  "store_sub_framework_command e x =
     put32 e (sub_cmd x) @ put32 e (sub_cmdsize x) @ put32 e (sub_umbrella x)"

definition swap_sub_framework_command :: "sub_framework_command \<Rightarrow> sub_framework_command" where
  "swap_sub_framework_command x = x
     \<lparr>sub_cmd := SWAP_INT (sub_cmd x), sub_cmdsize := SWAP_INT (sub_cmdsize x),
      sub_umbrella := SWAP_INT (sub_umbrella x)\<rparr>"

lemmas sub_framework_command_defs =
  sizeof_sub_framework_command_def load_sub_framework_command_def store_sub_framework_command_def swap_sub_framework_command_def

interpretation sub_framework_command: struct_codec
    sizeof_sub_framework_command load_sub_framework_command store_sub_framework_command swap_sub_framework_command
  by unfold_locales (simp_all add: sub_framework_command_defs byte_simps)


record sub_umbrella_command =
  usub_cmd :: u32
  usub_cmdsize :: u32
  usub_sub_umbrella :: u32

definition sizeof_sub_umbrella_command :: nat where
  "sizeof_sub_umbrella_command = 12"

definition load_sub_umbrella_command :: "endian \<Rightarrow> bytes \<Rightarrow> sub_umbrella_command" where
  "load_sub_umbrella_command e m =
     \<lparr>usub_cmd = get32 e m 0, usub_cmdsize = get32 e m 4, usub_sub_umbrella = get32 e m 8\<rparr>"

definition store_sub_umbrella_command :: "endian \<Rightarrow> sub_umbrella_command \<Rightarrow> bytes" where
  "store_sub_umbrella_command e x =
     put32 e (usub_cmd x) @ put32 e (usub_cmdsize x) @ put32 e (usub_sub_umbrella x)"

definition swap_sub_umbrella_command :: "sub_umbrella_command \<Rightarrow> sub_umbrella_command" where
  "swap_sub_umbrella_command x = x
     \<lparr>usub_cmd := SWAP_INT (usub_cmd x), usub_cmdsize := SWAP_INT (usub_cmdsize x),
      usub_sub_umbrella := SWAP_INT (usub_sub_umbrella x)\<rparr>"

lemmas sub_umbrella_command_defs =
  sizeof_sub_umbrella_command_def load_sub_umbrella_command_def store_sub_umbrella_command_def swap_sub_umbrella_command_def

interpretation sub_umbrella_command: struct_codec
    sizeof_sub_umbrella_command load_sub_umbrella_command store_sub_umbrella_command swap_sub_umbrella_command
  by unfold_locales (simp_all add: sub_umbrella_command_defs byte_simps)


record sub_library_command =
  lsub_cmd :: u32
  lsub_cmdsize :: u32
  lsub_sub_library :: u32

definition sizeof_sub_library_command :: nat where
  "sizeof_sub_library_command = 12"

definition load_sub_library_command :: "endian \<Rightarrow> bytes \<Rightarrow> sub_library_command" where
  "load_sub_library_command e m =
     \<lparr>lsub_cmd = get32 e m 0, lsub_cmdsize = get32 e m 4, lsub_sub_library = get32 e m 8\<rparr>"

definition store_sub_library_command :: "endian \<Rightarrow> sub_library_command \<Rightarrow> bytes" where
  "store_sub_library_command e x =
     put32 e (lsub_cmd x) @ put32 e (lsub_cmdsize x) @ put32 e (lsub_sub_library x)"

definition swap_sub_library_command :: "sub_library_command \<Rightarrow> sub_library_command" where
  "swap_sub_library_command x = x
     \<lparr>lsub_cmd := SWAP_INT (lsub_cmd x), lsub_cmdsize := SWAP_INT (lsub_cmdsize x),
      lsub_sub_library := SWAP_INT (lsub_sub_library x)\<rparr>"

lemmas sub_library_command_defs =
  sizeof_sub_library_command_def load_sub_library_command_def store_sub_library_command_def swap_sub_library_command_def

interpretation sub_library_command: struct_codec
    sizeof_sub_library_command load_sub_library_command store_sub_library_command swap_sub_library_command
  by unfold_locales (simp_all add: sub_library_command_defs byte_simps)


record sub_client_command =
  csub_cmd :: u32
  csub_cmdsize :: u32
  csub_client :: u32

definition sizeof_sub_client_command :: nat where
  "sizeof_sub_client_command = 12"

definition load_sub_client_command :: "endian \<Rightarrow> bytes \<Rightarrow> sub_client_command" where
  "load_sub_client_command e m =
     \<lparr>csub_cmd = get32 e m 0, csub_cmdsize = get32 e m 4, csub_client = get32 e m 8\<rparr>"

definition store_sub_client_command :: "endian \<Rightarrow> sub_client_command \<Rightarrow> bytes" where
  "store_sub_client_command e x =
     put32 e (csub_cmd x) @ put32 e (csub_cmdsize x) @ put32 e (csub_client x)"

definition swap_sub_client_command :: "sub_client_command \<Rightarrow> sub_client_command" where
  "swap_sub_client_command x = x
     \<lparr>csub_cmd := SWAP_INT (csub_cmd x), csub_cmdsize := SWAP_INT (csub_cmdsize x),
      csub_client := SWAP_INT (csub_client x)\<rparr>"

lemmas sub_client_command_defs =
  sizeof_sub_client_command_def load_sub_client_command_def store_sub_client_command_def swap_sub_client_command_def

interpretation sub_client_command: struct_codec
    sizeof_sub_client_command load_sub_client_command store_sub_client_command swap_sub_client_command
  by unfold_locales (simp_all add: sub_client_command_defs byte_simps)


record prebound_dylib_command =
  pbdylib_cmd :: u32
  pbdylib_cmdsize :: u32
  pbdylib_name :: u32
  pbdylib_nmodules :: u32
  pbdylib_linked_modules :: u32

definition sizeof_prebound_dylib_command :: nat where
  "sizeof_prebound_dylib_command = 20"

definition load_prebound_dylib_command :: "endian \<Rightarrow> bytes \<Rightarrow> prebound_dylib_command" where
  "load_prebound_dylib_command e m =
     \<lparr>pbdylib_cmd = get32 e m 0, pbdylib_cmdsize = get32 e m 4, pbdylib_name = get32 e m 8,
      pbdylib_nmodules = get32 e m 12, pbdylib_linked_modules = get32 e m 16\<rparr>"

definition store_prebound_dylib_command :: "endian \<Rightarrow> prebound_dylib_command \<Rightarrow> bytes" where
  "store_prebound_dylib_command e x =
     put32 e (pbdylib_cmd x) @ put32 e (pbdylib_cmdsize x) @ put32 e (pbdylib_name x) @
     put32 e (pbdylib_nmodules x) @ put32 e (pbdylib_linked_modules x)"

definition swap_prebound_dylib_command :: "prebound_dylib_command \<Rightarrow> prebound_dylib_command" where
  "swap_prebound_dylib_command x = x
     \<lparr>pbdylib_cmd := SWAP_INT (pbdylib_cmd x), pbdylib_cmdsize := SWAP_INT (pbdylib_cmdsize x),
      pbdylib_name := SWAP_INT (pbdylib_name x),
      pbdylib_nmodules := SWAP_INT (pbdylib_nmodules x),
      pbdylib_linked_modules := SWAP_INT (pbdylib_linked_modules x)\<rparr>"

lemmas prebound_dylib_command_defs =
  sizeof_prebound_dylib_command_def load_prebound_dylib_command_def store_prebound_dylib_command_def swap_prebound_dylib_command_def

interpretation prebound_dylib_command: struct_codec
    sizeof_prebound_dylib_command load_prebound_dylib_command store_prebound_dylib_command swap_prebound_dylib_command
  by unfold_locales (simp_all add: prebound_dylib_command_defs byte_simps)


record dylinker_command =
  dyld_cmd :: u32
  dyld_cmdsize :: u32
  dyld_name :: u32

definition sizeof_dylinker_command :: nat where
  "sizeof_dylinker_command = 12"

definition load_dylinker_command :: "endian \<Rightarrow> bytes \<Rightarrow> dylinker_command" where
  "load_dylinker_command e m =
     \<lparr>dyld_cmd = get32 e m 0, dyld_cmdsize = get32 e m 4, dyld_name = get32 e m 8\<rparr>"

definition store_dylinker_command :: "endian \<Rightarrow> dylinker_command \<Rightarrow> bytes" where
  "store_dylinker_command e x =
     put32 e (dyld_cmd x) @ put32 e (dyld_cmdsize x) @ put32 e (dyld_name x)"

definition swap_dylinker_command :: "dylinker_command \<Rightarrow> dylinker_command" where
  "swap_dylinker_command x = x
     \<lparr>dyld_cmd := SWAP_INT (dyld_cmd x), dyld_cmdsize := SWAP_INT (dyld_cmdsize x),
      dyld_name := SWAP_INT (dyld_name x)\<rparr>"

lemmas dylinker_command_defs =
  sizeof_dylinker_command_def load_dylinker_command_def store_dylinker_command_def swap_dylinker_command_def

interpretation dylinker_command: struct_codec
    sizeof_dylinker_command load_dylinker_command store_dylinker_command swap_dylinker_command
  by unfold_locales (simp_all add: dylinker_command_defs byte_simps)


record fvmfile_command =
  ff_cmd :: u32
  ff_cmdsize :: u32
  ff_name :: u32
  ff_header_addr :: u32

definition sizeof_fvmfile_command :: nat where
  "sizeof_fvmfile_command = 16"

definition load_fvmfile_command :: "endian \<Rightarrow> bytes \<Rightarrow> fvmfile_command" where
  "load_fvmfile_command e m =
     \<lparr>ff_cmd = get32 e m 0, ff_cmdsize = get32 e m 4, ff_name = get32 e m 8,
      ff_header_addr = get32 e m 12\<rparr>"

definition store_fvmfile_command :: "endian \<Rightarrow> fvmfile_command \<Rightarrow> bytes" where
  "store_fvmfile_command e x =
     put32 e (ff_cmd x) @ put32 e (ff_cmdsize x) @ put32 e (ff_name x) @
     put32 e (ff_header_addr x)"

definition swap_fvmfile_command :: "fvmfile_command \<Rightarrow> fvmfile_command" where
  "swap_fvmfile_command x = x
     \<lparr>ff_cmd := SWAP_INT (ff_cmd x), ff_cmdsize := SWAP_INT (ff_cmdsize x),
      ff_name := SWAP_INT (ff_name x), ff_header_addr := SWAP_INT (ff_header_addr x)\<rparr>"

lemmas fvmfile_command_defs =
  sizeof_fvmfile_command_def load_fvmfile_command_def store_fvmfile_command_def swap_fvmfile_command_def

interpretation fvmfile_command: struct_codec
    sizeof_fvmfile_command load_fvmfile_command store_fvmfile_command swap_fvmfile_command
  by unfold_locales (simp_all add: fvmfile_command_defs byte_simps)


record thread_command =
  ut_cmd :: u32
  ut_cmdsize :: u32

definition sizeof_thread_command :: nat where
  "sizeof_thread_command = 8"

definition load_thread_command :: "endian \<Rightarrow> bytes \<Rightarrow> thread_command" where
  "load_thread_command e m =
     \<lparr>ut_cmd = get32 e m 0, ut_cmdsize = get32 e m 4\<rparr>"

definition store_thread_command :: "endian \<Rightarrow> thread_command \<Rightarrow> bytes" where
  "store_thread_command e x =
     put32 e (ut_cmd x) @ put32 e (ut_cmdsize x)"

definition swap_thread_command :: "thread_command \<Rightarrow> thread_command" where
  "swap_thread_command x = x
     \<lparr>ut_cmd := SWAP_INT (ut_cmd x), ut_cmdsize := SWAP_INT (ut_cmdsize x)\<rparr>"

lemmas thread_command_defs =
  sizeof_thread_command_def load_thread_command_def store_thread_command_def swap_thread_command_def

interpretation thread_command: struct_codec
    sizeof_thread_command load_thread_command store_thread_command swap_thread_command
  by unfold_locales (simp_all add: thread_command_defs byte_simps)


record ident_command =
  id_cmd :: u32
  id_cmdsize :: u32

definition sizeof_ident_command :: nat where
  "sizeof_ident_command = 8"

definition load_ident_command :: "endian \<Rightarrow> bytes \<Rightarrow> ident_command" where
  "load_ident_command e m =
     \<lparr>id_cmd = get32 e m 0, id_cmdsize = get32 e m 4\<rparr>"

definition store_ident_command :: "endian \<Rightarrow> ident_command \<Rightarrow> bytes" where
  "store_ident_command e x =
     put32 e (id_cmd x) @ put32 e (id_cmdsize x)"

definition swap_ident_command :: "ident_command \<Rightarrow> ident_command" where
  "swap_ident_command x = x
     \<lparr>id_cmd := SWAP_INT (id_cmd x), id_cmdsize := SWAP_INT (id_cmdsize x)\<rparr>"

lemmas ident_command_defs =
  sizeof_ident_command_def load_ident_command_def store_ident_command_def swap_ident_command_def

interpretation ident_command: struct_codec
    sizeof_ident_command load_ident_command store_ident_command swap_ident_command
  by unfold_locales (simp_all add: ident_command_defs byte_simps)


record routines_command =
  rc_cmd :: u32
  rc_cmdsize :: u32
  rc_init_address :: u32
  rc_init_module :: u32
  rc_reserved1 :: u32
  rc_reserved2 :: u32
  rc_reserved3 :: u32
  rc_reserved4 :: u32
  rc_reserved5 :: u32
  rc_reserved6 :: u32

definition sizeof_routines_command :: nat where
  "sizeof_routines_command = 40"

definition load_routines_command :: "endian \<Rightarrow> bytes \<Rightarrow> routines_command" where
  "load_routines_command e m =
     \<lparr>rc_cmd = get32 e m 0, rc_cmdsize = get32 e m 4, rc_init_address = get32 e m 8,
      rc_init_module = get32 e m 12, rc_reserved1 = get32 e m 16, rc_reserved2 = get32 e m 20,
      rc_reserved3 = get32 e m 24, rc_reserved4 = get32 e m 28, rc_reserved5 = get32 e m 32,
      rc_reserved6 = get32 e m 36\<rparr>"

definition store_routines_command :: "endian \<Rightarrow> routines_command \<Rightarrow> bytes" where
  "store_routines_command e x =
     put32 e (rc_cmd x) @ put32 e (rc_cmdsize x) @ put32 e (rc_init_address x) @
     put32 e (rc_init_module x) @ put32 e (rc_reserved1 x) @ put32 e (rc_reserved2 x) @
     put32 e (rc_reserved3 x) @ put32 e (rc_reserved4 x) @ put32 e (rc_reserved5 x) @
     put32 e (rc_reserved6 x)"

definition swap_routines_command :: "routines_command \<Rightarrow> routines_command" where
  "swap_routines_command x = x
     \<lparr>rc_cmd := SWAP_INT (rc_cmd x), rc_cmdsize := SWAP_INT (rc_cmdsize x),
      rc_init_address := SWAP_INT (rc_init_address x),
      rc_init_module := SWAP_INT (rc_init_module x), rc_reserved1 := SWAP_INT (rc_reserved1 x),
      rc_reserved2 := SWAP_INT (rc_reserved2 x), rc_reserved3 := SWAP_INT (rc_reserved3 x),
      rc_reserved4 := SWAP_INT (rc_reserved4 x), rc_reserved5 := SWAP_INT (rc_reserved5 x),
      rc_reserved6 := SWAP_INT (rc_reserved6 x)\<rparr>"

lemmas routines_command_defs =
  sizeof_routines_command_def load_routines_command_def store_routines_command_def swap_routines_command_def

interpretation routines_command: struct_codec
    sizeof_routines_command load_routines_command store_routines_command swap_routines_command
  by unfold_locales (simp_all add: routines_command_defs byte_simps)


record routines_command_64 =
  rc64_cmd :: u32
  rc64_cmdsize :: u32
  rc64_init_address :: u64
  rc64_init_module :: u64
  rc64_reserved1 :: u64
  rc64_reserved2 :: u64
  rc64_reserved3 :: u64
  rc64_reserved4 :: u64
  rc64_reserved5 :: u64
  rc64_reserved6 :: u64

definition sizeof_routines_command_64 :: nat where
  "sizeof_routines_command_64 = 72"

definition load_routines_command_64 :: "endian \<Rightarrow> bytes \<Rightarrow> routines_command_64" where
  "load_routines_command_64 e m =
     \<lparr>rc64_cmd = get32 e m 0, rc64_cmdsize = get32 e m 4, rc64_init_address = get64 e m 8,
      rc64_init_module = get64 e m 16, rc64_reserved1 = get64 e m 24,
      rc64_reserved2 = get64 e m 32, rc64_reserved3 = get64 e m 40,
      rc64_reserved4 = get64 e m 48, rc64_reserved5 = get64 e m 56,
      rc64_reserved6 = get64 e m 64\<rparr>"

definition store_routines_command_64 :: "endian \<Rightarrow> routines_command_64 \<Rightarrow> bytes" where
  "store_routines_command_64 e x =
     put32 e (rc64_cmd x) @ put32 e (rc64_cmdsize x) @ put64 e (rc64_init_address x) @
     put64 e (rc64_init_module x) @ put64 e (rc64_reserved1 x) @ put64 e (rc64_reserved2 x) @
     put64 e (rc64_reserved3 x) @ put64 e (rc64_reserved4 x) @ put64 e (rc64_reserved5 x) @
     put64 e (rc64_reserved6 x)"

definition swap_routines_command_64 :: "routines_command_64 \<Rightarrow> routines_command_64" where
  "swap_routines_command_64 x = x
     \<lparr>rc64_cmd := SWAP_INT (rc64_cmd x), rc64_cmdsize := SWAP_INT (rc64_cmdsize x),
      rc64_init_address := SWAP_LONG_LONG (rc64_init_address x),
      rc64_init_module := SWAP_LONG_LONG (rc64_init_module x),
      rc64_reserved1 := SWAP_LONG_LONG (rc64_reserved1 x),
      rc64_reserved2 := SWAP_LONG_LONG (rc64_reserved2 x),
      rc64_reserved3 := SWAP_LONG_LONG (rc64_reserved3 x),
      rc64_reserved4 := SWAP_LONG_LONG (rc64_reserved4 x),
      rc64_reserved5 := SWAP_LONG_LONG (rc64_reserved5 x),
      rc64_reserved6 := SWAP_LONG_LONG (rc64_reserved6 x)\<rparr>"

lemmas routines_command_64_defs =
  sizeof_routines_command_64_def load_routines_command_64_def store_routines_command_64_def swap_routines_command_64_def

interpretation routines_command_64: struct_codec
    sizeof_routines_command_64 load_routines_command_64 store_routines_command_64 swap_routines_command_64
  by unfold_locales (simp_all add: routines_command_64_defs byte_simps)


record twolevel_hints_command =
  hints_cmd :: u32
  hints_cmdsize :: u32
  hints_offset :: u32
  hints_nhints :: u32

definition sizeof_twolevel_hints_command :: nat where
  "sizeof_twolevel_hints_command = 16"

definition load_twolevel_hints_command :: "endian \<Rightarrow> bytes \<Rightarrow> twolevel_hints_command" where
  "load_twolevel_hints_command e m =
     \<lparr>hints_cmd = get32 e m 0, hints_cmdsize = get32 e m 4, hints_offset = get32 e m 8,
      hints_nhints = get32 e m 12\<rparr>"

definition store_twolevel_hints_command :: "endian \<Rightarrow> twolevel_hints_command \<Rightarrow> bytes" where
  "store_twolevel_hints_command e x =
     put32 e (hints_cmd x) @ put32 e (hints_cmdsize x) @ put32 e (hints_offset x) @
     put32 e (hints_nhints x)"

definition swap_twolevel_hints_command :: "twolevel_hints_command \<Rightarrow> twolevel_hints_command" where
  "swap_twolevel_hints_command x = x
     \<lparr>hints_cmd := SWAP_INT (hints_cmd x), hints_cmdsize := SWAP_INT (hints_cmdsize x),
      hints_offset := SWAP_INT (hints_offset x), hints_nhints := SWAP_INT (hints_nhints x)\<rparr>"

lemmas twolevel_hints_command_defs =
  sizeof_twolevel_hints_command_def load_twolevel_hints_command_def store_twolevel_hints_command_def swap_twolevel_hints_command_def

interpretation twolevel_hints_command: struct_codec
    sizeof_twolevel_hints_command load_twolevel_hints_command store_twolevel_hints_command swap_twolevel_hints_command
  by unfold_locales (simp_all add: twolevel_hints_command_defs byte_simps)


record prebind_cksum_command =
  cs_cmd :: u32
  cs_cmdsize :: u32
  cs_cksum :: u32

definition sizeof_prebind_cksum_command :: nat where
  "sizeof_prebind_cksum_command = 12"

definition load_prebind_cksum_command :: "endian \<Rightarrow> bytes \<Rightarrow> prebind_cksum_command" where
  "load_prebind_cksum_command e m =
     \<lparr>cs_cmd = get32 e m 0, cs_cmdsize = get32 e m 4, cs_cksum = get32 e m 8\<rparr>"

definition store_prebind_cksum_command :: "endian \<Rightarrow> prebind_cksum_command \<Rightarrow> bytes" where
  "store_prebind_cksum_command e x =
     put32 e (cs_cmd x) @ put32 e (cs_cmdsize x) @ put32 e (cs_cksum x)"

definition swap_prebind_cksum_command :: "prebind_cksum_command \<Rightarrow> prebind_cksum_command" where
  "swap_prebind_cksum_command x = x
     \<lparr>cs_cmd := SWAP_INT (cs_cmd x), cs_cmdsize := SWAP_INT (cs_cmdsize x),
      cs_cksum := SWAP_INT (cs_cksum x)\<rparr>"

lemmas prebind_cksum_command_defs =
  sizeof_prebind_cksum_command_def load_prebind_cksum_command_def store_prebind_cksum_command_def swap_prebind_cksum_command_def

interpretation prebind_cksum_command: struct_codec
    sizeof_prebind_cksum_command load_prebind_cksum_command store_prebind_cksum_command swap_prebind_cksum_command
  by unfold_locales (simp_all add: prebind_cksum_command_defs byte_simps)


record uuid_command =
  uuid_cmd :: u32
  uuid_cmdsize :: u32
  uuid_uuid :: bytes

definition sizeof_uuid_command :: nat where
  "sizeof_uuid_command = 24"

definition load_uuid_command :: "endian \<Rightarrow> bytes \<Rightarrow> uuid_command" where
  "load_uuid_command e m =
     \<lparr>uuid_cmd = get32 e m 0, uuid_cmdsize = get32 e m 4, uuid_uuid = subbytes 8 16 m\<rparr>"

definition store_uuid_command :: "endian \<Rightarrow> uuid_command \<Rightarrow> bytes" where
  "store_uuid_command e x =
     put32 e (uuid_cmd x) @ put32 e (uuid_cmdsize x) @ uuid_uuid x"

definition swap_uuid_command :: "uuid_command \<Rightarrow> uuid_command" where
  "swap_uuid_command x = x
     \<lparr>uuid_cmd := SWAP_INT (uuid_cmd x), uuid_cmdsize := SWAP_INT (uuid_cmdsize x)\<rparr>"

lemmas uuid_command_defs =
  sizeof_uuid_command_def load_uuid_command_def store_uuid_command_def swap_uuid_command_def

interpretation uuid_command: struct_codec
    sizeof_uuid_command load_uuid_command store_uuid_command swap_uuid_command
  by unfold_locales (simp_all add: uuid_command_defs byte_simps)


record linkedit_data_command =
  ld_cmd :: u32
  ld_cmdsize :: u32
  ld_dataoff :: u32
  ld_datasize :: u32

definition sizeof_linkedit_data_command :: nat where
  "sizeof_linkedit_data_command = 16"

definition load_linkedit_data_command :: "endian \<Rightarrow> bytes \<Rightarrow> linkedit_data_command" where
  "load_linkedit_data_command e m =
     \<lparr>ld_cmd = get32 e m 0, ld_cmdsize = get32 e m 4, ld_dataoff = get32 e m 8,
      ld_datasize = get32 e m 12\<rparr>"

definition store_linkedit_data_command :: "endian \<Rightarrow> linkedit_data_command \<Rightarrow> bytes" where
  "store_linkedit_data_command e x =
     put32 e (ld_cmd x) @ put32 e (ld_cmdsize x) @ put32 e (ld_dataoff x) @
     put32 e (ld_datasize x)"

definition swap_linkedit_data_command :: "linkedit_data_command \<Rightarrow> linkedit_data_command" where
  "swap_linkedit_data_command x = x
     \<lparr>ld_cmd := SWAP_INT (ld_cmd x), ld_cmdsize := SWAP_INT (ld_cmdsize x),
      ld_dataoff := SWAP_INT (ld_dataoff x), ld_datasize := SWAP_INT (ld_datasize x)\<rparr>"

lemmas linkedit_data_command_defs =
  sizeof_linkedit_data_command_def load_linkedit_data_command_def store_linkedit_data_command_def swap_linkedit_data_command_def

interpretation linkedit_data_command: struct_codec
    sizeof_linkedit_data_command load_linkedit_data_command store_linkedit_data_command swap_linkedit_data_command
  by unfold_locales (simp_all add: linkedit_data_command_defs byte_simps)


text \<open>
  The routine for the minimum-version command leaves \<open>sdk\<close> as it is, so this
  structure has a layout but not the swap contract.
\<close>

record version_min_command =
  vc_cmd :: u32
  vc_cmdsize :: u32
  vc_version :: u32
  vc_sdk :: u32

definition sizeof_version_min_command :: nat where
  "sizeof_version_min_command = 16"

definition load_version_min_command :: "endian \<Rightarrow> bytes \<Rightarrow> version_min_command" where
  "load_version_min_command e m =
     \<lparr>vc_cmd = get32 e m 0, vc_cmdsize = get32 e m 4, vc_version = get32 e m 8,
      vc_sdk = get32 e m 12\<rparr>"

definition store_version_min_command :: "endian \<Rightarrow> version_min_command \<Rightarrow> bytes" where
  "store_version_min_command e x =
     put32 e (vc_cmd x) @ put32 e (vc_cmdsize x) @ put32 e (vc_version x) @ put32 e (vc_sdk x)"

definition swap_version_min_command :: "version_min_command \<Rightarrow> version_min_command" where
  "swap_version_min_command x = x
     \<lparr>vc_cmd := SWAP_INT (vc_cmd x), vc_cmdsize := SWAP_INT (vc_cmdsize x),
      vc_version := SWAP_INT (vc_version x)\<rparr>"

lemmas version_min_command_defs =
  sizeof_version_min_command_def load_version_min_command_def store_version_min_command_def swap_version_min_command_def

interpretation version_min_command: struct_layout
    sizeof_version_min_command load_version_min_command store_version_min_command
  by unfold_locales (simp_all add: version_min_command_defs byte_simps)


record build_version_command =
  bv_cmd :: u32
  bv_cmdsize :: u32
  bv_platform :: u32
  bv_minos :: u32
  bv_sdk :: u32
  bv_ntools :: u32

definition sizeof_build_version_command :: nat where
  "sizeof_build_version_command = 24"

definition load_build_version_command :: "endian \<Rightarrow> bytes \<Rightarrow> build_version_command" where
  "load_build_version_command e m =
     \<lparr>bv_cmd = get32 e m 0, bv_cmdsize = get32 e m 4, bv_platform = get32 e m 8,
      bv_minos = get32 e m 12, bv_sdk = get32 e m 16, bv_ntools = get32 e m 20\<rparr>"

definition store_build_version_command :: "endian \<Rightarrow> build_version_command \<Rightarrow> bytes" where
  "store_build_version_command e x =
     put32 e (bv_cmd x) @ put32 e (bv_cmdsize x) @ put32 e (bv_platform x) @
     put32 e (bv_minos x) @ put32 e (bv_sdk x) @ put32 e (bv_ntools x)"

definition swap_build_version_command :: "build_version_command \<Rightarrow> build_version_command" where
  "swap_build_version_command x = x
     \<lparr>bv_cmd := SWAP_INT (bv_cmd x), bv_cmdsize := SWAP_INT (bv_cmdsize x),
      bv_platform := SWAP_INT (bv_platform x), bv_minos := SWAP_INT (bv_minos x),
      bv_sdk := SWAP_INT (bv_sdk x), bv_ntools := SWAP_INT (bv_ntools x)\<rparr>"

lemmas build_version_command_defs =
  sizeof_build_version_command_def load_build_version_command_def store_build_version_command_def swap_build_version_command_def

interpretation build_version_command: struct_codec
    sizeof_build_version_command load_build_version_command store_build_version_command swap_build_version_command
  by unfold_locales (simp_all add: build_version_command_defs byte_simps)


record build_tool_version =
  btv_tool :: u32
  btv_version :: u32

definition sizeof_build_tool_version :: nat where
  "sizeof_build_tool_version = 8"

definition load_build_tool_version :: "endian \<Rightarrow> bytes \<Rightarrow> build_tool_version" where
  "load_build_tool_version e m =
     \<lparr>btv_tool = get32 e m 0, btv_version = get32 e m 4\<rparr>"

definition store_build_tool_version :: "endian \<Rightarrow> build_tool_version \<Rightarrow> bytes" where
  "store_build_tool_version e x =
     put32 e (btv_tool x) @ put32 e (btv_version x)"

definition swap_build_tool_version_entry :: "build_tool_version \<Rightarrow> build_tool_version" where
  "swap_build_tool_version_entry x = x
     \<lparr>btv_tool := SWAP_INT (btv_tool x), btv_version := SWAP_INT (btv_version x)\<rparr>"

definition swap_build_tool_version :: "u32 \<Rightarrow> build_tool_version list \<Rightarrow> build_tool_version list" where
  "swap_build_tool_version ntools xs =
     map swap_build_tool_version_entry (take (unat ntools) xs) @ drop (unat ntools) xs"

lemmas build_tool_version_defs =
  sizeof_build_tool_version_def load_build_tool_version_def store_build_tool_version_def swap_build_tool_version_entry_def

interpretation build_tool_version: struct_codec
    sizeof_build_tool_version load_build_tool_version store_build_tool_version swap_build_tool_version_entry
  by unfold_locales (simp_all add: build_tool_version_defs byte_simps)


record rpath_command =
  rpath_cmd :: u32
  rpath_cmdsize :: u32
  rpath_path :: u32

definition sizeof_rpath_command :: nat where
  "sizeof_rpath_command = 12"

definition load_rpath_command :: "endian \<Rightarrow> bytes \<Rightarrow> rpath_command" where
  "load_rpath_command e m =
     \<lparr>rpath_cmd = get32 e m 0, rpath_cmdsize = get32 e m 4, rpath_path = get32 e m 8\<rparr>"

definition store_rpath_command :: "endian \<Rightarrow> rpath_command \<Rightarrow> bytes" where
  "store_rpath_command e x =
     put32 e (rpath_cmd x) @ put32 e (rpath_cmdsize x) @ put32 e (rpath_path x)"

definition swap_rpath_command :: "rpath_command \<Rightarrow> rpath_command" where
  "swap_rpath_command x = x
     \<lparr>rpath_cmd := SWAP_INT (rpath_cmd x), rpath_cmdsize := SWAP_INT (rpath_cmdsize x),
      rpath_path := SWAP_INT (rpath_path x)\<rparr>"

lemmas rpath_command_defs =
  sizeof_rpath_command_def load_rpath_command_def store_rpath_command_def swap_rpath_command_def

interpretation rpath_command: struct_codec
    sizeof_rpath_command load_rpath_command store_rpath_command swap_rpath_command
  by unfold_locales (simp_all add: rpath_command_defs byte_simps)


record encryption_info_command =
  ec_cmd :: u32
  ec_cmdsize :: u32
  ec_cryptoff :: u32
  ec_cryptsize :: u32
  ec_cryptid :: u32

definition sizeof_encryption_info_command :: nat where
  "sizeof_encryption_info_command = 20"

definition load_encryption_info_command :: "endian \<Rightarrow> bytes \<Rightarrow> encryption_info_command" where
  "load_encryption_info_command e m =
     \<lparr>ec_cmd = get32 e m 0, ec_cmdsize = get32 e m 4, ec_cryptoff = get32 e m 8,
      ec_cryptsize = get32 e m 12, ec_cryptid = get32 e m 16\<rparr>"

definition store_encryption_info_command :: "endian \<Rightarrow> encryption_info_command \<Rightarrow> bytes" where
  "store_encryption_info_command e x =
     put32 e (ec_cmd x) @ put32 e (ec_cmdsize x) @ put32 e (ec_cryptoff x) @
     put32 e (ec_cryptsize x) @ put32 e (ec_cryptid x)"

definition swap_encryption_command :: "encryption_info_command \<Rightarrow> encryption_info_command" where
  "swap_encryption_command x = x
     \<lparr>ec_cmd := SWAP_INT (ec_cmd x), ec_cmdsize := SWAP_INT (ec_cmdsize x),
      ec_cryptoff := SWAP_INT (ec_cryptoff x), ec_cryptsize := SWAP_INT (ec_cryptsize x),
      ec_cryptid := SWAP_INT (ec_cryptid x)\<rparr>"

lemmas encryption_info_command_defs =
  sizeof_encryption_info_command_def load_encryption_info_command_def store_encryption_info_command_def swap_encryption_command_def

interpretation encryption_info_command: struct_codec
    sizeof_encryption_info_command load_encryption_info_command store_encryption_info_command swap_encryption_command
  by unfold_locales (simp_all add: encryption_info_command_defs byte_simps)


text \<open>
  The 64-bit routine stores the swapped padding into \<open>cryptid\<close>, so this structure has
  a layout but not the swap contract.
\<close>

record encryption_info_command_64 =
  ec64_cmd :: u32
  ec64_cmdsize :: u32
  ec64_cryptoff :: u32
  ec64_cryptsize :: u32
  ec64_cryptid :: u32
  ec64_pad :: u32

definition sizeof_encryption_info_command_64 :: nat where
  "sizeof_encryption_info_command_64 = 24"

definition load_encryption_info_command_64 :: "endian \<Rightarrow> bytes \<Rightarrow> encryption_info_command_64" where
  "load_encryption_info_command_64 e m =
     \<lparr>ec64_cmd = get32 e m 0, ec64_cmdsize = get32 e m 4, ec64_cryptoff = get32 e m 8,
      ec64_cryptsize = get32 e m 12, ec64_cryptid = get32 e m 16, ec64_pad = get32 e m 20\<rparr>"

definition store_encryption_info_command_64 :: "endian \<Rightarrow> encryption_info_command_64 \<Rightarrow> bytes" where
  "store_encryption_info_command_64 e x =
     put32 e (ec64_cmd x) @ put32 e (ec64_cmdsize x) @ put32 e (ec64_cryptoff x) @
     put32 e (ec64_cryptsize x) @ put32 e (ec64_cryptid x) @ put32 e (ec64_pad x)"

definition swap_encryption_command_64 :: "encryption_info_command_64 \<Rightarrow> encryption_info_command_64" where
  "swap_encryption_command_64 x = x
     \<lparr>ec64_cmd := SWAP_INT (ec64_cmd x), ec64_cmdsize := SWAP_INT (ec64_cmdsize x),
      ec64_cryptoff := SWAP_INT (ec64_cryptoff x),
      ec64_cryptsize := SWAP_INT (ec64_cryptsize x), ec64_cryptid := SWAP_INT (ec64_cryptid x)\<rparr>
      \<lparr>ec64_cryptid := SWAP_INT (ec64_pad x)\<rparr>"

lemmas encryption_info_command_64_defs =
  sizeof_encryption_info_command_64_def load_encryption_info_command_64_def store_encryption_info_command_64_def swap_encryption_command_64_def

interpretation encryption_info_command_64: struct_layout
    sizeof_encryption_info_command_64 load_encryption_info_command_64 store_encryption_info_command_64
  by unfold_locales (simp_all add: encryption_info_command_64_defs byte_simps)


record linker_option_command =
  lo_cmd :: u32
  lo_cmdsize :: u32
  lo_count :: u32

definition sizeof_linker_option_command :: nat where
  "sizeof_linker_option_command = 12"

definition load_linker_option_command :: "endian \<Rightarrow> bytes \<Rightarrow> linker_option_command" where
  "load_linker_option_command e m =
     \<lparr>lo_cmd = get32 e m 0, lo_cmdsize = get32 e m 4, lo_count = get32 e m 8\<rparr>"

definition store_linker_option_command :: "endian \<Rightarrow> linker_option_command \<Rightarrow> bytes" where
  "store_linker_option_command e x =
     put32 e (lo_cmd x) @ put32 e (lo_cmdsize x) @ put32 e (lo_count x)"

definition swap_linker_option_command :: "linker_option_command \<Rightarrow> linker_option_command" where
  "swap_linker_option_command x = x
     \<lparr>lo_cmd := SWAP_INT (lo_cmd x), lo_cmdsize := SWAP_INT (lo_cmdsize x),
      lo_count := SWAP_INT (lo_count x)\<rparr>"

lemmas linker_option_command_defs =
  sizeof_linker_option_command_def load_linker_option_command_def store_linker_option_command_def swap_linker_option_command_def

interpretation linker_option_command: struct_codec
    sizeof_linker_option_command load_linker_option_command store_linker_option_command swap_linker_option_command
  by unfold_locales (simp_all add: linker_option_command_defs byte_simps)


record dyld_info_command =
  dc_cmd :: u32
  dc_cmdsize :: u32
  dc_rebase_off :: u32
  dc_rebase_size :: u32
  dc_bind_off :: u32
  dc_bind_size :: u32
  dc_weak_bind_off :: u32
  dc_weak_bind_size :: u32
  dc_lazy_bind_off :: u32
  dc_lazy_bind_size :: u32
  dc_export_off :: u32
  dc_export_size :: u32

definition sizeof_dyld_info_command :: nat where
  "sizeof_dyld_info_command = 48"

definition load_dyld_info_command :: "endian \<Rightarrow> bytes \<Rightarrow> dyld_info_command" where
  "load_dyld_info_command e m =
     \<lparr>dc_cmd = get32 e m 0, dc_cmdsize = get32 e m 4, dc_rebase_off = get32 e m 8,
      dc_rebase_size = get32 e m 12, dc_bind_off = get32 e m 16, dc_bind_size = get32 e m 20,
      dc_weak_bind_off = get32 e m 24, dc_weak_bind_size = get32 e m 28,
      dc_lazy_bind_off = get32 e m 32, dc_lazy_bind_size = get32 e m 36,
      dc_export_off = get32 e m 40, dc_export_size = get32 e m 44\<rparr>"

definition store_dyld_info_command :: "endian \<Rightarrow> dyld_info_command \<Rightarrow> bytes" where
  "store_dyld_info_command e x =
     put32 e (dc_cmd x) @ put32 e (dc_cmdsize x) @ put32 e (dc_rebase_off x) @
     put32 e (dc_rebase_size x) @ put32 e (dc_bind_off x) @ put32 e (dc_bind_size x) @
     put32 e (dc_weak_bind_off x) @ put32 e (dc_weak_bind_size x) @
     put32 e (dc_lazy_bind_off x) @ put32 e (dc_lazy_bind_size x) @ put32 e (dc_export_off x) @
     put32 e (dc_export_size x)"

definition swap_dyld_info_command :: "dyld_info_command \<Rightarrow> dyld_info_command" where
  "swap_dyld_info_command x = x
     \<lparr>dc_cmd := SWAP_INT (dc_cmd x), dc_cmdsize := SWAP_INT (dc_cmdsize x),
      dc_rebase_off := SWAP_INT (dc_rebase_off x),
      dc_rebase_size := SWAP_INT (dc_rebase_size x), dc_bind_off := SWAP_INT (dc_bind_off x),
      dc_bind_size := SWAP_INT (dc_bind_size x),
      dc_weak_bind_off := SWAP_INT (dc_weak_bind_off x),
      dc_weak_bind_size := SWAP_INT (dc_weak_bind_size x),
      dc_lazy_bind_off := SWAP_INT (dc_lazy_bind_off x),
      dc_lazy_bind_size := SWAP_INT (dc_lazy_bind_size x),
      dc_export_off := SWAP_INT (dc_export_off x), dc_export_size := SWAP_INT (dc_export_size x)\<rparr>"

lemmas dyld_info_command_defs =
  sizeof_dyld_info_command_def load_dyld_info_command_def store_dyld_info_command_def swap_dyld_info_command_def

interpretation dyld_info_command: struct_codec
    sizeof_dyld_info_command load_dyld_info_command store_dyld_info_command swap_dyld_info_command
  by unfold_locales (simp_all add: dyld_info_command_defs byte_simps)


record entry_point_command =
  ep_cmd :: u32
  ep_cmdsize :: u32
  ep_entryoff :: u64
  ep_stacksize :: u64

definition sizeof_entry_point_command :: nat where
  "sizeof_entry_point_command = 24"

definition load_entry_point_command :: "endian \<Rightarrow> bytes \<Rightarrow> entry_point_command" where
  "load_entry_point_command e m =
     \<lparr>ep_cmd = get32 e m 0, ep_cmdsize = get32 e m 4, ep_entryoff = get64 e m 8,
      ep_stacksize = get64 e m 16\<rparr>"

definition store_entry_point_command :: "endian \<Rightarrow> entry_point_command \<Rightarrow> bytes" where
  "store_entry_point_command e x =
     put32 e (ep_cmd x) @ put32 e (ep_cmdsize x) @ put64 e (ep_entryoff x) @
     put64 e (ep_stacksize x)"

definition swap_entry_point_command :: "entry_point_command \<Rightarrow> entry_point_command" where
  "swap_entry_point_command x = x
     \<lparr>ep_cmd := SWAP_INT (ep_cmd x), ep_cmdsize := SWAP_INT (ep_cmdsize x),
      ep_entryoff := SWAP_LONG_LONG (ep_entryoff x),
      ep_stacksize := SWAP_LONG_LONG (ep_stacksize x)\<rparr>"

lemmas entry_point_command_defs =
  sizeof_entry_point_command_def load_entry_point_command_def store_entry_point_command_def swap_entry_point_command_def

interpretation entry_point_command: struct_codec
    sizeof_entry_point_command load_entry_point_command store_entry_point_command swap_entry_point_command
  by unfold_locales (simp_all add: entry_point_command_defs byte_simps)


record source_version_command =
  sv_cmd :: u32
  sv_cmdsize :: u32
  sv_version :: u64

definition sizeof_source_version_command :: nat where
  "sizeof_source_version_command = 16"

definition load_source_version_command :: "endian \<Rightarrow> bytes \<Rightarrow> source_version_command" where
  "load_source_version_command e m =
     \<lparr>sv_cmd = get32 e m 0, sv_cmdsize = get32 e m 4, sv_version = get64 e m 8\<rparr>"

definition store_source_version_command :: "endian \<Rightarrow> source_version_command \<Rightarrow> bytes" where
  "store_source_version_command e x =
     put32 e (sv_cmd x) @ put32 e (sv_cmdsize x) @ put64 e (sv_version x)"

definition swap_source_version_command :: "source_version_command \<Rightarrow> source_version_command" where
  "swap_source_version_command x = x
     \<lparr>sv_cmd := SWAP_INT (sv_cmd x), sv_cmdsize := SWAP_INT (sv_cmdsize x),
      sv_version := SWAP_LONG_LONG (sv_version x)\<rparr>"

lemmas source_version_command_defs =
  sizeof_source_version_command_def load_source_version_command_def store_source_version_command_def swap_source_version_command_def

interpretation source_version_command: struct_codec
    sizeof_source_version_command load_source_version_command store_source_version_command swap_source_version_command
  by unfold_locales (simp_all add: source_version_command_defs byte_simps)


record note_command =
  nc_cmd :: u32
  nc_cmdsize :: u32
  nc_data_owner :: bytes
  nc_offset :: u64
  nc_size :: u64

definition sizeof_note_command :: nat where
  "sizeof_note_command = 40"

definition load_note_command :: "endian \<Rightarrow> bytes \<Rightarrow> note_command" where
  "load_note_command e m =
     \<lparr>nc_cmd = get32 e m 0, nc_cmdsize = get32 e m 4, nc_data_owner = subbytes 8 16 m,
      nc_offset = get64 e m 24, nc_size = get64 e m 32\<rparr>"

definition store_note_command :: "endian \<Rightarrow> note_command \<Rightarrow> bytes" where
  "store_note_command e x =
     put32 e (nc_cmd x) @ put32 e (nc_cmdsize x) @ nc_data_owner x @ put64 e (nc_offset x) @
     put64 e (nc_size x)"

definition swap_note_command :: "note_command \<Rightarrow> note_command" where
  "swap_note_command x = x
     \<lparr>nc_cmd := SWAP_INT (nc_cmd x), nc_cmdsize := SWAP_INT (nc_cmdsize x),
      nc_offset := SWAP_LONG_LONG (nc_offset x), nc_size := SWAP_LONG_LONG (nc_size x)\<rparr>"

lemmas note_command_defs =
  sizeof_note_command_def load_note_command_def store_note_command_def swap_note_command_def

interpretation note_command: struct_codec
    sizeof_note_command load_note_command store_note_command swap_note_command
  by unfold_locales (simp_all add: note_command_defs byte_simps)


record fileset_entry_command =
  fse_cmd :: u32
  fse_cmdsize :: u32
  fse_vmaddr :: u64
  fse_fileoff :: u64
  fse_entry_id :: u32
  fse_reserved :: u32

definition sizeof_fileset_entry_command :: nat where
  "sizeof_fileset_entry_command = 32"

definition load_fileset_entry_command :: "endian \<Rightarrow> bytes \<Rightarrow> fileset_entry_command" where
  "load_fileset_entry_command e m =
     \<lparr>fse_cmd = get32 e m 0, fse_cmdsize = get32 e m 4, fse_vmaddr = get64 e m 8,
      fse_fileoff = get64 e m 16, fse_entry_id = get32 e m 24, fse_reserved = get32 e m 28\<rparr>"

definition store_fileset_entry_command :: "endian \<Rightarrow> fileset_entry_command \<Rightarrow> bytes" where
  "store_fileset_entry_command e x =
     put32 e (fse_cmd x) @ put32 e (fse_cmdsize x) @ put64 e (fse_vmaddr x) @
     put64 e (fse_fileoff x) @ put32 e (fse_entry_id x) @ put32 e (fse_reserved x)"

definition swap_fileset_entry_command :: "fileset_entry_command \<Rightarrow> fileset_entry_command" where
  "swap_fileset_entry_command x = x
     \<lparr>fse_cmd := SWAP_INT (fse_cmd x), fse_cmdsize := SWAP_INT (fse_cmdsize x),
      fse_vmaddr := SWAP_LONG_LONG (fse_vmaddr x),
      fse_fileoff := SWAP_LONG_LONG (fse_fileoff x), fse_entry_id := SWAP_INT (fse_entry_id x),
      fse_reserved := SWAP_INT (fse_reserved x)\<rparr>"

lemmas fileset_entry_command_defs =
  sizeof_fileset_entry_command_def load_fileset_entry_command_def store_fileset_entry_command_def swap_fileset_entry_command_def

interpretation fileset_entry_command: struct_codec
    sizeof_fileset_entry_command load_fileset_entry_command store_fileset_entry_command swap_fileset_entry_command
  by unfold_locales (simp_all add: fileset_entry_command_defs byte_simps)


end
