(* ===== verification/Thread_States.thy ===== *)
theory Thread_States
  imports Byte_Swap
begin

text \<open>
  Machine register states that thread commands carry (\<open>include/mach/*/thread_status.h\<close>,
  \<open>_structs.h\<close>) and the routines of \<open>libstuff/bytesex.c\<close> that swap them, in the form of
  theory \<open>Macho_Headers\<close>.  This theory holds the big-endian families 68000,
  PowerPC and 88000.  A state whose routine leaves some field
  unswapped, or that has tail padding, is interpreted as a layout only.
\<close>

section \<open>Motorola 68000\<close>

record m68k_thread_state_regs =
  m68k_dreg :: "u32 list"
  m68k_areg :: "u32 list"
  m68k_pad0 :: u16
  m68k_sr :: u16
  m68k_pc :: u32

definition sizeof_m68k_thread_state_regs :: nat where
  "sizeof_m68k_thread_state_regs = 72"

definition load_m68k_thread_state_regs :: "endian \<Rightarrow> bytes \<Rightarrow> m68k_thread_state_regs" where
  "load_m68k_thread_state_regs e m =
     \<lparr>m68k_dreg = get32s e m 0 8, m68k_areg = get32s e m 32 8, m68k_pad0 = get16 e m 64,
      m68k_sr = get16 e m 66, m68k_pc = get32 e m 68\<rparr>"

definition store_m68k_thread_state_regs :: "endian \<Rightarrow> m68k_thread_state_regs \<Rightarrow> bytes" where
  "store_m68k_thread_state_regs e x =
     put32s e (m68k_dreg x) @ put32s e (m68k_areg x) @ put16 e (m68k_pad0 x) @
     put16 e (m68k_sr x) @ put32 e (m68k_pc x)"

definition swap_m68k_thread_state_regs :: "m68k_thread_state_regs \<Rightarrow> m68k_thread_state_regs" where
  "swap_m68k_thread_state_regs x = x
     \<lparr>m68k_dreg := map SWAP_INT (m68k_dreg x), m68k_areg := map SWAP_INT (m68k_areg x),
      m68k_pad0 := SWAP_SHORT (m68k_pad0 x), m68k_sr := SWAP_SHORT (m68k_sr x),
      m68k_pc := SWAP_INT (m68k_pc x)\<rparr>"

lemmas m68k_thread_state_regs_defs =
  sizeof_m68k_thread_state_regs_def load_m68k_thread_state_regs_def store_m68k_thread_state_regs_def swap_m68k_thread_state_regs_def

interpretation m68k_thread_state_regs: struct_codec
    sizeof_m68k_thread_state_regs load_m68k_thread_state_regs store_m68k_thread_state_regs swap_m68k_thread_state_regs
  by unfold_locales (simp_all add: m68k_thread_state_regs_defs byte_simps)


record m68k_thread_state_68882 =
  m68kfp_regs :: "u32 list"
  m68kfp_cr :: u32
  m68kfp_sr :: u32
  m68kfp_iar :: u32
  m68kfp_state :: u32

definition sizeof_m68k_thread_state_68882 :: nat where
  "sizeof_m68k_thread_state_68882 = 112"

definition load_m68k_thread_state_68882 :: "endian \<Rightarrow> bytes \<Rightarrow> m68k_thread_state_68882" where
  "load_m68k_thread_state_68882 e m =
     \<lparr>m68kfp_regs = get32s e m 0 24, m68kfp_cr = get32 e m 96, m68kfp_sr = get32 e m 100,
      m68kfp_iar = get32 e m 104, m68kfp_state = get32 e m 108\<rparr>"

definition store_m68k_thread_state_68882 :: "endian \<Rightarrow> m68k_thread_state_68882 \<Rightarrow> bytes" where
  "store_m68k_thread_state_68882 e x =
     put32s e (m68kfp_regs x) @ put32 e (m68kfp_cr x) @ put32 e (m68kfp_sr x) @
     put32 e (m68kfp_iar x) @ put32 e (m68kfp_state x)"

text \<open>
  A 96-bit register is three words \<open>fp[0]\<close>, \<open>fp[1]\<close>, \<open>fp[2]\<close>; the loop swaps each word
  and exchanges the outer two.
\<close>

fun swap_m68k_fp_regs :: "u32 list \<Rightarrow> u32 list" where
  "swap_m68k_fp_regs (fp0 # fp1 # fp2 # fps) =
     SWAP_INT fp2 # SWAP_INT fp1 # SWAP_INT fp0 # swap_m68k_fp_regs fps"
| "swap_m68k_fp_regs fps = fps"

definition swap_m68k_thread_state_68882 ::
    "m68k_thread_state_68882 \<Rightarrow> m68k_thread_state_68882" where
  "swap_m68k_thread_state_68882 x = x
     \<lparr>m68kfp_regs := swap_m68k_fp_regs (m68kfp_regs x), m68kfp_cr := SWAP_INT (m68kfp_cr x),
      m68kfp_sr := SWAP_INT (m68kfp_sr x), m68kfp_iar := SWAP_INT (m68kfp_iar x),
      m68kfp_state := SWAP_INT (m68kfp_state x)\<rparr>"

lemmas m68k_thread_state_68882_defs =
  sizeof_m68k_thread_state_68882_def load_m68k_thread_state_68882_def
  store_m68k_thread_state_68882_def swap_m68k_thread_state_68882_def

interpretation m68k_thread_state_68882: struct_layout
    sizeof_m68k_thread_state_68882 load_m68k_thread_state_68882 store_m68k_thread_state_68882
  by unfold_locales (simp_all add: m68k_thread_state_68882_defs byte_simps)


record m68k_thread_state_user_reg =
  m68kuser_user_reg :: u32

definition sizeof_m68k_thread_state_user_reg :: nat where
  "sizeof_m68k_thread_state_user_reg = 4"

definition load_m68k_thread_state_user_reg :: "endian \<Rightarrow> bytes \<Rightarrow> m68k_thread_state_user_reg" where
  "load_m68k_thread_state_user_reg e m =
     \<lparr>m68kuser_user_reg = get32 e m 0\<rparr>"

definition store_m68k_thread_state_user_reg :: "endian \<Rightarrow> m68k_thread_state_user_reg \<Rightarrow> bytes" where
  "store_m68k_thread_state_user_reg e x =
     put32 e (m68kuser_user_reg x)"

definition swap_m68k_thread_state_user_reg :: "m68k_thread_state_user_reg \<Rightarrow> m68k_thread_state_user_reg" where
  "swap_m68k_thread_state_user_reg x = x
     \<lparr>m68kuser_user_reg := SWAP_INT (m68kuser_user_reg x)\<rparr>"

lemmas m68k_thread_state_user_reg_defs =
  sizeof_m68k_thread_state_user_reg_def load_m68k_thread_state_user_reg_def store_m68k_thread_state_user_reg_def swap_m68k_thread_state_user_reg_def

interpretation m68k_thread_state_user_reg: struct_codec
    sizeof_m68k_thread_state_user_reg load_m68k_thread_state_user_reg store_m68k_thread_state_user_reg swap_m68k_thread_state_user_reg
  by unfold_locales (simp_all add: m68k_thread_state_user_reg_defs byte_simps)


section \<open>PowerPC\<close>

record ppc_thread_state =
  ppc_srr0 :: u32
  ppc_srr1 :: u32
  ppc_r0 :: u32
  ppc_r1 :: u32
  ppc_r2 :: u32
  ppc_r3 :: u32
  ppc_r4 :: u32
  ppc_r5 :: u32
  ppc_r6 :: u32
  ppc_r7 :: u32
  ppc_r8 :: u32
  ppc_r9 :: u32
  ppc_r10 :: u32
  ppc_r11 :: u32
  ppc_r12 :: u32
  ppc_r13 :: u32
  ppc_r14 :: u32
  ppc_r15 :: u32
  ppc_r16 :: u32
  ppc_r17 :: u32
  ppc_r18 :: u32
  ppc_r19 :: u32
  ppc_r20 :: u32
  ppc_r21 :: u32
  ppc_r22 :: u32
  ppc_r23 :: u32
  ppc_r24 :: u32
  ppc_r25 :: u32
  ppc_r26 :: u32
  ppc_r27 :: u32
  ppc_r28 :: u32
  ppc_r29 :: u32
  ppc_r30 :: u32
  ppc_r31 :: u32
  ppc_cr :: u32
  ppc_xer :: u32
  ppc_lr :: u32
  ppc_ctr :: u32
  ppc_mq :: u32
  ppc_vrsave :: u32

definition sizeof_ppc_thread_state :: nat where
  "sizeof_ppc_thread_state = 160"

definition load_ppc_thread_state :: "endian \<Rightarrow> bytes \<Rightarrow> ppc_thread_state" where
  "load_ppc_thread_state e m =
     \<lparr>ppc_srr0 = get32 e m 0, ppc_srr1 = get32 e m 4, ppc_r0 = get32 e m 8,
      ppc_r1 = get32 e m 12, ppc_r2 = get32 e m 16, ppc_r3 = get32 e m 20,
      ppc_r4 = get32 e m 24, ppc_r5 = get32 e m 28, ppc_r6 = get32 e m 32,
      ppc_r7 = get32 e m 36, ppc_r8 = get32 e m 40, ppc_r9 = get32 e m 44,
      ppc_r10 = get32 e m 48, ppc_r11 = get32 e m 52, ppc_r12 = get32 e m 56,
      ppc_r13 = get32 e m 60, ppc_r14 = get32 e m 64, ppc_r15 = get32 e m 68,
      ppc_r16 = get32 e m 72, ppc_r17 = get32 e m 76, ppc_r18 = get32 e m 80,
      ppc_r19 = get32 e m 84, ppc_r20 = get32 e m 88, ppc_r21 = get32 e m 92,
      ppc_r22 = get32 e m 96, ppc_r23 = get32 e m 100, ppc_r24 = get32 e m 104,
      ppc_r25 = get32 e m 108, ppc_r26 = get32 e m 112, ppc_r27 = get32 e m 116,
      ppc_r28 = get32 e m 120, ppc_r29 = get32 e m 124, ppc_r30 = get32 e m 128,
      ppc_r31 = get32 e m 132, ppc_cr = get32 e m 136, ppc_xer = get32 e m 140,
      ppc_lr = get32 e m 144, ppc_ctr = get32 e m 148, ppc_mq = get32 e m 152,
      ppc_vrsave = get32 e m 156\<rparr>"

definition store_ppc_thread_state :: "endian \<Rightarrow> ppc_thread_state \<Rightarrow> bytes" where
  "store_ppc_thread_state e x =
     put32 e (ppc_srr0 x) @ put32 e (ppc_srr1 x) @ put32 e (ppc_r0 x) @ put32 e (ppc_r1 x) @
     put32 e (ppc_r2 x) @ put32 e (ppc_r3 x) @ put32 e (ppc_r4 x) @ put32 e (ppc_r5 x) @
     put32 e (ppc_r6 x) @ put32 e (ppc_r7 x) @ put32 e (ppc_r8 x) @ put32 e (ppc_r9 x) @
     put32 e (ppc_r10 x) @ put32 e (ppc_r11 x) @ put32 e (ppc_r12 x) @ put32 e (ppc_r13 x) @
     put32 e (ppc_r14 x) @ put32 e (ppc_r15 x) @ put32 e (ppc_r16 x) @ put32 e (ppc_r17 x) @
     put32 e (ppc_r18 x) @ put32 e (ppc_r19 x) @ put32 e (ppc_r20 x) @ put32 e (ppc_r21 x) @
     put32 e (ppc_r22 x) @ put32 e (ppc_r23 x) @ put32 e (ppc_r24 x) @ put32 e (ppc_r25 x) @
     put32 e (ppc_r26 x) @ put32 e (ppc_r27 x) @ put32 e (ppc_r28 x) @ put32 e (ppc_r29 x) @
     put32 e (ppc_r30 x) @ put32 e (ppc_r31 x) @ put32 e (ppc_cr x) @ put32 e (ppc_xer x) @
     put32 e (ppc_lr x) @ put32 e (ppc_ctr x) @ put32 e (ppc_mq x) @ put32 e (ppc_vrsave x)"

definition swap_ppc_thread_state_t :: "ppc_thread_state \<Rightarrow> ppc_thread_state" where
  "swap_ppc_thread_state_t x = x
     \<lparr>ppc_srr0 := SWAP_INT (ppc_srr0 x), ppc_srr1 := SWAP_INT (ppc_srr1 x),
      ppc_r0 := SWAP_INT (ppc_r0 x), ppc_r1 := SWAP_INT (ppc_r1 x),
      ppc_r2 := SWAP_INT (ppc_r2 x), ppc_r3 := SWAP_INT (ppc_r3 x),
      ppc_r4 := SWAP_INT (ppc_r4 x), ppc_r5 := SWAP_INT (ppc_r5 x),
      ppc_r6 := SWAP_INT (ppc_r6 x), ppc_r7 := SWAP_INT (ppc_r7 x),
      ppc_r8 := SWAP_INT (ppc_r8 x), ppc_r9 := SWAP_INT (ppc_r9 x),
      ppc_r10 := SWAP_INT (ppc_r10 x), ppc_r11 := SWAP_INT (ppc_r11 x),
      ppc_r12 := SWAP_INT (ppc_r12 x), ppc_r13 := SWAP_INT (ppc_r13 x),
      ppc_r14 := SWAP_INT (ppc_r14 x), ppc_r15 := SWAP_INT (ppc_r15 x),
      ppc_r16 := SWAP_INT (ppc_r16 x), ppc_r17 := SWAP_INT (ppc_r17 x),
      ppc_r18 := SWAP_INT (ppc_r18 x), ppc_r19 := SWAP_INT (ppc_r19 x),
      ppc_r20 := SWAP_INT (ppc_r20 x), ppc_r21 := SWAP_INT (ppc_r21 x),
      ppc_r22 := SWAP_INT (ppc_r22 x), ppc_r23 := SWAP_INT (ppc_r23 x),
      ppc_r24 := SWAP_INT (ppc_r24 x), ppc_r25 := SWAP_INT (ppc_r25 x),
      ppc_r26 := SWAP_INT (ppc_r26 x), ppc_r27 := SWAP_INT (ppc_r27 x),
      ppc_r28 := SWAP_INT (ppc_r28 x), ppc_r29 := SWAP_INT (ppc_r29 x),
      ppc_r30 := SWAP_INT (ppc_r30 x), ppc_r31 := SWAP_INT (ppc_r31 x),
      ppc_cr := SWAP_INT (ppc_cr x), ppc_xer := SWAP_INT (ppc_xer x),
      ppc_lr := SWAP_INT (ppc_lr x), ppc_ctr := SWAP_INT (ppc_ctr x),
      ppc_mq := SWAP_INT (ppc_mq x), ppc_vrsave := SWAP_INT (ppc_vrsave x)\<rparr>"

lemmas ppc_thread_state_defs =
  sizeof_ppc_thread_state_def load_ppc_thread_state_def store_ppc_thread_state_def swap_ppc_thread_state_t_def

interpretation ppc_thread_state: struct_codec
    sizeof_ppc_thread_state load_ppc_thread_state store_ppc_thread_state swap_ppc_thread_state_t
  by unfold_locales (simp_all add: ppc_thread_state_defs byte_simps)


record ppc_thread_state64 =
  ppc64_srr0 :: u64
  ppc64_srr1 :: u64
  ppc64_r0 :: u64
  ppc64_r1 :: u64
  ppc64_r2 :: u64
  ppc64_r3 :: u64
  ppc64_r4 :: u64
  ppc64_r5 :: u64
  ppc64_r6 :: u64
  ppc64_r7 :: u64
  ppc64_r8 :: u64
  ppc64_r9 :: u64
  ppc64_r10 :: u64
  ppc64_r11 :: u64
  ppc64_r12 :: u64
  ppc64_r13 :: u64
  ppc64_r14 :: u64
  ppc64_r15 :: u64
  ppc64_r16 :: u64
  ppc64_r17 :: u64
  ppc64_r18 :: u64
  ppc64_r19 :: u64
  ppc64_r20 :: u64
  ppc64_r21 :: u64
  ppc64_r22 :: u64
  ppc64_r23 :: u64
  ppc64_r24 :: u64
  ppc64_r25 :: u64
  ppc64_r26 :: u64
  ppc64_r27 :: u64
  ppc64_r28 :: u64
  ppc64_r29 :: u64
  ppc64_r30 :: u64
  ppc64_r31 :: u64
  ppc64_cr :: u32
  ppc64_xer :: u64
  ppc64_lr :: u64
  ppc64_ctr :: u64
  ppc64_vrsave :: u32

definition sizeof_ppc_thread_state64 :: nat where
  "sizeof_ppc_thread_state64 = 304"

definition load_ppc_thread_state64 :: "endian \<Rightarrow> bytes \<Rightarrow> ppc_thread_state64" where
  "load_ppc_thread_state64 e m =
     \<lparr>ppc64_srr0 = get64 e m 0, ppc64_srr1 = get64 e m 8, ppc64_r0 = get64 e m 16,
      ppc64_r1 = get64 e m 24, ppc64_r2 = get64 e m 32, ppc64_r3 = get64 e m 40,
      ppc64_r4 = get64 e m 48, ppc64_r5 = get64 e m 56, ppc64_r6 = get64 e m 64,
      ppc64_r7 = get64 e m 72, ppc64_r8 = get64 e m 80, ppc64_r9 = get64 e m 88,
      ppc64_r10 = get64 e m 96, ppc64_r11 = get64 e m 104, ppc64_r12 = get64 e m 112,
      ppc64_r13 = get64 e m 120, ppc64_r14 = get64 e m 128, ppc64_r15 = get64 e m 136,
      ppc64_r16 = get64 e m 144, ppc64_r17 = get64 e m 152, ppc64_r18 = get64 e m 160,
      ppc64_r19 = get64 e m 168, ppc64_r20 = get64 e m 176, ppc64_r21 = get64 e m 184,
      ppc64_r22 = get64 e m 192, ppc64_r23 = get64 e m 200, ppc64_r24 = get64 e m 208,
      ppc64_r25 = get64 e m 216, ppc64_r26 = get64 e m 224, ppc64_r27 = get64 e m 232,
      ppc64_r28 = get64 e m 240, ppc64_r29 = get64 e m 248, ppc64_r30 = get64 e m 256,
      ppc64_r31 = get64 e m 264, ppc64_cr = get32 e m 272, ppc64_xer = get64 e m 276,
      ppc64_lr = get64 e m 284, ppc64_ctr = get64 e m 292, ppc64_vrsave = get32 e m 300\<rparr>"

definition store_ppc_thread_state64 :: "endian \<Rightarrow> ppc_thread_state64 \<Rightarrow> bytes" where
  "store_ppc_thread_state64 e x =
     put64 e (ppc64_srr0 x) @ put64 e (ppc64_srr1 x) @ put64 e (ppc64_r0 x) @
     put64 e (ppc64_r1 x) @ put64 e (ppc64_r2 x) @ put64 e (ppc64_r3 x) @ put64 e (ppc64_r4 x) @
     put64 e (ppc64_r5 x) @ put64 e (ppc64_r6 x) @ put64 e (ppc64_r7 x) @ put64 e (ppc64_r8 x) @
     put64 e (ppc64_r9 x) @ put64 e (ppc64_r10 x) @ put64 e (ppc64_r11 x) @
     put64 e (ppc64_r12 x) @ put64 e (ppc64_r13 x) @ put64 e (ppc64_r14 x) @
     put64 e (ppc64_r15 x) @ put64 e (ppc64_r16 x) @ put64 e (ppc64_r17 x) @
     put64 e (ppc64_r18 x) @ put64 e (ppc64_r19 x) @ put64 e (ppc64_r20 x) @
     put64 e (ppc64_r21 x) @ put64 e (ppc64_r22 x) @ put64 e (ppc64_r23 x) @
     put64 e (ppc64_r24 x) @ put64 e (ppc64_r25 x) @ put64 e (ppc64_r26 x) @
     put64 e (ppc64_r27 x) @ put64 e (ppc64_r28 x) @ put64 e (ppc64_r29 x) @
     put64 e (ppc64_r30 x) @ put64 e (ppc64_r31 x) @ put32 e (ppc64_cr x) @
     put64 e (ppc64_xer x) @ put64 e (ppc64_lr x) @ put64 e (ppc64_ctr x) @
     put32 e (ppc64_vrsave x)"

definition swap_ppc_thread_state64_t :: "ppc_thread_state64 \<Rightarrow> ppc_thread_state64" where
  "swap_ppc_thread_state64_t x = x
     \<lparr>ppc64_srr0 := SWAP_LONG_LONG (ppc64_srr0 x), ppc64_srr1 := SWAP_LONG_LONG (ppc64_srr1 x),
      ppc64_r0 := SWAP_LONG_LONG (ppc64_r0 x), ppc64_r1 := SWAP_LONG_LONG (ppc64_r1 x),
      ppc64_r2 := SWAP_LONG_LONG (ppc64_r2 x), ppc64_r3 := SWAP_LONG_LONG (ppc64_r3 x),
      ppc64_r4 := SWAP_LONG_LONG (ppc64_r4 x), ppc64_r5 := SWAP_LONG_LONG (ppc64_r5 x),
      ppc64_r6 := SWAP_LONG_LONG (ppc64_r6 x), ppc64_r7 := SWAP_LONG_LONG (ppc64_r7 x),
      ppc64_r8 := SWAP_LONG_LONG (ppc64_r8 x), ppc64_r9 := SWAP_LONG_LONG (ppc64_r9 x),
      ppc64_r10 := SWAP_LONG_LONG (ppc64_r10 x), ppc64_r11 := SWAP_LONG_LONG (ppc64_r11 x),
      ppc64_r12 := SWAP_LONG_LONG (ppc64_r12 x), ppc64_r13 := SWAP_LONG_LONG (ppc64_r13 x),
      ppc64_r14 := SWAP_LONG_LONG (ppc64_r14 x), ppc64_r15 := SWAP_LONG_LONG (ppc64_r15 x),
      ppc64_r16 := SWAP_LONG_LONG (ppc64_r16 x), ppc64_r17 := SWAP_LONG_LONG (ppc64_r17 x),
      ppc64_r18 := SWAP_LONG_LONG (ppc64_r18 x), ppc64_r19 := SWAP_LONG_LONG (ppc64_r19 x),
      ppc64_r20 := SWAP_LONG_LONG (ppc64_r20 x), ppc64_r21 := SWAP_LONG_LONG (ppc64_r21 x),
      ppc64_r22 := SWAP_LONG_LONG (ppc64_r22 x), ppc64_r23 := SWAP_LONG_LONG (ppc64_r23 x),
      ppc64_r24 := SWAP_LONG_LONG (ppc64_r24 x), ppc64_r25 := SWAP_LONG_LONG (ppc64_r25 x),
      ppc64_r26 := SWAP_LONG_LONG (ppc64_r26 x), ppc64_r27 := SWAP_LONG_LONG (ppc64_r27 x),
      ppc64_r28 := SWAP_LONG_LONG (ppc64_r28 x), ppc64_r29 := SWAP_LONG_LONG (ppc64_r29 x),
      ppc64_r30 := SWAP_LONG_LONG (ppc64_r30 x), ppc64_r31 := SWAP_LONG_LONG (ppc64_r31 x),
      ppc64_cr := SWAP_INT (ppc64_cr x), ppc64_xer := SWAP_LONG_LONG (ppc64_xer x),
      ppc64_lr := SWAP_LONG_LONG (ppc64_lr x), ppc64_ctr := SWAP_LONG_LONG (ppc64_ctr x),
      ppc64_vrsave := SWAP_INT (ppc64_vrsave x)\<rparr>"

lemmas ppc_thread_state64_defs =
  sizeof_ppc_thread_state64_def load_ppc_thread_state64_def store_ppc_thread_state64_def swap_ppc_thread_state64_t_def

interpretation ppc_thread_state64: struct_codec
    sizeof_ppc_thread_state64 load_ppc_thread_state64 store_ppc_thread_state64 swap_ppc_thread_state64_t
  by unfold_locales (simp_all add: ppc_thread_state64_defs byte_simps)


record ppc_float_state =
  ppcfp_fpregs :: "u64 list"
  ppcfp_fpscr_pad :: u32
  ppcfp_fpscr :: u32

definition sizeof_ppc_float_state :: nat where
  "sizeof_ppc_float_state = 264"

definition load_ppc_float_state :: "endian \<Rightarrow> bytes \<Rightarrow> ppc_float_state" where
  "load_ppc_float_state e m =
     \<lparr>ppcfp_fpregs = get64s e m 0 32, ppcfp_fpscr_pad = get32 e m 256,
      ppcfp_fpscr = get32 e m 260\<rparr>"

definition store_ppc_float_state :: "endian \<Rightarrow> ppc_float_state \<Rightarrow> bytes" where
  "store_ppc_float_state e x =
     put64s e (ppcfp_fpregs x) @ put32 e (ppcfp_fpscr_pad x) @ put32 e (ppcfp_fpscr x)"

definition swap_ppc_float_state_t :: "ppc_float_state \<Rightarrow> ppc_float_state" where
  "swap_ppc_float_state_t x = x
     \<lparr>ppcfp_fpregs := map SWAP_DOUBLE (ppcfp_fpregs x),
      ppcfp_fpscr_pad := SWAP_INT (ppcfp_fpscr_pad x), ppcfp_fpscr := SWAP_INT (ppcfp_fpscr x)\<rparr>"

lemmas ppc_float_state_defs =
  sizeof_ppc_float_state_def load_ppc_float_state_def store_ppc_float_state_def swap_ppc_float_state_t_def

interpretation ppc_float_state: struct_codec
    sizeof_ppc_float_state load_ppc_float_state store_ppc_float_state swap_ppc_float_state_t
  by unfold_locales (simp_all add: ppc_float_state_defs byte_simps)


record ppc_exception_state =
  ppcexc_dar :: u32
  ppcexc_dsisr :: u32
  ppcexc_exception :: u32
  ppcexc_pad0 :: u32
  ppcexc_pad1 :: "u32 list"

definition sizeof_ppc_exception_state :: nat where
  "sizeof_ppc_exception_state = 32"

definition load_ppc_exception_state :: "endian \<Rightarrow> bytes \<Rightarrow> ppc_exception_state" where
  "load_ppc_exception_state e m =
     \<lparr>ppcexc_dar = get32 e m 0, ppcexc_dsisr = get32 e m 4, ppcexc_exception = get32 e m 8,
      ppcexc_pad0 = get32 e m 12, ppcexc_pad1 = get32s e m 16 4\<rparr>"

definition store_ppc_exception_state :: "endian \<Rightarrow> ppc_exception_state \<Rightarrow> bytes" where
  "store_ppc_exception_state e x =
     put32 e (ppcexc_dar x) @ put32 e (ppcexc_dsisr x) @ put32 e (ppcexc_exception x) @
     put32 e (ppcexc_pad0 x) @ put32s e (ppcexc_pad1 x)"

definition swap_ppc_exception_state_t :: "ppc_exception_state \<Rightarrow> ppc_exception_state" where
  "swap_ppc_exception_state_t x = x
     \<lparr>ppcexc_dar := SWAP_INT (ppcexc_dar x), ppcexc_dsisr := SWAP_INT (ppcexc_dsisr x),
      ppcexc_exception := SWAP_INT (ppcexc_exception x),
      ppcexc_pad0 := SWAP_INT (ppcexc_pad0 x), ppcexc_pad1 := map SWAP_INT (ppcexc_pad1 x)\<rparr>"

lemmas ppc_exception_state_defs =
  sizeof_ppc_exception_state_def load_ppc_exception_state_def store_ppc_exception_state_def swap_ppc_exception_state_t_def

interpretation ppc_exception_state: struct_codec
    sizeof_ppc_exception_state load_ppc_exception_state store_ppc_exception_state swap_ppc_exception_state_t
  by unfold_locales (simp_all add: ppc_exception_state_defs byte_simps)


section \<open>Motorola 88000\<close>

record m88k_thread_state_grf =
  m88k_r1 :: u32
  m88k_r2 :: u32
  m88k_r3 :: u32
  m88k_r4 :: u32
  m88k_r5 :: u32
  m88k_r6 :: u32
  m88k_r7 :: u32
  m88k_r8 :: u32
  m88k_r9 :: u32
  m88k_r10 :: u32
  m88k_r11 :: u32
  m88k_r12 :: u32
  m88k_r13 :: u32
  m88k_r14 :: u32
  m88k_r15 :: u32
  m88k_r16 :: u32
  m88k_r17 :: u32
  m88k_r18 :: u32
  m88k_r19 :: u32
  m88k_r20 :: u32
  m88k_r21 :: u32
  m88k_r22 :: u32
  m88k_r23 :: u32
  m88k_r24 :: u32
  m88k_r25 :: u32
  m88k_r26 :: u32
  m88k_r27 :: u32
  m88k_r28 :: u32
  m88k_r29 :: u32
  m88k_r30 :: u32
  m88k_r31 :: u32
  m88k_xip :: u32
  m88k_xip_in_bd :: u32
  m88k_nip :: u32

definition sizeof_m88k_thread_state_grf :: nat where
  "sizeof_m88k_thread_state_grf = 136"

definition load_m88k_thread_state_grf :: "endian \<Rightarrow> bytes \<Rightarrow> m88k_thread_state_grf" where
  "load_m88k_thread_state_grf e m =
     \<lparr>m88k_r1 = get32 e m 0, m88k_r2 = get32 e m 4, m88k_r3 = get32 e m 8,
      m88k_r4 = get32 e m 12, m88k_r5 = get32 e m 16, m88k_r6 = get32 e m 20,
      m88k_r7 = get32 e m 24, m88k_r8 = get32 e m 28, m88k_r9 = get32 e m 32,
      m88k_r10 = get32 e m 36, m88k_r11 = get32 e m 40, m88k_r12 = get32 e m 44,
      m88k_r13 = get32 e m 48, m88k_r14 = get32 e m 52, m88k_r15 = get32 e m 56,
      m88k_r16 = get32 e m 60, m88k_r17 = get32 e m 64, m88k_r18 = get32 e m 68,
      m88k_r19 = get32 e m 72, m88k_r20 = get32 e m 76, m88k_r21 = get32 e m 80,
      m88k_r22 = get32 e m 84, m88k_r23 = get32 e m 88, m88k_r24 = get32 e m 92,
      m88k_r25 = get32 e m 96, m88k_r26 = get32 e m 100, m88k_r27 = get32 e m 104,
      m88k_r28 = get32 e m 108, m88k_r29 = get32 e m 112, m88k_r30 = get32 e m 116,
      m88k_r31 = get32 e m 120, m88k_xip = get32 e m 124, m88k_xip_in_bd = get32 e m 128,
      m88k_nip = get32 e m 132\<rparr>"

definition store_m88k_thread_state_grf :: "endian \<Rightarrow> m88k_thread_state_grf \<Rightarrow> bytes" where
  "store_m88k_thread_state_grf e x =
     put32 e (m88k_r1 x) @ put32 e (m88k_r2 x) @ put32 e (m88k_r3 x) @ put32 e (m88k_r4 x) @
     put32 e (m88k_r5 x) @ put32 e (m88k_r6 x) @ put32 e (m88k_r7 x) @ put32 e (m88k_r8 x) @
     put32 e (m88k_r9 x) @ put32 e (m88k_r10 x) @ put32 e (m88k_r11 x) @ put32 e (m88k_r12 x) @
     put32 e (m88k_r13 x) @ put32 e (m88k_r14 x) @ put32 e (m88k_r15 x) @ put32 e (m88k_r16 x) @
     put32 e (m88k_r17 x) @ put32 e (m88k_r18 x) @ put32 e (m88k_r19 x) @ put32 e (m88k_r20 x) @
     put32 e (m88k_r21 x) @ put32 e (m88k_r22 x) @ put32 e (m88k_r23 x) @ put32 e (m88k_r24 x) @
     put32 e (m88k_r25 x) @ put32 e (m88k_r26 x) @ put32 e (m88k_r27 x) @ put32 e (m88k_r28 x) @
     put32 e (m88k_r29 x) @ put32 e (m88k_r30 x) @ put32 e (m88k_r31 x) @ put32 e (m88k_xip x) @
     put32 e (m88k_xip_in_bd x) @ put32 e (m88k_nip x)"

definition swap_m88k_thread_state_grf_t :: "m88k_thread_state_grf \<Rightarrow> m88k_thread_state_grf" where
  "swap_m88k_thread_state_grf_t x = x
     \<lparr>m88k_r1 := SWAP_INT (m88k_r1 x), m88k_r2 := SWAP_INT (m88k_r2 x),
      m88k_r3 := SWAP_INT (m88k_r3 x), m88k_r4 := SWAP_INT (m88k_r4 x),
      m88k_r5 := SWAP_INT (m88k_r5 x), m88k_r6 := SWAP_INT (m88k_r6 x),
      m88k_r7 := SWAP_INT (m88k_r7 x), m88k_r8 := SWAP_INT (m88k_r8 x),
      m88k_r9 := SWAP_INT (m88k_r9 x), m88k_r10 := SWAP_INT (m88k_r10 x),
      m88k_r11 := SWAP_INT (m88k_r11 x), m88k_r12 := SWAP_INT (m88k_r12 x),
      m88k_r13 := SWAP_INT (m88k_r13 x), m88k_r14 := SWAP_INT (m88k_r14 x),
      m88k_r15 := SWAP_INT (m88k_r15 x), m88k_r16 := SWAP_INT (m88k_r16 x),
      m88k_r17 := SWAP_INT (m88k_r17 x), m88k_r18 := SWAP_INT (m88k_r18 x),
      m88k_r19 := SWAP_INT (m88k_r19 x), m88k_r20 := SWAP_INT (m88k_r20 x),
      m88k_r21 := SWAP_INT (m88k_r21 x), m88k_r22 := SWAP_INT (m88k_r22 x),
      m88k_r23 := SWAP_INT (m88k_r23 x), m88k_r24 := SWAP_INT (m88k_r24 x),
      m88k_r25 := SWAP_INT (m88k_r25 x), m88k_r26 := SWAP_INT (m88k_r26 x),
      m88k_r27 := SWAP_INT (m88k_r27 x), m88k_r28 := SWAP_INT (m88k_r28 x),
      m88k_r29 := SWAP_INT (m88k_r29 x), m88k_r30 := SWAP_INT (m88k_r30 x),
      m88k_r31 := SWAP_INT (m88k_r31 x), m88k_xip := SWAP_INT (m88k_xip x),
      m88k_xip_in_bd := SWAP_INT (m88k_xip_in_bd x), m88k_nip := SWAP_INT (m88k_nip x)\<rparr>"

lemmas m88k_thread_state_grf_defs =
  sizeof_m88k_thread_state_grf_def load_m88k_thread_state_grf_def store_m88k_thread_state_grf_def swap_m88k_thread_state_grf_t_def

interpretation m88k_thread_state_grf: struct_codec
    sizeof_m88k_thread_state_grf load_m88k_thread_state_grf store_m88k_thread_state_grf swap_m88k_thread_state_grf_t
  by unfold_locales (simp_all add: m88k_thread_state_grf_defs byte_simps)


record m88k_thread_state_user =
  m88kuser_user :: u32

definition sizeof_m88k_thread_state_user :: nat where
  "sizeof_m88k_thread_state_user = 4"

definition load_m88k_thread_state_user :: "endian \<Rightarrow> bytes \<Rightarrow> m88k_thread_state_user" where
  "load_m88k_thread_state_user e m =
     \<lparr>m88kuser_user = get32 e m 0\<rparr>"

definition store_m88k_thread_state_user :: "endian \<Rightarrow> m88k_thread_state_user \<Rightarrow> bytes" where
  "store_m88k_thread_state_user e x =
     put32 e (m88kuser_user x)"

definition swap_m88k_thread_state_user_t :: "m88k_thread_state_user \<Rightarrow> m88k_thread_state_user" where
  "swap_m88k_thread_state_user_t x = x
     \<lparr>m88kuser_user := SWAP_INT (m88kuser_user x)\<rparr>"

lemmas m88k_thread_state_user_defs =
  sizeof_m88k_thread_state_user_def load_m88k_thread_state_user_def store_m88k_thread_state_user_def swap_m88k_thread_state_user_t_def

interpretation m88k_thread_state_user: struct_codec
    sizeof_m88k_thread_state_user load_m88k_thread_state_user store_m88k_thread_state_user swap_m88k_thread_state_user_t
  by unfold_locales (simp_all add: m88k_thread_state_user_defs byte_simps)


end
