(* ===== verification/Thread_States_2.thy ===== *)
theory Thread_States_2
  imports Byte_Swap
begin

text \<open>
  Machine register states that thread commands carry (\<open>include/mach/*/thread_status.h\<close>,
  \<open>_structs.h\<close>) and the routines of \<open>libstuff/bytesex.c\<close> that swap them, in the form of
  theory \<open>Macho_Headers\<close>.  This theory holds Intel 860, i386, x86-64,
  PA-RISC and ARM.  A state whose routine leaves some field
  unswapped, or that has tail padding, is interpreted as a layout only.
\<close>

section \<open>Intel 860\<close>

text \<open>
  On a host that aligns doubles to eight bytes the structure ends in four bytes of
  padding.
\<close>

record i860_thread_state_regs =
  i860_ireg :: "u32 list"
  i860_freg :: "u32 list"
  i860_psr :: u32
  i860_epsr :: u32
  i860_db :: u32
  i860_pc :: u32
  i860_padding :: u32
  i860_Mres3 :: u64
  i860_Ares3 :: u64
  i860_Mres2 :: u64
  i860_Ares2 :: u64
  i860_Mres1 :: u64
  i860_Ares1 :: u64
  i860_Ires1 :: u64
  i860_Lres3m :: u64
  i860_Lres2m :: u64
  i860_Lres1m :: u64
  i860_KR :: u64
  i860_KI :: u64
  i860_T :: u64
  i860_Fsr3 :: u32
  i860_Fsr2 :: u32
  i860_Fsr1 :: u32
  i860_Mergelo32 :: u32
  i860_Mergehi32 :: u32
  i860_tail_padding :: bytes

definition sizeof_i860_thread_state_regs :: nat where
  "sizeof_i860_thread_state_regs = 392"

definition load_i860_thread_state_regs :: "endian \<Rightarrow> bytes \<Rightarrow> i860_thread_state_regs" where
  "load_i860_thread_state_regs e m =
     \<lparr>i860_ireg = get32s e m 0 31, i860_freg = get32s e m 124 30, i860_psr = get32 e m 244,
      i860_epsr = get32 e m 248, i860_db = get32 e m 252, i860_pc = get32 e m 256,
      i860_padding = get32 e m 260, i860_Mres3 = get64 e m 264, i860_Ares3 = get64 e m 272,
      i860_Mres2 = get64 e m 280, i860_Ares2 = get64 e m 288, i860_Mres1 = get64 e m 296,
      i860_Ares1 = get64 e m 304, i860_Ires1 = get64 e m 312, i860_Lres3m = get64 e m 320,
      i860_Lres2m = get64 e m 328, i860_Lres1m = get64 e m 336, i860_KR = get64 e m 344,
      i860_KI = get64 e m 352, i860_T = get64 e m 360, i860_Fsr3 = get32 e m 368,
      i860_Fsr2 = get32 e m 372, i860_Fsr1 = get32 e m 376, i860_Mergelo32 = get32 e m 380,
      i860_Mergehi32 = get32 e m 384, i860_tail_padding = subbytes 388 4 m\<rparr>"

definition store_i860_thread_state_regs :: "endian \<Rightarrow> i860_thread_state_regs \<Rightarrow> bytes" where
  "store_i860_thread_state_regs e x =
     put32s e (i860_ireg x) @ put32s e (i860_freg x) @ put32 e (i860_psr x) @
     put32 e (i860_epsr x) @ put32 e (i860_db x) @ put32 e (i860_pc x) @
     put32 e (i860_padding x) @ put64 e (i860_Mres3 x) @ put64 e (i860_Ares3 x) @
     put64 e (i860_Mres2 x) @ put64 e (i860_Ares2 x) @ put64 e (i860_Mres1 x) @
     put64 e (i860_Ares1 x) @ put64 e (i860_Ires1 x) @ put64 e (i860_Lres3m x) @
     put64 e (i860_Lres2m x) @ put64 e (i860_Lres1m x) @ put64 e (i860_KR x) @
     put64 e (i860_KI x) @ put64 e (i860_T x) @ put32 e (i860_Fsr3 x) @ put32 e (i860_Fsr2 x) @
     put32 e (i860_Fsr1 x) @ put32 e (i860_Mergelo32 x) @ put32 e (i860_Mergehi32 x) @
     i860_tail_padding x"

definition swap_i860_thread_state_regs :: "i860_thread_state_regs \<Rightarrow> i860_thread_state_regs" where
  "swap_i860_thread_state_regs x = x
     \<lparr>i860_ireg := map SWAP_INT (i860_ireg x), i860_freg := map SWAP_INT (i860_freg x),
      i860_psr := SWAP_INT (i860_psr x), i860_epsr := SWAP_INT (i860_epsr x),
      i860_db := SWAP_INT (i860_db x), i860_pc := SWAP_INT (i860_pc x),
      i860_padding := SWAP_INT (i860_padding x), i860_Mres3 := SWAP_DOUBLE (i860_Mres3 x),
      i860_Ares3 := SWAP_DOUBLE (i860_Ares3 x), i860_Mres2 := SWAP_DOUBLE (i860_Mres2 x),
      i860_Ares2 := SWAP_DOUBLE (i860_Ares2 x), i860_Mres1 := SWAP_DOUBLE (i860_Mres1 x),
      i860_Ares1 := SWAP_DOUBLE (i860_Ares1 x), i860_Ires1 := SWAP_DOUBLE (i860_Ires1 x),
      i860_Lres3m := SWAP_DOUBLE (i860_Lres3m x), i860_Lres2m := SWAP_DOUBLE (i860_Lres2m x),
      i860_Lres1m := SWAP_DOUBLE (i860_Lres1m x), i860_KR := SWAP_DOUBLE (i860_KR x),
      i860_KI := SWAP_DOUBLE (i860_KI x), i860_T := SWAP_DOUBLE (i860_T x),
      i860_Fsr3 := SWAP_INT (i860_Fsr3 x), i860_Fsr2 := SWAP_INT (i860_Fsr2 x),
      i860_Fsr1 := SWAP_INT (i860_Fsr1 x), i860_Mergelo32 := SWAP_INT (i860_Mergelo32 x),
      i860_Mergehi32 := SWAP_INT (i860_Mergehi32 x)\<rparr>"

lemmas i860_thread_state_regs_defs =
  sizeof_i860_thread_state_regs_def load_i860_thread_state_regs_def store_i860_thread_state_regs_def swap_i860_thread_state_regs_def

interpretation i860_thread_state_regs: struct_layout
    sizeof_i860_thread_state_regs load_i860_thread_state_regs store_i860_thread_state_regs
  by unfold_locales (simp_all add: i860_thread_state_regs_defs byte_simps)


section \<open>Intel 386 and x86-64\<close>

record i386_thread_state =
  i386_eax :: u32
  i386_ebx :: u32
  i386_ecx :: u32
  i386_edx :: u32
  i386_edi :: u32
  i386_esi :: u32
  i386_ebp :: u32
  i386_esp :: u32
  i386_ss :: u32
  i386_eflags :: u32
  i386_eip :: u32
  i386_cs :: u32
  i386_ds :: u32
  i386_es :: u32
  i386_fs :: u32
  i386_gs :: u32

definition sizeof_i386_thread_state :: nat where
  "sizeof_i386_thread_state = 64"

definition load_i386_thread_state :: "endian \<Rightarrow> bytes \<Rightarrow> i386_thread_state" where
  "load_i386_thread_state e m =
     \<lparr>i386_eax = get32 e m 0, i386_ebx = get32 e m 4, i386_ecx = get32 e m 8,
      i386_edx = get32 e m 12, i386_edi = get32 e m 16, i386_esi = get32 e m 20,
      i386_ebp = get32 e m 24, i386_esp = get32 e m 28, i386_ss = get32 e m 32,
      i386_eflags = get32 e m 36, i386_eip = get32 e m 40, i386_cs = get32 e m 44,
      i386_ds = get32 e m 48, i386_es = get32 e m 52, i386_fs = get32 e m 56,
      i386_gs = get32 e m 60\<rparr>"

definition store_i386_thread_state :: "endian \<Rightarrow> i386_thread_state \<Rightarrow> bytes" where
  "store_i386_thread_state e x =
     put32 e (i386_eax x) @ put32 e (i386_ebx x) @ put32 e (i386_ecx x) @ put32 e (i386_edx x) @
     put32 e (i386_edi x) @ put32 e (i386_esi x) @ put32 e (i386_ebp x) @ put32 e (i386_esp x) @
     put32 e (i386_ss x) @ put32 e (i386_eflags x) @ put32 e (i386_eip x) @
     put32 e (i386_cs x) @ put32 e (i386_ds x) @ put32 e (i386_es x) @ put32 e (i386_fs x) @
     put32 e (i386_gs x)"

definition swap_i386_thread_state :: "i386_thread_state \<Rightarrow> i386_thread_state" where
  "swap_i386_thread_state x = x
     \<lparr>i386_eax := SWAP_INT (i386_eax x), i386_ebx := SWAP_INT (i386_ebx x),
      i386_ecx := SWAP_INT (i386_ecx x), i386_edx := SWAP_INT (i386_edx x),
      i386_edi := SWAP_INT (i386_edi x), i386_esi := SWAP_INT (i386_esi x),
      i386_ebp := SWAP_INT (i386_ebp x), i386_esp := SWAP_INT (i386_esp x),
      i386_ss := SWAP_INT (i386_ss x), i386_eflags := SWAP_INT (i386_eflags x),
      i386_eip := SWAP_INT (i386_eip x), i386_cs := SWAP_INT (i386_cs x),
      i386_ds := SWAP_INT (i386_ds x), i386_es := SWAP_INT (i386_es x),
      i386_fs := SWAP_INT (i386_fs x), i386_gs := SWAP_INT (i386_gs x)\<rparr>"

lemmas i386_thread_state_defs =
  sizeof_i386_thread_state_def load_i386_thread_state_def store_i386_thread_state_def swap_i386_thread_state_def

interpretation i386_thread_state: struct_codec
    sizeof_i386_thread_state load_i386_thread_state store_i386_thread_state swap_i386_thread_state
  by unfold_locales (simp_all add: i386_thread_state_defs byte_simps)


text \<open>
  The 16-bit \<open>trapno\<close> goes through the 32-bit macro and \<open>cpu\<close> is left as it is.
\<close>

record i386_exception_state =
  i386exc_trapno :: u16
  i386exc_cpu :: u16
  i386exc_err :: u32
  i386exc_faultvaddr :: u32

definition sizeof_i386_exception_state :: nat where
  "sizeof_i386_exception_state = 12"

definition load_i386_exception_state :: "endian \<Rightarrow> bytes \<Rightarrow> i386_exception_state" where
  "load_i386_exception_state e m =
     \<lparr>i386exc_trapno = get16 e m 0, i386exc_cpu = get16 e m 2, i386exc_err = get32 e m 4,
      i386exc_faultvaddr = get32 e m 8\<rparr>"

definition store_i386_exception_state :: "endian \<Rightarrow> i386_exception_state \<Rightarrow> bytes" where
  "store_i386_exception_state e x =
     put16 e (i386exc_trapno x) @ put16 e (i386exc_cpu x) @ put32 e (i386exc_err x) @
     put32 e (i386exc_faultvaddr x)"

definition swap_i386_exception_state :: "i386_exception_state \<Rightarrow> i386_exception_state" where
  "swap_i386_exception_state x = x
     \<lparr>i386exc_trapno := ucast (SWAP_INT (ucast (i386exc_trapno x))),
      i386exc_err := SWAP_INT (i386exc_err x),
      i386exc_faultvaddr := SWAP_INT (i386exc_faultvaddr x)\<rparr>"

lemmas i386_exception_state_defs =
  sizeof_i386_exception_state_def load_i386_exception_state_def store_i386_exception_state_def swap_i386_exception_state_def

interpretation i386_exception_state: struct_layout
    sizeof_i386_exception_state load_i386_exception_state store_i386_exception_state
  by unfold_locales (simp_all add: i386_exception_state_defs byte_simps)


record x86_thread_state64 =
  x64_rax :: u64
  x64_rbx :: u64
  x64_rcx :: u64
  x64_rdx :: u64
  x64_rdi :: u64
  x64_rsi :: u64
  x64_rbp :: u64
  x64_rsp :: u64
  x64_r8 :: u64
  x64_r9 :: u64
  x64_r10 :: u64
  x64_r11 :: u64
  x64_r12 :: u64
  x64_r13 :: u64
  x64_r14 :: u64
  x64_r15 :: u64
  x64_rip :: u64
  x64_rflags :: u64
  x64_cs :: u64
  x64_fs :: u64
  x64_gs :: u64

definition sizeof_x86_thread_state64 :: nat where
  "sizeof_x86_thread_state64 = 168"

definition load_x86_thread_state64 :: "endian \<Rightarrow> bytes \<Rightarrow> x86_thread_state64" where
  "load_x86_thread_state64 e m =
     \<lparr>x64_rax = get64 e m 0, x64_rbx = get64 e m 8, x64_rcx = get64 e m 16,
      x64_rdx = get64 e m 24, x64_rdi = get64 e m 32, x64_rsi = get64 e m 40,
      x64_rbp = get64 e m 48, x64_rsp = get64 e m 56, x64_r8 = get64 e m 64,
      x64_r9 = get64 e m 72, x64_r10 = get64 e m 80, x64_r11 = get64 e m 88,
      x64_r12 = get64 e m 96, x64_r13 = get64 e m 104, x64_r14 = get64 e m 112,
      x64_r15 = get64 e m 120, x64_rip = get64 e m 128, x64_rflags = get64 e m 136,
      x64_cs = get64 e m 144, x64_fs = get64 e m 152, x64_gs = get64 e m 160\<rparr>"

definition store_x86_thread_state64 :: "endian \<Rightarrow> x86_thread_state64 \<Rightarrow> bytes" where
  "store_x86_thread_state64 e x =
     put64 e (x64_rax x) @ put64 e (x64_rbx x) @ put64 e (x64_rcx x) @ put64 e (x64_rdx x) @
     put64 e (x64_rdi x) @ put64 e (x64_rsi x) @ put64 e (x64_rbp x) @ put64 e (x64_rsp x) @
     put64 e (x64_r8 x) @ put64 e (x64_r9 x) @ put64 e (x64_r10 x) @ put64 e (x64_r11 x) @
     put64 e (x64_r12 x) @ put64 e (x64_r13 x) @ put64 e (x64_r14 x) @ put64 e (x64_r15 x) @
     put64 e (x64_rip x) @ put64 e (x64_rflags x) @ put64 e (x64_cs x) @ put64 e (x64_fs x) @
     put64 e (x64_gs x)"

definition swap_x86_thread_state64 :: "x86_thread_state64 \<Rightarrow> x86_thread_state64" where
  "swap_x86_thread_state64 x = x
     \<lparr>x64_rax := SWAP_LONG_LONG (x64_rax x), x64_rbx := SWAP_LONG_LONG (x64_rbx x),
      x64_rcx := SWAP_LONG_LONG (x64_rcx x), x64_rdx := SWAP_LONG_LONG (x64_rdx x),
      x64_rdi := SWAP_LONG_LONG (x64_rdi x), x64_rsi := SWAP_LONG_LONG (x64_rsi x),
      x64_rbp := SWAP_LONG_LONG (x64_rbp x), x64_rsp := SWAP_LONG_LONG (x64_rsp x),
      x64_rflags := SWAP_LONG_LONG (x64_rflags x), x64_rip := SWAP_LONG_LONG (x64_rip x),
      x64_r8 := SWAP_LONG_LONG (x64_r8 x), x64_r9 := SWAP_LONG_LONG (x64_r9 x),
      x64_r10 := SWAP_LONG_LONG (x64_r10 x), x64_r11 := SWAP_LONG_LONG (x64_r11 x),
      x64_r12 := SWAP_LONG_LONG (x64_r12 x), x64_r13 := SWAP_LONG_LONG (x64_r13 x),
      x64_r14 := SWAP_LONG_LONG (x64_r14 x), x64_r15 := SWAP_LONG_LONG (x64_r15 x),
      x64_cs := SWAP_LONG_LONG (x64_cs x), x64_fs := SWAP_LONG_LONG (x64_fs x),
      x64_gs := SWAP_LONG_LONG (x64_gs x)\<rparr>"

lemmas x86_thread_state64_defs =
  sizeof_x86_thread_state64_def load_x86_thread_state64_def store_x86_thread_state64_def swap_x86_thread_state64_def

interpretation x86_thread_state64: struct_codec
    sizeof_x86_thread_state64 load_x86_thread_state64 store_x86_thread_state64 swap_x86_thread_state64
  by unfold_locales (simp_all add: x86_thread_state64_defs byte_simps)


section \<open>HP PA-RISC\<close>

record hp_pa_integer_thread_state =
  hppa_ts_gr1 :: u32
  hppa_ts_gr2 :: u32
  hppa_ts_gr3 :: u32
  hppa_ts_gr4 :: u32
  hppa_ts_gr5 :: u32
  hppa_ts_gr6 :: u32
  hppa_ts_gr7 :: u32
  hppa_ts_gr8 :: u32
  hppa_ts_gr9 :: u32
  hppa_ts_gr10 :: u32
  hppa_ts_gr11 :: u32
  hppa_ts_gr12 :: u32
  hppa_ts_gr13 :: u32
  hppa_ts_gr14 :: u32
  hppa_ts_gr15 :: u32
  hppa_ts_gr16 :: u32
  hppa_ts_gr17 :: u32
  hppa_ts_gr18 :: u32
  hppa_ts_gr19 :: u32
  hppa_ts_gr20 :: u32
  hppa_ts_gr21 :: u32
  hppa_ts_gr22 :: u32
  hppa_ts_gr23 :: u32
  hppa_ts_gr24 :: u32
  hppa_ts_gr25 :: u32
  hppa_ts_gr26 :: u32
  hppa_ts_gr27 :: u32
  hppa_ts_gr28 :: u32
  hppa_ts_gr29 :: u32
  hppa_ts_gr30 :: u32
  hppa_ts_gr31 :: u32
  hppa_ts_sr0 :: u32
  hppa_ts_sr1 :: u32
  hppa_ts_sr2 :: u32
  hppa_ts_sr3 :: u32
  hppa_ts_sar :: u32

definition sizeof_hp_pa_integer_thread_state :: nat where
  "sizeof_hp_pa_integer_thread_state = 144"

definition load_hp_pa_integer_thread_state :: "endian \<Rightarrow> bytes \<Rightarrow> hp_pa_integer_thread_state" where
  "load_hp_pa_integer_thread_state e m =
     \<lparr>hppa_ts_gr1 = get32 e m 0, hppa_ts_gr2 = get32 e m 4, hppa_ts_gr3 = get32 e m 8,
      hppa_ts_gr4 = get32 e m 12, hppa_ts_gr5 = get32 e m 16, hppa_ts_gr6 = get32 e m 20,
      hppa_ts_gr7 = get32 e m 24, hppa_ts_gr8 = get32 e m 28, hppa_ts_gr9 = get32 e m 32,
      hppa_ts_gr10 = get32 e m 36, hppa_ts_gr11 = get32 e m 40, hppa_ts_gr12 = get32 e m 44,
      hppa_ts_gr13 = get32 e m 48, hppa_ts_gr14 = get32 e m 52, hppa_ts_gr15 = get32 e m 56,
      hppa_ts_gr16 = get32 e m 60, hppa_ts_gr17 = get32 e m 64, hppa_ts_gr18 = get32 e m 68,
      hppa_ts_gr19 = get32 e m 72, hppa_ts_gr20 = get32 e m 76, hppa_ts_gr21 = get32 e m 80,
      hppa_ts_gr22 = get32 e m 84, hppa_ts_gr23 = get32 e m 88, hppa_ts_gr24 = get32 e m 92,
      hppa_ts_gr25 = get32 e m 96, hppa_ts_gr26 = get32 e m 100, hppa_ts_gr27 = get32 e m 104,
      hppa_ts_gr28 = get32 e m 108, hppa_ts_gr29 = get32 e m 112, hppa_ts_gr30 = get32 e m 116,
      hppa_ts_gr31 = get32 e m 120, hppa_ts_sr0 = get32 e m 124, hppa_ts_sr1 = get32 e m 128,
      hppa_ts_sr2 = get32 e m 132, hppa_ts_sr3 = get32 e m 136, hppa_ts_sar = get32 e m 140\<rparr>"

definition store_hp_pa_integer_thread_state :: "endian \<Rightarrow> hp_pa_integer_thread_state \<Rightarrow> bytes" where
  "store_hp_pa_integer_thread_state e x =
     put32 e (hppa_ts_gr1 x) @ put32 e (hppa_ts_gr2 x) @ put32 e (hppa_ts_gr3 x) @
     put32 e (hppa_ts_gr4 x) @ put32 e (hppa_ts_gr5 x) @ put32 e (hppa_ts_gr6 x) @
     put32 e (hppa_ts_gr7 x) @ put32 e (hppa_ts_gr8 x) @ put32 e (hppa_ts_gr9 x) @
     put32 e (hppa_ts_gr10 x) @ put32 e (hppa_ts_gr11 x) @ put32 e (hppa_ts_gr12 x) @
     put32 e (hppa_ts_gr13 x) @ put32 e (hppa_ts_gr14 x) @ put32 e (hppa_ts_gr15 x) @
     put32 e (hppa_ts_gr16 x) @ put32 e (hppa_ts_gr17 x) @ put32 e (hppa_ts_gr18 x) @
     put32 e (hppa_ts_gr19 x) @ put32 e (hppa_ts_gr20 x) @ put32 e (hppa_ts_gr21 x) @
     put32 e (hppa_ts_gr22 x) @ put32 e (hppa_ts_gr23 x) @ put32 e (hppa_ts_gr24 x) @
     put32 e (hppa_ts_gr25 x) @ put32 e (hppa_ts_gr26 x) @ put32 e (hppa_ts_gr27 x) @
     put32 e (hppa_ts_gr28 x) @ put32 e (hppa_ts_gr29 x) @ put32 e (hppa_ts_gr30 x) @
     put32 e (hppa_ts_gr31 x) @ put32 e (hppa_ts_sr0 x) @ put32 e (hppa_ts_sr1 x) @
     put32 e (hppa_ts_sr2 x) @ put32 e (hppa_ts_sr3 x) @ put32 e (hppa_ts_sar x)"

definition swap_hppa_integer_thread_state :: "hp_pa_integer_thread_state \<Rightarrow> hp_pa_integer_thread_state" where
  "swap_hppa_integer_thread_state x = x
     \<lparr>hppa_ts_gr1 := SWAP_INT (hppa_ts_gr1 x), hppa_ts_gr2 := SWAP_INT (hppa_ts_gr2 x),
      hppa_ts_gr3 := SWAP_INT (hppa_ts_gr3 x), hppa_ts_gr4 := SWAP_INT (hppa_ts_gr4 x),
      hppa_ts_gr5 := SWAP_INT (hppa_ts_gr5 x), hppa_ts_gr6 := SWAP_INT (hppa_ts_gr6 x),
      hppa_ts_gr7 := SWAP_INT (hppa_ts_gr7 x), hppa_ts_gr8 := SWAP_INT (hppa_ts_gr8 x),
      hppa_ts_gr9 := SWAP_INT (hppa_ts_gr9 x), hppa_ts_gr10 := SWAP_INT (hppa_ts_gr10 x),
      hppa_ts_gr11 := SWAP_INT (hppa_ts_gr11 x), hppa_ts_gr12 := SWAP_INT (hppa_ts_gr12 x),
      hppa_ts_gr13 := SWAP_INT (hppa_ts_gr13 x), hppa_ts_gr14 := SWAP_INT (hppa_ts_gr14 x),
      hppa_ts_gr15 := SWAP_INT (hppa_ts_gr15 x), hppa_ts_gr16 := SWAP_INT (hppa_ts_gr16 x),
      hppa_ts_gr17 := SWAP_INT (hppa_ts_gr17 x), hppa_ts_gr18 := SWAP_INT (hppa_ts_gr18 x),
      hppa_ts_gr19 := SWAP_INT (hppa_ts_gr19 x), hppa_ts_gr20 := SWAP_INT (hppa_ts_gr20 x),
      hppa_ts_gr21 := SWAP_INT (hppa_ts_gr21 x), hppa_ts_gr22 := SWAP_INT (hppa_ts_gr22 x),
      hppa_ts_gr23 := SWAP_INT (hppa_ts_gr23 x), hppa_ts_gr24 := SWAP_INT (hppa_ts_gr24 x),
      hppa_ts_gr25 := SWAP_INT (hppa_ts_gr25 x), hppa_ts_gr26 := SWAP_INT (hppa_ts_gr26 x),
      hppa_ts_gr27 := SWAP_INT (hppa_ts_gr27 x), hppa_ts_gr28 := SWAP_INT (hppa_ts_gr28 x),
      hppa_ts_gr29 := SWAP_INT (hppa_ts_gr29 x), hppa_ts_gr30 := SWAP_INT (hppa_ts_gr30 x),
      hppa_ts_gr31 := SWAP_INT (hppa_ts_gr31 x), hppa_ts_sr0 := SWAP_INT (hppa_ts_sr0 x),
      hppa_ts_sr1 := SWAP_INT (hppa_ts_sr1 x), hppa_ts_sr2 := SWAP_INT (hppa_ts_sr2 x),
      hppa_ts_sr3 := SWAP_INT (hppa_ts_sr3 x), hppa_ts_sar := SWAP_INT (hppa_ts_sar x)\<rparr>"

lemmas hp_pa_integer_thread_state_defs =
  sizeof_hp_pa_integer_thread_state_def load_hp_pa_integer_thread_state_def store_hp_pa_integer_thread_state_def swap_hppa_integer_thread_state_def

interpretation hp_pa_integer_thread_state: struct_codec
    sizeof_hp_pa_integer_thread_state load_hp_pa_integer_thread_state store_hp_pa_integer_thread_state swap_hppa_integer_thread_state
  by unfold_locales (simp_all add: hp_pa_integer_thread_state_defs byte_simps)


text \<open>
  The routine leaves the two trap-reflection flags as they are.
\<close>

record hp_pa_frame_thread_state =
  hppafr_ts_pcsq_front :: u32
  hppafr_ts_pcsq_back :: u32
  hppafr_ts_pcoq_front :: u32
  hppafr_ts_pcoq_back :: u32
  hppafr_ts_psw :: u32
  hppafr_ts_unaligned_faults :: u32
  hppafr_ts_fault_address :: u32
  hppafr_ts_step_range_start :: u32
  hppafr_ts_step_range_stop :: u32
  hppafr_ts_alignment_trap_reflect :: u32
  hppafr_ts_execution_trap_reflect :: u32

definition sizeof_hp_pa_frame_thread_state :: nat where
  "sizeof_hp_pa_frame_thread_state = 44"

definition load_hp_pa_frame_thread_state :: "endian \<Rightarrow> bytes \<Rightarrow> hp_pa_frame_thread_state" where
  "load_hp_pa_frame_thread_state e m =
     \<lparr>hppafr_ts_pcsq_front = get32 e m 0, hppafr_ts_pcsq_back = get32 e m 4,
      hppafr_ts_pcoq_front = get32 e m 8, hppafr_ts_pcoq_back = get32 e m 12,
      hppafr_ts_psw = get32 e m 16, hppafr_ts_unaligned_faults = get32 e m 20,
      hppafr_ts_fault_address = get32 e m 24, hppafr_ts_step_range_start = get32 e m 28,
      hppafr_ts_step_range_stop = get32 e m 32, hppafr_ts_alignment_trap_reflect = get32 e m 36,
      hppafr_ts_execution_trap_reflect = get32 e m 40\<rparr>"

definition store_hp_pa_frame_thread_state :: "endian \<Rightarrow> hp_pa_frame_thread_state \<Rightarrow> bytes" where
  "store_hp_pa_frame_thread_state e x =
     put32 e (hppafr_ts_pcsq_front x) @ put32 e (hppafr_ts_pcsq_back x) @
     put32 e (hppafr_ts_pcoq_front x) @ put32 e (hppafr_ts_pcoq_back x) @
     put32 e (hppafr_ts_psw x) @ put32 e (hppafr_ts_unaligned_faults x) @
     put32 e (hppafr_ts_fault_address x) @ put32 e (hppafr_ts_step_range_start x) @
     put32 e (hppafr_ts_step_range_stop x) @ put32 e (hppafr_ts_alignment_trap_reflect x) @
     put32 e (hppafr_ts_execution_trap_reflect x)"

definition swap_hppa_frame_thread_state :: "hp_pa_frame_thread_state \<Rightarrow> hp_pa_frame_thread_state" where
  "swap_hppa_frame_thread_state x = x
     \<lparr>hppafr_ts_pcsq_front := SWAP_INT (hppafr_ts_pcsq_front x),
      hppafr_ts_pcsq_back := SWAP_INT (hppafr_ts_pcsq_back x),
      hppafr_ts_pcoq_front := SWAP_INT (hppafr_ts_pcoq_front x),
      hppafr_ts_pcoq_back := SWAP_INT (hppafr_ts_pcoq_back x),
      hppafr_ts_psw := SWAP_INT (hppafr_ts_psw x),
      hppafr_ts_unaligned_faults := SWAP_INT (hppafr_ts_unaligned_faults x),
      hppafr_ts_fault_address := SWAP_INT (hppafr_ts_fault_address x),
      hppafr_ts_step_range_start := SWAP_INT (hppafr_ts_step_range_start x),
      hppafr_ts_step_range_stop := SWAP_INT (hppafr_ts_step_range_stop x)\<rparr>"

lemmas hp_pa_frame_thread_state_defs =
  sizeof_hp_pa_frame_thread_state_def load_hp_pa_frame_thread_state_def store_hp_pa_frame_thread_state_def swap_hppa_frame_thread_state_def

interpretation hp_pa_frame_thread_state: struct_layout
    sizeof_hp_pa_frame_thread_state load_hp_pa_frame_thread_state store_hp_pa_frame_thread_state
  by unfold_locales (simp_all add: hp_pa_frame_thread_state_defs byte_simps)


record hp_pa_fp_thread_state =
  hppafp_ts_fp0 :: u64
  hppafp_ts_fp1 :: u64
  hppafp_ts_fp2 :: u64
  hppafp_ts_fp3 :: u64
  hppafp_ts_fp4 :: u64
  hppafp_ts_fp5 :: u64
  hppafp_ts_fp6 :: u64
  hppafp_ts_fp7 :: u64
  hppafp_ts_fp8 :: u64
  hppafp_ts_fp9 :: u64
  hppafp_ts_fp10 :: u64
  hppafp_ts_fp11 :: u64
  hppafp_ts_fp12 :: u64
  hppafp_ts_fp13 :: u64
  hppafp_ts_fp14 :: u64
  hppafp_ts_fp15 :: u64
  hppafp_ts_fp16 :: u64
  hppafp_ts_fp17 :: u64
  hppafp_ts_fp18 :: u64
  hppafp_ts_fp19 :: u64
  hppafp_ts_fp20 :: u64
  hppafp_ts_fp21 :: u64
  hppafp_ts_fp22 :: u64
  hppafp_ts_fp23 :: u64
  hppafp_ts_fp24 :: u64
  hppafp_ts_fp25 :: u64
  hppafp_ts_fp26 :: u64
  hppafp_ts_fp27 :: u64
  hppafp_ts_fp28 :: u64
  hppafp_ts_fp29 :: u64
  hppafp_ts_fp30 :: u64
  hppafp_ts_fp31 :: u64

definition sizeof_hp_pa_fp_thread_state :: nat where
  "sizeof_hp_pa_fp_thread_state = 256"

definition load_hp_pa_fp_thread_state :: "endian \<Rightarrow> bytes \<Rightarrow> hp_pa_fp_thread_state" where
  "load_hp_pa_fp_thread_state e m =
     \<lparr>hppafp_ts_fp0 = get64 e m 0, hppafp_ts_fp1 = get64 e m 8, hppafp_ts_fp2 = get64 e m 16,
      hppafp_ts_fp3 = get64 e m 24, hppafp_ts_fp4 = get64 e m 32, hppafp_ts_fp5 = get64 e m 40,
      hppafp_ts_fp6 = get64 e m 48, hppafp_ts_fp7 = get64 e m 56, hppafp_ts_fp8 = get64 e m 64,
      hppafp_ts_fp9 = get64 e m 72, hppafp_ts_fp10 = get64 e m 80,
      hppafp_ts_fp11 = get64 e m 88, hppafp_ts_fp12 = get64 e m 96,
      hppafp_ts_fp13 = get64 e m 104, hppafp_ts_fp14 = get64 e m 112,
      hppafp_ts_fp15 = get64 e m 120, hppafp_ts_fp16 = get64 e m 128,
      hppafp_ts_fp17 = get64 e m 136, hppafp_ts_fp18 = get64 e m 144,
      hppafp_ts_fp19 = get64 e m 152, hppafp_ts_fp20 = get64 e m 160,
      hppafp_ts_fp21 = get64 e m 168, hppafp_ts_fp22 = get64 e m 176,
      hppafp_ts_fp23 = get64 e m 184, hppafp_ts_fp24 = get64 e m 192,
      hppafp_ts_fp25 = get64 e m 200, hppafp_ts_fp26 = get64 e m 208,
      hppafp_ts_fp27 = get64 e m 216, hppafp_ts_fp28 = get64 e m 224,
      hppafp_ts_fp29 = get64 e m 232, hppafp_ts_fp30 = get64 e m 240,
      hppafp_ts_fp31 = get64 e m 248\<rparr>"

definition store_hp_pa_fp_thread_state :: "endian \<Rightarrow> hp_pa_fp_thread_state \<Rightarrow> bytes" where
  "store_hp_pa_fp_thread_state e x =
     put64 e (hppafp_ts_fp0 x) @ put64 e (hppafp_ts_fp1 x) @ put64 e (hppafp_ts_fp2 x) @
     put64 e (hppafp_ts_fp3 x) @ put64 e (hppafp_ts_fp4 x) @ put64 e (hppafp_ts_fp5 x) @
     put64 e (hppafp_ts_fp6 x) @ put64 e (hppafp_ts_fp7 x) @ put64 e (hppafp_ts_fp8 x) @
     put64 e (hppafp_ts_fp9 x) @ put64 e (hppafp_ts_fp10 x) @ put64 e (hppafp_ts_fp11 x) @
     put64 e (hppafp_ts_fp12 x) @ put64 e (hppafp_ts_fp13 x) @ put64 e (hppafp_ts_fp14 x) @
     put64 e (hppafp_ts_fp15 x) @ put64 e (hppafp_ts_fp16 x) @ put64 e (hppafp_ts_fp17 x) @
     put64 e (hppafp_ts_fp18 x) @ put64 e (hppafp_ts_fp19 x) @ put64 e (hppafp_ts_fp20 x) @
     put64 e (hppafp_ts_fp21 x) @ put64 e (hppafp_ts_fp22 x) @ put64 e (hppafp_ts_fp23 x) @
     put64 e (hppafp_ts_fp24 x) @ put64 e (hppafp_ts_fp25 x) @ put64 e (hppafp_ts_fp26 x) @
     put64 e (hppafp_ts_fp27 x) @ put64 e (hppafp_ts_fp28 x) @ put64 e (hppafp_ts_fp29 x) @
     put64 e (hppafp_ts_fp30 x) @ put64 e (hppafp_ts_fp31 x)"

definition swap_hppa_fp_thread_state :: "hp_pa_fp_thread_state \<Rightarrow> hp_pa_fp_thread_state" where
  "swap_hppa_fp_thread_state x = x
     \<lparr>hppafp_ts_fp0 := SWAP_DOUBLE (hppafp_ts_fp0 x),
      hppafp_ts_fp1 := SWAP_DOUBLE (hppafp_ts_fp1 x),
      hppafp_ts_fp2 := SWAP_DOUBLE (hppafp_ts_fp2 x),
      hppafp_ts_fp3 := SWAP_DOUBLE (hppafp_ts_fp3 x),
      hppafp_ts_fp4 := SWAP_DOUBLE (hppafp_ts_fp4 x),
      hppafp_ts_fp5 := SWAP_DOUBLE (hppafp_ts_fp5 x),
      hppafp_ts_fp6 := SWAP_DOUBLE (hppafp_ts_fp6 x),
      hppafp_ts_fp7 := SWAP_DOUBLE (hppafp_ts_fp7 x),
      hppafp_ts_fp8 := SWAP_DOUBLE (hppafp_ts_fp8 x),
      hppafp_ts_fp9 := SWAP_DOUBLE (hppafp_ts_fp9 x),
      hppafp_ts_fp10 := SWAP_DOUBLE (hppafp_ts_fp10 x),
      hppafp_ts_fp11 := SWAP_DOUBLE (hppafp_ts_fp11 x),
      hppafp_ts_fp12 := SWAP_DOUBLE (hppafp_ts_fp12 x),
      hppafp_ts_fp13 := SWAP_DOUBLE (hppafp_ts_fp13 x),
      hppafp_ts_fp14 := SWAP_DOUBLE (hppafp_ts_fp14 x),
      hppafp_ts_fp15 := SWAP_DOUBLE (hppafp_ts_fp15 x),
      hppafp_ts_fp16 := SWAP_DOUBLE (hppafp_ts_fp16 x),
      hppafp_ts_fp17 := SWAP_DOUBLE (hppafp_ts_fp17 x),
      hppafp_ts_fp18 := SWAP_DOUBLE (hppafp_ts_fp18 x),
      hppafp_ts_fp19 := SWAP_DOUBLE (hppafp_ts_fp19 x),
      hppafp_ts_fp20 := SWAP_DOUBLE (hppafp_ts_fp20 x),
      hppafp_ts_fp21 := SWAP_DOUBLE (hppafp_ts_fp21 x),
      hppafp_ts_fp22 := SWAP_DOUBLE (hppafp_ts_fp22 x),
      hppafp_ts_fp23 := SWAP_DOUBLE (hppafp_ts_fp23 x),
      hppafp_ts_fp24 := SWAP_DOUBLE (hppafp_ts_fp24 x),
      hppafp_ts_fp25 := SWAP_DOUBLE (hppafp_ts_fp25 x),
      hppafp_ts_fp26 := SWAP_DOUBLE (hppafp_ts_fp26 x),
      hppafp_ts_fp27 := SWAP_DOUBLE (hppafp_ts_fp27 x),
      hppafp_ts_fp28 := SWAP_DOUBLE (hppafp_ts_fp28 x),
      hppafp_ts_fp29 := SWAP_DOUBLE (hppafp_ts_fp29 x),
      hppafp_ts_fp30 := SWAP_DOUBLE (hppafp_ts_fp30 x),
      hppafp_ts_fp31 := SWAP_DOUBLE (hppafp_ts_fp31 x)\<rparr>"

lemmas hp_pa_fp_thread_state_defs =
  sizeof_hp_pa_fp_thread_state_def load_hp_pa_fp_thread_state_def store_hp_pa_fp_thread_state_def swap_hppa_fp_thread_state_def

interpretation hp_pa_fp_thread_state: struct_codec
    sizeof_hp_pa_fp_thread_state load_hp_pa_fp_thread_state store_hp_pa_fp_thread_state swap_hppa_fp_thread_state
  by unfold_locales (simp_all add: hp_pa_fp_thread_state_defs byte_simps)


section \<open>ARM\<close>

record arm_thread_state =
  arm_r :: "u32 list"
  arm_sp :: u32
  arm_lr :: u32
  arm_pc :: u32
  arm_cpsr :: u32

definition sizeof_arm_thread_state :: nat where
  "sizeof_arm_thread_state = 68"

definition load_arm_thread_state :: "endian \<Rightarrow> bytes \<Rightarrow> arm_thread_state" where
  "load_arm_thread_state e m =
     \<lparr>arm_r = get32s e m 0 13, arm_sp = get32 e m 52, arm_lr = get32 e m 56,
      arm_pc = get32 e m 60, arm_cpsr = get32 e m 64\<rparr>"

definition store_arm_thread_state :: "endian \<Rightarrow> arm_thread_state \<Rightarrow> bytes" where
  "store_arm_thread_state e x =
     put32s e (arm_r x) @ put32 e (arm_sp x) @ put32 e (arm_lr x) @ put32 e (arm_pc x) @
     put32 e (arm_cpsr x)"

definition swap_arm_thread_state_t :: "arm_thread_state \<Rightarrow> arm_thread_state" where
  "swap_arm_thread_state_t x = x
     \<lparr>arm_r := map SWAP_INT (arm_r x), arm_sp := SWAP_INT (arm_sp x),
      arm_lr := SWAP_INT (arm_lr x), arm_pc := SWAP_INT (arm_pc x),
      arm_cpsr := SWAP_INT (arm_cpsr x)\<rparr>"

lemmas arm_thread_state_defs =
  sizeof_arm_thread_state_def load_arm_thread_state_def store_arm_thread_state_def swap_arm_thread_state_t_def

interpretation arm_thread_state: struct_codec
    sizeof_arm_thread_state load_arm_thread_state store_arm_thread_state swap_arm_thread_state_t
  by unfold_locales (simp_all add: arm_thread_state_defs byte_simps)


text \<open>
  The 64-bit state ends in four bytes of padding.
\<close>

record arm_thread_state64 =
  arm64_x :: "u64 list"
  arm64_fp :: u64
  arm64_lr :: u64
  arm64_sp :: u64
  arm64_pc :: u64
  arm64_cpsr :: u32
  arm64_tail_padding :: bytes

definition sizeof_arm_thread_state64 :: nat where
  "sizeof_arm_thread_state64 = 272"

definition load_arm_thread_state64 :: "endian \<Rightarrow> bytes \<Rightarrow> arm_thread_state64" where
  "load_arm_thread_state64 e m =
     \<lparr>arm64_x = get64s e m 0 29, arm64_fp = get64 e m 232, arm64_lr = get64 e m 240,
      arm64_sp = get64 e m 248, arm64_pc = get64 e m 256, arm64_cpsr = get32 e m 264,
      arm64_tail_padding = subbytes 268 4 m\<rparr>"

definition store_arm_thread_state64 :: "endian \<Rightarrow> arm_thread_state64 \<Rightarrow> bytes" where
  "store_arm_thread_state64 e x =
     put64s e (arm64_x x) @ put64 e (arm64_fp x) @ put64 e (arm64_lr x) @ put64 e (arm64_sp x) @
     put64 e (arm64_pc x) @ put32 e (arm64_cpsr x) @ arm64_tail_padding x"

definition swap_arm_thread_state64_t :: "arm_thread_state64 \<Rightarrow> arm_thread_state64" where
  "swap_arm_thread_state64_t x = x
     \<lparr>arm64_x := map SWAP_LONG_LONG (arm64_x x), arm64_fp := SWAP_LONG_LONG (arm64_fp x),
      arm64_lr := SWAP_LONG_LONG (arm64_lr x), arm64_sp := SWAP_LONG_LONG (arm64_sp x),
      arm64_pc := SWAP_LONG_LONG (arm64_pc x), arm64_cpsr := SWAP_INT (arm64_cpsr x)\<rparr>"

lemmas arm_thread_state64_defs =
  sizeof_arm_thread_state64_def load_arm_thread_state64_def store_arm_thread_state64_def swap_arm_thread_state64_t_def

interpretation arm_thread_state64: struct_layout
    sizeof_arm_thread_state64 load_arm_thread_state64 store_arm_thread_state64
  by unfold_locales (simp_all add: arm_thread_state64_defs byte_simps)


end
