(* ===== verification/Swap_Check.thy ===== *)
theory Swap_Check
  imports Outcomes Macho_Constants Macho_Commands Thread_States Thread_States_2
begin

text \<open>
  The first pass of \<open>swap_object_headers\<close> (\<open>libstuff/swap_headers.c\<close>): the walk over the
  load commands that checks them to the level that they can be parsed and then
  swapped.  The load commands are a byte buffer, a pointer into them is an offset.
  The outcome of a step is a value, one of the errors the code reports, or \<open>Fault\<close>:
  an access outside the buffer, which C leaves undefined.

  Cases of the switch that have the same shape are rows of a table: commands that
  have one size, commands with a string in them, the register flavors of a thread
  command.  Sizes are those of a 64-bit host.
\<close>

section \<open>Errors\<close>

text \<open>
  One constructor per error message; \<open>nat\<close> arguments are the number of the load
  command or of the register flavor, as in the message.
\<close>

datatype swap_error =
    Not_multiple nat nat
  | Past_end nat
  | Zero_cmdsize nat
  | Inconsistent_nsects u32 nat
  | Incorrect_cmdsize u32 nat
  | Too_small u32 nat
  | Offset_past_end u32 nat
  | Wrong_count u32 nat u32 nat
  | Unknown_flavor u32 nat u32 nat
  | Unknown_cputype u32 u32 u32 nat
  | Unknown_command nat
  | Next_past_end nat
  | Inconsistent_sizeofcmds

type_synonym 'a outcome = "(swap_error, 'a) result"

definition read32 :: "endian \<Rightarrow> bytes \<Rightarrow> nat \<Rightarrow> u32 outcome" where
  "read32 e m p = (if p + 4 \<le> length m then Ok (get32 e m p) else Fault)"

section \<open>The cases of the switch\<close>

text \<open>Commands that must have exactly the size of their structure.\<close>

definition exact_symbols :: "(u32 \<times> nat) list" where
  "exact_symbols =
     [(LC_SYMTAB, sizeof_symtab_command),
      (LC_DYSYMTAB, sizeof_dysymtab_command),
      (LC_SYMSEG, sizeof_symseg_command)]"

definition exact_routines :: "(u32 \<times> nat) list" where
  "exact_routines =
     [(LC_ROUTINES, sizeof_routines_command),
      (LC_ROUTINES_64, sizeof_routines_command_64),
      (LC_TWOLEVEL_HINTS, sizeof_twolevel_hints_command),
      (LC_PREBIND_CKSUM, sizeof_prebind_cksum_command),
      (LC_UUID, sizeof_uuid_command)]"

definition exact_linkedit :: "(u32 \<times> nat) list" where
  "exact_linkedit =
     [(LC_CODE_SIGNATURE, sizeof_linkedit_data_command),
      (LC_SEGMENT_SPLIT_INFO, sizeof_linkedit_data_command),
      (LC_FUNCTION_STARTS, sizeof_linkedit_data_command),
      (LC_DATA_IN_CODE, sizeof_linkedit_data_command),
      (LC_ATOM_INFO, sizeof_linkedit_data_command),
      (LC_DYLIB_CODE_SIGN_DRS, sizeof_linkedit_data_command),
      (LC_LINKER_OPTIMIZATION_HINT, sizeof_linkedit_data_command)]"

definition exact_versions :: "(u32 \<times> nat) list" where
  "exact_versions =
     [(LC_VERSION_MIN_MACOSX, sizeof_version_min_command),
      (LC_VERSION_MIN_IPHONEOS, sizeof_version_min_command),
      (LC_VERSION_MIN_TVOS, sizeof_version_min_command),
      (LC_VERSION_MIN_WATCHOS, sizeof_version_min_command)]"

definition exact_encryption :: "(u32 \<times> nat) list" where
  "exact_encryption =
     [(LC_ENCRYPTION_INFO, sizeof_encryption_info_command),
      (LC_ENCRYPTION_INFO_64, sizeof_encryption_info_command_64)]"

definition exact_dyld_info :: "(u32 \<times> nat) list" where
  "exact_dyld_info =
     [(LC_DYLD_INFO, sizeof_dyld_info_command),
      (LC_DYLD_INFO_ONLY, sizeof_dyld_info_command)]"

definition exact_commands :: "(u32 \<times> nat) list" where
  "exact_commands = exact_symbols @ exact_routines @ exact_linkedit @ exact_versions @
     exact_encryption @ exact_dyld_info"

definition check_exact :: "u32 \<Rightarrow> nat \<Rightarrow> u32 \<Rightarrow> nat \<Rightarrow> unit outcome" where
  "check_exact cmd i cmdsize sz = guard (unat cmdsize = sz) (Incorrect_cmdsize cmd i)"

text \<open>
  Commands that have at least the size of their structure and hold offsets of
  strings (or of a bit vector), which must lie inside the command: the size of the
  structure and where in it the offsets are.
\<close>

definition string_fvmlib :: "(u32 \<times> nat \<times> nat list) list" where
  "string_fvmlib =
     [(LC_IDFVMLIB, sizeof_fvmlib_command, [8]),
      (LC_LOADFVMLIB, sizeof_fvmlib_command, [8])]"

definition string_dylib :: "(u32 \<times> nat \<times> nat list) list" where
  "string_dylib =
     [(LC_ID_DYLIB, sizeof_dylib_command, [8]),
      (LC_LOAD_DYLIB, sizeof_dylib_command, [8]),
      (LC_LOAD_WEAK_DYLIB, sizeof_dylib_command, [8]),
      (LC_REEXPORT_DYLIB, sizeof_dylib_command, [8]),
      (LC_LOAD_UPWARD_DYLIB, sizeof_dylib_command, [8]),
      (LC_LAZY_LOAD_DYLIB, sizeof_dylib_command, [8])]"

definition string_sub :: "(u32 \<times> nat \<times> nat list) list" where
  "string_sub =
     [(LC_SUB_FRAMEWORK, sizeof_sub_framework_command, [8]),
      (LC_SUB_UMBRELLA, sizeof_sub_umbrella_command, [8]),
      (LC_SUB_LIBRARY, sizeof_sub_library_command, [8]),
      (LC_SUB_CLIENT, sizeof_sub_client_command, [8])]"

definition string_prebound :: "(u32 \<times> nat \<times> nat list) list" where
  "string_prebound = [(LC_PREBOUND_DYLIB, sizeof_prebound_dylib_command, [8, 16])]"

definition string_dylinker :: "(u32 \<times> nat \<times> nat list) list" where
  "string_dylinker =
     [(LC_ID_DYLINKER, sizeof_dylinker_command, [8]),
      (LC_LOAD_DYLINKER, sizeof_dylinker_command, [8]),
      (LC_DYLD_ENVIRONMENT, sizeof_dylinker_command, [8])]"

definition string_rpath :: "(u32 \<times> nat \<times> nat list) list" where
  "string_rpath = [(LC_RPATH, sizeof_rpath_command, [8])]"

definition string_linker_option :: "(u32 \<times> nat \<times> nat list) list" where
  "string_linker_option = [(LC_LINKER_OPTION, sizeof_linker_option_command, [])]"

definition string_commands :: "(u32 \<times> nat \<times> nat list) list" where
  "string_commands = string_fvmlib @ string_dylib @ string_sub @ string_prebound @
     string_dylinker @ string_rpath @ string_linker_option"

fun check_offsets :: "endian \<Rightarrow> bytes \<Rightarrow> u32 \<Rightarrow> nat \<Rightarrow> nat \<Rightarrow> u32 \<Rightarrow> nat list \<Rightarrow> unit outcome" where
  "check_offsets e m cmd i lc cmdsize [] = Ok ()"
| "check_offsets e m cmd i lc cmdsize (off # offs) =
     bind (read32 e m (lc + off)) (\<lambda>v.
       if v \<ge> cmdsize then Error (Offset_past_end cmd i)
       else check_offsets e m cmd i lc cmdsize offs)"

definition check_string :: "endian \<Rightarrow> bytes \<Rightarrow> u32 \<Rightarrow> nat \<Rightarrow> nat \<Rightarrow> u32 \<Rightarrow> nat \<times> nat list \<Rightarrow>
    unit outcome" where
  "check_string e m cmd i lc cmdsize row =
     (if unat cmdsize < fst row then Error (Too_small cmd i)
      else check_offsets e m cmd i lc cmdsize (snd row))"

definition check_segment :: "endian \<Rightarrow> bytes \<Rightarrow> nat \<Rightarrow> nat \<Rightarrow> u32 \<Rightarrow> unit outcome" where
  "check_segment e m i lc cmdsize =
     bind (read32 e m (lc + 48)) (\<lambda>nsects.
       guard (unat cmdsize = sizeof_segment_command + unat nsects * sizeof_section_32)
         (Inconsistent_nsects LC_SEGMENT i))"

definition check_segment_64 :: "endian \<Rightarrow> bytes \<Rightarrow> nat \<Rightarrow> nat \<Rightarrow> u32 \<Rightarrow> unit outcome" where
  "check_segment_64 e m i lc cmdsize =
     bind (read32 e m (lc + 64)) (\<lambda>nsects.
       guard (unat cmdsize = sizeof_segment_command_64 + unat nsects * sizeof_section_64)
         (Inconsistent_nsects LC_SEGMENT_64 i))"

definition check_build_version :: "endian \<Rightarrow> bytes \<Rightarrow> nat \<Rightarrow> nat \<Rightarrow> u32 \<Rightarrow> unit outcome" where
  "check_build_version e m i lc cmdsize =
     bind (read32 e m (lc + 20)) (\<lambda>ntools.
       guard (unat cmdsize = sizeof_build_version_command + unat ntools * sizeof_build_tool_version)
         (Incorrect_cmdsize LC_BUILD_VERSION i))"

text \<open>Commands that are only checked, once more, not to extend past the end.\<close>

definition end_commands :: "u32 list" where
  "end_commands = [LC_MAIN, LC_SOURCE_VERSION, LC_NOTE, LC_IDENT]"

definition check_end :: "nat \<Rightarrow> nat \<Rightarrow> u32 \<Rightarrow> nat \<Rightarrow> unit outcome" where
  "check_end i lc cmdsize sizeofcmds = guard (lc + unat cmdsize \<le> sizeofcmds) (Past_end i)"

subsection \<open>Thread commands\<close>

text \<open>
  A row of a flavor table is the flavor, the count its words must have and the size
  by which the walk goes on.
\<close>

type_synonym flavor_row = "u32 \<times> nat \<times> nat"

definition m68k_flavors :: "flavor_row list" where
  "m68k_flavors =
     [(1, sizeof_m68k_thread_state_regs div 4, sizeof_m68k_thread_state_regs),
      (2, sizeof_m68k_thread_state_68882 div 4, sizeof_m68k_thread_state_68882),
      (3, sizeof_m68k_thread_state_user_reg div 4, sizeof_m68k_thread_state_user_reg)]"

definition ppc_flavors :: "flavor_row list" where
  "ppc_flavors =
     [(1, sizeof_ppc_thread_state div 4, sizeof_ppc_thread_state),
      (2, sizeof_ppc_float_state div 4, sizeof_ppc_float_state),
      (3, sizeof_ppc_exception_state div 4, sizeof_ppc_exception_state),
      (5, sizeof_ppc_thread_state64 div 4, sizeof_ppc_thread_state64)]"

text \<open>
  The 88000 extended registers are 16-byte aligned, so their structures have 512 and
  64 bytes.
\<close>

definition m88k_flavors :: "flavor_row list" where
  "m88k_flavors =
     [(1, sizeof_m88k_thread_state_grf div 4, sizeof_m88k_thread_state_grf),
      (2, 128, 512),
      (3, sizeof_m88k_thread_state_user div 4, sizeof_m88k_thread_state_user),
      (4, 16, 64)]"

definition i860_flavors :: "flavor_row list" where
  "i860_flavors = [(4, sizeof_i860_thread_state_regs div 4, sizeof_i860_thread_state_regs)]"

text \<open>The i386 float state has 524 bytes.  Flavor \<open>-1\<close> is the older name of flavor 1.\<close>

definition i386_flavors :: "flavor_row list" where
  "i386_flavors =
     [(1, sizeof_i386_thread_state div 4, sizeof_i386_thread_state),
      (0xffffffff, sizeof_i386_thread_state div 4, sizeof_i386_thread_state),
      (2, 131, 524),
      (3, sizeof_i386_exception_state div 4, sizeof_i386_exception_state),
      (4, sizeof_x86_thread_state64 div 4, sizeof_x86_thread_state64)]"

definition hppa_flavors :: "flavor_row list" where
  "hppa_flavors =
     [(1, sizeof_hp_pa_integer_thread_state div 4, sizeof_hp_pa_integer_thread_state),
      (2, sizeof_hp_pa_frame_thread_state div 4, sizeof_hp_pa_frame_thread_state),
      (3, sizeof_hp_pa_fp_thread_state div 4, sizeof_hp_pa_fp_thread_state)]"

text \<open>SPARC: 19 registers, and a floating-point state of 400 bytes.\<close>

definition sparc_flavors :: "flavor_row list" where
  "sparc_flavors = [(1, 19, 76), (2, 100, 400)]"

definition arm_flavors :: "flavor_row list" where
  "arm_flavors = [(1, sizeof_arm_thread_state div 4, sizeof_arm_thread_state)]"

text \<open>
  The 64-bit ARM case asks for the 32-bit flavor and count but goes on by the size
  of the 64-bit state.
\<close>

definition arm64_flavors :: "flavor_row list" where
  "arm64_flavors = [(1, sizeof_arm_thread_state div 4, sizeof_arm_thread_state64)]"

text \<open>
  \<open>while(state < p)\<close>: \<open>strict\<close> says whether the switch has a default case that reports
  an unknown flavor; the SPARC switch has none and does not count the flavors.
\<close>

function check_flavors :: "endian \<Rightarrow> bytes \<Rightarrow> flavor_row list \<Rightarrow> bool \<Rightarrow> u32 \<Rightarrow> nat \<Rightarrow>
    nat \<Rightarrow> nat \<Rightarrow> nat \<Rightarrow> unit outcome" where
  "check_flavors e m table strict cmd i nflavor state p =
     (if state < p then
        bind (read32 e m state) (\<lambda>flavor.
        bind (read32 e m (state + 4)) (\<lambda>count.
          case map_of table flavor of
            Some (n, sz) \<Rightarrow>
              if unat count \<noteq> n then Error (Wrong_count flavor nflavor cmd i)
              else check_flavors e m table strict cmd i
                     (if strict then Suc nflavor else nflavor) (state + 8 + sz) p
          | None \<Rightarrow>
              if strict then Error (Unknown_flavor flavor nflavor cmd i)
              else check_flavors e m table strict cmd i nflavor (state + 8) p))
      else Ok ())"
  by pat_completeness auto
termination
  by (relation "measure (\<lambda>(e, m, table, strict, cmd, i, nflavor, state, p). p - state)") auto

declare check_flavors.simps [simp del]

definition check_thread :: "endian \<Rightarrow> bytes \<Rightarrow> u32 \<Rightarrow> u32 \<Rightarrow> u32 \<Rightarrow> nat \<Rightarrow> nat \<Rightarrow> u32 \<Rightarrow>
    unit outcome" where
  "check_thread e m cputype cpusubtype cmd i lc cmdsize =
     (let run = (\<lambda>table strict. check_flavors e m table strict cmd i 0 (lc + 8) (lc + unat cmdsize))
      in if cputype = CPU_TYPE_MC680x0 then run m68k_flavors True
         else if cputype = CPU_TYPE_POWERPC \<or> cputype = CPU_TYPE_VEO \<or>
                 cputype = CPU_TYPE_POWERPC64 then run ppc_flavors True
         else if cputype = CPU_TYPE_MC88000 then run m88k_flavors True
         else if cputype = CPU_TYPE_I860 then run i860_flavors True
         else if cputype = CPU_TYPE_I386 \<or> cputype = CPU_TYPE_X86_64 then run i386_flavors True
         else if cputype = CPU_TYPE_HPPA then run hppa_flavors True
         else if cputype = CPU_TYPE_SPARC then run sparc_flavors False
         else if cputype = CPU_TYPE_ARM then run arm_flavors True
         else if cputype = CPU_TYPE_ARM64 then run arm64_flavors True
         else Error (Unknown_cputype cputype cpusubtype cmd i))"

section \<open>The walk over the commands\<close>

definition check_command :: "endian \<Rightarrow> bytes \<Rightarrow> nat \<Rightarrow> u32 \<Rightarrow> u32 \<Rightarrow> nat \<Rightarrow> nat \<Rightarrow> u32 \<Rightarrow> u32 \<Rightarrow>
    unit outcome" where
  "check_command e m sizeofcmds cputype cpusubtype i lc cmd cmdsize =
     (case map_of exact_commands cmd of
        Some sz \<Rightarrow> check_exact cmd i cmdsize sz
      | None \<Rightarrow>
        (case map_of string_commands cmd of
           Some row \<Rightarrow> check_string e m cmd i lc cmdsize row
         | None \<Rightarrow>
             if cmd = LC_SEGMENT then check_segment e m i lc cmdsize
             else if cmd = LC_SEGMENT_64 then check_segment_64 e m i lc cmdsize
             else if cmd = LC_UNIXTHREAD \<or> cmd = LC_THREAD then
               check_thread e m cputype cpusubtype cmd i lc cmdsize
             else if cmd \<in> set end_commands then check_end i lc cmdsize sizeofcmds
             else if cmd = LC_BUILD_VERSION then check_build_version e m i lc cmdsize
             else Error (Unknown_command i)))"

fun check_commands :: "endian \<Rightarrow> bytes \<Rightarrow> nat \<Rightarrow> nat \<Rightarrow> u32 \<Rightarrow> u32 \<Rightarrow> nat \<Rightarrow> nat \<Rightarrow> nat \<Rightarrow>
    unit outcome" where
  "check_commands e m sizeofcmds mult cputype cpusubtype 0 i lc =
     guard (sizeofcmds = lc) Inconsistent_sizeofcmds"
| "check_commands e m sizeofcmds mult cputype cpusubtype (Suc n) i lc =
     bind (read32 e m lc) (\<lambda>cmd.
     bind (read32 e m (lc + 4)) (\<lambda>cmdsize.
     bind (guard (unat cmdsize mod mult = 0) (Not_multiple i mult)) (\<lambda>_.
     bind (guard (lc + unat cmdsize \<le> sizeofcmds) (Past_end i)) (\<lambda>_.
     bind (guard (cmdsize \<noteq> 0) (Zero_cmdsize i)) (\<lambda>_.
     bind (check_command e m sizeofcmds cputype cpusubtype i lc cmd cmdsize) (\<lambda>_.
     bind (guard (lc + unat cmdsize \<le> sizeofcmds) (Next_past_end (Suc i))) (\<lambda>_.
       check_commands e m sizeofcmds mult cputype cpusubtype n (Suc i) (lc + unat cmdsize))))))))"

section \<open>Facts about the walk\<close>

lemma read32_iffs:
  "read32 e m p = Ok v \<longleftrightarrow> p + 4 \<le> length m \<and> v = get32 e m p"
  "read32 e m p = Fault \<longleftrightarrow> length m < p + 4"
  "read32 e m p \<noteq> Error err"
  by (auto simp: read32_def)

abbreviation cmd_at :: "endian \<Rightarrow> bytes \<Rightarrow> nat \<Rightarrow> u32" where
  "cmd_at e m lc \<equiv> get32 e m lc"

abbreviation cmdsize_at :: "endian \<Rightarrow> bytes \<Rightarrow> nat \<Rightarrow> nat" where
  "cmdsize_at e m lc \<equiv> unat (get32 e m (lc + 4))"

text \<open>
  What a parser of the load commands relies on: from offset \<open>lc\<close> there are \<open>n\<close>
  commands, one behind the other, each with a readable header and a positive size
  that is a multiple of \<open>mult\<close>, and the last one ends at \<open>stop\<close>.
\<close>

inductive command_chain :: "endian \<Rightarrow> bytes \<Rightarrow> nat \<Rightarrow> nat \<Rightarrow> nat \<Rightarrow> nat \<Rightarrow> bool"
  for e :: endian and m :: bytes and mult :: nat where
  chain_end: "command_chain e m mult 0 stop stop"
| chain_command: "lc + 8 \<le> length m \<Longrightarrow> cmdsize_at e m lc mod mult = 0 \<Longrightarrow> 0 < cmdsize_at e m lc \<Longrightarrow>
    command_chain e m mult n (lc + cmdsize_at e m lc) stop \<Longrightarrow>
    command_chain e m mult (Suc n) lc stop"

inductive_cases command_chain_0E: "command_chain e m mult 0 lc stop"
inductive_cases command_chain_SucE: "command_chain e m mult (Suc n) lc stop"

lemma command_chain_le:
  assumes "command_chain e m mult n lc stop" and "0 < mult"
  shows "lc + n * mult \<le> stop"
  using assms(1)
proof (induction rule: command_chain.induct)
  case (chain_end stop)
  then show ?case by simp
next
  case (chain_command lc n stop)
  then have "mult \<le> cmdsize_at e m lc"
    using assms(2) by (auto intro: dvd_imp_le)
  with chain_command.IH show ?case by simp
qed

lemma command_chain_unique:
  "command_chain e m mult n lc stop \<Longrightarrow> command_chain e m mult n lc stop' \<Longrightarrow> stop = stop'"
proof (induction arbitrary: stop' rule: command_chain.induct)
  case (chain_end stop)
  then show ?case by (rule command_chain_0E) simp
next
  case (chain_command lc n stop)
  from chain_command.prems show ?case
    by (rule command_chain_SucE) (rule chain_command.IH)
qed

lemma check_commands_chain:
  assumes "check_commands e m sizeofcmds mult cputype cpusubtype n i lc = Ok ()"
  shows "command_chain e m mult n lc sizeofcmds"
  using assms
proof (induction n arbitrary: i lc)
  case 0
  then show ?case by (simp add: command_chain.chain_end)
next
  case (Suc n)
  then show ?case
    by (auto simp: bind_iffs read32_iffs unat_eq_zero intro!: command_chain.chain_command)
       (simp add: unat_gt_0)
qed

lemma string_commands_offsets:
  assumes "map_of string_commands cmd = Some (sz, offs)" and "off \<in> set offs"
  shows "off + 4 \<le> sz"
proof -
  have "\<forall>(c, sz, offs) \<in> set string_commands. \<forall>off \<in> set offs. off + 4 \<le> sz"
    by (simp add: string_commands_def string_fvmlib_def string_dylib_def string_sub_def
        string_prebound_def string_dylinker_def string_rpath_def string_linker_option_def
        fvmlib_command_defs dylib_command_defs sub_framework_command_defs
        sub_umbrella_command_defs sub_library_command_defs sub_client_command_defs
        prebound_dylib_command_defs dylinker_command_defs rpath_command_defs
        linker_option_command_defs)
  then show ?thesis using assms by (auto dest!: map_of_SomeD)
qed

lemma check_offsets_no_fault:
  "(\<And>off. off \<in> set offs \<Longrightarrow> lc + off + 4 \<le> length m) \<Longrightarrow>
     check_offsets e m cmd i lc cmdsize offs \<noteq> Fault"
proof (induction offs)
  case Nil
  then show ?case by simp
next
  case (Cons off offs)
  then have "lc + off + 4 \<le> length m" "check_offsets e m cmd i lc cmdsize offs \<noteq> Fault"
    by simp_all
  then show ?case by (auto simp: read32_def)
qed

lemma check_flavors_no_fault:
  assumes "p + 7 \<le> length m"
  shows "check_flavors e m table strict cmd i nflavor state p \<noteq> Fault"
  using assms
proof (induction e m table strict cmd i nflavor state p rule: check_flavors.induct)
  case (1 e m table strict cmd i nflavor state p)
  show ?case
  proof (cases "state < p")
    case False
    then show ?thesis by (simp add: check_flavors.simps)
  next
    case True
    with "1.prems" have r: "read32 e m state = Ok (get32 e m state)"
        "read32 e m (state + 4) = Ok (get32 e m (state + 4))"
      by (simp_all add: read32_def)
    show ?thesis
      using "1.IH" [OF True] True r "1.prems"
      by (subst check_flavors.simps) (auto split: option.split)
  qed
qed

lemma check_command_no_fault:
  assumes "lc + unat cmdsize \<le> sizeofcmds" and "4 \<le> unat cmdsize"
    and slack: "sizeofcmds + 64 \<le> length m"
  shows "check_command e m sizeofcmds cputype cpusubtype i lc cmd cmdsize \<noteq> Fault"
proof (cases "map_of exact_commands cmd")
  case (Some sz)
  then show ?thesis by (simp add: check_command_def check_exact_def)
next
  case None
  note exact = this
  show ?thesis
  proof (cases "map_of string_commands cmd")
    case (Some row)
    obtain sz offs where row: "row = (sz, offs)" by (cases row)
    have "check_string e m cmd i lc cmdsize row \<noteq> Fault"
    proof (cases "unat cmdsize < sz")
      case True
      then show ?thesis by (simp add: check_string_def row)
    next
      case False
      have "check_offsets e m cmd i lc cmdsize offs \<noteq> Fault"
      proof (rule check_offsets_no_fault)
        fix off assume "off \<in> set offs"
        then have "off + 4 \<le> sz" using Some row string_commands_offsets by simp
        then show "lc + off + 4 \<le> length m" using False assms by simp
      qed
      then show ?thesis by (simp add: check_string_def row)
    qed
    with exact Some show ?thesis by (simp add: check_command_def)
  next
    case None
    have "check_flavors e m table strict cmd i 0 (lc + 8) (lc + unat cmdsize) \<noteq> Fault"
      for table strict
      using assms by (intro check_flavors_no_fault) simp
    then have "check_thread e m cputype cpusubtype cmd i lc cmdsize \<noteq> Fault"
      by (simp add: check_thread_def Let_def)
    moreover have "check_segment e m i lc cmdsize \<noteq> Fault"
        "check_segment_64 e m i lc cmdsize \<noteq> Fault" "check_build_version e m i lc cmdsize \<noteq> Fault"
      using assms
      by (simp_all add: check_segment_def check_segment_64_def check_build_version_def
          bind_iffs read32_iffs)
    ultimately show ?thesis
      using exact None by (auto simp: check_command_def check_end_def)
  qed
qed

lemma check_commands_no_fault:
  assumes "sizeofcmds + 64 \<le> length m" and "lc \<le> sizeofcmds" and "4 dvd mult"
  shows "check_commands e m sizeofcmds mult cputype cpusubtype n i lc \<noteq> Fault"
  using assms(2)
proof (induction n arbitrary: i lc)
  case 0
  then show ?case by simp
next
  case (Suc n)
  have size4: "4 \<le> k" if "k mod mult = 0" "0 < k" for k
    using that assms(3) by (meson dvd_imp_le dvd_trans mod_0_imp_dvd)
  have "check_command e m sizeofcmds cputype cpusubtype i lc (cmd_at e m lc) (get32 e m (lc + 4)) \<noteq> Fault"
    if "cmdsize_at e m lc mod mult = 0" "lc + cmdsize_at e m lc \<le> sizeofcmds" "get32 e m (lc + 4) \<noteq> 0"
    using that size4 assms(1) by (intro check_command_no_fault) (auto simp: unat_gt_0)
  then show ?case
    using Suc assms(1) by (auto simp: bind_iffs read32_iffs)
qed

end
