(* ===== verification/Bit_Fields.thy ===== *)
theory Bit_Fields
  imports Byte_Swap
begin

text \<open>
  C bit-fields and the table entries made of them: relocation entries, two-level
  namespace hints and dynamic library references (\<open>include/mach-o/reloc.h\<close>,
  \<open>include/mach-o/loader.h\<close>) with their swap routines in \<open>libstuff/bytesex.c\<close>.

  A structure of bit-fields is one machine word.  The compilers the tools are built
  with give the first declared field the least significant bits on a little-endian
  host and the most significant bits on a big-endian host.  A layout is the list of the
  widths in the order of the declaration, a field is its position in that list.  The
  swap routines therefore declare a second structure with the fields in the opposite
  order and copy field by field.
\<close>

unbundle bit_operations_syntax

section \<open>Bit-fields of a word\<close>

fun bf_shift :: "endian \<Rightarrow> nat \<Rightarrow> nat list \<Rightarrow> nat \<Rightarrow> nat" where
  "bf_shift Little W ws i = sum_list (take i ws)"
| "bf_shift Big W ws i = W - sum_list (take (Suc i) ws)"

definition bf_get :: "endian \<Rightarrow> nat list \<Rightarrow> nat \<Rightarrow> 'a::len word \<Rightarrow> 'a word" where
  "bf_get e ws i w = take_bit (ws ! i) (drop_bit (bf_shift e LENGTH('a) ws i) w)"

definition bf_set :: "endian \<Rightarrow> nat list \<Rightarrow> nat \<Rightarrow> 'a::len word \<Rightarrow> 'a word \<Rightarrow> 'a word" where
  "bf_set e ws i v w =
     (let sh = bf_shift e LENGTH('a) ws i
      in (w AND NOT (push_bit sh (mask (ws ! i)))) OR push_bit sh (take_bit (ws ! i) v))"

text \<open>
  A block of assignments \<open>dst.f = src.g\<close>: the pairs give, in the order of the
  statements, the position of \<open>f\<close> in the layout of the target and of \<open>g\<close> in the
  layout of the source.
\<close>

fun bf_copy :: "endian \<Rightarrow> nat list \<Rightarrow> nat list \<Rightarrow> (nat \<times> nat) list \<Rightarrow> 'a::len word \<Rightarrow> 'a word \<Rightarrow>
    'a word" where
  "bf_copy e D S [] src dst = dst"
| "bf_copy e D S ((i, j) # ps) src dst =
     bf_copy e D S ps src (bf_set e D i (bf_get e S j src) dst)"

section \<open>Table entries\<close>

record relocation_info =
  r_address :: u32
  r_bits :: u32

definition sizeof_relocation_info :: nat where
  "sizeof_relocation_info = 8"

definition load_relocation_info :: "endian \<Rightarrow> bytes \<Rightarrow> relocation_info" where
  "load_relocation_info e m = \<lparr>r_address = get32 e m 0, r_bits = get32 e m 4\<rparr>"

definition store_relocation_info :: "endian \<Rightarrow> relocation_info \<Rightarrow> bytes" where
  "store_relocation_info e x = put32 e (r_address x) @ put32 e (r_bits x)"

text \<open>\<open>r_symbolnum:24, r_pcrel:1, r_length:2, r_extern:1, r_type:4\<close> and the reverse.\<close>

definition relocation_fields :: "nat list" where
  "relocation_fields = [24, 1, 2, 1, 4]"

definition swapped_relocation_fields :: "nat list" where
  "swapped_relocation_fields = [4, 1, 2, 1, 24]"

text \<open>The assignments from the local structure and to it.\<close>

definition relocation_ins :: "(nat \<times> nat) list" where
  "relocation_ins = [(0, 4), (1, 3), (2, 2), (3, 1), (4, 0)]"

definition relocation_outs :: "(nat \<times> nat) list" where
  "relocation_outs = [(4, 0), (2, 2), (3, 1), (1, 3), (0, 4)]"

definition R_SCATTERED :: u32 where
  "R_SCATTERED = 0x80000000"

text \<open>
  One round of the loop.  \<open>sr\<close> is the word of the local structure that the fields are
  moved through; it keeps its content from round to round and is not initialised.
  The result is the entry and the new content of the local.
\<close>

definition swap_relocation_info_entry :: "endian \<Rightarrow> bool \<Rightarrow> u32 \<Rightarrow> relocation_info \<Rightarrow>
    relocation_info \<times> u32" where
  "swap_relocation_info_entry e to_host_byte_sex sr x =
     (let scattered =
        (if to_host_byte_sex then (SWAP_INT (r_address x) AND R_SCATTERED) \<noteq> 0
         else (r_address x AND R_SCATTERED) \<noteq> 0)
      in if \<not> scattered then
           if to_host_byte_sex then
             (let word = SWAP_INT (r_bits x)
              in (\<lparr>r_address = SWAP_INT (r_address x),
                   r_bits = bf_copy e relocation_fields swapped_relocation_fields
                              relocation_ins word (r_bits x)\<rparr>, word))
           else
             (let word = SWAP_INT (bf_copy e swapped_relocation_fields relocation_fields
                           relocation_outs (r_bits x) sr)
              in (\<lparr>r_address = SWAP_INT (r_address x), r_bits = word\<rparr>, word))
         else (\<lparr>r_address = SWAP_INT (r_address x), r_bits = SWAP_INT (r_bits x)\<rparr>, sr))"

fun swap_relocation_info :: "endian \<Rightarrow> bool \<Rightarrow> u32 \<Rightarrow> nat \<Rightarrow> relocation_info list \<Rightarrow>
    relocation_info list" where
  "swap_relocation_info e to_host sr (Suc n) (x # xs) =
     (let r = swap_relocation_info_entry e to_host sr x
      in fst r # swap_relocation_info e to_host (snd r) n xs)"
| "swap_relocation_info e to_host sr n xs = xs"

text \<open>\<open>isub_image:8, itoc:24\<close> of \<open>struct twolevel_hint\<close>.\<close>

definition twolevel_hint_fields :: "nat list" where
  "twolevel_hint_fields = [8, 24]"

definition swapped_twolevel_hint_fields :: "nat list" where
  "swapped_twolevel_hint_fields = [24, 8]"

text \<open>Two fields, each moved to the other end of the word.\<close>

definition both_fields :: "(nat \<times> nat) list" where
  "both_fields = [(1, 0), (0, 1)]"

definition swap_twolevel_hint_entry :: "endian \<Rightarrow> bool \<Rightarrow> u32 \<Rightarrow> u32 \<Rightarrow> u32 \<times> u32" where
  "swap_twolevel_hint_entry e to_host shint hint =
     (if to_host then
        (let word = SWAP_INT hint
         in (bf_copy e twolevel_hint_fields swapped_twolevel_hint_fields both_fields word hint,
             word))
      else
        (let word = SWAP_INT (bf_copy e swapped_twolevel_hint_fields twolevel_hint_fields
                      both_fields hint shint)
         in (word, word)))"

fun swap_twolevel_hint :: "endian \<Rightarrow> bool \<Rightarrow> u32 \<Rightarrow> nat \<Rightarrow> u32 list \<Rightarrow> u32 list" where
  "swap_twolevel_hint e to_host shint (Suc n) (x # xs) =
     (let r = swap_twolevel_hint_entry e to_host shint x
      in fst r # swap_twolevel_hint e to_host (snd r) n xs)"
| "swap_twolevel_hint e to_host shint n xs = xs"

text \<open>\<open>isym:24, flags:8\<close> of \<open>struct dylib_reference\<close>.\<close>

definition dylib_reference_fields :: "nat list" where
  "dylib_reference_fields = [24, 8]"

definition swapped_dylib_reference_fields :: "nat list" where
  "swapped_dylib_reference_fields = [8, 24]"

definition swap_dylib_reference_entry :: "endian \<Rightarrow> bool \<Rightarrow> u32 \<Rightarrow> u32 \<Rightarrow> u32 \<times> u32" where
  "swap_dylib_reference_entry e to_host sref ref =
     (if to_host then
        (let word = SWAP_INT ref
         in (bf_copy e dylib_reference_fields swapped_dylib_reference_fields both_fields word ref,
             word))
      else
        (let word = SWAP_INT (bf_copy e swapped_dylib_reference_fields dylib_reference_fields
                      both_fields ref sref)
         in (word, word)))"

fun swap_dylib_reference :: "endian \<Rightarrow> bool \<Rightarrow> u32 \<Rightarrow> nat \<Rightarrow> u32 list \<Rightarrow> u32 list" where
  "swap_dylib_reference e to_host sref (Suc n) (x # xs) =
     (let r = swap_dylib_reference_entry e to_host sref x
      in fst r # swap_dylib_reference e to_host (snd r) n xs)"
| "swap_dylib_reference e to_host sref n xs = xs"

definition swap_indirect_symbols :: "u32 \<Rightarrow> u32 list \<Rightarrow> u32 list" where
  "swap_indirect_symbols nindirect_symbols xs =
     map SWAP_INT (take (unat nindirect_symbols) xs) @ drop (unat nindirect_symbols) xs"

section \<open>Facts about bit-fields\<close>

lemma sum_take_mono: "i \<le> j \<Longrightarrow> sum_list (take i ws) \<le> sum_list (take j (ws :: nat list))"
  by (metis append_take_drop_id le_add1 min.absorb1 sum_list_append take_take)

lemma sum_take_le: "sum_list (take i ws) \<le> sum_list (ws :: nat list)"
  by (metis append_take_drop_id le_add1 sum_list_append)

lemma sum_take_Suc: "i < length ws \<Longrightarrow> sum_list (take (Suc i) ws) = sum_list (take i ws) + ws ! i"
  for ws :: "nat list"
  by (simp add: take_Suc_conv_app_nth)

text \<open>Both hosts see the same bits when the declaration order is reversed.\<close>

lemma bf_shift_flip:
  assumes "sum_list ws = W" and "i < length ws"
  shows "bf_shift (flip e) W ws i = bf_shift e W (rev ws) (length ws - 1 - i)"
proof -
  have total: "sum_list (take k ws) + sum_list (drop k ws) = W" for k
    using assms(1) by (metis append_take_drop_id sum_list_append)
  have "take (length ws - 1 - i) (rev ws) = rev (drop (Suc i) ws)"
    using assms(2) by (simp add: rev_drop)
  moreover have "take (Suc (length ws - 1 - i)) (rev ws) = rev (drop i ws)"
    using assms(2) by (simp add: rev_drop Suc_diff_Suc)
  ultimately show ?thesis
    using total [of i] total [of "Suc i"] by (cases e) (simp_all add: sum_list_rev)
qed

lemma bf_get_flip:
  fixes w :: "'a::len word"
  assumes "sum_list ws = LENGTH('a)" and "i < length ws"
  shows "bf_get (flip e) ws i w = bf_get e (rev ws) (length ws - 1 - i) w"
  using assms by (simp add: bf_get_def bf_shift_flip rev_nth)

lemma bf_get_set_same:
  fixes w :: "'a::len word"
  assumes "sum_list ws \<le> LENGTH('a)" and "i < length ws"
  shows "bf_get e ws i (bf_set e ws i v w) = take_bit (ws ! i) v"
proof -
  have "bf_shift e LENGTH('a) ws i + ws ! i \<le> LENGTH('a)"
    using assms sum_take_le [of "Suc i" ws] by (cases e) (simp_all add: sum_take_Suc)
  then show ?thesis
    by (intro bit_word_eqI) (auto simp: bf_get_def bf_set_def Let_def bit_simps)
qed

lemma bf_shift_disjoint:
  assumes "sum_list ws \<le> W" and "i < length ws" and "j < length ws" and "i \<noteq> j"
  shows "bf_shift e W ws i + ws ! i \<le> bf_shift e W ws j \<or>
         bf_shift e W ws j + ws ! j \<le> bf_shift e W ws i"
proof -
  have "sum_list (take (Suc i) ws) \<le> sum_list (take j ws) \<or>
        sum_list (take (Suc j) ws) \<le> sum_list (take i ws)"
    using assms(4) by (meson Suc_leI linorder_neqE_nat sum_take_mono)
  then show ?thesis
    using assms sum_take_le [of "Suc i" ws] sum_take_le [of "Suc j" ws]
    by (cases e) (auto simp: sum_take_Suc)
qed

lemma bf_get_set_other:
  fixes w :: "'a::len word"
  assumes "sum_list ws \<le> LENGTH('a)" and "i < length ws" and "j < length ws" and "i \<noteq> j"
  shows "bf_get e ws j (bf_set e ws i v w) = bf_get e ws j w"
  using bf_shift_disjoint [OF assms, of e]
  by (intro bit_word_eqI)
     (auto simp: bf_get_def bf_set_def Let_def bit_simps dest: bit_imp_le_length)

text \<open>A legal block of assignments: every target once, positions and widths fit.\<close>

definition bf_copy_ok :: "nat list \<Rightarrow> nat list \<Rightarrow> (nat \<times> nat) list \<Rightarrow> bool" where
  "bf_copy_ok D S ps \<longleftrightarrow> distinct (map fst ps) \<and>
     list_all (\<lambda>(i, j). i < length D \<and> j < length S \<and> S ! j = D ! i) ps"

lemma bf_get_copy_other:
  fixes src dst :: "'a::len word"
  assumes "sum_list D \<le> LENGTH('a)" and "list_all (\<lambda>(i, j). i < length D) ps"
    and "k < length D" and "k \<notin> fst ` set ps"
  shows "bf_get e D k (bf_copy e D S ps src dst) = bf_get e D k dst"
  using assms
proof (induction e D S ps src dst rule: bf_copy.induct)
  case (1 e D S src dst)
  then show ?case by simp
next
  case (2 e D S i j ps src dst)
  then show ?case by (simp add: bf_get_set_other)
qed

lemma bf_get_copy:
  fixes src dst :: "'a::len word"
  assumes "sum_list D \<le> LENGTH('a)" and "bf_copy_ok D S ps" and "(i, j) \<in> set ps"
  shows "bf_get e D i (bf_copy e D S ps src dst) = bf_get e S j src"
  using assms
proof (induction e D S ps src dst rule: bf_copy.induct)
  case (1 e D S src dst)
  then show ?case by simp
next
  case (2 e D S i' j' ps src dst)
  show ?case
  proof (cases "(i, j) \<in> set ps")
    case True
    then show ?thesis using 2 by (simp add: bf_copy_ok_def)
  next
    case False
    then have eq: "i' = i" "j' = j" using "2.prems"(3) by simp_all
    have "bf_get e D i (bf_copy e D S ps src (bf_set e D i (bf_get e S j src) dst)) =
        bf_get e D i (bf_set e D i (bf_get e S j src) dst)"
      using "2.prems" eq
      by (intro bf_get_copy_other) (auto simp: bf_copy_ok_def list_all_iff)
    also have "\<dots> = take_bit (D ! i) (bf_get e S j src)"
      using "2.prems" eq by (intro bf_get_set_same) (auto simp: bf_copy_ok_def)
    also have "\<dots> = bf_get e S j src"
      using "2.prems"(2) eq by (simp add: bf_copy_ok_def bf_get_def)
    finally show ?thesis using eq by simp
  qed
qed

lemma position_in_layout:
  "n < sum_list ws \<Longrightarrow> \<exists>i < length ws. sum_list (take i ws) \<le> n \<and> n < sum_list (take (Suc i) ws)"
  for ws :: "nat list"
proof (induction ws arbitrary: n)
  case Nil
  then show ?case by simp
next
  case (Cons a ws)
  show ?case
  proof (cases "n < a")
    case True
    then show ?thesis by (intro exI [of _ 0]) simp
  next
    case False
    then obtain i where "i < length ws" "sum_list (take i ws) \<le> n - a"
        "n - a < sum_list (take (Suc i) ws)"
      using Cons.prems Cons.IH [of "n - a"] by fastforce
    then show ?thesis using False by (intro exI [of _ "Suc i"]) auto
  qed
qed

text \<open>A word is its fields, when they fill it.\<close>

lemma bf_ext_Little:
  fixes w w' :: "'a::len word"
  assumes "sum_list ws = LENGTH('a)"
    and "\<And>i. i < length ws \<Longrightarrow> bf_get Little ws i w = bf_get Little ws i w'"
  shows "w = w'"
proof (rule bit_word_eqI)
  fix n assume "n < LENGTH('a)"
  then obtain i where i: "i < length ws" "sum_list (take i ws) \<le> n" "n < sum_list (take (Suc i) ws)"
    using position_in_layout [of n ws] assms(1) by auto
  have "bit (bf_get Little ws i v) (n - sum_list (take i ws)) \<longleftrightarrow> bit v n" for v :: "'a word"
    using i \<open>n < LENGTH('a)\<close>
    by (auto simp: bf_get_def bit_simps sum_take_Suc)
  then show "bit w n \<longleftrightarrow> bit w' n" using assms(2) [OF i(1)] by metis
qed

lemma bf_ext:
  fixes w w' :: "'a::len word"
  assumes "sum_list ws = LENGTH('a)"
    and "\<And>i. i < length ws \<Longrightarrow> bf_get e ws i w = bf_get e ws i w'"
  shows "w = w'"
proof (cases e)
  case Little
  then show ?thesis using assms bf_ext_Little by blast
next
  case Big
  show ?thesis
  proof (rule bf_ext_Little)
    show "sum_list (rev ws) = LENGTH('a)" using assms(1) by (simp add: sum_list_rev)
    fix i assume "i < length (rev ws)"
    then show "bf_get Little (rev ws) i w = bf_get Little (rev ws) i w'"
      using assms(2) [of "length ws - 1 - i"] bf_get_flip [OF assms(1), of "length ws - 1 - i" Little] Big
      by simp
  qed
qed

section \<open>Moving fields through a reversed structure\<close>

text \<open>
  A block of assignments moves the fields to where a host of the other byte order
  looks for them: target and source are the same bits for the two hosts.
\<close>

definition bf_moves_ok :: "nat \<Rightarrow> nat list \<Rightarrow> nat list \<Rightarrow> (nat \<times> nat) list \<Rightarrow> bool" where
  "bf_moves_ok W D S ps \<longleftrightarrow> bf_copy_ok D S ps \<and>
     list_all (\<lambda>(i, j). bf_shift Little W D i = bf_shift Big W S j \<and>
       bf_shift Big W D i = bf_shift Little W S j) ps"

lemma bf_moves_shift:
  assumes "bf_moves_ok W D S ps" and "(i, j) \<in> set ps"
  shows "bf_shift e W D i = bf_shift (flip e) W S j" and "D ! i = S ! j"
  using assms by (cases e; auto simp: bf_moves_ok_def bf_copy_ok_def list_all_iff)+

text \<open>
  The contract of a swap routine for a word of bit-fields: \<open>ws\<close> is the layout, \<open>sws\<close>
  the layout of the local structure, \<open>outs\<close> the assignments to the local and \<open>ins\<close>
  the assignments from it.
\<close>

locale moved_fields =
  fixes W :: nat and ws sws :: "nat list" and outs ins :: "(nat \<times> nat) list"
  assumes fits: "sum_list ws \<le> W" "sum_list sws \<le> W"
    and outs_ok: "bf_moves_ok W sws ws outs"
    and ins_ok: "bf_moves_ok W ws sws ins"
begin

text \<open>What the host stored in a field, the other host finds in it.\<close>

lemma out_read:
  fixes src dst :: "'b::len word"
  assumes "LENGTH('b) = W" and "(j, i) \<in> set outs"
  shows "bf_get (flip e) ws i (bf_copy e sws ws outs src dst) = bf_get e ws i src"
proof -
  have "bf_get (flip e) ws i (bf_copy e sws ws outs src dst) =
      bf_get e sws j (bf_copy e sws ws outs src dst)"
    using assms bf_moves_shift(1) [OF outs_ok assms(2), of e]
      bf_moves_shift(2) [OF outs_ok assms(2)] by (simp add: bf_get_def)
  also have "\<dots> = bf_get e ws i src"
    using outs_ok assms fits by (intro bf_get_copy) (simp_all add: bf_moves_ok_def)
  finally show ?thesis .
qed

lemma in_read:
  fixes src dst :: "'b::len word"
  assumes "LENGTH('b) = W" and "(i, j) \<in> set ins"
  shows "bf_get e ws i (bf_copy e ws sws ins src dst) = bf_get (flip e) ws i src"
proof -
  have "bf_get e ws i (bf_copy e ws sws ins src dst) = bf_get e sws j src"
    using ins_ok assms fits by (intro bf_get_copy) (simp_all add: bf_moves_ok_def)
  also have "\<dots> = bf_get (flip e) ws i src"
    using assms bf_moves_shift(1) [OF ins_ok assms(2), of "flip e"]
      bf_moves_shift(2) [OF ins_ok assms(2)] by (simp add: bf_get_def)
  finally show ?thesis .
qed

end

text \<open>A 32-bit word that is full of named fields.\<close>

locale reversed_fields = moved_fields 32 ws sws outs ins
  for ws sws :: "nat list" and outs ins :: "(nat \<times> nat) list" +
  assumes full: "sum_list ws = 32"
    and all_out: "set [0..<length ws] \<subseteq> snd ` set outs"
    and all_in: "set [0..<length ws] \<subseteq> fst ` set ins"
begin

lemma out_read_all:
  fixes src dst :: u32
  assumes "i < length ws"
  shows "bf_get (flip e) ws i (bf_copy e sws ws outs src dst) = bf_get e ws i src"
proof -
  have "i \<in> snd ` set outs" using assms all_out by auto
  then obtain j where "(j, i) \<in> set outs" by auto
  then show ?thesis by (intro out_read) simp_all
qed

lemma in_read_all:
  fixes src dst :: u32
  assumes "i < length ws"
  shows "bf_get e ws i (bf_copy e ws sws ins src dst) = bf_get (flip e) ws i src"
proof -
  have "i \<in> fst ` set ins" using assms all_in by auto
  then obtain j where "(i, j) \<in> set ins" by auto
  then show ?thesis by (intro in_read) simp_all
qed

text \<open>What the local structure held before does not matter.\<close>

lemma out_local: "bf_copy e sws ws outs src dst = bf_copy e sws ws outs src (dst' :: u32)"
  by (rule bf_ext [where ws = ws and e = "flip e"]) (simp_all add: full out_read_all)

lemma in_out: "bf_copy e ws sws ins (bf_copy e sws ws outs src dst) dst' = (src :: u32)"
  by (rule bf_ext [where ws = ws and e = e]) (simp_all add: full in_read_all out_read_all)

end

lemmas bf_check = bf_moves_ok_def bf_copy_ok_def upt_rec numeral_eq_Suc

interpretation reloc: reversed_fields relocation_fields swapped_relocation_fields
    relocation_outs relocation_ins
  by unfold_locales
     (simp_all add: relocation_fields_def swapped_relocation_fields_def
       relocation_ins_def relocation_outs_def bf_check)

interpretation hint: reversed_fields twolevel_hint_fields swapped_twolevel_hint_fields
    both_fields both_fields
  by unfold_locales
     (simp_all add: twolevel_hint_fields_def swapped_twolevel_hint_fields_def both_fields_def bf_check)

interpretation dref: reversed_fields dylib_reference_fields swapped_dylib_reference_fields
    both_fields both_fields
  by unfold_locales
     (simp_all add: dylib_reference_fields_def swapped_dylib_reference_fields_def both_fields_def
       bf_check)

section \<open>The swap routines\<close>

lemmas relocation_info_defs =
  sizeof_relocation_info_def load_relocation_info_def store_relocation_info_def

interpretation relocation_info: struct_layout
    sizeof_relocation_info load_relocation_info store_relocation_info
  by unfold_locales (simp_all add: relocation_info_defs byte_simps)

text \<open>
  What a host of byte order \<open>e\<close> sees in an entry.  The declaration of a scattered
  entry depends on the byte order so that its words hold the same bits on both hosts.
\<close>

datatype relocation_view =
    Scattered u32 u32
  | Plain u32 "u32 list"

definition view_relocation :: "endian \<Rightarrow> relocation_info \<Rightarrow> relocation_view" where
  "view_relocation e x =
     (if (r_address x AND R_SCATTERED) \<noteq> 0 then Scattered (r_address x) (r_bits x)
      else Plain (r_address x) (map (\<lambda>i. bf_get e relocation_fields i (r_bits x)) [0..<5]))"

definition other_host :: "relocation_info \<Rightarrow> relocation_info" where
  "other_host x = \<lparr>r_address = SWAP_INT (r_address x), r_bits = SWAP_INT (r_bits x)\<rparr>"

lemma load_other_host:
  "load_relocation_info (flip e) (store_relocation_info e x) = other_host x"
  by (simp add: relocation_info_defs other_host_def byte_simps)

lemma length_relocation_fields: "length relocation_fields = 5"
  by (simp add: relocation_fields_def)

lemma relocation_reads:
  "i < 5 \<Longrightarrow> bf_get (flip e) relocation_fields i
     (bf_copy e swapped_relocation_fields relocation_fields
        relocation_outs src (dst :: u32)) = bf_get e relocation_fields i src"
  "i < 5 \<Longrightarrow> bf_get e relocation_fields i
     (bf_copy e relocation_fields swapped_relocation_fields
        relocation_ins src (dst :: u32)) = bf_get (flip e) relocation_fields i src"
  using reloc.out_read_all [of i e src dst] reloc.in_read_all [of i e src dst]
  by (simp_all only: length_relocation_fields)

lemma swap_relocation_entry_out:
  "view_relocation (flip e) (other_host (fst (swap_relocation_info_entry e False sr x))) =
     view_relocation e x"
  by (simp add: swap_relocation_info_entry_def view_relocation_def other_host_def Let_def
      relocation_reads)

lemma swap_relocation_entry_in:
  "view_relocation e (fst (swap_relocation_info_entry e True sr x)) =
     view_relocation (flip e) (other_host x)"
  by (simp add: swap_relocation_info_entry_def view_relocation_def other_host_def Let_def
      relocation_reads)

lemma swap_relocation_entry_twice:
  "fst (swap_relocation_info_entry e True sr' (fst (swap_relocation_info_entry e False sr x))) = x"
  by (simp add: swap_relocation_info_entry_def Let_def reloc.in_out)

lemma swap_relocation_info_twice:
  "swap_relocation_info e True sr' n (swap_relocation_info e False sr n xs) = xs"
proof (induction e False sr n xs arbitrary: sr' rule: swap_relocation_info.induct)
  case (1 e sr n x xs)
  show ?case
    using 1 [OF refl] swap_relocation_entry_twice [of e sr' sr x] by (simp add: Let_def)
qed simp_all

lemma length_swap_relocation_info [simp]:
  "length (swap_relocation_info e to_host sr n xs) = length xs"
  by (induction e to_host sr n xs rule: swap_relocation_info.induct) (simp_all add: Let_def)

lemma swap_relocation_info_out:
  "map (view_relocation (flip e) \<circ> other_host) (take n (swap_relocation_info e False sr n xs)) =
     map (view_relocation e) (take n xs)"
  by (induction e False sr n xs rule: swap_relocation_info.induct)
     (simp_all add: Let_def swap_relocation_entry_out)

lemma swap_relocation_info_in:
  "map (view_relocation e) (take n (swap_relocation_info e True sr n xs)) =
     map (view_relocation (flip e) \<circ> other_host) (take n xs)"
  by (induction e True sr n xs rule: swap_relocation_info.induct)
     (simp_all add: Let_def swap_relocation_entry_in)

text \<open>Hints and references: every entry is a word that is full of fields.\<close>

lemma swap_twolevel_hint_twice:
  "swap_twolevel_hint e True sr' n (swap_twolevel_hint e False sr n xs) = xs"
proof (induction e False sr n xs arbitrary: sr' rule: swap_twolevel_hint.induct)
  case (1 e sr n x xs)
  show ?case
    using 1 [OF refl]
    by (simp add: swap_twolevel_hint_entry_def Let_def hint.in_out)
qed simp_all

lemma swap_dylib_reference_twice:
  "swap_dylib_reference e True sr' n (swap_dylib_reference e False sr n xs) = xs"
proof (induction e False sr n xs arbitrary: sr' rule: swap_dylib_reference.induct)
  case (1 e sr n x xs)
  show ?case
    using 1 [OF refl]
    by (simp add: swap_dylib_reference_entry_def Let_def dref.in_out)
qed simp_all

lemma swap_twolevel_hint_out:
  assumes "i < 2" and "k < n" and "n \<le> length xs"
  shows "bf_get (flip e) twolevel_hint_fields i
           (SWAP_INT (swap_twolevel_hint e False shint n xs ! k)) =
         bf_get e twolevel_hint_fields i (xs ! k)"
  using assms(2,3)
proof (induction e False shint n xs arbitrary: k rule: swap_twolevel_hint.induct)
  case (1 e shint n x xs)
  have "i < length twolevel_hint_fields" using assms(1) by (simp add: twolevel_hint_fields_def)
  with 1 show ?case
    by (cases k) (simp_all add: swap_twolevel_hint_entry_def Let_def hint.out_read_all
       )
qed simp_all

lemma swap_dylib_reference_out:
  assumes "i < 2" and "k < n" and "n \<le> length xs"
  shows "bf_get (flip e) dylib_reference_fields i
           (SWAP_INT (swap_dylib_reference e False sref n xs ! k)) =
         bf_get e dylib_reference_fields i (xs ! k)"
  using assms(2,3)
proof (induction e False sref n xs arbitrary: k rule: swap_dylib_reference.induct)
  case (1 e sref n x xs)
  have "i < length dylib_reference_fields" using assms(1) by (simp add: dylib_reference_fields_def)
  with 1 show ?case
    by (cases k) (simp_all add: swap_dylib_reference_entry_def Let_def dref.out_read_all
       )
qed simp_all

end
