(* ===== verification/Thread_States_3.thy ===== *)
theory Thread_States_3
  imports Bit_Fields
begin

text \<open>
  The register states with bit-fields: the extended registers and the implementation
  registers of the 88000, the i386 floating-point state and the SPARC states, with
  their swap routines in \<open>libstuff/bytesex.c\<close>.

  A routine moves bit-fields through local structures, which are not initialised.
  Their contents are arguments here (\<open>ssr\<close>, \<open>scr\<close>, \<dots>): bits without a name of a
  register take them over when the target is the other byte order.  \<open>to_host\<close> is
  \<open>target_byte_sex == host_byte_sex\<close>.
\<close>

section \<open>Motorola 88000\<close>

record m88k_thread_state_xrf =
  m88kx_x :: "u32 list"
  m88kx_fpsr :: u32
  m88kx_fpcr :: u32
  m88kx_tail_padding :: bytes

definition sizeof_m88k_thread_state_xrf :: nat where
  "sizeof_m88k_thread_state_xrf = 512"

definition load_m88k_thread_state_xrf :: "endian \<Rightarrow> bytes \<Rightarrow> m88k_thread_state_xrf" where
  "load_m88k_thread_state_xrf e m =
     \<lparr>m88kx_x = get32s e m 0 124, m88kx_fpsr = get32 e m 496, m88kx_fpcr = get32 e m 500,
      m88kx_tail_padding = subbytes 504 8 m\<rparr>"

definition store_m88k_thread_state_xrf :: "endian \<Rightarrow> m88k_thread_state_xrf \<Rightarrow> bytes" where
  "store_m88k_thread_state_xrf e x =
     put32s e (m88kx_x x) @ put32 e (m88kx_fpsr x) @ put32 e (m88kx_fpcr x) @
     m88kx_tail_padding x"

lemmas m88k_thread_state_xrf_defs =
  sizeof_m88k_thread_state_xrf_def load_m88k_thread_state_xrf_def store_m88k_thread_state_xrf_def

interpretation m88k_thread_state_xrf: struct_layout
    sizeof_m88k_thread_state_xrf load_m88k_thread_state_xrf store_m88k_thread_state_xrf
  by unfold_locales (simp_all add: m88k_thread_state_xrf_defs byte_simps)

text \<open>From the top: unused, \<open>xmod\<close>, unused, \<open>afinv\<close>, \<open>afdvz\<close>, \<open>afunf\<close>, \<open>afovf\<close>, \<open>afinx\<close>.\<close>

definition m88k_fpsr_fields :: "nat list" where
  "m88k_fpsr_fields = [15, 1, 11, 1, 1, 1, 1, 1]"

definition swapped_m88k_fpsr_fields :: "nat list" where
  "swapped_m88k_fpsr_fields = [1, 1, 1, 1, 1, 11, 1, 15]"

text \<open>From the top: unused, \<open>rm\<close>, unused, \<open>efinv\<close>, \<open>efdvz\<close>, \<open>efunf\<close>, \<open>efovf\<close>, \<open>efinx\<close>.\<close>

definition m88k_fpcr_fields :: "nat list" where
  "m88k_fpcr_fields = [16, 2, 9, 1, 1, 1, 1, 1]"

definition swapped_m88k_fpcr_fields :: "nat list" where
  "swapped_m88k_fpcr_fields = [1, 1, 1, 1, 1, 9, 2, 16]"

text \<open>Both registers have their six named fields at the same positions.\<close>

definition m88k_fp_ins :: "(nat \<times> nat) list" where
  "m88k_fp_ins = [(7, 0), (6, 1), (5, 2), (4, 3), (3, 4), (1, 6)]"

definition m88k_fp_outs :: "(nat \<times> nat) list" where
  "m88k_fp_outs = [(0, 7), (1, 6), (2, 5), (3, 4), (4, 3), (6, 1)]"

definition swap_m88k_thread_state_xrf_t :: "endian \<Rightarrow> bool \<Rightarrow> u32 \<Rightarrow> u32 \<Rightarrow>
    m88k_thread_state_xrf \<Rightarrow> m88k_thread_state_xrf" where
  "swap_m88k_thread_state_xrf_t e to_host ssr scr fpu =
     (let fpu = fpu\<lparr>m88kx_x := map SWAP_INT (m88kx_x fpu)\<rparr>
      in if to_host then
           fpu\<lparr>m88kx_fpsr := bf_copy e m88k_fpsr_fields swapped_m88k_fpsr_fields m88k_fp_ins
                  (SWAP_INT (m88kx_fpsr fpu)) (m88kx_fpsr fpu),
               m88kx_fpcr := bf_copy e m88k_fpcr_fields swapped_m88k_fpcr_fields m88k_fp_ins
                  (SWAP_INT (m88kx_fpcr fpu)) (m88kx_fpcr fpu)\<rparr>
         else
           fpu\<lparr>m88kx_fpsr := SWAP_INT (bf_copy e swapped_m88k_fpsr_fields m88k_fpsr_fields
                  m88k_fp_outs (m88kx_fpsr fpu) ssr),
               m88kx_fpcr := SWAP_INT (bf_copy e swapped_m88k_fpcr_fields m88k_fpcr_fields
                  m88k_fp_outs (m88kx_fpcr fpu) scr)\<rparr>)"

record m88110_thread_state_impl =
  m88110_bp0_addr :: u32
  m88110_bp0_ctrl :: u32
  m88110_bp1_addr :: u32
  m88110_bp1_ctrl :: u32
  m88110_psr :: u32
  m88110_padding :: bytes
  m88110_intermediate_result :: "u32 list"
  m88110_fp_trap_status :: u32
  m88110_tail_padding :: bytes

definition sizeof_m88110_thread_state_impl :: nat where
  "sizeof_m88110_thread_state_impl = 64"

definition load_m88110_thread_state_impl :: "endian \<Rightarrow> bytes \<Rightarrow> m88110_thread_state_impl" where
  "load_m88110_thread_state_impl e m =
     \<lparr>m88110_bp0_addr = get32 e m 0, m88110_bp0_ctrl = get32 e m 4,
      m88110_bp1_addr = get32 e m 8, m88110_bp1_ctrl = get32 e m 12, m88110_psr = get32 e m 16,
      m88110_padding = subbytes 20 12 m, m88110_intermediate_result = get32s e m 32 4,
      m88110_fp_trap_status = get32 e m 48, m88110_tail_padding = subbytes 52 12 m\<rparr>"

definition store_m88110_thread_state_impl :: "endian \<Rightarrow> m88110_thread_state_impl \<Rightarrow> bytes" where
  "store_m88110_thread_state_impl e x =
     put32 e (m88110_bp0_addr x) @ put32 e (m88110_bp0_ctrl x) @ put32 e (m88110_bp1_addr x) @
     put32 e (m88110_bp1_ctrl x) @ put32 e (m88110_psr x) @ m88110_padding x @
     put32s e (m88110_intermediate_result x) @ put32 e (m88110_fp_trap_status x) @
     m88110_tail_padding x"

lemmas m88110_thread_state_impl_defs =
  sizeof_m88110_thread_state_impl_def load_m88110_thread_state_impl_def store_m88110_thread_state_impl_def

interpretation m88110_thread_state_impl: struct_layout
    sizeof_m88110_thread_state_impl load_m88110_thread_state_impl store_m88110_thread_state_impl
  by unfold_locales (simp_all add: m88110_thread_state_impl_defs byte_simps)

text \<open>From the top: unused, \<open>rw\<close>, \<open>rwm\<close>, unused, \<open>addr_match\<close>, \<open>v\<close>.\<close>

definition m88110_bp_ctrl_fields :: "nat list" where
  "m88110_bp_ctrl_fields = [3, 1, 1, 14, 12, 1]"

definition swapped_m88110_bp_ctrl_fields :: "nat list" where
  "swapped_m88110_bp_ctrl_fields = [1, 12, 14, 1, 1, 3]"

definition m88110_bp_ctrl_ins :: "(nat \<times> nat) list" where
  "m88110_bp_ctrl_ins = [(5, 0), (4, 1), (2, 3), (1, 4)]"

definition m88110_bp_ctrl_outs :: "(nat \<times> nat) list" where
  "m88110_bp_ctrl_outs = [(0, 5), (1, 4), (3, 2), (4, 1)]"

text \<open>From the top: \<open>supr\<close>, \<open>le\<close>, \<open>se\<close>, \<open>c\<close>, unused, \<open>sgn_imd\<close>, \<open>sm\<close>, unused, \<open>trace\<close>, unused,
  \<open>sfu2dis\<close>, \<open>sfu1dis\<close>, \<open>mxm_dis\<close>, unused.\<close>

definition m88110_psr_fields :: "nat list" where
  "m88110_psr_fields = [1, 1, 1, 1, 1, 1, 1, 1, 1, 18, 1, 1, 1, 2]"

definition swapped_m88110_psr_fields :: "nat list" where
  "swapped_m88110_psr_fields = [2, 1, 1, 19, 1, 1, 1, 1, 1, 1, 1, 1, 1]"

definition m88110_psr_ins :: "(nat \<times> nat) list" where
  "m88110_psr_ins =
     [(12, 1), (11, 2), (8, 4), (6, 6), (5, 7), (3, 9), (2, 10), (1, 11), (0, 12)]"

definition m88110_psr_outs :: "(nat \<times> nat) list" where
  "m88110_psr_outs =
     [(1, 12), (2, 11), (4, 8), (6, 6), (7, 5), (9, 3), (10, 2), (11, 1), (12, 0)]"

text \<open>From the top: unused, \<open>iresult_size\<close>, unused, \<open>sfu1_disabled\<close>, an unnamed bit (\<open>unsigned int:1\<close>
  declares no name), \<open>unimp\<close>, \<open>priv\<close>, \<open>efinv\<close>, \<open>efdvz\<close>, \<open>efunf\<close>, \<open>efovf\<close>, \<open>efinx\<close>.\<close>

definition m88110_fp_trap_fields :: "nat list" where
  "m88110_fp_trap_fields = [16, 2, 5, 1, 1, 1, 1, 1, 1, 1, 1, 1]"

definition swapped_m88110_fp_trap_fields :: "nat list" where
  "swapped_m88110_fp_trap_fields = [1, 1, 1, 1, 1, 1, 1, 1, 1, 5, 2, 16]"

definition m88110_fp_trap_ins :: "(nat \<times> nat) list" where
  "m88110_fp_trap_ins =
     [(11, 0), (10, 1), (9, 2), (8, 3), (7, 4), (6, 5), (5, 6), (3, 8), (1, 10)]"

definition m88110_fp_trap_outs :: "(nat \<times> nat) list" where
  "m88110_fp_trap_outs =
     [(0, 11), (1, 10), (2, 9), (3, 8), (4, 7), (5, 6), (6, 5), (8, 3), (10, 1)]"

text \<open>The two rounds of the breakpoint loop share the local structure \<open>sbpc\<close>.\<close>

definition swap_m88110_bp_ctrl :: "endian \<Rightarrow> bool \<Rightarrow> u32 \<Rightarrow> u32 \<Rightarrow> u32" where
  "swap_m88110_bp_ctrl e to_host sbpc ctrl =
     (if to_host then
        bf_copy e m88110_bp_ctrl_fields swapped_m88110_bp_ctrl_fields m88110_bp_ctrl_ins
          (SWAP_INT ctrl) ctrl
      else
        SWAP_INT (bf_copy e swapped_m88110_bp_ctrl_fields m88110_bp_ctrl_fields
          m88110_bp_ctrl_outs ctrl sbpc))"

definition swap_m88110_thread_state_impl_t :: "endian \<Rightarrow> bool \<Rightarrow> u32 \<Rightarrow> u32 \<Rightarrow> u32 \<Rightarrow>
    m88110_thread_state_impl \<Rightarrow> m88110_thread_state_impl" where
  "swap_m88110_thread_state_impl_t e to_host sbpc spsr sfps spu =
     (let bp0_ctrl = swap_m88110_bp_ctrl e to_host sbpc (m88110_bp0_ctrl spu);
          bp1_ctrl = swap_m88110_bp_ctrl e to_host bp0_ctrl (m88110_bp1_ctrl spu);
          psr = (if to_host then
              bf_copy e m88110_psr_fields swapped_m88110_psr_fields m88110_psr_ins
                (SWAP_INT (m88110_psr spu)) (m88110_psr spu)
            else
              SWAP_INT (bf_copy e swapped_m88110_psr_fields m88110_psr_fields m88110_psr_outs
                (m88110_psr spu) spsr));
          fp_trap_status = (if to_host then
              bf_copy e m88110_fp_trap_fields swapped_m88110_fp_trap_fields m88110_fp_trap_ins
                (SWAP_INT (m88110_fp_trap_status spu)) (m88110_fp_trap_status spu)
            else
              SWAP_INT (bf_copy e swapped_m88110_fp_trap_fields m88110_fp_trap_fields
                m88110_fp_trap_outs (m88110_fp_trap_status spu) sfps))
      in spu\<lparr>m88110_bp0_addr := SWAP_INT (m88110_bp0_addr spu), m88110_bp0_ctrl := bp0_ctrl,
             m88110_bp1_addr := SWAP_INT (m88110_bp1_addr spu), m88110_bp1_ctrl := bp1_ctrl,
             m88110_psr := psr, m88110_fp_trap_status := fp_trap_status,
             m88110_intermediate_result := map SWAP_INT (m88110_intermediate_result spu)\<rparr>)"

section \<open>Intel 386 floating point\<close>

text \<open>The x87 and XMM registers are byte arrays and are left alone.\<close>

record i386_float_state =
  i386fp_fpu_reserved :: "u32 list"
  i386fp_fpu_fcw :: u16
  i386fp_fpu_fsw :: u16
  i386fp_fpu_ftw :: u8
  i386fp_fpu_rsrv1 :: u8
  i386fp_fpu_fop :: u16
  i386fp_fpu_ip :: u32
  i386fp_fpu_cs :: u16
  i386fp_fpu_rsrv2 :: u16
  i386fp_fpu_dp :: u32
  i386fp_fpu_ds :: u16
  i386fp_fpu_rsrv3 :: u16
  i386fp_fpu_mxcsr :: u32
  i386fp_fpu_mxcsrmask :: u32
  i386fp_fpu_registers :: bytes
  i386fp_fpu_reserved1 :: u32

definition sizeof_i386_float_state :: nat where
  "sizeof_i386_float_state = 524"

definition load_i386_float_state :: "endian \<Rightarrow> bytes \<Rightarrow> i386_float_state" where
  "load_i386_float_state e m =
     \<lparr>i386fp_fpu_reserved = get32s e m 0 2, i386fp_fpu_fcw = get16 e m 8,
      i386fp_fpu_fsw = get16 e m 10, i386fp_fpu_ftw = get8 m 12, i386fp_fpu_rsrv1 = get8 m 13,
      i386fp_fpu_fop = get16 e m 14, i386fp_fpu_ip = get32 e m 16, i386fp_fpu_cs = get16 e m 20,
      i386fp_fpu_rsrv2 = get16 e m 22, i386fp_fpu_dp = get32 e m 24,
      i386fp_fpu_ds = get16 e m 28, i386fp_fpu_rsrv3 = get16 e m 30,
      i386fp_fpu_mxcsr = get32 e m 32, i386fp_fpu_mxcsrmask = get32 e m 36,
      i386fp_fpu_registers = subbytes 40 480 m, i386fp_fpu_reserved1 = get32 e m 520\<rparr>"

definition store_i386_float_state :: "endian \<Rightarrow> i386_float_state \<Rightarrow> bytes" where
  "store_i386_float_state e x =
     put32s e (i386fp_fpu_reserved x) @ put16 e (i386fp_fpu_fcw x) @
     put16 e (i386fp_fpu_fsw x) @ put8 (i386fp_fpu_ftw x) @ put8 (i386fp_fpu_rsrv1 x) @
     put16 e (i386fp_fpu_fop x) @ put32 e (i386fp_fpu_ip x) @ put16 e (i386fp_fpu_cs x) @
     put16 e (i386fp_fpu_rsrv2 x) @ put32 e (i386fp_fpu_dp x) @ put16 e (i386fp_fpu_ds x) @
     put16 e (i386fp_fpu_rsrv3 x) @ put32 e (i386fp_fpu_mxcsr x) @
     put32 e (i386fp_fpu_mxcsrmask x) @ i386fp_fpu_registers x @
     put32 e (i386fp_fpu_reserved1 x)"

lemmas i386_float_state_defs =
  sizeof_i386_float_state_def load_i386_float_state_def store_i386_float_state_def

interpretation i386_float_state: struct_layout
    sizeof_i386_float_state load_i386_float_state store_i386_float_state
  by unfold_locales (simp_all add: i386_float_state_defs byte_simps)

text \<open>\<open>invalid\<close>, \<open>denorm\<close>, \<open>zdiv\<close>, \<open>ovrfl\<close>, \<open>undfl\<close>, \<open>precis\<close>, unused, \<open>pc\<close>, \<open>rc\<close>, infinity, unused.\<close>

definition fp_control_fields :: "nat list" where
  "fp_control_fields = [1, 1, 1, 1, 1, 1, 2, 2, 2, 1, 3]"

definition swapped_fp_control_fields :: "nat list" where
  "swapped_fp_control_fields = [3, 1, 2, 2, 2, 1, 1, 1, 1, 1, 1]"

definition fp_control_ins :: "(nat \<times> nat) list" where
  "fp_control_ins = [(8, 2), (7, 3), (5, 5), (4, 6), (3, 7), (2, 8), (1, 9), (0, 10)]"

definition fp_control_outs :: "(nat \<times> nat) list" where
  "fp_control_outs = [(2, 8), (3, 7), (5, 5), (6, 4), (7, 3), (8, 2), (9, 1), (10, 0)]"

text \<open>\<open>invalid\<close>, \<open>denorm\<close>, \<open>zdiv\<close>, \<open>ovrfl\<close>, \<open>undfl\<close>, \<open>precis\<close>, \<open>stkflt\<close>, \<open>errsumm\<close>, \<open>c0\<close>, \<open>c1\<close>, \<open>c2\<close>, \<open>tos\<close>,
  \<open>c3\<close>, \<open>busy\<close>.\<close>

definition fp_status_fields :: "nat list" where
  "fp_status_fields = [1, 1, 1, 1, 1, 1, 1, 1, 1, 1, 1, 3, 1, 1]"

definition swapped_fp_status_fields :: "nat list" where
  "swapped_fp_status_fields = [1, 1, 3, 1, 1, 1, 1, 1, 1, 1, 1, 1, 1, 1]"

definition fp_status_ins :: "(nat \<times> nat) list" where
  "fp_status_ins =
     [(13, 0), (12, 1), (11, 2), (10, 3), (9, 4), (8, 5), (7, 6), (6, 7), (5, 8), (4, 9),
      (3, 10), (2, 11), (1, 12), (0, 13)]"

definition fp_status_outs :: "(nat \<times> nat) list" where
  "fp_status_outs =
     [(0, 13), (1, 12), (2, 11), (3, 10), (4, 9), (5, 8), (6, 7), (7, 6), (8, 5), (9, 4),
      (10, 3), (11, 2), (12, 1), (13, 0)]"

definition swap_i386_float_state :: "endian \<Rightarrow> bool \<Rightarrow> u16 \<Rightarrow> u16 \<Rightarrow> i386_float_state \<Rightarrow>
    i386_float_state" where
  "swap_i386_float_state e to_host sfpc sfps fpu =
     (let fcw = (if to_host then
              bf_copy e fp_control_fields swapped_fp_control_fields fp_control_ins
                (SWAP_SHORT (i386fp_fpu_fcw fpu)) (i386fp_fpu_fcw fpu)
            else
              SWAP_SHORT (bf_copy e swapped_fp_control_fields fp_control_fields fp_control_outs
                (i386fp_fpu_fcw fpu) sfpc));
          fsw = (if to_host then
              bf_copy e fp_status_fields swapped_fp_status_fields fp_status_ins
                (SWAP_SHORT (i386fp_fpu_fsw fpu)) (i386fp_fpu_fsw fpu)
            else
              SWAP_SHORT (bf_copy e swapped_fp_status_fields fp_status_fields fp_status_outs
                (i386fp_fpu_fsw fpu) sfps))
      in fpu\<lparr>i386fp_fpu_reserved := map SWAP_INT (i386fp_fpu_reserved fpu),
             i386fp_fpu_fcw := fcw, i386fp_fpu_fsw := fsw,
             i386fp_fpu_fop := SWAP_SHORT (i386fp_fpu_fop fpu),
             i386fp_fpu_ip := SWAP_INT (i386fp_fpu_ip fpu),
             i386fp_fpu_cs := SWAP_SHORT (i386fp_fpu_cs fpu),
             i386fp_fpu_rsrv2 := SWAP_SHORT (i386fp_fpu_rsrv2 fpu),
             i386fp_fpu_dp := SWAP_INT (i386fp_fpu_dp fpu),
             i386fp_fpu_ds := SWAP_SHORT (i386fp_fpu_ds fpu),
             i386fp_fpu_rsrv3 := SWAP_SHORT (i386fp_fpu_rsrv3 fpu),
             i386fp_fpu_mxcsr := SWAP_INT (i386fp_fpu_mxcsr fpu),
             i386fp_fpu_mxcsrmask := SWAP_INT (i386fp_fpu_mxcsrmask fpu),
             i386fp_fpu_reserved1 := SWAP_INT (i386fp_fpu_reserved1 fpu)\<rparr>)"

section \<open>SPARC\<close>

record sparc_thread_state_regs =
  sparc_r_psr :: u32
  sparc_r_pc :: u32
  sparc_r_npc :: u32
  sparc_r_y :: u32
  sparc_r_g1 :: u32
  sparc_r_g2 :: u32
  sparc_r_g3 :: u32
  sparc_r_g4 :: u32
  sparc_r_g5 :: u32
  sparc_r_g6 :: u32
  sparc_r_g7 :: u32
  sparc_r_o0 :: u32
  sparc_r_o1 :: u32
  sparc_r_o2 :: u32
  sparc_r_o3 :: u32
  sparc_r_o4 :: u32
  sparc_r_o5 :: u32
  sparc_r_o6 :: u32
  sparc_r_o7 :: u32

definition sizeof_sparc_thread_state_regs :: nat where
  "sizeof_sparc_thread_state_regs = 76"

definition load_sparc_thread_state_regs :: "endian \<Rightarrow> bytes \<Rightarrow> sparc_thread_state_regs" where
  "load_sparc_thread_state_regs e m =
     \<lparr>sparc_r_psr = get32 e m 0, sparc_r_pc = get32 e m 4, sparc_r_npc = get32 e m 8,
      sparc_r_y = get32 e m 12, sparc_r_g1 = get32 e m 16, sparc_r_g2 = get32 e m 20,
      sparc_r_g3 = get32 e m 24, sparc_r_g4 = get32 e m 28, sparc_r_g5 = get32 e m 32,
      sparc_r_g6 = get32 e m 36, sparc_r_g7 = get32 e m 40, sparc_r_o0 = get32 e m 44,
      sparc_r_o1 = get32 e m 48, sparc_r_o2 = get32 e m 52, sparc_r_o3 = get32 e m 56,
      sparc_r_o4 = get32 e m 60, sparc_r_o5 = get32 e m 64, sparc_r_o6 = get32 e m 68,
      sparc_r_o7 = get32 e m 72\<rparr>"

definition store_sparc_thread_state_regs :: "endian \<Rightarrow> sparc_thread_state_regs \<Rightarrow> bytes" where
  "store_sparc_thread_state_regs e x =
     put32 e (sparc_r_psr x) @ put32 e (sparc_r_pc x) @ put32 e (sparc_r_npc x) @
     put32 e (sparc_r_y x) @ put32 e (sparc_r_g1 x) @ put32 e (sparc_r_g2 x) @
     put32 e (sparc_r_g3 x) @ put32 e (sparc_r_g4 x) @ put32 e (sparc_r_g5 x) @
     put32 e (sparc_r_g6 x) @ put32 e (sparc_r_g7 x) @ put32 e (sparc_r_o0 x) @
     put32 e (sparc_r_o1 x) @ put32 e (sparc_r_o2 x) @ put32 e (sparc_r_o3 x) @
     put32 e (sparc_r_o4 x) @ put32 e (sparc_r_o5 x) @ put32 e (sparc_r_o6 x) @
     put32 e (sparc_r_o7 x)"

lemmas sparc_thread_state_regs_defs =
  sizeof_sparc_thread_state_regs_def load_sparc_thread_state_regs_def store_sparc_thread_state_regs_def

interpretation sparc_thread_state_regs: struct_layout
    sizeof_sparc_thread_state_regs load_sparc_thread_state_regs store_sparc_thread_state_regs
  by unfold_locales (simp_all add: sparc_thread_state_regs_defs byte_simps)

text \<open>\<open>impl\<close>, \<open>ver\<close>, \<open>icc\<close>, \<open>reserved\<close>, \<open>ec\<close>, \<open>ef\<close>, \<open>pil\<close>, \<open>s\<close>, \<open>ps\<close>, \<open>et\<close>, \<open>cwp\<close>.\<close>

definition p_status_fields :: "nat list" where
  "p_status_fields = [4, 4, 4, 6, 1, 1, 4, 1, 1, 1, 5]"

definition swapped_p_status_fields :: "nat list" where
  "swapped_p_status_fields = [5, 1, 1, 1, 4, 1, 1, 6, 4, 4, 4]"

text \<open>The assignments pair \<open>et\<close> of one side with \<open>ver\<close> of the other.\<close>

definition p_status_ins :: "(nat \<times> nat) list" where
  "p_status_ins =
     [(10, 0), (8, 2), (7, 3), (6, 4), (5, 5), (4, 6), (3, 7), (2, 8), (9, 9), (0, 10)]"

definition p_status_outs :: "(nat \<times> nat) list" where
  "p_status_outs =
     [(0, 10), (2, 8), (3, 7), (4, 6), (5, 5), (6, 4), (7, 3), (8, 2), (9, 9), (10, 0)]"

definition swap_sparc_thread_state_regs :: "endian \<Rightarrow> bool \<Rightarrow> u32 \<Rightarrow>
    sparc_thread_state_regs \<Rightarrow> sparc_thread_state_regs" where
  "swap_sparc_thread_state_regs e to_host spsr cpu =
     cpu\<lparr>sparc_r_pc := SWAP_INT (sparc_r_pc cpu),
         sparc_r_npc := SWAP_INT (sparc_r_npc cpu),
         sparc_r_y := SWAP_INT (sparc_r_y cpu),
         sparc_r_g1 := SWAP_INT (sparc_r_g1 cpu),
         sparc_r_g2 := SWAP_INT (sparc_r_g2 cpu),
         sparc_r_g3 := SWAP_INT (sparc_r_g3 cpu),
         sparc_r_g4 := SWAP_INT (sparc_r_g4 cpu),
         sparc_r_g5 := SWAP_INT (sparc_r_g5 cpu),
         sparc_r_g6 := SWAP_INT (sparc_r_g6 cpu),
         sparc_r_g7 := SWAP_INT (sparc_r_g7 cpu),
         sparc_r_o0 := SWAP_INT (sparc_r_o0 cpu),
         sparc_r_o1 := SWAP_INT (sparc_r_o1 cpu),
         sparc_r_o2 := SWAP_INT (sparc_r_o2 cpu),
         sparc_r_o3 := SWAP_INT (sparc_r_o3 cpu),
         sparc_r_o4 := SWAP_INT (sparc_r_o4 cpu),
         sparc_r_o5 := SWAP_INT (sparc_r_o5 cpu),
         sparc_r_o6 := SWAP_INT (sparc_r_o6 cpu),
         sparc_r_o7 := SWAP_INT (sparc_r_o7 cpu),
         sparc_r_psr :=
           (if to_host then
              bf_copy e p_status_fields swapped_p_status_fields p_status_ins
                (SWAP_INT (sparc_r_psr cpu)) (sparc_r_psr cpu)
            else
              SWAP_INT (bf_copy e swapped_p_status_fields p_status_fields p_status_outs
                (sparc_r_psr cpu) spsr))\<rparr>"

text \<open>
  A queue element is the union of a double with a pointer and an instruction, 16 bytes
  on a 64-bit host; the routine swaps the doubles of the first two of the 16 elements.
\<close>

record sparc_thread_state_fpu =
  sparc_fpu_dregs :: "u64 list"
  sparc_fpu_fsr :: u32
  sparc_fpu_flags :: u32
  sparc_fpu_extra :: u32
  sparc_fpu_qcnt :: u32
  sparc_fpu_q0 :: u64
  sparc_fpu_q0_rest :: bytes
  sparc_fpu_q1 :: u64
  sparc_fpu_q1_rest :: bytes
  sparc_fpu_q_rest :: bytes

definition sizeof_sparc_thread_state_fpu :: nat where
  "sizeof_sparc_thread_state_fpu = 400"

definition load_sparc_thread_state_fpu :: "endian \<Rightarrow> bytes \<Rightarrow> sparc_thread_state_fpu" where
  "load_sparc_thread_state_fpu e m =
     \<lparr>sparc_fpu_dregs = get64s e m 0 16, sparc_fpu_fsr = get32 e m 128,
      sparc_fpu_flags = get32 e m 132, sparc_fpu_extra = get32 e m 136,
      sparc_fpu_qcnt = get32 e m 140, sparc_fpu_q0 = get64 e m 144,
      sparc_fpu_q0_rest = subbytes 152 8 m, sparc_fpu_q1 = get64 e m 160,
      sparc_fpu_q1_rest = subbytes 168 8 m, sparc_fpu_q_rest = subbytes 176 224 m\<rparr>"

definition store_sparc_thread_state_fpu :: "endian \<Rightarrow> sparc_thread_state_fpu \<Rightarrow> bytes" where
  "store_sparc_thread_state_fpu e x =
     put64s e (sparc_fpu_dregs x) @ put32 e (sparc_fpu_fsr x) @ put32 e (sparc_fpu_flags x) @
     put32 e (sparc_fpu_extra x) @ put32 e (sparc_fpu_qcnt x) @ put64 e (sparc_fpu_q0 x) @
     sparc_fpu_q0_rest x @ put64 e (sparc_fpu_q1 x) @ sparc_fpu_q1_rest x @ sparc_fpu_q_rest x"

lemmas sparc_thread_state_fpu_defs =
  sizeof_sparc_thread_state_fpu_def load_sparc_thread_state_fpu_def store_sparc_thread_state_fpu_def

interpretation sparc_thread_state_fpu: struct_layout
    sizeof_sparc_thread_state_fpu load_sparc_thread_state_fpu store_sparc_thread_state_fpu
  by unfold_locales (simp_all add: sparc_thread_state_fpu_defs byte_simps)

text \<open>\<open>rd\<close>, \<open>rp\<close>, \<open>tem\<close>, \<open>res\<close>, \<open>ftt\<close>, \<open>qne\<close>, \<open>pr\<close>, \<open>fcc\<close>, \<open>aexc\<close>, \<open>cexc\<close>.\<close>

definition f_status_fields :: "nat list" where
  "f_status_fields = [2, 2, 5, 6, 3, 1, 1, 2, 5, 5]"

definition swapped_f_status_fields :: "nat list" where
  "swapped_f_status_fields = [5, 5, 2, 1, 1, 3, 6, 5, 2, 2]"

definition f_status_ins :: "(nat \<times> nat) list" where
  "f_status_ins =
     [(0, 9), (1, 8), (2, 7), (3, 6), (4, 5), (5, 4), (6, 3), (7, 2), (8, 1), (9, 0)]"

definition f_status_outs :: "(nat \<times> nat) list" where
  "f_status_outs =
     [(9, 0), (8, 1), (7, 2), (6, 3), (5, 4), (4, 5), (3, 6), (2, 7), (1, 8), (0, 9)]"

definition swap_sparc_thread_state_fpu :: "endian \<Rightarrow> bool \<Rightarrow> u32 \<Rightarrow>
    sparc_thread_state_fpu \<Rightarrow> sparc_thread_state_fpu" where
  "swap_sparc_thread_state_fpu e to_host sfsr fpu =
     fpu\<lparr>sparc_fpu_dregs := map SWAP_DOUBLE (sparc_fpu_dregs fpu),
         sparc_fpu_q0 := SWAP_DOUBLE (sparc_fpu_q0 fpu),
         sparc_fpu_q1 := SWAP_DOUBLE (sparc_fpu_q1 fpu),
         sparc_fpu_flags := SWAP_INT (sparc_fpu_flags fpu),
         sparc_fpu_extra := SWAP_INT (sparc_fpu_extra fpu),
         sparc_fpu_qcnt := SWAP_INT (sparc_fpu_qcnt fpu),
         sparc_fpu_fsr :=
           (if to_host then
              bf_copy e f_status_fields swapped_f_status_fields f_status_ins
                (SWAP_INT (sparc_fpu_fsr fpu)) (sparc_fpu_fsr fpu)
            else
              SWAP_INT (bf_copy e swapped_f_status_fields f_status_fields f_status_outs
                (sparc_fpu_fsr fpu) sfsr))\<rparr>"

section \<open>The named fields\<close>

text \<open>
  The routines move every named field to where the other host looks for it.  There
  is no interpretation for the SPARC status register.
\<close>

interpretation fpsr: moved_fields 32 m88k_fpsr_fields swapped_m88k_fpsr_fields
    m88k_fp_outs m88k_fp_ins
  by unfold_locales
     (simp_all add: m88k_fpsr_fields_def swapped_m88k_fpsr_fields_def m88k_fp_ins_def
       m88k_fp_outs_def bf_check)

interpretation fpcr: moved_fields 32 m88k_fpcr_fields swapped_m88k_fpcr_fields
    m88k_fp_outs m88k_fp_ins
  by unfold_locales
     (simp_all add: m88k_fpcr_fields_def swapped_m88k_fpcr_fields_def m88k_fp_ins_def
       m88k_fp_outs_def bf_check)

interpretation bp_ctrl: moved_fields 32 m88110_bp_ctrl_fields swapped_m88110_bp_ctrl_fields
    m88110_bp_ctrl_outs m88110_bp_ctrl_ins
  by unfold_locales
     (simp_all add: m88110_bp_ctrl_fields_def swapped_m88110_bp_ctrl_fields_def
       m88110_bp_ctrl_ins_def m88110_bp_ctrl_outs_def bf_check)

interpretation psr: moved_fields 32 m88110_psr_fields swapped_m88110_psr_fields
    m88110_psr_outs m88110_psr_ins
  by unfold_locales
     (simp_all add: m88110_psr_fields_def swapped_m88110_psr_fields_def m88110_psr_ins_def
       m88110_psr_outs_def bf_check)

interpretation fp_trap: moved_fields 32 m88110_fp_trap_fields swapped_m88110_fp_trap_fields
    m88110_fp_trap_outs m88110_fp_trap_ins
  by unfold_locales
     (simp_all add: m88110_fp_trap_fields_def swapped_m88110_fp_trap_fields_def
       m88110_fp_trap_ins_def m88110_fp_trap_outs_def bf_check)

interpretation fp_control: moved_fields 16 fp_control_fields swapped_fp_control_fields
    fp_control_outs fp_control_ins
  by unfold_locales
     (simp_all add: fp_control_fields_def swapped_fp_control_fields_def fp_control_ins_def
       fp_control_outs_def bf_check)

interpretation fp_status: moved_fields 16 fp_status_fields swapped_fp_status_fields
    fp_status_outs fp_status_ins
  by unfold_locales
     (simp_all add: fp_status_fields_def swapped_fp_status_fields_def fp_status_ins_def
       fp_status_outs_def bf_check)

interpretation f_status: reversed_fields f_status_fields swapped_f_status_fields
    f_status_outs f_status_ins
  by unfold_locales
     (simp_all add: f_status_fields_def swapped_f_status_fields_def f_status_ins_def
       f_status_outs_def bf_check)

end
