(* ===== verification/Swap_Pass.thy ===== *)
theory Swap_Pass
  imports Swap_Check Thread_States_3
begin

text \<open>
  The second pass of \<open>swap_object_headers\<close> (\<open>libstuff/swap_headers.c\<close>), which swaps the
  load commands in place, and the routine as a whole.  The result of a step is the
  changed buffer, or \<open>Fault\<close> for an access outside it.  \<open>stack\<close> gives what the
  uninitialised local structures of a register state's swap routine hold, by the
  offset of the state and the number of the local.

  The lemmas show when the pass stays inside every command, and that the other host
  then finds the same sequence of commands.
\<close>

section \<open>Operations on the buffer\<close>

definition swap_at :: "nat \<Rightarrow> nat \<Rightarrow> (bytes \<Rightarrow> bytes) \<Rightarrow> bytes \<Rightarrow> bytes outcome" where
  "swap_at p n f m = (case modify_at p n f m of Some m' \<Rightarrow> Ok m' | None \<Rightarrow> Fault)"

section \<open>Commands of one structure\<close>

text \<open>A row is the command, the size of its structure and what the case does to it.\<close>

type_synonym swap_row = "u32 \<times> nat \<times> (bytes \<Rightarrow> bytes)"

definition swap_symbols :: "endian \<Rightarrow> swap_row list" where
  "swap_symbols e =
     [(LC_SYMTAB, sizeof_symtab_command, inplace load_symtab_command store_symtab_command swap_symtab_command e),
      (LC_DYSYMTAB, sizeof_dysymtab_command, inplace load_dysymtab_command store_dysymtab_command swap_dysymtab_command e),
      (LC_SYMSEG, sizeof_symseg_command, inplace load_symseg_command store_symseg_command swap_symseg_command e)]"

definition swap_libraries :: "endian \<Rightarrow> swap_row list" where
  "swap_libraries e =
     [(LC_IDFVMLIB, sizeof_fvmlib_command, inplace load_fvmlib_command store_fvmlib_command swap_fvmlib_command e),
      (LC_LOADFVMLIB, sizeof_fvmlib_command, inplace load_fvmlib_command store_fvmlib_command swap_fvmlib_command e),
      (LC_ID_DYLIB, sizeof_dylib_command, inplace load_dylib_command store_dylib_command swap_dylib_command e),
      (LC_LOAD_DYLIB, sizeof_dylib_command, inplace load_dylib_command store_dylib_command swap_dylib_command e),
      (LC_LOAD_WEAK_DYLIB, sizeof_dylib_command, inplace load_dylib_command store_dylib_command swap_dylib_command e),
      (LC_REEXPORT_DYLIB, sizeof_dylib_command, inplace load_dylib_command store_dylib_command swap_dylib_command e),
      (LC_LOAD_UPWARD_DYLIB, sizeof_dylib_command, inplace load_dylib_command store_dylib_command swap_dylib_command e),
      (LC_LAZY_LOAD_DYLIB, sizeof_dylib_command, inplace load_dylib_command store_dylib_command swap_dylib_command e)]"

definition swap_subs :: "endian \<Rightarrow> swap_row list" where
  "swap_subs e =
     [(LC_SUB_FRAMEWORK, sizeof_sub_framework_command, inplace load_sub_framework_command store_sub_framework_command swap_sub_framework_command e),
      (LC_SUB_UMBRELLA, sizeof_sub_umbrella_command, inplace load_sub_umbrella_command store_sub_umbrella_command swap_sub_umbrella_command e),
      (LC_SUB_LIBRARY, sizeof_sub_library_command, inplace load_sub_library_command store_sub_library_command swap_sub_library_command e),
      (LC_SUB_CLIENT, sizeof_sub_client_command, inplace load_sub_client_command store_sub_client_command swap_sub_client_command e),
      (LC_PREBOUND_DYLIB, sizeof_prebound_dylib_command, inplace load_prebound_dylib_command store_prebound_dylib_command swap_prebound_dylib_command e),
      (LC_ID_DYLINKER, sizeof_dylinker_command, inplace load_dylinker_command store_dylinker_command swap_dylinker_command e),
      (LC_LOAD_DYLINKER, sizeof_dylinker_command, inplace load_dylinker_command store_dylinker_command swap_dylinker_command e),
      (LC_DYLD_ENVIRONMENT, sizeof_dylinker_command, inplace load_dylinker_command store_dylinker_command swap_dylinker_command e)]"

definition swap_ends :: "endian \<Rightarrow> swap_row list" where
  "swap_ends e =
     [(LC_MAIN, sizeof_entry_point_command, inplace load_entry_point_command store_entry_point_command swap_entry_point_command e),
      (LC_SOURCE_VERSION, sizeof_source_version_command, inplace load_source_version_command store_source_version_command swap_source_version_command e),
      (LC_NOTE, sizeof_note_command, inplace load_note_command store_note_command swap_note_command e),
      (LC_IDENT, sizeof_ident_command, inplace load_ident_command store_ident_command swap_ident_command e)]"

definition swap_routines :: "endian \<Rightarrow> swap_row list" where
  "swap_routines e =
     [(LC_ROUTINES, sizeof_routines_command, inplace load_routines_command store_routines_command swap_routines_command e),
      (LC_ROUTINES_64, sizeof_routines_command_64, inplace load_routines_command_64 store_routines_command_64 swap_routines_command_64 e),
      (LC_TWOLEVEL_HINTS, sizeof_twolevel_hints_command, inplace load_twolevel_hints_command store_twolevel_hints_command swap_twolevel_hints_command e),
      (LC_PREBIND_CKSUM, sizeof_prebind_cksum_command, inplace load_prebind_cksum_command store_prebind_cksum_command swap_prebind_cksum_command e),
      (LC_UUID, sizeof_uuid_command, inplace load_uuid_command store_uuid_command swap_uuid_command e)]"

definition swap_linkedit :: "endian \<Rightarrow> swap_row list" where
  "swap_linkedit e =
     [(LC_CODE_SIGNATURE, sizeof_linkedit_data_command, inplace load_linkedit_data_command store_linkedit_data_command swap_linkedit_data_command e),
      (LC_SEGMENT_SPLIT_INFO, sizeof_linkedit_data_command, inplace load_linkedit_data_command store_linkedit_data_command swap_linkedit_data_command e),
      (LC_FUNCTION_STARTS, sizeof_linkedit_data_command, inplace load_linkedit_data_command store_linkedit_data_command swap_linkedit_data_command e),
      (LC_DATA_IN_CODE, sizeof_linkedit_data_command, inplace load_linkedit_data_command store_linkedit_data_command swap_linkedit_data_command e),
      (LC_ATOM_INFO, sizeof_linkedit_data_command, inplace load_linkedit_data_command store_linkedit_data_command swap_linkedit_data_command e),
      (LC_DYLIB_CODE_SIGN_DRS, sizeof_linkedit_data_command, inplace load_linkedit_data_command store_linkedit_data_command swap_linkedit_data_command e),
      (LC_LINKER_OPTIMIZATION_HINT, sizeof_linkedit_data_command, inplace load_linkedit_data_command store_linkedit_data_command swap_linkedit_data_command e),
      (LC_DYLD_EXPORTS_TRIE, sizeof_linkedit_data_command, inplace load_linkedit_data_command store_linkedit_data_command swap_linkedit_data_command e),
      (LC_DYLD_CHAINED_FIXUPS, sizeof_linkedit_data_command, inplace load_linkedit_data_command store_linkedit_data_command swap_linkedit_data_command e)]"

definition swap_others :: "endian \<Rightarrow> swap_row list" where
  "swap_others e =
     [(LC_RPATH, sizeof_rpath_command, inplace load_rpath_command store_rpath_command swap_rpath_command e),
      (LC_ENCRYPTION_INFO, sizeof_encryption_info_command, inplace load_encryption_info_command store_encryption_info_command swap_encryption_command e),
      (LC_ENCRYPTION_INFO_64, sizeof_encryption_info_command_64, inplace load_encryption_info_command_64 store_encryption_info_command_64 swap_encryption_command_64 e),
      (LC_LINKER_OPTION, sizeof_linker_option_command, inplace load_linker_option_command store_linker_option_command swap_linker_option_command e),
      (LC_DYLD_INFO, sizeof_dyld_info_command, inplace load_dyld_info_command store_dyld_info_command swap_dyld_info_command e),
      (LC_DYLD_INFO_ONLY, sizeof_dyld_info_command, inplace load_dyld_info_command store_dyld_info_command swap_dyld_info_command e),
      (LC_VERSION_MIN_MACOSX, sizeof_version_min_command, inplace load_version_min_command store_version_min_command swap_version_min_command e),
      (LC_VERSION_MIN_IPHONEOS, sizeof_version_min_command, inplace load_version_min_command store_version_min_command swap_version_min_command e),
      (LC_VERSION_MIN_WATCHOS, sizeof_version_min_command, inplace load_version_min_command store_version_min_command swap_version_min_command e),
      (LC_VERSION_MIN_TVOS, sizeof_version_min_command, inplace load_version_min_command store_version_min_command swap_version_min_command e)]"

definition swap_rows :: "endian \<Rightarrow> swap_row list" where
  "swap_rows e = swap_symbols e @ swap_libraries e @ swap_subs e @ swap_ends e @ swap_routines e @ swap_linkedit e @ swap_others e"

section \<open>Commands followed by an array\<close>

definition swap_segment :: "endian \<Rightarrow> nat \<Rightarrow> bytes \<Rightarrow> bytes outcome" where
  "swap_segment e lc m =
     bind (read32 e m (lc + 48)) (\<lambda>nsects.
     bind (swap_at (lc + sizeof_segment_command) (unat nsects * sizeof_section_32)
             (swap_array sizeof_section_32 load_section_32 store_section_32 swap_section nsects e) m)
       (swap_at lc sizeof_segment_command
          (inplace load_segment_command store_segment_command swap_segment_command e)))"

definition swap_segment_64 :: "endian \<Rightarrow> nat \<Rightarrow> bytes \<Rightarrow> bytes outcome" where
  "swap_segment_64 e lc m =
     bind (read32 e m (lc + 64)) (\<lambda>nsects.
     bind (swap_at (lc + sizeof_segment_command_64) (unat nsects * sizeof_section_64)
             (swap_array sizeof_section_64 load_section_64 store_section_64 swap_section_64 nsects e) m)
       (swap_at lc sizeof_segment_command_64
          (inplace load_segment_command_64 store_segment_command_64 swap_segment_command_64 e)))"

definition swap_build_version :: "endian \<Rightarrow> nat \<Rightarrow> bytes \<Rightarrow> bytes outcome" where
  "swap_build_version e lc m =
     bind (read32 e m (lc + 20)) (\<lambda>ntools.
     bind (swap_at (lc + sizeof_build_version_command) (unat ntools * sizeof_build_tool_version)
             (swap_array sizeof_build_tool_version load_build_tool_version store_build_tool_version
                swap_build_tool_version ntools e) m)
       (swap_at lc sizeof_build_version_command
          (inplace load_build_version_command store_build_version_command
             swap_build_version_command e)))"

section \<open>Thread commands\<close>

text \<open>
  What a case does to the registers at \<open>state\<close>: a list of sizes and operations, in
  the order of the statements.  Every operation is followed by \<open>state += size\<close>.
\<close>

type_synonym state_ops = "(nat \<times> ((nat \<Rightarrow> u32) \<Rightarrow> bytes \<Rightarrow> bytes)) list"

definition m68k_states :: "endian \<Rightarrow> (u32 \<times> state_ops) list" where
  "m68k_states e =
     [(1, [(sizeof_m68k_thread_state_regs, \<lambda>junk. inplace load_m68k_thread_state_regs store_m68k_thread_state_regs swap_m68k_thread_state_regs e)]),
      (2, [(sizeof_m68k_thread_state_68882, \<lambda>junk. inplace load_m68k_thread_state_68882 store_m68k_thread_state_68882 swap_m68k_thread_state_68882 e)]),
      (3, [(sizeof_m68k_thread_state_user_reg, \<lambda>junk. inplace load_m68k_thread_state_user_reg store_m68k_thread_state_user_reg swap_m68k_thread_state_user_reg e)])]"

text \<open>The floating-point case has no \<open>break\<close>: the exception state is swapped after it.\<close>

definition ppc_states :: "endian \<Rightarrow> (u32 \<times> state_ops) list" where
  "ppc_states e =
     [(1, [(sizeof_ppc_thread_state, \<lambda>junk. inplace load_ppc_thread_state store_ppc_thread_state swap_ppc_thread_state_t e)]),
      (5, [(sizeof_ppc_thread_state64, \<lambda>junk. inplace load_ppc_thread_state64 store_ppc_thread_state64 swap_ppc_thread_state64_t e)]),
      (2, [(sizeof_ppc_float_state, \<lambda>junk. inplace load_ppc_float_state store_ppc_float_state swap_ppc_float_state_t e),
         (sizeof_ppc_exception_state, \<lambda>junk. inplace load_ppc_exception_state store_ppc_exception_state swap_ppc_exception_state_t e)]),
      (3, [(sizeof_ppc_exception_state, \<lambda>junk. inplace load_ppc_exception_state store_ppc_exception_state swap_ppc_exception_state_t e)])]"

definition m88k_states :: "endian \<Rightarrow> (u32 \<times> state_ops) list" where
  "m88k_states e =
     [(1, [(sizeof_m88k_thread_state_grf, \<lambda>junk. inplace load_m88k_thread_state_grf store_m88k_thread_state_grf swap_m88k_thread_state_grf_t e)]),
      (2, [(sizeof_m88k_thread_state_xrf, \<lambda>junk.
          inplace load_m88k_thread_state_xrf store_m88k_thread_state_xrf (swap_m88k_thread_state_xrf_t e False (junk 0) (junk 1)) e)]),
      (3, [(sizeof_m88k_thread_state_user, \<lambda>junk. inplace load_m88k_thread_state_user store_m88k_thread_state_user swap_m88k_thread_state_user_t e)]),
      (4, [(sizeof_m88110_thread_state_impl, \<lambda>junk.
          inplace load_m88110_thread_state_impl store_m88110_thread_state_impl (swap_m88110_thread_state_impl_t e False (junk 0) (junk 1) (junk 2)) e)])]"

definition i860_states :: "endian \<Rightarrow> (u32 \<times> state_ops) list" where
  "i860_states e =
     [(4, [(sizeof_i860_thread_state_regs, \<lambda>junk. inplace load_i860_thread_state_regs store_i860_thread_state_regs swap_i860_thread_state_regs e)])]"

definition i386_states :: "endian \<Rightarrow> (u32 \<times> state_ops) list" where
  "i386_states e =
     [(1, [(sizeof_i386_thread_state, \<lambda>junk. inplace load_i386_thread_state store_i386_thread_state swap_i386_thread_state e)]),
      (0xffffffff, [(sizeof_i386_thread_state, \<lambda>junk. inplace load_i386_thread_state store_i386_thread_state swap_i386_thread_state e)]),
      (2, [(sizeof_i386_float_state, \<lambda>junk.
          inplace load_i386_float_state store_i386_float_state (swap_i386_float_state e False (ucast (junk 0)) (ucast (junk 1))) e)]),
      (3, [(sizeof_i386_exception_state, \<lambda>junk. inplace load_i386_exception_state store_i386_exception_state swap_i386_exception_state e)]),
      (4, [(sizeof_x86_thread_state64, \<lambda>junk. inplace load_x86_thread_state64 store_x86_thread_state64 swap_x86_thread_state64 e)])]"

definition hppa_states :: "endian \<Rightarrow> (u32 \<times> state_ops) list" where
  "hppa_states e =
     [(1, [(sizeof_hp_pa_integer_thread_state, \<lambda>junk. inplace load_hp_pa_integer_thread_state store_hp_pa_integer_thread_state swap_hppa_integer_thread_state e)]),
      (2, [(sizeof_hp_pa_frame_thread_state, \<lambda>junk. inplace load_hp_pa_frame_thread_state store_hp_pa_frame_thread_state swap_hppa_frame_thread_state e)]),
      (3, [(sizeof_hp_pa_fp_thread_state, \<lambda>junk. inplace load_hp_pa_fp_thread_state store_hp_pa_fp_thread_state swap_hppa_fp_thread_state e)])]"

definition sparc_states :: "endian \<Rightarrow> (u32 \<times> state_ops) list" where
  "sparc_states e =
     [(1, [(sizeof_sparc_thread_state_regs, \<lambda>junk.
          inplace load_sparc_thread_state_regs store_sparc_thread_state_regs (swap_sparc_thread_state_regs e False (junk 0)) e)]),
      (2, [(sizeof_sparc_thread_state_fpu, \<lambda>junk.
          inplace load_sparc_thread_state_fpu store_sparc_thread_state_fpu (swap_sparc_thread_state_fpu e False (junk 0)) e)])]"

definition arm_states :: "endian \<Rightarrow> (u32 \<times> state_ops) list" where
  "arm_states e =
     [(1, [(sizeof_arm_thread_state, \<lambda>junk. inplace load_arm_thread_state store_arm_thread_state swap_arm_thread_state_t e)])]"

text \<open>\<open>ARM_THREAD_STATE64\<close> is flavor 6.\<close>

definition arm64_states :: "endian \<Rightarrow> (u32 \<times> state_ops) list" where
  "arm64_states e =
     [(6, [(sizeof_arm_thread_state64, \<lambda>junk. inplace load_arm_thread_state64 store_arm_thread_state64 swap_arm_thread_state64_t e)])]"

fun swap_states :: "(nat \<Rightarrow> nat \<Rightarrow> u32) \<Rightarrow> state_ops \<Rightarrow> nat \<Rightarrow> bytes \<Rightarrow> bytes outcome" where
  "swap_states stack [] state m = Ok m"
| "swap_states stack ((sz, f) # ops) state m =
     bind (swap_at state sz (f (stack state)) m) (swap_states stack ops (state + sz))"

definition states_size :: "state_ops \<Rightarrow> nat" where
  "states_size ops = sum_list (map fst ops)"

definition flavor_states :: "(u32 \<times> state_ops) list \<Rightarrow> u32 \<Rightarrow> state_ops" where
  "flavor_states table flavor = (case map_of table flavor of Some ops \<Rightarrow> ops | None \<Rightarrow> [])"

text \<open>The words of flavor and count are swapped, then the registers; no case for a flavor leaves them.\<close>

definition swap_flavor :: "endian \<Rightarrow> (nat \<Rightarrow> nat \<Rightarrow> u32) \<Rightarrow> (u32 \<times> state_ops) list \<Rightarrow> nat \<Rightarrow> u32 \<Rightarrow>
    bytes \<Rightarrow> bytes outcome" where
  "swap_flavor e stack table state flavor m =
     bind (swap_at state 4 (\<lambda>_. put32 e (SWAP_INT flavor)) m) (\<lambda>m.
     bind (read32 e m (state + 4)) (\<lambda>count.
     bind (swap_at (state + 4) 4 (\<lambda>_. put32 e (SWAP_INT count)) m)
       (swap_states stack (flavor_states table flavor) (state + 8))))"

declare bind_cong [fundef_cong]

function swap_flavors :: "endian \<Rightarrow> (nat \<Rightarrow> nat \<Rightarrow> u32) \<Rightarrow> (u32 \<times> state_ops) list \<Rightarrow> nat \<Rightarrow> nat \<Rightarrow>
    bytes \<Rightarrow> bytes outcome" where
  "swap_flavors e stack table state p m =
     (if state < p then
        bind (read32 e m state) (\<lambda>flavor.
        bind (swap_flavor e stack table state flavor m)
          (swap_flavors e stack table (state + 8 + states_size (flavor_states table flavor)) p))
      else Ok m)"
  by pat_completeness auto
termination
  by (relation "measure (\<lambda>(e, stack, table, state, p, m). p - state)") auto

declare swap_flavors.simps [simp del]

definition thread_states :: "endian \<Rightarrow> u32 \<Rightarrow> (u32 \<times> state_ops) list option" where
  "thread_states e cputype =
     (if cputype = CPU_TYPE_MC680x0 then Some (m68k_states e)
      else if cputype = CPU_TYPE_POWERPC \<or> cputype = CPU_TYPE_VEO \<or>
              cputype = CPU_TYPE_POWERPC64 then Some (ppc_states e)
      else if cputype = CPU_TYPE_MC88000 then Some (m88k_states e)
      else if cputype = CPU_TYPE_I860 then Some (i860_states e)
      else if cputype = CPU_TYPE_I386 \<or> cputype = CPU_TYPE_X86_64 then Some (i386_states e)
      else if cputype = CPU_TYPE_HPPA then Some (hppa_states e)
      else if cputype = CPU_TYPE_SPARC then Some (sparc_states e)
      else if cputype = CPU_TYPE_ARM then Some (arm_states e)
      else if cputype = CPU_TYPE_ARM64 then Some (arm64_states e)
      else None)"

definition swap_thread :: "endian \<Rightarrow> (nat \<Rightarrow> nat \<Rightarrow> u32) \<Rightarrow> u32 \<Rightarrow> nat \<Rightarrow> u32 \<Rightarrow> bytes \<Rightarrow>
    bytes outcome" where
  "swap_thread e stack cputype lc cmdsize m =
     bind (swap_at lc sizeof_thread_command
             (inplace load_thread_command store_thread_command swap_thread_command e) m) (\<lambda>m.
       case thread_states e cputype of
         Some table \<Rightarrow> swap_flavors e stack table (lc + 8) (lc + unat cmdsize) m
       | None \<Rightarrow> Ok m)"

section \<open>The pass and the routine\<close>

definition swap_command :: "endian \<Rightarrow> (nat \<Rightarrow> nat \<Rightarrow> u32) \<Rightarrow> u32 \<Rightarrow> nat \<Rightarrow> u32 \<Rightarrow> u32 \<Rightarrow> bytes \<Rightarrow>
    bytes outcome" where
  "swap_command e stack cputype lc cmd cmdsize m =
     (case map_of (swap_rows e) cmd of
        Some (sz, f) \<Rightarrow> swap_at lc sz f m
      | None \<Rightarrow>
          if cmd = LC_SEGMENT then swap_segment e lc m
          else if cmd = LC_SEGMENT_64 then swap_segment_64 e lc m
          else if cmd = LC_UNIXTHREAD \<or> cmd = LC_THREAD then swap_thread e stack cputype lc cmdsize m
          else if cmd = LC_BUILD_VERSION then swap_build_version e lc m
          else Ok m)"

fun swap_commands :: "endian \<Rightarrow> (nat \<Rightarrow> nat \<Rightarrow> u32) \<Rightarrow> u32 \<Rightarrow> nat \<Rightarrow> nat \<Rightarrow> bytes \<Rightarrow>
    bytes outcome" where
  "swap_commands e stack cputype 0 lc m = Ok m"
| "swap_commands e stack cputype (Suc n) lc m =
     bind (read32 e m lc) (\<lambda>cmd.
     bind (read32 e m (lc + 4)) (\<lambda>cmdsize.
     bind (swap_command e stack cputype lc cmd cmdsize m)
       (swap_commands e stack cputype n (lc + unat cmdsize))))"

text \<open>
  \<open>swap_object_headers\<close>: the header and the load commands are two buffers.  Nothing is
  written before the checks are done, so an error leaves both as they are.
\<close>

definition swap_headers_32 :: "endian \<Rightarrow> (nat \<Rightarrow> nat \<Rightarrow> u32) \<Rightarrow> mach_header \<Rightarrow> bytes \<Rightarrow> bytes \<Rightarrow>
    (bytes \<times> bytes) outcome" where
  "swap_headers_32 e stack mh header m =
     bind (check_commands e m (unat (mh_sizeofcmds mh)) 4 (mh_cputype mh) (mh_cpusubtype mh)
             (unat (mh_ncmds mh)) 0 0) (\<lambda>_.
     bind (swap_commands e stack (mh_cputype mh) (unat (mh_ncmds mh)) 0 m) (\<lambda>m.
     bind (swap_at 0 sizeof_mach_header
             (inplace load_mach_header store_mach_header swap_mach_header e) header) (\<lambda>header.
       Ok (header, m))))"

definition swap_headers_64 :: "endian \<Rightarrow> (nat \<Rightarrow> nat \<Rightarrow> u32) \<Rightarrow> mach_header_64 \<Rightarrow> bytes \<Rightarrow> bytes \<Rightarrow>
    (bytes \<times> bytes) outcome" where
  "swap_headers_64 e stack mh64 header m =
     bind (check_commands e m (unat (mh64_sizeofcmds mh64)) 8 (mh64_cputype mh64)
             (mh64_cpusubtype mh64) (unat (mh64_ncmds mh64)) 0 0) (\<lambda>_.
     bind (swap_commands e stack (mh64_cputype mh64) (unat (mh64_ncmds mh64)) 0 m) (\<lambda>m.
     bind (swap_at 0 sizeof_mach_header_64
             (inplace load_mach_header_64 store_mach_header_64 swap_mach_header_64 e) header) (\<lambda>header.
       Ok (header, m))))"

definition swap_object_headers :: "endian \<Rightarrow> (nat \<Rightarrow> nat \<Rightarrow> u32) \<Rightarrow> bytes \<Rightarrow> bytes \<Rightarrow>
    (bytes \<times> bytes) outcome" where
  "swap_object_headers e stack header m =
     bind (read32 e header 0) (\<lambda>magic.
       if magic = MH_MAGIC then
         if length header < sizeof_mach_header then Fault
         else swap_headers_32 e stack (load_mach_header e header) header m
       else
         if length header < sizeof_mach_header_64 then Fault
         else swap_headers_64 e stack (load_mach_header_64 e header) header m)"

end
