(* ===== verification/Swap_Facts.thy ===== *)
theory Swap_Facts
  imports Swap_Pass
begin

text \<open>
  Facts about \<open>swap_object_headers\<close>: the checks read only what they may, the swaps
  stay inside the command they are for, and the other host walks the swapped
  commands exactly as this host walked the original ones.
\<close>

section \<open>Buffers that agree\<close>

text \<open>
  \<open>same_from p m m'\<close>: the buffers agree from offset \<open>p\<close> on.  \<open>changed_within a b m m'\<close>:
  \<open>m'\<close> differs from \<open>m\<close> between \<open>a\<close> and \<open>b\<close> only.
\<close>

definition same_from :: "nat \<Rightarrow> bytes \<Rightarrow> bytes \<Rightarrow> bool" where
  "same_from p m m' \<longleftrightarrow> length m' = length m \<and> drop p m' = drop p m"

definition changed_within :: "nat \<Rightarrow> nat \<Rightarrow> bytes \<Rightarrow> bytes \<Rightarrow> bool" where
  "changed_within a b m m' \<longleftrightarrow> length m' = length m \<and> take a m' = take a m \<and> drop b m' = drop b m"

lemma drop_eq_mono: "drop p xs = drop p ys \<Longrightarrow> p \<le> q \<Longrightarrow> drop q xs = drop q ys"
  by (metis drop_drop le_add_diff_inverse2)

lemma take_eq_mono: "take p xs = take p ys \<Longrightarrow> q \<le> p \<Longrightarrow> take q xs = take q ys"
  by (metis min.absorb1 take_take)

lemma same_from_mono: "same_from p m m' \<Longrightarrow> p \<le> q \<Longrightarrow> same_from q m m'"
  unfolding same_from_def using drop_eq_mono by blast

lemma same_from_sym: "same_from p m m' \<Longrightarrow> same_from p m' m"
  by (simp add: same_from_def)

lemma get32_same: "same_from p m m' \<Longrightarrow> p \<le> q \<Longrightarrow> get32 e m' q = get32 e m q"
  using drop_eq_mono [of p m' m q] by (simp add: same_from_def get32_def subbytes_def)

lemma read32_same: "same_from p m m' \<Longrightarrow> p \<le> q \<Longrightarrow> read32 e m' q = read32 e m q"
  using get32_same [of p m m' q e] by (simp add: read32_def same_from_def)

lemma changed_within_refl [simp]: "changed_within a b m m"
  by (simp add: changed_within_def)

lemma changed_within_mono:
  "changed_within a b m m' \<Longrightarrow> a' \<le> a \<Longrightarrow> b \<le> b' \<Longrightarrow> changed_within a' b' m m'"
  unfolding changed_within_def using take_eq_mono drop_eq_mono by blast

lemma changed_within_trans:
  "changed_within a b m m' \<Longrightarrow> changed_within a b m' m'' \<Longrightarrow> changed_within a b m m''"
  by (simp add: changed_within_def)

lemma changed_within_same_from: "changed_within a b m m' \<Longrightarrow> same_from b m m'"
  by (simp add: changed_within_def same_from_def)

lemma get32_before:
  assumes "changed_within a b m m'" and "q + 4 \<le> a"
  shows "get32 e m' q = get32 e m q"
proof -
  have "take 4 (drop q m') = take 4 (drop q (take a m'))"
    using assms(2) by (simp add: take_drop min_def)
  also have "\<dots> = take 4 (drop q (take a m))"
    using assms(1) by (simp add: changed_within_def)
  also have "\<dots> = take 4 (drop q m)"
    using assms(2) by (simp add: take_drop min_def)
  finally show ?thesis by (simp add: get32_def subbytes_def)
qed

section \<open>One swap\<close>

lemma swap_at_Ok:
  assumes "p + n \<le> length m" and "\<And>b. length b = n \<Longrightarrow> length (f b) = n"
  obtains m' where "swap_at p n f m = Ok m'" and "changed_within p (p + n) m m'"
    and "subbytes p n m' = f (subbytes p n m)"
proof
  let ?m' = "take p m @ f (subbytes p n m) @ drop (p + n) m"
  have len: "length (f (subbytes p n m)) = n"
    using assms by simp
  show "swap_at p n f m = Ok ?m'"
    using assms(1) by (simp add: swap_at_def modify_at_def)
  show "changed_within p (p + n) m ?m'"
    using assms(1) len by (simp add: changed_within_def)
  show "subbytes p n ?m' = f (subbytes p n m)"
    using assms(1) len by (simp add: subbytes_def)
qed

lemma get32_in_subbytes:
  "k + 4 \<le> n \<Longrightarrow> get32 e (subbytes p n m) k = get32 e m (p + k)"
  by (simp add: get32_def subbytes_def take_drop min_def add.commute add.left_commute)

section \<open>Structures of load commands\<close>

text \<open>
  What the pass relies on for the structure of a command: it begins with \<open>cmd\<close> and
  \<open>cmdsize\<close>, and the swap of \<open>sz\<close> bytes gives \<open>sz\<close> bytes in which the other host
  finds the same two words.
\<close>

definition row_ok :: "endian \<Rightarrow> nat \<Rightarrow> (bytes \<Rightarrow> bytes) \<Rightarrow> bool" where
  "row_ok e sz f \<longleftrightarrow> 8 \<le> sz \<and>
     (\<forall>b. length b = sz \<longrightarrow> length (f b) = sz \<and>
        get32 (flip e) (f b) 0 = get32 e b 0 \<and> get32 (flip e) (f b) 4 = get32 e b 4)"

locale command_codec = struct_codec +
  fixes cmd cmdsize :: "'a \<Rightarrow> u32"
  assumes cmd_load: "cmd (load e m) = get32 e m 0"
    and cmdsize_load: "cmdsize (load e m) = get32 e m 4"
    and header_inside: "8 \<le> sz"
begin

lemma row_ok_inplace: "row_ok e sz (inplace load store swap e)"
  using header_inside length_inplace inplace_load
  by (auto simp: row_ok_def simp flip: cmd_load cmdsize_load)

end

interpretation st_cmd: command_codec
    sizeof_symtab_command load_symtab_command store_symtab_command swap_symtab_command st_cmd st_cmdsize
  by unfold_locales (simp_all add: symtab_command_defs)

interpretation dyst_cmd: command_codec
    sizeof_dysymtab_command load_dysymtab_command store_dysymtab_command swap_dysymtab_command dyst_cmd dyst_cmdsize
  by unfold_locales (simp_all add: dysymtab_command_defs)

interpretation ss_cmd: command_codec
    sizeof_symseg_command load_symseg_command store_symseg_command swap_symseg_command ss_cmd ss_cmdsize
  by unfold_locales (simp_all add: symseg_command_defs)

interpretation fl_cmd: command_codec
    sizeof_fvmlib_command load_fvmlib_command store_fvmlib_command swap_fvmlib_command fl_cmd fl_cmdsize
  by unfold_locales (simp_all add: fvmlib_command_defs)

interpretation dl_cmd: command_codec
    sizeof_dylib_command load_dylib_command store_dylib_command swap_dylib_command dl_cmd dl_cmdsize
  by unfold_locales (simp_all add: dylib_command_defs)

interpretation sub_cmd: command_codec
    sizeof_sub_framework_command load_sub_framework_command store_sub_framework_command swap_sub_framework_command sub_cmd sub_cmdsize
  by unfold_locales (simp_all add: sub_framework_command_defs)

interpretation usub_cmd: command_codec
    sizeof_sub_umbrella_command load_sub_umbrella_command store_sub_umbrella_command swap_sub_umbrella_command usub_cmd usub_cmdsize
  by unfold_locales (simp_all add: sub_umbrella_command_defs)

interpretation lsub_cmd: command_codec
    sizeof_sub_library_command load_sub_library_command store_sub_library_command swap_sub_library_command lsub_cmd lsub_cmdsize
  by unfold_locales (simp_all add: sub_library_command_defs)

interpretation csub_cmd: command_codec
    sizeof_sub_client_command load_sub_client_command store_sub_client_command swap_sub_client_command csub_cmd csub_cmdsize
  by unfold_locales (simp_all add: sub_client_command_defs)

interpretation pbdylib_cmd: command_codec
    sizeof_prebound_dylib_command load_prebound_dylib_command store_prebound_dylib_command swap_prebound_dylib_command pbdylib_cmd pbdylib_cmdsize
  by unfold_locales (simp_all add: prebound_dylib_command_defs)

interpretation dyld_cmd: command_codec
    sizeof_dylinker_command load_dylinker_command store_dylinker_command swap_dylinker_command dyld_cmd dyld_cmdsize
  by unfold_locales (simp_all add: dylinker_command_defs)

interpretation ut_cmd: command_codec
    sizeof_thread_command load_thread_command store_thread_command swap_thread_command ut_cmd ut_cmdsize
  by unfold_locales (simp_all add: thread_command_defs)

interpretation id_cmd: command_codec
    sizeof_ident_command load_ident_command store_ident_command swap_ident_command id_cmd id_cmdsize
  by unfold_locales (simp_all add: ident_command_defs)

interpretation rc_cmd: command_codec
    sizeof_routines_command load_routines_command store_routines_command swap_routines_command rc_cmd rc_cmdsize
  by unfold_locales (simp_all add: routines_command_defs)

interpretation rc64_cmd: command_codec
    sizeof_routines_command_64 load_routines_command_64 store_routines_command_64 swap_routines_command_64 rc64_cmd rc64_cmdsize
  by unfold_locales (simp_all add: routines_command_64_defs)

interpretation hints_cmd: command_codec
    sizeof_twolevel_hints_command load_twolevel_hints_command store_twolevel_hints_command swap_twolevel_hints_command hints_cmd hints_cmdsize
  by unfold_locales (simp_all add: twolevel_hints_command_defs)

interpretation cs_cmd: command_codec
    sizeof_prebind_cksum_command load_prebind_cksum_command store_prebind_cksum_command swap_prebind_cksum_command cs_cmd cs_cmdsize
  by unfold_locales (simp_all add: prebind_cksum_command_defs)

interpretation uuid_cmd: command_codec
    sizeof_uuid_command load_uuid_command store_uuid_command swap_uuid_command uuid_cmd uuid_cmdsize
  by unfold_locales (simp_all add: uuid_command_defs)

interpretation ld_cmd: command_codec
    sizeof_linkedit_data_command load_linkedit_data_command store_linkedit_data_command swap_linkedit_data_command ld_cmd ld_cmdsize
  by unfold_locales (simp_all add: linkedit_data_command_defs)

interpretation bv_cmd: command_codec
    sizeof_build_version_command load_build_version_command store_build_version_command swap_build_version_command bv_cmd bv_cmdsize
  by unfold_locales (simp_all add: build_version_command_defs)

interpretation rpath_cmd: command_codec
    sizeof_rpath_command load_rpath_command store_rpath_command swap_rpath_command rpath_cmd rpath_cmdsize
  by unfold_locales (simp_all add: rpath_command_defs)

interpretation ec_cmd: command_codec
    sizeof_encryption_info_command load_encryption_info_command store_encryption_info_command swap_encryption_command ec_cmd ec_cmdsize
  by unfold_locales (simp_all add: encryption_info_command_defs)

interpretation lo_cmd: command_codec
    sizeof_linker_option_command load_linker_option_command store_linker_option_command swap_linker_option_command lo_cmd lo_cmdsize
  by unfold_locales (simp_all add: linker_option_command_defs)

interpretation dc_cmd: command_codec
    sizeof_dyld_info_command load_dyld_info_command store_dyld_info_command swap_dyld_info_command dc_cmd dc_cmdsize
  by unfold_locales (simp_all add: dyld_info_command_defs)

interpretation ep_cmd: command_codec
    sizeof_entry_point_command load_entry_point_command store_entry_point_command swap_entry_point_command ep_cmd ep_cmdsize
  by unfold_locales (simp_all add: entry_point_command_defs)

interpretation sv_cmd: command_codec
    sizeof_source_version_command load_source_version_command store_source_version_command swap_source_version_command sv_cmd sv_cmdsize
  by unfold_locales (simp_all add: source_version_command_defs)

interpretation nc_cmd: command_codec
    sizeof_note_command load_note_command store_note_command swap_note_command nc_cmd nc_cmdsize
  by unfold_locales (simp_all add: note_command_defs)

interpretation sg_cmd: command_codec
    sizeof_segment_command load_segment_command store_segment_command swap_segment_command sg_cmd sg_cmdsize
  by unfold_locales (simp_all add: segment_command_defs)

interpretation sg64_cmd: command_codec
    sizeof_segment_command_64 load_segment_command_64 store_segment_command_64 swap_segment_command_64 sg64_cmd sg64_cmdsize
  by unfold_locales (simp_all add: segment_command_64_defs)


lemma row_ok_version_min:
  "row_ok e sizeof_version_min_command
     (inplace load_version_min_command store_version_min_command swap_version_min_command e)"
  by (simp add: row_ok_def inplace_def version_min_command_defs byte_simps)

lemma row_ok_encryption_64:
  "row_ok e sizeof_encryption_info_command_64
     (inplace load_encryption_info_command_64 store_encryption_info_command_64
        swap_encryption_command_64 e)"
  by (simp add: row_ok_def inplace_def encryption_info_command_64_defs byte_simps)

lemmas rows_ok =
  st_cmd.row_ok_inplace
  dyst_cmd.row_ok_inplace
  ss_cmd.row_ok_inplace
  fl_cmd.row_ok_inplace
  dl_cmd.row_ok_inplace
  sub_cmd.row_ok_inplace
  usub_cmd.row_ok_inplace
  lsub_cmd.row_ok_inplace
  csub_cmd.row_ok_inplace
  pbdylib_cmd.row_ok_inplace
  dyld_cmd.row_ok_inplace
  ut_cmd.row_ok_inplace
  id_cmd.row_ok_inplace
  rc_cmd.row_ok_inplace
  rc64_cmd.row_ok_inplace
  hints_cmd.row_ok_inplace
  cs_cmd.row_ok_inplace
  uuid_cmd.row_ok_inplace
  ld_cmd.row_ok_inplace
  bv_cmd.row_ok_inplace
  rpath_cmd.row_ok_inplace
  ec_cmd.row_ok_inplace
  lo_cmd.row_ok_inplace
  dc_cmd.row_ok_inplace
  ep_cmd.row_ok_inplace
  sv_cmd.row_ok_inplace
  nc_cmd.row_ok_inplace
  sg_cmd.row_ok_inplace
  sg64_cmd.row_ok_inplace
  row_ok_version_min row_ok_encryption_64

lemmas swap_tables =
  swap_symbols_def swap_libraries_def swap_subs_def swap_ends_def swap_routines_def
  swap_linkedit_def swap_others_def

lemma swap_rows_ok: "list_all (\<lambda>(c, sz, f). row_ok e sz f) (swap_rows e)"
  by (simp add: swap_rows_def swap_tables rows_ok)

lemma swap_row_ok: "map_of (swap_rows e) cmd = Some (sz, f) \<Longrightarrow> row_ok e sz f"
  using swap_rows_ok [of e] by (force simp: list_all_iff dest!: map_of_SomeD)

section \<open>One command\<close>

text \<open>
  The outcome of swapping the command of \<open>n\<close> bytes at \<open>lc\<close>: nothing outside it is
  touched, it is not smaller than the two words of its header and the other host reads the same \<open>cmd\<close> and \<open>cmdsize\<close>.
\<close>

definition command_swapped :: "endian \<Rightarrow> nat \<Rightarrow> nat \<Rightarrow> bytes \<Rightarrow> bytes outcome \<Rightarrow> bool" where
  "command_swapped e lc n m r \<longleftrightarrow> 8 \<le> n \<and> (\<exists>m'. r = Ok m' \<and> changed_within lc (lc + n) m m' \<and>
     get32 (flip e) m' lc = get32 e m lc \<and> get32 (flip e) m' (lc + 4) = get32 e m (lc + 4))"

lemma command_swapped_row:
  assumes "row_ok e sz f" and "sz \<le> n" and "lc + n \<le> length m"
  shows "command_swapped e lc n m (swap_at lc sz f m)"
proof -
  obtain m' where m': "swap_at lc sz f m = Ok m'" "changed_within lc (lc + sz) m m'"
      "subbytes lc sz m' = f (subbytes lc sz m)"
    using assms by (auto simp: row_ok_def intro: swap_at_Ok [of lc sz m f])
  have len: "length (subbytes lc sz m) = sz" using assms by simp
  have "get32 (flip e) m' (lc + k) = get32 e m (lc + k)" if "k = 0 \<or> k = 4" for k
  proof -
    have "get32 (flip e) m' (lc + k) = get32 (flip e) (f (subbytes lc sz m)) k"
      using that assms(1) m'(3) get32_in_subbytes [of k sz "flip e" lc m'] by (auto simp: row_ok_def)
    also have "\<dots> = get32 e (subbytes lc sz m) k"
      using that assms(1) len by (auto simp: row_ok_def)
    also have "\<dots> = get32 e m (lc + k)"
      using that assms(1) get32_in_subbytes [of k sz e lc m] by (auto simp: row_ok_def)
    finally show ?thesis .
  qed
  from this [of 0] this [of 4] show ?thesis
    using m' assms(1,2) changed_within_mono [OF m'(2), of lc "lc + n"]
    by (simp add: command_swapped_def row_ok_def)
qed

lemma length_swapped_array:
  assumes "\<And>b. length b = sz \<Longrightarrow> length (store e (swap (load e b))) = sz" and "length b = n * sz"
  shows "length (store_array store e (map swap (load_array sz load n e b))) = n * sz"
  using assms(2)
proof (induction n arbitrary: b)
  case 0
  then show ?case by (simp add: store_array_def)
next
  case (Suc n)
  then have "length (store_array store e (map swap (load_array sz load n e (drop sz b)))) = n * sz"
    by simp
  then show ?case
    using Suc.prems assms(1) by (simp add: load_array_Suc store_array_def)
qed

lemma length_swap_sections:
  "length b = unat n * sizeof_section_32 \<Longrightarrow>
     length (swap_array sizeof_section_32 load_section_32 store_section_32 swap_section n e b) =
     unat n * sizeof_section_32"
  "length b = unat n * sizeof_section_64 \<Longrightarrow>
     length (swap_array sizeof_section_64 load_section_64 store_section_64 swap_section_64 n e b) =
     unat n * sizeof_section_64"
  "length b = unat n * sizeof_build_tool_version \<Longrightarrow>
     length (swap_array sizeof_build_tool_version load_build_tool_version store_build_tool_version
       swap_build_tool_version n e b) = unat n * sizeof_build_tool_version"
  by (simp_all add: swap_array_def swap_section_def swap_section_64_def swap_build_tool_version_def
      section_32_defs section_64_defs build_tool_version_defs length_swapped_array)

text \<open>A command that is a structure and an array behind it.\<close>

lemma command_swapped_array:
  assumes "row_ok e sz f" and "\<And>b. length b = k \<Longrightarrow> length (g b) = k"
    and "n = sz + k" and "lc + n \<le> length m"
  shows "command_swapped e lc n m (bind (swap_at (lc + sz) k g m) (swap_at lc sz f))"
proof -
  obtain m1 where m1: "swap_at (lc + sz) k g m = Ok m1" "changed_within (lc + sz) (lc + sz + k) m m1"
    using assms by (auto intro: swap_at_Ok [of "lc + sz" k m g])
  have 8: "8 \<le> sz" using assms(1) by (simp add: row_ok_def)
  have "get32 e m1 lc = get32 e m lc" "get32 e m1 (lc + 4) = get32 e m (lc + 4)"
    using get32_before [OF m1(2)] 8 by simp_all
  moreover have "command_swapped e lc n m1 (swap_at lc sz f m1)"
    using assms m1(2) by (intro command_swapped_row) (simp_all add: changed_within_def)
  moreover have "changed_within lc (lc + n) m m1"
    using m1(2) assms(3) by (auto intro: changed_within_mono)
  ultimately show ?thesis
    using m1(1) unfolding command_swapped_def by (auto intro: changed_within_trans)
qed

section \<open>Thread commands\<close>

definition ops_ok :: "state_ops \<Rightarrow> bool" where
  "ops_ok ops \<longleftrightarrow> list_all (\<lambda>(sz, f). \<forall>junk b. length b = sz \<longrightarrow> length (f junk b) = sz) ops"

lemma ops_ok_Cons:
  "ops_ok ((sz, f) # ops) \<longleftrightarrow> (\<forall>junk b. length b = sz \<longrightarrow> length (f junk b) = sz) \<and> ops_ok ops"
  by (simp add: ops_ok_def)

lemma states_size_Cons [simp]: "states_size ((sz, f) # ops) = sz + states_size ops"
  by (simp add: states_size_def)

lemma swap_states_Ok:
  assumes "ops_ok ops" and "state + states_size ops \<le> length m"
  shows "\<exists>m'. swap_states stack ops state m = Ok m' \<and>
           changed_within state (state + states_size ops) m m'"
  using assms
proof (induction stack ops state m rule: swap_states.induct)
  case (1 stack state m)
  then show ?case by simp
next
  case (2 stack sz f ops state m)
  obtain m1 where m1: "swap_at state sz (f (stack state)) m = Ok m1"
      "changed_within state (state + sz) m m1"
    using 2(2,3) by (auto simp: ops_ok_Cons intro: swap_at_Ok [of state sz m "f (stack state)"])
  have "length m1 = length m" using m1(2) by (simp add: changed_within_def)
  then obtain m2 where m2: "swap_states stack ops (state + sz) m1 = Ok m2"
      "changed_within (state + sz) (state + sz + states_size ops) m1 m2"
    using 2(1) [of m1] 2(2,3) by (auto simp: ops_ok_Cons)
  let ?E = "state + states_size ((sz, f) # ops)"
  have "changed_within state ?E m m1" "changed_within state ?E m1 m2"
    using m1(2) m2(2) by (auto intro: changed_within_mono)
  then show ?case
    using m1(1) m2(1) by (auto intro: changed_within_trans)
qed

lemma flavor_Ok:
  assumes "ops_ok (flavor_states table flavor)"
    and "state + 8 + states_size (flavor_states table flavor) \<le> length m"
  shows "\<exists>m'. swap_flavor e stack table state flavor m = Ok m' \<and>
           changed_within state (state + 8 + states_size (flavor_states table flavor)) m m'"
proof -
  let ?E = "state + 8 + states_size (flavor_states table flavor)"
  obtain m1 where m1: "swap_at state 4 (\<lambda>_. put32 e (SWAP_INT flavor)) m = Ok m1"
      "changed_within state (state + 4) m m1"
    using assms(2) by (auto intro: swap_at_Ok [of state 4 m "\<lambda>_. put32 e (SWAP_INT flavor)"])
  have len1: "length m1 = length m" using m1(2) by (simp add: changed_within_def)
  let ?count = "get32 e m1 (state + 4)"
  obtain m2 where m2: "swap_at (state + 4) 4 (\<lambda>_. put32 e (SWAP_INT ?count)) m1 = Ok m2"
      "changed_within (state + 4) (state + 4 + 4) m1 m2"
    using assms(2) len1
    by (auto intro: swap_at_Ok [of "state + 4" 4 m1 "\<lambda>_. put32 e (SWAP_INT ?count)"])
  have len2: "length m2 = length m" using m2(2) len1 by (simp add: changed_within_def)
  obtain m3 where m3: "swap_states stack (flavor_states table flavor) (state + 8) m2 = Ok m3"
      "changed_within (state + 8) ?E m2 m3"
    using swap_states_Ok [OF assms(1), of "state + 8" m2 stack] assms(2) len2 by auto
  have "changed_within state ?E m m1" "changed_within state ?E m1 m2" "changed_within state ?E m2 m3"
    using m1(2) m2(2) m3(2) by (auto intro: changed_within_mono)
  then have "changed_within state ?E m m3" by (blast intro: changed_within_trans)
  moreover have "swap_flavor e stack table state flavor m = Ok m3"
    using m1(1) m2(1) m3(1) assms(2) len1 by (simp add: swap_flavor_def read32_def)
  ultimately show ?thesis by blast
qed

text \<open>The register states lie inside the command: what the checks do not make sure of.\<close>

function flavors_fit :: "endian \<Rightarrow> (u32 \<times> state_ops) list \<Rightarrow> bytes \<Rightarrow> nat \<Rightarrow> nat \<Rightarrow> bool" where
  "flavors_fit e table m state p =
     (if state < p then
        state + 8 + states_size (flavor_states table (get32 e m state)) \<le> p \<and>
        flavors_fit e table m (state + 8 + states_size (flavor_states table (get32 e m state))) p
      else True)"
  by pat_completeness auto
termination
  by (relation "measure (\<lambda>(e, table, m, state, p). p - state)") auto

declare flavors_fit.simps [simp del]

lemma swap_flavors_Ok:
  assumes "\<And>flavor. ops_ok (flavor_states table flavor)" and "p \<le> length m"
    and "flavors_fit e table m state p" and "state \<le> p" and "same_from state m m0"
  shows "\<exists>m'. swap_flavors e stack table state p m0 = Ok m' \<and> changed_within state p m0 m'"
  using assms
proof (induction e table m state p arbitrary: m0 rule: flavors_fit.induct)
  case (1 e table m state p)
  show ?case
  proof (cases "state < p")
    case False
    then show ?thesis by (simp add: swap_flavors.simps)
  next
    case True
    let ?fl = "get32 e m state"
    let ?next = "state + 8 + states_size (flavor_states table ?fl)"
    have fit: "?next \<le> p" "flavors_fit e table m ?next p"
      using "1.prems"(3) True by (simp_all add: flavors_fit.simps [of e table m state p])
    have len0: "length m0 = length m" using "1.prems"(5) by (simp add: same_from_def)
    have fl: "read32 e m0 state = Ok ?fl"
      using read32_same [OF "1.prems"(5), of state e] fit "1.prems"(2) by (simp add: read32_def)
    obtain m1 where m1: "swap_flavor e stack table state ?fl m0 = Ok m1"
        "changed_within state ?next m0 m1"
      using flavor_Ok [of table ?fl state m0 e stack] "1.prems"(1,2) fit(1) len0 by auto
    have "same_from ?next m m1"
      using changed_within_same_from [OF m1(2)] same_from_mono [OF "1.prems"(5), of ?next]
      by (simp add: same_from_def)
    then obtain m2 where m2: "swap_flavors e stack table ?next p m1 = Ok m2"
        "changed_within ?next p m1 m2"
      using "1.IH" [OF True "1.prems"(1,2) fit(2,1)] by blast
    have "changed_within state p m0 m1" "changed_within state p m1 m2"
      using m1(2) m2(2) fit(1) by (auto intro: changed_within_mono)
    then show ?thesis
      using True fl m1(1) m2(1)
      by (subst swap_flavors.simps) (auto intro: changed_within_trans)
  qed
qed

lemma length_swap_m68k_fp_regs [simp]: "length (swap_m68k_fp_regs fps) = length fps"
  by (induction fps rule: swap_m68k_fp_regs.induct) simp_all

lemma length_m68k_thread_state_68882:
  "length b = sizeof_m68k_thread_state_68882 \<Longrightarrow>
     length (inplace load_m68k_thread_state_68882 store_m68k_thread_state_68882 swap_m68k_thread_state_68882 e b) = sizeof_m68k_thread_state_68882"
  by (simp add: inplace_def m68k_thread_state_68882_defs)

lemma length_i860_thread_state_regs:
  "length b = sizeof_i860_thread_state_regs \<Longrightarrow>
     length (inplace load_i860_thread_state_regs store_i860_thread_state_regs swap_i860_thread_state_regs e b) = sizeof_i860_thread_state_regs"
  by (simp add: inplace_def i860_thread_state_regs_defs)

lemma length_i386_exception_state:
  "length b = sizeof_i386_exception_state \<Longrightarrow>
     length (inplace load_i386_exception_state store_i386_exception_state swap_i386_exception_state e b) = sizeof_i386_exception_state"
  by (simp add: inplace_def i386_exception_state_defs)

lemma length_hp_pa_frame_thread_state:
  "length b = sizeof_hp_pa_frame_thread_state \<Longrightarrow>
     length (inplace load_hp_pa_frame_thread_state store_hp_pa_frame_thread_state swap_hppa_frame_thread_state e b) = sizeof_hp_pa_frame_thread_state"
  by (simp add: inplace_def hp_pa_frame_thread_state_defs)

lemma length_arm_thread_state64:
  "length b = sizeof_arm_thread_state64 \<Longrightarrow>
     length (inplace load_arm_thread_state64 store_arm_thread_state64 swap_arm_thread_state64_t e b) = sizeof_arm_thread_state64"
  by (simp add: inplace_def arm_thread_state64_defs)

lemma length_m88k_thread_state_xrf:
  "length b = sizeof_m88k_thread_state_xrf \<Longrightarrow>
     length (inplace load_m88k_thread_state_xrf store_m88k_thread_state_xrf (swap_m88k_thread_state_xrf_t e to_host ssr scr) e b) =
       sizeof_m88k_thread_state_xrf"
  by (simp add: inplace_def m88k_thread_state_xrf_defs swap_m88k_thread_state_xrf_t_def Let_def)

lemma length_m88110_thread_state_impl:
  "length b = sizeof_m88110_thread_state_impl \<Longrightarrow>
     length (inplace load_m88110_thread_state_impl store_m88110_thread_state_impl (swap_m88110_thread_state_impl_t e to_host sbpc spsr sfps) e b) =
       sizeof_m88110_thread_state_impl"
  by (simp add: inplace_def m88110_thread_state_impl_defs swap_m88110_thread_state_impl_t_def Let_def)

lemma length_i386_float_state:
  "length b = sizeof_i386_float_state \<Longrightarrow>
     length (inplace load_i386_float_state store_i386_float_state (swap_i386_float_state e to_host sfpc sfps) e b) =
       sizeof_i386_float_state"
  by (simp add: inplace_def i386_float_state_defs swap_i386_float_state_def Let_def)

lemma length_sparc_thread_state_regs:
  "length b = sizeof_sparc_thread_state_regs \<Longrightarrow>
     length (inplace load_sparc_thread_state_regs store_sparc_thread_state_regs (swap_sparc_thread_state_regs e to_host spsr) e b) =
       sizeof_sparc_thread_state_regs"
  by (simp add: inplace_def sparc_thread_state_regs_defs swap_sparc_thread_state_regs_def Let_def)

lemma length_sparc_thread_state_fpu:
  "length b = sizeof_sparc_thread_state_fpu \<Longrightarrow>
     length (inplace load_sparc_thread_state_fpu store_sparc_thread_state_fpu (swap_sparc_thread_state_fpu e to_host sfsr) e b) =
       sizeof_sparc_thread_state_fpu"
  by (simp add: inplace_def sparc_thread_state_fpu_defs swap_sparc_thread_state_fpu_def Let_def)

lemmas length_states =
  m68k_thread_state_regs.length_inplace m68k_thread_state_user_reg.length_inplace
  ppc_thread_state.length_inplace ppc_thread_state64.length_inplace
  ppc_float_state.length_inplace ppc_exception_state.length_inplace
  m88k_thread_state_grf.length_inplace m88k_thread_state_user.length_inplace
  i386_thread_state.length_inplace x86_thread_state64.length_inplace
  hp_pa_integer_thread_state.length_inplace hp_pa_fp_thread_state.length_inplace
  arm_thread_state.length_inplace length_m68k_thread_state_68882 length_i860_thread_state_regs
  length_i386_exception_state length_hp_pa_frame_thread_state length_arm_thread_state64
  length_m88k_thread_state_xrf length_m88110_thread_state_impl length_i386_float_state
  length_sparc_thread_state_regs length_sparc_thread_state_fpu

lemmas state_tables =
  m68k_states_def ppc_states_def m88k_states_def i860_states_def i386_states_def
  hppa_states_def sparc_states_def arm_states_def arm64_states_def

lemma thread_states_ok:
  assumes "thread_states e cputype = Some table"
  shows "ops_ok (flavor_states table flavor)"
proof -
  have "list_all (\<lambda>(fl, ops). ops_ok ops) table"
    using assms by (auto simp: thread_states_def state_tables ops_ok_def length_states split: if_splits)
  then have "map_of table flavor = Some ops \<Longrightarrow> ops_ok ops" for ops
    by (auto simp: list_all_iff dest!: map_of_SomeD)
  moreover have "ops_ok []" by (simp add: ops_ok_def)
  ultimately show ?thesis by (simp add: flavor_states_def split: option.split)
qed

section \<open>Checks look only forward\<close>

lemma check_offsets_same:
  "same_from lc m m' \<Longrightarrow>
     check_offsets e m' cmd i lc cmdsize offs = check_offsets e m cmd i lc cmdsize offs"
  by (induction offs) (simp_all add: read32_same cong: if_cong)

lemma check_flavors_same:
  "same_from state m m' \<Longrightarrow>
     check_flavors e m' table strict cmd i nflavor state p =
     check_flavors e m table strict cmd i nflavor state p"
proof (induction e m table strict cmd i nflavor state p rule: check_flavors.induct)
  case (1 e m table strict cmd i nflavor state p)
  show ?case
  proof (cases "state < p")
    case False
    then show ?thesis by (simp add: check_flavors.simps)
  next
    case True
    have r: "read32 e m' state = read32 e m state" "read32 e m' (state + 4) = read32 e m (state + 4)"
      using "1.prems" by (simp_all add: read32_same)
    have s: "same_from (state + 8 + sz) m m'" "same_from (state + 8) m m'" for sz
      using "1.prems" by (simp_all add: same_from_mono)
    show ?thesis
      by (subst (1 2) check_flavors.simps)
         (use True r s "1.IH" [OF True] in \<open>auto intro!: bind_cong split: option.split\<close>)
  qed
qed

lemma check_command_same:
  assumes "same_from lc m m'"
  shows "check_command e m' sizeofcmds cputype cpusubtype i lc cmd cmdsize =
         check_command e m sizeofcmds cputype cpusubtype i lc cmd cmdsize"
proof -
  have thread: "check_thread e m' cputype cpusubtype cmd i lc cmdsize =
        check_thread e m cputype cpusubtype cmd i lc cmdsize"
    using check_flavors_same [OF same_from_mono [OF assms]] by (simp add: check_thread_def)
  have string: "check_string e m' cmd i lc cmdsize row = check_string e m cmd i lc cmdsize row"
    for row using assms by (simp add: check_string_def check_offsets_same)
  have sized: "check_segment e m' i lc cmdsize = check_segment e m i lc cmdsize"
      "check_segment_64 e m' i lc cmdsize = check_segment_64 e m i lc cmdsize"
      "check_build_version e m' i lc cmdsize = check_build_version e m i lc cmdsize"
    using assms
    by (simp_all add: check_segment_def check_segment_64_def check_build_version_def read32_same)
  show ?thesis unfolding check_command_def thread string sized ..
qed

lemma check_commands_same:
  "same_from lc m m' \<Longrightarrow>
     check_commands e m' sizeofcmds mult cputype cpusubtype n i lc =
     check_commands e m sizeofcmds mult cputype cpusubtype n i lc"
proof (induction n arbitrary: i lc)
  case 0
  then show ?case by simp
next
  case (Suc n)
  have "check_commands e m' sizeofcmds mult cputype cpusubtype n j (lc + k) =
        check_commands e m sizeofcmds mult cputype cpusubtype n j (lc + k)" for j k
    using Suc.prems by (intro Suc.IH) (simp add: same_from_mono)
  then show ?case
    using Suc.prems by (simp add: read32_same check_command_same)
qed

section \<open>Checked commands are swapped inside their size\<close>

lemmas exact_tables =
  exact_symbols_def exact_routines_def exact_linkedit_def exact_versions_def exact_encryption_def
  exact_dyld_info_def

lemmas string_tables =
  string_fvmlib_def string_dylib_def string_sub_def string_prebound_def string_dylinker_def
  string_rpath_def string_linker_option_def

text \<open>How the checks know the structure of a row: by its exact size or by its least size.\<close>

definition row_checked :: "u32 \<Rightarrow> nat \<Rightarrow> bool" where
  "row_checked c sz \<longleftrightarrow>
     (case map_of exact_commands c of
        Some k \<Rightarrow> k = sz
      | None \<Rightarrow> (case map_of string_commands c of Some row \<Rightarrow> fst row = sz | None \<Rightarrow> False))"

definition unchecked_commands :: "u32 list" where
  "unchecked_commands = end_commands @ [LC_DYLD_EXPORTS_TRIE, LC_DYLD_CHAINED_FIXUPS]"

lemma rows_checked:
  "list_all (\<lambda>(c, sz, f). row_checked c sz \<or> c \<in> set unchecked_commands) (swap_rows e)"
  by (simp add: swap_rows_def swap_tables row_checked_def unchecked_commands_def end_commands_def
      exact_commands_def exact_tables string_commands_def string_tables)

lemma rejected_commands:
  assumes "cmd = LC_DYLD_EXPORTS_TRIE \<or> cmd = LC_DYLD_CHAINED_FIXUPS"
  shows "check_command e m sizeofcmds cputype cpusubtype i lc cmd cmdsize = Error (Unknown_command i)"
  using assms
  by (auto simp: check_command_def end_commands_def exact_commands_def exact_tables
      string_commands_def string_tables)

lemma row_checked_size:
  assumes "row_checked cmd sz"
    and "check_command e m sizeofcmds cputype cpusubtype i lc cmd cmdsize = Ok ()"
  shows "sz \<le> unat cmdsize"
  using assms
  by (auto simp: row_checked_def check_command_def check_exact_def check_string_def
      split: option.splits if_splits)

definition command_fits :: "endian \<Rightarrow> bytes \<Rightarrow> u32 \<Rightarrow> nat \<Rightarrow> bool" where
  "command_fits e m cputype lc \<longleftrightarrow>
     (cmd_at e m lc \<in> set end_commands \<longrightarrow>
        (case map_of (swap_rows e) (cmd_at e m lc) of
           Some row \<Rightarrow> fst row \<le> cmdsize_at e m lc | None \<Rightarrow> True)) \<and>
     (cmd_at e m lc = LC_THREAD \<or> cmd_at e m lc = LC_UNIXTHREAD \<longrightarrow>
        8 \<le> cmdsize_at e m lc \<and>
        (case thread_states e cputype of
           Some table \<Rightarrow> flavors_fit e table m (lc + 8) (lc + cmdsize_at e m lc) | None \<Rightarrow> True))"

lemma row_size:
  assumes "map_of (swap_rows e) (cmd_at e m lc) = Some (sz, f)" and "command_fits e m cputype lc"
    and "check_command e m sizeofcmds cputype cpusubtype i lc (cmd_at e m lc) (get32 e m (lc + 4)) = Ok ()"
  shows "sz \<le> cmdsize_at e m lc"
proof -
  have "row_checked (cmd_at e m lc) sz \<or> cmd_at e m lc \<in> set unchecked_commands"
    using rows_checked [of e] assms(1) by (force simp: list_all_iff dest!: map_of_SomeD)
  moreover have "cmd_at e m lc \<in> set end_commands" if "cmd_at e m lc \<in> set unchecked_commands"
    using that assms(3) rejected_commands by (auto simp: unchecked_commands_def)
  moreover have "sz \<le> cmdsize_at e m lc" if "cmd_at e m lc \<in> set end_commands"
    using that assms(1,2) by (simp add: command_fits_def)
  ultimately show ?thesis using row_checked_size assms(3) by blast
qed

lemma command_swapped_thread:
  assumes "lc + n \<le> length m" and "8 \<le> n" and "n = unat cmdsize"
    and fit: "\<And>table. thread_states e cputype = Some table \<Longrightarrow> flavors_fit e table m (lc + 8) (lc + n)"
  shows "command_swapped e lc n m (swap_thread e stack cputype lc cmdsize m)"
proof -
  let ?f = "inplace load_thread_command store_thread_command swap_thread_command e"
  have sz: "sizeof_thread_command = 8" by (simp add: thread_command_defs)
  have "command_swapped e lc 8 m (swap_at lc sizeof_thread_command ?f m)"
    using assms(1,2) by (intro command_swapped_row ut_cmd.row_ok_inplace) (simp_all add: sz)
  then obtain m1 where m1: "swap_at lc sizeof_thread_command ?f m = Ok m1"
      "changed_within lc (lc + 8) m m1" "get32 (flip e) m1 lc = get32 e m lc"
      "get32 (flip e) m1 (lc + 4) = get32 e m (lc + 4)"
    by (auto simp: command_swapped_def)
  have whole: "changed_within lc (lc + n) m m1" using m1(2) assms(2) by (auto intro: changed_within_mono)
  show ?thesis
  proof (cases "thread_states e cputype")
    case None
    then show ?thesis using m1 whole assms(2) by (simp add: swap_thread_def command_swapped_def)
  next
    case (Some table)
    obtain m2 where m2: "swap_flavors e stack table (lc + 8) (lc + n) m1 = Ok m2"
        "changed_within (lc + 8) (lc + n) m1 m2"
      using swap_flavors_Ok [OF thread_states_ok [OF Some] assms(1) fit [OF Some], of m1 stack]
        assms(2) changed_within_same_from [OF m1(2)] by auto
    have "changed_within lc (lc + n) m1 m2" using m2(2) by (auto intro: changed_within_mono)
    moreover have "get32 (flip e) m2 lc = get32 (flip e) m1 lc"
        "get32 (flip e) m2 (lc + 4) = get32 (flip e) m1 (lc + 4)"
      using get32_before [OF m2(2)] by simp_all
    ultimately show ?thesis
      using Some m1 m2(1) whole assms(2,3)
      by (auto simp: swap_thread_def command_swapped_def intro: changed_within_trans)
  qed
qed

lemma no_row:
  "map_of (swap_rows e) LC_SEGMENT = None" "map_of (swap_rows e) LC_SEGMENT_64 = None"
  "map_of (swap_rows e) LC_BUILD_VERSION = None"
  "map_of exact_commands LC_SEGMENT = None" "map_of exact_commands LC_SEGMENT_64 = None"
  "map_of exact_commands LC_BUILD_VERSION = None"
  "map_of string_commands LC_SEGMENT = None" "map_of string_commands LC_SEGMENT_64 = None"
  "map_of string_commands LC_BUILD_VERSION = None"
  by (simp_all add: swap_rows_def swap_tables exact_commands_def exact_tables
      string_commands_def string_tables)

lemma checked_have_rows:
  "fst ` set exact_commands \<union> fst ` set string_commands \<union> set end_commands \<subseteq> fst ` set (swap_rows e)"
  by (simp add: swap_rows_def swap_tables exact_commands_def exact_tables
      string_commands_def string_tables end_commands_def)

lemma command_swapped_sized:
  assumes "lc + unat cmdsize \<le> length m"
  shows "check_segment e m i lc cmdsize = Ok () \<Longrightarrow>
           command_swapped e lc (unat cmdsize) m (swap_segment e lc m)"
    and "check_segment_64 e m i lc cmdsize = Ok () \<Longrightarrow>
           command_swapped e lc (unat cmdsize) m (swap_segment_64 e lc m)"
    and "check_build_version e m i lc cmdsize = Ok () \<Longrightarrow>
           command_swapped e lc (unat cmdsize) m (swap_build_version e lc m)"
  using assms
  by (auto simp: check_segment_def swap_segment_def check_segment_64_def swap_segment_64_def
      check_build_version_def swap_build_version_def bind_iffs read32_def
      intro!: command_swapped_array rows_ok length_swap_sections split: if_splits)

lemma swap_command_Ok:
  assumes "check_command e m sizeofcmds cputype cpusubtype i lc (cmd_at e m lc) (get32 e m (lc + 4)) = Ok ()"
    and "command_fits e m cputype lc" and inside: "lc + cmdsize_at e m lc \<le> length m"
  shows "command_swapped e lc (cmdsize_at e m lc) m
           (swap_command e stack cputype lc (cmd_at e m lc) (get32 e m (lc + 4)) m)"
proof (cases "map_of (swap_rows e) (cmd_at e m lc)")
  case (Some row)
  obtain sz f where row: "row = (sz, f)" by (cases row)
  have "command_swapped e lc (cmdsize_at e m lc) m (swap_at lc sz f m)"
    using Some row assms by (intro command_swapped_row swap_row_ok row_size) auto
  then show ?thesis using Some row by (simp add: swap_command_def)
next
  case None
  consider "cmd_at e m lc = LC_SEGMENT" | "cmd_at e m lc = LC_SEGMENT_64"
    | "cmd_at e m lc = LC_BUILD_VERSION"
    | "cmd_at e m lc = LC_UNIXTHREAD \<or> cmd_at e m lc = LC_THREAD"
    | (other) "cmd_at e m lc \<notin> {LC_SEGMENT, LC_SEGMENT_64, LC_BUILD_VERSION, LC_UNIXTHREAD, LC_THREAD}"
    by blast
  then show ?thesis
  proof cases
    case 4
    have "command_swapped e lc (cmdsize_at e m lc) m
            (swap_thread e stack cputype lc (get32 e m (lc + 4)) m)"
      using 4 assms(2) inside by (intro command_swapped_thread) (auto simp: command_fits_def)
    then show ?thesis using None 4 by (auto simp: swap_command_def)
  next
    case other
    have "cmd_at e m lc \<notin> fst ` set (swap_rows e)" using None by (simp add: map_of_eq_None_iff)
    then have "map_of exact_commands (cmd_at e m lc) = None"
        "map_of string_commands (cmd_at e m lc) = None" "cmd_at e m lc \<notin> set end_commands"
      using checked_have_rows [of e] by (auto simp: map_of_eq_None_iff)
    then show ?thesis using assms(1) other by (simp add: check_command_def)
  qed (use assms inside command_swapped_sized in
       \<open>simp_all add: swap_command_def check_command_def no_row end_commands_def\<close>)
qed

section \<open>The whole pass\<close>

fun commands_fit :: "endian \<Rightarrow> bytes \<Rightarrow> u32 \<Rightarrow> nat \<Rightarrow> nat \<Rightarrow> bool" where
  "commands_fit e m cputype 0 lc = True"
| "commands_fit e m cputype (Suc n) lc =
     (command_fits e m cputype lc \<and> commands_fit e m cputype n (lc + cmdsize_at e m lc))"

text \<open>The sequence of commands that a host of byte order \<open>e\<close> walks: command and size.\<close>

fun commands :: "endian \<Rightarrow> bytes \<Rightarrow> nat \<Rightarrow> nat \<Rightarrow> (u32 \<times> nat) list" where
  "commands e m 0 lc = []"
| "commands e m (Suc n) lc =
     (cmd_at e m lc, cmdsize_at e m lc) # commands e m n (lc + cmdsize_at e m lc)"

lemma flavors_fit_same:
  "same_from state m m' \<Longrightarrow> flavors_fit e table m' state p = flavors_fit e table m state p"
proof (induction e table m state p rule: flavors_fit.induct)
  case (1 e table m state p)
  have eq: "get32 e m' state = get32 e m state" using "1.prems" by (simp add: get32_same)
  show ?case
    using "1.IH" same_from_mono [OF "1.prems"]
    by (subst (1 2) flavors_fit.simps) (simp add: eq)
qed

lemma command_fits_same:
  assumes "same_from lc m m'"
  shows "command_fits e m' cputype lc = command_fits e m cputype lc"
proof -
  have g: "get32 e m' lc = get32 e m lc" "get32 e m' (lc + 4) = get32 e m (lc + 4)"
    using assms by (simp_all add: get32_same)
  have f: "flavors_fit e table m' (lc + 8) p = flavors_fit e table m (lc + 8) p" for table p
    using same_from_mono [OF assms, of "lc + 8"] by (simp add: flavors_fit_same)
  show ?thesis unfolding command_fits_def g f ..
qed

lemma commands_fit_same:
  "same_from lc m m' \<Longrightarrow> commands_fit e m' cputype n lc = commands_fit e m cputype n lc"
proof (induction n arbitrary: lc)
  case 0
  then show ?case by simp
next
  case (Suc n)
  have "commands_fit e m' cputype n (lc + k) = commands_fit e m cputype n (lc + k)" for k
    using Suc.prems by (intro Suc.IH) (simp add: same_from_mono)
  then show ?case using Suc.prems by (simp add: get32_same command_fits_same)
qed

lemma commands_same:
  "same_from lc m m' \<Longrightarrow> commands e m' n lc = commands e m n lc"
proof (induction n arbitrary: lc)
  case 0
  then show ?case by simp
next
  case (Suc n)
  have "commands e m' n (lc + k) = commands e m n (lc + k)" for k
    using Suc.prems by (intro Suc.IH) (simp add: same_from_mono)
  then show ?case using Suc.prems by (simp add: get32_same)
qed

lemma swap_commands_Ok:
  assumes "check_commands e m sizeofcmds mult cputype cpusubtype n i lc = Ok ()"
    and "commands_fit e m cputype n lc" and "sizeofcmds \<le> length m"
  shows "\<exists>m'. swap_commands e stack cputype n lc m = Ok m' \<and>
           changed_within lc sizeofcmds m m' \<and> commands (flip e) m' n lc = commands e m n lc"
  using assms
proof (induction n arbitrary: i lc m)
  case 0
  then show ?case by simp
next
  case (Suc n)
  let ?k = "cmdsize_at e m lc"
  have step: "lc + 8 \<le> length m" "lc + ?k \<le> sizeofcmds"
      "check_command e m sizeofcmds cputype cpusubtype i lc (cmd_at e m lc) (get32 e m (lc + 4)) = Ok ()"
      "check_commands e m sizeofcmds mult cputype cpusubtype n (Suc i) (lc + ?k) = Ok ()"
    using Suc.prems(1) by (auto simp: bind_iffs read32_iffs)
  obtain m1 where m1: "swap_command e stack cputype lc (cmd_at e m lc) (get32 e m (lc + 4)) m = Ok m1"
      "changed_within lc (lc + ?k) m m1" "get32 (flip e) m1 lc = get32 e m lc"
      "get32 (flip e) m1 (lc + 4) = get32 e m (lc + 4)" "8 \<le> ?k"
    using swap_command_Ok [OF step(3), of stack] Suc.prems step(2) by (auto simp: command_swapped_def)
  have same: "same_from (lc + ?k) m m1" using m1(2) by (rule changed_within_same_from)
  have "check_commands e m1 sizeofcmds mult cputype cpusubtype n (Suc i) (lc + ?k) = Ok ()"
      "commands_fit e m1 cputype n (lc + ?k)" "sizeofcmds \<le> length m1"
    using step(4) Suc.prems(2,3) check_commands_same [OF same] commands_fit_same [OF same] m1(2)
    by (simp_all add: changed_within_def)
  then obtain m2 where m2: "swap_commands e stack cputype n (lc + ?k) m1 = Ok m2"
      "changed_within (lc + ?k) sizeofcmds m1 m2"
      "commands (flip e) m2 n (lc + ?k) = commands e m1 n (lc + ?k)"
    using Suc.IH by blast
  have "changed_within lc sizeofcmds m m1" "changed_within lc sizeofcmds m1 m2"
    using m1(2) m2(2) step(2) by (auto intro: changed_within_mono)
  moreover have "get32 (flip e) m2 lc = get32 e m lc" "get32 (flip e) m2 (lc + 4) = get32 e m (lc + 4)"
    using get32_before [OF m2(2)] m1(3-5) by simp_all
  ultimately show ?case
    using m1(1) m2 step(1) commands_same [OF same]
    by (auto simp: read32_def intro: changed_within_trans)
qed

section \<open>Floating-point registers of a PowerPC thread\<close>

lemma swap_at_beyond: "length m < p + n \<Longrightarrow> swap_at p n f m = Fault"
  by (simp add: swap_at_def modify_at_def)

lemma ppc_float_fault:
  assumes "length m = state + 8 + sizeof_ppc_float_state"
  shows "swap_flavor e stack (ppc_states e) state 2 m = Fault"
proof -
  let ?f = "inplace load_ppc_float_state store_ppc_float_state swap_ppc_float_state_t e"
  let ?g = "inplace load_ppc_exception_state store_ppc_exception_state swap_ppc_exception_state_t e"
  have ops: "flavor_states (ppc_states e) 2 =
      [(sizeof_ppc_float_state, \<lambda>junk. ?f), (sizeof_ppc_exception_state, \<lambda>junk. ?g)]"
    by (simp add: flavor_states_def ppc_states_def)
  obtain m1 where m1: "swap_at state 4 (\<lambda>_. put32 e (SWAP_INT 2)) m = Ok m1" "length m1 = length m"
    using assms by (auto simp: changed_within_def intro: swap_at_Ok [of state 4 m "\<lambda>_. put32 e (SWAP_INT 2)"])
  let ?count = "get32 e m1 (state + 4)"
  obtain m2 where m2: "swap_at (state + 4) 4 (\<lambda>_. put32 e (SWAP_INT ?count)) m1 = Ok m2"
      "length m2 = length m"
    using assms m1(2)
    by (auto simp: changed_within_def
        intro: swap_at_Ok [of "state + 4" 4 m1 "\<lambda>_. put32 e (SWAP_INT ?count)"])
  obtain m3 where m3: "swap_at (state + 8) sizeof_ppc_float_state ?f m2 = Ok m3" "length m3 = length m"
    using assms m2(2) ppc_float_state.length_inplace
    by (auto simp: changed_within_def intro: swap_at_Ok [of "state + 8" sizeof_ppc_float_state m2 ?f])
  have "swap_at (state + 8 + sizeof_ppc_float_state) sizeof_ppc_exception_state ?g m3 = Fault"
    using assms m3(2) by (intro swap_at_beyond) (simp add: ppc_exception_state_defs)
  then show ?thesis
    using m1 m2 m3(1) assms by (simp add: swap_flavor_def read32_def ops)
qed

lemma ppc_float_thread_fault:
  assumes "length m = lc + 16 + sizeof_ppc_float_state" and "get32 e m (lc + 8) = 2"
    and "unat cmdsize = 16 + sizeof_ppc_float_state" and "thread_states e cputype = Some (ppc_states e)"
  shows "swap_thread e stack cputype lc cmdsize m = Fault"
proof -
  let ?f = "inplace load_thread_command store_thread_command swap_thread_command e"
  obtain m1 where m1: "swap_at lc sizeof_thread_command ?f m = Ok m1"
      "changed_within lc (lc + sizeof_thread_command) m m1"
    using assms(1) thread_command.length_inplace
    by (auto simp: thread_command_defs intro: swap_at_Ok [of lc sizeof_thread_command m ?f])
  have same: "same_from (lc + 8) m m1"
    using changed_within_same_from [OF m1(2)] by (simp add: thread_command_defs)
  then have len: "length m1 = lc + 8 + 8 + sizeof_ppc_float_state"
    using assms(1) by (simp add: same_from_def)
  then have "swap_flavor e stack (ppc_states e) (lc + 8) 2 m1 = Fault"
    by (rule ppc_float_fault)
  moreover have "read32 e m1 (lc + 8) = Ok 2"
    using get32_same [OF same, of "lc + 8" e] assms(2) len by (simp add: read32_def)
  ultimately have "swap_flavors e stack (ppc_states e) (lc + 8) (lc + unat cmdsize) m1 = Fault"
    using assms(3) by (subst swap_flavors.simps) simp
  then show ?thesis
    using m1(1) assms(4) by (simp add: swap_thread_def)
qed

end
