(* ===== verification/Swap_Contents.thy ===== *)
theory Swap_Contents
  imports Swap_Facts
begin

text \<open>
  What the second pass does to the contents of a command that has an array behind its
  structure: the other host reads the same structure and the same array.
\<close>

lemma subbytes_changed_before:
  assumes "changed_within a b m m'" and "p + n \<le> a"
  shows "subbytes p n m' = subbytes p n m"
proof -
  have "take (p + n) m' = take (p + n) m"
    using assms take_eq_mono [of a m m' "p + n"] by (simp add: changed_within_def)
  then show ?thesis by (simp add: subbytes_def take_drop add.commute)
qed

lemma subbytes_changed_after:
  assumes "changed_within a b m m'" and "b \<le> p"
  shows "subbytes p n m' = subbytes p n m"
  using assms drop_eq_mono [of b m m' p] by (simp add: changed_within_def subbytes_def)

lemma swap_array_then_structure:
  assumes "\<And>b. length b = sz \<Longrightarrow> length (f b) = sz" and "\<And>b. length b = k \<Longrightarrow> length (g b) = k"
    and "lc + sz + k \<le> length m"
  obtains m' where "bind (swap_at (lc + sz) k g m) (swap_at lc sz f) = Ok m'"
    and "changed_within lc (lc + sz + k) m m'"
    and "subbytes lc sz m' = f (subbytes lc sz m)"
    and "subbytes (lc + sz) k m' = g (subbytes (lc + sz) k m)"
proof -
  obtain m1 where m1: "swap_at (lc + sz) k g m = Ok m1" "changed_within (lc + sz) (lc + sz + k) m m1"
      "subbytes (lc + sz) k m1 = g (subbytes (lc + sz) k m)"
    using swap_at_Ok [of "lc + sz" k m g] assms(2,3) by auto
  have "lc + sz \<le> length m1" using m1(2) assms(3) by (simp add: changed_within_def)
  then obtain m' where m': "swap_at lc sz f m1 = Ok m'" "changed_within lc (lc + sz) m1 m'"
      "subbytes lc sz m' = f (subbytes lc sz m1)"
    using swap_at_Ok [of lc sz m1 f] assms(1) by auto
  show ?thesis
  proof (rule that)
    show "bind (swap_at (lc + sz) k g m) (swap_at lc sz f) = Ok m'" using m1 m' by simp
    show "changed_within lc (lc + sz + k) m m'"
      using changed_within_trans [OF changed_within_mono [OF m1(2)] changed_within_mono [OF m'(2)]]
      by simp
    show "subbytes lc sz m' = f (subbytes lc sz m)"
      using m'(3) subbytes_changed_before [OF m1(2)] by simp
    show "subbytes (lc + sz) k m' = g (subbytes (lc + sz) k m)"
      using m1(3) subbytes_changed_after [OF m'(2)] by simp
  qed
qed

lemma swap_segment_contents:
  assumes "nsects = get32 e m (lc + 48)"
    and "lc + sizeof_segment_command + unat nsects * sizeof_section_32 \<le> length m"
  obtains m' where "swap_segment e lc m = Ok m'"
    and "changed_within lc (lc + sizeof_segment_command + unat nsects * sizeof_section_32) m m'"
    and "load_segment_command (flip e) (subbytes lc sizeof_segment_command m') =
           load_segment_command e (subbytes lc sizeof_segment_command m)"
    and "load_array sizeof_section_32 load_section_32 (unat nsects) (flip e)
           (subbytes (lc + sizeof_segment_command) (unat nsects * sizeof_section_32) m') =
         load_array sizeof_section_32 load_section_32 (unat nsects) e
           (subbytes (lc + sizeof_segment_command) (unat nsects * sizeof_section_32) m)"
proof -
  let ?f = "inplace load_segment_command store_segment_command swap_segment_command e"
  let ?g = "swap_array sizeof_section_32 load_section_32 store_section_32 swap_section nsects e"
  have f: "length b = sizeof_segment_command \<Longrightarrow> length (?f b) = sizeof_segment_command" for b
    using sg_cmd.row_ok_inplace [of e] by (simp add: row_ok_def)
  obtain m' where m': "bind (swap_at (lc + sizeof_segment_command) (unat nsects * sizeof_section_32) ?g m)
        (swap_at lc sizeof_segment_command ?f) = Ok m'"
      "changed_within lc (lc + sizeof_segment_command + unat nsects * sizeof_section_32) m m'"
      "subbytes lc sizeof_segment_command m' = ?f (subbytes lc sizeof_segment_command m)"
      "subbytes (lc + sizeof_segment_command) (unat nsects * sizeof_section_32) m' =
         ?g (subbytes (lc + sizeof_segment_command) (unat nsects * sizeof_section_32) m)"
    by (rule swap_array_then_structure [OF f length_swap_sections(1) assms(2)])
  show ?thesis
  proof (rule that)
    have "read32 e m (lc + 48) = Ok nsects"
      using assms by (simp add: read32_def segment_command_defs)
    then show "swap_segment e lc m = Ok m'" using m'(1) by (simp add: swap_segment_def)
    show "changed_within lc (lc + sizeof_segment_command + unat nsects * sizeof_section_32) m m'"
      by (rule m'(2))
    show "load_segment_command (flip e) (subbytes lc sizeof_segment_command m') =
        load_segment_command e (subbytes lc sizeof_segment_command m)"
      using assms(2) unfolding m'(3) by (intro segment_command.inplace_load) simp
    show "load_array sizeof_section_32 load_section_32 (unat nsects) (flip e)
          (subbytes (lc + sizeof_segment_command) (unat nsects * sizeof_section_32) m') =
        load_array sizeof_section_32 load_section_32 (unat nsects) e
          (subbytes (lc + sizeof_segment_command) (unat nsects * sizeof_section_32) m)"
      using assms(2) unfolding m'(4)
      by (intro section_32.swap_array_read) (simp_all add: swap_section_def)
  qed
qed

section \<open>The 64-bit segment\<close>

text \<open>An array of structures whose swap routine loses something: \<open>h\<close> is what the other host sees.\<close>

lemma swap_array_sees:
  assumes "\<And>b. length b = sz \<Longrightarrow> length (inplace load store swap e b) = sz"
    and "\<And>b. length b = sz \<Longrightarrow> load (flip e) (inplace load store swap e b) = h (load e b)"
    and "\<And>xs. swap_n n xs = map swap (take (unat n) xs) @ drop (unat n) xs"
    and "length b = unat n * sz"
  shows "load_array sz load (unat n) (flip e) (swap_array sz load store swap_n n e b) =
         map h (load_array sz load (unat n) e b)"
proof -
  have "load_array sz load k (flip e) (store_array store e (map swap (load_array sz load k e b))) =
      map h (load_array sz load k e b)" if "length b = k * sz" for k b
    using that
  proof (induction k arbitrary: b)
    case 0
    then show ?case by simp
  next
    case (Suc k)
    let ?s = "inplace load store swap e (subbytes 0 sz b)"
    have first: "length (subbytes 0 sz b) = sz" using Suc.prems by simp
    have split: "store_array store e (map swap (load_array sz load (Suc k) e b)) =
        ?s @ store_array store e (map swap (load_array sz load k e (drop sz b)))"
      by (simp add: load_array_Suc store_array_def inplace_def)
    show ?case
      unfolding split using Suc assms(1) [OF first] assms(2) [OF first]
      by (simp add: load_array_Suc subbytes_def)
  qed
  from this [OF assms(4)] show ?thesis by (simp add: swap_array_def assms(3))
qed

definition reserved3_swapped :: "section_64 \<Rightarrow> section_64" where
  "reserved3_swapped s = s\<lparr>s64_reserved3 := SWAP_INT (s64_reserved3 s)\<rparr>"

lemma section_64_seen:
  assumes "length b = sizeof_section_64"
  shows "length (inplace load_section_64 store_section_64 swap_section_64_entry e b) = sizeof_section_64"
    and "load_section_64 (flip e) (inplace load_section_64 store_section_64 swap_section_64_entry e b) =
           reserved3_swapped (load_section_64 e b)"
  using assms by (simp_all add: inplace_def section_64_defs reserved3_swapped_def byte_simps)

lemma swap_segment_64_contents:
  assumes "nsects = get32 e m (lc + 64)"
    and "lc + sizeof_segment_command_64 + unat nsects * sizeof_section_64 \<le> length m"
  obtains m' where "swap_segment_64 e lc m = Ok m'"
    and "changed_within lc (lc + sizeof_segment_command_64 + unat nsects * sizeof_section_64) m m'"
    and "load_segment_command_64 (flip e) (subbytes lc sizeof_segment_command_64 m') =
           load_segment_command_64 e (subbytes lc sizeof_segment_command_64 m)"
    and "load_array sizeof_section_64 load_section_64 (unat nsects) (flip e)
           (subbytes (lc + sizeof_segment_command_64) (unat nsects * sizeof_section_64) m') =
         map reserved3_swapped (load_array sizeof_section_64 load_section_64 (unat nsects) e
           (subbytes (lc + sizeof_segment_command_64) (unat nsects * sizeof_section_64) m))"
proof -
  let ?f = "inplace load_segment_command_64 store_segment_command_64 swap_segment_command_64 e"
  let ?g = "swap_array sizeof_section_64 load_section_64 store_section_64 swap_section_64 nsects e"
  have f: "length b = sizeof_segment_command_64 \<Longrightarrow> length (?f b) = sizeof_segment_command_64" for b
    using sg64_cmd.row_ok_inplace [of e] by (simp add: row_ok_def)
  obtain m' where m': "bind (swap_at (lc + sizeof_segment_command_64) (unat nsects * sizeof_section_64) ?g m)
        (swap_at lc sizeof_segment_command_64 ?f) = Ok m'"
      "changed_within lc (lc + sizeof_segment_command_64 + unat nsects * sizeof_section_64) m m'"
      "subbytes lc sizeof_segment_command_64 m' = ?f (subbytes lc sizeof_segment_command_64 m)"
      "subbytes (lc + sizeof_segment_command_64) (unat nsects * sizeof_section_64) m' =
         ?g (subbytes (lc + sizeof_segment_command_64) (unat nsects * sizeof_section_64) m)"
    by (rule swap_array_then_structure [OF f length_swap_sections(2) assms(2)])
  show ?thesis
  proof (rule that)
    have "read32 e m (lc + 64) = Ok nsects"
      using assms by (simp add: read32_def segment_command_64_defs)
    then show "swap_segment_64 e lc m = Ok m'" using m'(1) by (simp add: swap_segment_64_def)
    show "changed_within lc (lc + sizeof_segment_command_64 + unat nsects * sizeof_section_64) m m'"
      by (rule m'(2))
    show "load_segment_command_64 (flip e) (subbytes lc sizeof_segment_command_64 m') =
        load_segment_command_64 e (subbytes lc sizeof_segment_command_64 m)"
      using assms(2) unfolding m'(3) by (intro segment_command_64.inplace_load) simp
    show "load_array sizeof_section_64 load_section_64 (unat nsects) (flip e)
          (subbytes (lc + sizeof_segment_command_64) (unat nsects * sizeof_section_64) m') =
        map reserved3_swapped (load_array sizeof_section_64 load_section_64 (unat nsects) e
          (subbytes (lc + sizeof_segment_command_64) (unat nsects * sizeof_section_64) m))"
      unfolding m'(4)
    proof (rule swap_array_sees [OF section_64_seen])
      show "swap_section_64 nsects xs =
          map swap_section_64_entry (take (unat nsects) xs) @ drop (unat nsects) xs" for xs
        by (simp only: swap_section_64_def)
    qed (use assms(2) in simp_all)
  qed
qed

end
