(* ===== verification/C_Strings.thy ===== *)
theory C_Strings
  imports Cctools_Prelude
begin

text \<open>
  The C library routines on strings that the tools rely on, as HOL functions: a string
  is the list of its characters before the terminating null.  \<open>strtoul\<close> is that of a
  host with 64-bit \<open>unsigned long\<close> and base 10.  \<open>decimal\<close> prints a number; the parser
  reads it back.
\<close>

definition isspace :: "char \<Rightarrow> bool" where
  "isspace c \<longleftrightarrow> c = CHR '' '' \<or> (let n = of_char c :: nat in 9 \<le> n \<and> n \<le> 13)"

definition isdigit :: "char \<Rightarrow> bool" where
  "isdigit c \<longleftrightarrow> (let n = of_char c :: nat in 48 \<le> n \<and> n \<le> 57)"

definition digit_value :: "char \<Rightarrow> nat" where
  "digit_value c = of_char c - 48"

definition digits_value :: "string \<Rightarrow> nat" where
  "digits_value ds = foldl (\<lambda>v c. 10 * v + digit_value c) 0 ds"

definition ULONG_MAX :: nat where
  "ULONG_MAX = 2 ^ 64 - 1"

fun skip_sign :: "string \<Rightarrow> bool \<times> string" where
  "skip_sign (c # s) =
     (if c = CHR ''-'' then (True, s) else if c = CHR ''+'' then (False, s) else (False, c # s))"
| "skip_sign [] = (False, [])"

text \<open>The value and the rest of the string (where \<open>endp\<close> points).\<close>

definition strtoul :: "string \<Rightarrow> u64 \<times> string" where
  "strtoul s =
     (let (neg, t) = skip_sign (dropWhile isspace s);
          v = digits_value (takeWhile isdigit t)
      in if takeWhile isdigit t = [] then (0, s)
         else (if v > ULONG_MAX then - 1 else if neg then - of_nat v else of_nat v,
               dropWhile isdigit t))"

text \<open>\<open>strchr\<close>: what is before the character and, if it occurs, what is behind it.\<close>

definition strchr :: "char \<Rightarrow> string \<Rightarrow> string \<times> string option" where
  "strchr c s =
     (takeWhile (\<lambda>d. d \<noteq> c) s,
      (case dropWhile (\<lambda>d. d \<noteq> c) s of [] \<Rightarrow> None | d # t \<Rightarrow> Some t))"

definition digit_char :: "nat \<Rightarrow> char" where
  "digit_char d = char_of (48 + d)"

fun decimal :: "nat \<Rightarrow> string" where
  "decimal n = (if n < 10 then [digit_char n] else decimal (n div 10) @ [digit_char (n mod 10)])"

declare decimal.simps [simp del]

section \<open>Numbers in decimal\<close>

lemma of_digit_char: "d < 10 \<Longrightarrow> of_char (digit_char d) = (48 + d :: nat)"
  by (simp add: digit_char_def)

lemma digit_char_facts:
  assumes "d < 10"
  shows "isdigit (digit_char d)" "digit_value (digit_char d) = d"
  using of_digit_char [OF assms] assms by (simp_all add: isdigit_def digit_value_def Let_def)

lemma decimal_digits: "c \<in> set (decimal n) \<Longrightarrow> isdigit c"
proof (induction n rule: decimal.induct)
  case (1 n)
  then show ?case
    by (subst (asm) (2) decimal.simps) (auto split: if_splits intro: digit_char_facts)
qed

lemma decimal_not_Nil [simp]: "decimal n \<noteq> []"
  by (subst decimal.simps) simp

lemma digits_value_snoc: "digits_value (ds @ [c]) = 10 * digits_value ds + digit_value c"
  by (simp add: digits_value_def)

lemma digits_value_decimal [simp]: "digits_value (decimal n) = n"
proof (induction n rule: decimal.induct)
  case (1 n)
  show ?case
  proof (cases "n < 10")
    case True
    then show ?thesis
      by (subst decimal.simps) (simp add: digits_value_def digit_char_facts)
  next
    case False
    then show ?thesis
      using 1 by (subst decimal.simps) (simp add: digits_value_snoc digit_char_facts)
  qed
qed

lemma isdigit_not:
  assumes "isdigit c"
  shows "\<not> isspace c" "c \<noteq> CHR ''-''" "c \<noteq> CHR ''+''" "c \<noteq> CHR ''.''"
  using assms by (auto simp: isdigit_def isspace_def Let_def)

lemma takeWhile_digits:
  assumes "\<And>c. c \<in> set ds \<Longrightarrow> isdigit c" and "rest = [] \<or> \<not> isdigit (hd rest)"
  shows "takeWhile isdigit (ds @ rest) = ds" "dropWhile isdigit (ds @ rest) = rest"
  using assms by (induction ds) (cases rest; auto)+

text \<open>\<open>strtoul\<close> reads a printed number that fits and stops behind it.\<close>

lemma strtoul_decimal:
  assumes "n \<le> ULONG_MAX" and "rest = [] \<or> \<not> isdigit (hd rest)"
  shows "strtoul (decimal n @ rest) = (of_nat n, rest)"
proof -
  obtain c cs where cs: "decimal n = c # cs" by (cases "decimal n") auto
  have digit: "isdigit c" using decimal_digits [of c n] cs by simp
  have "dropWhile isspace (decimal n @ rest) = decimal n @ rest"
    using isdigit_not [OF digit] cs by simp
  moreover have "skip_sign (decimal n @ rest) = (False, decimal n @ rest)"
    using isdigit_not [OF digit] cs by simp
  moreover have "takeWhile isdigit (decimal n @ rest) = decimal n"
      "dropWhile isdigit (decimal n @ rest) = rest"
    by (rule takeWhile_digits [OF decimal_digits assms(2)], assumption)+
  ultimately show ?thesis
    using assms(1) by (simp add: strtoul_def)
qed

lemma strchr_append:
  assumes "c \<notin> set s"
  shows "strchr c (s @ c # t) = (s, Some t)" "strchr c s = (s, None)"
proof -
  have "\<forall>d \<in> set s. d \<noteq> c" using assms by blast
  then show "strchr c (s @ c # t) = (s, Some t)" "strchr c s = (s, None)"
    by (simp_all add: strchr_def takeWhile_append dropWhile_append takeWhile_eq_all_conv
        iffD2 [OF dropWhile_eq_Nil_conv])
qed

lemma dot_not_in_decimal: "CHR ''.'' \<notin> set (decimal n)"
  using decimal_digits isdigit_not(4) by blast

end
