(* ===== verification/Version_Number.thy ===== *)
theory Version_Number
  imports C_Strings
begin

text \<open>
  \<open>get_version_number\<close> of \<open>libstuff/version_number.c\<close>: a version \<open>X[.Y[.Z]]\<close> as the 32-bit
  number \<open>(X << 16) | (Y << 8) | Z\<close>.
\<close>

unbundle bit_operations_syntax

text \<open>
  The fields of the argument: a dot ends a field only if something follows it; behind
  the third field a dot ends the field in any case and the rest is dropped.
\<close>

definition version_fields :: "string \<Rightarrow> string \<times> string option \<times> string option" where
  "version_fields argument =
     (case strchr CHR ''.'' argument of
        (x, Some (c # y)) \<Rightarrow>
          (case strchr CHR ''.'' (c # y) of
             (y', Some (d # z)) \<Rightarrow> (x, Some y', Some (fst (strchr CHR ''.'' (d # z))))
           | _ \<Rightarrow> (x, Some (c # y), None))
      | _ \<Rightarrow> (argument, None, None))"

text \<open>The number of the field and the field, as in the messages.\<close>

datatype version_error =
    Not_a_number nat string
  | Too_large nat string

text \<open>One field: \<open>strtoul\<close> cut to 32 bits, then the two checks.\<close>

definition version_field :: "nat \<Rightarrow> u32 \<Rightarrow> string \<Rightarrow> version_error + u32" where
  "version_field n limit s =
     (let (v, endp) = strtoul s; X = ucast v :: u32
      in if endp \<noteq> [] then Inl (Not_a_number n s)
         else if X > limit then Inl (Too_large n s)
         else Inr X)"

fun version_field_opt :: "nat \<Rightarrow> u32 \<Rightarrow> string option \<Rightarrow> version_error + u32" where
  "version_field_opt n limit None = Inr 0"
| "version_field_opt n limit (Some s) = version_field n limit s"

definition get_version_number :: "string \<Rightarrow> version_error + u32" where
  "get_version_number argument =
     (let (x, y, z) = version_fields argument
      in case version_field 1 0xffff x of
           Inl err \<Rightarrow> Inl err
         | Inr X \<Rightarrow>
             (case version_field_opt 2 0xff y of
                Inl err \<Rightarrow> Inl err
              | Inr Y \<Rightarrow>
                  (case version_field_opt 3 0xff z of
                     Inl err \<Rightarrow> Inl err
                   | Inr Z \<Rightarrow> Inr (push_bit 16 X OR push_bit 8 Y OR Z))))"

section \<open>Printed versions\<close>

lemma version_field_decimal:
  assumes "n \<le> unat limit"
  shows "version_field k limit (decimal n) = Inr (of_nat n)"
proof -
  have "n < 2 ^ 32" using assms unsigned_less [of limit] le_less_trans by fastforce
  then have "strtoul (decimal n) = (of_nat n, [])"
    using strtoul_decimal [of n "[]"] by (simp add: ULONG_MAX_def)
  moreover have "ucast (of_nat n :: u64) = (of_nat n :: u32)"
    by (rule bit_word_eqI) (simp add: bit_simps bit_of_nat_iff)
  moreover have "(of_nat n :: u32) \<le> limit"
    using assms \<open>n < 2 ^ 32\<close> by (simp add: word_le_nat_alt unsigned_of_nat take_bit_nat_eq_self)
  ultimately show ?thesis by (simp add: version_field_def Let_def not_less)
qed

abbreviation dot :: char where
  "dot \<equiv> CHR ''.''"

lemma decimal_Cons: "\<exists>c s. decimal n = c # s"
  by (cases "decimal n") auto

lemma version_fields_decimal:
  "version_fields (decimal X) = (decimal X, None, None)"
  "version_fields (decimal X @ dot # decimal Y) = (decimal X, Some (decimal Y), None)"
  "version_fields (decimal X @ dot # decimal Y @ dot # decimal Z) =
     (decimal X, Some (decimal Y), Some (decimal Z))"
  "version_fields (decimal X @ dot # decimal Y @ dot # decimal Z @ dot # rest) =
     (decimal X, Some (decimal Y), Some (decimal Z))"
  using decimal_Cons [of Y] decimal_Cons [of Z] strchr_append [OF dot_not_in_decimal [of X]]
    strchr_append [OF dot_not_in_decimal [of Y]] strchr_append [OF dot_not_in_decimal [of Z]]
  by (auto simp: version_fields_def)

lemmas version_decimal_simps =
  get_version_number_def version_fields_decimal version_field_decimal

lemma get_version_number_decimal:
  assumes "X \<le> 0xffff" and "Y \<le> 0xff" and "Z \<le> 0xff"
  shows "get_version_number (decimal X) = Inr (push_bit 16 (of_nat X))"
    and "get_version_number (decimal X @ dot # decimal Y) =
           Inr (push_bit 16 (of_nat X) OR push_bit 8 (of_nat Y))"
    and "get_version_number (decimal X @ dot # decimal Y @ dot # decimal Z) =
           Inr (push_bit 16 (of_nat X) OR push_bit 8 (of_nat Y) OR of_nat Z)"
  using assms by (simp_all add: version_decimal_simps)

lemma get_version_number_fields:
  assumes "get_version_number s = Inr v"
  obtains X Y Z where "X \<le> 0xffff" "Y \<le> 0xff" "Z \<le> 0xff"
    and "v = push_bit 16 X OR push_bit 8 Y OR Z"
proof -
  have bound: "version_field n limit f = Inr w \<Longrightarrow> w \<le> limit" for n limit f w
    by (auto simp: version_field_def Let_def split: prod.splits if_splits)
  have bound_opt: "version_field_opt n limit f = Inr w \<Longrightarrow> w \<le> limit" for n limit f w
    using bound by (cases f) auto
  show ?thesis
    using assms that bound bound_opt
    by (auto simp: get_version_number_def Let_def split: prod.splits sum.splits) blast
qed

lemma version_parts:
  fixes X Y Z :: u32
  assumes "X \<le> 0xffff" and "Y \<le> 0xff" and "Z \<le> 0xff"
  shows "drop_bit 16 (push_bit 16 X OR push_bit 8 Y OR Z) = X"
    and "drop_bit 8 (push_bit 16 X OR push_bit 8 Y OR Z) AND 0xff = Y"
    and "(push_bit 16 X OR push_bit 8 Y OR Z) AND 0xff = Z"
proof -
  have top: "n < k" if "bit w n" "unat w < 2 ^ k" for w :: u32 and n k
  proof -
    have "take_bit k w = w"
      using that(2) by (simp add: word_unat_eq_iff unsigned_take_bit_eq take_bit_nat_eq_self)
    with that(1) show ?thesis by (metis bit_take_bit_iff)
  qed
  have X: "bit X n \<Longrightarrow> n < 16" and Y: "bit Y n \<Longrightarrow> n < 8" and Z: "bit Z n \<Longrightarrow> n < 8" for n
    using top [of X n 16] top [of Y n 8] top [of Z n 8] assms by (simp_all add: word_le_nat_alt)
  have m: "(0xff :: u32) = mask 8"
    by (simp add: mask_eq_exp_minus_1)
  show "drop_bit 16 (push_bit 16 X OR push_bit 8 Y OR Z) = X"
       "drop_bit 8 (push_bit 16 X OR push_bit 8 Y OR Z) AND 0xff = Y"
       "(push_bit 16 X OR push_bit 8 Y OR Z) AND 0xff = Z"
    unfolding m by (rule bit_word_eqI; use X Y Z in \<open>fastforce simp: bit_simps\<close>)+
qed

section \<open>Properties\<close>

text \<open>
  C39.  \<open>get_version_number\<close> reads a printed version \<open>X\<close>, \<open>X.Y\<close> or \<open>X.Y.Z\<close> whose fields are in
  range, and each field is found again in the result.
\<close>

theorem version_round_trip:
  assumes "X \<le> 0xffff" and "Y \<le> 0xff" and "Z \<le> 0xff"
  shows "get_version_number (decimal X) = Inr (push_bit 16 (of_nat X)) \<and>
         get_version_number (decimal X @ dot # decimal Y) =
           Inr (push_bit 16 (of_nat X) OR push_bit 8 (of_nat Y)) \<and>
         (\<exists>v. get_version_number (decimal X @ dot # decimal Y @ dot # decimal Z) = Inr v \<and>
            unat (drop_bit 16 v) = X \<and> unat (drop_bit 8 v AND 0xff) = Y \<and> unat (v AND 0xff) = Z)"
proof -
  have small: "unat (of_nat n :: u32) = n" if "n \<le> 0xffff" for n
    using that by (simp add: unsigned_of_nat take_bit_nat_eq_self)
  have "(of_nat X :: u32) \<le> 0xffff" "(of_nat Y :: u32) \<le> 0xff" "(of_nat Z :: u32) \<le> 0xff"
    using assms by (simp_all add: word_le_nat_alt small)
  from version_parts [OF this] show ?thesis
    using get_version_number_decimal [OF assms] assms small by auto
qed

theorem version_round_trip_witness:
  "\<exists>v. get_version_number (decimal 10 @ dot # decimal 15 @ dot # decimal 7) = Inr v \<and>
     unat (drop_bit 16 v) = 10"
  using version_round_trip [of 10 15 7] by auto

text \<open>
  The checks of \<open>get_version_number\<close> come after the number is cut to 32 bits: the first
  field of \<open>4294967297.2\<close> is taken for 1, and a fourth field is dropped without a word.
\<close>

theorem version_wraps_around:
  "get_version_number ''4294967297.2'' = get_version_number ''1.2'' \<and>
   get_version_number ''1.2.3.junk'' = get_version_number ''1.2.3''"
  by (simp add: get_version_number_def version_fields_def strchr_def version_field_def Let_def
      strtoul_def digits_value_def digit_value_def isdigit_def isspace_def ULONG_MAX_def)

end
