(* ===== verification/Checksums.thy ===== *)
theory Checksums
  imports Cctools_Prelude
begin

text \<open>
  Small numeric routines of \<open>libstuff\<close>: rounding (\<open>rnd.c\<close>), the string hash
  (\<open>hash_string.c\<close>) and the checksum (\<open>crc32.c\<close>), with the bit-serial definition of the
  checksum that the table-driven loop implements.
\<close>

unbundle bit_operations_syntax

section \<open>Rounding\<close>

definition rnd64 :: "u64 \<Rightarrow> u64 \<Rightarrow> u64" where
  "rnd64 v r = (let r = r - 1; v = v + r in v AND NOT r)"

definition rnd :: "u64 \<Rightarrow> u64 \<Rightarrow> u64" where
  "rnd v r = rnd64 v r"

definition rnd32 :: "u32 \<Rightarrow> u32 \<Rightarrow> u32" where
  "rnd32 v r = (let r = r - 1; v = v + r in v AND NOT r)"

section \<open>The string hash\<close>

text \<open>
  One round for a character, which is sign-extended to 32 bits; \<open>k\<close> is never negative,
  so the shift to the right brings in zeros.
\<close>

definition hash_step :: "u32 \<Rightarrow> u8 \<Rightarrow> u32" where
  "hash_step k c = ((push_bit 1 k + drop_bit 14 k) XOR scast c) AND 0x3fff"

definition hash_string :: "u8 list \<Rightarrow> u32" where
  "hash_string key = foldl hash_step 0 (takeWhile (\<lambda>c. c \<noteq> 0) key)"

section \<open>The checksum\<close>

definition crctab :: "u32 list" where
  "crctab =
     [0x00000000, 0x04c11db7, 0x09823b6e, 0x0d4326d9, 0x130476dc, 0x17c56b6b,
      0x1a864db2, 0x1e475005, 0x2608edb8, 0x22c9f00f, 0x2f8ad6d6, 0x2b4bcb61,
      0x350c9b64, 0x31cd86d3, 0x3c8ea00a, 0x384fbdbd, 0x4c11db70, 0x48d0c6c7,
      0x4593e01e, 0x4152fda9, 0x5f15adac, 0x5bd4b01b, 0x569796c2, 0x52568b75,
      0x6a1936c8, 0x6ed82b7f, 0x639b0da6, 0x675a1011, 0x791d4014, 0x7ddc5da3,
      0x709f7b7a, 0x745e66cd, 0x9823b6e0, 0x9ce2ab57, 0x91a18d8e, 0x95609039,
      0x8b27c03c, 0x8fe6dd8b, 0x82a5fb52, 0x8664e6e5, 0xbe2b5b58, 0xbaea46ef,
      0xb7a96036, 0xb3687d81, 0xad2f2d84, 0xa9ee3033, 0xa4ad16ea, 0xa06c0b5d,
      0xd4326d90, 0xd0f37027, 0xddb056fe, 0xd9714b49, 0xc7361b4c, 0xc3f706fb,
      0xceb42022, 0xca753d95, 0xf23a8028, 0xf6fb9d9f, 0xfbb8bb46, 0xff79a6f1,
      0xe13ef6f4, 0xe5ffeb43, 0xe8bccd9a, 0xec7dd02d, 0x34867077, 0x30476dc0,
      0x3d044b19, 0x39c556ae, 0x278206ab, 0x23431b1c, 0x2e003dc5, 0x2ac12072,
      0x128e9dcf, 0x164f8078, 0x1b0ca6a1, 0x1fcdbb16, 0x018aeb13, 0x054bf6a4,
      0x0808d07d, 0x0cc9cdca, 0x7897ab07, 0x7c56b6b0, 0x71159069, 0x75d48dde,
      0x6b93dddb, 0x6f52c06c, 0x6211e6b5, 0x66d0fb02, 0x5e9f46bf, 0x5a5e5b08,
      0x571d7dd1, 0x53dc6066, 0x4d9b3063, 0x495a2dd4, 0x44190b0d, 0x40d816ba,
      0xaca5c697, 0xa864db20, 0xa527fdf9, 0xa1e6e04e, 0xbfa1b04b, 0xbb60adfc,
      0xb6238b25, 0xb2e29692, 0x8aad2b2f, 0x8e6c3698, 0x832f1041, 0x87ee0df6,
      0x99a95df3, 0x9d684044, 0x902b669d, 0x94ea7b2a, 0xe0b41de7, 0xe4750050,
      0xe9362689, 0xedf73b3e, 0xf3b06b3b, 0xf771768c, 0xfa325055, 0xfef34de2,
      0xc6bcf05f, 0xc27dede8, 0xcf3ecb31, 0xcbffd686, 0xd5b88683, 0xd1799b34,
      0xdc3abded, 0xd8fba05a, 0x690ce0ee, 0x6dcdfd59, 0x608edb80, 0x644fc637,
      0x7a089632, 0x7ec98b85, 0x738aad5c, 0x774bb0eb, 0x4f040d56, 0x4bc510e1,
      0x46863638, 0x42472b8f, 0x5c007b8a, 0x58c1663d, 0x558240e4, 0x51435d53,
      0x251d3b9e, 0x21dc2629, 0x2c9f00f0, 0x285e1d47, 0x36194d42, 0x32d850f5,
      0x3f9b762c, 0x3b5a6b9b, 0x0315d626, 0x07d4cb91, 0x0a97ed48, 0x0e56f0ff,
      0x1011a0fa, 0x14d0bd4d, 0x19939b94, 0x1d528623, 0xf12f560e, 0xf5ee4bb9,
      0xf8ad6d60, 0xfc6c70d7, 0xe22b20d2, 0xe6ea3d65, 0xeba91bbc, 0xef68060b,
      0xd727bbb6, 0xd3e6a601, 0xdea580d8, 0xda649d6f, 0xc423cd6a, 0xc0e2d0dd,
      0xcda1f604, 0xc960ebb3, 0xbd3e8d7e, 0xb9ff90c9, 0xb4bcb610, 0xb07daba7,
      0xae3afba2, 0xaafbe615, 0xa7b8c0cc, 0xa379dd7b, 0x9b3660c6, 0x9ff77d71,
      0x92b45ba8, 0x9675461f, 0x8832161a, 0x8cf30bad, 0x81b02d74, 0x857130c3,
      0x5d8a9099, 0x594b8d2e, 0x5408abf7, 0x50c9b640, 0x4e8ee645, 0x4a4ffbf2,
      0x470cdd2b, 0x43cdc09c, 0x7b827d21, 0x7f436096, 0x7200464f, 0x76c15bf8,
      0x68860bfd, 0x6c47164a, 0x61043093, 0x65c52d24, 0x119b4be9, 0x155a565e,
      0x18197087, 0x1cd86d30, 0x029f3d35, 0x065e2082, 0x0b1d065b, 0x0fdc1bec,
      0x3793a651, 0x3352bbe6, 0x3e119d3f, 0x3ad08088, 0x2497d08d, 0x2056cd3a,
      0x2d15ebe3, 0x29d4f654, 0xc5a92679, 0xc1683bce, 0xcc2b1d17, 0xc8ea00a0,
      0xd6ad50a5, 0xd26c4d12, 0xdf2f6bcb, 0xdbee767c, 0xe3a1cbc1, 0xe760d676,
      0xea23f0af, 0xeee2ed18, 0xf0a5bd1d, 0xf464a0aa, 0xf9278673, 0xfde69bc4,
      0x89b8fd09, 0x8d79e0be, 0x803ac667, 0x84fbdbd0, 0x9abc8bd5, 0x9e7d9662,
      0x933eb0bb, 0x97ffad0c, 0xafb010b1, 0xab710d06, 0xa6322bdf, 0xa2f33668,
      0xbcb4666d, 0xb8757bda, 0xb5365d03, 0xb1f740b4]"

definition COMPUTE :: "u32 \<Rightarrow> u8 \<Rightarrow> u32" where
  "COMPUTE var ch = push_bit 8 var XOR crctab ! unat (drop_bit 24 var XOR ucast ch)"

text \<open>The bytes of the length, lowest first, without leading zeros.\<close>

function length_bytes :: "u32 \<Rightarrow> u8 list" where
  "length_bytes len = (if len = 0 then [] else ucast (len AND 0xff) # length_bytes (drop_bit 8 len))"
  by pat_completeness auto
termination
  by (relation "measure unat") (auto simp: unat_drop_bit_eq drop_bit_nat_def unat_gt_0 simp del: drop_bit_eq_div)

declare length_bytes.simps [simp del]

text \<open>
  \<open>crc32\<close> with a counter of type \<open>int\<close>: the loop is defined for lengths below \<open>2^31\<close> and
  within the buffer.
\<close>

definition crc32 :: "bytes \<Rightarrow> u32 \<Rightarrow> u32 option" where
  "crc32 buf len =
     (if unat len < 2 ^ 31 \<and> unat len \<le> length buf then
        (let crc = foldl COMPUTE 0 (take (unat len) buf);
             crc = foldl COMPUTE crc (length_bytes len)
         in Some (NOT crc))
      else None)"

text \<open>The bit-serial definition: division by the polynomial \<open>0x04c11db7\<close>, top bit first.\<close>

definition crc_bit :: "u32 \<Rightarrow> u32" where
  "crc_bit w = (if bit w 31 then push_bit 1 w XOR 0x04c11db7 else push_bit 1 w)"

definition crc_byte :: "u32 \<Rightarrow> u8 \<Rightarrow> u32" where
  "crc_byte crc ch = (crc_bit ^^ 8) (crc XOR push_bit 24 (ucast ch))"

definition posix_cksum :: "bytes \<Rightarrow> u32" where
  "posix_cksum buf = NOT (foldl crc_byte 0 (buf @ length_bytes (of_nat (length buf))))"

section \<open>Rounding to a multiple\<close>

lemma and_not_mask: "v AND NOT (mask k) = push_bit k (drop_bit k v)" for v :: "'a::len word"
  by (rule bit_word_eqI) (auto simp: bit_simps)

lemma unat_power_two: "k < LENGTH('a) \<Longrightarrow> unat (2 ^ k :: 'a::len word) = 2 ^ k"
proof -
  assume "k < LENGTH('a)"
  then have "unat (of_nat (2 ^ k) :: 'a word) = 2 ^ k"
    by (simp only: unsigned_of_nat) (simp add: take_bit_nat_eq_self)
  then show ?thesis by simp
qed

lemma unat_mask_eq: "k < LENGTH('a) \<Longrightarrow> unat (mask k :: 'a::len word) = 2 ^ k - 1"
  using unat_power_two [where ?'a = 'a, of k] by (simp add: mask_eq_exp_minus_1 unat_sub_if')

lemma unat_round:
  fixes v :: "'a::len word"
  assumes "k < LENGTH('a)" and "unat v + (2 ^ k - 1) < 2 ^ LENGTH('a)"
  shows "unat ((v + mask k) AND NOT (mask k)) = (unat v + (2 ^ k - 1)) div 2 ^ k * 2 ^ k"
proof -
  have "unat v + unat (mask k :: 'a word) < 2 ^ LENGTH('a)"
    using assms by (simp only: unat_mask_eq)
  then have "unat (v + mask k) = unat v + unat (mask k :: 'a word)" by (simp only: unat_add_lem)
  then have sum: "unat (v + mask k) = unat v + (2 ^ k - 1)" by (simp only: unat_mask_eq [OF assms(1)])
  have "(v + mask k) AND NOT (mask k) = push_bit k (drop_bit k (v + mask k))"
    by (rule and_not_mask)
  then have "unat ((v + mask k) AND NOT (mask k)) =
      take_bit LENGTH('a) (push_bit k (drop_bit k (unat v + (2 ^ k - 1))))"
    by (simp only: unsigned_push_bit_eq unat_drop_bit_eq sum)
  also have "push_bit k (drop_bit k (unat v + (2 ^ k - 1))) =
      (unat v + (2 ^ k - 1)) div 2 ^ k * 2 ^ k"
    by (simp add: push_bit_nat_def drop_bit_nat_def)
  also have "take_bit LENGTH('a) \<dots> = \<dots>"
    using assms(2) by (intro take_bit_nat_eq_self le_less_trans [OF _ assms(2)]) simp
  finally show ?thesis .
qed

text \<open>For a power of two: the least multiple that is not below \<open>v\<close>.\<close>

lemma round_up_nat:
  fixes v k :: nat
  defines "w \<equiv> (v + (2 ^ k - 1)) div 2 ^ k * 2 ^ k"
  shows "2 ^ k dvd w" "v \<le> w" "w < v + 2 ^ k"
proof -
  let ?s = "v + (2 ^ k - 1)"
  have "?s div 2 ^ k * 2 ^ k + ?s mod 2 ^ k = ?s" by (rule div_mult_mod_eq)
  moreover have "?s mod 2 ^ k < 2 ^ k" by simp
  moreover have "(0 :: nat) < 2 ^ k" by simp
  ultimately show "v \<le> w" "w < v + 2 ^ k" unfolding w_def by linarith+
  show "2 ^ k dvd w" by (simp add: w_def)
qed

lemma rnd64_mask: "k < 64 \<Longrightarrow> rnd64 v (2 ^ k) = (v + mask k) AND NOT (mask k)"
  by (simp add: rnd64_def Let_def mask_eq_exp_minus_1)

lemma rnd32_mask: "k < 32 \<Longrightarrow> rnd32 v (2 ^ k) = (v + mask k) AND NOT (mask k)"
  by (simp add: rnd32_def Let_def mask_eq_exp_minus_1)

section \<open>Only the last fourteen characters count\<close>

lemma hash_step_low: "hash_step k c = take_bit 14 (hash_step k c)"
proof -
  have "(0x3fff :: u32) = mask 14" by (simp add: mask_eq_exp_minus_1)
  then show ?thesis by (simp add: hash_step_def take_bit_eq_mask and.assoc)
qed

lemma hash_step_shift:
  assumes "k = take_bit 14 k"
  shows "hash_step k c = take_bit 14 (push_bit 1 k XOR scast c)"
proof -
  have "drop_bit 14 k = 0"
    by (subst assms) (rule bit_word_eqI, simp add: bit_simps)
  moreover have "(0x3fff :: u32) = mask 14" by (simp add: mask_eq_exp_minus_1)
  ultimately show ?thesis by (simp add: hash_step_def take_bit_eq_mask)
qed

text \<open>Two hashes that agree in their lowest \<open>n\<close> bits agree in \<open>n + 1\<close> after a character.\<close>

lemma hash_step_agree:
  assumes "k = take_bit 14 k" and "k' = take_bit 14 k'" and "take_bit n k = take_bit n k'"
  shows "take_bit (Suc n) (hash_step k c) = take_bit (Suc n) (hash_step k' c)"
proof (rule bit_word_eqI)
  fix i assume "i < LENGTH(32)"
  have "bit k j \<longleftrightarrow> bit k' j" if "j < n" for j
    using assms(3) that by (metis bit_take_bit_iff)
  then have "bit (push_bit 1 k) i \<longleftrightarrow> bit (push_bit 1 k') i" if "i < Suc n"
    using that by (cases i) (simp_all add: bit_push_bit_iff del: push_bit_Suc)
  then show "bit (take_bit (Suc n) (hash_step k c)) i \<longleftrightarrow> bit (take_bit (Suc n) (hash_step k' c)) i"
    unfolding hash_step_shift [OF assms(1)] hash_step_shift [OF assms(2)]
    by (simp only: bit_take_bit_iff bit_xor_iff) blast
qed

lemma foldl_hash_low: "k = take_bit 14 k \<Longrightarrow> foldl hash_step k cs = take_bit 14 (foldl hash_step k cs)"
  by (induction cs arbitrary: k) (simp_all flip: hash_step_low)

lemma foldl_hash_agree:
  assumes "k = take_bit 14 k" and "k' = take_bit 14 k'" and "take_bit n k = take_bit n k'"
  shows "take_bit (n + length cs) (foldl hash_step k cs) = take_bit (n + length cs) (foldl hash_step k' cs)"
  using assms
proof (induction cs arbitrary: k k' n)
  case Nil
  then show ?case by simp
next
  case (Cons c cs)
  have "take_bit (Suc n) (hash_step k c) = take_bit (Suc n) (hash_step k' c)"
    using Cons.prems by (rule hash_step_agree)
  then show ?case
    using Cons.IH [of "hash_step k c" "hash_step k' c" "Suc n"] hash_step_low by simp
qed

lemma hash_forgets:
  assumes "14 \<le> length cs" and "k = take_bit 14 k" and "k' = take_bit 14 k'"
  shows "foldl hash_step k cs = foldl hash_step k' cs"
proof -
  have "take_bit (length cs) (foldl hash_step k cs) = take_bit (length cs) (foldl hash_step k' cs)"
    using foldl_hash_agree [OF assms(2,3), of 0 cs] by simp
  then have "take_bit 14 (take_bit (length cs) (foldl hash_step k cs)) =
      take_bit 14 (take_bit (length cs) (foldl hash_step k' cs))" by (rule arg_cong)
  then have "take_bit 14 (foldl hash_step k cs) = take_bit 14 (foldl hash_step k' cs)"
    using assms(1) by simp
  then show ?thesis
    by (rule trans [OF foldl_hash_low [OF assms(2)] trans [OF _ foldl_hash_low [OF assms(3), symmetric]]])
qed

section \<open>The table is the bit-serial division\<close>

lemma crc_bit_alt: "crc_bit w = push_bit 1 w XOR (if bit w 31 then 0x04c11db7 else 0)"
  by (simp add: crc_bit_def)

lemma crc_bit_xor: "crc_bit (a XOR b) = crc_bit a XOR crc_bit b"
proof -
  have shift: "push_bit 1 (a XOR b) = push_bit 1 a XOR push_bit 1 b"
    by (rule push_bit_xor)
  show ?thesis
    unfolding crc_bit_alt shift bit_xor_iff
    by (cases "bit a 31"; cases "bit b 31") (simp_all add: ac_simps)
qed

lemma crc_bits_xor: "(crc_bit ^^ n) (a XOR b) = (crc_bit ^^ n) a XOR (crc_bit ^^ n) b"
  by (induction n) (simp_all add: crc_bit_xor)

lemma crc_bits_low:
  assumes "n \<le> 8"
  shows "(crc_bit ^^ n) (take_bit 24 w) = push_bit n (take_bit 24 w)"
  using assms
proof (induction n)
  case 0
  then show ?case by simp
next
  case (Suc n)
  have "\<not> bit (push_bit n (take_bit 24 w)) 31"
    using Suc.prems by (auto simp: bit_push_bit_iff bit_take_bit_iff)
  then show ?case
    using Suc by (simp add: crc_bit_alt) (simp add: push_bit_eq_mult)
qed

text \<open>
  Both sides of the table are linear: a table of \<open>2 ^ n\<close> entries comes from the \<open>n\<close>
  entries at the powers of two, given from the highest down.
\<close>

fun xor_table :: "u32 list \<Rightarrow> u32 list" where
  "xor_table [] = [0]"
| "xor_table (b # bs) = (let t = xor_table bs in t @ map (\<lambda>x. x XOR b) t)"

lemma xor_table_linear:
  assumes "f 0 = 0" and "\<And>a b. f (a XOR b) = f a XOR f b"
  shows "map f (xor_table bs) = xor_table (map f bs)"
proof (induction bs)
  case Nil
  then show ?case using assms(1) by simp
next
  case (Cons b bs)
  have "map f (map (\<lambda>x. x XOR b) xs) = map (\<lambda>x. x XOR f b) (map f xs)" for xs
    using assms(2) by simp
  then show ?case using Cons by (simp add: Let_def del: map_map)
qed

lemma of_nat_add_power:
  assumes "i < 2 ^ n"
  shows "(of_nat (i + 2 ^ n) :: u32) = of_nat i XOR 2 ^ n"
proof -
  have "take_bit n (of_nat i :: u32) = of_nat i"
    using assms by (simp add: take_bit_of_nat take_bit_nat_eq_self)
  then have "\<not> bit (of_nat i :: u32) n" by (metis bit_take_bit_iff less_irrefl)
  then have "(of_nat i :: u32) AND 2 ^ n = 0"
    by (intro bit_word_eqI) (auto simp: bit_simps)
  then show ?thesis by (simp add: disjunctive_add_eq_xor)
qed

lemma xor_table_powers:
  "xor_table (map (\<lambda>k. 2 ^ k) (rev [0..<n])) = map of_nat [0..<2 ^ n]"
proof (induction n)
  case 0
  then show ?case by simp
next
  case (Suc n)
  have "[0..<2 ^ Suc n] = [0..<2 ^ n] @ map (\<lambda>i. i + 2 ^ n) [0..<2 ^ n]"
    by (simp add: map_add_upt mult_2 flip: upt_add_eq_append [of 0])
  moreover have "map (\<lambda>i. of_nat (i + 2 ^ n)) [0..<2 ^ n] =
      map (\<lambda>x. x XOR (2 ^ n :: u32)) (map of_nat [0..<2 ^ n])"
    by (auto simp: of_nat_add_power simp del: of_nat_add)
  ultimately show ?case using Suc by (simp add: Let_def comp_def)
qed

lemma index_table: "map of_nat [0..<256] = xor_table [128, 64, 32, 16, 8, 4, 2, 1]"
proof -
  have "rev [0..<8] = [7, 6, 5, 4, 3, 2, 1, 0 :: nat]" by code_simp
  with xor_table_powers [of 8, symmetric] show ?thesis by (simp del: xor_table.simps)
qed

lemma crctab_table:
  "crctab = xor_table (map (\<lambda>b. (crc_bit ^^ 8) (push_bit 24 b)) [128, 64, 32, 16, 8, 4, 2, 1])"
proof -
  have "map (\<lambda>b. (crc_bit ^^ 8) (push_bit 24 b)) [128, 64, 32, 16, 8, 4, 2, 1] =
      [crctab ! 128, crctab ! 64, crctab ! 32, crctab ! 16, crctab ! 8, crctab ! 4, crctab ! 2, crctab ! 1]"
    by code_simp
  then show ?thesis by (simp add: crctab_def Let_def)
qed

lemma crctab_nth: "unat x < 256 \<Longrightarrow> crctab ! unat x = (crc_bit ^^ 8) (push_bit 24 x)" for x :: u32
proof -
  assume x: "unat x < 256"
  let ?f = "\<lambda>b. (crc_bit ^^ 8) (push_bit 24 b)"
  have "?f 0 = 0" by code_simp
  moreover have "?f (a XOR b) = ?f a XOR ?f b" for a b
    by (simp only: push_bit_xor crc_bits_xor)
  ultimately have "crctab = map ?f (map of_nat [0..<256])"
    unfolding crctab_table index_table by (rule xor_table_linear [symmetric])
  then have "crctab ! unat x = map ?f (map of_nat [0..<256]) ! unat x" by simp
  also have "\<dots> = ?f x" using x by simp
  finally show ?thesis .
qed

lemma split_top: "w = push_bit 24 (drop_bit 24 w) XOR take_bit 24 w" for w :: u32
  by (rule bit_word_eqI) (auto simp: bit_simps)

text \<open>One round of the table-driven loop is eight bit-serial steps.\<close>

lemma COMPUTE_crc_byte: "COMPUTE crc ch = crc_byte crc ch"
proof -
  let ?x = "crc XOR push_bit 24 (ucast ch)"
  have top: "drop_bit 24 ?x = drop_bit 24 crc XOR ucast ch"
    by (rule bit_word_eqI) (auto simp: bit_simps dest: bit_imp_le_length)
  have low: "push_bit 8 (take_bit 24 ?x) = push_bit 8 crc"
    by (rule bit_word_eqI) (auto simp: bit_simps)
  have "unat (drop_bit 24 ?x) < 256"
    using unsigned_less [of ?x, where 'a = nat]
    by (simp only: unat_drop_bit_eq drop_bit_nat_def) (simp add: less_mult_imp_div_less)
  then have idx: "crctab ! unat (drop_bit 24 ?x) = (crc_bit ^^ 8) (push_bit 24 (drop_bit 24 ?x))"
    by (rule crctab_nth)
  have "crc_byte crc ch = (crc_bit ^^ 8) (push_bit 24 (drop_bit 24 ?x) XOR take_bit 24 ?x)"
    unfolding crc_byte_def by (subst split_top) simp
  also have "\<dots> = crctab ! unat (drop_bit 24 ?x) XOR push_bit 8 crc"
    unfolding crc_bits_xor idx using crc_bits_low [of 8 ?x] low by simp
  finally show ?thesis unfolding COMPUTE_def top by (simp add: xor.commute)
qed

lemma crc32_posix_cksum:
  assumes "unat len < 2 ^ 31" and "unat len \<le> length buf"
  shows "crc32 buf len = Some (posix_cksum (take (unat len) buf))"
proof -
  have "of_nat (length (take (unat len) buf)) = len"
    using assms(2) by (simp add: min_def)
  moreover have "COMPUTE = crc_byte"
    by (intro ext) (rule COMPUTE_crc_byte)
  ultimately show ?thesis using assms by (simp add: crc32_def posix_cksum_def)
qed

section \<open>Properties\<close>

text \<open>
  \<open>rnd64\<close> and \<open>rnd32\<close> with a power of two give the least multiple of it that is not below
  the value, unless the sum wraps around.
\<close>

theorem rnd_least_multiple:
  fixes v :: u64 and w :: u32
  assumes "k < 32" and "unat v + (2 ^ k - 1) < 2 ^ 64" and "unat w + (2 ^ k - 1) < 2 ^ 32"
  shows "2 ^ k dvd unat (rnd64 v (2 ^ k)) \<and> unat v \<le> unat (rnd64 v (2 ^ k)) \<and>
           unat (rnd64 v (2 ^ k)) < unat v + 2 ^ k \<and>
         2 ^ k dvd unat (rnd32 w (2 ^ k)) \<and> unat w \<le> unat (rnd32 w (2 ^ k)) \<and>
           unat (rnd32 w (2 ^ k)) < unat w + 2 ^ k"
proof -
  have "unat (rnd64 v (2 ^ k)) = (unat v + (2 ^ k - 1)) div 2 ^ k * 2 ^ k"
    using assms by (simp add: rnd64_mask unat_round)
  moreover have "unat (rnd32 w (2 ^ k)) = (unat w + (2 ^ k - 1)) div 2 ^ k * 2 ^ k"
    using assms by (simp add: rnd32_mask unat_round)
  ultimately show ?thesis
    using round_up_nat [where v = "unat v" and k = k] round_up_nat [where v = "unat w" and k = k]
    by (simp only: simp_thms)
qed

theorem rnd_least_multiple_witness: "unat (rnd64 13 8) < 13 + 8 \<and> 8 dvd unat (rnd32 13 8)"
  using rnd_least_multiple [of 3 13 13] by simp

text \<open>
  C33.  \<open>crc32\<close>, which goes byte by byte through a table, computes the checksum of the POSIX
  \<open>cksum\<close> utility, defined bit by bit.
\<close>

theorem crc32_is_cksum:
  assumes "unat len < 2 ^ 31" and "unat len \<le> length buf"
  shows "crc32 buf len = Some (posix_cksum (take (unat len) buf))"
  by (rule crc32_posix_cksum [OF assms])

theorem crc32_is_cksum_witness: "crc32 [0x61, 0x62, 0x63] 3 = Some (posix_cksum [0x61, 0x62, 0x63])"
  using crc32_is_cksum [of 3 "[0x61, 0x62, 0x63]"] by simp

text \<open>
  \<open>hash_string\<close> is below \<open>2 ^ 14\<close>, and only the last fourteen characters of a key count.
\<close>

theorem hash_of_suffix:
  assumes "14 \<le> length s" and "0 \<notin> set p" and "0 \<notin> set s"
  shows "hash_string (p @ s) = hash_string s \<and> unat (hash_string s) < 2 ^ 14"
proof -
  have all: "takeWhile (\<lambda>c. c \<noteq> 0) (p @ s) = p @ s" "takeWhile (\<lambda>c. c \<noteq> 0) s = s"
    using assms(2,3) by (auto simp: takeWhile_eq_all_conv intro: takeWhile_eq_all_conv [THEN iffD2])
  have low: "foldl hash_step 0 xs = take_bit 14 (foldl hash_step 0 xs)" for xs
    by (rule foldl_hash_low) simp
  have "foldl hash_step (foldl hash_step 0 p) s = foldl hash_step 0 s"
    by (rule hash_forgets [OF assms(1) low]) simp
  moreover have "unat (take_bit 14 w) < 2 ^ 14" for w :: u32
    using take_bit_nat_less_exp [of 14 "unat w"] by (simp only: unsigned_take_bit_eq)
  ultimately show ?thesis unfolding hash_string_def all using low [of s] by (metis foldl_append)
qed

theorem hash_of_suffix_witness:
  "hash_string (0x5f # replicate 14 0x61) = hash_string (replicate 14 0x61)"
  using hash_of_suffix [of "replicate 14 0x61" "[0x5f]"] by simp

end
