(* ===== verification/Toc_Byte_Sex.thy ===== *)
theory Toc_Byte_Sex
  imports Byte_Swap C_Strings Checksums Macho_Constants
begin

text \<open>
  \<open>get_toc_byte_sex\<close> of \<open>libstuff/get_toc_byte_sex.c\<close>: the byte order of the first object
  file of a mapped archive.  The archive is a byte buffer \<open>m\<close>, pointers into it are
  offsets that do not wrap around; a read behind the buffer is \<open>None\<close>.  A C string in
  the buffer ends at a null byte or at the end of the buffer.
\<close>

text \<open>Offsets of the fields of \<open>struct ar_hdr\<close>, which has 60 bytes, and the archive magic.\<close>

abbreviation SARMAG :: nat where "SARMAG \<equiv> 8"
abbreviation sizeof_ar_hdr :: nat where "sizeof_ar_hdr \<equiv> 60"
abbreviation ar_size_offset :: nat where "ar_size_offset \<equiv> 48"

definition cstring :: "bytes \<Rightarrow> nat \<Rightarrow> string" where
  "cstring m p = map (\<lambda>b. char_of (unat b)) (takeWhile (\<lambda>b. b \<noteq> 0) (drop p m))"

text \<open>\<open>strncmp(ar_name, AR_EFMT1, 3) == 0\<close>, then the number behind \<open>#1/\<close>.\<close>

definition ar_name_size :: "bytes \<Rightarrow> nat \<Rightarrow> u32" where
  "ar_name_size m p =
     (if subbytes p 3 m = [0x23, 0x31, 0x2f] then ucast (fst (strtoul (cstring m (p + 3)))) else 0)"

definition ar_size :: "bytes \<Rightarrow> nat \<Rightarrow> u64" where
  "ar_size m p = fst (strtoul (cstring m (p + ar_size_offset)))"

fun other_byte_sex :: "byte_sex \<Rightarrow> byte_sex" where
  "other_byte_sex sex =
     (if sex = BIG_ENDIAN_BYTE_SEX then LITTLE_ENDIAN_BYTE_SEX else BIG_ENDIAN_BYTE_SEX)"

text \<open>The two tests of the magic number.\<close>

definition magic_byte_sex :: "endian \<Rightarrow> u32 \<Rightarrow> byte_sex option" where
  "magic_byte_sex e magic =
     (if magic = MH_MAGIC \<or> magic = MH_MAGIC_64 then Some (get_host_byte_sex e)
      else if magic = SWAP_INT MH_MAGIC \<or> magic = SWAP_INT MH_MAGIC_64 then
        Some (other_byte_sex (get_host_byte_sex e))
      else None)"

function toc_members :: "endian \<Rightarrow> bytes \<Rightarrow> u64 \<Rightarrow> nat \<Rightarrow> byte_sex option" where
  "toc_members e m sz p =
     (if p + sizeof_ar_hdr + 4 < unat sz then
        (let q = p + sizeof_ar_hdr; name = unat (ar_name_size m p)
         in if length m < q + name + 4 then None
            else
              (case magic_byte_sex e (get32 e m (q + name)) of
                 Some sex \<Rightarrow> Some sex
               | None \<Rightarrow>
                   if ar_size m p > sz then Some UNKNOWN_BYTE_SEX
                   else toc_members e m sz (q + unat (rnd (ar_size m p) 2))))
      else Some UNKNOWN_BYTE_SEX)"
  by pat_completeness auto
termination
  by (relation "measure (\<lambda>(e, m, sz, p). unat sz - p)") auto

declare toc_members.simps [simp del]

definition get_toc_byte_sex :: "endian \<Rightarrow> bytes \<Rightarrow> u64 \<Rightarrow> byte_sex option" where
  "get_toc_byte_sex e m sz =
     (if length m < SARMAG + sizeof_ar_hdr then None
      else toc_members e m sz (SARMAG + sizeof_ar_hdr + unat (rnd (ar_size m SARMAG) 2)))"

section \<open>The answer does not depend on the host\<close>

lemma magic_not_both:
  "SWAP_INT MH_MAGIC \<notin> {MH_MAGIC, MH_MAGIC_64}" "SWAP_INT MH_MAGIC_64 \<notin> {MH_MAGIC, MH_MAGIC_64}"
  by (simp_all add: SWAP_INT_def)

lemma magic_byte_sex_flip: "magic_byte_sex (flip e) (SWAP_INT w) = magic_byte_sex e w"
proof -
  have "SWAP_INT w = MH_MAGIC \<longleftrightarrow> w = SWAP_INT MH_MAGIC"
      "SWAP_INT w = MH_MAGIC_64 \<longleftrightarrow> w = SWAP_INT MH_MAGIC_64"
      "SWAP_INT w = SWAP_INT MH_MAGIC \<longleftrightarrow> w = MH_MAGIC"
      "SWAP_INT w = SWAP_INT MH_MAGIC_64 \<longleftrightarrow> w = MH_MAGIC_64"
    by (metis SWAP_INT_INT)+
  then show ?thesis
    using magic_not_both by (cases e) (auto simp: magic_byte_sex_def)
qed

lemma toc_members_host: "toc_members (flip e) m sz p = toc_members e m sz p"
proof (induction e m sz p rule: toc_members.induct)
  case (1 e m sz p)
  let ?q = "p + sizeof_ar_hdr"
  show ?case
  proof (cases "?q + 4 < unat sz \<and> ?q + unat (ar_name_size m p) + 4 \<le> length m")
    case False
    then show ?thesis by (subst (1 2) toc_members.simps) (auto simp: Let_def)
  next
    case True
    then have "magic_byte_sex (flip e) (get32 (flip e) m (?q + unat (ar_name_size m p))) =
        magic_byte_sex e (get32 e m (?q + unat (ar_name_size m p)))"
      by (simp add: get_flip magic_byte_sex_flip)
    then show ?thesis
      using True 1 [OF _ refl refl] by (subst (1 2) toc_members.simps) (simp add: Let_def split: option.split)
  qed
qed

lemma get_toc_byte_sex_host: "get_toc_byte_sex (flip e) m sz = get_toc_byte_sex e m sz"
  by (simp add: get_toc_byte_sex_def toc_members_host)

section \<open>Properties\<close>

text \<open>
  \<open>get_toc_byte_sex\<close> gives the same answer on hosts of either byte order.
\<close>

theorem toc_byte_sex_host_independent: "get_toc_byte_sex (flip e) m sz = get_toc_byte_sex e m sz"
  by (rule get_toc_byte_sex_host)

text \<open>
  C32.  The length of a member's extended name is not compared with the size of the
  archive: an archive of 140 bytes whose second member claims a name of 1000 bytes makes
  the routine read behind its end.
\<close>

definition long_name_archive :: bytes where
  "long_name_archive = replicate 68 0x20 @ [0x23, 0x31, 0x2f, 0x31, 0x30, 0x30, 0x30] @ replicate 65 0x20"

theorem toc_over_read: "get_toc_byte_sex e long_name_archive 140 = None"
proof -
  have blanks: "dropWhile isspace (replicate n (CHR '' '') @ s) = dropWhile isspace s" for n s
    by (induction n) (simp_all add: isspace_def)
  have digits: "takeWhile isdigit (''1000'' @ replicate n (CHR '' '')) = ''1000''" for n
    by (cases n) (simp_all add: isdigit_def)
  have "cstring long_name_archive 56 = replicate 12 (CHR '' '') @ ''#1/1000'' @ replicate 65 (CHR '' '')"
      "cstring long_name_archive 71 = ''1000'' @ replicate 65 (CHR '' '')"
    unfolding long_name_archive_def cstring_def by code_simp+
  moreover have "fst (strtoul (replicate 12 (CHR '' '') @ ''#1/1000'' @ s)) = 0" for s
    unfolding strtoul_def blanks by (simp add: isspace_def isdigit_def)
  moreover have "fst (strtoul (''1000'' @ replicate 65 (CHR '' ''))) = 1000"
    unfolding strtoul_def
    by (simp add: isspace_def digits [simplified] digits_value_def digit_value_def ULONG_MAX_def)
  moreover have "subbytes 68 3 long_name_archive = [0x23, 0x31, 0x2f]" "length long_name_archive = 140"
    unfolding long_name_archive_def subbytes_def by code_simp+
  ultimately have "ar_size long_name_archive 8 = 0" "ar_name_size long_name_archive 68 = 1000"
      "length long_name_archive = 140"
    by (simp_all add: ar_size_def ar_name_size_def)
  then show ?thesis
    by (simp add: get_toc_byte_sex_def toc_members.simps [of _ _ _ 68] rnd_def rnd64_def Let_def)
qed

end
