(* ===== verification/Arch.thy ===== *)
theory Arch
  imports Byte_Swap C_Strings Macho_Constants
begin

text \<open>
  The architecture tables of \<open>libstuff/arch.c\<close> and the routines that look things up in
  them.  The tables are lists without their terminating entry; \<open>None\<close> is a null
  pointer, or \<open>abort\<close> where that is said.
\<close>

unbundle bit_operations_syntax

datatype arch_flag = arch_flag (af_name: string) (af_cputype: u32) (af_cpusubtype: u32)

definition arch_flags :: "arch_flag list" where
  "arch_flags =
     [arch_flag ''any'' CPU_TYPE_ANY CPU_SUBTYPE_MULTIPLE,
      arch_flag ''little'' CPU_TYPE_ANY CPU_SUBTYPE_LITTLE_ENDIAN,
      arch_flag ''big'' CPU_TYPE_ANY CPU_SUBTYPE_BIG_ENDIAN,
      arch_flag ''ppc64'' CPU_TYPE_POWERPC64 CPU_SUBTYPE_POWERPC_ALL,
      arch_flag ''x86_64'' CPU_TYPE_X86_64 CPU_SUBTYPE_X86_64_ALL,
      arch_flag ''x86_64h'' CPU_TYPE_X86_64 CPU_SUBTYPE_X86_64_H,
      arch_flag ''arm64'' CPU_TYPE_ARM64 CPU_SUBTYPE_ARM64_ALL,
      arch_flag ''ppc970-64'' CPU_TYPE_POWERPC64 CPU_SUBTYPE_POWERPC_970,
      arch_flag ''arm64_32'' CPU_TYPE_ARM64_32 CPU_SUBTYPE_ARM64_32_V8,
      arch_flag ''arm64e'' CPU_TYPE_ARM64 CPU_SUBTYPE_ARM64E,
      arch_flag ''ppc'' CPU_TYPE_POWERPC CPU_SUBTYPE_POWERPC_ALL,
      arch_flag ''i386'' CPU_TYPE_I386 CPU_SUBTYPE_I386_ALL,
      arch_flag ''m68k'' CPU_TYPE_MC680x0 CPU_SUBTYPE_MC680x0_ALL,
      arch_flag ''hppa'' CPU_TYPE_HPPA CPU_SUBTYPE_HPPA_ALL,
      arch_flag ''sparc'' CPU_TYPE_SPARC CPU_SUBTYPE_SPARC_ALL,
      arch_flag ''m88k'' CPU_TYPE_MC88000 CPU_SUBTYPE_MC88000_ALL,
      arch_flag ''i860'' CPU_TYPE_I860 CPU_SUBTYPE_I860_ALL,
      arch_flag ''veo'' CPU_TYPE_VEO CPU_SUBTYPE_VEO_ALL,
      arch_flag ''arm'' CPU_TYPE_ARM CPU_SUBTYPE_ARM_ALL,
      arch_flag ''ppc601'' CPU_TYPE_POWERPC CPU_SUBTYPE_POWERPC_601,
      arch_flag ''ppc603'' CPU_TYPE_POWERPC CPU_SUBTYPE_POWERPC_603,
      arch_flag ''ppc603e'' CPU_TYPE_POWERPC CPU_SUBTYPE_POWERPC_603e,
      arch_flag ''ppc603ev'' CPU_TYPE_POWERPC CPU_SUBTYPE_POWERPC_603ev,
      arch_flag ''ppc604'' CPU_TYPE_POWERPC CPU_SUBTYPE_POWERPC_604,
      arch_flag ''ppc604e'' CPU_TYPE_POWERPC CPU_SUBTYPE_POWERPC_604e,
      arch_flag ''ppc750'' CPU_TYPE_POWERPC CPU_SUBTYPE_POWERPC_750,
      arch_flag ''ppc7400'' CPU_TYPE_POWERPC CPU_SUBTYPE_POWERPC_7400,
      arch_flag ''ppc7450'' CPU_TYPE_POWERPC CPU_SUBTYPE_POWERPC_7450,
      arch_flag ''ppc970'' CPU_TYPE_POWERPC CPU_SUBTYPE_POWERPC_970,
      arch_flag ''i486'' CPU_TYPE_I386 CPU_SUBTYPE_486,
      arch_flag ''i486SX'' CPU_TYPE_I386 CPU_SUBTYPE_486SX,
      arch_flag ''pentium'' CPU_TYPE_I386 CPU_SUBTYPE_PENT,
      arch_flag ''i586'' CPU_TYPE_I386 CPU_SUBTYPE_586,
      arch_flag ''pentpro'' CPU_TYPE_I386 CPU_SUBTYPE_PENTPRO,
      arch_flag ''i686'' CPU_TYPE_I386 CPU_SUBTYPE_PENTPRO,
      arch_flag ''pentIIm3'' CPU_TYPE_I386 CPU_SUBTYPE_PENTII_M3,
      arch_flag ''pentIIm5'' CPU_TYPE_I386 CPU_SUBTYPE_PENTII_M5,
      arch_flag ''pentium4'' CPU_TYPE_I386 CPU_SUBTYPE_PENTIUM_4,
      arch_flag ''m68030'' CPU_TYPE_MC680x0 CPU_SUBTYPE_MC68030_ONLY,
      arch_flag ''m68040'' CPU_TYPE_MC680x0 CPU_SUBTYPE_MC68040,
      arch_flag ''hppa7100LC'' CPU_TYPE_HPPA CPU_SUBTYPE_HPPA_7100LC,
      arch_flag ''veo1'' CPU_TYPE_VEO CPU_SUBTYPE_VEO_1,
      arch_flag ''veo2'' CPU_TYPE_VEO CPU_SUBTYPE_VEO_2,
      arch_flag ''veo3'' CPU_TYPE_VEO CPU_SUBTYPE_VEO_3,
      arch_flag ''veo4'' CPU_TYPE_VEO CPU_SUBTYPE_VEO_4,
      arch_flag ''armv4t'' CPU_TYPE_ARM CPU_SUBTYPE_ARM_V4T,
      arch_flag ''armv5'' CPU_TYPE_ARM CPU_SUBTYPE_ARM_V5TEJ,
      arch_flag ''xscale'' CPU_TYPE_ARM CPU_SUBTYPE_ARM_XSCALE,
      arch_flag ''armv6'' CPU_TYPE_ARM CPU_SUBTYPE_ARM_V6,
      arch_flag ''armv6m'' CPU_TYPE_ARM CPU_SUBTYPE_ARM_V6M,
      arch_flag ''armv7'' CPU_TYPE_ARM CPU_SUBTYPE_ARM_V7,
      arch_flag ''armv7f'' CPU_TYPE_ARM CPU_SUBTYPE_ARM_V7F,
      arch_flag ''armv7s'' CPU_TYPE_ARM CPU_SUBTYPE_ARM_V7S,
      arch_flag ''armv7k'' CPU_TYPE_ARM CPU_SUBTYPE_ARM_V7K,
      arch_flag ''armv7m'' CPU_TYPE_ARM CPU_SUBTYPE_ARM_V7M,
      arch_flag ''armv7em'' CPU_TYPE_ARM CPU_SUBTYPE_ARM_V7EM,
      arch_flag ''arm64v8'' CPU_TYPE_ARM64 CPU_SUBTYPE_ARM64_V8]"

datatype cpu_entry =
  cpu_entry (ce_cputype: u32) (ce_endian: byte_sex) (ce_staddr: u64) (ce_segalign: u32)

definition cpu_entries :: "cpu_entry list" where
  "cpu_entries =
     [cpu_entry CPU_TYPE_ARM64 LITTLE_ENDIAN_BYTE_SEX 0 0x4000,
      cpu_entry CPU_TYPE_ARM64_32 LITTLE_ENDIAN_BYTE_SEX 0 0x4000,
      cpu_entry CPU_TYPE_ARM LITTLE_ENDIAN_BYTE_SEX 0 0x4000,
      cpu_entry CPU_TYPE_X86_64 LITTLE_ENDIAN_BYTE_SEX 0x7fff5fc00000 0x1000,
      cpu_entry CPU_TYPE_I386 LITTLE_ENDIAN_BYTE_SEX 0xc0000000 0x1000,
      cpu_entry CPU_TYPE_POWERPC BIG_ENDIAN_BYTE_SEX 0xc0000000 0x1000,
      cpu_entry CPU_TYPE_POWERPC64 BIG_ENDIAN_BYTE_SEX 0x7ffff00000000 0x1000,
      cpu_entry CPU_TYPE_VEO BIG_ENDIAN_BYTE_SEX 0xc0000000 0x1000,
      cpu_entry CPU_TYPE_MC680x0 BIG_ENDIAN_BYTE_SEX 0x04000000 0x2000,
      cpu_entry CPU_TYPE_MC88000 BIG_ENDIAN_BYTE_SEX 0xffffe000 0x2000,
      cpu_entry CPU_TYPE_SPARC BIG_ENDIAN_BYTE_SEX 0xf0000000 0x2000,
      cpu_entry CPU_TYPE_I860 BIG_ENDIAN_BYTE_SEX 0 0x2000,
      cpu_entry CPU_TYPE_HPPA BIG_ENDIAN_BYTE_SEX 0 0x2000]"

text \<open>The cpusubtype without its feature flags: \<open>x & ~CPU_SUBTYPE_MASK\<close>.\<close>

definition plain :: "u32 \<Rightarrow> u32" where
  "plain cpusubtype = cpusubtype AND NOT CPU_SUBTYPE_MASK"

definition get_arch_from_flag :: "string \<Rightarrow> arch_flag option" where
  "get_arch_from_flag name = find (\<lambda>f. af_name f = name) arch_flags"

definition get_arch_flags :: "arch_flag list" where
  "get_arch_flags = arch_flags"

definition get_arch_name_if_known :: "u32 \<Rightarrow> u32 \<Rightarrow> string option" where
  "get_arch_name_if_known cputype cpusubtype =
     map_option af_name
       (find (\<lambda>f. af_cputype f = cputype \<and> plain (af_cpusubtype f) = plain cpusubtype) arch_flags)"

definition get_arch_name_from_types :: "u32 \<Rightarrow> u32 \<Rightarrow> string" where
  "get_arch_name_from_types cputype cpusubtype =
     (case get_arch_name_if_known cputype cpusubtype of
        Some s \<Rightarrow> s
      | None \<Rightarrow> ''cputype '' @ decimal (unat cputype) @ '' cpusubtype '' @
                 decimal (unat (plain cpusubtype)))"

text \<open>What \<open>savestr\<close> allocates for the string of an unknown architecture.\<close>

definition unknown_arch_buffer :: string where
  "unknown_arch_buffer = ''cputype 1234567890 cpusubtype 1234567890''"

definition get_arch_family_from_cputype :: "u32 \<Rightarrow> arch_flag option" where
  "get_arch_family_from_cputype cputype =
     (if cputype = CPU_TYPE_ARM64 then None else find (\<lambda>f. af_cputype f = cputype) arch_flags)"

text \<open>\<open>None\<close> is the call of \<open>abort_with_unknown_cputype\<close>.\<close>

definition get_cpu_entry_from_cputype :: "u32 \<Rightarrow> cpu_entry option" where
  "get_cpu_entry_from_cputype cputype = find (\<lambda>c. ce_cputype c = cputype) cpu_entries"

definition get_byte_sex_from_flag :: "arch_flag \<Rightarrow> byte_sex option" where
  "get_byte_sex_from_flag flag = map_option ce_endian (get_cpu_entry_from_cputype (af_cputype flag))"

definition get_stack_addr_from_flag :: "arch_flag \<Rightarrow> u64 option" where
  "get_stack_addr_from_flag flag = map_option ce_staddr (get_cpu_entry_from_cputype (af_cputype flag))"

definition get_segalign_from_flag :: "arch_flag \<Rightarrow> u32 option" where
  "get_segalign_from_flag flag = map_option ce_segalign (get_cpu_entry_from_cputype (af_cputype flag))"

definition get_shared_region_size_from_flag :: "arch_flag \<Rightarrow> u32" where
  "get_shared_region_size_from_flag flag =
     (if af_cputype flag = CPU_TYPE_ARM then 0x08000000 else 0x10000000)"

definition force_cpusubtype_ALL_for_cputype :: "u32 \<Rightarrow> bool" where
  "force_cpusubtype_ALL_for_cputype cputype \<longleftrightarrow> cputype = CPU_TYPE_I386"

section \<open>The tables are consistent\<close>

lemma distinct_arch_names: "distinct (map af_name arch_flags)"
  by code_simp

lemma find_unique:
  assumes "distinct (map f xs)" and "x \<in> set xs"
  shows "find (\<lambda>y. f y = f x) xs = Some x"
  using assms
proof (induction xs)
  case Nil
  then show ?case by simp
next
  case (Cons y ys)
  then show ?case by (auto simp: rev_image_eqI)
qed

lemma get_arch_from_flag_name:
  "flag \<in> set arch_flags \<Longrightarrow> get_arch_from_flag (af_name flag) = Some flag"
  unfolding get_arch_from_flag_def by (rule find_unique [OF distinct_arch_names])

lemma find_SomeD: "find P xs = Some x \<Longrightarrow> x \<in> set xs \<and> P x"
  by (auto simp: find_Some_iff)

lemma known_name_round_trip:
  assumes "get_arch_name_if_known cputype cpusubtype = Some name"
  shows "\<exists>flag. get_arch_from_flag name = Some flag \<and> af_cputype flag = cputype \<and>
           plain (af_cpusubtype flag) = plain cpusubtype"
proof -
  obtain f where f: "f \<in> set arch_flags" "af_cputype f = cputype"
      "plain (af_cpusubtype f) = plain cpusubtype" "name = af_name f"
    using assms by (auto simp: get_arch_name_if_known_def dest!: find_SomeD)
  then show ?thesis using get_arch_from_flag_name by blast
qed

lemma entries_for_flags:
  "list_all (\<lambda>f. af_cputype f = CPU_TYPE_ANY \<or> get_cpu_entry_from_cputype (af_cputype f) \<noteq> None) arch_flags"
  by code_simp

lemma no_entry_for_any: "get_cpu_entry_from_cputype CPU_TYPE_ANY = None"
  by code_simp

section \<open>The buffer for an unknown architecture is large enough\<close>

lemma length_decimal: "n < 10 ^ Suc k \<Longrightarrow> length (decimal n) \<le> Suc k"
proof (induction k arbitrary: n)
  case 0
  then show ?case by (subst decimal.simps) simp
next
  case (Suc k)
  then have "n div 10 < 10 ^ Suc k" by (simp add: less_mult_imp_div_less)
  then show ?case using Suc.IH [of "n div 10"] by (subst decimal.simps) simp
qed

lemma length_decimal_word: "length (decimal (unat w)) \<le> 10" for w :: u32
proof -
  have "unat w < 2 ^ 32" using unsigned_less [of w, where 'a = nat] by simp
  then show ?thesis using length_decimal [of "unat w" 9] by simp
qed

lemma unknown_arch_fits:
  assumes "get_arch_name_if_known cputype cpusubtype = None"
  shows "length (get_arch_name_from_types cputype cpusubtype) \<le> length unknown_arch_buffer"
  using assms length_decimal_word [of cputype] length_decimal_word [of "plain cpusubtype"]
  by (simp add: get_arch_name_from_types_def unknown_arch_buffer_def)

section \<open>Properties\<close>

text \<open>
  \<open>get_arch_from_flag\<close> finds every entry of the table by its name, so the name that
  \<open>get_arch_name_if_known\<close> gives for a pair of types leads back to these types, feature
  flags aside.
\<close>

theorem arch_name_round_trip:
  "(\<forall>flag \<in> set arch_flags. get_arch_from_flag (af_name flag) = Some flag) \<and>
   (get_arch_name_if_known cputype cpusubtype = Some name \<longrightarrow>
      (\<exists>flag. get_arch_from_flag name = Some flag \<and> af_cputype flag = cputype \<and>
         plain (af_cpusubtype flag) = plain cpusubtype))"
  using get_arch_from_flag_name known_name_round_trip by blast

theorem arch_name_round_trip_witness:
  "\<exists>flag. get_arch_from_flag ''x86_64'' = Some flag \<and> af_cputype flag = CPU_TYPE_X86_64 \<and>
     plain (af_cpusubtype flag) = 3"
proof -
  have "get_arch_name_if_known CPU_TYPE_X86_64 3 = Some ''x86_64''" "plain 3 = 3" by code_simp+
  then show ?thesis using arch_name_round_trip [of CPU_TYPE_X86_64 3 "''x86_64''"] by metis
qed

text \<open>
  The name of an unknown architecture that \<open>get_arch_name_from_types\<close> prints fits the
  string it allocates for it.
\<close>

theorem unknown_arch_name_fits:
  assumes "get_arch_name_if_known cputype cpusubtype = None"
  shows "length (get_arch_name_from_types cputype cpusubtype) \<le> length unknown_arch_buffer"
  by (rule unknown_arch_fits [OF assms])

theorem unknown_arch_name_fits_witness:
  "length (get_arch_name_from_types 0xffffff00 0x00ffffff) \<le> 40"
proof -
  have "get_arch_name_if_known 0xffffff00 0x00ffffff = None" "length unknown_arch_buffer = 40"
    by code_simp+
  then show ?thesis using unknown_arch_name_fits by metis
qed

text \<open>
  \<open>get_byte_sex_from_flag\<close>, \<open>get_stack_addr_from_flag\<close> and \<open>get_segalign_from_flag\<close> have a
  result for every entry of the table of architectures but \<open>any\<close>, on which they abort; the
  segment alignment is a power of two from 4 to 16 kilobytes.
\<close>

theorem flag_has_entry:
  assumes "flag \<in> set arch_flags"
  shows "(get_byte_sex_from_flag flag = None \<longleftrightarrow> af_cputype flag = CPU_TYPE_ANY) \<and>
         (get_stack_addr_from_flag flag = None \<longleftrightarrow> af_cputype flag = CPU_TYPE_ANY) \<and>
         (af_cputype flag \<noteq> CPU_TYPE_ANY \<longrightarrow>
            get_segalign_from_flag flag \<in> {Some 0x1000, Some 0x2000, Some 0x4000})"
proof -
  have "list_all (\<lambda>f. af_cputype f \<noteq> CPU_TYPE_ANY \<longrightarrow>
      get_segalign_from_flag f \<in> {Some 0x1000, Some 0x2000, Some 0x4000}) arch_flags"
    by code_simp
  then show ?thesis
    using assms entries_for_flags no_entry_for_any
    by (auto simp: list_all_iff get_byte_sex_from_flag_def get_stack_addr_from_flag_def)
qed

theorem flag_has_entry_witness:
  "get_byte_sex_from_flag (arch_flag ''arm64'' CPU_TYPE_ARM64 CPU_SUBTYPE_ARM64_ALL) \<noteq> None"
proof -
  have "arch_flag ''arm64'' CPU_TYPE_ARM64 CPU_SUBTYPE_ARM64_ALL \<in> set arch_flags" by code_simp
  from flag_has_entry [OF this] show ?thesis by simp
qed

end
