(* ===== verification/Best_Arch.thy ===== *)
theory Best_Arch
  imports Arch Macho_Headers
begin

text \<open>
  \<open>libstuff/best_arch.c\<close>: which slice of a fat file to use for an architecture
  (\<open>cpusubtype_findbestarch\<close>), what two cpusubtypes combine to (\<open>cpusubtype_combine\<close>) and
  whether a cpusubtype runs on a host (\<open>cpusubtype_execute\<close>).

  A slice is its cputype and cpusubtype.  Every loop of the routine looks for the first
  slice with some property and returns its index; \<open>None\<close> is the result \<open>-1\<close>.  A chain of
  such loops for one cpusubtype after the other is a list of cpusubtypes.
\<close>

type_synonym slice = "u32 \<times> u32"

fun first_index :: "('a \<Rightarrow> bool) \<Rightarrow> 'a list \<Rightarrow> nat option" where
  "first_index P [] = None"
| "first_index P (x # xs) = (if P x then Some 0 else map_option Suc (first_index P xs))"

text \<open>\<open>try_types\<close>: loops that compare without the feature flags; \<open>try_raw\<close>: loops that do not mask.\<close>

fun try_types :: "slice list \<Rightarrow> u32 \<Rightarrow> u32 list \<Rightarrow> nat option" where
  "try_types archs cputype [] = None"
| "try_types archs cputype (s # ss) =
     (case first_index (\<lambda>(t, u). t = cputype \<and> plain u = s) archs of
        Some i \<Rightarrow> Some i | None \<Rightarrow> try_types archs cputype ss)"

fun try_raw :: "slice list \<Rightarrow> u32 \<Rightarrow> u32 list \<Rightarrow> nat option" where
  "try_raw archs cputype [] = None"
| "try_raw archs cputype (s # ss) =
     (case first_index (\<lambda>(t, u). t = cputype \<and> u = s) archs of
        Some i \<Rightarrow> Some i | None \<Rightarrow> try_raw archs cputype ss)"

definition or_else :: "'a option \<Rightarrow> 'a option \<Rightarrow> 'a option" where
  "or_else a b = (case a of Some x \<Rightarrow> Some x | None \<Rightarrow> b)"

definition exact_match :: "slice list \<Rightarrow> u32 \<Rightarrow> u32 \<Rightarrow> nat option" where
  "exact_match archs cputype cpusubtype =
     first_index (\<lambda>(t, u). t = cputype \<and> plain u = plain cpusubtype) archs"

definition best_powerpc64 :: "slice list \<Rightarrow> u32 \<Rightarrow> u32 \<Rightarrow> nat option" where
  "best_powerpc64 archs cputype cpusubtype =
     (if plain cpusubtype = CPU_SUBTYPE_POWERPC_ALL \<or> plain cpusubtype = CPU_SUBTYPE_POWERPC_970 then
        try_types archs cputype [CPU_SUBTYPE_POWERPC_970, CPU_SUBTYPE_POWERPC_ALL]
      else try_types archs cputype [CPU_SUBTYPE_POWERPC_ALL])"

subsection \<open>Intel\<close>

definition intel_family :: "u32 \<Rightarrow> nat" where
  "intel_family s = unat (plain s AND 15)"

definition intel_model :: "u32 \<Rightarrow> nat" where
  "intel_model s = unat (drop_bit 4 (plain s))"

definition i386_preference :: "u32 \<Rightarrow> u32 list" where
  "i386_preference s =
     (if s = CPU_SUBTYPE_PENT \<or> s = CPU_SUBTYPE_486SX then [CPU_SUBTYPE_486]
      else if s = CPU_SUBTYPE_I386_ALL \<or> s = CPU_SUBTYPE_486 then []
      else [CPU_SUBTYPE_PENT, CPU_SUBTYPE_486])"

definition lowest_family :: "slice list \<Rightarrow> u32 \<Rightarrow> nat" where
  "lowest_family archs cputype =
     foldl (\<lambda>low (t, u). if t = cputype \<and> intel_family u < low then intel_family u else low)
       16 archs"

text \<open>
  The last loop keeps the lowest model so far (\<open>None\<close> for \<open>LONG_MAX\<close>) and its index.
\<close>

fun lowest_model :: "slice list \<Rightarrow> u32 \<Rightarrow> nat \<Rightarrow> nat \<Rightarrow> (nat \<times> nat) option \<Rightarrow> (nat \<times> nat) option" where
  "lowest_model [] cputype family i best = best"
| "lowest_model ((t, u) # archs) cputype family i best =
     lowest_model archs cputype family (Suc i)
       (if t = cputype \<and> intel_family u = family \<and>
           (case best of None \<Rightarrow> True | Some (model, _) \<Rightarrow> intel_model u < model)
        then Some (intel_model u, i) else best)"

definition best_i386 :: "slice list \<Rightarrow> u32 \<Rightarrow> u32 \<Rightarrow> nat option" where
  "best_i386 archs cputype cpusubtype =
     or_else
       (try_types archs cputype
          (i386_preference (plain cpusubtype) @
           [CPU_SUBTYPE_I386_ALL, CPU_SUBTYPE_486, CPU_SUBTYPE_486SX, CPU_SUBTYPE_586]))
       (let family = lowest_family archs cputype
        in if family = 16 then None
           else map_option snd (lowest_model archs cputype family 0 None))"

subsection \<open>Other families\<close>

definition best_mc680x0 :: "slice list \<Rightarrow> u32 \<Rightarrow> u32 \<Rightarrow> nat option" where
  "best_mc680x0 archs cputype cpusubtype =
     try_types archs cputype
       (CPU_SUBTYPE_MC680x0_ALL #
        (if plain cpusubtype = CPU_SUBTYPE_MC680x0_ALL
         then [CPU_SUBTYPE_MC68040, CPU_SUBTYPE_MC68030_ONLY] else []))"

definition powerpc_preference :: "u32 \<Rightarrow> u32 list" where
  "powerpc_preference s =
     (if s = CPU_SUBTYPE_POWERPC_ALL \<or> s = CPU_SUBTYPE_POWERPC_970
      then [CPU_SUBTYPE_POWERPC_970] else []) @
     (if s \<in> {CPU_SUBTYPE_POWERPC_ALL, CPU_SUBTYPE_POWERPC_970, CPU_SUBTYPE_POWERPC_7450,
              CPU_SUBTYPE_POWERPC_7400}
      then [CPU_SUBTYPE_POWERPC_7450, CPU_SUBTYPE_POWERPC_7400] else []) @
     (if s \<in> {CPU_SUBTYPE_POWERPC_ALL, CPU_SUBTYPE_POWERPC_970, CPU_SUBTYPE_POWERPC_7450,
              CPU_SUBTYPE_POWERPC_7400, CPU_SUBTYPE_POWERPC_750, CPU_SUBTYPE_POWERPC_604e,
              CPU_SUBTYPE_POWERPC_604, CPU_SUBTYPE_POWERPC_603ev, CPU_SUBTYPE_POWERPC_603e,
              CPU_SUBTYPE_POWERPC_603}
      then [CPU_SUBTYPE_POWERPC_750, CPU_SUBTYPE_POWERPC_604e, CPU_SUBTYPE_POWERPC_604,
            CPU_SUBTYPE_POWERPC_603ev, CPU_SUBTYPE_POWERPC_603e, CPU_SUBTYPE_POWERPC_603] else []) @
     [CPU_SUBTYPE_POWERPC_ALL]"

definition veo_preference :: "u32 \<Rightarrow> u32 list" where
  "veo_preference s =
     (if s = CPU_SUBTYPE_VEO_1 \<or> s = CPU_SUBTYPE_VEO_3
      then [CPU_SUBTYPE_VEO_2, CPU_SUBTYPE_VEO_3, CPU_SUBTYPE_VEO_2]
      else if s = CPU_SUBTYPE_VEO_4 then [CPU_SUBTYPE_VEO_3, CPU_SUBTYPE_VEO_2]
      else [])"

text \<open>The ARM case does not mask the wanted cpusubtype.\<close>

definition arm_preference :: "u32 \<Rightarrow> u32 list" where
  "arm_preference s =
     (if s = CPU_SUBTYPE_ARM_ALL \<or> s = CPU_SUBTYPE_ARM_V7K then [CPU_SUBTYPE_ARM_V7S] else []) @
     (if s = CPU_SUBTYPE_ARM_ALL \<or> s = CPU_SUBTYPE_ARM_V7S then [CPU_SUBTYPE_ARM_V7F] else []) @
     (if s = CPU_SUBTYPE_ARM_ALL \<or> s = CPU_SUBTYPE_ARM_V7F then [CPU_SUBTYPE_ARM_V7] else []) @
     (if s = CPU_SUBTYPE_ARM_ALL \<or> s = CPU_SUBTYPE_ARM_V7 \<or> s = CPU_SUBTYPE_ARM_V6
      then [CPU_SUBTYPE_ARM_V6] else []) @
     (if s = CPU_SUBTYPE_ARM_ALL \<or> s = CPU_SUBTYPE_ARM_V6 \<or> s = CPU_SUBTYPE_ARM_V5TEJ
      then [CPU_SUBTYPE_ARM_V5TEJ] else []) @
     (if s = CPU_SUBTYPE_ARM_ALL \<or> s = CPU_SUBTYPE_ARM_XSCALE then [CPU_SUBTYPE_ARM_XSCALE] else []) @
     [CPU_SUBTYPE_ARM_V4T, CPU_SUBTYPE_ARM_V6M, CPU_SUBTYPE_ARM_V7M, CPU_SUBTYPE_ARM_V7EM,
      CPU_SUBTYPE_ARM_ALL]"

text \<open>The ARM case has no \<open>break\<close>: it goes on into the loop of the 64-bit ARM case.\<close>

definition best_by_type :: "slice list \<Rightarrow> u32 \<Rightarrow> u32 \<Rightarrow> nat option" where
  "best_by_type archs cputype cpusubtype =
     (if cputype = CPU_TYPE_POWERPC64 then best_powerpc64 archs cputype cpusubtype
      else if cputype = CPU_TYPE_X86_64 then try_types archs cputype [CPU_SUBTYPE_I386_ALL]
      else if cputype = CPU_TYPE_I386 then best_i386 archs cputype cpusubtype
      else if cputype = CPU_TYPE_MC680x0 then best_mc680x0 archs cputype cpusubtype
      else if cputype = CPU_TYPE_POWERPC then try_types archs cputype (powerpc_preference (plain cpusubtype))
      else if cputype = CPU_TYPE_VEO then try_types archs cputype (veo_preference (plain cpusubtype))
      else if cputype = CPU_TYPE_MC88000 then try_types archs cputype [CPU_SUBTYPE_MC88000_ALL]
      else if cputype = CPU_TYPE_I860 then try_types archs cputype [CPU_SUBTYPE_I860_ALL]
      else if cputype = CPU_TYPE_HPPA then try_types archs cputype [CPU_SUBTYPE_HPPA_ALL]
      else if cputype = CPU_TYPE_SPARC then try_types archs cputype [CPU_SUBTYPE_SPARC_ALL]
      else if cputype = CPU_TYPE_ARM then
        or_else (try_raw archs cputype (arm_preference cpusubtype))
          (try_types archs cputype [CPU_SUBTYPE_ARM64_ALL])
      else if cputype = CPU_TYPE_ARM64 then try_types archs cputype [CPU_SUBTYPE_ARM64_ALL]
      else None)"

definition internal_cpusubtype_findbestarch :: "u32 \<Rightarrow> u32 \<Rightarrow> slice list \<Rightarrow> nat option" where
  "internal_cpusubtype_findbestarch cputype cpusubtype archs =
     or_else (exact_match archs cputype cpusubtype) (best_by_type archs cputype cpusubtype)"

definition cpusubtype_findbestarch :: "u32 \<Rightarrow> u32 \<Rightarrow> fat_arch list \<Rightarrow> fat_arch option" where
  "cpusubtype_findbestarch cputype cpusubtype fat_archs =
     map_option (\<lambda>i. fat_archs ! i)
       (internal_cpusubtype_findbestarch cputype cpusubtype
          (map (\<lambda>f. (fa_cputype f, fa_cpusubtype f)) fat_archs))"

definition cpusubtype_findbestarch_64 :: "u32 \<Rightarrow> u32 \<Rightarrow> fat_arch_64 list \<Rightarrow> fat_arch_64 option" where
  "cpusubtype_findbestarch_64 cputype cpusubtype fat_archs64 =
     map_option (\<lambda>i. fat_archs64 ! i)
       (internal_cpusubtype_findbestarch cputype cpusubtype
          (map (\<lambda>f. (fa64_cputype f, fa64_cpusubtype f)) fat_archs64))"

subsection \<open>Combining\<close>

text \<open>The result \<open>-1\<close> is \<open>None\<close>.\<close>

definition combine_mc680x0 :: "u32 \<Rightarrow> u32 \<Rightarrow> u32 option" where
  "combine_mc680x0 s1 s2 =
     (let known = {CPU_SUBTYPE_MC680x0_ALL, CPU_SUBTYPE_MC68030_ONLY, CPU_SUBTYPE_MC68040}
      in if plain s1 \<notin> known then None
         else if plain s2 \<notin> known then None
         else if plain s1 = CPU_SUBTYPE_MC68030_ONLY \<and> plain s2 = CPU_SUBTYPE_MC68040 then None
         else if plain s1 = CPU_SUBTYPE_MC68040 \<and> plain s2 = CPU_SUBTYPE_MC68030_ONLY then None
         else if plain s1 = CPU_SUBTYPE_MC68030_ONLY \<or> plain s2 = CPU_SUBTYPE_MC68030_ONLY then
           Some CPU_SUBTYPE_MC68030_ONLY
         else if plain s1 = CPU_SUBTYPE_MC68040 \<or> plain s2 = CPU_SUBTYPE_MC68040 then
           Some CPU_SUBTYPE_MC68040
         else None)"

definition combine_powerpc :: "u32 \<Rightarrow> u32 \<Rightarrow> u32 option" where
  "combine_powerpc s1 s2 =
     (if plain s1 = CPU_SUBTYPE_POWERPC_ALL then Some s2
      else if plain s2 = CPU_SUBTYPE_POWERPC_ALL then Some s1
      else if plain s1 = CPU_SUBTYPE_POWERPC_601 \<or> plain s2 = CPU_SUBTYPE_POWERPC_601 then
        Some CPU_SUBTYPE_POWERPC_601
      else if plain s1 > plain s2 then Some s1 else Some s2)"

definition combine_powerpc64 :: "u32 \<Rightarrow> u32 \<Rightarrow> u32 option" where
  "combine_powerpc64 s1 s2 =
     (if plain s1 = CPU_SUBTYPE_POWERPC_ALL then Some s2
      else if plain s2 = CPU_SUBTYPE_POWERPC_ALL then Some s1
      else if plain s1 > plain s2 then Some s1 else Some s2)"

definition combine_veo :: "u32 \<Rightarrow> u32 \<Rightarrow> u32 option" where
  "combine_veo s1 s2 =
     (if plain s1 = CPU_SUBTYPE_VEO_1 \<and> plain s2 = CPU_SUBTYPE_VEO_2 then Some CPU_SUBTYPE_VEO_1
      else if plain s1 = CPU_SUBTYPE_VEO_2 \<and> plain s2 = CPU_SUBTYPE_VEO_1 then Some CPU_SUBTYPE_VEO_1
      else if plain s1 = CPU_SUBTYPE_VEO_3 \<and> plain s2 = CPU_SUBTYPE_VEO_2 then Some CPU_SUBTYPE_VEO_3
      else if plain s1 = CPU_SUBTYPE_VEO_2 \<and> plain s2 = CPU_SUBTYPE_VEO_3 then Some CPU_SUBTYPE_VEO_3
      else if plain s1 = CPU_SUBTYPE_VEO_4 \<and>
              (plain s2 = CPU_SUBTYPE_VEO_2 \<or> plain s2 = CPU_SUBTYPE_VEO_3) then Some CPU_SUBTYPE_VEO_4
      else if (plain s1 = CPU_SUBTYPE_VEO_2 \<or> plain s1 = CPU_SUBTYPE_VEO_3) \<and>
              plain s2 = CPU_SUBTYPE_VEO_4 then Some CPU_SUBTYPE_VEO_4
      else None)"

definition combine_mc88000 :: "u32 \<Rightarrow> u32 \<Rightarrow> u32 option" where
  "combine_mc88000 s1 s2 =
     (let known = {CPU_SUBTYPE_MC88000_ALL, CPU_SUBTYPE_MC88110}
      in if plain s1 \<notin> known then None
         else if plain s2 \<notin> known then None
         else if plain s1 = CPU_SUBTYPE_MC88110 \<or> plain s2 = CPU_SUBTYPE_MC88110 then
           Some CPU_SUBTYPE_MC88110
         else None)"

definition combine_i860 :: "u32 \<Rightarrow> u32 \<Rightarrow> u32 option" where
  "combine_i860 s1 s2 =
     (let known = {CPU_SUBTYPE_I860_ALL, CPU_SUBTYPE_I860_860}
      in if plain s1 \<notin> known then None
         else if plain s2 \<notin> known then None
         else if plain s1 = CPU_SUBTYPE_I860_860 \<or> plain s2 = CPU_SUBTYPE_I860_860 then
           Some CPU_SUBTYPE_I860_860
         else None)"

definition combine_hppa :: "u32 \<Rightarrow> u32 \<Rightarrow> u32 option" where
  "combine_hppa s1 s2 =
     (let known = {CPU_SUBTYPE_HPPA_ALL, CPU_SUBTYPE_HPPA_7100LC}
      in if plain s1 \<notin> known then None
         else if plain s2 \<notin> known then None
         else Some CPU_SUBTYPE_HPPA_7100LC)"

definition combine_arm :: "u32 \<Rightarrow> u32 \<Rightarrow> u32 option" where
  "combine_arm s1 s2 =
     (if plain s1 = CPU_SUBTYPE_ARM_ALL then Some s2
      else if plain s2 = CPU_SUBTYPE_ARM_ALL then Some s1
      else if plain s1 = CPU_SUBTYPE_ARM_V7 then
        if plain s2 = CPU_SUBTYPE_ARM_XSCALE then None else Some CPU_SUBTYPE_ARM_V7
      else if plain s1 = CPU_SUBTYPE_ARM_V6 then
        if plain s2 = CPU_SUBTYPE_ARM_XSCALE then None else Some CPU_SUBTYPE_ARM_V6
      else if plain s1 = CPU_SUBTYPE_ARM_XSCALE then
        if plain s2 \<in> {CPU_SUBTYPE_ARM_V7, CPU_SUBTYPE_ARM_V6, CPU_SUBTYPE_ARM_V5TEJ} then None
        else Some CPU_SUBTYPE_ARM_XSCALE
      else if plain s1 = CPU_SUBTYPE_ARM_V5TEJ then
        if plain s2 = CPU_SUBTYPE_ARM_XSCALE then None
        else if plain s2 = CPU_SUBTYPE_ARM_V7 then Some CPU_SUBTYPE_ARM_V7
        else if plain s2 = CPU_SUBTYPE_ARM_V6 then Some CPU_SUBTYPE_ARM_V6
        else Some CPU_SUBTYPE_ARM_V5TEJ
      else if plain s1 = CPU_SUBTYPE_ARM_V4T then Some (plain s2)
      else None)"

definition cpusubtype_combine :: "u32 \<Rightarrow> u32 \<Rightarrow> u32 \<Rightarrow> u32 option" where
  "cpusubtype_combine cputype s1 s2 =
     (if cputype = CPU_TYPE_X86_64 \<and> (s1 = CPU_SUBTYPE_X86_64_H \<or> s2 = CPU_SUBTYPE_X86_64_H) then None
      else if cputype = CPU_TYPE_I386 \<or> cputype = CPU_TYPE_X86_64 then Some CPU_SUBTYPE_I386_ALL
      else if plain s1 = plain s2 then Some s1
      else if cputype = CPU_TYPE_MC680x0 then combine_mc680x0 s1 s2
      else if cputype = CPU_TYPE_POWERPC then combine_powerpc s1 s2
      else if cputype = CPU_TYPE_POWERPC64 then combine_powerpc64 s1 s2
      else if cputype = CPU_TYPE_VEO then combine_veo s1 s2
      else if cputype = CPU_TYPE_MC88000 then combine_mc88000 s1 s2
      else if cputype = CPU_TYPE_I860 then combine_i860 s1 s2
      else if cputype = CPU_TYPE_HPPA then combine_hppa s1 s2
      else if cputype = CPU_TYPE_ARM then combine_arm s1 s2
      else None)"

subsection \<open>Executing\<close>

definition powerpc_common :: "u32 set" where
  "powerpc_common =
     {CPU_SUBTYPE_POWERPC_750, CPU_SUBTYPE_POWERPC_620, CPU_SUBTYPE_POWERPC_604e,
      CPU_SUBTYPE_POWERPC_604, CPU_SUBTYPE_POWERPC_603ev, CPU_SUBTYPE_POWERPC_603e,
      CPU_SUBTYPE_POWERPC_603, CPU_SUBTYPE_POWERPC_602}"

definition execute_powerpc :: "u32 \<Rightarrow> u32 \<Rightarrow> bool" where
  "execute_powerpc host exec =
     (if host = CPU_SUBTYPE_POWERPC_970 then
        exec \<in> insert CPU_SUBTYPE_POWERPC_970 (insert CPU_SUBTYPE_POWERPC_7450
          (insert CPU_SUBTYPE_POWERPC_7400 (insert CPU_SUBTYPE_POWERPC_ALL powerpc_common)))
      else if host = CPU_SUBTYPE_POWERPC_7450 \<or> host = CPU_SUBTYPE_POWERPC_7400 then
        exec \<in> insert CPU_SUBTYPE_POWERPC_7450
          (insert CPU_SUBTYPE_POWERPC_7400 (insert CPU_SUBTYPE_POWERPC_ALL powerpc_common))
      else if host \<in> powerpc_common then exec \<in> insert CPU_SUBTYPE_POWERPC_ALL powerpc_common
      else if host = CPU_SUBTYPE_POWERPC_601 then
        exec \<in> insert CPU_SUBTYPE_POWERPC_601 (insert CPU_SUBTYPE_POWERPC_ALL powerpc_common)
      else exec = CPU_SUBTYPE_POWERPC_ALL)"

definition execute_mc680x0 :: "u32 \<Rightarrow> u32 \<Rightarrow> bool" where
  "execute_mc680x0 host exec =
     (if host = CPU_SUBTYPE_MC68040 then
        exec = CPU_SUBTYPE_MC68040 \<or> exec = CPU_SUBTYPE_MC680x0_ALL
      else if host = CPU_SUBTYPE_MC68030 then
        exec = CPU_SUBTYPE_MC680x0_ALL \<or> exec = CPU_SUBTYPE_MC68030_ONLY
      else exec = CPU_SUBTYPE_MC680x0_ALL)"

definition execute_hppa :: "u32 \<Rightarrow> u32 \<Rightarrow> bool" where
  "execute_hppa host exec =
     (if host = CPU_SUBTYPE_HPPA_7100LC then
        exec = CPU_SUBTYPE_HPPA_ALL \<or> exec = CPU_SUBTYPE_HPPA_7100LC
      else if host = CPU_SUBTYPE_HPPA_7100 then exec = CPU_SUBTYPE_HPPA_ALL
      else exec = CPU_SUBTYPE_HPPA_ALL)"

definition execute_arm :: "u32 \<Rightarrow> u32 \<Rightarrow> bool" where
  "execute_arm host exec =
     (if host = CPU_SUBTYPE_ARM_V6 then
        exec \<in> {CPU_SUBTYPE_ARM_ALL, CPU_SUBTYPE_ARM_V4T, CPU_SUBTYPE_ARM_V5TEJ, CPU_SUBTYPE_ARM_V6}
      else if host = CPU_SUBTYPE_ARM_V5TEJ then
        exec \<in> {CPU_SUBTYPE_ARM_ALL, CPU_SUBTYPE_ARM_V5TEJ, CPU_SUBTYPE_ARM_V4T}
      else if host = CPU_SUBTYPE_ARM_XSCALE then
        exec \<in> {CPU_SUBTYPE_ARM_ALL, CPU_SUBTYPE_ARM_XSCALE, CPU_SUBTYPE_ARM_V4T}
      else if host = CPU_SUBTYPE_ARM_V4T then
        exec \<in> {CPU_SUBTYPE_ARM_ALL, CPU_SUBTYPE_ARM_V4T}
      else exec = CPU_SUBTYPE_ARM_ALL)"

text \<open>The 64-bit ARM case goes on into the 32-bit one.\<close>

definition execute_arm64 :: "u32 \<Rightarrow> u32 \<Rightarrow> bool" where
  "execute_arm64 host exec =
     (if host = CPU_SUBTYPE_ARM64_V8 \<and>
         exec \<in> {CPU_SUBTYPE_ARM64_ALL, CPU_SUBTYPE_ARM64_V8, CPU_SUBTYPE_ARM64E} then True
      else if host \<noteq> CPU_SUBTYPE_ARM64_V8 \<and> exec = CPU_SUBTYPE_ARM64_ALL then True
      else execute_arm host exec)"

definition cpusubtype_execute :: "u32 \<Rightarrow> u32 \<Rightarrow> u32 \<Rightarrow> bool" where
  "cpusubtype_execute host_cputype host exec =
     (if plain host = plain exec then True
      else if host_cputype = CPU_TYPE_POWERPC then execute_powerpc (plain host) (plain exec)
      else if host_cputype = CPU_TYPE_I386 then
        plain exec \<in> {CPU_SUBTYPE_I386_ALL, CPU_SUBTYPE_486, CPU_SUBTYPE_486SX, CPU_SUBTYPE_586,
          CPU_SUBTYPE_PENTPRO, CPU_SUBTYPE_PENTII_M3, CPU_SUBTYPE_PENTII_M5, CPU_SUBTYPE_PENTIUM_4}
      else if host_cputype = CPU_TYPE_MC680x0 then execute_mc680x0 (plain host) (plain exec)
      else if host_cputype = CPU_TYPE_MC88000 then
        (if plain host = CPU_SUBTYPE_MC88110
         then plain exec = CPU_SUBTYPE_MC88110 \<or> plain exec = CPU_SUBTYPE_MC88000_ALL
         else plain exec = CPU_SUBTYPE_MC88000_ALL)
      else if host_cputype = CPU_TYPE_HPPA then execute_hppa (plain host) (plain exec)
      else if host_cputype = CPU_TYPE_SPARC then plain exec = CPU_SUBTYPE_SPARC_ALL
      else if host_cputype = CPU_TYPE_ARM64_32 then
        host = CPU_SUBTYPE_ARM64_32_V8 \<and> exec = CPU_SUBTYPE_ARM64_32_V8
      else if host_cputype = CPU_TYPE_ARM64 then execute_arm64 host exec
      else if host_cputype = CPU_TYPE_ARM then execute_arm host exec
      else False)"

section \<open>What the loops find\<close>

lemma first_index_Some:
  "first_index P xs = Some i \<Longrightarrow> i < length xs \<and> P (xs ! i) \<and> (\<forall>j < i. \<not> P (xs ! j))"
proof (induction xs arbitrary: i)
  case Nil
  then show ?case by simp
next
  case (Cons x xs)
  show ?case
  proof (cases "P x")
    case True
    then show ?thesis using Cons.prems by simp
  next
    case False
    then obtain k where k: "first_index P xs = Some k" "i = Suc k" using Cons.prems by auto
    then show ?thesis using Cons.IH [OF k(1)] False by (auto simp: nth_Cons split: nat.split)
  qed
qed

lemma first_index_None: "first_index P xs = None \<longleftrightarrow> (\<forall>x \<in> set xs. \<not> P x)"
  by (induction xs) auto

lemma try_types_Some:
  "try_types archs cputype ss = Some i \<Longrightarrow>
     i < length archs \<and> fst (archs ! i) = cputype \<and> plain (snd (archs ! i)) \<in> set ss"
  by (induction ss) (auto split: option.splits dest!: first_index_Some)

lemma try_raw_Some:
  "try_raw archs cputype ss = Some i \<Longrightarrow>
     i < length archs \<and> fst (archs ! i) = cputype \<and> snd (archs ! i) \<in> set ss"
  by (induction ss) (auto split: option.splits dest!: first_index_Some)

lemma or_else_Some: "or_else a b = Some x \<longleftrightarrow> a = Some x \<or> (a = None \<and> b = Some x)"
  by (auto simp: or_else_def split: option.split)

lemma lowest_model_Some:
  "lowest_model archs cputype family k best = Some (m, i) \<Longrightarrow>
     best = Some (m, i) \<or> (k \<le> i \<and> i < k + length archs \<and> fst (archs ! (i - k)) = cputype)"
proof (induction archs cputype family k best rule: lowest_model.induct)
  case (1 cputype family i best)
  then show ?case by simp
next
  case (2 t u archs cputype family k best)
  from "2.IH" [OF "2.prems" [unfolded lowest_model.simps]] show ?case
    by (auto simp: nth_Cons' split: if_splits)
qed

lemma best_i386_Some:
  assumes "best_i386 archs cputype cpusubtype = Some i"
  shows "i < length archs \<and> fst (archs ! i) = cputype"
  using assms
  by (auto simp: best_i386_def or_else_Some Let_def split: if_splits
      dest!: try_types_Some lowest_model_Some)

declare try_types.simps [simp del] try_raw.simps [simp del]

lemma best_by_type_Some:
  assumes "best_by_type archs cputype cpusubtype = Some i"
  shows "i < length archs \<and> fst (archs ! i) = cputype"
  using assms unfolding best_by_type_def best_powerpc64_def best_mc680x0_def
  by (simp only: or_else_Some option.distinct split: if_splits)
     (meson try_types_Some try_raw_Some best_i386_Some)+

lemma findbestarch_sound:
  assumes "internal_cpusubtype_findbestarch cputype cpusubtype archs = Some i"
  shows "i < length archs \<and> fst (archs ! i) = cputype"
  using assms
  by (auto simp: internal_cpusubtype_findbestarch_def or_else_Some exact_match_def
      dest!: first_index_Some best_by_type_Some)

lemma findbestarch_exact:
  assumes "(cputype, s) \<in> set archs" and "plain s = plain cpusubtype"
  shows "\<exists>i. internal_cpusubtype_findbestarch cputype cpusubtype archs = Some i \<and>
           plain (snd (archs ! i)) = plain cpusubtype"
proof -
  have "exact_match archs cputype cpusubtype \<noteq> None"
    using assms by (auto simp: exact_match_def first_index_None)
  then obtain i where i: "exact_match archs cputype cpusubtype = Some i" by auto
  then show ?thesis
    by (auto simp: internal_cpusubtype_findbestarch_def or_else_def exact_match_def
        dest!: first_index_Some)
qed

section \<open>Intel always finds a slice\<close>

lemma intel_family_less [simp]: "intel_family s < 16"
proof -
  have "unat (plain s AND 15) \<le> unat (15 :: u32)"
    using word_and_le1 [of "plain s" "15 :: u32"] by (simp only: word_le_nat_alt)
  then show ?thesis by (simp add: intel_family_def)
qed

definition lowest :: "('a \<Rightarrow> bool) \<Rightarrow> ('a \<Rightarrow> nat) \<Rightarrow> nat \<Rightarrow> 'a list \<Rightarrow> nat" where
  "lowest P f = foldl (\<lambda>low x. if P x \<and> f x < low then f x else low)"

lemma lowest_attained:
  "lowest P f k xs = k \<and> (\<forall>x \<in> set xs. P x \<longrightarrow> k \<le> f x) \<or>
   lowest P f k xs < k \<and> (\<exists>x \<in> set xs. P x \<and> f x = lowest P f k xs) \<and>
     (\<forall>x \<in> set xs. P x \<longrightarrow> lowest P f k xs \<le> f x)"
  unfolding lowest_def
proof (induction xs arbitrary: k)
  case Nil
  then show ?case by simp
next
  case (Cons x xs)
  show ?case
  proof (cases "P x \<and> f x < k")
    case True
    then show ?thesis using Cons.IH [of "f x"] by auto
  next
    case False
    then show ?thesis using Cons.IH [of k] by auto
  qed
qed

lemma lowest_family_attained:
  assumes "(cputype, s) \<in> set archs"
  shows "lowest_family archs cputype < 16"
    and "\<exists>u. (cputype, u) \<in> set archs \<and> intel_family u = lowest_family archs cputype"
    and "(cputype, u) \<in> set archs \<Longrightarrow> lowest_family archs cputype \<le> intel_family u"
proof -
  have fold: "lowest_family archs cputype =
      lowest (\<lambda>x. fst x = cputype) (\<lambda>x. intel_family (snd x)) 16 archs"
    unfolding lowest_family_def lowest_def
    by (intro arg_cong [where f = "\<lambda>f. foldl f 16 archs"]) (auto simp: fun_eq_iff)
  have "\<not> (\<forall>x \<in> set archs. fst x = cputype \<longrightarrow> 16 \<le> intel_family (snd x))"
    using assms intel_family_less [of s] by (auto simp: not_le intro!: bexI [of _ "(cputype, s)"])
  then have low: "lowest_family archs cputype < 16"
      "\<exists>x \<in> set archs. fst x = cputype \<and> intel_family (snd x) = lowest_family archs cputype"
      "\<forall>x \<in> set archs. fst x = cputype \<longrightarrow> lowest_family archs cputype \<le> intel_family (snd x)"
    using lowest_attained [of "\<lambda>x. fst x = cputype" "\<lambda>x. intel_family (snd x)" 16 archs]
    unfolding fold by blast+
  show "lowest_family archs cputype < 16" by (rule low(1))
  show "\<exists>u. (cputype, u) \<in> set archs \<and> intel_family u = lowest_family archs cputype"
    using low(2) by (metis prod.collapse)
  show "(cputype, u) \<in> set archs \<Longrightarrow> lowest_family archs cputype \<le> intel_family u"
    using low(3) by fastforce
qed

lemma lowest_model_family:
  assumes "lowest_model archs cputype family k None = Some (m, i)"
  shows "k \<le> i \<and> i < k + length archs \<and> fst (archs ! (i - k)) = cputype \<and>
         intel_family (snd (archs ! (i - k))) = family"
proof -
  have "lowest_model archs cputype family k best = Some (m, i) \<Longrightarrow> best = Some (m, i) \<or>
      (k \<le> i \<and> i < k + length archs \<and> fst (archs ! (i - k)) = cputype \<and>
       intel_family (snd (archs ! (i - k))) = family)" for best
  proof (induction archs cputype family k best rule: lowest_model.induct)
    case (1 cputype family i best)
    then show ?case by simp
  next
    case (2 t u archs cputype family k best)
    from "2.IH" [OF "2.prems" [unfolded lowest_model.simps]] show ?case
      by (auto simp: nth_Cons' split: if_splits)
  qed
  from this [OF assms] show ?thesis by simp
qed

lemma lowest_model_None:
  "lowest_model archs cputype family k best = None \<longleftrightarrow>
     best = None \<and> (\<forall>(t, u) \<in> set archs. t = cputype \<longrightarrow> intel_family u \<noteq> family)"
  by (induction archs cputype family k best rule: lowest_model.induct) auto

lemma findbestarch_i386:
  assumes "(CPU_TYPE_I386, s) \<in> set archs"
  shows "internal_cpusubtype_findbestarch CPU_TYPE_I386 cpusubtype archs \<noteq> None"
proof -
  let ?family = "lowest_family archs CPU_TYPE_I386"
  have "lowest_model archs CPU_TYPE_I386 ?family 0 None \<noteq> None"
    using lowest_family_attained(2) [OF assms] by (auto simp: lowest_model_None)
  then show ?thesis
    using lowest_family_attained(1) [OF assms]
    by (auto simp: internal_cpusubtype_findbestarch_def best_by_type_def best_i386_def or_else_def
        Let_def split: option.splits)
qed

section \<open>What is picked runs on the host\<close>

lemma findbestarch_by_type:
  assumes "internal_cpusubtype_findbestarch cputype cpusubtype archs = Some i"
  obtains "plain (snd (archs ! i)) = plain cpusubtype"
        | "best_by_type archs cputype cpusubtype = Some i"
  using assms
  by (auto simp: internal_cpusubtype_findbestarch_def or_else_Some exact_match_def
      dest!: first_index_Some)

lemma powerpc_preference_executes:
  assumes "u \<in> set (powerpc_preference s)" and "s \<noteq> CPU_SUBTYPE_POWERPC_ALL"
  shows "execute_powerpc s u"
  using assms by (auto simp: powerpc_preference_def execute_powerpc_def powerpc_common_def split: if_splits)

lemma findbestarch_powerpc_executes:
  assumes "internal_cpusubtype_findbestarch CPU_TYPE_POWERPC host archs = Some i"
    and "plain host \<noteq> CPU_SUBTYPE_POWERPC_ALL"
  shows "cpusubtype_execute CPU_TYPE_POWERPC host (snd (archs ! i))"
  using assms(1)
proof (cases rule: findbestarch_by_type)
  case 1
  then show ?thesis by (simp add: cpusubtype_execute_def)
next
  case 2
  then have "try_types archs CPU_TYPE_POWERPC (powerpc_preference (plain host)) = Some i"
    by (simp add: best_by_type_def)
  then show ?thesis
    using powerpc_preference_executes [OF _ assms(2)]
    by (auto simp: cpusubtype_execute_def dest: try_types_Some)
qed

section \<open>Combining\<close>

lemma combine_same:
  assumes "cputype \<noteq> CPU_TYPE_I386" and "cputype \<noteq> CPU_TYPE_X86_64"
  shows "cpusubtype_combine cputype s s = Some s"
  using assms by (simp add: cpusubtype_combine_def)

lemma combine_mc680x0_commute: "combine_mc680x0 s1 s2 = combine_mc680x0 s2 s1"
proof -
  have "plain s = CPU_SUBTYPE_MC680x0_ALL \<or> plain s = CPU_SUBTYPE_MC68030_ONLY \<or>
      plain s = CPU_SUBTYPE_MC68040 \<or>
      plain s \<notin> {CPU_SUBTYPE_MC680x0_ALL, CPU_SUBTYPE_MC68030_ONLY, CPU_SUBTYPE_MC68040}" for s
    by blast
  from this [of s1] this [of s2] show ?thesis
    by (elim disjE) (simp_all add: combine_mc680x0_def Let_def)
qed

lemma combine_veo_commute: "combine_veo s1 s2 = combine_veo s2 s1"
proof -
  have "plain s = CPU_SUBTYPE_VEO_1 \<or> plain s = CPU_SUBTYPE_VEO_2 \<or> plain s = CPU_SUBTYPE_VEO_3 \<or>
      plain s = CPU_SUBTYPE_VEO_4 \<or>
      plain s \<notin> {CPU_SUBTYPE_VEO_1, CPU_SUBTYPE_VEO_2, CPU_SUBTYPE_VEO_3, CPU_SUBTYPE_VEO_4}" for s
    by blast
  from this [of s1] this [of s2] show ?thesis
    by (elim disjE) (simp_all add: combine_veo_def)
qed

lemma combine_pairs_commute:
  "combine_mc88000 s1 s2 = combine_mc88000 s2 s1"
  "combine_i860 s1 s2 = combine_i860 s2 s1"
  "combine_hppa s1 s2 = combine_hppa s2 s1"
  unfolding combine_mc88000_def combine_i860_def combine_hppa_def Let_def by auto

lemmas combine_families_commute = combine_mc680x0_commute combine_veo_commute combine_pairs_commute

lemma combine_powerpc_commute:
  "map_option plain (combine_powerpc s1 s2) = map_option plain (combine_powerpc s2 s1)"
  "map_option plain (combine_powerpc64 s1 s2) = map_option plain (combine_powerpc64 s2 s1)"
  by (auto simp: combine_powerpc_def combine_powerpc64_def not_less)

lemma combine_commutes:
  assumes "cputype \<noteq> CPU_TYPE_ARM"
  shows "map_option plain (cpusubtype_combine cputype s1 s2) =
         map_option plain (cpusubtype_combine cputype s2 s1)"
  using assms unfolding cpusubtype_combine_def
  by (simp add: combine_families_commute [of s1 s2] combine_powerpc_commute [of s1 s2] disj_commute)

text \<open>
  The PowerPC cpusubtypes the routines know, other than the 601, are ordered: a host runs
  those up to a limit.
\<close>

definition powerpc_known :: "u32 set" where
  "powerpc_known =
     {CPU_SUBTYPE_POWERPC_970, CPU_SUBTYPE_POWERPC_7450, CPU_SUBTYPE_POWERPC_7400,
      CPU_SUBTYPE_POWERPC_ALL} \<union> powerpc_common"

definition powerpc_limit :: "u32 \<Rightarrow> u32" where
  "powerpc_limit host =
     (if host = CPU_SUBTYPE_POWERPC_970 then CPU_SUBTYPE_POWERPC_970
      else if host = CPU_SUBTYPE_POWERPC_7450 \<or> host = CPU_SUBTYPE_POWERPC_7400 then
        CPU_SUBTYPE_POWERPC_7450
      else if host \<in> powerpc_common \<or> host = CPU_SUBTYPE_POWERPC_601 then CPU_SUBTYPE_POWERPC_750
      else CPU_SUBTYPE_POWERPC_ALL)"

lemma execute_powerpc_limit:
  assumes "e \<in> powerpc_known"
  shows "execute_powerpc host e \<longleftrightarrow> e \<le> powerpc_limit host"
  using assms unfolding powerpc_known_def powerpc_common_def
  by (elim UnE insertE emptyE) (simp_all add: execute_powerpc_def powerpc_limit_def powerpc_common_def)

lemma powerpc_limit_self:
  assumes "h \<in> powerpc_known"
  shows "h \<le> powerpc_limit h"
  using assms unfolding powerpc_known_def powerpc_common_def
  by (elim UnE insertE emptyE) (simp_all add: powerpc_limit_def powerpc_common_def)

lemma cpusubtype_execute_powerpc:
  assumes "plain e \<in> powerpc_known"
  shows "cpusubtype_execute CPU_TYPE_POWERPC host e \<longleftrightarrow> plain e \<le> powerpc_limit (plain host)"
  using assms powerpc_limit_self [of "plain host"]
  by (auto simp: cpusubtype_execute_def execute_powerpc_limit)

lemma combine_powerpc_max:
  assumes "plain s1 \<in> powerpc_known" and "plain s2 \<in> powerpc_known"
  shows "map_option plain (cpusubtype_combine CPU_TYPE_POWERPC s1 s2) = Some (max (plain s1) (plain s2))"
proof -
  have "CPU_SUBTYPE_POWERPC_601 \<notin> powerpc_known" by (simp add: powerpc_known_def powerpc_common_def)
  then show ?thesis
    using assms by (auto simp: cpusubtype_combine_def combine_powerpc_def max_def)
qed

lemma combine_powerpc_executes:
  assumes "plain s1 \<in> powerpc_known" and "plain s2 \<in> powerpc_known"
    and "cpusubtype_combine CPU_TYPE_POWERPC s1 s2 = Some c"
  shows "cpusubtype_execute CPU_TYPE_POWERPC host c \<longleftrightarrow>
         cpusubtype_execute CPU_TYPE_POWERPC host s1 \<and> cpusubtype_execute CPU_TYPE_POWERPC host s2"
proof -
  have c: "plain c = max (plain s1) (plain s2)"
    using combine_powerpc_max [OF assms(1,2)] assms(3) by simp
  then have "plain c \<in> powerpc_known" using assms(1,2) by (simp add: max_def)
  then show ?thesis using assms(1,2) c by (simp add: cpusubtype_execute_powerpc)
qed

section \<open>Properties\<close>

text \<open>
  C25.  The slice that \<open>cpusubtype_findbestarch\<close> returns is one of the given ones and has the
  wanted cputype; if a slice with the wanted cputype and cpusubtype exists, feature flags
  aside, the result has that cpusubtype.
\<close>

theorem findbestarch_picks_match:
  assumes "cpusubtype_findbestarch cputype cpusubtype archs = Some a"
  shows "a \<in> set archs \<and> fa_cputype a = cputype \<and>
         ((\<exists>b \<in> set archs. fa_cputype b = cputype \<and> plain (fa_cpusubtype b) = plain cpusubtype) \<longrightarrow>
          plain (fa_cpusubtype a) = plain cpusubtype)"
proof -
  let ?slices = "map (\<lambda>f. (fa_cputype f, fa_cpusubtype f)) archs"
  obtain i where i: "internal_cpusubtype_findbestarch cputype cpusubtype ?slices = Some i" "a = archs ! i"
    using assms by (auto simp: cpusubtype_findbestarch_def)
  have len: "i < length archs" "fa_cputype a = cputype"
    using findbestarch_sound [OF i(1)] i(2) by auto
  have "plain (fa_cpusubtype a) = plain cpusubtype"
    if "b \<in> set archs" "fa_cputype b = cputype" "plain (fa_cpusubtype b) = plain cpusubtype" for b
    using findbestarch_exact [of cputype "fa_cpusubtype b" ?slices cpusubtype] that i len(1) by force
  then show ?thesis using len i(2) by auto
qed

theorem findbestarch_picks_match_witness:
  "fa_cputype (fat_arch.make CPU_TYPE_X86_64 3 0 0 0) = CPU_TYPE_X86_64"
proof -
  let ?fat = "[fat_arch.make CPU_TYPE_I386 3 0 0 0, fat_arch.make CPU_TYPE_X86_64 3 0 0 0]"
  have "cpusubtype_findbestarch CPU_TYPE_X86_64 8 ?fat = Some (fat_arch.make CPU_TYPE_X86_64 3 0 0 0)"
    by code_simp
  from findbestarch_picks_match [OF this] show ?thesis by blast
qed

text \<open>
  C26.  For an i386 cpusubtype \<open>cpusubtype_findbestarch\<close> always finds a slice when the file
  has one for the i386 family.
\<close>

theorem findbestarch_i386_finds:
  assumes "b \<in> set archs" and "fa_cputype b = CPU_TYPE_I386"
  shows "\<exists>a \<in> set archs. cpusubtype_findbestarch CPU_TYPE_I386 cpusubtype archs = Some a"
proof -
  let ?slices = "map (\<lambda>f. (fa_cputype f, fa_cpusubtype f)) archs"
  have "(CPU_TYPE_I386, fa_cpusubtype b) \<in> set ?slices" using assms by force
  then obtain i where i: "internal_cpusubtype_findbestarch CPU_TYPE_I386 cpusubtype ?slices = Some i"
    using findbestarch_i386 by blast
  then show ?thesis
    using findbestarch_sound [OF i] by (simp add: cpusubtype_findbestarch_def)
qed

theorem findbestarch_i386_finds_witness:
  "\<exists>a. cpusubtype_findbestarch CPU_TYPE_I386 8 [fat_arch.make CPU_TYPE_I386 0x16 0 0 0] = Some a"
  using findbestarch_i386_finds [of "fat_arch.make CPU_TYPE_I386 0x16 0 0 0"
      "[fat_arch.make CPU_TYPE_I386 0x16 0 0 0]" 8]
  by (simp add: fat_arch.defs)

text \<open>
  C27.  On a PowerPC host what \<open>cpusubtype_findbestarch\<close> picks for the host's own cpusubtype
  can run there according to \<open>cpusubtype_execute\<close>.
\<close>

theorem findbestarch_powerpc_runs:
  assumes "cpusubtype_findbestarch CPU_TYPE_POWERPC host archs = Some a"
    and "plain host \<noteq> CPU_SUBTYPE_POWERPC_ALL"
  shows "cpusubtype_execute CPU_TYPE_POWERPC host (fa_cpusubtype a)"
proof -
  obtain i where i: "internal_cpusubtype_findbestarch CPU_TYPE_POWERPC host
      (map (\<lambda>f. (fa_cputype f, fa_cpusubtype f)) archs) = Some i" "a = archs ! i"
    using assms by (auto simp: cpusubtype_findbestarch_def)
  then show ?thesis
    using findbestarch_powerpc_executes [OF i(1) assms(2)] findbestarch_sound [OF i(1)] by simp
qed

theorem findbestarch_powerpc_runs_witness:
  "cpusubtype_execute CPU_TYPE_POWERPC CPU_SUBTYPE_POWERPC_970 CPU_SUBTYPE_POWERPC_7400"
proof -
  let ?a = "fat_arch.make CPU_TYPE_POWERPC CPU_SUBTYPE_POWERPC_7400 0 0 0"
  have "cpusubtype_findbestarch CPU_TYPE_POWERPC CPU_SUBTYPE_POWERPC_970
      [fat_arch.make CPU_TYPE_POWERPC 0 0 0 0, ?a] = Some ?a"
      "plain CPU_SUBTYPE_POWERPC_970 \<noteq> CPU_SUBTYPE_POWERPC_ALL"
      "fa_cpusubtype ?a = CPU_SUBTYPE_POWERPC_7400"
    by code_simp+
  then show ?thesis using findbestarch_powerpc_runs by fastforce
qed

text \<open>
  \<open>cpusubtype_combine\<close> on the known PowerPC cpusubtypes other than the 601: a host runs
  the combination exactly if it runs both parts.
\<close>

theorem combine_powerpc_runs:
  assumes "plain s1 \<in> powerpc_known" and "plain s2 \<in> powerpc_known"
  shows "\<exists>c. cpusubtype_combine CPU_TYPE_POWERPC s1 s2 = Some c \<and>
           (\<forall>host. cpusubtype_execute CPU_TYPE_POWERPC host c \<longleftrightarrow>
              cpusubtype_execute CPU_TYPE_POWERPC host s1 \<and> cpusubtype_execute CPU_TYPE_POWERPC host s2)"
proof -
  obtain c where "cpusubtype_combine CPU_TYPE_POWERPC s1 s2 = Some c"
    using combine_powerpc_max [OF assms] by auto
  then show ?thesis using combine_powerpc_executes [OF assms] by blast
qed

theorem combine_powerpc_runs_witness:
  "\<exists>c. cpusubtype_combine CPU_TYPE_POWERPC CPU_SUBTYPE_POWERPC_750 CPU_SUBTYPE_POWERPC_7400 = Some c"
  using combine_powerpc_runs [of CPU_SUBTYPE_POWERPC_750 CPU_SUBTYPE_POWERPC_7400]
  by (simp add: powerpc_known_def powerpc_common_def plain_def) blast

text \<open>
  The order of the arguments of \<open>cpusubtype_combine\<close> does not matter, feature flags
  aside, for any cputype but ARM.
\<close>

theorem combine_order_irrelevant:
  assumes "cputype \<noteq> CPU_TYPE_ARM"
  shows "map_option plain (cpusubtype_combine cputype s1 s2) =
         map_option plain (cpusubtype_combine cputype s2 s1)"
  by (rule combine_commutes [OF assms])

theorem combine_order_irrelevant_witness:
  "map_option plain (cpusubtype_combine CPU_TYPE_VEO 1 2) = map_option plain (cpusubtype_combine CPU_TYPE_VEO 2 1)"
  by (rule combine_order_irrelevant) simp

text \<open>
  For ARM it does: version 6 with version 7 gives version 6, version 7 with version
  6 gives version 7.  (The matrix in front of the code has version 7 in both places.)
\<close>

theorem combine_arm_order_matters:
  "cpusubtype_combine CPU_TYPE_ARM CPU_SUBTYPE_ARM_V6 CPU_SUBTYPE_ARM_V7 = Some CPU_SUBTYPE_ARM_V6 \<and>
   cpusubtype_combine CPU_TYPE_ARM CPU_SUBTYPE_ARM_V7 CPU_SUBTYPE_ARM_V6 = Some CPU_SUBTYPE_ARM_V7"
  by (rule conjI; code_simp)

end
