(* ===== verification/Seg_Align.thy ===== *)
theory Seg_Align
  imports Outcomes Swap_Pass
begin

text \<open>
  \<open>libstuff/align.c\<close>: the alignment of a slice in a fat file, guessed from the addresses of
  the segments or from the alignments of the sections.  The mach header is the record of
  either width; the load commands are the bytes of the mapped file, a pointer is an
  offset, \<open>None\<close> is a null pointer.
\<close>

abbreviation MAXSEGALIGN :: u32 where "MAXSEGALIGN \<equiv> 15"
abbreviation MINSEGALIGN32 :: u32 where "MINSEGALIGN32 \<equiv> 2"
abbreviation MINSEGALIGN64 :: u32 where "MINSEGALIGN64 \<equiv> 3"
abbreviation MH_OBJECT :: u32 where "MH_OBJECT \<equiv> 1"
abbreviation MH_EXECUTE :: u32 where "MH_EXECUTE \<equiv> 2"

section \<open>Guessing from an address\<close>

text \<open>The loop shifts a single bit until it meets one of the address; \<open>None\<close> is a loop that does not end.\<close>

partial_function (option) align_loop :: "u64 \<Rightarrow> u64 \<Rightarrow> u32 \<Rightarrow> u32 option" where
  "align_loop vmaddr segalign align =
     (if segalign AND vmaddr = 0 then align_loop vmaddr (push_bit 1 segalign) (align + 1)
      else Some align)"

definition guess_align :: "u64 \<Rightarrow> u32 \<Rightarrow> u32 \<Rightarrow> u32 option" where
  "guess_align vmaddr minimum maximum =
     (if vmaddr = 0 then Some maximum
      else map_option
             (\<lambda>align. let align = (if align < minimum then minimum else align)
                      in if align > maximum then maximum else align)
             (align_loop vmaddr 1 0))"

section \<open>The alignment of an object file\<close>

datatype align_error =
    Commands_past_file
  | Both_headers
  | Command_zero_size nat
  | Command_past_end nat
  | No_alignment

text \<open>\<open>None\<close> of the guess does not occur; it is an error of its own here.\<close>

definition guessed :: "u32 option \<Rightarrow> (align_error, u32) result" where
  "guessed g = (case g of Some a \<Rightarrow> Ok a | None \<Rightarrow> Error No_alignment)"

text \<open>The greatest alignment of \<open>n\<close> sections at \<open>p\<close>, as the host \<open>e\<close> reads them after swapping.\<close>

fun max_section_align :: "endian \<Rightarrow> bool \<Rightarrow> bytes \<Rightarrow> nat \<Rightarrow> nat \<Rightarrow> u32 \<Rightarrow> (align_error, u32) result" where
  "max_section_align e swapped m p 0 align = Ok align"
| "max_section_align e swapped m p (Suc n) align =
     bind (read_bytes m p sizeof_section_32) (\<lambda>b.
       let s = load_section_32 e b;
           s = (if swapped then hd (swap_section 1 [s]) else s)
       in max_section_align e swapped m (p + sizeof_section_32) n
            (if s_align s > align then s_align s else align))"

fun max_section_64_align :: "endian \<Rightarrow> bool \<Rightarrow> bytes \<Rightarrow> nat \<Rightarrow> nat \<Rightarrow> u32 \<Rightarrow> (align_error, u32) result" where
  "max_section_64_align e swapped m p 0 align = Ok align"
| "max_section_64_align e swapped m p (Suc n) align =
     bind (read_bytes m p sizeof_section_64) (\<lambda>b.
       let s = load_section_64 e b;
           s = (if swapped then hd (swap_section_64 1 [s]) else s)
       in max_section_64_align e swapped m (p + sizeof_section_64) n
            (if s64_align s > align then s64_align s else align))"

definition segment_align :: "endian \<Rightarrow> bool \<Rightarrow> u32 \<Rightarrow> bytes \<Rightarrow> nat \<Rightarrow> (align_error, u32) result" where
  "segment_align e swapped filetype m lcp =
     bind (read_bytes m lcp sizeof_segment_command) (\<lambda>b.
       let sg = load_segment_command e b;
           sg = (if swapped then swap_segment_command sg else sg)
       in if filetype = MH_OBJECT then
            max_section_align e swapped m (lcp + sizeof_segment_command) (unat (sg_nsects sg)) MINSEGALIGN32
          else guessed (guess_align (ucast (sg_vmaddr sg)) MINSEGALIGN32 MAXSEGALIGN))"

text \<open>This case reads the file type from the 64-bit header, which a 32-bit file does not have.\<close>

definition segment_64_align :: "endian \<Rightarrow> bool \<Rightarrow> mach_header_64 option \<Rightarrow> bytes \<Rightarrow> nat \<Rightarrow>
    (align_error, u32) result" where
  "segment_64_align e swapped mhp64 m lcp =
     bind (read_bytes m lcp sizeof_segment_command_64) (\<lambda>b.
       let sg = load_segment_command_64 e b;
           sg = (if swapped then swap_segment_command_64 sg else sg)
       in case mhp64 of
            None \<Rightarrow> Fault
          | Some mh \<Rightarrow>
              if mh64_filetype mh = MH_OBJECT then
                max_section_64_align e swapped m (lcp + sizeof_segment_command_64) (unat (sg64_nsects sg))
                  MINSEGALIGN64
              else guessed (guess_align (sg64_vmaddr sg) MINSEGALIGN64 MAXSEGALIGN))"

text \<open>
  The loop over the load commands.  The result is the least alignment and how often the
  message about a size that is not a multiple of four was given, which does not end the
  tool.
\<close>

fun align_commands :: "endian \<Rightarrow> bool \<Rightarrow> u32 \<Rightarrow> mach_header_64 option \<Rightarrow> bytes \<Rightarrow> nat \<Rightarrow>
    nat \<Rightarrow> nat \<Rightarrow> nat \<Rightarrow> u32 \<Rightarrow> nat \<Rightarrow> (align_error, u32 \<times> nat) result" where
  "align_commands e swapped filetype mhp64 m cmds_end 0 i lcp cur_align errors = Ok (cur_align, errors)"
| "align_commands e swapped filetype mhp64 m cmds_end (Suc n) i lcp cur_align errors =
     bind (read_bytes m lcp sizeof_load_command) (\<lambda>b.
       let l = load_load_command e b;
           l = (if swapped then swap_load_command l else l);
           cmdsize = unat (lc_cmdsize l);
           errors = (if cmdsize mod 4 \<noteq> 0 then Suc errors else errors)
       in bind (guard (cmdsize \<noteq> 0) (Command_zero_size i)) (\<lambda>_.
          bind (guard (lcp + cmdsize \<le> cmds_end) (Command_past_end i)) (\<lambda>_.
          bind (if lc_cmd l = LC_SEGMENT then segment_align e swapped filetype m lcp
                else if lc_cmd l = LC_SEGMENT_64 then segment_64_align e swapped mhp64 m lcp
                else Ok MAXSEGALIGN) (\<lambda>align.
            align_commands e swapped filetype mhp64 m cmds_end n (Suc i) (lcp + cmdsize)
              (if align < cur_align then align else cur_align) errors))))"

definition get_seg_align :: "endian \<Rightarrow> mach_header option \<Rightarrow> mach_header_64 option \<Rightarrow> bytes \<Rightarrow> nat \<Rightarrow>
    bool \<Rightarrow> u64 \<Rightarrow> (align_error, u32 \<times> nat) result" where
  "get_seg_align e mhp mhp64 m load_commands swapped sz =
     (case (mhp, mhp64) of
        (None, None) \<Rightarrow> Fault
      | (Some mh, Some _) \<Rightarrow>
          bind (guard (unat (mh_sizeofcmds mh) + sizeof_mach_header \<le> unat sz) Commands_past_file) (\<lambda>_.
            Error Both_headers)
      | (Some mh, None) \<Rightarrow>
          bind (guard (unat (mh_sizeofcmds mh) + sizeof_mach_header \<le> unat sz) Commands_past_file) (\<lambda>_.
            align_commands e swapped (mh_filetype mh) None m (load_commands + unat (mh_sizeofcmds mh))
              (unat (mh_ncmds mh)) 0 load_commands MAXSEGALIGN 0)
      | (None, Some mh) \<Rightarrow>
          bind (guard (unat (mh64_sizeofcmds mh) + sizeof_mach_header_64 \<le> unat sz) Commands_past_file) (\<lambda>_.
            align_commands e swapped (mh64_filetype mh) (Some mh) m
              (load_commands + unat (mh64_sizeofcmds mh)) (unat (mh64_ncmds mh)) 0 load_commands
              MAXSEGALIGN 0))"

section \<open>The guess is the number of trailing zeros\<close>

lemma single_bit_and: "(2 :: u64) ^ j AND v = 0 \<longleftrightarrow> \<not> bit v j"
  by (simp add: and.commute [of _ v] and_exp_eq_0_iff_not_bit)

lemma align_loop_from:
  assumes "bit v k" and "\<And>j. j < k \<Longrightarrow> \<not> bit v j" and "j \<le> k"
  shows "align_loop v (2 ^ j) (of_nat j) = Some (of_nat k)"
  using assms(3)
proof (induction "k - j" arbitrary: j)
  case 0
  then show ?case
    using assms(1) by (subst align_loop.simps) (simp add: single_bit_and)
next
  case (Suc n)
  have "\<not> bit v j" using Suc assms(2) by simp
  moreover have "align_loop v (2 ^ Suc j) (of_nat (Suc j)) = Some (of_nat k)"
    using Suc by (intro Suc.hyps(1)) auto
  ultimately show ?case
    by (subst align_loop.simps) (simp add: single_bit_and push_bit_eq_mult mult.commute add.commute)
qed

lemma lowest_bit:
  fixes v :: "'a::len word"
  assumes "v \<noteq> 0"
  obtains k where "k < LENGTH('a)" "bit v k" "\<And>j. j < k \<Longrightarrow> \<not> bit v j"
proof -
  obtain n where "bit v n" using assms by (auto simp: bit_eq_iff)
  then have "bit v (LEAST n. bit v n)" by (rule LeastI)
  moreover have "\<not> bit v j" if "j < (LEAST n. bit v n)" for j using that by (rule not_less_Least)
  moreover have "(LEAST n. bit v n) < LENGTH('a)" using calculation(1) by (rule bit_imp_le_length)
  ultimately show ?thesis using that by blast
qed

lemma dvd_iff_bits: "2 ^ n dvd unat (v :: u64) \<longleftrightarrow> (\<forall>j < n. \<not> bit v j)"
proof -
  have "2 ^ n dvd unat v \<longleftrightarrow> take_bit n (unat v) = 0" by (simp add: take_bit_eq_0_iff)
  also have "\<dots> \<longleftrightarrow> (\<forall>j < n. \<not> bit v j)"
    by (auto simp: bit_eq_iff bit_take_bit_iff bit_unsigned_iff dest: bit_imp_le_length)
  finally show ?thesis .
qed

lemma guess_align_exact:
  assumes "v \<noteq> 0" and "minimum \<le> maximum"
  obtains k where "k < 64" "bit v k" "\<And>j. j < k \<Longrightarrow> \<not> bit v j"
    "guess_align v minimum maximum = Some (max minimum (min maximum (of_nat k)))"
proof -
  obtain k where k: "k < 64" "bit v k" "\<And>j. j < k \<Longrightarrow> \<not> bit v j" using lowest_bit [OF assms(1)] by (auto simp del: bit_0)
  have "align_loop v 1 0 = Some (of_nat k)" using align_loop_from [OF k(2,3), of 0] by simp
  then have "guess_align v minimum maximum = Some (max minimum (min maximum (of_nat k)))"
    using assms by (auto simp: guess_align_def Let_def max_def min_def not_less)
  then show ?thesis using that k by blast
qed

lemma guess_align_range:
  assumes "minimum \<le> maximum"
  shows "\<exists>a. guess_align v minimum maximum = Some a \<and> minimum \<le> a \<and> a \<le> maximum"
proof (cases "v = 0")
  case True
  then show ?thesis using assms by (simp add: guess_align_def)
next
  case False
  then show ?thesis using guess_align_exact [OF False assms] assms by (metis max.cobounded1 max.boundedI min.cobounded1)
qed

lemma guessed_range:
  assumes "guessed (guess_align v minimum maximum) = Ok a" and "minimum \<le> maximum"
  shows "minimum \<le> a"
  using assms guess_align_range [OF assms(2), of v] by (auto simp: guessed_def)

lemma max_section_align_mono:
  "max_section_align e swapped m p n align = Ok a \<Longrightarrow> align \<le> a"
  "max_section_64_align e swapped m p n align = Ok a \<Longrightarrow> align \<le> a"
proof (induction n arbitrary: p align)
  case (Suc n)
  { case 1
    then show ?case using Suc.IH(1) by (fastforce simp: bind_eq_Ok Let_def split: if_splits)
  next
    case 2
    then show ?case using Suc.IH(2) by (fastforce simp: bind_eq_Ok Let_def split: if_splits) }
qed simp_all

lemma align_commands_range:
  assumes "align_commands e swapped filetype mhp64 m cmds_end n i lcp cur errors = Ok (a, k)"
    and "2 \<le> cur" and "cur \<le> MAXSEGALIGN"
  shows "2 \<le> a \<and> a \<le> MAXSEGALIGN"
  using assms
proof (induction n arbitrary: i lcp cur errors)
  case 0
  then show ?case by simp
next
  case (Suc n)
  have at_least: "2 \<le> b" if "segment_align e swapped filetype m lcp = Ok b" for b
    using that guessed_range [of _ MINSEGALIGN32] max_section_align_mono(1)
    by (fastforce simp: segment_align_def bind_eq_Ok Let_def split: if_splits)
  have "3 \<le> b" if "segment_64_align e swapped mhp64 m lcp = Ok b" for b
    using that guessed_range [of _ MINSEGALIGN64] max_section_align_mono(2)
    by (fastforce simp: segment_64_align_def bind_eq_Ok Let_def split: if_splits option.splits)
  then have "2 \<le> b" if "segment_64_align e swapped mhp64 m lcp = Ok b" for b
    using that order_trans [of "2 :: u32" 3 b] by simp
  with at_least Suc show ?case
    by (auto simp: bind_eq_Ok Let_def split: if_splits)
qed

lemma get_seg_align_range:
  assumes "get_seg_align e mhp mhp64 m load_commands swapped sz = Ok (a, k)"
  shows "2 \<le> a \<and> a \<le> MAXSEGALIGN"
  using assms align_commands_range
  by (fastforce simp: get_seg_align_def bind_eq_Ok split: option.splits)

section \<open>Properties\<close>

text \<open>
  C36.  \<open>guess_align\<close> ends for every address; its result lies between the bounds, the address
  is a multiple of that power of two unless the lower bound forced it, and of no higher
  one unless the upper bound did.
\<close>

theorem guess_align_correct:
  assumes "minimum \<le> maximum"
  shows "\<exists>a. guess_align v minimum maximum = Some a \<and> minimum \<le> a \<and> a \<le> maximum \<and>
           (minimum < a \<longrightarrow> 2 ^ unat a dvd unat v \<or> v = 0) \<and>
           (a < maximum \<longrightarrow> \<not> 2 ^ Suc (unat a) dvd unat v)"
proof (cases "v = 0")
  case True
  then show ?thesis using assms by (simp add: guess_align_def)
next
  case False
  obtain k where k: "k < 64" "bit v k" "\<And>j. j < k \<Longrightarrow> \<not> bit v j"
      "guess_align v minimum maximum = Some (max minimum (min maximum (of_nat k)))"
    using guess_align_exact [OF False assms] by blast
  let ?a = "max minimum (min maximum (of_nat k :: u32))"
  have small: "unat (of_nat k :: u32) = k"
    using k(1) by (simp add: unsigned_of_nat take_bit_nat_eq_self)
  have "2 ^ unat ?a dvd unat v" if "minimum < ?a"
  proof -
    have "unat ?a \<le> k"
      using that small by (auto simp: max_def min_def word_le_nat_alt split: if_splits)
    then show ?thesis unfolding dvd_iff_bits using k(3) by auto
  qed
  moreover have "\<not> 2 ^ Suc (unat ?a) dvd unat v" if "?a < maximum"
  proof -
    have "k \<le> unat ?a"
      using that small by (auto simp: max_def min_def word_le_nat_alt word_less_nat_alt split: if_splits)
    then show ?thesis unfolding dvd_iff_bits using k(2) le_imp_less_Suc by blast
  qed
  moreover have "minimum \<le> ?a" "?a \<le> maximum" using assms by auto
  ultimately show ?thesis using k(4) by blast
qed

theorem guess_align_correct_witness: "\<exists>a. guess_align 0x100003000 3 15 = Some a \<and> a \<le> 15"
  using guess_align_correct [of 3 15 "0x100003000"] by auto

text \<open>
  The alignment that \<open>get_seg_align\<close> returns is from 2 to 15, so the shift \<open>1 << align\<close> of
  the callers is defined.
\<close>

theorem get_seg_align_bounded:
  assumes "get_seg_align e mhp mhp64 m load_commands swapped sz = Ok (a, k)"
  shows "2 \<le> a \<and> a \<le> 15"
  by (rule get_seg_align_range [OF assms])

text \<open>A 32-bit header, and a 64-bit segment behind it.\<close>

definition align_header :: mach_header where
  "align_header = load_mach_header Little (put32 Little MH_MAGIC @ put32 Little 7 @ put32 Little 3 @
     put32 Little 2 @ put32 Little 1 @ put32 Little 72 @ put32 Little 0)"

definition align_commands_64 :: bytes where
  "align_commands_64 = put32 Little LC_SEGMENT_64 @ put32 Little 72 @ replicate 64 0"

theorem get_seg_align_bounded_witness:
  "\<exists>a k. get_seg_align Little (Some align_header) None
     (put32 Little LC_UUID @ put32 Little 72 @ replicate 64 0) 0 False 200 = Ok (a, k) \<and> 2 \<le> a"
proof -
  have *: "get_seg_align Little (Some align_header) None (put32 Little LC_UUID @ put32 Little 72 @ replicate 64 0)
      0 False 200 = Ok (15, 0)"
    by code_simp
  from get_seg_align_bounded [OF *] * show ?thesis by blast
qed

text \<open>
  A 32-bit object file that contains a 64-bit segment command makes \<open>get_seg_align\<close> read
  through the null pointer that stands for the 64-bit header.
\<close>

theorem segment_64_null_pointer:
  "get_seg_align Little (Some align_header) None align_commands_64 0 False 200 = Fault"
  by code_simp

end
