(* ===== verification/Lipo_Archive.thy ===== *)
theory Lipo_Archive
  imports Seg_Align Toc_Byte_Sex Arch
begin

text \<open>
  The part of \<open>misc/lipo.c\<close> that looks into its input: the type of a Mach-O file
  (\<open>get_mh_filetype\<close>) and the members of an archive (\<open>check_archive\<close>,
  \<open>check_extend_format_1\<close>, \<open>size_ar_name\<close>).

  The archive is the byte buffer \<open>m\<close>, its size the length of \<open>m\<close> as a 64-bit word, and
  offsets are 64-bit words.  Two things outside of the sources are arguments: \<open>lto\<close> is
  \<open>is_llvm_bitcode_from_memory\<close>, which asks a library that is loaded at run time (the file,
  where the member starts, its size; \<open>None\<close> for no bitcode), and \<open>erange\<close> says whether
  \<open>errno\<close> is \<open>ERANGE\<close> when the length of an extended name was read.
\<close>

section \<open>Errors of the tool\<close>

datatype lipo_error =
    Align_error align_error
  | Empty_archive
  | First_member_past_end
  | Name_no_digit
  | Name_size_overflow
  | Name_size_not_number
  | Name_past_end
  | Member_is_fat nat
  | Member_differs nat
  | Arch_for_fat_file
  | Fat_archs_past_end
  | Slice_past_end u32 u32
  | Slice_align_too_large u32 u32
  | Slice_not_aligned u32 u32
  | Same_architecture u32 u32
  | File_too_large u64
  | Archive_without_arch
  | Unknown_file_type
  | Arch_does_not_match u32 u32
  | Replacement_is_fat
  | Replacement_does_not_match
  | Specified_twice u32 u32
  | Not_in_file u32 u32
  | Empty_result
  | Offset_too_large u64
  | Hide_not_executable
  | Hide_wrong_order
  | Not_one_input
  | Input_not_fat

type_synonym 'a lipo = "(lipo_error, 'a) result"

type_synonym lto_check = "bytes \<Rightarrow> nat \<Rightarrow> u32 \<Rightarrow> arch_flag option"

abbreviation FAT_MAGIC :: u32 where "FAT_MAGIC \<equiv> 0xcafebabe"
abbreviation FAT_MAGIC_64 :: u32 where "FAT_MAGIC_64 \<equiv> 0xcafebabf"
abbreviation CPU_ARCH_ABI64 :: u32 where "CPU_ARCH_ABI64 \<equiv> 0x01000000"

definition file_size :: "bytes \<Rightarrow> u64" where
  "file_size m = of_nat (length m)"

text \<open>\<open>strncmp (addr, s, strlen (s)) == 0\<close>, which reads up to the first difference.\<close>

fun strncmp_eq :: "bytes \<Rightarrow> nat \<Rightarrow> bytes \<Rightarrow> ('err, bool) result" where
  "strncmp_eq m p [] = Ok True"
| "strncmp_eq m p (c # cs) =
     (if length m \<le> p then Fault
      else if m ! p \<noteq> c then Ok False
      else strncmp_eq m (Suc p) cs)"

definition ARMAG :: bytes where
  "ARMAG = [0x21, 0x3c, 0x61, 0x72, 0x63, 0x68, 0x3e, 0x0a]"

definition AR_EFMT1 :: bytes where
  "AR_EFMT1 = [0x23, 0x31, 0x2f]"

definition SYMDEF :: bytes where
  "SYMDEF = [0x5f, 0x5f, 0x2e, 0x53, 0x59, 0x4d, 0x44, 0x45, 0x46]"

text \<open>The tests for a fat file compare with a constant that depends on the byte order of the host.\<close>

definition is_fat_magic :: "endian \<Rightarrow> u32 \<Rightarrow> u32 \<Rightarrow> bool" where
  "is_fat_magic e fat_magic w \<longleftrightarrow> w = (case e of Big \<Rightarrow> fat_magic | Little \<Rightarrow> SWAP_INT fat_magic)"

section \<open>The type of a file\<close>

text \<open>The 64-bit branch asks for the swapped 32-bit magic number before it swaps.\<close>

definition get_mh_filetype :: "endian \<Rightarrow> bytes \<Rightarrow> nat \<Rightarrow> u64 \<Rightarrow> u32 lipo" where
  "get_mh_filetype e m addr sz =
     (if sz \<ge> 4 then
        bind (read_u32 e m addr) (\<lambda>magic.
          if magic = MH_MAGIC \<or> magic = SWAP_INT MH_MAGIC then
            if unat sz \<ge> sizeof_mach_header then
              bind (read_bytes m addr sizeof_mach_header) (\<lambda>b.
                let mh32 = load_mach_header e b;
                    mh32 = (if magic = SWAP_INT MH_MAGIC then swap_mach_header mh32 else mh32)
                in Ok (mh_filetype mh32))
            else Ok 0
          else if magic = MH_MAGIC_64 \<or> magic = SWAP_INT MH_MAGIC_64 then
            if unat sz \<ge> sizeof_mach_header_64 then
              bind (read_bytes m addr sizeof_mach_header_64) (\<lambda>b.
                let mh64 = load_mach_header_64 e b;
                    mh64 = (if magic = SWAP_INT MH_MAGIC then swap_mach_header_64 mh64 else mh64)
                in Ok (mh64_filetype mh64))
            else Ok 0
          else Ok 0)
      else Ok 0)"

section \<open>Archives\<close>

text \<open>The number of characters before a blank, sixteen at most; \<open>n\<close> are left to look at.\<close>

fun size_ar_name :: "bytes \<Rightarrow> nat \<Rightarrow> nat \<Rightarrow> nat lipo" where
  "size_ar_name m p 0 = Ok 0"
| "size_ar_name m p (Suc n) =
     (if length m \<le> p then Fault
      else if m ! p = 0x20 then Ok 0
      else bind (size_ar_name m (Suc p) n) (\<lambda>j. Ok (Suc j)))"

text \<open>The sixteen characters of the name are copied and terminated.\<close>

definition check_extend_format_1 :: "bool \<Rightarrow> bytes \<Rightarrow> u64 \<Rightarrow> u32 lipo" where
  "check_extend_format_1 erange ar_name size_left =
     (let buf = cstring (ar_name @ [0]) 3;
          (v, endp) = strtoul buf;
          name_size = ucast v :: u32
      in bind (guard (buf \<noteq> [] \<and> isdigit (hd buf)) Name_no_digit) (\<lambda>_.
         bind (guard (\<not> (name_size = - 1 \<and> erange)) Name_size_overflow) (\<lambda>_.
         bind (guard (dropWhile (\<lambda>c. c = CHR '' '') endp = []) Name_size_not_number) (\<lambda>_.
         bind (guard (ucast name_size \<le> size_left) Name_past_end) (\<lambda>_.
           Ok name_size)))))"

text \<open>
  Members seen so far have a cputype and a cpusubtype, zero if there was none.  A Mach-O
  member must have the same cputype; on some processors also the same cpusubtype.
\<close>

type_synonym seen = "u32 \<times> u32"

definition member_arch :: "(u32 \<Rightarrow> bool) \<Rightarrow> nat \<Rightarrow> seen \<Rightarrow> u32 \<Rightarrow> u32 \<Rightarrow> seen lipo" where
  "member_arch subtype_matters name_size seen cputype cpusubtype =
     (if fst seen = 0 then Ok (cputype, cpusubtype)
      else if fst seen \<noteq> cputype then Error (Member_differs name_size)
      else if subtype_matters cputype \<and> snd seen \<noteq> cpusubtype then Error (Member_differs name_size)
      else Ok seen)"

definition mach_header_at :: "endian \<Rightarrow> bytes \<Rightarrow> nat \<Rightarrow> mach_header lipo" where
  "mach_header_at e m p =
     bind (read_bytes m p sizeof_mach_header) (\<lambda>b.
       let mh = load_mach_header e b
       in Ok (if mh_magic mh = SWAP_INT MH_MAGIC then swap_mach_header mh else mh))"

definition mach_header_64_at :: "endian \<Rightarrow> bytes \<Rightarrow> nat \<Rightarrow> mach_header_64 lipo" where
  "mach_header_64_at e m p =
     bind (read_bytes m p sizeof_mach_header_64) (\<lambda>b.
       let mh64 = load_mach_header_64 e b
       in Ok (if mh64_magic mh64 = SWAP_INT MH_MAGIC_64 then swap_mach_header_64 mh64 else mh64))"

text \<open>What is neither a fat file nor an object: bitcode, or any other file, which is ignored.\<close>

definition check_other_member :: "lto_check \<Rightarrow> bytes \<Rightarrow> nat \<Rightarrow> nat \<Rightarrow> nat \<Rightarrow> u32 \<Rightarrow> nat \<Rightarrow> seen \<Rightarrow> seen lipo" where
  "check_other_member lto m ar_hdr ar_name offset name_size i seen =
     bind (strncmp_eq m ar_name SYMDEF) (\<lambda>symdef.
       if symdef then Ok seen
       else
         (case lto m (offset + unat name_size) (ucast (ar_size m ar_hdr)) of
            None \<Rightarrow> Ok seen
          | Some flag \<Rightarrow> member_arch (\<lambda>_. False) i seen (af_cputype flag) (af_cpusubtype flag)))"

definition check_member :: "endian \<Rightarrow> lto_check \<Rightarrow> bytes \<Rightarrow> nat \<Rightarrow> nat \<Rightarrow> u64 \<Rightarrow> u32 \<Rightarrow> nat \<Rightarrow> seen \<Rightarrow> seen lipo" where
  "check_member e lto m ar_hdr ar_name offset name_size i seen =
     (let sz = file_size m; p = unat offset + unat name_size;
          left = (sz - ucast name_size) - offset
      in if sz + ucast name_size - offset > 4 then
           bind (read_u32 e m p) (\<lambda>magic.
           bind (guard (\<not> is_fat_magic e FAT_MAGIC magic \<and> \<not> is_fat_magic e FAT_MAGIC_64 magic)
                   (Member_is_fat i)) (\<lambda>_.
             if unat left \<ge> sizeof_mach_header \<and> (magic = MH_MAGIC \<or> magic = SWAP_INT MH_MAGIC) then
               bind (mach_header_at e m p) (\<lambda>mh.
                 member_arch (\<lambda>t. t = CPU_TYPE_ARM) i seen (mh_cputype mh) (mh_cpusubtype mh))
             else if unat left \<ge> sizeof_mach_header_64 \<and>
                     (magic = MH_MAGIC_64 \<or> magic = SWAP_INT MH_MAGIC_64) then
               bind (mach_header_64_at e m p) (\<lambda>mh64.
                 member_arch (\<lambda>t. t = CPU_TYPE_X86_64 \<or> t = CPU_TYPE_ARM64) i seen
                   (mh64_cputype mh64) (mh64_cpusubtype mh64))
             else check_other_member lto m ar_hdr ar_name (unat offset) name_size i seen))
         else Ok seen)"

text \<open>
  The loop over the members.  Nothing makes sure that it ends: \<open>None\<close> is a loop that goes on
  for ever.
\<close>

definition member_name :: "bool \<Rightarrow> bytes \<Rightarrow> nat \<Rightarrow> u64 \<Rightarrow> (u32 \<times> nat \<times> nat) lipo" where
  "member_name erange m ar_hdr offset =
     bind (strncmp_eq m ar_hdr AR_EFMT1) (\<lambda>extended.
       if extended then
         bind (read_bytes m ar_hdr 16) (\<lambda>name.
         bind (check_extend_format_1 erange name (file_size m - offset)) (\<lambda>n.
           Ok (n, unat n, ar_hdr + sizeof_ar_hdr)))
       else bind (size_ar_name m ar_hdr 16) (\<lambda>i. Ok (0, i, ar_hdr)))"

partial_function (option) check_members :: "endian \<Rightarrow> lto_check \<Rightarrow> bool \<Rightarrow> bytes \<Rightarrow> u64 \<Rightarrow> seen \<Rightarrow>
    seen lipo option" where
  "check_members e lto erange m offset seen =
     (if file_size m > offset then
        (let ar_hdr = unat offset; body = offset + 60
         in case bind (member_name erange m ar_hdr body) (\<lambda>(name_size, i, ar_name).
                   check_member e lto m ar_hdr ar_name body name_size i seen) of
              Ok seen' \<Rightarrow> check_members e lto erange m (body + rnd64 (ar_size m ar_hdr) 2) seen'
            | Error err \<Rightarrow> Some (Error err)
            | Fault \<Rightarrow> Some Fault)
      else Some (Ok seen))"

definition check_archive :: "endian \<Rightarrow> lto_check \<Rightarrow> bool \<Rightarrow> bytes \<Rightarrow> seen lipo option" where
  "check_archive e lto erange m =
     (if file_size m = 8 then Some (Error Empty_archive)
      else if 8 + 60 > file_size m then Some (Error First_member_past_end)
      else check_members e lto erange m 8 (0, 0))"

section \<open>The members of an accepted archive\<close>

text \<open>Where the loop finds members when it starts at \<open>start\<close>.\<close>

inductive member_offset :: "bytes \<Rightarrow> u64 \<Rightarrow> u64 \<Rightarrow> bool" for m start where
  first: "member_offset m start start"
| later: "member_offset m start offset \<Longrightarrow> file_size m > offset \<Longrightarrow>
     member_offset m start (offset + 60 + rnd64 (ar_size m (unat offset)) 2)"

lemma member_offset_step:
  assumes "member_offset m start offset" and "file_size m > start" and "offset \<noteq> start"
  shows "member_offset m (start + 60 + rnd64 (ar_size m (unat start)) 2) offset"
  using assms
proof (induction rule: member_offset.induct)
  case first
  then show ?case by simp
next
  case (later offset)
  then show ?case
    by (cases "offset = start") (auto intro: member_offset.intros)
qed

text \<open>One round of the loop, and the cputype of an object member.\<close>

definition check_round :: "endian \<Rightarrow> lto_check \<Rightarrow> bool \<Rightarrow> bytes \<Rightarrow> u64 \<Rightarrow> seen \<Rightarrow> seen lipo" where
  "check_round e lto erange m offset seen =
     bind (member_name erange m (unat offset) (offset + 60)) (\<lambda>(name_size, i, ar_name).
       check_member e lto m (unat offset) ar_name (offset + 60) name_size i seen)"

definition member_cputype :: "endian \<Rightarrow> bool \<Rightarrow> bytes \<Rightarrow> u64 \<Rightarrow> u32 option" where
  "member_cputype e erange m offset =
     (case member_name erange m (unat offset) (offset + 60) of
        Ok (name_size, i, ar_name) \<Rightarrow>
          (let p = unat (offset + 60) + unat name_size;
               left = (file_size m - ucast name_size) - (offset + 60);
               magic = get32 e m p
           in if \<not> file_size m + ucast name_size - (offset + 60) > 4 then None
              else if unat left \<ge> sizeof_mach_header \<and> (magic = MH_MAGIC \<or> magic = SWAP_INT MH_MAGIC) then
                (case mach_header_at e m p of Ok mh \<Rightarrow> Some (mh_cputype mh) | _ \<Rightarrow> None)
              else if unat left \<ge> sizeof_mach_header_64 \<and>
                  (magic = MH_MAGIC_64 \<or> magic = SWAP_INT MH_MAGIC_64) then
                (case mach_header_64_at e m p of Ok mh \<Rightarrow> Some (mh64_cputype mh) | _ \<Rightarrow> None)
              else None)
      | _ \<Rightarrow> None)"

lemma member_arch_Ok:
  assumes "member_arch P i seen t s = Ok seen'"
  shows "fst seen' = t" and "fst seen = 0 \<or> fst seen = fst seen'"
  using assms by (auto simp: member_arch_def split: if_splits)

lemma read_u32_Ok [simp]: "read_u32 e m p = Ok w \<longleftrightarrow> p + 4 \<le> length m \<and> w = get32 e m p"
  by (auto simp: read_u32_def)

lemma check_round_Ok:
  assumes "check_round e lto erange m offset seen = Ok seen'"
  shows "fst seen = 0 \<or> fst seen = fst seen'"
    and "member_cputype e erange m offset = Some c \<Longrightarrow> fst seen' = c"
proof -
  obtain name_size i ar_name where name: "member_name erange m (unat offset) (offset + 60) = Ok (name_size, i, ar_name)"
      and member: "check_member e lto m (unat offset) ar_name (offset + 60) name_size i seen = Ok seen'"
    using assms by (auto simp: check_round_def bind_eq_Ok)
  show "fst seen = 0 \<or> fst seen = fst seen'"
    using member
    by (auto simp: check_member_def check_other_member_def bind_eq_Ok Let_def
        split: if_splits option.splits dest: member_arch_Ok(2))
  show "fst seen' = c" if "member_cputype e erange m offset = Some c"
    using that name member
    by (auto simp: member_cputype_def check_member_def bind_eq_Ok Let_def
        split: if_splits result.splits dest: member_arch_Ok(1))
qed

lemma check_members_unfold:
  "check_members e lto erange m offset seen =
     (if file_size m > offset then
        (case check_round e lto erange m offset seen of
           Ok seen' \<Rightarrow> check_members e lto erange m
                          (offset + 60 + rnd64 (ar_size m (unat offset)) 2) seen'
         | Error err \<Rightarrow> Some (Error err)
         | Fault \<Rightarrow> Some Fault)
      else Some (Ok seen))"
  by (subst check_members.simps) (simp add: check_round_def Let_def)

lemma check_members_sound:
  assumes "check_members e lto erange m offset seen = Some (Ok r)"
  shows "(fst seen = 0 \<or> fst seen = fst r) \<and>
    (\<forall>p c. member_offset m offset p \<longrightarrow> file_size m > p \<longrightarrow> member_cputype e erange m p = Some c \<longrightarrow>
       c = 0 \<and> fst seen = 0 \<or> c = fst r)"
proof -
  define P where "P e erange m offset seen x \<longleftrightarrow> (\<forall>r. x = Ok r \<longrightarrow>
      (fst seen = 0 \<or> fst seen = fst r) \<and>
      (\<forall>p c. member_offset m offset p \<longrightarrow> file_size m > p \<longrightarrow> member_cputype e erange m p = Some c \<longrightarrow>
         c = 0 \<and> fst seen = 0 \<or> c = fst r))" for e erange m offset and seen :: seen and x :: "seen lipo"
  have "P e erange m offset seen (Ok r)"
  proof (rule check_members.raw_induct
      [where P = "\<lambda>e lto erange m offset seen x. P e erange m offset seen x", OF _ assms])
    fix rec e lto erange m offset seen x
    assume IH: "\<And>e lto erange m offset seen x.
        rec e lto erange m offset seen = Some x \<Longrightarrow> P e erange m offset seen x"
      and body: "(if file_size m > offset then
          (let ar_hdr = unat offset; body = offset + 60
           in case bind (member_name erange m ar_hdr body) (\<lambda>(name_size, i, ar_name).
                     check_member e lto m ar_hdr ar_name body name_size i seen) of
                Ok seen' \<Rightarrow> rec e lto erange m (body + rnd64 (ar_size m ar_hdr) 2) seen'
              | Error err \<Rightarrow> Some (Error err)
              | Fault \<Rightarrow> Some Fault)
        else Some (Ok seen)) = Some x"
    show "P e erange m offset seen x"
      unfolding P_def
    proof (intro allI impI)
      fix r assume x: "x = Ok r"
      show "(fst seen = 0 \<or> fst seen = fst r) \<and>
        (\<forall>p c. member_offset m offset p \<longrightarrow> file_size m > p \<longrightarrow> member_cputype e erange m p = Some c \<longrightarrow>
           c = 0 \<and> fst seen = 0 \<or> c = fst r)"
      proof (cases "file_size m > offset")
        case False
        have "p = offset" if "member_offset m offset p" "file_size m > p" for p
          using that False by (induction rule: member_offset.induct) auto
        then show ?thesis using body x False by auto
      next
        case True
        let ?next = "offset + 60 + rnd64 (ar_size m (unat offset)) 2"
        obtain seen' where round: "check_round e lto erange m offset seen = Ok seen'"
            and rest: "rec e lto erange m ?next seen' = Some (Ok r)"
          using body True x by (auto simp: check_round_def Let_def split: result.splits)
        have IH': "fst seen' = 0 \<or> fst seen' = fst r"
            "\<And>p c. member_offset m ?next p \<Longrightarrow> file_size m > p \<Longrightarrow> member_cputype e erange m p = Some c \<Longrightarrow>
               c = 0 \<and> fst seen' = 0 \<or> c = fst r"
          using IH [OF rest] by (auto simp: P_def)
        show ?thesis
          using check_round_Ok [OF round] IH' member_offset_step [OF _ True] by metis
      qed
    qed
  qed
  then show ?thesis by (simp add: P_def)
qed

section \<open>Properties\<close>

text \<open>From a member on, the loop goes on with what it has seen there.\<close>

lemma check_members_at:
  assumes "member_offset m start p" and "check_members e lto erange m start seen = Some (Ok r)" and "p < file_size m"
  shows "\<exists>seen'. check_members e lto erange m p seen' = Some (Ok r)"
  using assms
proof (induction rule: member_offset.induct)
  case (later offset)
  obtain seen' where at: "check_members e lto erange m offset seen' = Some (Ok r)"
    using later.IH [OF later.prems(1) later.hyps(2)] by blast
  show ?case
    using at later.hyps(2) by (subst (asm) check_members_unfold) (auto split: result.splits)
qed blast

lemma check_members_after:
  assumes "check_members e lto erange m p seen = Some (Ok r)" and "p < file_size m"
    and "member_cputype e erange m p = Some c" and "c \<noteq> 0"
    and "member_offset m p p'" and "p' < file_size m" and "member_cputype e erange m p' = Some c'"
  shows "c' = fst r"
proof -
  let ?next = "p + 60 + rnd64 (ar_size m (unat p)) 2"
  obtain seen' where round: "check_round e lto erange m p seen = Ok seen'"
      and rest: "check_members e lto erange m ?next seen' = Some (Ok r)"
    using assms(1,2) by (subst (asm) check_members_unfold) (auto split: result.splits)
  have c: "fst seen' = c" by (rule check_round_Ok(2) [OF round assms(3)])
  show ?thesis
  proof (cases "p' = p")
    case True
    then show ?thesis using check_members_sound [OF rest] assms(3,4,7) c by auto
  next
    case False
    then have "member_offset m ?next p'" using member_offset_step [OF assms(5,2)] by simp
    then show ?thesis using check_members_sound [OF rest] assms(4,6,7) c by auto
  qed
qed

text \<open>
  C34.  In an archive that \<open>check_archive\<close> accepts, every Mach-O member that the loop finds has the returned cputype or
  the cputype 0, which the loop does not tell from no member at all: from the first member with another cputype on, every
  Mach-O member has the returned one.
\<close>

theorem archive_members_agree:
  assumes "check_archive e lto erange m = Some (Ok (cputype, cpusubtype))"
    and "member_offset m 8 p" and "p < file_size m" and "member_cputype e erange m p = Some c"
  shows "(c = 0 \<or> c = cputype) \<and>
    (c \<noteq> 0 \<longrightarrow> (\<forall>p' c'. member_offset m p p' \<and> p' < file_size m \<and> member_cputype e erange m p' = Some c' \<longrightarrow> c' = cputype))"
proof -
  have all: "check_members e lto erange m 8 (0, 0) = Some (Ok (cputype, cpusubtype))"
    using assms(1) by (simp add: check_archive_def split: if_splits)
  obtain seen where at: "check_members e lto erange m p seen = Some (Ok (cputype, cpusubtype))"
    using check_members_at [OF assms(2) all assms(3)] by blast
  show ?thesis
    using check_members_sound [OF all] check_members_after [OF at assms(3,4)] assms(2-4) by auto
qed

text \<open>An archive of one member, given the field with its size.\<close>

definition ar_field :: "nat \<Rightarrow> string \<Rightarrow> bytes" where
  "ar_field n s = map (\<lambda>c. of_nat (of_char c)) s @ replicate (n - length s) 0x20"

definition one_member :: "string \<Rightarrow> bytes \<Rightarrow> bytes" where
  "one_member size_field contents =
     ARMAG @ ar_field 16 ''a.o'' @ ar_field 32 '''' @ ar_field 10 size_field @ [0x60, 0x0a] @ contents"

definition object_member :: bytes where
  "object_member =
     put32 Little MH_MAGIC @ put32 Little 7 @ put32 Little 3 @ put32 Little 1 @ replicate 12 0"

lemmas strtoul_simps =
  strtoul_def isspace_def isdigit_def digits_value_def digit_value_def ULONG_MAX_def

lemma object_archive_facts:
  "file_size (one_member ''28'' object_member) = 96"
  "ar_size (one_member ''28'' object_member) 8 = 28"
  "check_round Little (\<lambda>_ _ _. None) False (one_member ''28'' object_member) 8 (0, 0) = Ok (7, 3)"
  "member_cputype Little False (one_member ''28'' object_member) 8 = Some 7"
proof -
  have "cstring (one_member ''28'' object_member) 56 =
      ''28        `'' @ drop 11 (cstring (one_member ''28'' object_member) 56)"
    by code_simp
  then have "fst (strtoul (cstring (one_member ''28'' object_member) 56)) =
      fst (strtoul (''28        `'' @ drop 11 (cstring (one_member ''28'' object_member) 56)))"
    by (rule arg_cong)
  then show "ar_size (one_member ''28'' object_member) 8 = 28"
    by (simp add: ar_size_def strtoul_simps)
  show "file_size (one_member ''28'' object_member) = 96"
    "check_round Little (\<lambda>_ _ _. None) False (one_member ''28'' object_member) 8 (0, 0) = Ok (7, 3)"
    "member_cputype Little False (one_member ''28'' object_member) 8 = Some 7"
    by code_simp+
qed

theorem archive_members_agree_witness:
  "\<exists>cputype cpusubtype.
     check_archive Little (\<lambda>_ _ _. None) False (one_member ''28'' object_member) = Some (Ok (cputype, cpusubtype)) \<and>
     member_cputype Little False (one_member ''28'' object_member) 8 = Some cputype"
proof -
  have "check_members Little (\<lambda>_ _ _. None) False (one_member ''28'' object_member) 8 (0, 0) = Some (Ok (7, 3))"
    using object_archive_facts
    by (simp add: check_members_unfold [of _ _ _ _ 8] check_members_unfold [of _ _ _ _ 96] rnd64_def)
  then have accepted: "check_archive Little (\<lambda>_ _ _. None) False (one_member ''28'' object_member) = Some (Ok (7, 3))"
    using object_archive_facts(1) by (simp add: check_archive_def)
  moreover have "7 = (0 :: u32) \<or> member_cputype Little False (one_member ''28'' object_member) 8 = Some 7"
    using archive_members_agree [OF accepted, of 8 7] object_archive_facts member_offset.first by auto
  ultimately show ?thesis by auto
qed

text \<open>
  The size of a member is read with \<open>strtoul\<close>, which accepts a sign: a member of size
  \<open>-60\<close> takes the loop back to its own header, so \<open>check_archive\<close> never ends on an archive
  of one such member.
\<close>

theorem archive_never_ends:
  "check_archive e lto erange (one_member ''-60'' []) = None"
proof -
  let ?m = "one_member ''-60'' []"
  have "cstring ?m 56 = ''-60       `'' @ drop 11 (cstring ?m 56)"
    by code_simp
  then have "fst (strtoul (cstring ?m 56)) = fst (strtoul (''-60       `'' @ drop 11 (cstring ?m 56)))"
    by (rule arg_cong)
  then have size: "ar_size ?m 8 = - 60" by (simp add: ar_size_def strtoul_simps)
  have len: "file_size ?m = 68" by code_simp
  have name: "member_name erange ?m 8 68 = Ok (0, 3, 8)"
    unfolding member_name_def AR_EFMT1_def by code_simp
  have same: "check_round e lto erange ?m 8 seen = Ok seen" for seen
    by (simp add: check_round_def name check_member_def len Let_def)
  define P where "P e' lto' erange' m offset \<longleftrightarrow>
      \<not> (e' = e \<and> lto' = lto \<and> erange' = erange \<and> m = ?m \<and> offset = (8 :: u64))"
    for e' and lto' :: lto_check and erange' m offset
  have "P e lto erange ?m 8" if "check_members e lto erange ?m 8 seen = Some x" for seen x
  proof (rule check_members.raw_induct [where P = "\<lambda>e' lto' erange' m offset seen x.
      P e' lto' erange' m offset", OF _ that])
    fix rec e' lto' erange' m offset seen x
    assume IH: "\<And>e' lto' erange' m offset seen x. rec e' lto' erange' m offset seen = Some x \<Longrightarrow>
        P e' lto' erange' m offset"
      and body: "(if file_size m > offset then
          (let ar_hdr = unat offset; body = offset + 60
           in case bind (member_name erange' m ar_hdr body) (\<lambda>(name_size, i, ar_name).
                     check_member e' lto' m ar_hdr ar_name body name_size i seen) of
                Ok seen' \<Rightarrow> rec e' lto' erange' m (body + rnd64 (ar_size m ar_hdr) 2) seen'
              | Error err \<Rightarrow> Some (Error err)
              | Fault \<Rightarrow> Some Fault)
        else Some (Ok seen)) = Some x"
    show "P e' lto' erange' m offset"
    proof (rule ccontr)
      assume "\<not> P e' lto' erange' m offset"
      then have at: "e' = e" "lto' = lto" "erange' = erange" "m = ?m" "offset = 8" by (simp_all add: P_def)
      have "bind (member_name erange ?m 8 68) (\<lambda>(name_size, i, ar_name).
          check_member e lto ?m 8 ar_name 68 name_size i seen) = Ok seen"
        using same [of seen] by (simp add: check_round_def)
      then have "rec e lto erange ?m 8 seen = Some x"
        using body len size unfolding at by (simp add: Let_def rnd64_def)
      from IH [OF this] show False by (simp add: P_def)
    qed
  qed
  then have "check_members e lto erange ?m 8 (0, 0) \<noteq> Some x" for x
    unfolding P_def by blast
  then have "check_members e lto erange ?m 8 (0, 0) = None" by (metis not_Some_eq)
  then show ?thesis using len by (simp add: check_archive_def)
qed

text \<open>
  \<open>get_mh_filetype\<close> gives the file type of 32-bit objects of either byte order and of
  64-bit ones of the host's byte order; for a 64-bit object of the other byte order it
  gives the bytes of the file type in the wrong order.
\<close>

theorem filetype_by_byte_order:
  assumes "length m = sizeof_mach_header_64" and "magic = get32 e m 0"
  shows "(magic = MH_MAGIC \<longrightarrow> get_mh_filetype e m 0 32 = Ok (mh_filetype (load_mach_header e m))) \<and>
         (magic = SWAP_INT MH_MAGIC \<longrightarrow>
            get_mh_filetype e m 0 32 = Ok (mh_filetype (load_mach_header (flip e) m))) \<and>
         (magic = MH_MAGIC_64 \<longrightarrow> get_mh_filetype e m 0 32 = Ok (mh64_filetype (load_mach_header_64 e m))) \<and>
         (magic = SWAP_INT MH_MAGIC_64 \<longrightarrow>
            get_mh_filetype e m 0 32 = Ok (SWAP_INT (mh64_filetype (load_mach_header_64 (flip e) m))))"
proof -
  have differ: "SWAP_INT MH_MAGIC \<noteq> MH_MAGIC" "MH_MAGIC_64 \<noteq> SWAP_INT MH_MAGIC"
      "SWAP_INT MH_MAGIC_64 \<noteq> MH_MAGIC" "SWAP_INT MH_MAGIC_64 \<noteq> SWAP_INT MH_MAGIC"
    by (simp_all add: SWAP_INT_def)
  have "get_mh_filetype e m 0 32 =
      (if magic = MH_MAGIC \<or> magic = SWAP_INT MH_MAGIC then
         Ok (if magic = SWAP_INT MH_MAGIC then SWAP_INT (get32 e m 12) else get32 e m 12)
       else if magic = MH_MAGIC_64 \<or> magic = SWAP_INT MH_MAGIC_64 then Ok (get32 e m 12) else Ok 0)"
    using assms differ
    by (simp add: get_mh_filetype_def read_u32_def read_bytes_def mach_header_defs mach_header_64_defs
        byte_simps Let_def)
  then show ?thesis
    using assms differ by (simp add: mach_header_defs mach_header_64_defs byte_simps)
qed

theorem filetype_by_byte_order_witness:
  "get_mh_filetype Little (put32 Big MH_MAGIC_64 @ replicate 8 0 @ put32 Big 2 @ replicate 16 0) 0 32 =
     Ok 0x2000000"
proof -
  let ?m = "put32 Big MH_MAGIC_64 @ replicate 8 0 @ put32 Big 2 @ replicate 16 0"
  have "length ?m = sizeof_mach_header_64" "get32 Little ?m 0 = SWAP_INT MH_MAGIC_64"
      "SWAP_INT (mh64_filetype (load_mach_header_64 Big ?m)) = 0x2000000"
    by code_simp+
  then show ?thesis using filetype_by_byte_order [OF _ refl, of ?m Little] by simp
qed

end
