(* ===== verification/Lipo_Input.thy ===== *)
theory Lipo_Input
  imports Lipo_Archive
begin

text \<open>
  How \<open>misc/lipo.c\<close> reads its input: \<open>process_input_file\<close> breaks a file down into thin files,
  \<open>process_replace_file\<close> does so for the argument of \<open>-replace\<close>.  A file is its bytes; the
  mapping is private, and the headers of a fat file are swapped in it in place, so thin
  files hold the changed mapping and where they start in it.  Opening, mapping and the
  times of files are left out.  The flag \<open>archives_in_input\<close> is set but never read by the
  code; only the reads that set it are modelled.
\<close>

record thin_file =
  tf_name :: string
  tf_map :: bytes
  tf_addr :: nat
  tf_cputype :: u32
  tf_cpusubtype :: u32
  tf_offset :: u64
  tf_size :: u64
  tf_align :: u32
  tf_from_fat :: bool
  tf_extract :: bool
  tf_remove :: bool

record input_file =
  in_name :: string
  in_contents :: bytes
  in_arch_flag :: "arch_flag option"

text \<open>What \<open>process_input_file\<close> adds to the input file and to the thin files, and the errors it counted.\<close>

record input_info =
  ii_fat_header :: "fat_header option"
  ii_is_thin :: bool
  ii_raw_nfat_arch :: u32
  ii_thin_files :: "thin_file list"
  ii_errors :: nat

text \<open>The host and what is asked of it.\<close>

record lipo_env =
  le_host :: endian
  le_pagesize :: u64
  le_lto :: lto_check
  le_erange :: bool

fun lift_align :: "(align_error, 'a) result \<Rightarrow> 'a lipo" where
  "lift_align (Ok x) = Ok x"
| "lift_align (Error err) = Error (Align_error err)"
| "lift_align Fault = Fault"

definition same_arch :: "u32 \<times> u32 \<Rightarrow> u32 \<times> u32 \<Rightarrow> bool" where
  "same_arch a b \<longleftrightarrow> fst a = fst b \<and> plain (snd a) = plain (snd b)"

text \<open>The double loops that look for two of the same architecture.\<close>

fun distinct_archs :: "(u32 \<Rightarrow> u32 \<Rightarrow> lipo_error) \<Rightarrow> (u32 \<times> u32) list \<Rightarrow> unit lipo" where
  "distinct_archs err [] = Ok ()"
| "distinct_archs err (a # as) =
     (if list_ex (same_arch a) as then Error (err (fst a) (snd a)) else distinct_archs err as)"

section \<open>Fat files\<close>

definition swap_mapped_header :: "endian \<Rightarrow> bytes \<Rightarrow> bytes" where
  "swap_mapped_header e m =
     (case e of
        Big \<Rightarrow> m
      | Little \<Rightarrow> inplace load_fat_header store_fat_header swap_fat_header Little (take sizeof_fat_header m) @
                  drop sizeof_fat_header m)"

definition swap_mapped_archs :: "endian \<Rightarrow> u32 \<Rightarrow> bytes \<Rightarrow> bytes" where
  "swap_mapped_archs e n m =
     (let k = unat n * sizeof_fat_arch
      in case e of
           Big \<Rightarrow> m
         | Little \<Rightarrow> take sizeof_fat_header m @
             swap_array sizeof_fat_arch load_fat_arch store_fat_arch swap_fat_arch n Little
               (subbytes sizeof_fat_header k m) @
             drop (sizeof_fat_header + k) m)"

definition swap_mapped_archs_64 :: "endian \<Rightarrow> u32 \<Rightarrow> bytes \<Rightarrow> bytes" where
  "swap_mapped_archs_64 e n m =
     (let k = unat n * sizeof_fat_arch_64
      in case e of
           Big \<Rightarrow> m
         | Little \<Rightarrow> take sizeof_fat_header m @
             swap_array sizeof_fat_arch_64 load_fat_arch_64 store_fat_arch_64 swap_fat_arch_64 n Little
               (subbytes sizeof_fat_header k m) @
             drop (sizeof_fat_header + k) m)"

text \<open>
  The search for a hidden entry behind the last one.  On a little-endian host the swapped
  offset is assigned to another variable, and the offsets are compared as they are in the
  file.
\<close>

definition first_offset :: "endian \<Rightarrow> bytes \<Rightarrow> nat \<Rightarrow> u32" where
  "first_offset e m n =
     foldl (\<lambda>first i. let offset = get32 e m (sizeof_fat_header + sizeof_fat_arch * i + 8)
                      in if offset < first then offset else first)
       0xffffffff [0..<n]"

definition hidden_arch :: "endian \<Rightarrow> bytes \<Rightarrow> u32 \<Rightarrow> bool" where
  "hidden_arch e m n \<longleftrightarrow>
     (let big_size = unat n * sizeof_fat_arch + sizeof_fat_header;
          cputype = get32 e m big_size
      in big_size + sizeof_fat_arch \<le> length m \<and>
         big_size + sizeof_fat_arch \<le> unat (first_offset e m (unat n)) \<and>
         (case e of Big \<Rightarrow> cputype | Little \<Rightarrow> SWAP_INT cputype) = CPU_TYPE_ARM64)"

text \<open>The offset and the size are added in 32 bits.\<close>

definition check_slice :: "u64 \<Rightarrow> fat_arch \<Rightarrow> unit lipo" where
  "check_slice sz f =
     bind (guard (\<not> ucast (fa_offset f + fa_size f) > sz)
             (Slice_past_end (fa_cputype f) (fa_cpusubtype f))) (\<lambda>_.
     bind (guard (\<not> fa_align f > MAXSEGALIGN)
             (Slice_align_too_large (fa_cputype f) (fa_cpusubtype f))) (\<lambda>_.
       guard (fa_offset f mod 2 ^ unat (fa_align f) = 0)
         (Slice_not_aligned (fa_cputype f) (fa_cpusubtype f))))"

definition check_slice_64 :: "u64 \<Rightarrow> fat_arch_64 \<Rightarrow> unit lipo" where
  "check_slice_64 sz f =
     bind (guard (\<not> fa64_offset f + fa64_size f > sz)
             (Slice_past_end (fa64_cputype f) (fa64_cpusubtype f))) (\<lambda>_.
     bind (guard (\<not> fa64_align f > MAXSEGALIGN)
             (Slice_align_too_large (fa64_cputype f) (fa64_cpusubtype f))) (\<lambda>_.
       guard (fa64_offset f mod 2 ^ unat (fa64_align f) = 0)
         (Slice_not_aligned (fa64_cputype f) (fa64_cpusubtype f))))"

fun check_all :: "('a \<Rightarrow> unit lipo) \<Rightarrow> 'a list \<Rightarrow> unit lipo" where
  "check_all check [] = Ok ()"
| "check_all check (x # xs) = bind (check x) (\<lambda>_. check_all check xs)"

definition slice_thin :: "string \<Rightarrow> bytes \<Rightarrow> u32 \<Rightarrow> u32 \<Rightarrow> u64 \<Rightarrow> u64 \<Rightarrow> u32 \<Rightarrow> thin_file" where
  "slice_thin name m cputype cpusubtype offset sz align =
     \<lparr>tf_name = name, tf_map = m, tf_addr = unat offset, tf_cputype = cputype,
      tf_cpusubtype = cpusubtype, tf_offset = offset, tf_size = sz, tf_align = align,
      tf_from_fat = True, tf_extract = False, tf_remove = False\<rparr>"

text \<open>The test whether a slice is an archive, which reads its first bytes.\<close>

fun probe_archives :: "thin_file list \<Rightarrow> unit lipo" where
  "probe_archives [] = Ok ()"
| "probe_archives (t # ts) =
     bind (if tf_size t \<ge> 8 then strncmp_eq (tf_map t) (tf_addr t) ARMAG else Ok False)
       (\<lambda>_. probe_archives ts)"

definition fat_info :: "fat_header \<Rightarrow> u32 \<Rightarrow> thin_file list \<Rightarrow> input_info" where
  "fat_info header raw thins =
     \<lparr>ii_fat_header = Some header, ii_is_thin = False, ii_raw_nfat_arch = raw,
      ii_thin_files = thins, ii_errors = 0\<rparr>"

definition process_fat :: "endian \<Rightarrow> input_file \<Rightarrow> input_info lipo" where
  "process_fat e input =
     (let m = in_contents input; sz = file_size m;
          m1 = swap_mapped_header e m;
          header = load_fat_header e (take sizeof_fat_header m1);
          n = fh_nfat_arch header
      in bind (guard (in_arch_flag input = None) Arch_for_fat_file) (\<lambda>_.
         bind (guard (unat n * sizeof_fat_arch + sizeof_fat_header \<le> length m) Fat_archs_past_end) (\<lambda>_.
           let n' = (if hidden_arch e m1 n then n + 1 else n);
               header' = header\<lparr>fh_nfat_arch := n'\<rparr>;
               m2 = store_fat_header e header' @ drop sizeof_fat_header m1;
               m3 = swap_mapped_archs e n' m2;
               archs = load_array sizeof_fat_arch load_fat_arch (unat n') e
                         (subbytes sizeof_fat_header (unat n' * sizeof_fat_arch) m3);
               thins = map (\<lambda>f. slice_thin (in_name input) m3 (fa_cputype f) (fa_cpusubtype f)
                         (ucast (fa_offset f)) (ucast (fa_size f)) (fa_align f)) archs
           in bind (check_all (check_slice sz) archs) (\<lambda>_.
              bind (distinct_archs Same_architecture
                      (map (\<lambda>f. (fa_cputype f, fa_cpusubtype f)) archs)) (\<lambda>_.
              bind (probe_archives thins) (\<lambda>_.
                Ok (fat_info header' n thins)))))))"

definition process_fat_64 :: "endian \<Rightarrow> input_file \<Rightarrow> input_info lipo" where
  "process_fat_64 e input =
     (let m = in_contents input; sz = file_size m;
          m1 = swap_mapped_header e m;
          header = load_fat_header e (take sizeof_fat_header m1);
          n = fh_nfat_arch header
      in bind (guard (in_arch_flag input = None) Arch_for_fat_file) (\<lambda>_.
         bind (guard (unat n * sizeof_fat_arch_64 + sizeof_fat_header \<le> length m) Fat_archs_past_end) (\<lambda>_.
           let m3 = swap_mapped_archs_64 e n m1;
               archs = load_array sizeof_fat_arch_64 load_fat_arch_64 (unat n) e
                         (subbytes sizeof_fat_header (unat n * sizeof_fat_arch_64) m3);
               thins = map (\<lambda>f. slice_thin (in_name input) m3 (fa64_cputype f) (fa64_cpusubtype f)
                         (fa64_offset f) (fa64_size f) (fa64_align f)) archs
           in bind (check_all (check_slice_64 sz) archs) (\<lambda>_.
              bind (distinct_archs Same_architecture
                      (map (\<lambda>f. (fa64_cputype f, fa64_cpusubtype f)) archs)) (\<lambda>_.
              bind (probe_archives thins) (\<lambda>_.
                Ok (fat_info header 0 thins)))))))"

section \<open>Thin files\<close>

definition whole_thin :: "string \<Rightarrow> bytes \<Rightarrow> u32 \<Rightarrow> u32 \<Rightarrow> u32 \<Rightarrow> thin_file" where
  "whole_thin name m cputype cpusubtype align =
     \<lparr>tf_name = name, tf_map = m, tf_addr = 0, tf_cputype = cputype,
      tf_cpusubtype = cpusubtype, tf_offset = 0, tf_size = file_size m, tf_align = align,
      tf_from_fat = False, tf_extract = False, tf_remove = False\<rparr>"

definition check_file_size :: "bool \<Rightarrow> bytes \<Rightarrow> unit lipo" where
  "check_file_size fat64_flag m =
     guard (\<not> (\<not> fat64_flag \<and> file_size m > 0xffffffff)) (File_too_large (file_size m))"

definition check_arch :: "arch_flag option \<Rightarrow> u32 \<Rightarrow> u32 \<Rightarrow> unit lipo" where
  "check_arch flag cputype cpusubtype =
     (case flag of
        None \<Rightarrow> Ok ()
      | Some f \<Rightarrow> guard (af_cputype f = cputype) (Arch_does_not_match cputype cpusubtype))"

text \<open>A Mach-O file: its architecture, its alignment and the errors counted on the way.\<close>

definition mach_o_thin :: "lipo_env \<Rightarrow> bool \<Rightarrow> string \<Rightarrow> bytes \<Rightarrow> (thin_file \<times> nat) lipo" where
  "mach_o_thin env fat64_flag name m =
     (let e = le_host env;
          mh = load_mach_header e (take sizeof_mach_header m);
          swapped = (mh_magic mh = SWAP_INT MH_MAGIC);
          mh = (if swapped then swap_mach_header mh else mh)
      in bind (check_file_size fat64_flag m) (\<lambda>_.
         bind (lift_align
                 (if mh_filetype mh = MH_OBJECT then
                    bind (guessed (guess_align (le_pagesize env) MINSEGALIGN32 MAXSEGALIGN)) (\<lambda>a. Ok (a, 0))
                  else get_seg_align e (Some mh) None m sizeof_mach_header swapped (file_size m)))
           (\<lambda>(align, errors).
             Ok (whole_thin name m (mh_cputype mh) (mh_cpusubtype mh) align, errors))))"

definition mach_o_64_thin :: "lipo_env \<Rightarrow> bool \<Rightarrow> string \<Rightarrow> bytes \<Rightarrow> (thin_file \<times> nat) lipo" where
  "mach_o_64_thin env fat64_flag name m =
     (let e = le_host env;
          mh64 = load_mach_header_64 e (take sizeof_mach_header_64 m);
          swapped = (mh64_magic mh64 = SWAP_INT MH_MAGIC_64);
          mh64 = (if swapped then swap_mach_header_64 mh64 else mh64)
      in bind (check_file_size fat64_flag m) (\<lambda>_.
         bind (lift_align
                 (if mh64_filetype mh64 = MH_OBJECT then
                    bind (guessed (guess_align (le_pagesize env) MINSEGALIGN64 MAXSEGALIGN)) (\<lambda>a. Ok (a, 0))
                  else get_seg_align e None (Some mh64) m sizeof_mach_header_64 swapped (file_size m)))
           (\<lambda>(align, errors).
             Ok (whole_thin name m (mh64_cputype mh64) (mh64_cpusubtype mh64) align, errors))))"

definition thin_info :: "bool \<Rightarrow> thin_file \<Rightarrow> nat \<Rightarrow> input_info" where
  "thin_info is_thin t errors =
     \<lparr>ii_fat_header = None, ii_is_thin = is_thin, ii_raw_nfat_arch = 0, ii_thin_files = [t],
      ii_errors = errors\<rparr>"

definition process_thin :: "input_file \<Rightarrow> (thin_file \<times> nat) lipo \<Rightarrow> input_info lipo" where
  "process_thin input r =
     bind r (\<lambda>(t, errors).
     bind (check_arch (in_arch_flag input) (tf_cputype t) (tf_cpusubtype t)) (\<lambda>_.
       Ok (thin_info True t errors)))"

definition process_archive :: "lipo_env \<Rightarrow> bool \<Rightarrow> input_file \<Rightarrow> input_info lipo option" where
  "process_archive env fat64_flag input =
     (let m = in_contents input
      in map_option (\<lambda>r.
           bind r (\<lambda>(cputype, cpusubtype).
           bind (check_file_size fat64_flag m) (\<lambda>_.
             let t = whole_thin (in_name input) m cputype cpusubtype
                       (if cputype AND CPU_ARCH_ABI64 \<noteq> 0 then 3 else 2)
             in case in_arch_flag input of
                  Some f \<Rightarrow>
                    if cputype = 0 then
                      Ok (thin_info True (t\<lparr>tf_cputype := af_cputype f, tf_cpusubtype := af_cpusubtype f\<rparr>) 0)
                    else bind (check_arch (Some f) cputype cpusubtype) (\<lambda>_. Ok (thin_info True t 0))
                | None \<Rightarrow>
                    if cputype = 0 then Error Archive_without_arch else Ok (thin_info True t 0))))
         (check_archive (le_host env) (le_lto env) (le_erange env) m))"

definition process_unknown :: "lipo_env \<Rightarrow> bool \<Rightarrow> input_file \<Rightarrow> input_info lipo" where
  "process_unknown env fat64_flag input =
     (let m = in_contents input
      in case (case in_arch_flag input of
                 Some f \<Rightarrow> Some f
               | None \<Rightarrow> le_lto env m 0 (ucast (file_size m))) of
           Some f \<Rightarrow>
             bind (check_file_size fat64_flag m) (\<lambda>_.
               Ok (thin_info False (whole_thin (in_name input) m (af_cputype f) (af_cpusubtype f) 0) 0))
         | None \<Rightarrow> Error Unknown_file_type)"

section \<open>The kind of a file\<close>

definition magic_at_start :: "endian \<Rightarrow> bytes \<Rightarrow> nat \<Rightarrow> u32 set \<Rightarrow> bool" where
  "magic_at_start e m sz magics \<longleftrightarrow> length m \<ge> sz \<and> get32 e m 0 \<in> magics"

definition is_fat :: "endian \<Rightarrow> u32 \<Rightarrow> bytes \<Rightarrow> bool" where
  "is_fat e magic m \<longleftrightarrow> length m \<ge> sizeof_fat_header \<and> is_fat_magic e magic (get32 e m 0)"

definition is_archive :: "bytes \<Rightarrow> bool" where
  "is_archive m \<longleftrightarrow> length m \<ge> SARMAG \<and> take SARMAG m = ARMAG"

definition process_input_file :: "lipo_env \<Rightarrow> bool \<Rightarrow> input_file \<Rightarrow> input_info lipo option" where
  "process_input_file env fat64_flag input =
     (let m = in_contents input; e = le_host env
      in if is_fat e FAT_MAGIC m then Some (process_fat e input)
         else if is_fat e FAT_MAGIC_64 m then Some (process_fat_64 e input)
         else if magic_at_start e m sizeof_mach_header {MH_MAGIC, SWAP_INT MH_MAGIC} then
           Some (process_thin input (mach_o_thin env fat64_flag (in_name input) m))
         else if magic_at_start e m sizeof_mach_header_64 {MH_MAGIC_64, SWAP_INT MH_MAGIC_64} then
           Some (process_thin input (mach_o_64_thin env fat64_flag (in_name input) m))
         else if is_archive m then process_archive env fat64_flag input
         else Some (process_unknown env fat64_flag input))"

text \<open>The replacement for a slice: the same, but the architecture is given and a fat file refused.\<close>

definition replacement_thin :: "lipo_env \<Rightarrow> bool \<Rightarrow> string \<Rightarrow> bytes \<Rightarrow> arch_flag \<Rightarrow> (thin_file \<times> nat) lipo option" where
  "replacement_thin env fat64_flag name m flag =
     (let e = le_host env
      in if is_fat e FAT_MAGIC m \<or> is_fat e FAT_MAGIC_64 m then Some (Error Replacement_is_fat)
         else if magic_at_start e m sizeof_mach_header {MH_MAGIC, SWAP_INT MH_MAGIC} then
           Some (mach_o_thin env fat64_flag name m)
         else if magic_at_start e m sizeof_mach_header_64 {MH_MAGIC_64, SWAP_INT MH_MAGIC_64} then
           Some (mach_o_64_thin env fat64_flag name m)
         else if is_archive m then
           map_option (\<lambda>r. bind r (\<lambda>(cputype, cpusubtype).
               bind (check_file_size fat64_flag m) (\<lambda>_.
                 Ok (whole_thin name m cputype cpusubtype 2, 0))))
             (check_archive e (le_lto env) (le_erange env) m)
         else
           Some (bind (check_file_size fat64_flag m) (\<lambda>_.
             Ok (whole_thin name m (af_cputype flag) (af_cpusubtype flag) 0, 0))))"

definition process_replace_file :: "lipo_env \<Rightarrow> bool \<Rightarrow> string \<Rightarrow> bytes \<Rightarrow> arch_flag \<Rightarrow> (thin_file \<times> nat) lipo option" where
  "process_replace_file env fat64_flag name m flag =
     map_option (\<lambda>r. bind r (\<lambda>(t, errors).
         bind (guard (same_arch (tf_cputype t, tf_cpusubtype t) (af_cputype flag, af_cpusubtype flag))
                 Replacement_does_not_match) (\<lambda>_.
           Ok (t, errors))))
       (replacement_thin env fat64_flag name m flag)"

end
