(* ===== verification/Lipo_Create.thy ===== *)
theory Lipo_Create
  imports Lipo_Input
begin

text \<open>
  \<open>create_fat\<close> of \<open>misc/lipo.c\<close>: the layout of a fat file and the bytes that are written.

  \<open>qsort\<close> of the C library is an argument: it is given the comparison and the thin files.
  All that is used of it is that its result is a permutation; the comparison is no order
  (shown below), so the standard promises nothing else.  \<open>junk\<close> is what the uninitialised
  field \<open>reserved\<close> of the local \<open>struct fat_arch_64\<close> holds.
\<close>

definition tf_arch :: "thin_file \<Rightarrow> u32 \<times> u32" where
  "tf_arch t = (tf_cputype t, tf_cpusubtype t)"

definition flag_arch :: "arch_flag \<Rightarrow> u32 \<times> u32" where
  "flag_arch f = (af_cputype f, af_cpusubtype f)"

definition cmp_qsort :: "thin_file \<Rightarrow> thin_file \<Rightarrow> int" where
  "cmp_qsort thin1 thin2 =
     (if tf_cputype thin1 = tf_cputype thin2 then
        sint (plain (tf_cpusubtype thin1) - plain (tf_cpusubtype thin2))
      else if tf_cputype thin1 = CPU_TYPE_ARM64 then 1
      else if tf_cputype thin2 = CPU_TYPE_ARM64 then - 1
      else sint (tf_align thin1 - tf_align thin2))"

type_synonym thin_sort = "(thin_file \<Rightarrow> thin_file \<Rightarrow> int) \<Rightarrow> thin_file list \<Rightarrow> thin_file list"

section \<open>Layout\<close>

text \<open>The alignments given with \<open>-segalign\<close>: each goes to the first thin file of its architecture.\<close>

fun set_align :: "u32 \<times> u32 \<Rightarrow> u32 \<Rightarrow> thin_file list \<Rightarrow> thin_file list option" where
  "set_align arch align [] = None"
| "set_align arch align (t # ts) =
     (if same_arch arch (tf_arch t) then Some (t\<lparr>tf_align := align\<rparr> # ts)
      else map_option ((#) t) (set_align arch align ts))"

fun fold_segaligns :: "(arch_flag \<times> u32) list \<Rightarrow> thin_file list \<Rightarrow> thin_file list lipo" where
  "fold_segaligns [] ts = Ok ts"
| "fold_segaligns ((flag, align) # segaligns) ts =
     (case set_align (flag_arch flag) align ts of
        None \<Rightarrow> Error (Not_in_file (af_cputype flag) (af_cpusubtype flag))
      | Some ts' \<Rightarrow> fold_segaligns segaligns ts')"

text \<open>
  \<open>-hideARM64\<close>: the state is whether a 32-bit ARM and whether an ARM64 file was seen, and how
  many of the latter.
\<close>

fun scan_hidden :: "endian \<Rightarrow> thin_file list \<Rightarrow> bool \<Rightarrow> bool \<Rightarrow> nat \<Rightarrow> (bool \<times> bool \<times> nat) lipo" where
  "scan_hidden e [] has_arm32 has_arm64 n = Ok (has_arm32, has_arm64, n)"
| "scan_hidden e (t # ts) has_arm32 has_arm64 n =
     bind (get_mh_filetype e (tf_map t) (tf_addr t) (tf_size t)) (\<lambda>filetype.
     bind (guard (filetype = MH_EXECUTE) Hide_not_executable) (\<lambda>_.
     bind (guard (\<not> (has_arm64 \<and> tf_cputype t \<noteq> CPU_TYPE_ARM64)) Hide_wrong_order) (\<lambda>_.
       scan_hidden e ts (has_arm32 \<or> tf_cputype t = CPU_TYPE_ARM)
         (has_arm64 \<or> tf_cputype t = CPU_TYPE_ARM64)
         (if tf_cputype t = CPU_TYPE_ARM64 then Suc n else n))))"

definition visible_archs :: "endian \<Rightarrow> bool \<Rightarrow> thin_file list \<Rightarrow> nat lipo" where
  "visible_archs e hideARM64_flag ts =
     (if hideARM64_flag then
        bind (scan_hidden e ts False False 0) (\<lambda>(has_arm32, has_arm64, n).
          Ok (if has_arm32 \<and> has_arm64 then length ts - n else length ts))
      else Ok (length ts))"

fun layout :: "bool \<Rightarrow> u64 \<Rightarrow> thin_file list \<Rightarrow> thin_file list lipo" where
  "layout fat64_flag offset [] = Ok []"
| "layout fat64_flag offset (t # ts) =
     bind (within (tf_align t < 31) (rnd offset (2 ^ unat (tf_align t)))) (\<lambda>offset.
     bind (guard (\<not> (\<not> fat64_flag \<and> offset > 0xffffffff)) (Offset_too_large offset)) (\<lambda>_.
     bind (layout fat64_flag (offset + tf_size t) ts) (\<lambda>ts.
       Ok (t\<lparr>tf_offset := offset\<rparr> # ts))))"

section \<open>Writing\<close>

text \<open>A file after \<open>lseek\<close> and \<open>write\<close>: a gap is filled with zeros.\<close>

definition write_at :: "nat \<Rightarrow> bytes \<Rightarrow> bytes \<Rightarrow> bytes" where
  "write_at p data m =
     (if data = [] then m
      else take p (m @ replicate (p - length m) 0) @ data @ drop (p + length data) m)"

definition disk_header :: "endian \<Rightarrow> fat_header \<Rightarrow> bytes" where
  "disk_header e h = store_fat_header e (case e of Big \<Rightarrow> h | Little \<Rightarrow> swap_fat_header h)"

definition arch_of_thin :: "thin_file \<Rightarrow> fat_arch" where
  "arch_of_thin t =
     \<lparr>fa_cputype = tf_cputype t, fa_cpusubtype = tf_cpusubtype t, fa_offset = ucast (tf_offset t),
      fa_size = ucast (tf_size t), fa_align = tf_align t\<rparr>"

definition disk_arch :: "endian \<Rightarrow> thin_file \<Rightarrow> bytes" where
  "disk_arch e t =
     store_fat_arch e
       (case e of Big \<Rightarrow> arch_of_thin t | Little \<Rightarrow> hd (swap_fat_arch 1 [arch_of_thin t]))"

definition arch_64_of_thin :: "u32 \<Rightarrow> thin_file \<Rightarrow> fat_arch_64" where
  "arch_64_of_thin junk t =
     \<lparr>fa64_cputype = tf_cputype t, fa64_cpusubtype = tf_cpusubtype t, fa64_offset = tf_offset t,
      fa64_size = tf_size t, fa64_align = tf_align t, fa64_reserved = junk\<rparr>"

fun disk_archs_64 :: "endian \<Rightarrow> u32 \<Rightarrow> thin_file list \<Rightarrow> bytes" where
  "disk_archs_64 e junk [] = []"
| "disk_archs_64 e junk (t # ts) =
     (let f = arch_64_of_thin junk t;
          f = (case e of Big \<Rightarrow> f | Little \<Rightarrow> hd (swap_fat_arch_64 1 [f]))
      in store_fat_arch_64 e f @ disk_archs_64 e (fa64_reserved f) ts)"

definition thin_contents :: "thin_file \<Rightarrow> bytes lipo" where
  "thin_contents t = read_bytes (tf_map t) (tf_addr t) (unat (tf_size t))"

fun write_slices :: "bool \<Rightarrow> thin_file list \<Rightarrow> bytes \<Rightarrow> bytes lipo" where
  "write_slices seek [] out = Ok out"
| "write_slices seek (t # ts) out =
     bind (thin_contents t) (\<lambda>data.
       write_slices seek ts (if seek then write_at (unat (tf_offset t)) data out else out @ data))"

definition fat_headers :: "endian \<Rightarrow> bool \<Rightarrow> u32 \<Rightarrow> nat \<Rightarrow> thin_file list \<Rightarrow> bytes" where
  "fat_headers e fat64_flag junk nfat_arch ts =
     disk_header e \<lparr>fh_magic = (if fat64_flag then FAT_MAGIC_64 else FAT_MAGIC),
       fh_nfat_arch = of_nat nfat_arch\<rparr> @
     (if fat64_flag then disk_archs_64 e junk ts else concat (map (disk_arch e) ts))"

definition headers_size :: "bool \<Rightarrow> nat \<Rightarrow> u64" where
  "headers_size fat64_flag n =
     of_nat sizeof_fat_header +
     of_nat n * of_nat (if fat64_flag then sizeof_fat_arch_64 else sizeof_fat_arch)"

record fat_options =
  fo_segaligns :: "(arch_flag \<times> u32) list"
  fo_hideARM64 :: bool
  fo_fat64 :: bool
  fo_extract_family :: bool

definition create_fat :: "endian \<Rightarrow> thin_sort \<Rightarrow> u32 \<Rightarrow> fat_options \<Rightarrow> thin_file list \<Rightarrow> bytes lipo" where
  "create_fat e qsort junk opts thins =
     bind (distinct_archs Specified_twice (map (\<lambda>(flag, _). flag_arch flag) (fo_segaligns opts))) (\<lambda>_.
     bind (fold_segaligns (fo_segaligns opts) thins) (\<lambda>ts.
       let ts = qsort cmp_qsort ts
       in bind (visible_archs e (fo_hideARM64 opts) ts) (\<lambda>nfat_arch.
          bind (layout (fo_fat64 opts) (headers_size (fo_fat64 opts) (length ts)) ts) (\<lambda>ts.
            let bare = fo_extract_family opts \<and> length ts = 1
            in write_slices (\<not> bare) ts
                 (if bare then [] else fat_headers e (fo_fat64 opts) junk nfat_arch ts)))))"

end
