(* ===== verification/Lipo_Facts.thy ===== *)
theory Lipo_Facts
  imports Lipo_Create
begin

text \<open>
  What \<open>lipo\<close> writes is what it reads: the layout keeps the slices apart and aligned, the
  written file holds the contents of every thin file at its offset, and the headers of a
  mapped fat file read the same on hosts of either byte order.
\<close>

section \<open>Reading the headers in place\<close>

text \<open>After the headers are swapped in place the host reads what is in the file, which is big-endian.\<close>

context struct_codec
begin

lemma load_inplace:
  "length m = sz \<Longrightarrow> load e (inplace load store swap e m) = load (flip e) m"
  by (metis inplace_def load_flip load_store)

lemma load_swap_array:
  assumes "\<And>xs. swap_n n xs = map swap (take (unat n) xs) @ drop (unat n) xs"
    and "length b = unat n * sz"
  shows "load_array sz load (unat n) e (swap_array sz load store swap_n n e b) =
         load_array sz load (unat n) (flip e) b"
    and "length (swap_array sz load store swap_n n e b) = unat n * sz"
proof -
  have eq: "swap_array sz load store swap_n n e b =
      inplace (load_array sz load (unat n)) (store_array store) (map swap) e b"
    by (simp add: swap_array_def inplace_def assms(1))
  show "load_array sz load (unat n) e (swap_array sz load store swap_n n e b) =
      load_array sz load (unat n) (flip e) b"
    unfolding eq by (rule struct_codec.load_inplace [OF array_codec assms(2)])
  show "length (swap_array sz load store swap_n n e b) = unat n * sz"
    unfolding eq by (rule struct_codec.length_inplace [OF array_codec assms(2)])
qed

end

lemma subbytes_middle: "length a = p \<Longrightarrow> length b = n \<Longrightarrow> subbytes p n (a @ b @ c) = b"
  by (simp add: subbytes_def)

lemma mapped_header:
  assumes "sizeof_fat_header \<le> length m"
  shows "load_fat_header e (take sizeof_fat_header (swap_mapped_header e m)) =
           load_fat_header Big (take sizeof_fat_header m)"
    and "drop sizeof_fat_header (swap_mapped_header e m) = drop sizeof_fat_header m"
    and "length (swap_mapped_header e m) = length m"
proof -
  let ?s = "inplace load_fat_header store_fat_header swap_fat_header Little (take sizeof_fat_header m)"
  have len: "length (take sizeof_fat_header m) = sizeof_fat_header" using assms by simp
  have s: "length ?s = sizeof_fat_header" by (rule fat_header.length_inplace [OF len])
  show "load_fat_header e (take sizeof_fat_header (swap_mapped_header e m)) =
      load_fat_header Big (take sizeof_fat_header m)"
    using s fat_header.load_inplace [OF len, of Little] by (cases e) (simp_all add: swap_mapped_header_def)
  show "drop sizeof_fat_header (swap_mapped_header e m) = drop sizeof_fat_header m"
    using s by (cases e) (simp_all add: swap_mapped_header_def)
  show "length (swap_mapped_header e m) = length m"
    using s assms by (cases e) (simp_all add: swap_mapped_header_def)
qed

lemma mapped_archs:
  assumes "sizeof_fat_header + unat n * sizeof_fat_arch \<le> length m"
  shows "load_array sizeof_fat_arch load_fat_arch (unat n) e
           (subbytes sizeof_fat_header (unat n * sizeof_fat_arch) (swap_mapped_archs e n m)) =
         load_array sizeof_fat_arch load_fat_arch (unat n) Big
           (subbytes sizeof_fat_header (unat n * sizeof_fat_arch) m)"
    and "drop (sizeof_fat_header + unat n * sizeof_fat_arch) (swap_mapped_archs e n m) =
         drop (sizeof_fat_header + unat n * sizeof_fat_arch) m"
    and "length (swap_mapped_archs e n m) = length m"
proof -
  let ?k = "unat n * sizeof_fat_arch"
  let ?b = "subbytes sizeof_fat_header ?k m"
  let ?s = "swap_array sizeof_fat_arch load_fat_arch store_fat_arch swap_fat_arch n Little ?b"
  have b: "length ?b = ?k" using assms by simp
  have entry: "swap_fat_arch n xs = map swap_fat_arch_entry (take (unat n) xs) @ drop (unat n) xs" for xs
    by (simp only: swap_fat_arch_def)
  note s = fat_arch.load_swap_array [where swap_n = swap_fat_arch and e = Little, OF entry b]
  have header: "length (take sizeof_fat_header m) = sizeof_fat_header" using assms by simp
  have little: "swap_mapped_archs Little n m =
      take sizeof_fat_header m @ ?s @ drop (sizeof_fat_header + ?k) m"
    by (simp add: swap_mapped_archs_def Let_def)
  have part: "subbytes sizeof_fat_header ?k (swap_mapped_archs Little n m) = ?s"
    unfolding little using header s(2) by (rule subbytes_middle)
  have rest: "drop (sizeof_fat_header + ?k) (swap_mapped_archs Little n m) = drop (sizeof_fat_header + ?k) m"
    unfolding little using header s(2) by simp
  have big: "swap_mapped_archs Big n m = m" by (simp add: swap_mapped_archs_def)
  show "load_array sizeof_fat_arch load_fat_arch (unat n) e
      (subbytes sizeof_fat_header ?k (swap_mapped_archs e n m)) =
    load_array sizeof_fat_arch load_fat_arch (unat n) Big ?b"
    using part s(1) big by (cases e) simp_all
  show "drop (sizeof_fat_header + ?k) (swap_mapped_archs e n m) = drop (sizeof_fat_header + ?k) m"
    using rest big by (cases e) simp_all
  show "length (swap_mapped_archs e n m) = length m"
    using s(2) header assms big by (cases e) (simp_all add: little)
qed

text \<open>What is written is big-endian as well.\<close>

lemma put32_SWAP_INT: "put32 e (SWAP_INT w) = put32 (flip e) w"
  by (cases e) (simp_all add: put32_def bytes_of_SWAP_INT)

lemma disk_header_big: "disk_header e h = store_fat_header Big h"
  by (cases e) (simp_all add: disk_header_def fat_header_defs put32_SWAP_INT)

lemma disk_arch_big: "disk_arch e t = store_fat_arch Big (arch_of_thin t)"
  by (cases e) (simp_all add: disk_arch_def swap_fat_arch_def fat_arch_defs put32_SWAP_INT)

lemma load_store_fat_arch [simp]: "load_fat_arch e (store_fat_arch e x) = x"
  by (simp add: fat_arch_defs byte_simps)

lemma length_store_fat_arch [simp]: "length (store_fat_arch e x) = sizeof_fat_arch"
  by (simp add: fat_arch_defs)

lemma load_concat_archs:
  "load_array sizeof_fat_arch load_fat_arch (length xs) e (concat (map (store_fat_arch e) xs)) = xs"
proof (induction xs)
  case Nil
  then show ?case by simp
next
  case (Cons x xs)
  then show ?case by (simp add: load_array_Suc subbytes_def)
qed

lemma length_concat_archs [simp]:
  "length (concat (map (store_fat_arch e) xs)) = length xs * sizeof_fat_arch"
  by (induction xs) simp_all

section \<open>Layout\<close>

text \<open>
  The contract of the layout: from position \<open>p\<close> on, each slice is at the first multiple of its
  alignment behind the slice before it.
\<close>

fun packed :: "nat \<Rightarrow> thin_file list \<Rightarrow> bool" where
  "packed p [] \<longleftrightarrow> True"
| "packed p (t # ts) \<longleftrightarrow>
     (let q = unat (tf_offset t); a = 2 ^ unat (tf_align t)
      in p \<le> q \<and> q < p + a \<and> a dvd q \<and> packed (q + unat (tf_size t)) ts)"

definition but_offset :: "thin_file \<Rightarrow> thin_file \<Rightarrow> bool" where
  "but_offset t t' \<longleftrightarrow> (\<exists>q. t' = t\<lparr>tf_offset := q\<rparr>)"

lemma but_offset_fields:
  assumes "but_offset t t'"
  shows "tf_name t' = tf_name t" "tf_map t' = tf_map t" "tf_addr t' = tf_addr t"
    "tf_cputype t' = tf_cputype t" "tf_cpusubtype t' = tf_cpusubtype t" "tf_size t' = tf_size t"
    "tf_align t' = tf_align t"
  using assms by (auto simp: but_offset_def)

lemma unat_rnd:
  assumes "k < 31" and "unat v < 2 ^ 33"
  shows "unat (rnd v (2 ^ k)) = (unat v + (2 ^ k - 1)) div 2 ^ k * 2 ^ k"
proof -
  have "(2 :: nat) ^ k \<le> 2 ^ 31" using assms(1) by (intro power_increasing) simp_all
  moreover have "(2 :: nat) ^ 33 + 2 ^ 31 < 2 ^ 64" by simp
  ultimately have "unat v + (2 ^ k - 1) < 2 ^ 64" using assms(2) by linarith
  then show ?thesis using assms(1) by (simp add: rnd_def rnd64_mask unat_round)
qed

lemma layout_packed:
  assumes "layout False offset ts = Ok ts'" and "unat offset < 2 ^ 33"
    and "\<forall>t\<in>set ts. unat (tf_size t) < 2 ^ 32"
  shows "list_all2 but_offset ts ts' \<and> packed (unat offset) ts' \<and>
         (\<forall>t\<in>set ts'. unat (tf_offset t) < 2 ^ 32 \<and> unat (tf_align t) < 31)"
  using assms
proof (induction ts arbitrary: offset ts')
  case Nil
  then show ?case by simp
next
  case (Cons t ts)
  let ?o = "rnd offset (2 ^ unat (tf_align t))"
  from Cons.prems(1) obtain rest where align: "tf_align t < 31" and small: "\<not> 0xffffffff < ?o"
    and rest: "layout False (?o + tf_size t) ts = Ok rest" and ts': "ts' = t\<lparr>tf_offset := ?o\<rparr> # rest"
    by (auto simp: bind_eq_Ok)
  have k: "unat (tf_align t) < 31" using align by (simp add: word_less_nat_alt)
  have o: "unat ?o < 2 ^ 32" using small by (simp add: word_less_nat_alt)
  have size: "unat (tf_size t) < 2 ^ 32" using Cons.prems(3) by simp
  have sum: "unat (?o + tf_size t) = unat ?o + unat (tf_size t)"
    using o size by (intro unat_add_lem [THEN iffD1]) simp
  have IH: "list_all2 but_offset ts rest \<and> packed (unat (?o + tf_size t)) rest \<and>
      (\<forall>t\<in>set rest. unat (tf_offset t) < 2 ^ 32 \<and> unat (tf_align t) < 31)"
    using o size Cons.prems(3) by (intro Cons.IH [OF rest]) (simp_all add: sum)
  have "unat offset \<le> unat ?o" "unat ?o < unat offset + 2 ^ unat (tf_align t)"
    "2 ^ unat (tf_align t) dvd unat ?o"
    unfolding unat_rnd [OF k Cons.prems(2)] by (rule round_up_nat)+
  moreover have "but_offset t (t\<lparr>tf_offset := ?o\<rparr>)" by (auto simp: but_offset_def)
  ultimately show ?case using IH o k sum unfolding ts' by (simp add: Let_def)
qed

section \<open>What is written\<close>

lemma write_at_behind:
  assumes "length m \<le> p" and "data \<noteq> []"
  shows "write_at p data m = m @ replicate (p - length m) 0 @ data"
  using assms by (simp add: write_at_def)

text \<open>The file only grows, and each slice stands at its offset.\<close>

lemma write_slices_packed:
  assumes "packed p ts" and "length out \<le> p"
    and "\<forall>t\<in>set ts. 0 < unat (tf_size t) \<and> tf_addr t + unat (tf_size t) \<le> length (tf_map t)"
  shows "\<exists>rest. write_slices True ts out = Ok (out @ rest) \<and>
           (\<forall>t\<in>set ts. unat (tf_offset t) + unat (tf_size t) \<le> length (out @ rest) \<and>
              thin_contents t = Ok (subbytes (unat (tf_offset t)) (unat (tf_size t)) (out @ rest))) \<and>
           (case ts of
              [] \<Rightarrow> rest = []
            | t # _ \<Rightarrow> let gap = unat (tf_offset t) - length out in take gap rest = replicate gap 0) \<and>
           (ts \<noteq> [] \<longrightarrow> (\<exists>t\<in>set ts. length (out @ rest) = unat (tf_offset t) + unat (tf_size t)))"
  using assms
proof (induction ts arbitrary: p out)
  case Nil
  then show ?case by simp
next
  case (Cons t ts)
  let ?q = "unat (tf_offset t)" and ?n = "unat (tf_size t)"
  let ?data = "subbytes (tf_addr t) ?n (tf_map t)"
  let ?pad = "replicate (?q - length out) 0"
  let ?out = "out @ ?pad @ ?data"
  have n: "0 < ?n" and inside: "tf_addr t + ?n \<le> length (tf_map t)" using Cons.prems(3) by simp_all
  have data: "length ?data = ?n" using inside by simp
  have contents: "thin_contents t = Ok ?data" using inside by (simp add: thin_contents_def)
  have q: "length out \<le> ?q" "packed (?q + ?n) ts" using Cons.prems(1,2) by (simp_all add: Let_def)
  have written: "write_at ?q ?data out = ?out"
    using q(1) n data by (intro write_at_behind) auto
  have len: "length ?out = ?q + ?n" using q(1) data by simp
  have valid: "\<forall>t\<in>set ts. 0 < unat (tf_size t) \<and> tf_addr t + unat (tf_size t) \<le> length (tf_map t)"
    using Cons.prems(3) by simp
  obtain rest where rest: "write_slices True ts ?out = Ok (?out @ rest)"
    and others: "\<forall>t\<in>set ts. unat (tf_offset t) + unat (tf_size t) \<le> length (?out @ rest) \<and>
      thin_contents t = Ok (subbytes (unat (tf_offset t)) (unat (tf_size t)) (?out @ rest))"
    and last: "ts \<noteq> [] \<longrightarrow> (\<exists>t\<in>set ts. length (?out @ rest) = unat (tf_offset t) + unat (tf_size t))"
    and first: "case ts of
        [] \<Rightarrow> rest = []
      | t # _ \<Rightarrow> let gap = unat (tf_offset t) - length ?out in take gap rest = replicate gap 0"
    using Cons.IH [OF q(2) eq_imp_le [OF len] valid] by blast
  have none: "ts = [] \<Longrightarrow> rest = []" using first by simp
  have "subbytes ?q ?n ((out @ ?pad) @ ?data @ rest) = ?data"
    using q(1) data by (intro subbytes_middle) simp_all
  then have here: "subbytes ?q ?n (?out @ rest) = ?data" by simp
  show ?case
  proof (intro exI [of _ "?pad @ ?data @ rest"] conjI)
    show "write_slices True (t # ts) out = Ok (out @ ?pad @ ?data @ rest)"
      using rest by (simp add: contents written)
    show "\<forall>t\<in>set (t # ts). unat (tf_offset t) + unat (tf_size t) \<le> length (out @ ?pad @ ?data @ rest) \<and>
        thin_contents t = Ok (subbytes (unat (tf_offset t)) (unat (tf_size t)) (out @ ?pad @ ?data @ rest))"
      using others here contents q(1) data by simp
    show "case t # ts of
        [] \<Rightarrow> ?pad @ ?data @ rest = []
      | t # _ \<Rightarrow> let gap = unat (tf_offset t) - length out
          in take gap (?pad @ ?data @ rest) = replicate gap 0"
      by (simp add: Let_def)
    show "t # ts \<noteq> [] \<longrightarrow>
        (\<exists>t\<in>set (t # ts). length (out @ ?pad @ ?data @ rest) = unat (tf_offset t) + unat (tf_size t))"
      using last none len by (cases "ts = []") simp_all
  qed
qed

section \<open>Reading it back\<close>

lemma length_store_fat_header [simp]: "length (store_fat_header e x) = sizeof_fat_header"
  by (simp add: fat_header_defs)

lemma strncmp_eq_inside: "p + length cs \<le> length m \<Longrightarrow> \<exists>b. strncmp_eq m p cs = Ok b"
  by (induction m p cs rule: strncmp_eq.induct) auto

lemma probe_archives_Ok:
  assumes "\<forall>t\<in>set ts. tf_addr t + unat (tf_size t) \<le> length (tf_map t)"
  shows "probe_archives ts = Ok ()"
  using assms
proof (induction ts)
  case Nil
  then show ?case by simp
next
  case (Cons t ts)
  have "\<exists>b. (strncmp_eq (tf_map t) (tf_addr t) ARMAG :: bool lipo) = Ok b" if "8 \<le> tf_size t"
  proof (rule strncmp_eq_inside)
    have "8 \<le> unat (tf_size t)" using that by (simp add: word_le_nat_alt)
    then show "tf_addr t + length ARMAG \<le> length (tf_map t)"
      using Cons.prems by (auto simp: ARMAG_def)
  qed
  then obtain b where "(if 8 \<le> tf_size t then strncmp_eq (tf_map t) (tf_addr t) ARMAG else Ok False :: bool lipo) = Ok b"
    by (cases "8 \<le> tf_size t") auto
  with Cons show ?case by simp
qed

lemma check_all_Ok: "check_all check xs = Ok () \<longleftrightarrow> (\<forall>x\<in>set xs. check x = Ok ())"
  by (induction xs) (auto simp: bind_eq_Ok)

lemma subbytes_behind:
  assumes "drop h m = drop h m'" and "h \<le> p"
  shows "subbytes p n m = subbytes p n m'"
proof -
  have "drop p m = drop (p - h) (drop h m)" "drop p m' = drop (p - h) (drop h m')" using assms(2) by simp_all
  then show ?thesis using assms(1) by (simp add: subbytes_def)
qed

text \<open>A fat file as it is on disk: the header, its entries and what follows.\<close>

definition fat_image :: "fat_arch list \<Rightarrow> bytes \<Rightarrow> bytes" where
  "fat_image archs rest =
     store_fat_header Big \<lparr>fh_magic = FAT_MAGIC, fh_nfat_arch = of_nat (length archs)\<rparr> @
     concat (map (store_fat_arch Big) archs) @ rest"

lemma length_fat_image [simp]:
  "length (fat_image archs rest) = sizeof_fat_header + length archs * sizeof_fat_arch + length rest"
  by (simp add: fat_image_def)

lemma fat_image_parts:
  "load_fat_header Big (take sizeof_fat_header (fat_image archs rest)) =
     \<lparr>fh_magic = FAT_MAGIC, fh_nfat_arch = of_nat (length archs)\<rparr>"
  "drop sizeof_fat_header (fat_image archs rest) = concat (map (store_fat_arch Big) archs) @ rest"
  by (simp_all add: fat_image_def fat_header_defs byte_simps)

text \<open>The mapping that \<open>process_input_file\<close> leaves when there is no hidden entry.\<close>

definition swapped_image :: "endian \<Rightarrow> fat_arch list \<Rightarrow> bytes \<Rightarrow> bytes" where
  "swapped_image e archs rest =
     swap_mapped_archs e (of_nat (length archs))
       (store_fat_header e \<lparr>fh_magic = FAT_MAGIC, fh_nfat_arch = of_nat (length archs)\<rparr> @
        concat (map (store_fat_arch Big) archs) @ rest)"

lemma unat_length_archs: "length archs < 2 ^ 27 \<Longrightarrow> unat (of_nat (length archs) :: u32) = length archs"
  by (simp add: unsigned_of_nat take_bit_nat_eq_self)

lemma swapped_image:
  assumes "length archs < 2 ^ 27"
  shows "load_array sizeof_fat_arch load_fat_arch (length archs) e
           (subbytes sizeof_fat_header (length archs * sizeof_fat_arch) (swapped_image e archs rest)) = archs"
    and "sizeof_fat_header + length archs * sizeof_fat_arch \<le> p \<Longrightarrow>
         subbytes p n (swapped_image e archs rest) = subbytes p n (fat_image archs rest)"
    and "length (swapped_image e archs rest) = length (fat_image archs rest)"
proof -
  let ?n = "of_nat (length archs) :: u32"
  let ?h = "store_fat_header e \<lparr>fh_magic = FAT_MAGIC, fh_nfat_arch = ?n\<rparr>"
  let ?b = "concat (map (store_fat_arch Big) archs)"
  have n: "unat ?n = length archs" by (rule unat_length_archs [OF assms])
  have h: "length ?h = sizeof_fat_header" by simp
  note facts = mapped_archs [of ?n "?h @ ?b @ rest", unfolded n]
  have fits: "sizeof_fat_header + length archs * sizeof_fat_arch \<le> length (?h @ ?b @ rest)" by simp
  show "load_array sizeof_fat_arch load_fat_arch (length archs) e
      (subbytes sizeof_fat_header (length archs * sizeof_fat_arch) (swapped_image e archs rest)) = archs"
    unfolding swapped_image_def facts(1) [OF fits]
    by (simp add: subbytes_middle [OF h] load_concat_archs)
  show "length (swapped_image e archs rest) = length (fat_image archs rest)"
    unfolding swapped_image_def facts(3) [OF fits] by simp
  have "drop (sizeof_fat_header + length archs * sizeof_fat_arch) (swapped_image e archs rest) =
      drop (sizeof_fat_header + length archs * sizeof_fat_arch) (fat_image archs rest)"
    unfolding swapped_image_def facts(2) [OF fits]
    by (simp add: fat_image_def)
  then show "subbytes p n (swapped_image e archs rest) = subbytes p n (fat_image archs rest)"
    if "sizeof_fat_header + length archs * sizeof_fat_arch \<le> p"
    using that by (rule subbytes_behind)
qed

declare unat_ucast_32_64 [simp]

lemma process_fat_image:
  assumes few: "length archs < 2 ^ 27"
    and "in_arch_flag input = None" and m: "in_contents input = fat_image archs rest"
    and hidden: "\<not> hidden_arch e (swap_mapped_header e (fat_image archs rest)) (of_nat (length archs))"
    and check: "\<forall>f\<in>set archs. check_slice (file_size (fat_image archs rest)) f = Ok ()"
    and inside: "\<forall>f\<in>set archs. unat (fa_offset f) + unat (fa_size f) \<le> length (fat_image archs rest)"
    and archs: "distinct_archs Same_architecture (map (\<lambda>f. (fa_cputype f, fa_cpusubtype f)) archs) = Ok ()"
  shows "process_fat e input =
    Ok (fat_info \<lparr>fh_magic = FAT_MAGIC, fh_nfat_arch = of_nat (length archs)\<rparr> (of_nat (length archs))
      (map (\<lambda>f. slice_thin (in_name input) (swapped_image e archs rest) (fa_cputype f) (fa_cpusubtype f)
                (ucast (fa_offset f)) (ucast (fa_size f)) (fa_align f)) archs))"
proof -
  let ?n = "of_nat (length archs) :: u32" and ?m = "fat_image archs rest"
  let ?h = "\<lparr>fh_magic = FAT_MAGIC, fh_nfat_arch = ?n\<rparr>"
  let ?thins = "map (\<lambda>f. slice_thin (in_name input) (swapped_image e archs rest) (fa_cputype f) (fa_cpusubtype f)
                (ucast (fa_offset f)) (ucast (fa_size f)) (fa_align f)) archs"
  have n: "unat ?n = length archs" by (rule unat_length_archs [OF few])
  have long: "sizeof_fat_header \<le> length ?m" by simp
  have header: "load_fat_header e (take sizeof_fat_header (swap_mapped_header e ?m)) = ?h"
    unfolding mapped_header(1) [OF long] by (rule fat_image_parts)
  have m2: "swap_mapped_archs e ?n (store_fat_header e ?h @ drop sizeof_fat_header (swap_mapped_header e ?m)) =
      swapped_image e archs rest"
    unfolding mapped_header(2) [OF long] fat_image_parts swapped_image_def ..
  have probe: "probe_archives ?thins = Ok ()"
    by (rule probe_archives_Ok)
      (use inside in \<open>auto simp: slice_thin_def swapped_image(3) [OF few]\<close>)
  show ?thesis
    using hidden check archs probe
    by (simp add: process_fat_def Let_def m assms(2) header m2 n swapped_image(1) [OF few] guard_def
        check_all_Ok [THEN iffD2])
qed

text \<open>A hidden entry is only ever found where the four bytes behind the last entry name ARM64.\<close>

lemma hidden_arch_word:
  assumes "hidden_arch e (swap_mapped_header e m) n" and "sizeof_fat_header \<le> length m"
  shows "get32 Big m (unat n * sizeof_fat_arch + sizeof_fat_header) = CPU_TYPE_ARM64"
proof -
  let ?p = "unat n * sizeof_fat_arch + sizeof_fat_header"
  have "subbytes ?p 4 (swap_mapped_header e m) = subbytes ?p 4 m"
    by (rule subbytes_behind [OF mapped_header(2) [OF assms(2)]]) simp
  then have "get32 e (swap_mapped_header e m) ?p = get32 e m ?p" by (simp add: get32_def)
  moreover have "?p + 4 \<le> length m"
    using assms mapped_header(3) [OF assms(2), of e]
    by (simp add: hidden_arch_def Let_def sizeof_fat_arch_def)
  ultimately show ?thesis
    using assms(1) get_flip(2) [of ?p m Little]
    by (cases e) (auto simp: hidden_arch_def Let_def)
qed

end
