(* ===== verification/Lipo_Round_Trip.thy ===== *)
theory Lipo_Round_Trip
  imports Lipo_Facts "HOL-Library.Multiset"
begin

text \<open>
  A fat file that \<open>create_fat\<close> writes is broken down by \<open>process_input_file\<close> into the thin files
  it was made of.
\<close>

section \<open>Architectures\<close>

definition arch_key :: "u32 \<times> u32 \<Rightarrow> u32 \<times> u32" where
  "arch_key a = (fst a, plain (snd a))"

lemma distinct_archs_Ok: "distinct_archs err as = Ok () \<longleftrightarrow> distinct (map arch_key as)"
proof (induction as)
  case Nil
  then show ?case by simp
next
  case (Cons a as)
  have "list_ex (same_arch a) as \<longleftrightarrow> arch_key a \<in> set (map arch_key as)"
    by (auto simp: list_ex_iff same_arch_def arch_key_def)
  with Cons show ?case by simp
qed

lemma distinct_archs_perm:
  assumes "mset as = mset bs"
  shows "distinct_archs err as = Ok () \<longleftrightarrow> distinct_archs err' bs = Ok ()"
proof -
  have "mset (map arch_key as) = mset (map arch_key bs)" using assms by simp
  then show ?thesis unfolding distinct_archs_Ok by (rule mset_eq_imp_distinct_iff)
qed

section \<open>Entries\<close>

lemma unat_ucast_64_32: "unat (w :: u64) < 2 ^ 32 \<Longrightarrow> unat (ucast w :: u32) = unat w"
  by (simp add: unsigned_ucast_eq take_bit_nat_eq_self)

lemma unat_add_le: "unat (a + b :: 'a::len word) \<le> unat a + unat b"
  by (simp add: unat_word_ariths)

text \<open>The thin files that a fat file with 32-bit offsets can hold.\<close>

definition sound_thin :: "thin_file \<Rightarrow> bool" where
  "sound_thin t \<longleftrightarrow>
     4 \<le> unat (tf_size t) \<and> unat (tf_size t) < 2 ^ 32 \<and>
     tf_addr t + unat (tf_size t) \<le> length (tf_map t) \<and> tf_align t \<le> MAXSEGALIGN \<and>
     get32 Big (tf_map t) (tf_addr t) \<noteq> CPU_TYPE_ARM64"

lemma check_slice_placed:
  assumes "unat (tf_offset t) < 2 ^ 32" and "unat (tf_size t) < 2 ^ 32"
    and "unat (tf_offset t) + unat (tf_size t) \<le> unat sz"
    and "tf_align t \<le> MAXSEGALIGN" and "2 ^ unat (tf_align t) dvd unat (tf_offset t)"
  shows "check_slice sz (arch_of_thin t) = Ok ()"
proof -
  let ?o = "ucast (tf_offset t) :: u32" and ?s = "ucast (tf_size t) :: u32"
  have o: "unat ?o = unat (tf_offset t)" and s: "unat ?s = unat (tf_size t)"
    using assms(1,2) by (simp_all only: unat_ucast_64_32)
  have "unat (?o + ?s) \<le> unat sz" using unat_add_le [of ?o ?s] o s assms(3) by linarith
  then have inside: "\<not> sz < ucast (?o + ?s)" by (simp add: word_less_nat_alt)
  have k: "unat (tf_align t) < 32"
    using assms(4) by (simp add: word_le_nat_alt)
  then have "unat (2 ^ unat (tf_align t) :: u32) = 2 ^ unat (tf_align t)"
    by (simp add: unat_power_two)
  then have "unat (?o mod 2 ^ unat (tf_align t)) = 0"
    using assms(5) by (simp add: unat_mod o dvd_eq_mod_eq_0)
  then have "?o mod 2 ^ unat (tf_align t) = 0" by (simp only: unat_eq_0)
  then show ?thesis
    using inside assms(4) by (simp add: check_slice_def arch_of_thin_def guard_def not_less)
qed

lemma packed_bounds:
  "packed p ts \<Longrightarrow> t \<in> set ts \<Longrightarrow> p \<le> unat (tf_offset t) \<and> 2 ^ unat (tf_align t) dvd unat (tf_offset t)"
  by (induction ts arbitrary: p) (fastforce simp: Let_def)+

section \<open>A file without options\<close>

definition plain_options :: fat_options where
  "plain_options = \<lparr>fo_segaligns = [], fo_hideARM64 = False, fo_fat64 = False, fo_extract_family = False\<rparr>"

lemma create_fat_plain:
  "create_fat e qsort junk plain_options thins =
     (let ts = qsort cmp_qsort thins
      in bind (layout False (headers_size False (length ts)) ts) (\<lambda>ts'.
           write_slices True ts' (fat_headers e False junk (length ts) ts')))"
  by (simp add: create_fat_def plain_options_def visible_archs_def Let_def)

lemma fat_headers_image:
  "fat_headers e False junk (length ts) ts @ rest = fat_image (map arch_of_thin ts) rest"
  by (simp add: fat_headers_def fat_image_def disk_header_big comp_def disk_arch_big [abs_def])

lemma unat_headers_size:
  assumes "n < 2 ^ 27"
  shows "unat (headers_size False n) = sizeof_fat_header + n * sizeof_fat_arch"
proof -
  have "headers_size False n = (of_nat (8 + n * 20) :: u64)"
    by (simp add: headers_size_def sizeof_fat_header_def sizeof_fat_arch_def)
  moreover have "unat (of_nat (8 + n * 20) :: u64) = 8 + n * 20"
    using assms by (simp only: unsigned_of_nat) (simp add: take_bit_nat_eq_self)
  ultimately show ?thesis by (simp add: sizeof_fat_header_def sizeof_fat_arch_def)
qed

text \<open>The four bytes behind the last entry are the start of a slice, or fill a gap.\<close>

lemma word_behind_entries:
  assumes t: "sound_thin t" and m: "length h = 8 + 20 * n"
    and q: "8 + 20 * n \<le> q" "2 ^ unat (tf_align t) dvd q" "q < 8 + 20 * n + 2 ^ unat (tf_align t)"
    and gap: "take (q - (8 + 20 * n)) rest = replicate (q - (8 + 20 * n)) 0"
    and data: "subbytes q (unat (tf_size t)) (h @ rest) = subbytes (tf_addr t) (unat (tf_size t)) (tf_map t)"
  shows "get32 Big (h @ rest) (8 + 20 * n) \<noteq> CPU_TYPE_ARM64"
proof (cases "q = 8 + 20 * n")
  case True
  have "subbytes q 4 (h @ rest) = subbytes 0 4 (subbytes q (unat (tf_size t)) (h @ rest))"
    using t by (simp add: sound_thin_def subbytes_subbytes)
  also have "\<dots> = subbytes (tf_addr t) 4 (tf_map t)"
    using t by (simp add: data sound_thin_def subbytes_subbytes)
  finally show ?thesis using t True by (simp add: sound_thin_def get32_def)
next
  case False
  have "4 \<le> q - (8 + 20 * n)"
  proof -
    have "unat (tf_align t) \<noteq> 0 \<and> unat (tf_align t) \<noteq> 1"
    proof (intro conjI notI)
      assume "unat (tf_align t) = 0" then show False using q False by simp
    next
      assume "unat (tf_align t) = 1"
      then have "q < 8 + 20 * n + 2" "2 dvd q" using q by simp_all
      then show False using q(1) False by presburger
    qed
    then have "2 \<le> unat (tf_align t)" by linarith
    with q(2) have "(2 :: nat) ^ 2 dvd q" by (rule power_le_dvd)
    then have "4 dvd q" by simp
    then show ?thesis using q(1) False by presburger
  qed
  then have "take 4 rest = take 4 (take (q - (8 + 20 * n)) rest)" by simp
  also have "\<dots> = replicate 4 0" unfolding gap using \<open>4 \<le> q - _\<close> by simp
  also have "\<dots> = [0, 0, 0, 0]" by (simp add: numeral_eq_Suc)
  finally have "subbytes (8 + 20 * n) 4 (h @ rest) = [0, 0, 0, 0]"
    using m by (simp add: subbytes_def)
  then show ?thesis by (simp add: get32_def)
qed


lemma layout_headers:
  assumes "length ts < 2 ^ 27" and "\<forall>t\<in>set ts. sound_thin t"
    and "layout False (headers_size False (length ts)) ts = Ok ts'"
  shows "list_all2 but_offset ts ts'" "packed (sizeof_fat_header + length ts * sizeof_fat_arch) ts'"
    "\<forall>t\<in>set ts'. unat (tf_offset t) < 2 ^ 32" "\<forall>t\<in>set ts'. sound_thin t"
proof -
  have "unat (headers_size False (length ts)) < 2 ^ 33"
    using assms(1) by (simp add: unat_headers_size sizeof_fat_header_def sizeof_fat_arch_def)
  moreover have "\<forall>t\<in>set ts. unat (tf_size t) < 2 ^ 32" using assms(2) by (simp add: sound_thin_def)
  ultimately have *: "list_all2 but_offset ts ts' \<and> packed (unat (headers_size False (length ts))) ts' \<and>
      (\<forall>t\<in>set ts'. unat (tf_offset t) < 2 ^ 32 \<and> unat (tf_align t) < 31)"
    by (rule layout_packed [OF assms(3)])
  then show "list_all2 but_offset ts ts'" "packed (sizeof_fat_header + length ts * sizeof_fat_arch) ts'"
    "\<forall>t\<in>set ts'. unat (tf_offset t) < 2 ^ 32"
    by (simp_all add: unat_headers_size [OF assms(1)])
  show "\<forall>t\<in>set ts'. sound_thin t"
  proof
    fix t' assume "t' \<in> set ts'"
    then obtain t where "t \<in> set ts" "but_offset t t'"
      using * by (metis in_set_conv_nth list_all2_conv_all_nth)
    then show "sound_thin t'" using assms(2) by (auto simp: but_offset_def sound_thin_def)
  qed
qed

text \<open>What matters of a slice: its architecture, its alignment and its bytes.\<close>

definition slice_view :: "thin_file \<Rightarrow> (u32 \<times> u32) \<times> u32 \<times> bytes lipo" where
  "slice_view t = (tf_arch t, tf_align t, thin_contents t)"

lemma but_offset_view: "list_all2 but_offset ts ts' \<Longrightarrow> map slice_view ts' = map slice_view ts"
  by (induction rule: list_all2_induct)
    (auto simp: but_offset_def slice_view_def tf_arch_def thin_contents_def)

lemma written_not_hidden:
  assumes few: "length ts < 2 ^ 27" and packed: "packed (sizeof_fat_header + length ts * sizeof_fat_arch) ts"
    and sound: "\<forall>t\<in>set ts. sound_thin t" and h: "length h = 8 + 20 * length ts"
    and data: "\<forall>t\<in>set ts. unat (tf_offset t) + unat (tf_size t) \<le> length (h @ rest) \<and>
      thin_contents t = Ok (subbytes (unat (tf_offset t)) (unat (tf_size t)) (h @ rest))"
    and first: "case ts of [] \<Rightarrow> rest = []
      | t # _ \<Rightarrow> let gap = unat (tf_offset t) - length h in take gap rest = replicate gap 0"
  shows "\<not> hidden_arch e (swap_mapped_header e (h @ rest)) (of_nat (length ts))"
proof
  assume hidden: "hidden_arch e (swap_mapped_header e (h @ rest)) (of_nat (length ts))"
  have n: "unat (of_nat (length ts) :: u32) = length ts" by (rule unat_length_archs [OF few])
  have "sizeof_fat_header \<le> length (h @ rest)" using h by (simp add: sizeof_fat_header_def)
  then have "get32 Big (h @ rest) (length ts * sizeof_fat_arch + sizeof_fat_header) = CPU_TYPE_ARM64"
    by (rule hidden_arch_word [OF hidden, unfolded n])
  then have word: "get32 Big (h @ rest) (8 + 20 * length ts) = CPU_TYPE_ARM64"
    by (simp add: sizeof_fat_header_def sizeof_fat_arch_def algebra_simps)
  have "get32 Big (h @ rest) (8 + 20 * length ts) \<noteq> CPU_TYPE_ARM64"
  proof (cases ts)
    case Nil
    then show ?thesis using first h by (simp add: get32_def subbytes_def)
  next
    case (Cons t ts')
    have p: "packed (8 + 20 * length ts) ts"
      using packed by (simp add: sizeof_fat_header_def sizeof_fat_arch_def algebra_simps)
    show ?thesis
    proof (rule word_behind_entries [where t = t and q = "unat (tf_offset t)", OF _ h])
      show "sound_thin t" using sound Cons by simp
      show "8 + 20 * length ts \<le> unat (tf_offset t)" "2 ^ unat (tf_align t) dvd unat (tf_offset t)"
        "unat (tf_offset t) < 8 + 20 * length ts + 2 ^ unat (tf_align t)"
        using p unfolding Cons by (simp_all add: Let_def)
      show "take (unat (tf_offset t) - (8 + 20 * length ts)) rest =
          replicate (unat (tf_offset t) - (8 + 20 * length ts)) 0"
        using first h Cons by (simp add: Let_def)
      show "subbytes (unat (tf_offset t)) (unat (tf_size t)) (h @ rest) =
          subbytes (tf_addr t) (unat (tf_size t)) (tf_map t)"
        using data Cons by (auto simp: thin_contents_def)
    qed
  qed
  then show False using word by contradiction
qed

lemma written_image:
  assumes few: "length ts < 2 ^ 27" and packed: "packed (sizeof_fat_header + length ts * sizeof_fat_arch) ts"
    and small: "\<forall>t\<in>set ts. unat (tf_offset t) < 2 ^ 32" and sound: "\<forall>t\<in>set ts. sound_thin t"
  obtains rest where
    "write_slices True ts (fat_headers e False junk (length ts) ts) = Ok (fat_image (map arch_of_thin ts) rest)"
    "\<forall>t\<in>set ts. unat (tf_offset t) + unat (tf_size t) \<le> length (fat_image (map arch_of_thin ts) rest) \<and>
       thin_contents t =
         Ok (subbytes (unat (tf_offset t)) (unat (tf_size t)) (fat_image (map arch_of_thin ts) rest))"
    "length (fat_image (map arch_of_thin ts) rest) < 2 ^ 64"
    "\<not> hidden_arch e' (swap_mapped_header e' (fat_image (map arch_of_thin ts) rest)) (of_nat (length ts))"
proof -
  let ?h = "fat_headers e False junk (length ts) ts"
  let ?image = "fat_image (map arch_of_thin ts)"
  have image: "?h @ rest = ?image rest" for rest by (rule fat_headers_image)
  have h: "length ?h = sizeof_fat_header + length ts * sizeof_fat_arch"
    using image [of "[]"] length_fat_image [of "map arch_of_thin ts" "[]"] by simp
  have valid: "\<forall>t\<in>set ts. 0 < unat (tf_size t) \<and> tf_addr t + unat (tf_size t) \<le> length (tf_map t)"
    using sound by (auto simp: sound_thin_def)
  obtain rest where rest: "write_slices True ts ?h = Ok (?h @ rest)"
    and data: "\<forall>t\<in>set ts. unat (tf_offset t) + unat (tf_size t) \<le> length (?h @ rest) \<and>
      thin_contents t = Ok (subbytes (unat (tf_offset t)) (unat (tf_size t)) (?h @ rest))"
    and first: "case ts of [] \<Rightarrow> rest = []
      | t # _ \<Rightarrow> let gap = unat (tf_offset t) - length ?h in take gap rest = replicate gap 0"
    and last: "ts \<noteq> [] \<longrightarrow> (\<exists>t\<in>set ts. length (?h @ rest) = unat (tf_offset t) + unat (tf_size t))"
    using write_slices_packed [OF packed eq_imp_le [OF h] valid] by blast
  have "length (?h @ rest) < 2 ^ 64"
  proof (cases "ts = []")
    case True
    then show ?thesis using first h by (simp add: sizeof_fat_header_def)
  next
    case False
    then obtain t where t: "t \<in> set ts" "length (?h @ rest) = unat (tf_offset t) + unat (tf_size t)"
      using last by blast
    have "unat (tf_offset t) < 2 ^ 32" "unat (tf_size t) < 2 ^ 32"
      using small sound t(1) by (auto simp: sound_thin_def)
    then show ?thesis unfolding t(2) by simp
  qed
  moreover have "\<not> hidden_arch e' (swap_mapped_header e' (?h @ rest)) (of_nat (length ts))"
    using h by (intro written_not_hidden [OF few packed sound _ data first]) (simp add: sizeof_fat_header_def sizeof_fat_arch_def)
  ultimately show ?thesis using that rest data unfolding image by blast
qed


text \<open>The entries of a written file pass the checks, and its slices are the thin files.\<close>

lemma process_written:
  assumes few: "length ts < 2 ^ 27" and packed: "packed (sizeof_fat_header + length ts * sizeof_fat_arch) ts"
    and small: "\<forall>t\<in>set ts. unat (tf_offset t) < 2 ^ 32" and sound: "\<forall>t\<in>set ts. sound_thin t"
    and archs: "distinct_archs Same_architecture (map tf_arch ts) = Ok ()"
    and out: "write_slices True ts (fat_headers e False junk (length ts) ts) = Ok out"
    and input: "in_arch_flag input = None" "in_contents input = out"
  shows "\<exists>info. process_fat e' input = Ok info \<and> ii_errors info = 0 \<and>
           ii_fat_header info = Some \<lparr>fh_magic = FAT_MAGIC, fh_nfat_arch = of_nat (length ts)\<rparr> \<and>
           map slice_view (ii_thin_files info) = map slice_view ts"
proof -
  let ?archs = "map arch_of_thin ts"
  obtain rest where out': "write_slices True ts (fat_headers e False junk (length ts) ts) = Ok (fat_image ?archs rest)"
    and data: "\<forall>t\<in>set ts. unat (tf_offset t) + unat (tf_size t) \<le> length (fat_image ?archs rest) \<and>
       thin_contents t = Ok (subbytes (unat (tf_offset t)) (unat (tf_size t)) (fat_image ?archs rest))"
    and long: "length (fat_image ?archs rest) < 2 ^ 64"
    and hidden: "\<not> hidden_arch e' (swap_mapped_header e' (fat_image ?archs rest)) (of_nat (length ts))"
    by (rule written_image [OF few packed small sound])
  have sz: "unat (file_size (fat_image ?archs rest)) = length (fat_image ?archs rest)"
    using long by (simp only: file_size_def unsigned_of_nat) (simp add: take_bit_nat_eq_self)
  have entry: "unat (fa_offset (arch_of_thin t)) = unat (tf_offset t)" "unat (fa_size (arch_of_thin t)) = unat (tf_size t)"
    if "t \<in> set ts" for t
    using that small sound by (auto simp: arch_of_thin_def unat_ucast_64_32 sound_thin_def)
  have checks: "\<forall>f\<in>set ?archs. check_slice (file_size (fat_image ?archs rest)) f = Ok ()"
    using data small sound packed_bounds [OF packed]
    by (auto simp: sz sound_thin_def intro!: check_slice_placed simp del: length_fat_image)
  have inside: "\<forall>f\<in>set ?archs. unat (fa_offset f) + unat (fa_size f) \<le> length (fat_image ?archs rest)"
    using data by (auto simp: entry simp del: length_fat_image)
  have "map (\<lambda>f. (fa_cputype f, fa_cpusubtype f)) ?archs = map tf_arch ts"
    by (simp add: arch_of_thin_def tf_arch_def)
  then have distinct: "distinct_archs Same_architecture (map (\<lambda>f. (fa_cputype f, fa_cpusubtype f)) ?archs) = Ok ()"
    using archs by (simp only:)
  have few': "length ?archs < 2 ^ 27" using few by simp
  have contents: "in_contents input = fat_image ?archs rest" using input(2) out out' by simp
  let ?thin = "\<lambda>f. slice_thin (in_name input) (swapped_image e' ?archs rest) (fa_cputype f) (fa_cpusubtype f)
                (ucast (fa_offset f)) (ucast (fa_size f)) (fa_align f)"
  have "slice_view (?thin (arch_of_thin t)) = slice_view t" if t: "t \<in> set ts" for t
  proof -
    have "subbytes (unat (tf_offset t)) (unat (tf_size t)) (swapped_image e' ?archs rest) =
        subbytes (unat (tf_offset t)) (unat (tf_size t)) (fat_image ?archs rest)"
      using packed_bounds [OF packed t] by (intro swapped_image(2) [OF few']) simp
    then have "thin_contents (?thin (arch_of_thin t)) = thin_contents t"
      using data t entry [OF t]
      by (simp add: thin_contents_def slice_thin_def read_bytes_def swapped_image(3) [OF few'] del: length_fat_image)
    then show ?thesis by (simp add: slice_view_def tf_arch_def slice_thin_def arch_of_thin_def)
  qed
  then show ?thesis
    using process_fat_image [OF few' input(1) contents _ checks inside distinct, of e'] hidden
    by (simp add: fat_info_def)
qed

lemma written_is_fat:
  "is_fat e FAT_MAGIC (fat_image archs rest)"
proof -
  have "get32 Big (fat_image archs rest) 0 = FAT_MAGIC"
    by (simp add: fat_image_def fat_header_defs byte_simps)
  moreover have "get32 Little (fat_image archs rest) 0 = SWAP_INT (get32 Big (fat_image archs rest) 0)"
    using get_flip(2) [of 0 "fat_image archs rest" Big] by (simp add: sizeof_fat_header_def)
  ultimately show ?thesis by (cases e) (simp_all add: is_fat_def is_fat_magic_def)
qed

section \<open>The round trip\<close>

lemma round_trip:
  assumes "\<And>cmp ts. mset (qsort cmp ts) = mset ts"
    and "length thins < 2 ^ 27" and "\<forall>t\<in>set thins. sound_thin t"
    and "distinct_archs Same_architecture (map tf_arch thins) = Ok ()"
    and "create_fat e qsort junk plain_options thins = Ok out"
    and "in_arch_flag input = None" and "in_contents input = out"
  shows "\<exists>info. process_input_file env False input = Some (Ok info) \<and> ii_errors info = 0 \<and>
           ii_fat_header info = Some \<lparr>fh_magic = FAT_MAGIC, fh_nfat_arch = of_nat (length thins)\<rparr> \<and>
           map slice_view (ii_thin_files info) = map slice_view (qsort cmp_qsort thins)"
proof -
  let ?ts = "qsort cmp_qsort thins"
  have perm: "mset ?ts = mset thins" by (rule assms(1))
  have set: "set ?ts = set thins" and len: "length ?ts = length thins"
    using mset_eq_setD [OF perm] mset_eq_length [OF perm] by simp_all
  obtain ts where layout: "layout False (headers_size False (length ?ts)) ?ts = Ok ts"
    and out: "write_slices True ts (fat_headers e False junk (length ?ts) ts) = Ok out"
    using assms(5) by (auto simp: create_fat_plain Let_def bind_eq_Ok)
  have few: "length ?ts < 2 ^ 27" and sound: "\<forall>t\<in>set ?ts. sound_thin t"
    using assms(2,3) by (simp_all only: set len)
  note laid = layout_headers [OF few sound layout]
  have n: "length ts = length ?ts" using laid(1) by (simp add: list_all2_lengthD)
  have "map tf_arch ts = map tf_arch ?ts"
    using laid(1) by (induction rule: list_all2_induct) (auto simp: but_offset_def tf_arch_def)
  then have archs: "distinct_archs Same_architecture (map tf_arch ts) = Ok ()"
    using assms(4) distinct_archs_perm [of "map tf_arch ?ts" "map tf_arch thins" Same_architecture Same_architecture]
    perm by simp
  have "\<exists>rest. out = fat_image (map arch_of_thin ts) rest"
    using written_image [of ts e junk] laid few out n by (metis result.inject(1))
  then have "is_fat (le_host env) FAT_MAGIC out" using written_is_fat by blast
  moreover obtain info where "process_fat (le_host env) input = Ok info" "ii_errors info = 0"
      "ii_fat_header info = Some \<lparr>fh_magic = FAT_MAGIC, fh_nfat_arch = of_nat (length ?ts)\<rparr>"
      "map slice_view (ii_thin_files info) = map slice_view ts"
    using process_written [OF _ _ laid(3,4) archs _ assms(6,7), of e junk "le_host env"] laid(2) few out
    unfolding n by blast
  ultimately show ?thesis
    using but_offset_view [OF laid(1)] by (simp add: process_input_file_def Let_def assms(7) len)
qed

text \<open>
  C22.  Round trip.  A fat file that \<open>create_fat\<close> writes (32-bit offsets, no options), read back by
  \<open>process_input_file\<close> on a host of either byte order, gives the thin files it was made of, in the
  order they were sorted in: the same architectures, alignments and bytes.  Of \<open>qsort\<close> it is only
  used that it permutes.  The thin files are of distinct architectures, of 4 bytes to 4
  gigabytes, and do not begin with the number of ARM64.
\<close>

theorem lipo_round_trip:
  assumes "\<And>cmp ts. mset (qsort cmp ts) = mset ts"
    and "length thins < 2 ^ 27" and "\<forall>t\<in>set thins. sound_thin t"
    and "distinct_archs Same_architecture (map tf_arch thins) = Ok ()"
    and "create_fat e qsort junk plain_options thins = Ok out"
    and "in_arch_flag input = None" and "in_contents input = out"
  shows "\<exists>info. process_input_file env False input = Some (Ok info) \<and>
           map slice_view (ii_thin_files info) = map slice_view (qsort cmp_qsort thins)"
  using round_trip [OF assms, of env] by blast

text \<open>An insertion sort in the place of \<open>qsort\<close>, and two files.\<close>

fun insert_by :: "(thin_file \<Rightarrow> thin_file \<Rightarrow> int) \<Rightarrow> thin_file \<Rightarrow> thin_file list \<Rightarrow> thin_file list" where
  "insert_by cmp t [] = [t]"
| "insert_by cmp t (u # us) = (if cmp t u \<le> 0 then t # u # us else u # insert_by cmp t us)"

definition sort_by :: thin_sort where
  "sort_by cmp ts = foldr (insert_by cmp) ts []"

lemma mset_sort_by: "mset (sort_by cmp ts) = mset ts"
proof -
  have insert: "mset (insert_by cmp t us) = add_mset t (mset us)" for t us
    by (induction us) simp_all
  show ?thesis by (induction ts) (simp_all add: sort_by_def insert)
qed

definition two_files :: "thin_file list" where
  "two_files =
     [whole_thin ''a'' [1, 2, 3, 4, 5] CPU_TYPE_POWERPC 0 5,
      whole_thin ''b'' [6, 7, 8, 9] CPU_TYPE_I386 3 0]"

lemma sound_two_files: "\<forall>t\<in>set two_files. sound_thin t"
proof -
  have "\<forall>t\<in>set two_files. get32 Big (tf_map t) (tf_addr t) \<noteq> CPU_TYPE_ARM64" by code_simp
  then show ?thesis by (simp add: two_files_def whole_thin_def sound_thin_def file_size_def)
qed

lemma create_two_files: "\<exists>out. create_fat Little sort_by 0 plain_options two_files = Ok out"
proof -
  have "case create_fat Little sort_by 0 plain_options two_files of
      Ok out \<Rightarrow> length out = 69 | _ \<Rightarrow> False"
    by code_simp
  then show ?thesis by (auto split: result.splits)
qed

theorem lipo_round_trip_witness:
  "\<exists>out info. create_fat Little sort_by 0 plain_options two_files = Ok out \<and>
     process_input_file \<lparr>le_host = Little, le_pagesize = 4096, le_lto = \<lambda>_ _ _. None, le_erange = False\<rparr>
       False \<lparr>in_name = ''fat'', in_contents = out, in_arch_flag = None\<rparr> = Some (Ok info) \<and>
     map slice_view (ii_thin_files info) = map slice_view (sort_by cmp_qsort two_files)"
proof -
  obtain out where out: "create_fat Little sort_by 0 plain_options two_files = Ok out"
    using create_two_files by blast
  have archs: "distinct_archs Same_architecture (map tf_arch two_files) = Ok ()" by code_simp
  have few: "length two_files < 2 ^ 27" by (simp add: two_files_def)
  show ?thesis
    using lipo_round_trip [OF mset_sort_by few sound_two_files archs out,
        of "\<lparr>in_name = ''fat'', in_contents = out, in_arch_flag = None\<rparr>"] out
    by fastforce
qed

section \<open>When a fat file can be created\<close>

lemma layout_outcome:
  assumes "\<forall>t\<in>set ts. tf_align t < 31"
  shows "(\<exists>ts'. layout fat64_flag offset ts = Ok ts') \<or>
         (\<exists>q. layout fat64_flag offset ts = Error (Offset_too_large q) \<and> \<not> fat64_flag)"
  using assms
proof (induction ts arbitrary: offset)
  case Nil
  then show ?case by simp
next
  case (Cons t ts)
  let ?o = "rnd offset (2 ^ unat (tf_align t))"
  have align: "within (tf_align t < 31) ?o = (Ok ?o :: u64 lipo)" using Cons.prems by (simp add: within_def)
  have "\<forall>t\<in>set ts. tf_align t < 31" using Cons.prems by simp
  from Cons.IH [OF this, of "?o + tf_size t"] show ?case by (auto simp: align guard_def)
qed

lemma layout_fits:
  assumes "\<forall>t\<in>set ts. sound_thin t"
    and "unat offset + (\<Sum>t\<leftarrow>ts. 2 ^ 15 + unat (tf_size t)) < 2 ^ 32"
  shows "\<exists>ts'. layout False offset ts = Ok ts'"
  using assms
proof (induction ts arbitrary: offset)
  case Nil
  then show ?case by simp
next
  case (Cons t ts)
  let ?o = "rnd offset (2 ^ unat (tf_align t))"
  have k: "unat (tf_align t) \<le> 15" using Cons.prems(1) by (simp add: sound_thin_def word_le_nat_alt)
  have align: "within (tf_align t < 31) ?o = (Ok ?o :: u64 lipo)"
    using k by (simp add: within_def word_less_nat_alt)
  have "(2 :: nat) ^ unat (tf_align t) \<le> 2 ^ 15" using k by (intro power_increasing) simp_all
  moreover have "unat ?o < unat offset + 2 ^ unat (tf_align t)"
  proof -
    have "unat ?o = (unat offset + (2 ^ unat (tf_align t) - 1)) div 2 ^ unat (tf_align t) * 2 ^ unat (tf_align t)"
      using k Cons.prems(2) by (intro unat_rnd) simp_all
    then show ?thesis using round_up_nat(3) by metis
  qed
  ultimately have o: "unat ?o + unat (tf_size t) + (\<Sum>t\<leftarrow>ts. 2 ^ 15 + unat (tf_size t)) < 2 ^ 32"
    using Cons.prems(2) by simp
  then have "unat (?o + tf_size t) = unat ?o + unat (tf_size t)"
    by (intro unat_add_lem [THEN iffD1]) simp
  then have "\<exists>ts'. layout False (?o + tf_size t) ts = Ok ts'"
    using Cons.prems(1) o by (intro Cons.IH) simp_all
  moreover have "\<not> 0xffffffff < ?o" using o by (simp add: word_less_nat_alt)
  ultimately show ?case by (auto simp: align guard_def)
qed

lemma write_slices_outcome:
  assumes "\<forall>t\<in>set ts. tf_addr t + unat (tf_size t) \<le> length (tf_map t)"
  shows "\<exists>out'. write_slices seek ts out = Ok out'"
  using assms by (induction ts arbitrary: out) (auto simp: thin_contents_def read_bytes_def)

text \<open>
  C35.  \<open>create_fat\<close> of sound thin files without options never accesses memory outside its inputs:
  it writes a file, or it reports that an offset does not fit into 32 bits; and it does write
  one when the headers, the slices and the largest alignment for each sum up to less than 4
  gigabytes.
\<close>

theorem create_fat_outcome:
  assumes "\<And>cmp ts. mset (qsort cmp ts) = mset ts"
    and "length thins < 2 ^ 27" and "\<forall>t\<in>set thins. sound_thin t"
  shows "((\<exists>out. create_fat e qsort junk plain_options thins = Ok out) \<or>
          (\<exists>q. create_fat e qsort junk plain_options thins = Error (Offset_too_large q))) \<and>
         (8 + 20 * length thins + (\<Sum>t\<leftarrow>thins. 2 ^ 15 + unat (tf_size t)) < 2 ^ 32 \<longrightarrow>
          (\<exists>out. create_fat e qsort junk plain_options thins = Ok out))"
proof -
  let ?ts = "qsort cmp_qsort thins"
  have perm: "mset ?ts = mset thins" by (rule assms(1))
  have set: "set ?ts = set thins" and len: "length ?ts = length thins"
    using mset_eq_setD [OF perm] mset_eq_length [OF perm] by simp_all
  have few: "length ?ts < 2 ^ 27" and sound: "\<forall>t\<in>set ?ts. sound_thin t"
    using assms(2,3) by (simp_all only: set len)
  let ?l = "layout False (headers_size False (length ?ts)) ?ts"
  have written: "\<exists>out. create_fat e qsort junk plain_options thins = Ok out" if "?l = Ok ts'" for ts'
  proof -
    have "\<forall>t\<in>set ts'. tf_addr t + unat (tf_size t) \<le> length (tf_map t)"
      using layout_headers(4) [OF few sound that] by (simp add: sound_thin_def)
    then show ?thesis using that write_slices_outcome by (auto simp: create_fat_plain Let_def)
  qed
  have "\<forall>t\<in>set ?ts. tf_align t < 31"
    using sound by (auto simp: sound_thin_def word_less_nat_alt word_le_nat_alt)
  from layout_outcome [OF this, of False] written
  have "(\<exists>out. create_fat e qsort junk plain_options thins = Ok out) \<or>
      (\<exists>q. create_fat e qsort junk plain_options thins = Error (Offset_too_large q))"
    by (fastforce simp: create_fat_plain Let_def)
  moreover have "\<exists>ts'. ?l = Ok ts'"
    if "8 + 20 * length thins + (\<Sum>t\<leftarrow>thins. 2 ^ 15 + unat (tf_size t)) < 2 ^ 32"
  proof (rule layout_fits [OF sound])
    have "mset (map (\<lambda>t. 2 ^ 15 + unat (tf_size t)) ?ts) = mset (map (\<lambda>t. 2 ^ 15 + unat (tf_size t)) thins)"
      using perm by simp
    then have "(\<Sum>t\<leftarrow>?ts. 2 ^ 15 + unat (tf_size t)) = (\<Sum>t\<leftarrow>thins. 2 ^ 15 + unat (tf_size t))"
      by (metis sum_mset_sum_list)
    then show "unat (headers_size False (length ?ts)) + (\<Sum>t\<leftarrow>?ts. 2 ^ 15 + unat (tf_size t)) < 2 ^ 32"
      using that len unat_headers_size [OF few] by (simp add: sizeof_fat_header_def sizeof_fat_arch_def)
  qed
  ultimately show ?thesis using written by blast
qed

theorem create_fat_outcome_witness:
  "\<exists>out. create_fat Little sort_by 0 plain_options two_files = Ok out"
proof -
  have few: "length two_files < 2 ^ 27" by (simp add: two_files_def)
  have "8 + 20 * length two_files + (\<Sum>t\<leftarrow>two_files. 2 ^ 15 + unat (tf_size t)) < 2 ^ 32"
    by (simp add: two_files_def whole_thin_def file_size_def)
  then show ?thesis using create_fat_outcome [where qsort = sort_by, OF mset_sort_by few sound_two_files] by blast
qed

section \<open>Where the checks fail\<close>

text \<open>
  The end of a slice is computed in 32 bits: an entry whose offset and size sum up to \<open>2 ^ 32\<close>
  passes the checks of \<open>process_input_file\<close> for every size of the file, and the test for an
  archive then reads outside the mapping.
\<close>

theorem check_slice_wraps:
  assumes "unat (fa_offset f) + unat (fa_size f) = 2 ^ 32" and "8 \<le> fa_size f"
    and "fa_align f \<le> MAXSEGALIGN" and "2 ^ unat (fa_align f) dvd unat (fa_offset f)"
    and "length m \<le> unat (fa_offset f)"
  shows "check_slice sz f = Ok () \<and>
         probe_archives [slice_thin name m (fa_cputype f) (fa_cpusubtype f) (ucast (fa_offset f))
           (ucast (fa_size f)) (fa_align f)] = Fault"
proof
  have "unat (fa_offset f + fa_size f) = 0" using assms(1) by (simp add: unat_word_ariths)
  then have sum: "fa_offset f + fa_size f = 0" by (simp only: unat_eq_0)
  have "unat (fa_align f) < 32" using assms(3) by (simp add: word_le_nat_alt)
  then have "unat (2 ^ unat (fa_align f) :: u32) = 2 ^ unat (fa_align f)" by (simp add: unat_power_two)
  then have "unat (fa_offset f mod 2 ^ unat (fa_align f)) = 0"
    using assms(4) by (simp add: unat_mod dvd_eq_mod_eq_0)
  then have "fa_offset f mod 2 ^ unat (fa_align f) = 0" by (simp only: unat_eq_0)
  then show "check_slice sz f = Ok ()"
    using sum assms(3) by (simp add: check_slice_def guard_def not_less)
  have "(8 :: u64) \<le> ucast (fa_size f)" using assms(2) by (simp add: word_le_nat_alt)
  then show "probe_archives [slice_thin name m (fa_cputype f) (fa_cpusubtype f) (ucast (fa_offset f))
      (ucast (fa_size f)) (fa_align f)] = Fault"
    using assms(5) by (simp add: slice_thin_def ARMAG_def)
qed

theorem check_slice_wraps_witness:
  "check_slice 48 \<lparr>fa_cputype = CPU_TYPE_I386, fa_cpusubtype = 3, fa_offset = 0xfffffff0, fa_size = 16, fa_align = 4\<rparr> = Ok ()"
  using check_slice_wraps [where sz = 48 and m = "[]" and
      f = "\<lparr>fa_cputype = CPU_TYPE_I386, fa_cpusubtype = 3, fa_offset = 0xfffffff0, fa_size = 16, fa_align = 4\<rparr>"]
  by simp

text \<open>
  C0.  On a little-endian host the search for a hidden ARM64 entry compares the offsets before
  they are swapped, so it reads the first slice of a file as an entry: in a file with one raw
  slice at offset 28 that begins with the number of ARM64 a second architecture is found, which a
  big-endian host does not find.
\<close>

definition raw_slice :: fat_arch where
  "raw_slice = \<lparr>fa_cputype = CPU_TYPE_I386, fa_cpusubtype = 3, fa_offset = 28, fa_size = 20, fa_align = 0\<rparr>"

definition raw_file :: bytes where
  "raw_file = fat_image [raw_slice] (put32 Big CPU_TYPE_ARM64 @ replicate 16 0)"

theorem hidden_arch_misread:
  "hidden_arch Little (swap_mapped_header Little raw_file) 1 \<and>
   \<not> hidden_arch Big (swap_mapped_header Big raw_file) 1"
proof -
  have raw: "swap_mapped_header Little raw_file = [0xbe, 0xba, 0xfe, 0xca, 1, 0, 0, 0] @ drop 8 raw_file"
    by code_simp
  have f: "first_offset Little ([0xbe, 0xba, 0xfe, 0xca, 1, 0, 0, 0] @ drop 8 raw_file) 1 = 0x1c000000"
    "first_offset Big raw_file 1 = 28"
    by code_simp+
  have c: "SWAP_INT (get32 Little ([0xbe, 0xba, 0xfe, 0xca, 1, 0, 0, 0] @ drop 8 raw_file) 28) = CPU_TYPE_ARM64"
    by code_simp
  have l: "length ([0xbe, 0xba, 0xfe, 0xca, 1, 0, 0, 0] @ drop 8 raw_file) = 48" by code_simp
  have "hidden_arch Little (swap_mapped_header Little raw_file) 1"
    unfolding raw hidden_arch_def Let_def l sizeof_fat_arch_def sizeof_fat_header_def
    using f(1) c by simp
  moreover have "\<not> hidden_arch Big (swap_mapped_header Big raw_file) 1"
    unfolding hidden_arch_def Let_def swap_mapped_header_def sizeof_fat_arch_def sizeof_fat_header_def
    using f(2) by simp
  ultimately show ?thesis ..
qed

text \<open>
  The comparison that \<open>create_fat\<close> sorts with is no order: it has a cycle of three thin files,
  since files of one CPU are compared by their subtype and files of different CPUs by their
  alignment.  The order of the slices in a file is then up to \<open>qsort\<close>.
\<close>

theorem cmp_qsort_cyclic:
  "\<exists>a b c. cmp_qsort a b < 0 \<and> cmp_qsort b c < 0 \<and> cmp_qsort c a < 0"
proof (intro exI)
  let ?f = "\<lambda>cputype cpusubtype align. whole_thin ''a'' [] cputype cpusubtype align"
  show "cmp_qsort (?f CPU_TYPE_X86_64 3 12) (?f CPU_TYPE_X86_64 8 2) < 0 \<and>
      cmp_qsort (?f CPU_TYPE_X86_64 8 2) (?f CPU_TYPE_I386 3 5) < 0 \<and>
      cmp_qsort (?f CPU_TYPE_I386 3 5) (?f CPU_TYPE_X86_64 3 12) < 0"
    by code_simp
qed

end
