(* ===== verification/Lipo_Args.thy ===== *)
theory Lipo_Args
  imports Lipo_Create
begin

text \<open>
  The command line of \<open>misc/lipo.c\<close>: the flags and the checks that \<open>main\<close> makes before it
  reads a file.  Every error here ends the program.
\<close>

section \<open>Hexadecimal numbers\<close>

definition hex_value :: "char \<Rightarrow> nat option" where
  "hex_value c =
     (let n = of_char c :: nat
      in if 48 \<le> n \<and> n \<le> 57 then Some (n - 48)
         else if 97 \<le> n \<and> n \<le> 102 then Some (n - 87)
         else if 65 \<le> n \<and> n \<le> 70 then Some (n - 55)
         else None)"

definition ishex :: "char \<Rightarrow> bool" where
  "ishex c \<longleftrightarrow> hex_value c \<noteq> None"

fun skip_0x :: "string \<Rightarrow> string" where
  "skip_0x (z # x # d # s) =
     (if z = CHR ''0'' \<and> (x = CHR ''x'' \<or> x = CHR ''X'') \<and> ishex d then d # s else z # x # d # s)"
| "skip_0x s = s"

text \<open>\<open>strtoul (s, &endp, 16)\<close>: the value and where \<open>endp\<close> points.\<close>

definition strtoul_hex :: "string \<Rightarrow> u64 \<times> string" where
  "strtoul_hex s =
     (let (neg, t) = skip_sign (dropWhile isspace s); t = skip_0x t;
          v = foldl (\<lambda>v c. 16 * v + the (hex_value c)) 0 (takeWhile ishex t)
      in if takeWhile ishex t = [] then (0, s)
         else (if v > ULONG_MAX then - 1 else if neg then - of_nat v else of_nat v, dropWhile ishex t))"

section \<open>Powers of two\<close>

text \<open>The loops that shift the low zero bits out; the second component counts them.\<close>

partial_function (option) shift_out :: "u32 \<Rightarrow> u32 \<Rightarrow> (u32 \<times> u32) option" where
  [code]: "shift_out x n = (if x AND 1 \<noteq> 1 then shift_out (drop_bit 1 x) (n + 1) else Some (x, n))"

definition ispoweroftwo :: "u32 \<Rightarrow> bool option" where
  "ispoweroftwo x =
     (if x = 0 then Some True
      else map_option (\<lambda>(x, _). x AND NOT 1 = 0) (shift_out x 0))"

text \<open>The argument of \<open>-segalign\<close>.\<close>

datatype usage_error =
    Missing_argument string
  | Unknown_architecture string
  | Twice string
  | Not_hexadecimal string
  | Not_power_of_two u32
  | Align_too_large u32
  | Unknown_flag string
  | No_longer_supported string
  | No_operation
  | No_output
  | No_input
  | One_input_only
  | One_operation_only
  | Hide_without_output

type_synonym 'a parsed = "(usage_error, 'a) result"

definition parse_segalign :: "string \<Rightarrow> u32 parsed option" where
  "parse_segalign s =
     (let (v, endp) = strtoul_hex s; value = ucast v :: u32
      in if endp \<noteq> [] then Some (Error (Not_hexadecimal s))
         else Option.bind (ispoweroftwo value) (\<lambda>power.
           if \<not> power \<or> value = 0 then Some (Error (Not_power_of_two value))
           else if value > push_bit 15 1 then Some (Error (Align_too_large value))
           else map_option (\<lambda>(_, align). Ok align) (shift_out value 0)))"

section \<open>Flags\<close>

record lipo_args =
  la_inputs :: "(string \<times> arch_flag option) list"
  la_output :: "string option"
  la_create :: bool
  la_info :: bool
  la_detailed_info :: bool
  la_brief_info :: bool
  la_thin :: "arch_flag option"
  la_remove :: "arch_flag list"
  la_extract :: "arch_flag list"
  la_extract_family :: bool
  la_replace :: "(arch_flag \<times> string) list"
  la_segaligns :: "(arch_flag \<times> u32) list"
  la_verify :: "arch_flag list option"
  la_fat64 :: bool
  la_hideARM64 :: bool

definition no_args :: lipo_args where
  "no_args =
     \<lparr>la_inputs = [], la_output = None, la_create = False, la_info = False, la_detailed_info = False,
      la_brief_info = False, la_thin = None, la_remove = [], la_extract = [],
      la_extract_family = False, la_replace = [], la_segaligns = [], la_verify = None,
      la_fat64 = False, la_hideARM64 = False\<rparr>"

definition arch_argument :: "string \<Rightarrow> arch_flag parsed" where
  "arch_argument name =
     (case get_arch_from_flag name of Some f \<Rightarrow> Ok f | None \<Rightarrow> Error (Unknown_architecture name))"

fun arch_arguments :: "string list \<Rightarrow> arch_flag list parsed" where
  "arch_arguments [] = Ok []"
| "arch_arguments (name # names) =
     bind (arch_argument name) (\<lambda>f. bind (arch_arguments names) (\<lambda>fs. Ok (f # fs)))"

text \<open>
  One flag, without its \<open>-\<close>, and the arguments behind it: the new state and the arguments that
  are left.
\<close>

definition one_argument :: "string \<Rightarrow> string list \<Rightarrow> (string \<times> string list) parsed" where
  "one_argument flag rest =
     (case rest of s # rest' \<Rightarrow> Ok (s, rest') | [] \<Rightarrow> Error (Missing_argument flag))"

definition two_arguments :: "string \<Rightarrow> string list \<Rightarrow> (string \<times> string \<times> string list) parsed" where
  "two_arguments flag rest =
     (case rest of s # t # rest' \<Rightarrow> Ok (s, t, rest') | _ \<Rightarrow> Error (Missing_argument flag))"

definition parse_flag :: "lipo_args \<Rightarrow> string \<Rightarrow> string list \<Rightarrow> (lipo_args \<times> string list) parsed option" where
  "parse_flag args p rest =
     (if p \<in> {''arch'', ''a''} then
        Some (bind (two_arguments p rest) (\<lambda>(name, file_name, rest).
          bind (arch_argument name) (\<lambda>f.
            Ok (args\<lparr>la_inputs := la_inputs args @ [(file_name, Some f)]\<rparr>, rest))))
      else if p = ''arch_blank'' then Some (Error (No_longer_supported p))
      else if p = ''archs'' then Some (Ok (args\<lparr>la_brief_info := True\<rparr>, rest))
      else if p \<in> {''create'', ''c''} then Some (Ok (args\<lparr>la_create := True\<rparr>, rest))
      else if p \<in> {''detailed_info'', ''d''} then Some (Ok (args\<lparr>la_detailed_info := True\<rparr>, rest))
      else if p \<in> {''extract'', ''extract_family'', ''e''} then
        Some (bind (one_argument p rest) (\<lambda>(name, rest).
          bind (arch_argument name) (\<lambda>f.
            Ok (args\<lparr>la_extract := la_extract args @ [f],
                la_extract_family := la_extract_family args \<or> p = ''extract_family''\<rparr>, rest))))
      else if p = ''hideARM64'' then Some (Ok (args\<lparr>la_hideARM64 := True\<rparr>, rest))
      else if p \<in> {''info'', ''i''} then Some (Ok (args\<lparr>la_info := True\<rparr>, rest))
      else if p \<in> {''output'', ''o''} then
        Some (bind (one_argument p rest) (\<lambda>(name, rest).
          bind (guard (la_output args = None) (Twice p)) (\<lambda>_.
            Ok (args\<lparr>la_output := Some name\<rparr>, rest))))
      else if p \<in> {''remove'', ''rem''} then
        Some (bind (one_argument p rest) (\<lambda>(name, rest).
          bind (arch_argument name) (\<lambda>f.
            Ok (args\<lparr>la_remove := la_remove args @ [f]\<rparr>, rest))))
      else if p \<in> {''replace'', ''rep''} then
        Some (bind (two_arguments p rest) (\<lambda>(name, file_name, rest).
          bind (arch_argument name) (\<lambda>f.
            Ok (args\<lparr>la_replace := la_replace args @ [(f, file_name)]\<rparr>, rest))))
      else if p \<in> {''segalign'', ''s''} then
        (case bind (two_arguments p rest) (\<lambda>(name, value, rest).
                bind (arch_argument name) (\<lambda>f. Ok (f, value, rest))) of
           Ok (f, value, rest) \<Rightarrow>
             map_option (\<lambda>r. bind r (\<lambda>align.
                 Ok (args\<lparr>la_segaligns := la_segaligns args @ [(f, align)]\<rparr>, rest)))
               (parse_segalign value)
         | Error err \<Rightarrow> Some (Error err)
         | Fault \<Rightarrow> Some Fault)
      else if p \<in> {''thin'', ''t''} then
        Some (bind (guard (la_thin args = None) (Twice p)) (\<lambda>_.
          bind (one_argument p rest) (\<lambda>(name, rest).
          bind (arch_argument name) (\<lambda>f.
            Ok (args\<lparr>la_thin := Some f\<rparr>, rest)))))
      else if p = ''verify_arch'' then
        Some (bind (one_argument p rest) (\<lambda>_.
          bind (arch_arguments rest) (\<lambda>fs.
            Ok (args\<lparr>la_verify := Some fs\<rparr>, []))))
      else if p = ''fat64'' then Some (Ok (args\<lparr>la_fat64 := True\<rparr>, rest))
      else Some (Error (Unknown_flag p)))"

text \<open>What is left of the arguments is never longer than they were.\<close>

definition shortens :: "string list \<Rightarrow> (lipo_args \<times> string list) parsed option \<Rightarrow> bool" where
  "shortens rest r \<longleftrightarrow> (\<forall>args' rest'. r = Some (Ok (args', rest')) \<longrightarrow> length rest' \<le> length rest)"

lemma shortens_if: "shortens rest r \<Longrightarrow> shortens rest r' \<Longrightarrow> shortens rest (if b then r else r')"
  by simp

lemma shortens_one:
  assumes "\<And>s r args' rest'. rest = s # r \<Longrightarrow> f (s, r) = Ok (args', rest') \<Longrightarrow> length rest' \<le> Suc (length r)"
  shows "shortens rest (Some (bind (one_argument p rest) f))"
  using assms by (auto simp: shortens_def one_argument_def bind_eq_Ok split: list.splits)

lemma shortens_two:
  assumes "\<And>s t r args' rest'. rest = s # t # r \<Longrightarrow> f (s, t, r) = Ok (args', rest') \<Longrightarrow> length rest' \<le> length r"
  shows "shortens rest (Some (bind (two_arguments p rest) f))"
  using assms by (fastforce simp: shortens_def two_arguments_def bind_eq_Ok split: list.splits)

lemma shortens_guard:
  "shortens rest (Some (bind x (\<lambda>_. y))) \<longleftrightarrow> (\<forall>u. x = Ok u \<longrightarrow> shortens rest (Some y))"
  by (cases x) (simp_all add: shortens_def)

lemma shortens_segalign:
  "shortens rest
     (case bind (two_arguments p rest) (\<lambda>(name, value, rest).
             bind (arch_argument name) (\<lambda>f. Ok (f, value, rest))) of
        Ok (f, value, rest) \<Rightarrow> map_option (\<lambda>r. bind r (\<lambda>align. Ok (g f align, rest))) (h value)
      | Error err \<Rightarrow> Some (Error err)
      | Fault \<Rightarrow> Some Fault)"
  by (auto simp: shortens_def two_arguments_def arch_argument_def bind_eq_Ok
      split: list.splits result.splits option.splits)

lemma parse_flag_shorter:
  assumes "parse_flag args p rest = Some (Ok (args', rest'))"
  shows "length rest' \<le> length rest"
proof -
  have "shortens rest (parse_flag args p rest)"
    unfolding parse_flag_def
    by (intro shortens_if shortens_one shortens_two shortens_segalign shortens_guard [THEN iffD2] allI impI)
      (auto simp: shortens_def bind_eq_Ok)
  then show ?thesis using assms by (simp add: shortens_def)
qed

function parse_args :: "lipo_args \<Rightarrow> string list \<Rightarrow> lipo_args parsed option" where
  "parse_args args [] = Some (Ok args)"
| "parse_args args (s # rest) =
     (case s of
        c # p \<Rightarrow>
          if c = CHR ''-'' then
            (case parse_flag args p rest of
               None \<Rightarrow> None
             | Some r \<Rightarrow>
                 (case r of
                    Ok (args', rest') \<Rightarrow> parse_args args' rest'
                  | Error err \<Rightarrow> Some (Error err)
                  | Fault \<Rightarrow> Some Fault))
          else parse_args (args\<lparr>la_inputs := la_inputs args @ [(s, None)]\<rparr>) rest
      | [] \<Rightarrow> parse_args (args\<lparr>la_inputs := la_inputs args @ [(s, None)]\<rparr>) rest)"
  by pat_completeness auto
termination
  by (relation "measure (length \<circ> snd)") (auto simp: less_Suc_eq_le intro: parse_flag_shorter)

text \<open>The checks behind the loop, in their order.\<close>

definition operations :: "lipo_args \<Rightarrow> bool list" where
  "operations args =
     [la_create args, la_thin args \<noteq> None, la_extract args \<noteq> [], la_remove args \<noteq> [],
      la_replace args \<noteq> [], la_info args, la_detailed_info args, la_brief_info args,
      la_verify args \<noteq> None]"

definition check_args :: "lipo_args \<Rightarrow> lipo_args parsed" where
  "check_args args =
     bind (guard (True \<in> set (operations args)) No_operation) (\<lambda>_.
     bind (guard (\<not> (True \<in> set (take 5 (operations args)) \<and> la_output args = None)) No_output) (\<lambda>_.
     bind (guard (la_inputs args \<noteq> []) No_input) (\<lambda>_.
     bind (guard (\<not> (la_verify args \<noteq> None \<and> length (la_inputs args) \<noteq> 1)) One_input_only) (\<lambda>_.
     bind (guard (\<not> (la_brief_info args \<and> length (la_inputs args) \<noteq> 1)) One_input_only) (\<lambda>_.
     bind (guard (\<not> length (filter id (operations args)) > 1) One_operation_only) (\<lambda>_.
     bind (guard (\<not> (la_hideARM64 args \<and> \<not> la_create args \<and> la_replace args = [] \<and> la_remove args = []))
             Hide_without_output) (\<lambda>_.
       Ok args)))))))"

section \<open>The shifts end\<close>

lemma shift_out_from:
  fixes x :: u32
  assumes "bit x k" and "\<And>j. j < k \<Longrightarrow> \<not> bit x j" and "j \<le> k"
  shows "shift_out (drop_bit j x) (of_nat j) = Some (drop_bit k x, of_nat k)"
  using assms(3)
proof (induction "k - j" arbitrary: j)
  case 0
  then have "bit (drop_bit j x) 0" using assms(1) by (simp add: bit_drop_bit_eq)
  then have "drop_bit j x AND 1 = 1" by (simp add: and_one_eq bit_0 mod_2_eq_odd)
  with 0 show ?case by (subst shift_out.simps) simp
next
  case (Suc n)
  have "\<not> bit (drop_bit j x) 0" using Suc assms(2) by (simp add: bit_drop_bit_eq)
  then have "drop_bit j x AND 1 = 0" by (simp add: and_one_eq bit_0 mod_2_eq_odd)
  moreover have "shift_out (drop_bit (Suc j) x) (of_nat (Suc j)) = Some (drop_bit k x, of_nat k)"
    using Suc by (intro Suc.hyps(1)) auto
  ultimately show ?case
    by (subst shift_out.simps) (simp add: drop_bit_Suc drop_bit_half add.commute)
qed

lemma power_iff_shifted:
  fixes x :: u32
  assumes k: "k < 32" "bit x k" "\<forall>j < k. \<not> bit x j"
  shows "(\<exists>k < 32. x = 2 ^ k) \<longleftrightarrow> drop_bit k x AND NOT 1 = 0"
proof
  assume "\<exists>k < 32. x = 2 ^ k"
  then obtain k' where "x = 2 ^ k'" "k' < 32" by blast
  moreover have "k' = k" using calculation k by (simp add: bit_exp_iff)
  ultimately have "drop_bit k x = 1" using k(1) by (simp add: drop_bit_exp_eq)
  then show "drop_bit k x AND NOT 1 = 0" by simp
next
  assume shifted: "drop_bit k x AND NOT 1 = 0"
  have high: "\<not> bit x i" if "k < i" for i
  proof
    assume i: "bit x i"
    then have "i < 32" using bit_imp_le_length [of x i] by simp
    then have "bit (drop_bit k x AND NOT 1) (i - k)"
      using i that by (simp add: bit_and_iff bit_drop_bit_eq bit_not_iff bit_1_iff)
    then show False unfolding shifted by simp
  qed
  have "x = 2 ^ k"
  proof (rule bit_word_eqI)
    fix i assume "i < LENGTH(32)"
    show "bit x i \<longleftrightarrow> bit (2 ^ k :: u32) i"
      using k high [of i] by (cases i k rule: linorder_cases) (auto simp: bit_exp_iff)
  qed
  then show "\<exists>k < 32. x = 2 ^ k" using k(1) by blast
qed

lemma shift_out_ends:
  fixes x :: u32
  assumes "x \<noteq> 0"
  obtains k where "k < 32" "bit x k" "\<forall>j < k. \<not> bit x j" "shift_out x 0 = Some (drop_bit k x, of_nat k)"
proof -
  obtain k where k: "k < 32" "bit x k" "\<And>j. j < k \<Longrightarrow> \<not> bit x j" using lowest_bit [OF assms] by auto
  then show ?thesis using shift_out_from [OF k(2,3), of 0] that by auto
qed

text \<open>
  The loop of \<open>ispoweroftwo\<close> and that of \<open>-segalign\<close> end for every number but 0, which both
  exclude.  \<open>ispoweroftwo\<close> holds for 0 and for the powers of two only, and the alignment found
  for \<open>2 ^ k\<close> is \<open>k\<close>.
\<close>

theorem ispoweroftwo_correct:
  "ispoweroftwo x = Some (x = 0 \<or> (\<exists>k < 32. x = 2 ^ k)) \<and>
   (k < 32 \<longrightarrow> shift_out (2 ^ k) 0 = Some (1, of_nat k))"
proof
  show "ispoweroftwo x = Some (x = 0 \<or> (\<exists>k < 32. x = 2 ^ k))"
  proof (cases "x = 0")
    case True
    then show ?thesis by (simp add: ispoweroftwo_def)
  next
    case False
    then obtain k where k: "k < 32" "bit x k" "\<forall>j < k. \<not> bit x j"
      "shift_out x 0 = Some (drop_bit k x, of_nat k)" by (rule shift_out_ends)
    then show ?thesis using False power_iff_shifted [OF k(1,2,3)] by (simp add: ispoweroftwo_def)
  qed
  show "k < 32 \<longrightarrow> shift_out (2 ^ k) 0 = Some (1, of_nat k)"
  proof
    assume k: "k < 32"
    have "shift_out (2 ^ k) 0 = Some (drop_bit k (2 ^ k), of_nat k)"
      using k shift_out_from [of "2 ^ k" k 0] by (auto simp: bit_exp_iff)
    then show "shift_out (2 ^ k) 0 = Some (1, of_nat k)" using k by (simp add: drop_bit_exp_eq)
  qed
qed

theorem ispoweroftwo_correct_witness: "shift_out 0x4000 0 = Some (1, 14)"
  using ispoweroftwo_correct [of 0 14] by simp

end
