(* ===== verification/Lipo_Print.thy ===== *)
theory Lipo_Print
  imports Lipo_Input
begin

text \<open>
  What \<open>misc/lipo.c\<close> prints for \<open>-archs\<close>, \<open>-info\<close> and \<open>-detailed_info\<close>: the names of
  architectures and the description of fat files.  The entries of a fat file are those of the
  thin files that were made of them, in the same order.
\<close>

abbreviation newline :: string where "newline \<equiv> [CHR 0x0A]"

definition switch :: "u32 \<Rightarrow> (u32 \<times> 'a) list \<Rightarrow> 'a option" where
  "switch v cases = map_of cases v"

definition signed_decimal :: "u32 \<Rightarrow> string" where
  "signed_decimal w =
     (if sint w < 0 then CHR ''-'' # decimal (nat (- sint w)) else decimal (nat (sint w)))"

definition hex_char :: "nat \<Rightarrow> char" where
  "hex_char d = (if d < 10 then char_of (48 + d) else char_of (87 + d))"

fun hexadecimal :: "nat \<Rightarrow> string" where
  "hexadecimal n =
     (if n < 16 then [hex_char n] else hexadecimal (n div 16) @ [hex_char (n mod 16)])"

declare hexadecimal.simps [simp del]

abbreviation CPU_SUBTYPE_LIB64 :: u32 where "CPU_SUBTYPE_LIB64 \<equiv> 0x80000000"
abbreviation CPU_SUBTYPE_ARM64E_VERSIONED_ABI_MASK :: u32
  where "CPU_SUBTYPE_ARM64E_VERSIONED_ABI_MASK \<equiv> 0x80000000"
abbreviation CPU_SUBTYPE_ARM64E_KERNEL_ABI_MASK :: u32
  where "CPU_SUBTYPE_ARM64E_KERNEL_ABI_MASK \<equiv> 0x40000000"
abbreviation CPU_SUBTYPE_ARM64E_PTR_AUTH_MASK :: u32
  where "CPU_SUBTYPE_ARM64E_PTR_AUTH_MASK \<equiv> 0x3f000000"

section \<open>Architectures\<close>

text \<open>For ARM the subtype is not masked.\<close>

definition known_arch :: "u32 \<Rightarrow> u32 \<Rightarrow> string option" where
  "known_arch cputype cpusubtype =
     (case switch cputype
       [(CPU_TYPE_MC680x0, switch (plain cpusubtype)
          [(CPU_SUBTYPE_MC680x0_ALL, ''m68k''), (CPU_SUBTYPE_MC68030_ONLY, ''m68030''),
           (CPU_SUBTYPE_MC68040, ''m68040'')]),
        (CPU_TYPE_POWERPC, switch (plain cpusubtype)
          [(CPU_SUBTYPE_POWERPC_ALL, ''ppc''), (CPU_SUBTYPE_POWERPC_601, ''ppc601''),
           (CPU_SUBTYPE_POWERPC_603, ''ppc603''), (CPU_SUBTYPE_POWERPC_603e, ''ppc603e''),
           (CPU_SUBTYPE_POWERPC_603ev, ''ppc603ev''), (CPU_SUBTYPE_POWERPC_604, ''ppc604''),
           (CPU_SUBTYPE_POWERPC_604e, ''ppc604e''), (CPU_SUBTYPE_POWERPC_750, ''ppc750''),
           (CPU_SUBTYPE_POWERPC_7400, ''ppc7400''), (CPU_SUBTYPE_POWERPC_7450, ''ppc7450''),
           (CPU_SUBTYPE_POWERPC_970, ''ppc970'')]),
        (CPU_TYPE_POWERPC64, switch (plain cpusubtype)
          [(CPU_SUBTYPE_POWERPC_ALL, ''ppc64''), (CPU_SUBTYPE_POWERPC_970, ''ppc970-64'')]),
        (CPU_TYPE_VEO, switch (plain cpusubtype)
          [(CPU_SUBTYPE_VEO_1, ''veo1''), (CPU_SUBTYPE_VEO_2, ''veo2''),
           (CPU_SUBTYPE_VEO_3, ''veo3''), (CPU_SUBTYPE_VEO_4, ''veo4'')]),
        (CPU_TYPE_MC88000, switch (plain cpusubtype)
          [(CPU_SUBTYPE_MC88000_ALL, ''m88k''), (CPU_SUBTYPE_MC88110, ''m88k'')]),
        (CPU_TYPE_I386, switch (plain cpusubtype)
          [(CPU_SUBTYPE_I386_ALL, ''i386''), (CPU_SUBTYPE_486, ''i486''),
           (CPU_SUBTYPE_486SX, ''i486SX''), (CPU_SUBTYPE_PENT, ''pentium''),
           (CPU_SUBTYPE_PENTPRO, ''pentpro''), (CPU_SUBTYPE_PENTII_M3, ''pentIIm3''),
           (CPU_SUBTYPE_PENTII_M5, ''pentIIm5'')]),
        (CPU_TYPE_X86_64, switch (plain cpusubtype)
          [(CPU_SUBTYPE_X86_64_ALL, ''x86_64''), (CPU_SUBTYPE_X86_64_H, ''x86_64h'')]),
        (CPU_TYPE_I860, switch (plain cpusubtype)
          [(CPU_SUBTYPE_I860_ALL, ''i860''), (CPU_SUBTYPE_I860_860, ''i860'')]),
        (CPU_TYPE_HPPA, switch (plain cpusubtype)
          [(CPU_SUBTYPE_HPPA_ALL, ''hppa''), (CPU_SUBTYPE_HPPA_7100LC, ''hppa'')]),
        (CPU_TYPE_SPARC, switch (plain cpusubtype)
          [(CPU_SUBTYPE_SPARC_ALL, ''sparc'')]),
        (CPU_TYPE_ARM, switch (cpusubtype)
          [(CPU_SUBTYPE_ARM_ALL, ''arm''), (CPU_SUBTYPE_ARM_V4T, ''armv4t''),
           (CPU_SUBTYPE_ARM_V5TEJ, ''armv5''), (CPU_SUBTYPE_ARM_XSCALE, ''xscale''),
           (CPU_SUBTYPE_ARM_V6, ''armv6''), (CPU_SUBTYPE_ARM_V6M, ''armv6m''),
           (CPU_SUBTYPE_ARM_V7, ''armv7''), (CPU_SUBTYPE_ARM_V7F, ''armv7f''),
           (CPU_SUBTYPE_ARM_V7S, ''armv7s''), (CPU_SUBTYPE_ARM_V7K, ''armv7k''),
           (CPU_SUBTYPE_ARM_V7M, ''armv7m''), (CPU_SUBTYPE_ARM_V7EM, ''armv7em'')]),
        (CPU_TYPE_ARM64, switch (plain cpusubtype)
          [(CPU_SUBTYPE_ARM64_ALL, ''arm64''), (CPU_SUBTYPE_ARM64_V8, ''arm64v8''),
           (CPU_SUBTYPE_ARM64E, ''arm64e'')]),
        (CPU_TYPE_ARM64_32, switch (plain cpusubtype)
          [(CPU_SUBTYPE_ARM64_32_V8, ''arm64_32'')]),
        (CPU_TYPE_ANY, switch (plain cpusubtype)
          [(CPU_SUBTYPE_MULTIPLE, ''any''), (CPU_SUBTYPE_LITTLE_ENDIAN, ''little''),
           (CPU_SUBTYPE_BIG_ENDIAN, ''big'')])] of
        Some (Some name) \<Rightarrow> Some name
      | _ \<Rightarrow> None)"

definition print_arch :: "u32 \<Rightarrow> u32 \<Rightarrow> string" where
  "print_arch cputype cpusubtype =
     (case known_arch cputype cpusubtype of
        Some name \<Rightarrow> name
      | None \<Rightarrow> ''(cputype ('' @ signed_decimal cputype @ '') cpusubtype ('' @
             signed_decimal (plain cpusubtype) @ ''))'')"

text \<open>The symbolic names that \<open>print_cputype\<close> knows.\<close>

definition cputype_names :: "u32 \<Rightarrow> u32 \<Rightarrow> (string \<times> string) option" where
  "cputype_names cputype cpusubtype =
     (case switch cputype
       [(CPU_TYPE_MC680x0, ''CPU_TYPE_MC680x0'', switch (plain cpusubtype)
          [(CPU_SUBTYPE_MC680x0_ALL, ''CPU_SUBTYPE_MC680x0_ALL''),
           (CPU_SUBTYPE_MC68030_ONLY, ''CPU_SUBTYPE_MC68030_ONLY''),
           (CPU_SUBTYPE_MC68040, ''CPU_SUBTYPE_MC68040'')]),
        (CPU_TYPE_POWERPC, ''CPU_TYPE_POWERPC'', switch (plain cpusubtype)
          [(CPU_SUBTYPE_POWERPC_ALL, ''CPU_SUBTYPE_POWERPC_ALL''),
           (CPU_SUBTYPE_POWERPC_601, ''CPU_SUBTYPE_POWERPC_601''),
           (CPU_SUBTYPE_POWERPC_603, ''CPU_SUBTYPE_POWERPC_603''),
           (CPU_SUBTYPE_POWERPC_603e, ''CPU_SUBTYPE_POWERPC_603e''),
           (CPU_SUBTYPE_POWERPC_603ev, ''CPU_SUBTYPE_POWERPC_603ev''),
           (CPU_SUBTYPE_POWERPC_604, ''CPU_SUBTYPE_POWERPC_604''),
           (CPU_SUBTYPE_POWERPC_604e, ''CPU_SUBTYPE_POWERPC_604e''),
           (CPU_SUBTYPE_POWERPC_750, ''CPU_SUBTYPE_POWERPC_750''),
           (CPU_SUBTYPE_POWERPC_7400, ''CPU_SUBTYPE_POWERPC_7400''),
           (CPU_SUBTYPE_POWERPC_7450, ''CPU_SUBTYPE_POWERPC_7450''),
           (CPU_SUBTYPE_POWERPC_970, ''CPU_SUBTYPE_POWERPC_970'')]),
        (CPU_TYPE_POWERPC64, ''CPU_TYPE_POWERPC64'', switch (plain cpusubtype)
          [(CPU_SUBTYPE_POWERPC_ALL, ''CPU_SUBTYPE_POWERPC_ALL''),
           (CPU_SUBTYPE_POWERPC_970, ''CPU_SUBTYPE_POWERPC_970'')]),
        (CPU_TYPE_VEO, ''CPU_TYPE_VEO'', switch (plain cpusubtype)
          [(CPU_SUBTYPE_VEO_1, ''CPU_SUBTYPE_VEO_1''), (CPU_SUBTYPE_VEO_2, ''CPU_SUBTYPE_VEO_2''),
           (CPU_SUBTYPE_VEO_3, ''CPU_SUBTYPE_VEO_3''), (CPU_SUBTYPE_VEO_4, ''CPU_SUBTYPE_VEO_4'')]),
        (CPU_TYPE_MC88000, ''CPU_TYPE_MC88000'', switch (plain cpusubtype)
          [(CPU_SUBTYPE_MC88000_ALL, ''CPU_SUBTYPE_MC88000_ALL''),
           (CPU_SUBTYPE_MC88110, ''CPU_SUBTYPE_MC88110'')]),
        (CPU_TYPE_I386, ''CPU_TYPE_I386'', switch (plain cpusubtype)
          [(CPU_SUBTYPE_I386_ALL, ''CPU_SUBTYPE_I386_ALL''),
           (CPU_SUBTYPE_486, ''CPU_SUBTYPE_486''), (CPU_SUBTYPE_486SX, ''CPU_SUBTYPE_486SX''),
           (CPU_SUBTYPE_PENT, ''CPU_SUBTYPE_PENT''),
           (CPU_SUBTYPE_PENTPRO, ''CPU_SUBTYPE_PENTPRO''),
           (CPU_SUBTYPE_PENTII_M3, ''CPU_SUBTYPE_PENTII_M3''),
           (CPU_SUBTYPE_PENTII_M5, ''CPU_SUBTYPE_PENTII_M5'')]),
        (CPU_TYPE_X86_64, ''CPU_TYPE_X86_64'', switch (plain cpusubtype)
          [(CPU_SUBTYPE_X86_64_ALL, ''CPU_SUBTYPE_X86_64_ALL''),
           (CPU_SUBTYPE_X86_64_H, ''CPU_SUBTYPE_X86_64_H'')]),
        (CPU_TYPE_I860, ''CPU_TYPE_I860'', switch (plain cpusubtype)
          [(CPU_SUBTYPE_I860_ALL, ''CPU_SUBTYPE_I860_ALL''),
           (CPU_SUBTYPE_I860_860, ''CPU_SUBTYPE_I860_860'')]),
        (CPU_TYPE_HPPA, ''CPU_TYPE_HPPA'', switch (plain cpusubtype)
          [(CPU_SUBTYPE_HPPA_ALL, ''CPU_SUBTYPE_HPPA_ALL''),
           (CPU_SUBTYPE_HPPA_7100LC, ''CPU_SUBTYPE_HPPA_7100LC'')]),
        (CPU_TYPE_SPARC, ''CPU_TYPE_SPARC'', switch (plain cpusubtype)
          [(CPU_SUBTYPE_SPARC_ALL, ''CPU_SUBTYPE_SPARC_ALL'')]),
        (CPU_TYPE_ARM, ''CPU_TYPE_ARM'', switch (plain cpusubtype)
          [(CPU_SUBTYPE_ARM_V4T, ''CPU_SUBTYPE_ARM_V4T''),
           (CPU_SUBTYPE_ARM_V5TEJ, ''CPU_SUBTYPE_ARM_V5TEJ''),
           (CPU_SUBTYPE_ARM_XSCALE, ''CPU_SUBTYPE_ARM_XSCALE''),
           (CPU_SUBTYPE_ARM_V6, ''CPU_SUBTYPE_ARM_V6''),
           (CPU_SUBTYPE_ARM_V6M, ''CPU_SUBTYPE_ARM_V6M''),
           (CPU_SUBTYPE_ARM_V7, ''CPU_SUBTYPE_ARM_V7''),
           (CPU_SUBTYPE_ARM_V7F, ''CPU_SUBTYPE_ARM_V7F''),
           (CPU_SUBTYPE_ARM_V7S, ''CPU_SUBTYPE_ARM_V7S''),
           (CPU_SUBTYPE_ARM_V7K, ''CPU_SUBTYPE_ARM_V7K''),
           (CPU_SUBTYPE_ARM_V7M, ''CPU_SUBTYPE_ARM_V7M''),
           (CPU_SUBTYPE_ARM_V7EM, ''CPU_SUBTYPE_ARM_V7EM''),
           (CPU_SUBTYPE_ARM_ALL, ''CPU_SUBTYPE_ARM_ALL'')]),
        (CPU_TYPE_ARM64, ''CPU_TYPE_ARM64'', switch (plain cpusubtype)
          [(CPU_SUBTYPE_ARM64_ALL, ''CPU_SUBTYPE_ARM64_ALL''),
           (CPU_SUBTYPE_ARM64_V8, ''CPU_SUBTYPE_ARM64_V8''),
           (CPU_SUBTYPE_ARM64E, ''CPU_SUBTYPE_ARM64E'')]),
        (CPU_TYPE_ARM64_32, ''CPU_TYPE_ARM64_32'', switch (plain cpusubtype)
          [(CPU_SUBTYPE_ARM64_32_V8, ''CPU_SUBTYPE_ARM64_32_V8'')]),
        (CPU_TYPE_ANY, ''CPU_TYPE_ANY'', switch (plain cpusubtype)
          [(CPU_SUBTYPE_MULTIPLE, ''CPU_SUBTYPE_MULTIPLE''),
           (CPU_SUBTYPE_LITTLE_ENDIAN, ''CPU_SUBTYPE_LITTLE_ENDIAN''),
           (CPU_SUBTYPE_BIG_ENDIAN, ''CPU_SUBTYPE_BIG_ENDIAN'')])] of
        Some (cpu, Some sub) \<Rightarrow> Some (cpu, sub)
      | _ \<Rightarrow> None)"

definition capabilities :: "u32 \<Rightarrow> u32 \<Rightarrow> string" where
  "capabilities cputype rawsubtype =
     (if (cputype = CPU_TYPE_X86_64 \<or> cputype = CPU_TYPE_POWERPC64) \<and>
         rawsubtype AND CPU_SUBTYPE_MASK = CPU_SUBTYPE_LIB64 then
        ''    capabilities CPU_SUBTYPE_LIB64'' @ newline
      else if cputype = CPU_TYPE_ARM64 \<and> rawsubtype AND CPU_SUBTYPE_ARM64E_VERSIONED_ABI_MASK \<noteq> 0 then
        ''    capabilities PTR_AUTH_VERSION'' @
        (if rawsubtype AND CPU_SUBTYPE_ARM64E_KERNEL_ABI_MASK \<noteq> 0 then '' KERNEL'' else '' USERSPACE'') @
        '' '' @ signed_decimal (rawsubtype AND drop_bit 24 CPU_SUBTYPE_ARM64E_KERNEL_ABI_MASK) @ newline
      else
        ''    capabilities 0x'' @ hexadecimal (unat (drop_bit 24 (rawsubtype AND CPU_SUBTYPE_MASK))) @ newline)"

text \<open>Two of the ARM cases are indented by one more blank.\<close>

definition print_cputype :: "bool \<Rightarrow> u32 \<Rightarrow> u32 \<Rightarrow> string" where
  "print_cputype detailed_info_flag cputype cpusubtype =
     (case cputype_names cputype cpusubtype of
        Some (cpu, sub) \<Rightarrow>
          let indent =
            (if cputype = CPU_TYPE_ARM \<and> plain cpusubtype \<in> {CPU_SUBTYPE_ARM_V5TEJ, CPU_SUBTYPE_ARM_XSCALE}
             then ''     '' else ''    '')
          in indent @ ''cputype '' @ cpu @ newline @ indent @ ''cpusubtype '' @ sub @ newline
      | None \<Rightarrow>
          ''    cputype ('' @ signed_decimal cputype @ '')'' @ newline @
          ''    cpusubtype cpusubtype ('' @ signed_decimal (plain cpusubtype) @ '')'' @ newline) @
     (if detailed_info_flag then capabilities cputype cpusubtype else [])"

section \<open>Files\<close>

fun print_archs :: "thin_file list \<Rightarrow> string" where
  "print_archs [] = newline"
| "print_archs (t # ts) =
     (case get_arch_name_if_known (tf_cputype t) (tf_cpusubtype t) of
        Some s \<Rightarrow> s
      | None \<Rightarrow> ''unknown('' @ decimal (unat (tf_cputype t)) @ '','' @
                 decimal (unat (plain (tf_cpusubtype t))) @ '')'') @
     (if ts = [] then [] else '' '') @ print_archs ts"

definition non_fat_line :: "thin_file \<Rightarrow> string" where
  "non_fat_line t =
     (if tf_from_fat t then []
      else ''Non-fat file: '' @ tf_name t @ '' is architecture: '' @
           get_arch_name_from_types (tf_cputype t) (plain (tf_cpusubtype t)) @ newline)"

definition info_line :: "string \<times> input_info \<Rightarrow> string" where
  "info_line p =
     (case p of (name, info) \<Rightarrow>
        (case ii_fat_header info of
           Some h \<Rightarrow>
             ''Architectures in the fat file: '' @ name @ '' are: '' @
             concat (map (\<lambda>t. print_arch (tf_cputype t) (tf_cpusubtype t) @ '' '') (ii_thin_files info)) @
             newline
         | None \<Rightarrow>
             if ii_is_thin info then []
             else ''input file '' @ name @ '' is not a fat file'' @ newline))"

definition print_info :: "(string \<times> input_info) list \<Rightarrow> string" where
  "print_info inputs =
     concat (map info_line inputs) @
     concat (map non_fat_line (concat (map (\<lambda>(_, info). ii_thin_files info) inputs)))"

definition slice_details :: "u32 \<Rightarrow> nat \<Rightarrow> thin_file \<Rightarrow> string" where
  "slice_details raw_nfat_arch j t =
     ''architecture '' @ print_arch (tf_cputype t) (tf_cpusubtype t) @
     (if j \<ge> unat raw_nfat_arch then '' (hidden)'' else []) @ newline @
     print_cputype True (tf_cputype t) (tf_cpusubtype t) @
     ''    offset '' @ decimal (unat (tf_offset t)) @ newline @
     ''    size '' @ decimal (unat (tf_size t)) @ newline @
     ''    align 2^'' @ decimal (unat (tf_align t)) @ '' ('' @ decimal (2 ^ unat (tf_align t)) @ '')'' @ newline"

fun slices_details :: "u32 \<Rightarrow> nat \<Rightarrow> thin_file list \<Rightarrow> string" where
  "slices_details raw_nfat_arch j [] = []"
| "slices_details raw_nfat_arch j (t # ts) =
     slice_details raw_nfat_arch j t @ slices_details raw_nfat_arch (Suc j) ts"

definition hidden_count :: "input_info \<Rightarrow> fat_header \<Rightarrow> u32" where
  "hidden_count info h = fh_nfat_arch h - ii_raw_nfat_arch info"

definition file_details :: "string \<times> input_info \<Rightarrow> string" where
  "file_details p =
     (case p of (name, info) \<Rightarrow>
        (case ii_fat_header info of
           Some h \<Rightarrow>
             ''Fat header in: '' @ name @ newline @
             ''fat_magic 0x'' @ hexadecimal (unat (fh_magic h)) @ newline @
             ''nfat_arch '' @ decimal (unat (ii_raw_nfat_arch info)) @
             (if hidden_count info h \<noteq> 0 then '' (+'' @ decimal (unat (hidden_count info h)) @ '' hidden)'' else []) @
             newline @ slices_details (ii_raw_nfat_arch info) 0 (ii_thin_files info)
         | None \<Rightarrow> ''input file '' @ name @ '' is not a fat file'' @ newline))"

definition print_detailed_info :: "(string \<times> input_info) list \<Rightarrow> string" where
  "print_detailed_info inputs =
     concat (map file_details inputs) @
     concat (map non_fat_line (concat (map (\<lambda>(_, info). ii_thin_files info) inputs)))"

section \<open>The names agree\<close>

text \<open>
  The names that \<open>-info\<close> prints are those of the table of architectures, which \<open>-archs\<close> and
  the error messages use, with five exceptions: \<open>any\<close> is never recognised, since a masked
  subtype is never \<open>CPU_SUBTYPE_MULTIPLE\<close>; \<open>pentium4\<close> is not known; \<open>hppa7100LC\<close> is
  printed as \<open>hppa\<close>; and the table calls \<open>veo2\<close> by the first name of its subtype, \<open>veo\<close>.
\<close>

theorem print_arch_agrees:
  "map af_name (filter (\<lambda>f. known_arch (af_cputype f) (af_cpusubtype f) \<noteq>
       get_arch_name_if_known (af_cputype f) (af_cpusubtype f)) arch_flags) =
     [''any'', ''veo'', ''pentium4'', ''hppa7100LC'', ''veo2'']"
  by code_simp

text \<open>
  For an ARM64E slice with a versioned ABI \<open>-detailed_info\<close> prints the pointer
  authentication version 0, whatever the version in the subtype is: the shift in
  \<open>rawsubtype & CPU_SUBTYPE_ARM64E_KERNEL_ABI_MASK >> 24\<close> applies to the mask.
\<close>

theorem ptr_auth_version_is_0:
  assumes "plain sub = CPU_SUBTYPE_ARM64E" and "sub AND CPU_SUBTYPE_ARM64E_VERSIONED_ABI_MASK \<noteq> 0"
    and "sub AND CPU_SUBTYPE_ARM64E_KERNEL_ABI_MASK = 0"
  shows "capabilities CPU_TYPE_ARM64 sub = ''    capabilities PTR_AUTH_VERSION USERSPACE 0'' @ newline"
proof -
  have "sub AND 0x40 = plain sub AND 0x40" by (simp add: plain_def and.assoc)
  then have "sub AND 0x40 = 0" by (simp add: assms(1))
  moreover have "signed_decimal 0 = ''0''" by code_simp
  ultimately show ?thesis using assms(2,3) by (simp add: capabilities_def)
qed

theorem ptr_auth_version_is_0_witness:
  "capabilities CPU_TYPE_ARM64 0x85000002 = ''    capabilities PTR_AUTH_VERSION USERSPACE 0'' @ newline"
  by (rule ptr_auth_version_is_0) (simp_all add: plain_def)

text \<open>
  The number of entries is never remembered for a file with 64-bit offsets, so
  \<open>-detailed_info\<close> calls all of its slices hidden.
\<close>

lemma fat_64_all_hidden:
  assumes "process_fat_64 e input = Ok info" and "ii_fat_header info = Some h"
  shows "hidden_count info h = fh_nfat_arch h"
  using assms by (auto simp: process_fat_64_def Let_def bind_eq_Ok fat_info_def hidden_count_def)

end
