(* ===== verification/Lipo.thy ===== *)
theory Lipo
  imports Lipo_Round_Trip Lipo_Args Lipo_Print
begin

text \<open>
  The operations of \<open>misc/lipo.c\<close> and its \<open>main\<close>.  A run is given the arguments, the files by
  their names, the host, and the C library's \<open>qsort\<close>; it yields what is printed, the
  file that is written and the exit status, or the error it ends with.  \<open>None\<close> is a run that does
  not end.  Modes and times of files are left out.
\<close>

section \<open>The operations\<close>

text \<open>\<open>-create\<close>: the loop over the thin files, with the sum of the sizes of all but the last.\<close>

fun create_scan :: "endian \<Rightarrow> u64 \<Rightarrow> bool \<Rightarrow> thin_file list \<Rightarrow> (u64 \<times> bool) lipo" where
  "create_scan e lastOffset mainExecutable [] = Ok (lastOffset, mainExecutable)"
| "create_scan e lastOffset mainExecutable (t # ts) =
     (if list_ex (same_arch (tf_arch t)) (map tf_arch ts) then
        Error (Same_architecture (tf_cputype t) (tf_cpusubtype t))
      else
        bind (get_mh_filetype e (tf_map t) (tf_addr t) (tf_size t)) (\<lambda>filetype.
          create_scan e (if ts \<noteq> [] then lastOffset + tf_size t else lastOffset)
            (mainExecutable \<or> filetype = MH_EXECUTE) ts))"

definition lipo_create :: "endian \<Rightarrow> thin_sort \<Rightarrow> u32 \<Rightarrow> fat_options \<Rightarrow> thin_file list \<Rightarrow> bytes lipo" where
  "lipo_create e qsort junk opts ts =
     bind (create_scan e 0 False ts) (\<lambda>(lastOffset, mainExecutable).
       create_fat e qsort junk
         (if \<not> mainExecutable \<and> lastOffset > 0xffffffff then opts\<lparr>fo_fat64 := True\<rparr> else opts) ts)"

definition single_fat :: "input_info list \<Rightarrow> fat_header lipo" where
  "single_fat infos =
     (case infos of
        [info] \<Rightarrow> (case ii_fat_header info of Some h \<Rightarrow> Ok h | None \<Rightarrow> Error Input_not_fat)
      | _ \<Rightarrow> Error Not_one_input)"

definition keep_fat64 :: "fat_header \<Rightarrow> fat_options \<Rightarrow> fat_options" where
  "keep_fat64 h opts = (if fh_magic h = FAT_MAGIC_64 then opts\<lparr>fo_fat64 := True\<rparr> else opts)"

definition lipo_thin :: "arch_flag \<Rightarrow> input_info list \<Rightarrow> thin_file list \<Rightarrow> bytes lipo" where
  "lipo_thin flag infos ts =
     bind (single_fat infos) (\<lambda>_.
       case find (\<lambda>t. same_arch (tf_arch t) (flag_arch flag)) ts of
         Some t \<Rightarrow> thin_contents t
       | None \<Rightarrow> Error (Not_in_file (af_cputype flag) (af_cpusubtype flag)))"

text \<open>The loop that takes thin files out of the array and moves the later ones down.\<close>

function remove_loop :: "(thin_file \<Rightarrow> bool) \<Rightarrow> nat \<Rightarrow> thin_file list \<Rightarrow> thin_file list" where
  "remove_loop out i ts =
     (if i < length ts then
        if out (ts ! i) then remove_loop out i (take i ts @ drop (Suc i) ts)
        else remove_loop out (Suc i) ts
      else ts)"
  by pat_completeness auto
termination
  by (relation "measure (\<lambda>(_, i, ts). length ts - i)") auto

declare remove_loop.simps [simp del]

definition extracts :: "bool \<Rightarrow> arch_flag \<Rightarrow> thin_file \<Rightarrow> bool" where
  "extracts extract_family_flag flag t \<longleftrightarrow>
     af_cputype flag = tf_cputype t \<and>
     (plain (af_cpusubtype flag) = plain (tf_cpusubtype t) \<or> extract_family_flag)"

definition mark_extract :: "bool \<Rightarrow> arch_flag \<Rightarrow> thin_file \<Rightarrow> thin_file" where
  "mark_extract family flag t = (if extracts family flag t then t\<lparr>tf_extract := True\<rparr> else t)"

fun mark_extracts :: "bool \<Rightarrow> arch_flag list \<Rightarrow> thin_file list \<Rightarrow> thin_file list lipo" where
  "mark_extracts family [] ts = Ok ts"
| "mark_extracts family (flag # flags) ts =
     (if list_ex (extracts family flag) ts then
        mark_extracts family flags (map (mark_extract family flag) ts)
      else Error (Not_in_file (af_cputype flag) (af_cpusubtype flag)))"

definition lipo_extract :: "endian \<Rightarrow> thin_sort \<Rightarrow> u32 \<Rightarrow> fat_options \<Rightarrow> arch_flag list \<Rightarrow>
    input_info list \<Rightarrow> thin_file list \<Rightarrow> bytes lipo" where
  "lipo_extract e qsort junk opts flags infos ts =
     bind (single_fat infos) (\<lambda>h.
     bind (distinct_archs Specified_twice (map flag_arch flags)) (\<lambda>_.
     bind (mark_extracts (fo_extract_family opts) flags ts) (\<lambda>ts.
       create_fat e qsort junk (keep_fat64 h opts) (remove_loop (\<lambda>t. \<not> tf_extract t) 0 ts))))"

text \<open>\<open>change_first\<close> is the loop that stops at the first thin file of an architecture.\<close>

fun change_first :: "u32 \<times> u32 \<Rightarrow> (thin_file \<Rightarrow> thin_file) \<Rightarrow> thin_file list \<Rightarrow> thin_file list lipo" where
  "change_first arch change [] = Error (Not_in_file (fst arch) (snd arch))"
| "change_first arch change (t # ts) =
     (if same_arch arch (tf_arch t) then Ok (change t # ts)
      else bind (change_first arch change ts) (\<lambda>ts. Ok (t # ts)))"

fun mark_removes :: "arch_flag list \<Rightarrow> thin_file list \<Rightarrow> thin_file list lipo" where
  "mark_removes [] ts = Ok ts"
| "mark_removes (flag # flags) ts =
     bind (change_first (flag_arch flag) (\<lambda>t. t\<lparr>tf_remove := True\<rparr>) ts) (mark_removes flags)"

definition lipo_remove :: "endian \<Rightarrow> thin_sort \<Rightarrow> u32 \<Rightarrow> fat_options \<Rightarrow> arch_flag list \<Rightarrow>
    input_info list \<Rightarrow> thin_file list \<Rightarrow> bytes lipo" where
  "lipo_remove e qsort junk opts flags infos ts =
     bind (single_fat infos) (\<lambda>h.
     bind (distinct_archs Specified_twice (map flag_arch flags)) (\<lambda>_.
     bind (mark_removes flags ts) (\<lambda>ts.
       let ts = remove_loop tf_remove 0 ts
       in if ts = [] then Error Empty_result
          else create_fat e qsort junk (keep_fat64 h opts) ts)))"

definition verify_archs :: "arch_flag list \<Rightarrow> thin_file list \<Rightarrow> bool" where
  "verify_archs flags ts \<longleftrightarrow>
     list_all (\<lambda>flag. list_ex (\<lambda>t. same_arch (flag_arch flag) (tf_arch t)) ts) flags"

section \<open>Runs\<close>

datatype lipo_failure =
    Usage usage_error
  | Fatal lipo_error
  | Cannot_open string

type_synonym 'a run = "(lipo_failure, 'a) result option"

fun fatal :: "'a lipo \<Rightarrow> (lipo_failure, 'a) result" where
  "fatal (Ok x) = Ok x"
| "fatal (Error err) = Error (Fatal err)"
| "fatal Fault = Fault"

fun usage :: "'a parsed \<Rightarrow> (lipo_failure, 'a) result" where
  "usage (Ok x) = Ok x"
| "usage (Error err) = Error (Usage err)"
| "usage Fault = Fault"

text \<open>What comes next happens only if the run has not ended.\<close>

definition next_step :: "'a run \<Rightarrow> ('a \<Rightarrow> 'b run) \<Rightarrow> 'b run" where
  "next_step r f =
     (case r of
        None \<Rightarrow> None
      | Some (Ok x) \<Rightarrow> f x
      | Some (Error err) \<Rightarrow> Some (Error err)
      | Some Fault \<Rightarrow> Some Fault)"

type_synonym file_system = "string \<Rightarrow> bytes option"

definition open_file :: "file_system \<Rightarrow> string \<Rightarrow> bytes run" where
  "open_file files name =
     Some (case files name of Some m \<Rightarrow> Ok m | None \<Rightarrow> Error (Cannot_open name))"

fun process_inputs :: "lipo_env \<Rightarrow> bool \<Rightarrow> file_system \<Rightarrow> (string \<times> arch_flag option) list \<Rightarrow>
    (string \<times> input_info) list run" where
  "process_inputs env fat64_flag files [] = Some (Ok [])"
| "process_inputs env fat64_flag files ((name, flag) # inputs) =
     next_step (open_file files name) (\<lambda>m.
     next_step (map_option fatal (process_input_file env fat64_flag
         \<lparr>in_name = name, in_contents = m, in_arch_flag = flag\<rparr>)) (\<lambda>info.
     next_step (process_inputs env fat64_flag files inputs) (\<lambda>infos.
       Some (Ok ((name, info) # infos)))))"

text \<open>\<open>-replace\<close>: the thin files after the replacements and the errors counted on the way.\<close>

fun replace_loop :: "lipo_env \<Rightarrow> bool \<Rightarrow> file_system \<Rightarrow> (arch_flag \<times> string) list \<Rightarrow> thin_file list \<Rightarrow>
    (thin_file list \<times> nat) run" where
  "replace_loop env fat64_flag files [] ts = Some (Ok (ts, 0))"
| "replace_loop env fat64_flag files ((flag, name) # replaces) ts =
     next_step (open_file files name) (\<lambda>m.
     next_step (map_option fatal (process_replace_file env fat64_flag name m flag)) (\<lambda>(new, errors).
     next_step (Some (fatal (change_first (flag_arch flag) (\<lambda>_. new) ts))) (\<lambda>ts.
     next_step (replace_loop env fat64_flag files replaces ts) (\<lambda>(ts, errors').
       Some (Ok (ts, errors + errors'))))))"

record lipo_outcome =
  lo_status :: nat
  lo_printed :: string
  lo_written :: "(string \<times> bytes) option"

record lipo_host =
  lh_env :: lipo_env
  lh_qsort :: thin_sort
  lh_junk :: u32

definition args_options :: "lipo_args \<Rightarrow> fat_options" where
  "args_options args =
     \<lparr>fo_segaligns = la_segaligns args, fo_hideARM64 = la_hideARM64 args, fo_fat64 = la_fat64 args,
      fo_extract_family = la_extract_family args\<rparr>"

definition exit_status :: "nat \<Rightarrow> nat" where
  "exit_status errors = (if errors \<noteq> 0 then 1 else 0)"

definition writes :: "nat \<Rightarrow> lipo_args \<Rightarrow> bytes lipo \<Rightarrow> lipo_outcome run" where
  "writes errors args r =
     Some (bind (fatal r) (\<lambda>out.
       Ok \<lparr>lo_status = exit_status errors, lo_printed = [],
           lo_written = Some (the (la_output args), out)\<rparr>))"

definition prints :: "nat \<Rightarrow> string \<Rightarrow> lipo_outcome run" where
  "prints errors s = Some (Ok \<lparr>lo_status = exit_status errors, lo_printed = s, lo_written = None\<rparr>)"

text \<open>The one operation that was asked for; \<open>check_args\<close> has made sure that there is just one.\<close>

definition operate :: "lipo_host \<Rightarrow> file_system \<Rightarrow> lipo_args \<Rightarrow> (string \<times> input_info) list \<Rightarrow> lipo_outcome run" where
  "operate host files args inputs =
     (let e = le_host (lh_env host); qsort = lh_qsort host; junk = lh_junk host;
          opts = args_options args; infos = map snd inputs;
          ts = concat (map ii_thin_files infos); errors = sum_list (map ii_errors infos)
      in if la_create args then writes errors args (lipo_create e qsort junk opts ts)
         else if la_thin args \<noteq> None then writes errors args (lipo_thin (the (la_thin args)) infos ts)
         else if la_extract args \<noteq> [] then
           writes errors args (lipo_extract e qsort junk opts (la_extract args) infos ts)
         else if la_remove args \<noteq> [] then
           writes errors args (lipo_remove e qsort junk opts (la_remove args) infos ts)
         else if la_replace args \<noteq> [] then
           next_step (Some (fatal (single_fat infos))) (\<lambda>h.
           next_step (Some (fatal (distinct_archs Specified_twice
               (map (\<lambda>(flag, _). flag_arch flag) (la_replace args))))) (\<lambda>_.
           next_step (replace_loop (lh_env host) (fo_fat64 (keep_fat64 h opts)) files (la_replace args) ts)
             (\<lambda>(ts, errors').
               writes (errors + errors') args (create_fat e qsort junk (keep_fat64 h opts) ts))))
         else if la_brief_info args then prints errors (print_archs ts)
         else if la_info args then prints errors (print_info inputs)
         else if la_detailed_info args then prints errors (print_detailed_info inputs)
         else
           (case la_verify args of
              Some flags \<Rightarrow>
                Some (Ok \<lparr>lo_status = (if verify_archs flags ts then exit_status errors else 1),
                          lo_printed = [], lo_written = None\<rparr>)
            | None \<Rightarrow> prints errors []))"

definition lipo :: "lipo_host \<Rightarrow> file_system \<Rightarrow> string list \<Rightarrow> lipo_outcome run" where
  "lipo host files argv =
     next_step (map_option usage (parse_args no_args argv)) (\<lambda>args.
     next_step (Some (usage (check_args args))) (\<lambda>args.
     next_step (process_inputs (lh_env host) (la_fat64 args) files (la_inputs args)) (\<lambda>inputs.
       operate host files args inputs)))"

section \<open>The loops\<close>

text \<open>Taking out the files one by one is a filter.\<close>

lemma remove_loop_from: "i \<le> length ts \<Longrightarrow> remove_loop out i ts = take i ts @ filter (\<lambda>t. \<not> out t) (drop i ts)"
proof (induction out i ts rule: remove_loop.induct)
  case (1 out i ts)
  show ?case
  proof (cases "i < length ts")
    case True
    then have split: "drop i ts = ts ! i # drop (Suc i) ts" by (simp add: Cons_nth_drop_Suc)
    show ?thesis
    proof (cases "out (ts ! i)")
      case True
      have "remove_loop out i (take i ts @ drop (Suc i) ts) = take i ts @ filter (\<lambda>t. \<not> out t) (drop (Suc i) ts)"
        using 1(1) [OF \<open>i < length ts\<close> True] \<open>i < length ts\<close> by simp
      then show ?thesis using True \<open>i < length ts\<close> split by (subst remove_loop.simps) simp
    next
      case False
      have "remove_loop out (Suc i) ts = take (Suc i) ts @ filter (\<lambda>t. \<not> out t) (drop (Suc i) ts)"
        using 1(2) [OF \<open>i < length ts\<close> False] \<open>i < length ts\<close> by simp
      then show ?thesis
        using False \<open>i < length ts\<close> split by (subst remove_loop.simps) (simp add: take_Suc_conv_app_nth)
    qed
  next
    case False
    then show ?thesis using 1(3) by (subst remove_loop.simps) simp
  qed
qed

lemma remove_loop_filter: "remove_loop out 0 ts = filter (\<lambda>t. \<not> out t) ts"
  using remove_loop_from [of 0 ts out] by simp

lemma same_arch_sym: "same_arch a b \<longleftrightarrow> same_arch b a"
  by (auto simp: same_arch_def)

lemma same_arch_key: "same_arch a b \<longleftrightarrow> arch_key a = arch_key b"
  by (simp add: same_arch_def arch_key_def)

text \<open>Which thin files \<open>-extract\<close> keeps.\<close>

definition selected :: "bool \<Rightarrow> arch_flag list \<Rightarrow> thin_file \<Rightarrow> bool" where
  "selected family flags t \<longleftrightarrow> list_ex (\<lambda>flag. extracts family flag t) flags"

lemma extracts_mark [simp]: "extracts family f (mark_extract family' flag t) \<longleftrightarrow> extracts family f t"
  by (simp add: extracts_def mark_extract_def)

lemma mark_extracts_find:
  "mark_extracts family flags ts =
     (case find (\<lambda>flag. \<not> list_ex (extracts family flag) ts) flags of
        Some flag \<Rightarrow> Error (Not_in_file (af_cputype flag) (af_cpusubtype flag))
      | None \<Rightarrow> Ok (map (\<lambda>t. if selected family flags t then t\<lparr>tf_extract := True\<rparr> else t) ts))"
proof (induction flags arbitrary: ts)
  case Nil
  then show ?case by (simp add: selected_def)
next
  case (Cons flag flags)
  have "(\<lambda>t. if selected family flags t then t\<lparr>tf_extract := True\<rparr> else t) \<circ> mark_extract family flag =
      (\<lambda>t. if selected family (flag # flags) t then t\<lparr>tf_extract := True\<rparr> else t)"
    by (rule ext) (auto simp: selected_def mark_extract_def extracts_def)
  moreover have "list_ex (extracts family f) (map (mark_extract family flag) ts) = list_ex (extracts family f) ts" for f
    by (simp add: list_ex_iff)
  ultimately show ?case by (simp add: Cons.IH split: option.splits)
qed

definition extract_spec :: "endian \<Rightarrow> thin_sort \<Rightarrow> u32 \<Rightarrow> fat_options \<Rightarrow> arch_flag list \<Rightarrow>
    thin_file list \<Rightarrow> bytes lipo" where
  "extract_spec e qsort junk opts flags ts =
     (case find (\<lambda>flag. \<not> list_ex (extracts (fo_extract_family opts) flag) ts) flags of
        Some flag \<Rightarrow> Error (Not_in_file (af_cputype flag) (af_cpusubtype flag))
      | None \<Rightarrow>
          create_fat e qsort junk opts
            (map (tf_extract_update (\<lambda>_. True)) (filter (selected (fo_extract_family opts) flags) ts)))"

text \<open>
  C23.  \<open>-extract\<close> does what its reference definition says: for the first architecture that is not in
  the file it fails; else the fat file is created from the thin files that match one of the
  architectures (only by their CPU with \<open>-extract_family\<close>), in their order.
\<close>

theorem lipo_extract_spec:
  assumes "list_all (\<lambda>t. \<not> tf_extract t) ts" and "ii_fat_header info = Some h"
    and "distinct (map arch_key (map flag_arch flags))"
  shows "lipo_extract e qsort junk opts flags [info] ts = extract_spec e qsort junk (keep_fat64 h opts) flags ts"
proof -
  let ?family = "fo_extract_family opts"
  have family: "fo_extract_family (keep_fat64 h opts) = ?family" by (simp add: keep_fat64_def)
  have "filter (\<lambda>t. \<not> \<not> tf_extract t) (map (\<lambda>t. if P t then t\<lparr>tf_extract := True\<rparr> else t) ts) =
      map (tf_extract_update (\<lambda>_. True)) (filter P ts)" for P
    using assms(1) by (induction ts) auto
  then show ?thesis
    using assms(2,3)
    by (simp add: lipo_extract_def extract_spec_def single_fat_def mark_extracts_find remove_loop_filter family
        distinct_archs_Ok [THEN iffD2] split: option.splits)
qed

theorem lipo_extract_spec_witness:
  "lipo_extract Big sort_by 0 plain_options [arch_flag ''i386'' CPU_TYPE_I386 3]
     [fat_info \<lparr>fh_magic = FAT_MAGIC, fh_nfat_arch = 2\<rparr> 2 two_files] two_files =
   extract_spec Big sort_by 0 plain_options [arch_flag ''i386'' CPU_TYPE_I386 3] two_files"
  using lipo_extract_spec [where ts = two_files and flags = "[arch_flag ''i386'' CPU_TYPE_I386 3]" and
      info = "fat_info \<lparr>fh_magic = FAT_MAGIC, fh_nfat_arch = 2\<rparr> 2 two_files" and e = Big and
      qsort = sort_by and junk = 0 and opts = plain_options and h = "\<lparr>fh_magic = FAT_MAGIC, fh_nfat_arch = 2\<rparr>"]
  by (simp add: two_files_def whole_thin_def fat_info_def keep_fat64_def)

section \<open>Removing\<close>

definition dropped :: "arch_flag list \<Rightarrow> thin_file \<Rightarrow> bool" where
  "dropped flags t \<longleftrightarrow> list_ex (\<lambda>flag. same_arch (flag_arch flag) (tf_arch t)) flags"

definition mark_remove :: "arch_flag \<Rightarrow> thin_file \<Rightarrow> thin_file" where
  "mark_remove flag t = (if same_arch (flag_arch flag) (tf_arch t) then t\<lparr>tf_remove := True\<rparr> else t)"

lemma tf_arch_mark [simp]: "tf_arch (mark_remove flag t) = tf_arch t"
  by (simp add: mark_remove_def tf_arch_def)

text \<open>Where the architectures are distinct, the first file of one is the only one.\<close>

lemma change_first_mark:
  assumes "distinct (map arch_key (map tf_arch ts))"
  shows "change_first (flag_arch flag) (\<lambda>t. t\<lparr>tf_remove := True\<rparr>) ts =
     (if list_ex (\<lambda>t. same_arch (flag_arch flag) (tf_arch t)) ts then Ok (map (mark_remove flag) ts)
      else Error (Not_in_file (af_cputype flag) (af_cpusubtype flag)))"
  using assms
proof (induction ts)
  case Nil
  then show ?case by (simp add: flag_arch_def)
next
  case (Cons t ts)
  show ?case
  proof (cases "same_arch (flag_arch flag) (tf_arch t)")
    case True
    then have "map (mark_remove flag) ts = ts"
      using Cons.prems by (intro map_idI) (auto simp: mark_remove_def same_arch_key)
    then show ?thesis using True by (simp add: mark_remove_def)
  next
    case False
    then show ?thesis using Cons by (simp add: mark_remove_def)
  qed
qed

lemma mark_removes_find:
  assumes "distinct (map arch_key (map tf_arch ts))"
  shows "mark_removes flags ts =
     (case find (\<lambda>flag. \<not> list_ex (\<lambda>t. same_arch (flag_arch flag) (tf_arch t)) ts) flags of
        Some flag \<Rightarrow> Error (Not_in_file (af_cputype flag) (af_cpusubtype flag))
      | None \<Rightarrow> Ok (map (\<lambda>t. if dropped flags t then t\<lparr>tf_remove := True\<rparr> else t) ts))"
  using assms
proof (induction flags arbitrary: ts)
  case Nil
  then show ?case by (simp add: dropped_def)
next
  case (Cons flag flags)
  let ?ts = "map (mark_remove flag) ts"
  have archs: "map tf_arch ?ts = map tf_arch ts" by simp
  have "(\<lambda>t. if dropped flags t then t\<lparr>tf_remove := True\<rparr> else t) \<circ> mark_remove flag =
      (\<lambda>t. if dropped (flag # flags) t then t\<lparr>tf_remove := True\<rparr> else t)"
    by (rule ext) (auto simp: dropped_def mark_remove_def tf_arch_def)
  moreover have "list_ex (\<lambda>t. same_arch a (tf_arch t)) ?ts = list_ex (\<lambda>t. same_arch a (tf_arch t)) ts" for a
    by (simp add: list_ex_iff)
  moreover have "distinct (map arch_key (map tf_arch ?ts))" using Cons.prems unfolding archs .
  ultimately show ?case
    using Cons.IH [of ?ts] by (simp add: change_first_mark [OF Cons.prems] split: option.splits)
qed

text \<open>
  C24.  \<open>-remove\<close> of a file with distinct architectures: it fails for the first architecture that is not
  in the file, and when nothing would be left; else the fat file is created from the other thin
  files, in their order.
\<close>

theorem lipo_remove_spec:
  assumes "list_all (\<lambda>t. \<not> tf_remove t) ts" and "distinct (map arch_key (map tf_arch ts))"
    and "ii_fat_header info = Some h" and "distinct (map arch_key (map flag_arch flags))"
  shows "lipo_remove e qsort junk opts flags [info] ts =
     (case find (\<lambda>flag. \<not> list_ex (\<lambda>t. same_arch (flag_arch flag) (tf_arch t)) ts) flags of
        Some flag \<Rightarrow> Error (Not_in_file (af_cputype flag) (af_cpusubtype flag))
      | None \<Rightarrow>
          if list_all (dropped flags) ts then Error Empty_result
          else create_fat e qsort junk (keep_fat64 h opts) (filter (\<lambda>t. \<not> dropped flags t) ts))"
proof -
  have "filter (\<lambda>t. \<not> tf_remove t) (map (\<lambda>t. if P t then t\<lparr>tf_remove := True\<rparr> else t) ts) =
      filter (\<lambda>t. \<not> P t) ts" for P
    using assms(1) by (induction ts) auto
  moreover have "filter (\<lambda>t. \<not> dropped flags t) ts = [] \<longleftrightarrow> list_all (dropped flags) ts"
    by (auto simp: filter_empty_conv list_all_iff)
  ultimately show ?thesis
    using assms(3,4)
    by (simp add: lipo_remove_def single_fat_def mark_removes_find [OF assms(2)] remove_loop_filter Let_def
        distinct_archs_Ok [THEN iffD2] split: option.splits)
qed

theorem lipo_remove_spec_witness:
  "lipo_remove Big sort_by 0 plain_options [arch_flag ''i386'' CPU_TYPE_I386 3]
     [fat_info \<lparr>fh_magic = FAT_MAGIC, fh_nfat_arch = 2\<rparr> 2 two_files] two_files =
   create_fat Big sort_by 0 plain_options [hd two_files]"
  using lipo_remove_spec [where ts = two_files and flags = "[arch_flag ''i386'' CPU_TYPE_I386 3]" and
      info = "fat_info \<lparr>fh_magic = FAT_MAGIC, fh_nfat_arch = 2\<rparr> 2 two_files" and e = Big and
      qsort = sort_by and junk = 0 and opts = plain_options and h = "\<lparr>fh_magic = FAT_MAGIC, fh_nfat_arch = 2\<rparr>"]
  by (simp add: two_files_def whole_thin_def fat_info_def keep_fat64_def arch_key_def tf_arch_def dropped_def
      same_arch_def flag_arch_def)
section \<open>Creating a file and thinning it again\<close>

lemma parse_names:
  assumes "\<forall>n\<in>set names. \<not> (\<exists>p. n = CHR ''-'' # p)"
  shows "parse_args args names = Some (Ok (args\<lparr>la_inputs := la_inputs args @ map (\<lambda>n. (n, None)) names\<rparr>))"
  using assms by (induction names arbitrary: args) (auto split: list.splits)

lemma parse_flag_create: "parse_flag args ''create'' rest = Some (Ok (args\<lparr>la_create := True\<rparr>, rest))"
  by (simp add: parse_flag_def)

lemma parse_flag_output:
  "la_output args = None \<Longrightarrow>
     parse_flag args ''output'' (name # rest) = Some (Ok (args\<lparr>la_output := Some name\<rparr>, rest))"
  by (simp add: parse_flag_def one_argument_def guard_def)

lemma parse_flag_thin:
  "la_thin args = None \<Longrightarrow> get_arch_from_flag a = Some flag \<Longrightarrow>
     parse_flag args ''thin'' (a # rest) = Some (Ok (args\<lparr>la_thin := Some flag\<rparr>, rest))"
  by (simp add: parse_flag_def one_argument_def arch_argument_def guard_def)

definition create_args :: "string \<Rightarrow> string list \<Rightarrow> string list" where
  "create_args out_name names = [''-create'', ''-output'', out_name] @ names"

definition thin_args :: "string \<Rightarrow> string \<Rightarrow> string \<Rightarrow> string list" where
  "thin_args name a out_name = [name, ''-thin'', a, ''-output'', out_name]"

definition file_name :: "string \<Rightarrow> bool" where
  "file_name s \<longleftrightarrow> \<not> (\<exists>p. s = CHR ''-'' # p)"

lemma parse_create_args:
  assumes "\<forall>n\<in>set names. file_name n"
  shows "parse_args no_args (create_args out_name names) =
    Some (Ok (no_args\<lparr>la_create := True, la_output := Some out_name, la_inputs := map (\<lambda>n. (n, None)) names\<rparr>))"
  using assms
  by (simp add: create_args_def parse_flag_create parse_flag_output parse_names file_name_def no_args_def)

lemma parse_thin_args:
  assumes "file_name name" and "get_arch_from_flag a = Some flag"
  shows "parse_args no_args (thin_args name a out_name) =
    Some (Ok (no_args\<lparr>la_inputs := [(name, None)], la_thin := Some flag, la_output := Some out_name\<rparr>))"
proof -
  have "parse_args no_args (thin_args name a out_name) =
      parse_args (no_args\<lparr>la_inputs := [(name, None)]\<rparr>) [''-thin'', a, ''-output'', out_name]"
    using assms(1) by (cases name) (auto simp: thin_args_def file_name_def no_args_def)
  also have "\<dots> = Some (Ok (no_args\<lparr>la_inputs := [(name, None)], la_thin := Some flag, la_output := Some out_name\<rparr>))"
    using assms(2) by (simp add: parse_flag_thin parse_flag_output no_args_def)
  finally show ?thesis .
qed

lemma create_scan_Ok:
  assumes "create_scan e l b ts = Ok (l', b')"
  shows "distinct (map arch_key (map tf_arch ts)) \<and> unat l' \<le> unat l + (\<Sum>t\<leftarrow>ts. unat (tf_size t))"
  using assms
proof (induction ts arbitrary: l b)
  case Nil
  then show ?case by simp
next
  case (Cons t ts)
  have key: "arch_key (tf_arch t) \<notin> arch_key ` tf_arch ` set ts"
    using Cons.prems by (auto simp: list_ex_iff same_arch_key split: if_splits)
  obtain b'' where "create_scan e (if ts \<noteq> [] then l + tf_size t else l) b'' ts = Ok (l', b')"
    using Cons.prems by (auto simp: bind_eq_Ok split: if_splits)
  from Cons.IH [OF this] have "distinct (map arch_key (map tf_arch ts))"
    and "unat l' \<le> unat (if ts \<noteq> [] then l + tf_size t else l) + (\<Sum>t\<leftarrow>ts. unat (tf_size t))" by simp_all
  then show ?case
    using key unat_add_le [of l "tf_size t"] by (auto simp: image_image split: if_splits)
qed

text \<open>The thin file that is found by its architecture.\<close>

lemma find_slice:
  assumes "map slice_view us = map slice_view ts" and "t \<in> set ts"
    and "distinct (map arch_key (map tf_arch ts))" and "same_arch (tf_arch t) arch"
  shows "\<exists>u. find (\<lambda>u. same_arch (tf_arch u) arch) us = Some u \<and> slice_view u = slice_view t"
proof -
  have views: "slice_view ` set us = slice_view ` set ts"
    using arg_cong [OF assms(1), of set] by simp
  then have "slice_view t \<in> slice_view ` set us" using assms(2) by blast
  then obtain u where u: "u \<in> set us" "slice_view u = slice_view t" by auto
  then have "same_arch (tf_arch u) arch" using assms(4) by (simp add: slice_view_def)
  then obtain u' where u': "find (\<lambda>u. same_arch (tf_arch u) arch) us = Some u'" "u' \<in> set us"
      "same_arch (tf_arch u') arch"
    using u(1) by (metis (no_types, lifting) find_None_iff find_SomeD option.exhaust)
  have "slice_view u' \<in> slice_view ` set ts" using views u'(2) by blast
  then obtain t' where t': "t' \<in> set ts" "slice_view u' = slice_view t'" by auto
  have "arch_key (tf_arch t') = arch_key (tf_arch t)"
    using u'(3) t'(2) assms(4) by (simp add: same_arch_key slice_view_def)
  then have "t' = t" using assms(2,3) t'(1) by (auto simp: distinct_map inj_on_def)
  then show ?thesis using u' t' by blast
qed

text \<open>What a run of \<open>lipo -create\<close> does, and one of \<open>lipo -thin\<close>.\<close>

lemma next_step_simps [simp]:
  "next_step None f = None" "next_step (Some (Ok x)) f = f x"
  "next_step (Some (Error err)) f = Some (Error err)" "next_step (Some Fault) f = Some Fault"
  for f :: "'a \<Rightarrow> 'b run"
  by (simp_all add: next_step_def)

lemma lipo_run:
  assumes "parse_args no_args argv = Some (Ok args)" and "check_args args = Ok args"
    and "process_inputs (lh_env host) (la_fat64 args) files (la_inputs args) = Some (Ok inputs)"
  shows "lipo host files argv = operate host files args inputs"
  unfolding lipo_def assms(1) option.map usage.simps next_step_simps assms(2,3) ..

lemma lipo_create_run:
  assumes names: "names \<noteq> []" "\<forall>n\<in>set names. file_name n"
    and inputs: "process_inputs (lh_env host) False files (map (\<lambda>n. (n, None)) names) = Some (Ok inputs)"
    and ts: "ts = concat (map ii_thin_files (map snd inputs))"
    and small: "(\<Sum>t\<leftarrow>ts. unat (tf_size t)) < 2 ^ 32"
    and run: "lipo host files (create_args out_name names) = Some (Ok r)"
  obtains out where "lo_written r = Some (out_name, out)"
    "create_fat (le_host (lh_env host)) (lh_qsort host) (lh_junk host) plain_options ts = Ok out"
    "distinct (map arch_key (map tf_arch ts))"
proof -
  let ?args = "no_args\<lparr>la_create := True, la_output := Some out_name, la_inputs := map (\<lambda>n. (n, None)) names\<rparr>"
  let ?errors = "sum_list (map ii_errors (map snd inputs))"
  let ?create = "lipo_create (le_host (lh_env host)) (lh_qsort host) (lh_junk host) plain_options ts"
  have check: "check_args ?args = Ok ?args"
    using names(1) by (simp add: check_args_def operations_def no_args_def guard_def)
  have opts: "args_options ?args = plain_options" by (simp add: args_options_def no_args_def plain_options_def)
  have "lipo host files (create_args out_name names) = operate host files ?args inputs"
    using inputs by (intro lipo_run [OF parse_create_args [OF names(2)] check]) (simp add: no_args_def)
  also have "\<dots> = writes ?errors ?args ?create"
    unfolding operate_def Let_def opts ts by simp
  finally have written: "writes ?errors ?args ?create = Some (Ok r)" using run by simp
  obtain out where out: "?create = Ok out" "lo_written r = Some (out_name, out)"
    using written by (cases ?create) (auto simp: writes_def)
  obtain l b where scan: "create_scan (le_host (lh_env host)) 0 False ts = Ok (l, b)"
    and create: "create_fat (le_host (lh_env host)) (lh_qsort host) (lh_junk host)
      (if \<not> b \<and> 0xffffffff < l then plain_options\<lparr>fo_fat64 := True\<rparr> else plain_options) ts = Ok out"
    using out(1) by (auto simp: lipo_create_def bind_eq_Ok)
  note scanned = create_scan_Ok [OF scan]
  have "unat l < 2 ^ 32" using scanned small by simp
  then have "\<not> 0xffffffff < l" by (simp add: word_less_nat_alt)
  then show ?thesis using that out(2) create scanned by simp
qed

lemma lipo_thin_run:
  assumes name: "file_name name" and flag: "get_arch_from_flag a = Some flag" and m: "files name = Some m"
    and info: "process_input_file (lh_env host) False
      \<lparr>in_name = name, in_contents = m, in_arch_flag = None\<rparr> = Some (Ok info)"
      "ii_errors info = 0" "ii_fat_header info = Some h"
    and found: "find (\<lambda>t. same_arch (tf_arch t) (flag_arch flag)) (ii_thin_files info) = Some t"
    and data: "thin_contents t = Ok out"
  shows "lipo host files (thin_args name a out_name) =
    Some (Ok \<lparr>lo_status = 0, lo_printed = [], lo_written = Some (out_name, out)\<rparr>)"
proof -
  let ?args = "no_args\<lparr>la_inputs := [(name, None)], la_thin := Some flag, la_output := Some out_name\<rparr>"
  have check: "check_args ?args = Ok ?args"
    by (simp add: check_args_def operations_def no_args_def guard_def)
  have "process_inputs (lh_env host) False files [(name, None)] = Some (Ok [(name, info)])"
    using m info(1) by (simp add: open_file_def)
  then have "lipo host files (thin_args name a out_name) = operate host files ?args [(name, info)]"
    by (intro lipo_run [OF parse_thin_args [OF name flag] check]) (simp add: no_args_def)
  also have "\<dots> = writes 0 ?args (lipo_thin flag [info] (ii_thin_files info))"
    by (simp add: operate_def Let_def info(2) no_args_def)
  finally show ?thesis
    using info(3) found data by (simp add: writes_def lipo_thin_def single_fat_def exit_status_def)
qed

text \<open>
  C3.  Whole runs.  \<open>lipo -create -output f names\<close> that succeeds, followed by
  \<open>lipo f -thin arch -output g\<close>, for an architecture that one of the thin files has, succeeds and
  writes just the bytes of that thin file to \<open>g\<close>, on a host of either byte order.
\<close>

theorem lipo_thin_after_create:
  assumes "\<And>cmp ts. mset (lh_qsort host cmp ts) = mset ts"
    and "names \<noteq> []" "\<forall>n\<in>set names. file_name n" "file_name f"
    and "process_inputs (lh_env host) False files (map (\<lambda>n. (n, None)) names) = Some (Ok inputs)"
    and "ts = concat (map ii_thin_files (map snd inputs))" "length ts < 2 ^ 27" "\<forall>t\<in>set ts. sound_thin t"
    and "(\<Sum>t\<leftarrow>ts. unat (tf_size t)) < 2 ^ 32"
    and "lipo host files (create_args f names) = Some (Ok r)" "lo_written r = Some (f, fat)"
    and "t \<in> set ts" "get_arch_from_flag a = Some flag" "same_arch (tf_arch t) (flag_arch flag)"
  shows "\<exists>out. thin_contents t = Ok out \<and>
           lipo host (files(f \<mapsto> fat)) (thin_args f a g) =
             Some (Ok \<lparr>lo_status = 0, lo_printed = [], lo_written = Some (g, out)\<rparr>)"
proof -
  obtain fat' where "lo_written r = Some (f, fat')"
    and create: "create_fat (le_host (lh_env host)) (lh_qsort host) (lh_junk host) plain_options ts = Ok fat'"
    and archs: "distinct (map arch_key (map tf_arch ts))"
    by (rule lipo_create_run [OF assms(2,3,5,6,9,10)])
  then have fat: "fat' = fat" using assms(11) by simp
  let ?input = "\<lparr>in_name = f, in_contents = fat, in_arch_flag = None\<rparr>"
  have distinct: "distinct_archs Same_architecture (map tf_arch ts) = Ok ()"
    using archs by (simp only: distinct_archs_Ok)
  obtain info where info: "process_input_file (lh_env host) False ?input = Some (Ok info)" "ii_errors info = 0"
      "ii_fat_header info = Some \<lparr>fh_magic = FAT_MAGIC, fh_nfat_arch = of_nat (length ts)\<rparr>"
    and views: "map slice_view (ii_thin_files info) = map slice_view (lh_qsort host cmp_qsort ts)"
    using round_trip [OF assms(1,7,8) distinct create, of ?input "lh_env host"] fat by auto
  have perm: "mset (lh_qsort host cmp_qsort ts) = mset ts" by (rule assms(1))
  have "mset (map arch_key (map tf_arch (lh_qsort host cmp_qsort ts))) = mset (map arch_key (map tf_arch ts))"
    using perm by simp
  then have "distinct (map arch_key (map tf_arch (lh_qsort host cmp_qsort ts)))"
    using archs by (metis mset_eq_imp_distinct_iff)
  moreover have "t \<in> set (lh_qsort host cmp_qsort ts)" using assms(12) mset_eq_setD [OF perm] by simp
  ultimately obtain u where u: "find (\<lambda>u. same_arch (tf_arch u) (flag_arch flag)) (ii_thin_files info) = Some u"
      "slice_view u = slice_view t"
    using find_slice [OF views _ _ assms(14)] by blast
  have "sound_thin t" using assms(8,12) by blast
  then obtain out where out: "thin_contents t = Ok out" by (auto simp: thin_contents_def sound_thin_def read_bytes_def)
  moreover have "thin_contents u = Ok out" using u(2) out by (simp add: slice_view_def)
  ultimately show ?thesis
    using lipo_thin_run [OF assms(4,13) _ info u(1)] by auto
qed
text \<open>Two bitcode files in the place of the inputs.\<close>

definition two_host :: lipo_host where
  "two_host =
     \<lparr>lh_env = \<lparr>le_host = Little, le_pagesize = 4096,
        le_lto = \<lambda>m _ _. Some (if hd m = 1 then arch_flag ''ppc'' CPU_TYPE_POWERPC 0
                              else arch_flag ''i386'' CPU_TYPE_I386 3),
        le_erange = False\<rparr>,
      lh_qsort = sort_by, lh_junk = 0\<rparr>"

definition two_inputs :: file_system where
  "two_inputs = [''a'' \<mapsto> [1, 2, 3, 4, 5], ''b'' \<mapsto> [6, 7, 8, 9]]"

definition two_thins :: "thin_file list" where
  "two_thins = [whole_thin ''a'' [1, 2, 3, 4, 5] CPU_TYPE_POWERPC 0 0, whole_thin ''b'' [6, 7, 8, 9] CPU_TYPE_I386 3 0]"

lemma sound_two_thins: "\<forall>t\<in>set two_thins. sound_thin t"
proof -
  have "\<forall>t\<in>set two_thins. get32 Big (tf_map t) (tf_addr t) \<noteq> CPU_TYPE_ARM64" by code_simp
  then show ?thesis by (simp add: two_thins_def whole_thin_def sound_thin_def file_size_def)
qed

lemma create_run_two:
  "\<exists>r fat. lipo two_host two_inputs (create_args ''f'' [''a'', ''b'']) = Some (Ok r) \<and>
     lo_written r = Some (''f'', fat)"
proof -
  have "case lipo two_host two_inputs (create_args ''f'' [''a'', ''b'']) of
      Some (Ok r) \<Rightarrow> map_option fst (lo_written r) = Some ''f'' | _ \<Rightarrow> False"
    by code_simp
  then show ?thesis by (auto split: option.splits result.splits)
qed

theorem lipo_thin_after_create_witness:
  "\<exists>r fat. lipo two_host two_inputs (create_args ''f'' [''a'', ''b'']) = Some (Ok r) \<and>
     lo_written r = Some (''f'', fat) \<and>
     lipo two_host (two_inputs(''f'' \<mapsto> fat)) (thin_args ''f'' ''i386'' ''g'') =
       Some (Ok \<lparr>lo_status = 0, lo_printed = [], lo_written = Some (''g'', [6, 7, 8, 9])\<rparr>)"
proof -
  obtain r fat where run: "lipo two_host two_inputs (create_args ''f'' [''a'', ''b'']) = Some (Ok r)"
    "lo_written r = Some (''f'', fat)" using create_run_two by blast
  let ?inputs = "map (\<lambda>t. (tf_name t, thin_info False t 0)) two_thins"
  have inputs: "process_inputs (lh_env two_host) False two_inputs (map (\<lambda>n. (n, None)) [''a'', ''b'']) =
      Some (Ok ?inputs)"
    by (simp add: two_host_def two_inputs_def two_thins_def open_file_def process_input_file_def Let_def
        is_fat_def magic_at_start_def is_archive_def fat_header_defs sizeof_mach_header_def
        sizeof_mach_header_64_def process_unknown_def check_file_size_def guard_def file_size_def
        whole_thin_def)
  have ts: "two_thins = concat (map ii_thin_files (map snd ?inputs))" by (simp add: thin_info_def comp_def)
  have t: "whole_thin ''b'' [6, 7, 8, 9] CPU_TYPE_I386 3 0 \<in> set two_thins" by (simp add: two_thins_def)
  have flag: "get_arch_from_flag ''i386'' = Some (arch_flag ''i386'' CPU_TYPE_I386 3)" by code_simp
  have "\<exists>out. thin_contents (whole_thin ''b'' [6, 7, 8, 9] CPU_TYPE_I386 3 0) = Ok out \<and>
      lipo two_host (two_inputs(''f'' \<mapsto> fat)) (thin_args ''f'' ''i386'' ''g'') =
        Some (Ok \<lparr>lo_status = 0, lo_printed = [], lo_written = Some (''g'', out)\<rparr>)"
    by (rule lipo_thin_after_create [OF _ _ _ _ inputs ts _ sound_two_thins _ run t flag])
      (simp_all add: two_host_def mset_sort_by file_name_def two_thins_def whole_thin_def file_size_def
        tf_arch_def flag_arch_def same_arch_def)
  moreover have "thin_contents (whole_thin ''b'' [6, 7, 8, 9] CPU_TYPE_I386 3 0) = Ok [6, 7, 8, 9]"
    by (simp add: thin_contents_def whole_thin_def file_size_def)
  ultimately show ?thesis using run by auto
qed

end
