(* ===== verification/Leb128.thy ===== *)
theory Leb128
  imports Outcomes
begin

text \<open>
  The readers of variable-length integers in \<open>otool/dyld_bind_info.c\<close>.  The opcodes are a byte
  string; \<open>p\<close> is a position in it and its end is the limit of the reader.  The result is the
  value, the new position and the error, if there is one.
\<close>

datatype leb_error = Leb_past_end | Leb_too_big

text \<open>Code that reports no error of its own, but may fault.\<close>

type_synonym 'a guarded = "(unit, 'a) result"

section \<open>Unsigned\<close>

function uleb_loop :: "bytes \<Rightarrow> nat \<Rightarrow> nat \<Rightarrow> u64 \<Rightarrow> u64 \<times> nat \<times> leb_error option" where
  "uleb_loop ops p shift result =
     (if p \<ge> length ops then (0, p, Some Leb_past_end)
      else
        (let slice = ucast (ops ! p AND 0x7f) :: u64
         in if shift \<ge> 64 \<or> drop_bit shift (push_bit shift slice) \<noteq> slice then (0, p, Some Leb_too_big)
            else
              (let result = result OR push_bit shift slice
               in if ops ! p AND 0x80 \<noteq> 0 then uleb_loop ops (p + 1) (shift + 7) result
                  else (result, p + 1, None))))"
  by pat_completeness auto
termination
  by (relation "measure (\<lambda>(ops, p, _, _). length ops - p)") auto

declare uleb_loop.simps [simp del]

definition read_uleb128 :: "bytes \<Rightarrow> nat \<Rightarrow> u64 \<times> nat \<times> leb_error option" where
  "read_uleb128 ops p = uleb_loop ops p 0 0"

section \<open>Signed\<close>

text \<open>A shift by 64 bits or more is undefined in C and a fault here.\<close>

function sleb_loop :: "bytes \<Rightarrow> nat \<Rightarrow> nat \<Rightarrow> u64 \<Rightarrow> (u64 \<times> nat \<times> leb_error option) guarded" where
  "sleb_loop ops p shift result =
     (if p \<ge> length ops then Ok (0, p, Some Leb_past_end)
      else if shift \<ge> 64 then Fault
      else
        (let byte = ops ! p; p = p + 1;
             result = result OR push_bit shift (ucast (byte AND 0x7f)); shift = shift + 7
         in if byte AND 0x80 \<noteq> 0 then sleb_loop ops p shift result
            else if byte AND 0x40 \<noteq> 0 then
              (if shift \<ge> 64 then Fault else Ok (result OR push_bit shift (- 1), p, None))
            else Ok (result, p, None)))"
  by pat_completeness auto
termination
  by (relation "measure (\<lambda>(ops, p, _, _). length ops - p)") auto

declare sleb_loop.simps [simp del]

definition read_sleb128 :: "bytes \<Rightarrow> nat \<Rightarrow> (u64 \<times> nat \<times> leb_error option) guarded" where
  "read_sleb128 ops p = sleb_loop ops p 0 0"

section \<open>The unsigned reader is exact\<close>

text \<open>The number that a byte string stands for, however large.\<close>

fun uleb_value :: "bytes \<Rightarrow> nat" where
  "uleb_value [] = 0"
| "uleb_value (b # bs) = unat (b AND 0x7f) + 128 * uleb_value bs"

lemma unat_slice: "unat (ucast (b AND 0x7f :: u8) :: u64) = unat (b AND 0x7f)"
  by (simp add: unsigned_ucast_eq take_bit_nat_eq_self less_trans [OF unsigned_less])

lemma shift_keeps_iff:
  fixes s :: u64
  assumes "k < 64"
  shows "drop_bit k (push_bit k s) = s \<longleftrightarrow> unat s * 2 ^ k < 2 ^ 64"
proof -
  have drop: "unat (drop_bit k (push_bit k s)) = (unat s * 2 ^ k mod 2 ^ 64) div 2 ^ k"
    by (simp add: unat_drop_bit_eq unsigned_push_bit_eq take_bit_nat_def push_bit_nat_def drop_bit_nat_def)
  show ?thesis
  proof
    assume "drop_bit k (push_bit k s) = s"
    then have "unat s = (unat s * 2 ^ k mod 2 ^ 64) div 2 ^ k" using drop by simp
    also have "\<dots> < 2 ^ (64 - k)"
    proof (rule less_mult_imp_div_less)
      have "(2 :: nat) ^ (64 - k) * 2 ^ k = 2 ^ 64" using assms by (simp flip: power_add)
      then show "unat s * 2 ^ k mod 2 ^ 64 < 2 ^ (64 - k) * 2 ^ k" by simp
    qed
    finally have "unat s * 2 ^ k < 2 ^ (64 - k) * 2 ^ k" by simp
    then show "unat s * 2 ^ k < 2 ^ 64" using assms by (simp flip: power_add)
  next
    assume "unat s * 2 ^ k < 2 ^ 64"
    then have "unat (drop_bit k (push_bit k s)) = unat s" using drop by simp
    then show "drop_bit k (push_bit k s) = s" by (simp only: word_unat_eq_iff)
  qed
qed

lemma unat_or_push:
  fixes r s :: u64
  assumes "k < 64" and "unat r < 2 ^ k" and "unat s * 2 ^ k < 2 ^ 64"
  shows "unat (r OR push_bit k s) = unat r + 2 ^ k * unat s"
proof -
  have "unat (push_bit k s) = unat s * 2 ^ k"
    using assms(3) by (simp add: unsigned_push_bit_eq push_bit_nat_def take_bit_nat_eq_self)
  then have "unat (r OR push_bit k s) = unat r OR push_bit k (unat s)"
    by (simp add: unsigned_or_eq push_bit_nat_def)
  also have "\<dots> = unat r + push_bit k (unat s)"
  proof (rule disjunctive_add [symmetric])
    fix i
    show "\<not> bit (unat r) i \<or> \<not> bit (push_bit k (unat s)) i"
    proof (cases "i < k")
      case True
      then show ?thesis by (simp add: bit_push_bit_iff)
    next
      case False
      have "take_bit k (unat r) = unat r" using assms(2) by (simp add: take_bit_nat_eq_self)
      then have "\<not> bit (unat r) i" using False by (metis bit_take_bit_iff)
      then show ?thesis ..
    qed
  qed
  finally show ?thesis by (simp add: push_bit_nat_def mult.commute)
qed

lemma slice_less: "unat (b AND 0x7f :: u8) < 128"
proof -
  have "b AND 0x7f \<le> 0x7f" by (rule word_and_le1)
  then show ?thesis by (simp add: word_le_nat_alt)
qed

lemma or_push_slice:
  fixes r :: u64
  assumes "unat r < 2 ^ k" and "k < 64" and "unat (b AND 0x7f :: u8) * 2 ^ k < 2 ^ 64"
  shows "r OR push_bit k (ucast (b AND 0x7f)) = of_nat (unat r + 2 ^ k * unat (b AND 0x7f))"
proof -
  let ?w = "r OR push_bit k (ucast (b AND 0x7f))"
  have "unat (ucast (b AND 0x7f) :: u64) * 2 ^ k < 2 ^ 64" using assms(3) by (simp only: unat_slice)
  then have "unat ?w = unat r + 2 ^ k * unat (b AND 0x7f)"
    using assms(1,2) by (simp only: unat_or_push unat_slice)
  then have "of_nat (unat ?w) = (of_nat (unat r + 2 ^ k * unat (b AND 0x7f)) :: u64)" by (simp only:)
  then show ?thesis by simp
qed

text \<open>The loop, in the terms of numbers.\<close>

lemma uleb_loop_number:
  assumes "p < length ops" and "unat r < 2 ^ k"
  shows "uleb_loop ops p k r =
     (if k \<ge> 64 \<or> unat (ops ! p AND 0x7f) * 2 ^ k \<ge> 2 ^ 64 then (0, p, Some Leb_too_big)
      else if ops ! p AND 0x80 \<noteq> 0 then
        uleb_loop ops (p + 1) (k + 7) (of_nat (unat r + 2 ^ k * unat (ops ! p AND 0x7f)))
      else (of_nat (unat r + 2 ^ k * unat (ops ! p AND 0x7f)), p + 1, None))"
proof (cases "k < 64 \<and> unat (ops ! p AND 0x7f) * 2 ^ k < 2 ^ 64")
  case True
  let ?s = "ucast (ops ! p AND 0x7f) :: u64"
  have s: "unat ?s * 2 ^ k < 2 ^ 64" using True by (simp only: unat_slice)
  have "r OR push_bit k ?s = of_nat (unat r + 2 ^ k * unat (ops ! p AND 0x7f))"
    using True by (intro or_push_slice [OF assms(2)]) simp_all
  then show ?thesis
    using True assms(1) s shift_keeps_iff [of k ?s] by (subst uleb_loop.simps) (simp add: Let_def)
next
  case False
  then show ?thesis
    using assms(1) shift_keeps_iff [of k "ucast (ops ! p AND 0x7f)"]
    by (subst uleb_loop.simps) (auto simp: Let_def unat_slice not_less)
qed

lemma uleb_step_bound:
  assumes "unat (r :: u64) < 2 ^ k" and "k < 64" and "unat (b AND 0x7f :: u8) * 2 ^ k < 2 ^ 64"
  shows "unat r + 2 ^ k * unat (b AND 0x7f) < 2 ^ (k + 7)" "unat r + 2 ^ k * unat (b AND 0x7f) < 2 ^ 64"
proof -
  have "unat r + 2 ^ k * unat (b AND 0x7f) < 2 ^ k + 2 ^ k * unat (b AND 0x7f)" using assms(1) by simp
  also have "\<dots> = 2 ^ k * Suc (unat (b AND 0x7f))" by simp
  finally have less: "unat r + 2 ^ k * unat (b AND 0x7f) < 2 ^ k * Suc (unat (b AND 0x7f))" .
  also have "\<dots> \<le> 2 ^ k * 128" using slice_less [of b] by simp
  also have "\<dots> = 2 ^ (k + 7)" by (simp add: power_add)
  finally show "unat r + 2 ^ k * unat (b AND 0x7f) < 2 ^ (k + 7)" .
  have "unat (b AND 0x7f) * 2 ^ k < 2 ^ (64 - k) * 2 ^ k" using assms(2,3) by (simp flip: power_add)
  then have "Suc (unat (b AND 0x7f)) \<le> 2 ^ (64 - k)" by simp
  then have "2 ^ k * Suc (unat (b AND 0x7f)) \<le> 2 ^ k * 2 ^ (64 - k)" by (rule mult_le_mono2)
  also have "\<dots> = 2 ^ 64" using assms(2) by (simp flip: power_add)
  finally show "unat r + 2 ^ k * unat (b AND 0x7f) < 2 ^ 64" using less by linarith
qed

lemma uleb_loop_exact:
  assumes "uleb_loop ops p k r = (v, q, None)" and "unat r < 2 ^ k"
  shows "p < q \<and> q \<le> length ops \<and> unat v = unat r + 2 ^ k * uleb_value (subbytes p (q - p) ops)"
  using assms
proof (induction ops p k r rule: uleb_loop.induct)
  case (1 ops p k r)
  have p: "p < length ops" using 1(2) by (subst (asm) uleb_loop.simps) (auto split: if_splits)
  note step = uleb_loop_number [OF p 1(3)]
  let ?n = "unat r + 2 ^ k * unat (ops ! p AND 0x7f)"
  have k: "k < 64" "unat (ops ! p AND 0x7f) * 2 ^ k < 2 ^ 64"
    using 1(2) unfolding step by (auto split: if_splits)
  note bound = uleb_step_bound [OF 1(3) k]
  have n: "unat (of_nat ?n :: u64) = ?n"
    using bound(2) by (simp only: unsigned_of_nat) (simp add: take_bit_nat_eq_self)
  have cons: "subbytes p (q - p) ops = ops ! p # subbytes (p + 1) (q - (p + 1)) ops" if "p < q" for q
    using p that by (simp add: subbytes_def take_Cons' Cons_nth_drop_Suc [symmetric])
  show ?case
  proof (cases "ops ! p AND 0x80 = 0")
    case True
    then have "v = of_nat ?n" "q = p + 1" using 1(2) k unfolding step by auto
    then show ?thesis using p n cons [of "p + 1"] by simp
  next
    case False
    have rest: "uleb_loop ops (p + 1) (k + 7) (of_nat ?n) = (v, q, None)" using 1(2) k False unfolding step by auto
    have same: "r OR push_bit k (ucast (ops ! p AND 0x7f)) = of_nat ?n" by (rule or_push_slice [OF 1(3) k])
    have keep: "\<not> (k \<ge> 64 \<or> drop_bit k (push_bit k (ucast (ops ! p AND 0x7f) :: u64)) \<noteq> ucast (ops ! p AND 0x7f))"
      using k shift_keeps_iff [of k "ucast (ops ! p AND 0x7f)"] by (simp add: unat_slice)
    have IH: "p + 1 < q \<and> q \<le> length ops \<and>
        unat v = unat (of_nat ?n :: u64) + 2 ^ (k + 7) * uleb_value (subbytes (p + 1) (q - (p + 1)) ops)"
      using 1(1) [OF _ refl keep refl False] p rest bound(1) n unfolding same by simp
    then have "unat v = ?n + 2 ^ (k + 7) * uleb_value (subbytes (p + 1) (q - (p + 1)) ops)" by (simp only: n)
    then show ?thesis using IH cons [of q] by (simp add: power_add algebra_simps)
  qed
qed

text \<open>The loop stops behind the first byte without the continuation bit.\<close>

definition leb_number :: "bytes \<Rightarrow> bool" where
  "leb_number bs \<longleftrightarrow> bs \<noteq> [] \<and> last bs AND 0x80 = 0 \<and> list_all (\<lambda>b. b AND 0x80 \<noteq> 0) (butlast bs)"

lemma leb_number_Cons: "leb_number (b # bs) \<longleftrightarrow> (if bs = [] then b AND 0x80 = 0 else b AND 0x80 \<noteq> 0 \<and> leb_number bs)"
  by (auto simp: leb_number_def)

lemma uleb_loop_ends:
  assumes "uleb_loop ops p k r = (v, q, None)"
  shows "p < q \<and> q \<le> length ops \<and> leb_number (subbytes p (q - p) ops)"
  using assms
proof (induction ops p k r rule: uleb_loop.induct)
  case (1 ops p k r)
  let ?s = "ucast (ops ! p AND 0x7f) :: u64"
  have p: "p < length ops" using 1(2) by (subst (asm) uleb_loop.simps) (auto split: if_splits)
  have keep: "\<not> (k \<ge> 64 \<or> drop_bit k (push_bit k ?s) \<noteq> ?s)"
    using 1(2) p by (subst (asm) uleb_loop.simps) (auto simp: Let_def split: if_splits)
  have cons: "subbytes p (q - p) ops = ops ! p # subbytes (p + 1) (q - (p + 1)) ops" if "p < q" for q
    using p that by (simp add: subbytes_def take_Cons' Cons_nth_drop_Suc [symmetric])
  show ?case
  proof (cases "ops ! p AND 0x80 = 0")
    case True
    then have "q = p + 1" using 1(2) p keep by (subst (asm) uleb_loop.simps) (auto simp: Let_def)
    then show ?thesis using p True cons [of "p + 1"] by (simp add: leb_number_Cons subbytes_def)
  next
    case False
    then have "uleb_loop ops (p + 1) (k + 7) (r OR push_bit k ?s) = (v, q, None)"
      using 1(2) p keep by (subst (asm) uleb_loop.simps) (auto simp: Let_def)
    then have IH: "p + 1 < q \<and> q \<le> length ops \<and> leb_number (subbytes (p + 1) (q - (p + 1)) ops)"
      using 1(1) [OF _ refl keep refl False] p by simp
    moreover have "subbytes (p + 1) (q - (p + 1)) ops \<noteq> []" using IH by (auto simp: leb_number_def)
    ultimately show ?thesis using False cons [of q] by (simp add: leb_number_Cons)
  qed
qed

text \<open>
  C37.  \<open>read_uleb128\<close> neither cuts a number off nor runs past its end: when it returns without an error it has
  consumed, inside the buffer, exactly one number (bytes with the continuation bit and a last byte without it), and the
  value is the number that these bytes stand for.
\<close>

theorem read_uleb128_exact:
  assumes "read_uleb128 ops p = (v, q, None)"
  shows "p < q \<and> q \<le> length ops \<and>
    ops ! (q - 1) AND 0x80 = 0 \<and> (\<forall>i. p \<le> i \<and> i < q - 1 \<longrightarrow> ops ! i AND 0x80 \<noteq> 0) \<and>
    unat v = uleb_value (subbytes p (q - p) ops)"
proof -
  have loop: "uleb_loop ops p 0 0 = (v, q, None)" using assms by (simp add: read_uleb128_def)
  have q: "p < q" "q \<le> length ops" and number: "leb_number (subbytes p (q - p) ops)"
    using uleb_loop_ends [OF loop] by auto
  have len: "length (subbytes p (q - p) ops) = q - p" using q by (simp add: subbytes_def)
  have at: "subbytes p (q - p) ops ! j = ops ! (p + j)" if "j < q - p" for j
    using that q by (simp add: subbytes_def)
  have "last (subbytes p (q - p) ops) = ops ! (q - 1)"
    using number len at [of "q - p - 1"] q by (simp add: leb_number_def last_conv_nth)
  moreover have "ops ! i AND 0x80 \<noteq> 0" if i: "p \<le> i" "i < q - 1" for i
  proof -
    have "subbytes p (q - p) ops ! (i - p) = butlast (subbytes p (q - p) ops) ! (i - p)"
      using i len by (simp add: nth_butlast)
    then show ?thesis
      using number len i at [of "i - p"] by (simp add: leb_number_def list_all_length)
  qed
  ultimately show ?thesis
    using q number uleb_loop_exact [OF loop] by (auto simp: leb_number_def)
qed

theorem read_uleb128_exact_witness:
  "unat (fst (read_uleb128 [0x80, 0xe5, 0x8e, 0x26] 1)) = 624485 \<and> ([0x80, 0xe5, 0x8e, 0x26] :: bytes) ! 3 AND 0x80 = 0"
proof -
  have "read_uleb128 [0x80, 0xe5, 0x8e, 0x26] 1 = (624485, 4, None)" by code_simp
  then show ?thesis using read_uleb128_exact [of "[0x80, 0xe5, 0x8e, 0x26]" 1 624485 4] by simp
qed

section \<open>Round trip\<close>

text \<open>The shortest encoding of a number.\<close>

fun uleb_encode :: "nat \<Rightarrow> bytes" where
  "uleb_encode n =
     (if n < 128 then [of_nat n] else (of_nat (n mod 128) OR 0x80) # uleb_encode (n div 128))"

declare uleb_encode.simps [simp del]

lemma low_byte:
  assumes "n < 128"
  shows "unat (of_nat n AND 0x7f :: u8) = n" "(of_nat n AND 0x80 :: u8) = 0"
    "unat ((of_nat n OR 0x80) AND 0x7f :: u8) = n" "((of_nat n OR 0x80) AND 0x80 :: u8) \<noteq> 0"
proof -
  have "\<forall>n \<in> set [0..<128]. unat (of_nat n AND 0x7f :: u8) = n \<and> (of_nat n AND 0x80 :: u8) = 0 \<and>
      unat ((of_nat n OR 0x80) AND 0x7f :: u8) = n \<and> ((of_nat n OR 0x80) AND 0x80 :: u8) \<noteq> 0"
    by code_simp
  then show "unat (of_nat n AND 0x7f :: u8) = n" "(of_nat n AND 0x80 :: u8) = 0"
    "unat ((of_nat n OR 0x80) AND 0x7f :: u8) = n" "((of_nat n OR 0x80) AND 0x80 :: u8) \<noteq> 0"
    using assms by simp_all
qed

lemma uleb_loop_encoded:
  assumes "drop p ops = uleb_encode n @ post" and "unat r < 2 ^ k" and "unat r + 2 ^ k * n < 2 ^ 64" and "k < 64"
  shows "uleb_loop ops p k r = (of_nat (unat r + 2 ^ k * n), p + length (uleb_encode n), None)"
  using assms
proof (induction n arbitrary: p k r rule: uleb_encode.induct)
  case (1 n)
  let ?b = "ops ! p AND 0x7f"
  have p: "p < length ops" using 1(2) by (cases "p < length ops") (auto simp: uleb_encode.simps split: if_splits)
  note step = uleb_loop_number [OF p 1(3)]
  have first: "ops ! p = hd (uleb_encode n)"
    using 1(2) p by (metis hd_append2 hd_drop_conv_nth list.distinct(1) uleb_encode.simps)
  show ?case
  proof (cases "n < 128")
    case True
    then have b: "ops ! p = of_nat n" using first by (simp add: uleb_encode.simps)
    have "n * 2 ^ k < 2 ^ 64" using 1(4) by (simp add: mult.commute)
    then show ?thesis unfolding step using True 1(5) low_byte(1,2) [OF True] by (simp add: b uleb_encode.simps)
  next
    case False
    have b: "ops ! p = of_nat (n mod 128) OR 0x80" using first False by (simp add: uleb_encode.simps)
    have mod: "unat ?b = n mod 128" "ops ! p AND 0x80 \<noteq> 0" unfolding b by (simp_all add: low_byte)
    have split: "2 ^ k * n = 2 ^ k * (n mod 128) + 2 ^ (k + 7) * (n div 128)"
    proof -
      have "2 ^ k * n = 2 ^ k * (n mod 128 + 128 * (n div 128))" by simp
      also have "\<dots> = 2 ^ k * (n mod 128) + 2 ^ k * (128 * (n div 128))" by (rule distrib_left)
      also have "2 ^ k * (128 * (n div 128)) = 2 ^ (k + 7) * (n div 128)" by (simp add: power_add)
      finally show ?thesis .
    qed
    let ?r = "of_nat (unat r + 2 ^ k * (n mod 128)) :: u64"
    have fits: "unat ?b * 2 ^ k < 2 ^ 64" using 1(4) split mod(1) by (simp add: mult.commute)
    note bound = uleb_step_bound [OF 1(3,5) fits]
    have r: "unat ?r = unat r + 2 ^ k * (n mod 128)"
      using bound(2) mod(1) by (simp only: unsigned_of_nat) (simp add: take_bit_nat_eq_self)
    have "1 \<le> n div 128" using False by (simp add: not_less div_greater_zero_iff [symmetric])
    then have "2 ^ (k + 7) \<le> 2 ^ (k + 7) * (n div 128)" by simp
    then have "(2 :: nat) ^ (k + 7) < 2 ^ 64" using 1(4) split by linarith
    then have "k + 7 < 64" by (simp only: power_strict_increasing_iff)
    moreover have "drop (p + 1) ops = uleb_encode (n div 128) @ post"
      using 1(2) False by (simp add: uleb_encode.simps [of n] drop_Suc tl_drop [symmetric])
    moreover have "unat ?r < 2 ^ (k + 7)" using bound(1) mod(1) by (simp only: r)
    moreover have "unat ?r + 2 ^ (k + 7) * (n div 128) < 2 ^ 64" using 1(4) split by (simp only: r)
    ultimately have "uleb_loop ops (p + 1) (k + 7) ?r =
        (of_nat (unat ?r + 2 ^ (k + 7) * (n div 128)), p + 1 + length (uleb_encode (n div 128)), None)"
      using False by (intro 1(1)) simp_all
    moreover have "unat ?r + 2 ^ (k + 7) * (n div 128) = unat r + 2 ^ k * n" using split by (simp only: r)
    ultimately have rest: "uleb_loop ops (p + 1) (k + 7) ?r =
        (of_nat (unat r + 2 ^ k * n), p + length (uleb_encode n), None)"
      using False by (simp only: uleb_encode.simps [of n]) simp
    show ?thesis unfolding step mod(1) using mod(2) fits 1(5) rest by (simp only: mod(1)) simp
  qed
qed

text \<open>
  C38.  Every number below \<open>2 ^ 64\<close> is read back from its encoding, wherever that stands in the opcodes.
\<close>

theorem uleb_round_trip:
  assumes "n < 2 ^ 64"
  shows "read_uleb128 (pre @ uleb_encode n @ post) (length pre) =
           (of_nat n, length pre + length (uleb_encode n), None)"
  using uleb_loop_encoded [of "length pre" "pre @ uleb_encode n @ post" n post 0 0] assms
  by (simp add: read_uleb128_def)

theorem uleb_round_trip_witness: "read_uleb128 ([1] @ uleb_encode 300 @ [2]) 1 = (300, 3, None)"
proof -
  have "length (uleb_encode 300) = 2" by code_simp
  then show ?thesis using uleb_round_trip [of 300 "[1]" "[2]"] by simp
qed

section \<open>The signed reader\<close>

definition sleb_value :: "bytes \<Rightarrow> int" where
  "sleb_value bs =
     int (uleb_value bs) - (if last bs AND 0x40 \<noteq> 0 then 2 ^ (7 * length bs) else 0)"

lemma sint_of_small:
  assumes "- (2 ^ 63) \<le> i" and "i < 2 ^ 63"
  shows "sint (of_int i :: u64) = i"
  using assms by (simp add: signed_of_int signed_take_bit_int_eq_self)

lemma or_minus_one:
  fixes r :: u64
  assumes "unat r < 2 ^ k"
  shows "r OR push_bit k (- 1) = of_int (int (unat r) - 2 ^ k)"
proof -
  have "r OR push_bit k (- 1) = r + push_bit k (- 1)"
  proof (rule disjunctive_add [symmetric])
    fix i
    have "take_bit k (unat r) = unat r" using assms by (simp add: take_bit_nat_eq_self)
    then have "\<not> bit (unat r) i" if "k \<le> i" using that by (metis bit_take_bit_iff not_less)
    then have "\<not> bit r i" if "k \<le> i" using that by (simp add: bit_unsigned_iff)
    then show "\<not> bit r i \<or> \<not> bit (push_bit k (- 1 :: u64)) i" by (auto simp: bit_simps not_less)
  qed
  also have "\<dots> = of_int (int (unat r) - 2 ^ k)" by (simp add: push_bit_eq_mult)
  finally show ?thesis .
qed

lemma sleb_loop_step:
  assumes "p < length ops" and "k < 64"
  shows "sleb_loop ops p k r =
     (let result = r OR push_bit k (ucast (ops ! p AND 0x7f))
      in if ops ! p AND 0x80 \<noteq> 0 then sleb_loop ops (p + 1) (k + 7) result
         else if ops ! p AND 0x40 \<noteq> 0 then
           (if k + 7 \<ge> 64 then Fault else Ok (result OR push_bit (k + 7) (- 1), p + 1, None))
         else Ok (result, p + 1, None))"
  using assms by (subst sleb_loop.simps) (simp add: Let_def)

lemma sleb_loop_inside:
  "sleb_loop ops p k r = Ok (v, q, None) \<Longrightarrow> p < length ops \<and> k < 64"
  by (subst (asm) sleb_loop.simps) (auto split: if_splits)

lemma sleb_loop_progress:
  "sleb_loop ops p k r = Ok (v, q, None) \<Longrightarrow> p < q \<and> q \<le> length ops"
proof (induction ops p k r rule: sleb_loop.induct)
  case (1 ops p k r)
  have inside: "p < length ops" "k < 64" using sleb_loop_inside [OF 1(2)] by simp_all
  note run = 1(2) [unfolded sleb_loop_step [OF inside] Let_def]
  show ?case
  proof (cases "ops ! p AND 0x80 = 0")
    case True
    then show ?thesis using run inside by (auto split: if_splits)
  next
    case False
    then have "p + 1 < q \<and> q \<le> length ops" using run inside by (intro 1(1)) auto
    then show ?thesis by simp
  qed
qed

lemma sleb_loop_exact:
  assumes "sleb_loop ops p k r = Ok (v, q, None)" and "unat r < 2 ^ k" and "k + 7 * (q - p) \<le> 63"
  shows "sint v = int (unat r) + 2 ^ k * int (uleb_value (subbytes p (q - p) ops)) -
       (if last (subbytes p (q - p) ops) AND 0x40 \<noteq> 0 then 2 ^ (k + 7 * (q - p)) else 0)"
  using assms
proof (induction ops p k r rule: sleb_loop.induct)
  case (1 ops p k r)
  let ?b = "ops ! p" and ?w = "r OR push_bit k (ucast (ops ! p AND 0x7f))"
  let ?n = "unat r + 2 ^ k * unat (?b AND 0x7f)"
  have inside: "p < length ops" "k < 64" using sleb_loop_inside [OF 1(2)] by simp_all
  have pq: "p < q" "q \<le> length ops" using sleb_loop_progress [OF 1(2)] by simp_all
  have k: "k + 7 \<le> 63" using 1(4) pq(1) by simp
  have "unat (?b AND 0x7f) * 2 ^ k < 128 * 2 ^ k" using slice_less [of ?b] by simp
  also have "\<dots> = 2 ^ (k + 7)" by (simp add: power_add)
  also have "\<dots> \<le> 2 ^ 63" using k by (intro power_increasing) simp_all
  finally have "unat (?b AND 0x7f) * 2 ^ k < 2 ^ 64" by simp
  note slice = 1(3) inside(2) this
  note bound = uleb_step_bound [OF slice]
  have w: "unat ?w = ?n"
    unfolding or_push_slice [OF slice] using bound(2) by (simp only: unsigned_of_nat) (simp add: take_bit_nat_eq_self)
  have cons: "subbytes p (q - p) ops = ?b # subbytes (p + 1) (q - (p + 1)) ops"
    using inside(1) pq by (simp add: subbytes_def take_Cons' Cons_nth_drop_Suc [symmetric])
  note run = 1(2) [unfolded sleb_loop_step [OF inside] Let_def]
  have small: "int ?n < 2 ^ (k + 7)" using bound(1) by (metis of_nat_less_iff of_nat_numeral of_nat_power)
  have top: "(2 :: int) ^ (k + 7) \<le> 2 ^ 63" using k by (intro power_increasing) simp_all
  show ?case
  proof (cases "?b AND 0x80 = 0")
    case True
    then have q: "q = p + 1" using run by (auto split: if_splits)
    have bytes: "subbytes p (Suc 0) ops = [?b]" using cons by (simp add: q)
    show ?thesis
    proof (cases "?b AND 0x40 = 0")
      case True
      then have v: "v = ?w" using run \<open>?b AND 0x80 = 0\<close> by simp
      have "?w = of_int (int ?n)" unfolding or_push_slice [OF slice] by (rule of_int_of_nat_eq [symmetric])
      then have "sint v = int ?n" unfolding v using small top by (simp only: sint_of_small)
      then show ?thesis using True by (simp add: bytes q)
    next
      case False
      then have v: "v = ?w OR push_bit (k + 7) (- 1)" using run \<open>?b AND 0x80 = 0\<close> k by simp
      have "unat ?w < 2 ^ (k + 7)" using bound(1) by (simp only: w)
      then have "v = of_int (int ?n - 2 ^ (k + 7))" unfolding v by (simp only: or_minus_one w)
      moreover have "- (2 ^ 63) \<le> int ?n - 2 ^ (k + 7)" "int ?n - 2 ^ (k + 7) < 2 ^ 63"
        using small top by linarith+
      ultimately have "sint v = int ?n - 2 ^ (k + 7)" by (simp only: sint_of_small)
      then show ?thesis using False by (simp add: bytes q)
    qed
  next
    case False
    then have rest: "sleb_loop ops (p + 1) (k + 7) ?w = Ok (v, q, None)" using run by simp
    have pq': "p + 1 < q" using sleb_loop_progress [OF rest] by simp
    have IH: "sint v = int (unat ?w) + 2 ^ (k + 7) * int (uleb_value (subbytes (p + 1) (q - (p + 1)) ops)) -
        (if last (subbytes (p + 1) (q - (p + 1)) ops) AND 0x40 \<noteq> 0 then 2 ^ (k + 7 + 7 * (q - (p + 1))) else 0)"
    proof (rule 1(1) [OF _ _ refl refl refl refl])
      show "\<not> length ops \<le> p" "\<not> 64 \<le> k" using inside by simp_all
      show "unat ?w < 2 ^ (k + 7)" using bound(1) by (simp only: w)
    qed (use False rest 1(4) pq' in simp_all)
    have "subbytes (p + 1) (q - (p + 1)) ops \<noteq> []"
      using pq pq' by (auto simp: subbytes_def)
    then have last: "last (subbytes p (q - p) ops) = last (subbytes (p + 1) (q - (p + 1)) ops)"
      unfolding cons by simp
    have e: "k + 7 + 7 * (q - (p + 1)) = k + 7 * (q - p)" using pq by simp
    have "int (uleb_value (subbytes p (q - p) ops)) =
        int (unat (?b AND 0x7f)) + 128 * int (uleb_value (subbytes (p + 1) (q - (p + 1)) ops))"
      unfolding cons by simp
    then show ?thesis unfolding IH w e last by (simp add: power_add distrib_left)
  qed
qed

text \<open>
  \<open>read_sleb128\<close> is exact for numbers of up to nine bytes: the value is the signed number that the
  bytes stand for.  With ten bytes it shifts by more than 63 bits for a negative number, which C leaves
  undefined: the smallest 64-bit number cannot be read.
\<close>

theorem read_sleb128_exact:
  "(\<forall>v q. read_sleb128 ops p = Ok (v, q, None) \<and> q \<le> p + 9 \<longrightarrow>
      sint v = sleb_value (subbytes p (q - p) ops)) \<and>
   read_sleb128 [0x80, 0x80, 0x80, 0x80, 0x80, 0x80, 0x80, 0x80, 0x80, 0x7f] 0 = Fault"
proof (intro conjI allI impI)
  fix v q
  assume run: "read_sleb128 ops p = Ok (v, q, None) \<and> q \<le> p + 9"
  then have loop: "sleb_loop ops p 0 0 = Ok (v, q, None)" by (simp add: read_sleb128_def)
  have "length (subbytes p (q - p) ops) = q - p" using sleb_loop_progress [OF loop] by simp
  then show "sint v = sleb_value (subbytes p (q - p) ops)"
    using sleb_loop_exact [OF loop] run by (simp add: sleb_value_def le_diff_conv add.commute)
next
  show "read_sleb128 [0x80, 0x80, 0x80, 0x80, 0x80, 0x80, 0x80, 0x80, 0x80, 0x7f] 0 = Fault"
    by code_simp
qed

theorem read_sleb128_exact_witness: "sint (case read_sleb128 [0x78] 0 of Ok (v, _) \<Rightarrow> v | _ \<Rightarrow> 0) = - 8"
proof -
  have "read_sleb128 [0x78] 0 = Ok (- 8, 1, None)" by code_simp
  moreover have "sleb_value (subbytes 0 1 [0x78]) = - 8" by code_simp
  ultimately show ?thesis
    using read_sleb128_exact [of "[0x78]" 0] by auto
qed

end
