(* ===== verification/Bind_Info.thy ===== *)
theory Bind_Info
  imports Leb128 Macho_Headers
begin

text \<open>
  The interpreter for the bind opcodes of \<open>LC_DYLD_INFO\<close>, \<open>get_dyld_bind_info\<close> of
  \<open>otool/dyld_bind_info.c\<close>, and the routines it calls.  The opcodes, the object file and the
  names are byte strings.  The segments come as one array, of 32-bit or of 64-bit commands, each with
  the sections behind it.  What is printed is left out, but not that errors are counted.  A fault is an
  access outside the object file, the table of ordinals or the array of entries.
\<close>

unbundle bit_operations_syntax

abbreviation BIND_OPCODE_MASK :: u8 where "BIND_OPCODE_MASK \<equiv> 0xf0"
abbreviation BIND_IMMEDIATE_MASK :: u8 where "BIND_IMMEDIATE_MASK \<equiv> 0x0f"
abbreviation BIND_SYMBOL_FLAGS_WEAK_IMPORT :: u8 where "BIND_SYMBOL_FLAGS_WEAK_IMPORT \<equiv> 1"
abbreviation MAXERRORCOUNT :: nat where "MAXERRORCOUNT \<equiv> 20"

section \<open>Libraries and segments\<close>

definition bindTypeName :: "u8 \<Rightarrow> string" where
  "bindTypeName bind_type =
     (if bind_type = 1 then ''pointer''
      else if bind_type = 2 then ''text abs32''
      else if bind_type = 3 then ''text rel32''
      else ''!!Unknown!!'')"

text \<open>The name of a library, if the ordinal is valid.\<close>

definition validateOrdinal :: "int \<Rightarrow> string list \<Rightarrow> string option" where
  "validateOrdinal dylibOrdinal dylibs =
     (if dylibOrdinal < - 3 then None
      else if dylibOrdinal > 0 \<and> dylibOrdinal > int (length dylibs) then None
      else if dylibOrdinal = 0 then Some ''this-image''
      else if dylibOrdinal = - 1 then Some ''main-executable''
      else if dylibOrdinal = - 2 then Some ''flat-namespace''
      else if dylibOrdinal = - 3 then Some ''weak''
      else Some (dylibs ! (nat dylibOrdinal - 1)))"

datatype seg_table =
    Segs "(segment_command \<times> section_32 list) list"
  | Segs64 "(segment_command_64 \<times> section_64 list) list"

fun nsegments :: "seg_table \<Rightarrow> nat" where
  "nsegments (Segs segs) = length segs"
| "nsegments (Segs64 segs) = length segs"

definition validateSegIndex :: "u8 \<Rightarrow> seg_table \<Rightarrow> bool" where
  "validateSegIndex segIndex segs \<longleftrightarrow> unat segIndex < nsegments segs"

text \<open>A name in a field of 16 bytes.\<close>

definition name16 :: "bytes \<Rightarrow> bytes" where
  "name16 b = takeWhile (\<lambda>c. c \<noteq> 0) (take 16 b)"

definition unknown_name :: bytes where
  "unknown_name = [0x3f, 0x3f]"

fun segStartAddress :: "nat \<Rightarrow> seg_table \<Rightarrow> u64" where
  "segStartAddress i (Segs segs) = (if i \<ge> length segs then 0 else ucast (sg_vmaddr (fst (segs ! i))))"
| "segStartAddress i (Segs64 segs) = (if i \<ge> length segs then 0 else sg64_vmaddr (fst (segs ! i)))"

fun segmentName :: "nat \<Rightarrow> seg_table \<Rightarrow> bytes" where
  "segmentName i (Segs segs) = (if i \<ge> length segs then unknown_name else name16 (sg_segname (fst (segs ! i))))"
| "segmentName i (Segs64 segs) = (if i \<ge> length segs then unknown_name else name16 (sg64_segname (fst (segs ! i))))"

text \<open>The ends of 32-bit segments and sections are computed in 32 bits.\<close>

fun sectionName :: "nat \<Rightarrow> u64 \<Rightarrow> seg_table \<Rightarrow> bytes" where
  "sectionName i address (Segs segs) =
     (if i \<ge> length segs then unknown_name
      else case find (\<lambda>s. ucast (s_addr s) \<le> address \<and> address < ucast (s_addr s + s_size s)) (snd (segs ! i)) of
             Some s \<Rightarrow> name16 (s_sectname s)
           | None \<Rightarrow> unknown_name)"
| "sectionName i address (Segs64 segs) =
     (if i \<ge> length segs then unknown_name
      else case find (\<lambda>s. s64_addr s \<le> address \<and> address < s64_addr s + s64_size s) (snd (segs ! i)) of
             Some s \<Rightarrow> name16 (s64_sectname s)
           | None \<Rightarrow> unknown_name)"

fun segment_start :: "seg_table \<Rightarrow> nat \<Rightarrow> u64" where
  "segment_start (Segs segs) i = ucast (sg_vmaddr (fst (segs ! i)))"
| "segment_start (Segs64 segs) i = sg64_vmaddr (fst (segs ! i))"

fun segment_end :: "seg_table \<Rightarrow> nat \<Rightarrow> u64" where
  "segment_end (Segs segs) i = ucast (sg_vmaddr (fst (segs ! i)) + sg_vmsize (fst (segs ! i)))"
| "segment_end (Segs64 segs) i = sg64_vmaddr (fst (segs ! i)) + sg64_vmsize (fst (segs ! i))"

text \<open>\<open>segIndex\<close> is \<open>None\<close> for \<open>-1\<close>; the result says whether there is no error.\<close>

definition checkSegAndOffset :: "nat option \<Rightarrow> u64 \<Rightarrow> seg_table \<Rightarrow> bool \<Rightarrow> bool" where
  "checkSegAndOffset segIndex segOffset segs endInvalid \<longleftrightarrow>
     (case segIndex of
        None \<Rightarrow> False
      | Some i \<Rightarrow>
          i < nsegments segs \<and> \<not> segment_start segs i + segOffset > segment_end segs i \<and>
          \<not> (endInvalid \<and> segment_start segs i + segOffset = segment_end segs i))"

fun sizeof_pointer :: "seg_table \<Rightarrow> u64" where
  "sizeof_pointer (Segs _) = 4"
| "sizeof_pointer (Segs64 _) = 8"

text \<open>The count that is left and whether there is no error; \<open>-1\<close> is a large unsigned number here.\<close>

definition checkCountAndSkip :: "u32 \<Rightarrow> u32 \<Rightarrow> nat option \<Rightarrow> u64 \<Rightarrow> seg_table \<Rightarrow> u32 \<times> bool" where
  "checkCountAndSkip count skip segIndex segOffset segs =
     (case segIndex of
        None \<Rightarrow> (1, False)
      | Some j \<Rightarrow>
          if j \<ge> nsegments segs then (1, False)
          else
            (let i = (if count > 1 then (ucast skip + sizeof_pointer segs) * ucast (count - 1) else 0);
                 address = segment_start segs j + segOffset
             in if address \<ge> segment_end segs j then (1, False)
                else if address + i \<ge> segment_end segs j then (1, False)
                else (count, True)))"

section \<open>The state\<close>

text \<open>An entry of the ordinal table and an entry of the result.\<close>

record threaded_data =
  td_symbolName :: "bytes option"
  td_addend :: u64
  td_libraryOrdinal :: int
  td_flags :: u8
  td_type :: u8

record dyld_bind_info =
  bi_segname :: bytes
  bi_sectname :: bytes
  bi_address :: u64
  bi_bind_type :: u8
  bi_lib_ordinal :: int
  bi_addend :: u64
  bi_dylibname :: "string option"
  bi_symbolname :: "bytes option"
  bi_weak_import :: bool
  bi_pointer_value :: u64
  bi_pointer_ondisk :: u64
  bi_pointer_format :: u32
  bi_has_auth :: bool
  bi_auth_diversity :: u16
  bi_auth_addr_div :: bool
  bi_auth_key :: u8

text \<open>What is set up anew for each pass.\<close>

record bind_state =
  bs_p :: nat
  bs_type :: u8
  bs_segIndex :: "nat option"
  bs_segOffset :: u64
  bs_symbolName :: "bytes option"
  bs_fromDylib :: "string option"
  bs_libraryOrdinalSet :: bool
  bs_libraryOrdinal :: int
  bs_addend :: u64
  bs_segStartAddr :: u64
  bs_segName :: "bytes option"
  bs_sectName :: "bytes option"
  bs_weak_import :: bool
  bs_done :: bool
  bs_ordinalTableIndex :: u64
  bs_flags :: u8
  bs_errorCount :: nat
  bs_chained :: bool
  bs_ordinalTableCount :: u64
  bs_slots :: nat
  bs_ordinalTable :: "nat \<Rightarrow> threaded_data"

text \<open>What does not change: the inputs, and what memory holds that was not written.\<close>

record bind_env =
  be_ops :: bytes
  be_dylibs :: "string list"
  be_segs :: seg_table
  be_host :: endian
  be_swapped :: bool
  be_object :: bytes
  be_junk :: "nat \<Rightarrow> threaded_data"

definition count_error :: "bind_state \<Rightarrow> bind_state" where
  "count_error s = s\<lparr>bs_errorCount := bs_errorCount s + 1\<rparr>"

definition lose_segment :: "bind_state \<Rightarrow> bind_state" where
  "lose_segment s = s\<lparr>bs_segIndex := None, bs_segName := None, bs_segStartAddr := 0, bs_segOffset := 0\<rparr>"

definition lose_section :: "bind_state \<Rightarrow> bind_state" where
  "lose_section s = (lose_segment s)\<lparr>bs_sectName := None\<rparr>"

type_synonym bind_step = "(bind_state \<times> dyld_bind_info list) guarded"

section \<open>Opcodes that set the state\<close>

text \<open>A 32-bit \<open>int\<close> is made of a 64-bit number.\<close>

definition to_int :: "u64 \<Rightarrow> int" where
  "to_int w = sint (ucast w :: u32)"

definition set_ordinal :: "bind_env \<Rightarrow> int \<Rightarrow> bind_state \<Rightarrow> bind_state" where
  "set_ordinal env ordinal s =
     (let name = validateOrdinal ordinal (be_dylibs env);
          s = s\<lparr>bs_libraryOrdinal := ordinal, bs_libraryOrdinalSet := name \<noteq> None, bs_fromDylib := name\<rparr>
      in if name = None then count_error s else s)"

definition set_ordinal_uleb :: "bind_env \<Rightarrow> bind_state \<Rightarrow> bind_state" where
  "set_ordinal_uleb env s =
     (case read_uleb128 (be_ops env) (bs_p s) of
        (v, p, None) \<Rightarrow> set_ordinal env (to_int v) (s\<lparr>bs_p := p\<rparr>)
      | (v, p, Some _) \<Rightarrow>
          count_error (s\<lparr>bs_p := p, bs_libraryOrdinal := to_int v, bs_libraryOrdinalSet := False\<rparr>))"

definition special_ordinal :: "u8 \<Rightarrow> int" where
  "special_ordinal immediate = (if immediate = 0 then 0 else sint (BIND_OPCODE_MASK OR immediate))"

text \<open>
  The name ends at the first null; the test of the byte comes before the test of the end, so the byte
  behind the opcodes is read when there is none.
\<close>

definition set_symbol :: "bind_env \<Rightarrow> u8 \<Rightarrow> bind_state \<Rightarrow> bind_state" where
  "set_symbol env immediate s =
     (let name = takeWhile (\<lambda>c. c \<noteq> 0) (drop (bs_p s) (be_ops env));
          p = bs_p s + length name;
          s = s\<lparr>bs_symbolName := Some name, bs_flags := immediate,
                bs_weak_import := (immediate AND BIND_SYMBOL_FLAGS_WEAK_IMPORT \<noteq> 0)\<rparr>
      in if p = length (be_ops env) then count_error (s\<lparr>bs_p := p\<rparr>) else s\<lparr>bs_p := p + 1\<rparr>)"

definition set_type :: "u8 \<Rightarrow> bind_state \<Rightarrow> bind_state" where
  "set_type immediate s =
     (if immediate = 0 \<or> immediate > 3 then count_error (s\<lparr>bs_type := 0\<rparr>) else s\<lparr>bs_type := immediate\<rparr>)"

definition set_addend :: "bind_env \<Rightarrow> bind_state \<Rightarrow> bind_state guarded" where
  "set_addend env s =
     bind (read_sleb128 (be_ops env) (bs_p s)) (\<lambda>(v, p, err).
       Ok (if err = None then s\<lparr>bs_p := p, bs_addend := v\<rparr>
           else count_error (s\<lparr>bs_p := p, bs_addend := 0\<rparr>)))"

definition set_segment :: "bind_env \<Rightarrow> u8 \<Rightarrow> bind_state \<Rightarrow> bind_state" where
  "set_segment env immediate s =
     (let segs = be_segs env; i = unat immediate
      in if validateSegIndex immediate segs then
           (case read_uleb128 (be_ops env) (bs_p s) of
              (v, p, None) \<Rightarrow>
                (if checkSegAndOffset (Some i) v segs True then
                   s\<lparr>bs_p := p, bs_segOffset := v, bs_segIndex := Some i,
                     bs_segStartAddr := segStartAddress i segs, bs_segName := Some (segmentName i segs)\<rparr>
                 else lose_segment (count_error (s\<lparr>bs_p := p\<rparr>)))
            | (v, p, Some _) \<Rightarrow> lose_segment (count_error (s\<lparr>bs_p := p\<rparr>)))
         else lose_segment (count_error s))"

definition add_addr :: "bind_env \<Rightarrow> bind_state \<Rightarrow> bind_state" where
  "add_addr env s =
     (if bs_segIndex s = None then lose_segment (count_error s)
      else
        (case read_uleb128 (be_ops env) (bs_p s) of
           (v, p, None) \<Rightarrow>
             (if checkSegAndOffset (bs_segIndex s) (bs_segOffset s + v) (be_segs env) True then
                s\<lparr>bs_p := p, bs_segOffset := bs_segOffset s + v\<rparr>
              else lose_segment (count_error (s\<lparr>bs_p := p\<rparr>)))
         | (v, p, Some _) \<Rightarrow> lose_segment (count_error (s\<lparr>bs_p := p\<rparr>))))"

section \<open>Opcodes that bind\<close>

text \<open>The check of the position that every bind makes, and those of the symbol and the library.\<close>

definition locate :: "bind_env \<Rightarrow> bool \<Rightarrow> bind_state \<Rightarrow> bind_state" where
  "locate env endInvalid s =
     (if checkSegAndOffset (bs_segIndex s) (bs_segOffset s) (be_segs env) endInvalid then
        s\<lparr>bs_sectName := Some (sectionName (the (bs_segIndex s)) (bs_segStartAddr s + bs_segOffset s) (be_segs env))\<rparr>
      else lose_section (count_error s))"

definition check_names :: "bind_state \<Rightarrow> bind_state" where
  "check_names s =
     (let s = (if bs_symbolName s = None then count_error s else s)
      in if \<not> bs_libraryOrdinalSet s then count_error s else s)"

definition bind_entry :: "bind_state \<Rightarrow> dyld_bind_info" where
  "bind_entry s =
     \<lparr>bi_segname = (case bs_segName s of Some n \<Rightarrow> n | None \<Rightarrow> unknown_name),
      bi_sectname = (case bs_sectName s of Some n \<Rightarrow> n | None \<Rightarrow> unknown_name),
      bi_address = bs_segStartAddr s + bs_segOffset s, bi_bind_type = bs_type s,
      bi_lib_ordinal = (if bs_libraryOrdinalSet s then bs_libraryOrdinal s else 0),
      bi_addend = bs_addend s, bi_dylibname = bs_fromDylib s, bi_symbolname = bs_symbolName s,
      bi_weak_import = bs_weak_import s, bi_pointer_value = 0, bi_pointer_ondisk = 0,
      bi_pointer_format = 0, bi_has_auth = False,
      bi_auth_diversity = 0, bi_auth_addr_div = False, bi_auth_key = 0\<rparr>"

definition sizeof_ThreadedBindData :: u64 where
  "sizeof_ThreadedBindData = 24"

definition enter_table :: "bind_state \<Rightarrow> bind_state guarded" where
  "enter_table s =
     (if bs_ordinalTableIndex s \<ge> bs_ordinalTableCount s then Ok (count_error s)
      else
        (let i = unat (bs_ordinalTableIndex s)
         in if i \<ge> bs_slots s then Fault
            else Ok (s\<lparr>bs_ordinalTableIndex := bs_ordinalTableIndex s + 1,
                       bs_ordinalTable := (bs_ordinalTable s)(i :=
                         \<lparr>td_symbolName = bs_symbolName s, td_addend = bs_addend s,
                          td_libraryOrdinal = (if bs_libraryOrdinalSet s then bs_libraryOrdinal s else 0),
                          td_flags = bs_flags s, td_type = bs_type s\<rparr>)\<rparr>)))"

definition do_bind :: "bind_env \<Rightarrow> bind_state \<Rightarrow> bind_step" where
  "do_bind env s =
     (let s = check_names (if bs_chained s then s else locate env True s)
      in if bs_chained s then bind (enter_table s) (\<lambda>s. Ok (s, []))
         else Ok (s\<lparr>bs_segOffset := bs_segOffset s + sizeof_pointer (be_segs env)\<rparr>, [bind_entry s]))"

text \<open>The check behind a bind that moves on.\<close>

definition moved :: "bind_env \<Rightarrow> bind_state \<Rightarrow> bind_state" where
  "moved env s =
     (if checkSegAndOffset (bs_segIndex s) (bs_segOffset s) (be_segs env) False then s
      else lose_section (count_error s))"

definition do_bind_add_addr :: "bind_env \<Rightarrow> bind_state \<Rightarrow> bind_step" where
  "do_bind_add_addr env s =
     (let s = check_names (locate env True s); entry = bind_entry s
      in case read_uleb128 (be_ops env) (bs_p s) of (v, p, err) \<Rightarrow>
           let s = s\<lparr>bs_p := p, bs_segOffset := bs_segOffset s + (v + sizeof_pointer (be_segs env))\<rparr>;
               s = (if err = None then s else lose_section (count_error s))
           in Ok (moved env s, [entry]))"

definition do_bind_add_imm :: "bind_env \<Rightarrow> u8 \<Rightarrow> bind_state \<Rightarrow> bind_step" where
  "do_bind_add_imm env immediate s =
     (let s = check_names (locate env True s); w = sizeof_pointer (be_segs env)
      in Ok (moved env (s\<lparr>bs_segOffset := bs_segOffset s + (ucast immediate * w + w)\<rparr>), [bind_entry s]))"

fun bind_times :: "nat \<Rightarrow> u64 \<Rightarrow> bind_state \<Rightarrow> bind_state \<times> dyld_bind_info list" where
  "bind_times 0 step s = (s, [])"
| "bind_times (Suc n) step s =
     (let s' = (if bs_segIndex s = None then s else s\<lparr>bs_segOffset := bs_segOffset s + step\<rparr>);
          (s'', es) = bind_times n step s'
      in (s'', bind_entry s # es))"

text \<open>A count or a skip that cannot be read is 0 and an error.\<close>

definition read_count :: "bind_env \<Rightarrow> bind_state \<Rightarrow> bind_state \<times> u32" where
  "read_count env s =
     (case read_uleb128 (be_ops env) (bs_p s) of
        (v, p, None) \<Rightarrow> (s\<lparr>bs_p := p\<rparr>, ucast v)
      | (v, p, Some _) \<Rightarrow> (count_error (s\<lparr>bs_p := p\<rparr>), 0))"

text \<open>What the loop adds to the offset, \<open>skip + sizeof_pointer\<close>, is computed in 32 bits.\<close>

definition do_bind_times :: "bind_env \<Rightarrow> bind_state \<Rightarrow> bind_step" where
  "do_bind_times env s =
     (let (s, count) = read_count env s; (s, skip) = read_count env s;
          s = check_names (locate env True s);
          (count, ok) = checkCountAndSkip count skip (bs_segIndex s) (bs_segOffset s) (be_segs env);
          s = (if ok then s else lose_section (count_error s))
      in Ok (bind_times (unat count) (ucast (skip + ucast (sizeof_pointer (be_segs env)))) s))"

section \<open>Threaded binds\<close>

text \<open>
  \<open>reallocate\<close> keeps what was there; the size in bytes is a 64-bit product, so a large count gives a
  small table.
\<close>

definition table_slots :: "u64 \<Rightarrow> nat" where
  "table_slots count = unat (sizeof_ThreadedBindData * count) div unat sizeof_ThreadedBindData"

definition resize_table :: "bind_env \<Rightarrow> bind_state \<Rightarrow> bind_state" where
  "resize_table env s =
     s\<lparr>bs_chained := True, bs_slots := table_slots (bs_ordinalTableCount s),
       bs_ordinalTable := (\<lambda>i. if i < bs_slots s then bs_ordinalTable s i else be_junk env i)\<rparr>"

definition set_table :: "bind_env \<Rightarrow> bind_state \<Rightarrow> bind_state" where
  "set_table env s =
     (case read_uleb128 (be_ops env) (bs_p s) of
        (count, p, None) \<Rightarrow>
          resize_table env (s\<lparr>bs_p := p, bs_ordinalTableCount := count, bs_ordinalTableIndex := 0\<rparr>)
      | (_, p, Some _) \<Rightarrow>
          resize_table env
            ((count_error s)\<lparr>bs_p := p, bs_ordinalTableCount := 0, bs_ordinalTableIndex := - 1\<rparr>))"

text \<open>A pointer of a chain: its fields.\<close>

definition ptr_is_rebase :: "u64 \<Rightarrow> bool" where
  "ptr_is_rebase v \<longleftrightarrow> v AND push_bit 62 1 = 0"

definition ptr_ordinal :: "u64 \<Rightarrow> nat" where
  "ptr_ordinal v = unat (v AND 0xffff)"

definition ptr_delta :: "u64 \<Rightarrow> u64" where
  "ptr_delta v = drop_bit 51 ((v AND NOT (push_bit 62 1)) AND 0x3ff8000000000000)"

definition threaded_entry :: "threaded_data \<Rightarrow> u64 \<Rightarrow> string \<Rightarrow> bind_state \<Rightarrow> dyld_bind_info" where
  "threaded_entry d v dylib s =
     (let auth = (v AND push_bit 63 1 \<noteq> 0)
      in (bind_entry s)\<lparr>bi_bind_type := td_type d, bi_lib_ordinal := td_libraryOrdinal d,
           bi_addend := td_addend d, bi_dylibname := Some dylib, bi_symbolname := td_symbolName d,
           bi_weak_import := (td_flags d AND BIND_SYMBOL_FLAGS_WEAK_IMPORT \<noteq> 0), bi_pointer_value := v,
           bi_pointer_ondisk := v, bi_pointer_format := 1, bi_has_auth := auth,
           bi_auth_diversity := (if auth then ucast (drop_bit 32 v AND 0xffff) else 0),
           bi_auth_addr_div := (auth \<and> drop_bit 48 v AND 1 \<noteq> 0),
           bi_auth_key := (if auth then ucast (drop_bit 49 v AND 2) else 0)\<rparr>)"

text \<open>
  One pointer of a chain: the state, the entry if it is a bind, and whether the chain may go on.  The
  library ordinal and the flags of a bind go to the state.
\<close>

definition chain_pointer :: "bind_env \<Rightarrow> u64 \<Rightarrow> bind_state \<Rightarrow>
    (bind_state \<times> dyld_bind_info list \<times> bool) guarded" where
  "chain_pointer env v s =
     (if ptr_is_rebase v then Ok (s, [], True)
      else if ptr_ordinal v \<ge> unat (bs_ordinalTableCount s) then Ok (count_error s, [], False)
      else if ptr_ordinal v \<ge> bs_slots s then Fault
      else
        (let d = bs_ordinalTable s (ptr_ordinal v);
             name = validateOrdinal (td_libraryOrdinal d) (be_dylibs env);
             s = s\<lparr>bs_libraryOrdinal := td_libraryOrdinal d, bs_fromDylib := name\<rparr>
         in case name of
              None \<Rightarrow> Ok (count_error s, [], False)
            | Some dylib \<Rightarrow>
                Ok (s\<lparr>bs_flags := td_flags d,
                      bs_weak_import := (td_flags d AND BIND_SYMBOL_FLAGS_WEAK_IMPORT \<noteq> 0)\<rparr>,
                    [threaded_entry d v dylib s], True)))"

definition page_of :: "u64 \<Rightarrow> u64" where
  "page_of address = address AND NOT 0x3fff"

definition read_pointer :: "bind_env \<Rightarrow> u64 \<Rightarrow> u64 guarded" where
  "read_pointer env offset =
     (if unat offset + 8 \<le> length (be_object env) then
        Ok (let v = get64 (be_host env) (be_object env) (unat offset)
            in if be_swapped env then SWAP_LONG_LONG v else v)
      else Fault)"

text \<open>The pointer after the one at \<open>segOffset\<close>: its offset in the segment, if the chain goes on.\<close>

definition chain_next :: "bind_env \<Rightarrow> segment_command_64 \<Rightarrow> u64 \<Rightarrow> u64 \<Rightarrow> bind_state \<Rightarrow> bind_state \<times> bool" where
  "chain_next env seg page v s =
     (let delta = ptr_delta v
      in if delta = 0 then (s, False)
         else
           (let s = s\<lparr>bs_segOffset := bs_segOffset s + delta * 8\<rparr>;
                offset = sg64_fileoff seg + bs_segOffset s;
                address = sg64_vmaddr seg + bs_segOffset s
            in if offset + 8 > of_nat (length (be_object env)) then (count_error s, False)
               else if page \<noteq> page_of address then (count_error s, False)
               else (s, True)))"

text \<open>The chain stays on its page, so it moves up and ends.\<close>

lemma page_split: "a = page_of a + (a AND 0x3fff)"
proof -
  have "page_of a + (a AND 0x3fff) = (a AND NOT 0x3fff) OR (a AND 0x3fff)"
    unfolding page_of_def by (rule disjunctive_add) (simp add: bit_simps)
  also have "\<dots> = a" by (rule bit_word_eqI) (auto simp: bit_simps)
  finally show ?thesis ..
qed

lemma delta_bound: "unat (ptr_delta v * 8) < 2 ^ 14" "unat (ptr_delta v * 8) = unat (ptr_delta v) * 8"
proof -
  have "(v AND NOT (push_bit 62 1)) AND 0x3ff8000000000000 \<le> 0x3ff8000000000000" by (rule word_and_le1)
  then have "unat ((v AND NOT (push_bit 62 1)) AND 0x3ff8000000000000) \<le> unat (0x3ff8000000000000 :: u64)"
    by (simp only: word_le_nat_alt)
  then have "unat (ptr_delta v) \<le> unat (0x3ff8000000000000 :: u64) div 2 ^ 51"
    unfolding ptr_delta_def by (simp only: unat_drop_bit_eq drop_bit_nat_def div_le_mono)
  then have small: "unat (ptr_delta v) \<le> 2047" by simp
  then show "unat (ptr_delta v * 8) = unat (ptr_delta v) * 8" by (simp add: unat_word_ariths)
  then show "unat (ptr_delta v * 8) < 2 ^ 14" using small by simp
qed

lemma page_moves_up:
  assumes "page_of (a + d) = page_of a" and "unat d < 2 ^ 14" and "d \<noteq> 0"
  shows "unat (a AND 0x3fff) < unat ((a + d) AND 0x3fff)"
proof -
  have low: "unat (x AND 0x3fff) < 2 ^ 14" for x :: u64
  proof -
    have "x AND 0x3fff \<le> 0x3fff" by (rule word_and_le1)
    then show ?thesis by (simp add: word_le_nat_alt)
  qed
  have "page_of a + ((a + d) AND 0x3fff) = page_of a + ((a AND 0x3fff) + d)"
    using page_split [of "a + d"] page_split [of a] assms(1) by (metis add.assoc)
  then have "(a + d) AND 0x3fff = (a AND 0x3fff) + d" by simp
  moreover have "unat ((a AND 0x3fff) + d) = unat (a AND 0x3fff) + unat d"
    using low [of a] assms(2) by (intro unat_add_lem [THEN iffD1]) simp
  moreover have "0 < unat d" using assms(3) by (simp add: unat_gt_0)
  ultimately show ?thesis by simp
qed

lemma chain_pointer_offset:
  "chain_pointer env v s = Ok (s', es, go) \<Longrightarrow> bs_segOffset s' = bs_segOffset s"
  by (auto simp: chain_pointer_def count_error_def Let_def split: if_splits option.splits)

lemma chain_next_moves:
  assumes "chain_next env seg page v s = (s', True)"
  shows "bs_segOffset s' = bs_segOffset s + ptr_delta v * 8" "ptr_delta v * 8 \<noteq> 0"
    "page = page_of (sg64_vmaddr seg + bs_segOffset s')"
proof -
  have *: "ptr_delta v \<noteq> 0" "s' = s\<lparr>bs_segOffset := bs_segOffset s + ptr_delta v * 8\<rparr>"
    "page = page_of (sg64_vmaddr seg + (bs_segOffset s + ptr_delta v * 8))"
    using assms by (auto simp: chain_next_def Let_def split: if_splits)
  then have "0 < unat (ptr_delta v)" by (simp add: unat_gt_0)
  then have "unat (ptr_delta v * 8) \<noteq> 0" using delta_bound(2) [of v] by simp
  then show "ptr_delta v * 8 \<noteq> 0" by auto
  show "bs_segOffset s' = bs_segOffset s + ptr_delta v * 8" "page = page_of (sg64_vmaddr seg + bs_segOffset s')"
    using * by simp_all
qed

definition chain_left :: "segment_command_64 \<Rightarrow> u64 \<Rightarrow> bind_state \<Rightarrow> nat" where
  "chain_left seg page s =
     (let a = sg64_vmaddr seg + bs_segOffset s
      in (if page = page_of a then 0 else 2 ^ 14 + 1) + (2 ^ 14 - unat (a AND 0x3fff)))"

lemma chain_left_decreases:
  assumes "chain_pointer env v s = Ok (s1, es, go)" and "chain_next env seg page v s1 = (s', True)"
  shows "chain_left seg page s' < chain_left seg page s"
proof -
  let ?a = "sg64_vmaddr seg + bs_segOffset s" and ?d = "ptr_delta v * 8"
  note moves = chain_next_moves [OF assms(2)]
  have a': "sg64_vmaddr seg + bs_segOffset s' = ?a + ?d"
    using moves(1) chain_pointer_offset [OF assms(1)] by (simp add: add.assoc)
  have low: "unat (?a AND 0x3fff) < 2 ^ 14"
  proof -
    have "?a AND 0x3fff \<le> 0x3fff" by (rule word_and_le1)
    then show ?thesis by (simp add: word_le_nat_alt)
  qed
  have page: "page = page_of (?a + ?d)" using moves(3) unfolding a' .
  show ?thesis
  proof (cases "page = page_of ?a")
    case True
    then have "unat (?a AND 0x3fff) < unat ((?a + ?d) AND 0x3fff)"
      using page moves(2) delta_bound(1) by (intro page_moves_up) simp_all
    then show ?thesis using True page low by (simp add: chain_left_def Let_def a')
  next
    case False
    then show ?thesis using page by (simp add: chain_left_def Let_def a')
  qed
qed

function chain_loop :: "bind_env \<Rightarrow> segment_command_64 \<Rightarrow> u64 \<Rightarrow> bind_state \<Rightarrow> bind_step" where
  "chain_loop env seg page s =
     (case read_pointer env (sg64_fileoff seg + bs_segOffset s) of
        Ok v \<Rightarrow>
          (case chain_pointer env v s of
             Ok r \<Rightarrow>
               (case r of (s, es, go) \<Rightarrow>
                  if go then
                    (case chain_next env seg page v s of (s, again) \<Rightarrow>
                       if again then
                         (case chain_loop env seg page s of
                            Ok (s, es') \<Rightarrow> Ok (s, es @ es')
                          | Error err \<Rightarrow> Error err
                          | Fault \<Rightarrow> Fault)
                       else Ok (s, es))
                  else Ok (s, es))
           | Error err \<Rightarrow> Error err
           | Fault \<Rightarrow> Fault)
      | Error err \<Rightarrow> Error err
      | Fault \<Rightarrow> Fault)"
  by pat_completeness auto
termination
  by (relation "measure (\<lambda>(_, seg, page, s). chain_left seg page s)") (auto intro: chain_left_decreases)

declare chain_loop.simps [simp del]

text \<open>
  The checks before the first pointer.  The test for 8-byte alignment looks at two bits.  A chain in a
  file with 32-bit segments reads a null pointer.
\<close>

definition apply_checks :: "bind_env \<Rightarrow> bind_state \<Rightarrow> bind_state" where
  "apply_checks env s =
     (let s = (if bs_ordinalTableIndex s \<noteq> bs_ordinalTableCount s then count_error s else s);
          s = locate env False s
      in if (bs_segStartAddr s + bs_segOffset s) AND 3 \<noteq> 0 then count_error s else s)"

definition threaded_apply :: "bind_env \<Rightarrow> bind_state \<Rightarrow> bind_step" where
  "threaded_apply env s =
     (let s = apply_checks env s
      in case bs_segIndex s of
           None \<Rightarrow> Ok (s, [])
         | Some i \<Rightarrow>
             (case be_segs env of
                Segs _ \<Rightarrow> Fault
              | Segs64 segs \<Rightarrow>
                  let seg = fst (segs ! i)
                  in chain_loop env seg (page_of (sg64_vmaddr seg + bs_segOffset s)) s))"

section \<open>The interpreter\<close>

definition stop :: "bind_state \<Rightarrow> bind_state" where
  "stop s = (count_error s)\<lparr>bs_done := True\<rparr>"

definition silent :: "bind_state \<Rightarrow> bind_step" where
  "silent s = Ok (s, [])"

text \<open>One opcode; \<open>p\<close> has moved behind it.\<close>

definition bind_opcode :: "bind_env \<Rightarrow> u8 \<Rightarrow> u8 \<Rightarrow> bind_state \<Rightarrow> bind_step" where
  "bind_opcode env opcode immediate s =
     (if opcode = 0x00 then silent (s\<lparr>bs_done := True\<rparr>)
      else if opcode = 0x10 then silent (set_ordinal env (uint immediate) s)
      else if opcode = 0x20 then silent (set_ordinal_uleb env s)
      else if opcode = 0x30 then silent (set_ordinal env (special_ordinal immediate) s)
      else if opcode = 0x40 then silent (set_symbol env immediate s)
      else if opcode = 0x50 then silent (set_type immediate s)
      else if opcode = 0x60 then bind (set_addend env s) silent
      else if opcode = 0x70 then silent (set_segment env immediate s)
      else if opcode = 0x80 then silent (add_addr env s)
      else if opcode = 0x90 then do_bind env s
      else if opcode = 0xa0 then do_bind_add_addr env s
      else if opcode = 0xb0 then do_bind_add_imm env immediate s
      else if opcode = 0xc0 then do_bind_times env s
      else if opcode = 0xd0 then
        (if immediate = 0 then silent (set_table env s)
         else if immediate = 1 then threaded_apply env s
         else silent (stop s))
      else silent (stop s))"

definition bind_step :: "bind_env \<Rightarrow> bind_state \<Rightarrow> bind_step" where
  "bind_step env s =
     (let b = be_ops env ! bs_p s
      in bind_opcode env (b AND BIND_OPCODE_MASK) (b AND BIND_IMMEDIATE_MASK) (s\<lparr>bs_p := bs_p s + 1\<rparr>))"

lemma uleb_loop_ahead: "uleb_loop ops p k r = (v, q, err) \<Longrightarrow> p \<le> q"
proof (induction ops p k r rule: uleb_loop.induct)
  case (1 ops p k r)
  show ?case
    using 1(2) 1(1) [OF _ refl _ refl] by (subst (asm) uleb_loop.simps) (fastforce simp: Let_def split: if_splits)
qed

lemma read_uleb128_ahead: "read_uleb128 ops p = (v, q, err) \<Longrightarrow> p \<le> q"
  unfolding read_uleb128_def by (rule uleb_loop_ahead)

lemma sleb_loop_ahead: "sleb_loop ops p k r = Ok (v, q, err) \<Longrightarrow> p \<le> q"
proof (induction ops p k r rule: sleb_loop.induct)
  case (1 ops p k r)
  show ?case
    using 1(2) 1(1) [OF _ _ refl refl refl refl]
    by (subst (asm) sleb_loop.simps) (fastforce simp: Let_def split: if_splits)
qed

lemma read_sleb128_ahead: "read_sleb128 ops p = Ok (v, q, err) \<Longrightarrow> p \<le> q"
  unfolding read_sleb128_def by (rule sleb_loop_ahead)

text \<open>Helpers that leave the position alone.\<close>

lemma position_kept [simp]:
  "bs_p (count_error s) = bs_p s" "bs_p (lose_segment s) = bs_p s" "bs_p (lose_section s) = bs_p s"
  "bs_p (locate env b s) = bs_p s" "bs_p (check_names s) = bs_p s" "bs_p (moved env s) = bs_p s"
  "bs_p (apply_checks env s) = bs_p s" "bs_p (set_ordinal env i s) = bs_p s" "bs_p (set_type t s) = bs_p s" "bs_p (stop s) = bs_p s"
  by (simp_all add: count_error_def lose_segment_def lose_section_def locate_def check_names_def moved_def
      apply_checks_def set_ordinal_def set_type_def stop_def Let_def)

lemma bind_times_position: "bs_p (fst (bind_times n step s)) = bs_p s"
  by (induction n arbitrary: s) (simp_all add: Let_def split_beta)

lemma chain_loop_position: "chain_loop env seg page s = Ok (s', es) \<Longrightarrow> bs_p s' = bs_p s"
proof (induction env seg page s arbitrary: s' es rule: chain_loop.induct)
  case (1 env seg page s)
  have pointer: "bs_p s1 = bs_p s" if "chain_pointer env v s = Ok (s1, es, go)" for v s1 es go
    using that by (auto simp: chain_pointer_def Let_def split: if_splits option.splits)
  have nxt: "bs_p s2 = bs_p s1" if "chain_next env seg page v s1 = (s2, again)" for v s1 s2 again
    using that by (auto simp: chain_next_def Let_def split: if_splits)
  show ?case
    using 1(2) 1(1) [OF _ _ refl _ refl]
    by (subst (asm) chain_loop.simps) (fastforce dest: pointer nxt split: result.splits prod.splits if_splits)
qed

definition advances :: "bind_state \<Rightarrow> bind_step \<Rightarrow> bool" where
  "advances s r \<longleftrightarrow> (\<forall>s' es. r = Ok (s', es) \<longrightarrow> bs_p s \<le> bs_p s')"

lemma advances_if: "advances s r \<Longrightarrow> advances s r' \<Longrightarrow> advances s (if b then r else r')"
  by simp

lemma advances_silent: "bs_p s \<le> bs_p s' \<Longrightarrow> advances s (silent s')"
  by (simp add: advances_def silent_def)

lemma setters_advance:
  "bs_p s \<le> bs_p (set_ordinal_uleb env s)" "bs_p s \<le> bs_p (set_symbol env i s)"
  "bs_p s \<le> bs_p (set_segment env i s)" "bs_p s \<le> bs_p (add_addr env s)" "bs_p s \<le> bs_p (set_table env s)"
  using read_uleb128_ahead [of "be_ops env" "bs_p s"]
  by (auto simp: set_ordinal_uleb_def set_symbol_def set_segment_def add_addr_def set_table_def resize_table_def Let_def
      split: prod.splits option.splits)

lemma read_count_advances: "bs_p s \<le> bs_p (fst (read_count env s))"
  using read_uleb128_ahead [of "be_ops env" "bs_p s"]
  by (auto simp: read_count_def split: prod.splits option.splits)

lemma binders_advance:
  "advances s (do_bind env s)" "advances s (do_bind_add_addr env s)" "advances s (do_bind_add_imm env i s)"
  "advances s (do_bind_times env s)" "advances s (threaded_apply env s)" "advances s (bind (set_addend env s) silent)"
proof -
  show "advances s (do_bind env s)"
    by (auto simp: advances_def do_bind_def enter_table_def Let_def bind_eq_Ok split: if_splits)
  show "advances s (do_bind_add_addr env s)"
    using read_uleb128_ahead [of "be_ops env" "bs_p s"]
    by (auto simp: advances_def do_bind_add_addr_def Let_def split: prod.splits if_splits)
  show "advances s (do_bind_add_imm env i s)"
    by (simp add: advances_def do_bind_add_imm_def Let_def)
  show "advances s (do_bind_times env s)"
  proof -
    obtain s1 count s2 skip where c: "read_count env s = (s1, count)" "read_count env s1 = (s2, skip)"
      by (metis surj_pair)
    have "bs_p s \<le> bs_p s2"
      using read_count_advances [of s env] read_count_advances [of s1 env] c by simp
    define u where "u = check_names (locate env True s2)"
    obtain count' ok where k: "checkCountAndSkip count skip (bs_segIndex u) (bs_segOffset u) (be_segs env) = (count', ok)"
      by (metis surj_pair)
    let ?u = "if ok then u else lose_section (count_error u)"
    have run: "do_bind_times env s = Ok (bind_times (unat count') (ucast (skip + ucast (sizeof_pointer (be_segs env))))
        ?u)"
      using k by (simp add: do_bind_times_def Let_def c u_def)
    have u: "bs_p ?u = bs_p s2" by (simp add: u_def)
    show ?thesis
      unfolding advances_def run
    proof (intro allI impI)
      fix s' es
      assume "(Ok (bind_times (unat count') (ucast (skip + ucast (sizeof_pointer (be_segs env)))) ?u) :: bind_step) =
          Ok (s', es)"
      then have "bs_p s' = bs_p ?u"
        using bind_times_position [of "unat count'" _ ?u] by (metis fst_conv result.inject(1))
      then show "bs_p s \<le> bs_p s'" using u \<open>bs_p s \<le> bs_p s2\<close> by simp
    qed
  qed
  show "advances s (threaded_apply env s)"
    by (auto simp: advances_def threaded_apply_def Let_def dest!: chain_loop_position
        split: option.splits seg_table.splits if_splits)
  show "advances s (bind (set_addend env s) silent)"
    using read_sleb128_ahead [of "be_ops env" "bs_p s"]
    by (auto simp: advances_def set_addend_def silent_def bind_eq_Ok split: if_splits)
qed

lemma bind_step_advances:
  assumes "bind_step env s = Ok (s', es)"
  shows "bs_p s < bs_p s'"
proof -
  let ?s = "s\<lparr>bs_p := bs_p s + 1\<rparr>"
  have "advances ?s (bind_opcode env opcode immediate ?s)" for opcode immediate
    unfolding bind_opcode_def
    by (intro advances_if binders_advance advances_silent setters_advance) simp_all
  then show ?thesis using assms by (fastforce simp: bind_step_def Let_def advances_def)
qed

text \<open>One pass over the opcodes: the state at its end and the entries in their order.\<close>

function bind_pass :: "bind_env \<Rightarrow> bind_state \<Rightarrow> bind_step" where
  "bind_pass env s =
     (if \<not> bs_done s \<and> bs_p s < length (be_ops env) \<and> bs_errorCount s < MAXERRORCOUNT then
        (case bind_step env s of
           Ok r \<Rightarrow>
             (case r of (s, es) \<Rightarrow>
                (case bind_pass env s of
                   Ok (s, es') \<Rightarrow> Ok (s, es @ es')
                 | Error err \<Rightarrow> Error err
                 | Fault \<Rightarrow> Fault))
         | Error err \<Rightarrow> Error err
         | Fault \<Rightarrow> Fault)
      else Ok (s, []))"
  by pat_completeness auto
termination
  by (relation "measure (\<lambda>(env, s). length (be_ops env) - bs_p s)") (auto dest!: bind_step_advances)

declare bind_pass.simps [simp del]

text \<open>
  What a pass begins with.  The table, whether the chained format was seen, and the number of errors
  are left from the pass before.
\<close>

definition start_pass :: "bind_state \<Rightarrow> bind_state" where
  "start_pass s =
     s\<lparr>bs_p := 0, bs_type := 0, bs_segIndex := None, bs_segOffset := 0, bs_symbolName := None,
       bs_fromDylib := None, bs_libraryOrdinalSet := False, bs_libraryOrdinal := 0, bs_addend := 0,
       bs_segStartAddr := 0, bs_segName := None, bs_sectName := None, bs_weak_import := False,
       bs_done := False, bs_ordinalTableIndex := - 1, bs_flags := 0\<rparr>"

definition first_state :: "bind_env \<Rightarrow> bind_state" where
  "first_state env =
     \<lparr>bs_p = 0, bs_type = 0, bs_segIndex = None, bs_segOffset = 0, bs_symbolName = None,
      bs_fromDylib = None, bs_libraryOrdinalSet = False, bs_libraryOrdinal = 0, bs_addend = 0,
      bs_segStartAddr = 0, bs_segName = None, bs_sectName = None, bs_weak_import = False,
      bs_done = False, bs_ordinalTableIndex = - 1, bs_flags = 0, bs_errorCount = 0,
      bs_chained = False, bs_ordinalTableCount = 0, bs_slots = 0, bs_ordinalTable = be_junk env\<rparr>"

text \<open>
  The first pass counts, the second fills an array of that many entries, which is cleared before.  An
  entry that is not filled is \<open>None\<close>.  The last component is whether the chained format was seen.
\<close>

definition get_dyld_bind_info :: "bind_env \<Rightarrow> (dyld_bind_info option list \<times> bool) guarded" where
  "get_dyld_bind_info env =
     bind (bind_pass env (first_state env)) (\<lambda>(s, counted).
       if bs_errorCount s \<ge> MAXERRORCOUNT then Ok ([], bs_chained s)
       else
         bind (bind_pass env (start_pass s)) (\<lambda>(s, entries).
           if length entries \<le> length counted then
             Ok (map Some entries @ replicate (length counted - length entries) None, bs_chained s)
           else Fault))"

section \<open>Looking up\<close>

definition cmp_dbi_ptr :: "dyld_bind_info \<Rightarrow> dyld_bind_info \<Rightarrow> int" where
  "cmp_dbi_ptr a b =
     (if bi_address a < bi_address b then - 1 else if bi_address a > bi_address b then 1 else 0)"

end
