(* ===== verification/Bind_Facts.thy ===== *)
theory Bind_Facts
  imports Bind_Info "HOL-Library.Sublist"
begin

text \<open>
  What the two passes of \<open>get_dyld_bind_info\<close> have to do with each other, and what is known of
  the entries.
\<close>

section \<open>Errors are only counted\<close>

text \<open>No opcode looks at the number of errors: a pass that starts with more of them does the same, as far as it gets.\<close>

definition more_errors :: "nat \<Rightarrow> bind_state \<Rightarrow> bind_state" where
  "more_errors c s = s\<lparr>bs_errorCount := bs_errorCount s + c\<rparr>"

fun later :: "nat \<Rightarrow> bind_step \<Rightarrow> bind_step" where
  "later c (Ok (s, es)) = Ok (more_errors c s, es)"
| "later c (Error err) = Error err"
| "later c Fault = Fault"

lemma more_errors_fields [simp]:
  "bs_p (more_errors c s) = bs_p s" "bs_type (more_errors c s) = bs_type s"
  "bs_segIndex (more_errors c s) = bs_segIndex s" "bs_segOffset (more_errors c s) = bs_segOffset s"
  "bs_symbolName (more_errors c s) = bs_symbolName s" "bs_fromDylib (more_errors c s) = bs_fromDylib s"
  "bs_libraryOrdinalSet (more_errors c s) = bs_libraryOrdinalSet s"
  "bs_libraryOrdinal (more_errors c s) = bs_libraryOrdinal s" "bs_addend (more_errors c s) = bs_addend s"
  "bs_segStartAddr (more_errors c s) = bs_segStartAddr s" "bs_segName (more_errors c s) = bs_segName s"
  "bs_sectName (more_errors c s) = bs_sectName s" "bs_weak_import (more_errors c s) = bs_weak_import s"
  "bs_done (more_errors c s) = bs_done s" "bs_ordinalTableIndex (more_errors c s) = bs_ordinalTableIndex s"
  "bs_flags (more_errors c s) = bs_flags s" "bs_errorCount (more_errors c s) = bs_errorCount s + c"
  "bs_chained (more_errors c s) = bs_chained s" "bs_ordinalTableCount (more_errors c s) = bs_ordinalTableCount s"
  "bs_slots (more_errors c s) = bs_slots s" "bs_ordinalTable (more_errors c s) = bs_ordinalTable s"
  by (simp_all add: more_errors_def)

lemma more_errors_update [simp]:
  "more_errors c s\<lparr>bs_p := p\<rparr> = more_errors c (s\<lparr>bs_p := p\<rparr>)"
  "more_errors c s\<lparr>bs_type := t\<rparr> = more_errors c (s\<lparr>bs_type := t\<rparr>)"
  "more_errors c s\<lparr>bs_segIndex := i\<rparr> = more_errors c (s\<lparr>bs_segIndex := i\<rparr>)"
  "more_errors c s\<lparr>bs_segOffset := w\<rparr> = more_errors c (s\<lparr>bs_segOffset := w\<rparr>)"
  "more_errors c s\<lparr>bs_symbolName := n\<rparr> = more_errors c (s\<lparr>bs_symbolName := n\<rparr>)"
  "more_errors c s\<lparr>bs_fromDylib := d\<rparr> = more_errors c (s\<lparr>bs_fromDylib := d\<rparr>)"
  "more_errors c s\<lparr>bs_libraryOrdinalSet := b\<rparr> = more_errors c (s\<lparr>bs_libraryOrdinalSet := b\<rparr>)"
  "more_errors c s\<lparr>bs_libraryOrdinal := z\<rparr> = more_errors c (s\<lparr>bs_libraryOrdinal := z\<rparr>)"
  "more_errors c s\<lparr>bs_addend := w\<rparr> = more_errors c (s\<lparr>bs_addend := w\<rparr>)"
  "more_errors c s\<lparr>bs_segStartAddr := w\<rparr> = more_errors c (s\<lparr>bs_segStartAddr := w\<rparr>)"
  "more_errors c s\<lparr>bs_segName := n\<rparr> = more_errors c (s\<lparr>bs_segName := n\<rparr>)"
  "more_errors c s\<lparr>bs_sectName := n\<rparr> = more_errors c (s\<lparr>bs_sectName := n\<rparr>)"
  "more_errors c s\<lparr>bs_weak_import := b\<rparr> = more_errors c (s\<lparr>bs_weak_import := b\<rparr>)"
  "more_errors c s\<lparr>bs_done := b\<rparr> = more_errors c (s\<lparr>bs_done := b\<rparr>)"
  "more_errors c s\<lparr>bs_ordinalTableIndex := w\<rparr> = more_errors c (s\<lparr>bs_ordinalTableIndex := w\<rparr>)"
  "more_errors c s\<lparr>bs_flags := t\<rparr> = more_errors c (s\<lparr>bs_flags := t\<rparr>)"
  "more_errors c s\<lparr>bs_chained := b\<rparr> = more_errors c (s\<lparr>bs_chained := b\<rparr>)"
  "more_errors c s\<lparr>bs_ordinalTableCount := w\<rparr> = more_errors c (s\<lparr>bs_ordinalTableCount := w\<rparr>)"
  "more_errors c s\<lparr>bs_slots := k\<rparr> = more_errors c (s\<lparr>bs_slots := k\<rparr>)"
  "more_errors c s\<lparr>bs_ordinalTable := tbl\<rparr> = more_errors c (s\<lparr>bs_ordinalTable := tbl\<rparr>)"
  by (simp_all add: more_errors_def)

lemma more_errors_helpers [simp]:
  "count_error (more_errors c s) = more_errors c (count_error s)"
  "lose_segment (more_errors c s) = more_errors c (lose_segment s)"
  "lose_section (more_errors c s) = more_errors c (lose_section s)"
  "locate env b (more_errors c s) = more_errors c (locate env b s)"
  "check_names (more_errors c s) = more_errors c (check_names s)"
  "moved env (more_errors c s) = more_errors c (moved env s)"
  "bind_entry (more_errors c s) = bind_entry s"
  "stop (more_errors c s) = more_errors c (stop s)"
  "resize_table env (more_errors c s) = more_errors c (resize_table env s)"
  "set_ordinal env i (more_errors c s) = more_errors c (set_ordinal env i s)"
  "set_symbol env t (more_errors c s) = more_errors c (set_symbol env t s)"
  "set_type t (more_errors c s) = more_errors c (set_type t s)"
proof -
  show count: "count_error (more_errors c s) = more_errors c (count_error s)" for s
    by (simp add: count_error_def more_errors_def)
  show segment: "lose_segment (more_errors c s) = more_errors c (lose_segment s)" for s
    by (simp add: lose_segment_def)
  show sect: "lose_section (more_errors c s) = more_errors c (lose_section s)" for s
    by (simp add: lose_section_def segment)
  show "locate env b (more_errors c s) = more_errors c (locate env b s)"
    by (simp add: locate_def count sect)
  show "check_names (more_errors c s) = more_errors c (check_names s)"
    by (simp add: check_names_def Let_def count)
  show "moved env (more_errors c s) = more_errors c (moved env s)"
    by (simp add: moved_def count sect)
  show "bind_entry (more_errors c s) = bind_entry s" by (simp add: bind_entry_def)
  show "stop (more_errors c s) = more_errors c (stop s)" by (simp add: stop_def count)
  show "resize_table env (more_errors c s) = more_errors c (resize_table env s)"
    by (simp add: resize_table_def cong: if_cong)
  show "set_ordinal env i (more_errors c s) = more_errors c (set_ordinal env i s)"
    by (simp add: set_ordinal_def Let_def count)
  show "set_symbol env t (more_errors c s) = more_errors c (set_symbol env t s)"
    by (simp add: set_symbol_def Let_def count)
  show "set_type t (more_errors c s) = more_errors c (set_type t s)"
    by (simp add: set_type_def count)
qed

lemma more_errors_uleb [simp]:
  "set_ordinal_uleb env (more_errors c s) = more_errors c (set_ordinal_uleb env s)"
  "set_segment env i (more_errors c s) = more_errors c (set_segment env i s)"
  "add_addr env (more_errors c s) = more_errors c (add_addr env s)"
  "set_table env (more_errors c s) = more_errors c (set_table env s)"
  "read_count env (more_errors c s) = map_prod (more_errors c) id (read_count env s)"
proof -
  obtain v p err where r: "read_uleb128 (be_ops env) (bs_p s) = (v, p, err)" by (metis surj_pair)
  show "set_ordinal_uleb env (more_errors c s) = more_errors c (set_ordinal_uleb env s)"
    by (cases err) (simp_all add: set_ordinal_uleb_def r)
  show "set_segment env i (more_errors c s) = more_errors c (set_segment env i s)"
    by (cases err) (simp_all add: set_segment_def r Let_def)
  show "add_addr env (more_errors c s) = more_errors c (add_addr env s)"
    by (cases err) (simp_all add: add_addr_def r)
  show "set_table env (more_errors c s) = more_errors c (set_table env s)"
    by (cases err) (simp_all add: set_table_def r)
  show "read_count env (more_errors c s) = map_prod (more_errors c) id (read_count env s)"
    by (cases err) (simp_all add: read_count_def r)
qed

lemma later_Ok: "later c (Ok r) = Ok (map_prod (more_errors c) id r)"
  by (cases r) simp

lemma later_silent [simp]: "silent (more_errors c s) = later c (silent s)"
  by (simp add: silent_def)

lemma later_enter: "enter_table (more_errors c s) = bind (enter_table s) (\<lambda>s. Ok (more_errors c s))"
  by (simp add: enter_table_def Let_def)

lemma later_do_bind: "do_bind env (more_errors c s) = later c (do_bind env s)"
proof -
  have "bind (enter_table (more_errors c s)) (\<lambda>s. Ok (s, [])) = later c (bind (enter_table s) (\<lambda>s. Ok (s, [])))" for s
    by (cases "enter_table s") (simp_all add: later_enter)
  then show ?thesis by (simp add: do_bind_def Let_def)
qed

lemma later_binders:
  "do_bind_add_addr env (more_errors c s) = later c (do_bind_add_addr env s)"
  "do_bind_add_imm env i (more_errors c s) = later c (do_bind_add_imm env i s)"
  "bind (set_addend env (more_errors c s)) silent = later c (bind (set_addend env s) silent)"
proof -
  let ?s = "check_names (locate env True s)"
  obtain v p err where "read_uleb128 (be_ops env) (bs_p ?s) = (v, p, err)" by (metis surj_pair)
  then show "do_bind_add_addr env (more_errors c s) = later c (do_bind_add_addr env s)"
    by (cases err) (simp_all add: do_bind_add_addr_def Let_def)
  show "do_bind_add_imm env i (more_errors c s) = later c (do_bind_add_imm env i s)"
    by (simp add: do_bind_add_imm_def Let_def)
  show "bind (set_addend env (more_errors c s)) silent = later c (bind (set_addend env s) silent)"
    by (cases "read_sleb128 (be_ops env) (bs_p s)") (auto simp: set_addend_def silent_def)
qed

lemma later_times: "bind_times n w (more_errors c s) = map_prod (more_errors c) id (bind_times n w s)"
proof (induction n arbitrary: s)
  case (Suc n)
  let ?s = "if bs_segIndex s = None then s else s\<lparr>bs_segOffset := bs_segOffset s + w\<rparr>"
  have "bind_times n w (more_errors c ?s) = map_prod (more_errors c) id (bind_times n w ?s)"
    by (rule Suc.IH)
  then show ?case by (cases "bind_times n w ?s") (auto simp: Let_def split: if_splits)
qed simp

lemma later_do_bind_times: "do_bind_times env (more_errors c s) = later c (do_bind_times env s)"
proof -
  obtain s1 count where 1: "read_count env s = (s1, count)" by (metis surj_pair)
  obtain s2 skip where 2: "read_count env s1 = (s2, skip)" by (metis surj_pair)
  let ?s = "check_names (locate env True s2)"
  obtain n ok where "checkCountAndSkip count skip (bs_segIndex ?s) (bs_segOffset ?s) (be_segs env) = (n, ok)"
    by (metis surj_pair)
  then show ?thesis
    by (cases ok) (simp_all add: do_bind_times_def Let_def 1 2 later_times later_Ok)
qed

lemma later_chain_pointer:
  "chain_pointer env v (more_errors c s) =
     bind (chain_pointer env v s) (\<lambda>(s, es, go). Ok (more_errors c s, es, go))"
  by (auto simp: chain_pointer_def threaded_entry_def Let_def split: option.split)

lemma later_chain_next:
  "chain_next env seg page v (more_errors c s) = map_prod (more_errors c) id (chain_next env seg page v s)"
  by (simp add: chain_next_def Let_def)

lemma later_chain_loop: "chain_loop env seg page (more_errors c s) = later c (chain_loop env seg page s)"
proof (induction env seg page s rule: chain_loop.induct)
  case (1 env seg page s)
  show ?case
  proof (cases "read_pointer env (sg64_fileoff seg + bs_segOffset s)")
    case read: (Ok v)
    show ?thesis
    proof (cases "chain_pointer env v s")
      case point: (Ok r)
      obtain s1 es go where r: "r = (s1, es, go)" by (metis surj_pair)
      obtain s2 again where nxt: "chain_next env seg page v s1 = (s2, again)" by (metis surj_pair)
      note unfold = chain_loop.simps [of env seg page s] chain_loop.simps [of env seg page "more_errors c s"]
      show ?thesis
      proof (cases "go \<and> again")
        case True
        then have IH: "chain_loop env seg page (more_errors c s2) = later c (chain_loop env seg page s2)"
          using 1 [OF read point r [symmetric] refl _ nxt [symmetric]] by simp
        show ?thesis
          using True by (cases "chain_loop env seg page s2")
            (auto simp: unfold read point r nxt later_chain_pointer later_chain_next IH)
      next
        case False
        then show ?thesis by (auto simp: unfold read point r nxt later_chain_pointer later_chain_next)
      qed
    qed (simp_all add: chain_loop.simps [of env seg page] read later_chain_pointer)
  qed (simp_all add: chain_loop.simps [of env seg page])
qed

lemma later_threaded_apply: "threaded_apply env (more_errors c s) = later c (threaded_apply env s)"
proof -
  have "apply_checks env (more_errors c s) = more_errors c (apply_checks env s)"
    by (simp add: apply_checks_def Let_def)
  then show ?thesis
    by (simp add: threaded_apply_def Let_def later_chain_loop split: option.split seg_table.split)
qed

lemma later_bind_opcode: "bind_opcode env opcode immediate (more_errors c s) = later c (bind_opcode env opcode immediate s)"
  by (simp add: bind_opcode_def later_do_bind later_binders later_do_bind_times later_threaded_apply)

theorem later_bind_step: "bind_step env (more_errors c s) = later c (bind_step env s)"
  by (simp add: bind_step_def Let_def later_bind_opcode)

section \<open>The second pass\<close>

lemma more_errors_of: "s = more_errors (bs_errorCount s) (s\<lparr>bs_errorCount := 0\<rparr>)"
  by (simp add: more_errors_def)

lemma errors_grow:
  assumes "bind_step env s = Ok (s', es)"
  shows "bs_errorCount s \<le> bs_errorCount s'"
proof -
  let ?c = "bs_errorCount s" and ?s = "s\<lparr>bs_errorCount := 0\<rparr>"
  have "later ?c (bind_step env ?s) = Ok (s', es)"
    using assms later_bind_step [of env ?c ?s] more_errors_of [of s] by simp
  then show ?thesis by (cases "bind_step env ?s") auto
qed

lemma bind_pass_Ok_cases:
  assumes "bind_pass env s = Ok (s', es)"
    and "\<not> bs_done s \<and> bs_p s < length (be_ops env) \<and> bs_errorCount s < MAXERRORCOUNT"
  obtains s1 es1 es2 where "bind_step env s = Ok (s1, es1)" "bind_pass env s1 = Ok (s', es2)" "es = es1 @ es2"
  using assms by (subst (asm) bind_pass.simps) (auto split: result.splits prod.splits)

lemma bind_pass_stops:
  assumes "\<not> (\<not> bs_done s \<and> bs_p s < length (be_ops env) \<and> bs_errorCount s < MAXERRORCOUNT)"
  shows "bind_pass env s = Ok (s, [])"
  by (subst bind_pass.simps, subst if_not_P [OF assms]) (rule refl)

lemma errors_grow_pass: "bind_pass env s = Ok (s', es) \<Longrightarrow> bs_errorCount s \<le> bs_errorCount s'"
proof (induction env s arbitrary: es rule: bind_pass.induct)
  case (1 env s)
  show ?case
  proof (cases "\<not> bs_done s \<and> bs_p s < length (be_ops env) \<and> bs_errorCount s < MAXERRORCOUNT")
    case True
    from bind_pass_Ok_cases [OF 1(2) True] obtain s1 es1 es2
      where *: "bind_step env s = Ok (s1, es1)" "bind_pass env s1 = Ok (s', es2)" by metis
    have "bs_errorCount s1 \<le> bs_errorCount s'" using 1(1) [OF True *(1) refl *(2)] .
    then show ?thesis using errors_grow [OF *(1)] by simp
  next
    case False
    then show ?thesis using 1(2) bind_pass_stops [OF False] by simp
  qed
qed

section \<open>Without the chained format\<close>

text \<open>Only the table opcode and a bind after it touch what is kept between the passes.\<close>

definition table_kept :: "bind_state \<Rightarrow> bind_state \<Rightarrow> bool" where
  "table_kept s s' \<longleftrightarrow> bs_chained s' = bs_chained s \<and> bs_ordinalTableCount s' = bs_ordinalTableCount s \<and>
     bs_slots s' = bs_slots s \<and> bs_ordinalTable s' = bs_ordinalTable s"

lemma table_kept_trans: "table_kept s s' \<Longrightarrow> table_kept s' s'' \<Longrightarrow> table_kept s s''"
  by (simp add: table_kept_def)

lemma table_kept_helpers:
  "table_kept s (count_error s)" "table_kept s (lose_segment s)" "table_kept s (lose_section s)"
  "table_kept s (locate env b s)" "table_kept s (check_names s)" "table_kept s (moved env s)"
  "table_kept s (stop s)" "table_kept s (set_ordinal env i s)" "table_kept s (set_symbol env t s)"
  "table_kept s (set_type t s)" "table_kept s (s\<lparr>bs_p := p\<rparr>)" "table_kept s (s\<lparr>bs_done := True\<rparr>)"
  by (simp_all add: table_kept_def count_error_def lose_segment_def lose_section_def locate_def
      check_names_def moved_def stop_def set_ordinal_def set_symbol_def set_type_def Let_def)

lemma table_kept_uleb:
  "table_kept s (set_ordinal_uleb env s)" "table_kept s (set_segment env i s)"
  "table_kept s (add_addr env s)" "table_kept s (fst (read_count env s))"
proof -
  obtain v p err where r: "read_uleb128 (be_ops env) (bs_p s) = (v, p, err)" by (metis surj_pair)
  show "table_kept s (set_ordinal_uleb env s)"
    by (cases err) (auto simp: set_ordinal_uleb_def r table_kept_def set_ordinal_def count_error_def Let_def)
  show "table_kept s (set_segment env i s)"
    by (cases err) (auto simp: set_segment_def r table_kept_def lose_segment_def count_error_def Let_def)
  show "table_kept s (add_addr env s)"
    by (cases err) (auto simp: add_addr_def r table_kept_def lose_segment_def count_error_def)
  show "table_kept s (fst (read_count env s))"
    by (cases err) (auto simp: read_count_def r table_kept_def count_error_def)
qed

lemma table_kept_times: "table_kept s (fst (bind_times n w s))"
  by (induction n arbitrary: s) (auto simp: Let_def split_beta table_kept_def)

lemma table_kept_chain: "chain_loop env seg page s = Ok (s', es) \<Longrightarrow> table_kept s s'"
proof (induction env seg page s arbitrary: s' es rule: chain_loop.induct)
  case (1 env seg page s)
  have pointer: "table_kept s s1" if "chain_pointer env v s = Ok (s1, es, go)" for v s1 es go
    using that by (auto simp: chain_pointer_def table_kept_def count_error_def Let_def split: if_splits option.splits)
  have nxt: "table_kept s1 s2" if "chain_next env seg page v s1 = (s2, again)" for v s1 s2 again
    using that by (auto simp: chain_next_def table_kept_def count_error_def Let_def split: if_splits)
  show ?case
    using 1(2) 1(1) [OF _ _ refl _ refl]
    by (subst (asm) chain_loop.simps)
      (fastforce dest: pointer nxt intro: table_kept_trans split: result.splits prod.splits if_splits)
qed

definition keeps :: "bind_state \<Rightarrow> bind_step \<Rightarrow> bool" where
  "keeps s r \<longleftrightarrow> (\<forall>s' es. r = Ok (s', es) \<longrightarrow> bs_chained s' \<or> table_kept s s')"

lemma keeps_if: "keeps s r \<Longrightarrow> keeps s r' \<Longrightarrow> keeps s (if b then r else r')"
  by simp

lemma keeps_silent: "table_kept s s' \<Longrightarrow> keeps s (silent s')"
  by (simp add: keeps_def silent_def)

lemma keeps_Ok: "table_kept s s' \<Longrightarrow> keeps s (Ok (s', es))"
  by (simp add: keeps_def)

lemma keeps_table: "keeps s (silent (set_table env s))"
  by (auto simp: keeps_def silent_def set_table_def resize_table_def split: prod.splits option.splits)

lemma table_kept_checked: "table_kept s (check_names (locate env b s))"
  by (rule table_kept_trans) (rule table_kept_helpers)+

lemma keeps_do_bind: "keeps s (do_bind env s)"
proof (cases "bs_chained s")
  case True
  then have "bs_chained (check_names s)" using table_kept_helpers(5) [of s] by (simp add: table_kept_def)
  then show ?thesis
    using True by (auto simp: keeps_def do_bind_def Let_def enter_table_def count_error_def split: if_splits)
next
  case False
  note kept = table_kept_checked [of s env True]
  then have "\<not> bs_chained (check_names (locate env True s))" using False by (simp add: table_kept_def)
  then show ?thesis
    using False kept by (auto simp: keeps_def do_bind_def Let_def table_kept_def)
qed

lemma keeps_binders:
  "keeps s (do_bind_add_addr env s)" "keeps s (do_bind_add_imm env i s)" "keeps s (bind (set_addend env s) silent)"
proof -
  let ?s = "check_names (locate env True s)"
  note kept = table_kept_checked [of s env True]
  have moved: "table_kept s (moved env t)" if "table_kept s t" for t
    using that table_kept_helpers(6) by (rule table_kept_trans)
  have offset: "table_kept s (t\<lparr>bs_p := p, bs_segOffset := w\<rparr>)" "table_kept s (t\<lparr>bs_segOffset := w\<rparr>)"
      "table_kept s (t\<lparr>bs_p := p\<rparr>)"
      "table_kept s (lose_section (count_error (t\<lparr>bs_p := p, bs_segOffset := w\<rparr>)))"
    if "table_kept s t" for t p w
    using that by (simp_all add: table_kept_def lose_section_def lose_segment_def count_error_def)
  obtain v p err where "read_uleb128 (be_ops env) (bs_p ?s) = (v, p, err)" by (metis surj_pair)
  then show "keeps s (do_bind_add_addr env s)"
    using kept by (cases err) (auto simp del: position_kept simp: do_bind_add_addr_def Let_def
        intro!: keeps_Ok moved offset)
  show "keeps s (do_bind_add_imm env i s)"
    using kept by (auto simp: do_bind_add_imm_def Let_def intro!: keeps_Ok moved offset)
  show "keeps s (bind (set_addend env s) silent)"
    by (cases "read_sleb128 (be_ops env) (bs_p s)")
      (auto simp: set_addend_def keeps_def silent_def table_kept_def count_error_def split: if_splits)
qed

lemma keeps_times: "keeps s (do_bind_times env s)"
proof -
  obtain s1 count where 1: "read_count env s = (s1, count)" by (metis surj_pair)
  obtain s2 skip where 2: "read_count env s1 = (s2, skip)" by (metis surj_pair)
  let ?s = "check_names (locate env True s2)"
  obtain n ok where 3: "checkCountAndSkip count skip (bs_segIndex ?s) (bs_segOffset ?s) (be_segs env) = (n, ok)"
    by (metis surj_pair)
  have "table_kept s s2"
    using table_kept_uleb(4) [of s env] table_kept_uleb(4) [of s1 env] 1 2 by (auto intro: table_kept_trans)
  then have kept: "table_kept s ?s" using table_kept_checked by (rule table_kept_trans)
  then have lost: "table_kept s (lose_section (count_error ?s))"
    by (simp add: table_kept_def lose_section_def lose_segment_def count_error_def)
  show ?thesis
    using table_kept_trans [OF kept table_kept_times] table_kept_trans [OF lost table_kept_times]
    by (auto simp: do_bind_times_def Let_def 1 2 3 keeps_def dest!: arg_cong [of _ _ fst] split: if_splits)
qed

lemma keeps_apply: "keeps s (threaded_apply env s)"
proof -
  let ?t = "apply_checks env s"
  have "table_kept s ?t"
    by (simp add: apply_checks_def Let_def table_kept_def locate_def lose_section_def lose_segment_def count_error_def)
  then have "keeps s (chain_loop env seg page ?t)" for seg page
    by (auto simp: keeps_def dest: table_kept_chain intro: table_kept_trans)
  moreover have "keeps s (Ok (?t, []))" using \<open>table_kept s ?t\<close> by (rule keeps_Ok)
  moreover have "keeps s Fault" by (simp add: keeps_def)
  ultimately show ?thesis by (simp add: threaded_apply_def Let_def split: option.split seg_table.split)
qed

lemma table_step:
  assumes "bind_step env s = Ok (s', es)" and "\<not> bs_chained s'"
  shows "table_kept s s'"
proof -
  let ?s = "s\<lparr>bs_p := bs_p s + 1\<rparr>"
  have "keeps ?s (bind_opcode env opcode immediate ?s)" for opcode immediate
    unfolding bind_opcode_def
    by (intro keeps_if keeps_silent keeps_table keeps_do_bind keeps_binders keeps_times keeps_apply
        table_kept_helpers table_kept_uleb)
  then have "table_kept ?s s'" using assms by (fastforce simp: bind_step_def Let_def keeps_def)
  then show ?thesis by (simp add: table_kept_def)
qed

lemma table_pass: "bind_pass env s = Ok (s', es) \<Longrightarrow> \<not> bs_chained s' \<Longrightarrow> table_kept s s'"
proof (induction env s arbitrary: es rule: bind_pass.induct)
  case (1 env s)
  show ?case
  proof (cases "\<not> bs_done s \<and> bs_p s < length (be_ops env) \<and> bs_errorCount s < MAXERRORCOUNT")
    case True
    from bind_pass_Ok_cases [OF 1(2) True] obtain s1 es1 es2
      where *: "bind_step env s = Ok (s1, es1)" "bind_pass env s1 = Ok (s', es2)" by metis
    have rest: "table_kept s1 s'" using 1(1) [OF True *(1) refl *(2) 1(3)] .
    then have "\<not> bs_chained s1" using 1(3) by (simp add: table_kept_def)
    then show ?thesis using table_step [OF *(1)] rest by (auto intro: table_kept_trans)
  next
    case False
    then show ?thesis using 1(2) bind_pass_stops [OF False] by (simp add: table_kept_def)
  qed
qed

text \<open>With more errors from the beginning a pass may stop earlier, and that is all.\<close>

lemma bind_pass_later:
  assumes "bind_pass env s = Ok (s', es)"
  shows "\<exists>t es'. bind_pass env (more_errors c s) = Ok (t, es') \<and> prefix es' es \<and> (bs_chained t \<longrightarrow> bs_chained s') \<and>
    (bs_errorCount s' + c < MAXERRORCOUNT \<longrightarrow> t = more_errors c s' \<and> es' = es)"
  using assms
proof (induction env s arbitrary: es rule: bind_pass.induct)
  case (1 env s)
  show ?case
  proof (cases "\<not> bs_done s \<and> bs_p s < length (be_ops env) \<and> bs_errorCount s < MAXERRORCOUNT")
    case True
    from bind_pass_Ok_cases [OF 1(2) True] obtain s1 es1 es2 where
      *: "bind_step env s = Ok (s1, es1)" "bind_pass env s1 = Ok (s', es2)" "es = es1 @ es2" by metis
    obtain t es' where IH: "bind_pass env (more_errors c s1) = Ok (t, es')" "prefix es' es2"
        "bs_chained t \<longrightarrow> bs_chained s'"
        "bs_errorCount s' + c < MAXERRORCOUNT \<longrightarrow> t = more_errors c s' \<and> es' = es2"
      using 1(1) [OF True *(1) refl *(2)] by auto
    show ?thesis
    proof (cases "bs_errorCount s + c < MAXERRORCOUNT")
      case go: True
      have "bind_pass env (more_errors c s) = Ok (t, es1 @ es')"
        using True go by (subst bind_pass.simps) (simp add: later_bind_step * IH)
      then show ?thesis using IH * by simp
    next
      case stop: False
      then have "bind_pass env (more_errors c s) = Ok (more_errors c s, [])"
        by (intro bind_pass_stops) simp
      then show ?thesis
        using stop errors_grow_pass [OF 1(2)] table_pass [OF 1(2)] by (auto simp: table_kept_def)
    qed
  next
    case False
    then have "bind_pass env (more_errors c s) = Ok (more_errors c s, [])"
      by (intro bind_pass_stops) auto
    then show ?thesis using 1(2) bind_pass_stops [OF False] by simp
  qed
qed

lemma second_start:
  assumes "bind_pass env (first_state env) = Ok (s, es)" and "\<not> bs_chained s"
  shows "start_pass s = more_errors (bs_errorCount s) (first_state env)"
  using table_pass [OF assms] by (cases s) (simp add: table_kept_def start_pass_def first_state_def more_errors_def)

section \<open>Two passes do what one does\<close>

text \<open>
  C4.  \<open>get_dyld_bind_info\<close> runs over the opcodes twice, to count and to fill.  Where no
  opcode sets up a table for the chained format, the array is filled with what one run gives, in its
  order and without an access outside it; if the errors, which are counted in both passes, stop the
  second pass early, a rest of the array stays cleared.
\<close>

theorem bind_info_refines_one_pass:
  assumes "bind_pass env (first_state env) = Ok (s, es)" and "\<not> bs_chained s"
    and "bs_errorCount s < MAXERRORCOUNT"
  shows "\<exists>k. get_dyld_bind_info env = Ok (map Some (take k es) @ replicate (length es - k) None, False) \<and>
    k \<le> length es \<and> (2 * bs_errorCount s < MAXERRORCOUNT \<longrightarrow> k = length es)"
proof -
  let ?c = "bs_errorCount s"
  obtain t es' where second: "bind_pass env (more_errors ?c (first_state env)) = Ok (t, es')" "prefix es' es"
      "\<not> bs_chained t" "?c + ?c < MAXERRORCOUNT \<longrightarrow> t = more_errors ?c s \<and> es' = es"
    using bind_pass_later [OF assms(1), of ?c] assms(2) by auto
  have len: "length es' \<le> length es" and take: "es' = take (length es') es"
    using second(2) by (auto simp: prefix_def)
  have "get_dyld_bind_info env = Ok (map Some es' @ replicate (length es - length es') None, False)"
    using assms second(1,3) len by (simp add: get_dyld_bind_info_def second_start [OF assms(1,2)])
  then show ?thesis using take len second(4) by (intro exI [of _ "length es'"]) auto
qed

text \<open>A 64-bit file with one segment of 256 bytes at \<open>0x1000\<close>, mapped from the start of the file, and one library.\<close>

definition example_segment :: segment_command_64 where
  "example_segment = \<lparr>sg64_cmd = 0x19, sg64_cmdsize = 72, sg64_segname = [0x5f, 0x44] @ replicate 14 0,
     sg64_vmaddr = 0x1000, sg64_vmsize = 0x100, sg64_fileoff = 0, sg64_filesize = 0x100, sg64_maxprot = 3,
     sg64_initprot = 3, sg64_nsects = 0, sg64_flags = 0\<rparr>"

definition bind_example :: "bytes \<Rightarrow> bytes \<Rightarrow> bind_env" where
  "bind_example ops object = \<lparr>be_ops = ops, be_dylibs = [''libz''], be_segs = Segs64 [(example_segment, [])],
     be_host = Little, be_swapped = False, be_object = object,
     be_junk = (\<lambda>_. \<lparr>td_symbolName = None, td_addend = 0, td_libraryOrdinal = 7, td_flags = 0, td_type = 0\<rparr>)\<rparr>"

text \<open>Library 1, symbol \<open>f\<close>, type pointer, offset 8 of segment 0, a bind, the end.\<close>

definition plain_binds :: bytes where
  "plain_binds = [0x11, 0x40, 0x66, 0, 0x51, 0x70, 8, 0x90, 0]"

theorem bind_info_refines_one_pass_witness:
  "(case get_dyld_bind_info (bind_example plain_binds []) of
      Ok ([Some e], chained) \<Rightarrow> bi_address e = 0x1008 \<and> bi_symbolname e = Some [0x66] \<and>
        bi_dylibname e = Some ''libz'' \<and> \<not> chained
    | _ \<Rightarrow> False)"
proof -
  let ?env = "bind_example plain_binds []"
  have "(case bind_pass ?env (first_state ?env) of
      Ok (s, [e]) \<Rightarrow> \<not> bs_chained s \<and> bs_errorCount s = 0 \<and> bi_address e = 0x1008 \<and>
        bi_symbolname e = Some [0x66] \<and> bi_dylibname e = Some ''libz''
    | _ \<Rightarrow> False)"
    by code_simp
  then obtain s e where run: "bind_pass ?env (first_state ?env) = Ok (s, [e])" "\<not> bs_chained s" "bs_errorCount s = 0"
    and e: "bi_address e = 0x1008" "bi_symbolname e = Some [0x66]" "bi_dylibname e = Some ''libz''"
    by (auto split: result.splits prod.splits list.splits)
  show ?thesis using bind_info_refines_one_pass [OF run(1,2)] run(3) e by auto
qed

section \<open>With the chained format\<close>

definition early_apply :: bytes where
  "early_apply = [0xd0, 1, 0x70, 8, 0xd1, 0x11, 0x40, 0x66, 0, 0x51, 0x90, 0]"

definition one_pointer :: bytes where
  "one_pointer = replicate 15 0 @ [0x40]"

text \<open>
  The table is kept between the passes.  Here a chain is walked before its table is
  filled: in the first pass it finds what memory held, no library, and nothing is counted; in the second
  it finds the entry of the first and writes it to an array of no elements.
\<close>

theorem chained_second_pass_overflows:
  "get_dyld_bind_info (bind_example early_apply one_pointer) = Fault"
  by code_simp

text \<open>A bind before the table is set up is an entry in the first pass only, so an entry is left cleared.\<close>

theorem late_table_leaves_hole:
  "get_dyld_bind_info (bind_example [0x11, 0x40, 0x66, 0, 0x51, 0x70, 8, 0x90, 0xd0, 0, 0] []) = Ok ([None], True)"
  by code_simp

text \<open>The size of a table of \<open>2\<^sup>6\<^sup>1\<close> entries wraps around to no bytes, and the first entry is outside.\<close>

theorem table_size_wraps:
  "table_slots (2 ^ 61) = 0"
  "get_dyld_bind_info (bind_example (0xd0 # replicate 8 0x80 @ [0x20, 0x11, 0x40, 0x66, 0, 0x90, 0]) []) = Fault"
proof -
  show "table_slots (2 ^ 61) = 0" by (simp add: table_slots_def sizeof_ThreadedBindData_def)
  show "get_dyld_bind_info (bind_example (0xd0 # replicate 8 0x80 @ [0x20, 0x11, 0x40, 0x66, 0, 0x90, 0]) []) = Fault"
    by code_simp
qed

text \<open>An offset of \<open>2\<^sup>6\<^sup>4 - 8\<close> is accepted and binds an address below the segment.\<close>

theorem offset_wraps_below_segment:
  "(case get_dyld_bind_info (bind_example ([0x11, 0x40, 0x66, 0, 0x51, 0x70, 0xf8] @ replicate 8 0xff @ [1, 0x90, 0]) []) of
      Ok ([Some e], _) \<Rightarrow> bi_address e = 0xff8 \<and> bi_segname e = segmentName 0 (Segs64 [(example_segment, [])]) \<and>
        bi_address e < sg64_vmaddr example_segment
    | _ \<Rightarrow> False)"
  by code_simp

end
