(* ===== verification/Overlap.thy ===== *)
theory Overlap
  imports Cctools_Prelude
begin

text \<open>
  \<open>check_overlaping_element\<close> of \<open>libstuff/ofile.c\<close>: the parts of an object file (headers,
  symbol table, string table, \<dots>) are entered one after the other into a list of
  \<open>struct element\<close>, and a part that overlaps an entered one is reported.  The list
  \<open>head->next\<close> is a HOL list.
\<close>

record element =
  el_offset :: u32
  el_size :: u32
  el_name :: string

definition overlaps :: "element \<Rightarrow> element \<Rightarrow> bool" where
  "overlaps n e \<longleftrightarrow>
     (el_offset n \<ge> el_offset e \<and> el_offset n < el_offset e + el_size e) \<or>
     (el_offset n + el_size n > el_offset e \<and>
      el_offset n + el_size n < el_offset e + el_size e) \<or>
     (el_offset n \<le> el_offset e \<and> el_offset n + el_size n \<ge> el_offset e + el_size e)"

text \<open>
  The loop over the list: \<open>Inl e\<close> reports the element \<open>e\<close> that is overlapped (\<open>CHECK_BAD\<close>),
  \<open>Inr es\<close> is the new list (\<open>CHECK_GOOD\<close>).
\<close>

fun scan_elements :: "element \<Rightarrow> element list \<Rightarrow> element + element list" where
  "scan_elements n [] = Inr [n]"
| "scan_elements n [e] = (if overlaps n e then Inl e else Inr [e, n])"
| "scan_elements n (e # s # es) =
     (if overlaps n e then Inl e
      else if el_offset n + el_size n \<le> el_offset s then Inr (n # e # s # es)
      else map_sum id (\<lambda>l. e # l) (scan_elements n (s # es)))"

definition check_overlaping_element :: "element \<Rightarrow> element list \<Rightarrow> element + element list" where
  "check_overlaping_element n es = (if el_size n = 0 then Inr es else scan_elements n es)"

text \<open>The parts of a file, entered in the order of the list.\<close>

fun enter_elements :: "element list \<Rightarrow> element list \<Rightarrow> element + element list" where
  "enter_elements [] es = Inr es"
| "enter_elements (n # ns) es =
     (case check_overlaping_element n es of
        Inl e \<Rightarrow> Inl e
      | Inr es' \<Rightarrow> enter_elements ns es')"

section \<open>Elements as ranges\<close>

definition first_byte :: "element \<Rightarrow> nat" where
  "first_byte e = unat (el_offset e)"

definition end_byte :: "element \<Rightarrow> nat" where
  "end_byte e = unat (el_offset e) + unat (el_size e)"

text \<open>A part with a size whose end does not wrap around.\<close>

definition proper :: "element \<Rightarrow> bool" where
  "proper e \<longleftrightarrow> el_size e \<noteq> 0 \<and> end_byte e < 2 ^ 32"

definition common_byte :: "element \<Rightarrow> element \<Rightarrow> bool" where
  "common_byte n e \<longleftrightarrow> first_byte n < end_byte e \<and> first_byte e < end_byte n"

lemma proper_bytes: "proper e \<Longrightarrow> first_byte e < end_byte e"
  by (simp add: proper_def first_byte_def end_byte_def unat_gt_0)

lemma end_word: "proper e \<Longrightarrow> unat (el_offset e + el_size e) = end_byte e"
  by (simp add: proper_def end_byte_def unat_add_lem [THEN iffD1])

text \<open>The three tests together say that the ranges have a byte in common.\<close>

lemma overlaps_common_byte:
  assumes "proper n" and "proper e"
  shows "overlaps n e \<longleftrightarrow> common_byte n e"
  using proper_bytes [OF assms(1)] proper_bytes [OF assms(2)]
  by (auto simp: overlaps_def common_byte_def word_le_nat_alt word_less_nat_alt end_word assms
      first_byte_def)

section \<open>On an ordered list the check is exact\<close>

fun ordered :: "element list \<Rightarrow> bool" where
  "ordered (e # s # es) \<longleftrightarrow> end_byte e \<le> first_byte s \<and> ordered (s # es)"
| "ordered es \<longleftrightarrow> True"

lemma ordered_first:
  "ordered (e # es) \<Longrightarrow> list_all proper (e # es) \<Longrightarrow> x \<in> set es \<Longrightarrow> end_byte e \<le> first_byte x"
proof (induction es arbitrary: e)
  case Nil
  then show ?case by simp
next
  case (Cons s es)
  then show ?case using proper_bytes [of s] by fastforce
qed

lemma scan_exact:
  assumes "proper n" and "list_all proper es" and "ordered es"
  shows "(\<exists>e. scan_elements n es = Inl e) \<longleftrightarrow> (\<exists>e \<in> set es. common_byte n e)"
  using assms
proof (induction n es rule: scan_elements.induct)
  case (1 n)
  then show ?case by simp
next
  case (2 n e)
  then show ?case by (simp add: overlaps_common_byte)
next
  case (3 n e s es)
  show ?case
  proof (cases "overlaps n e \<or> el_offset n + el_size n \<le> el_offset s")
    case False
    then have "\<not> common_byte n e" using 3 by (simp add: overlaps_common_byte)
    moreover have "(\<exists>x. scan_elements n (s # es) = Inl x) \<longleftrightarrow> (\<exists>x \<in> set (s # es). common_byte n x)"
      using 3 False by simp
    moreover have "(\<exists>x. map_sum id f r = Inl x) \<longleftrightarrow> (\<exists>x. r = Inl x)" for f and r :: "element + element list"
      by (cases r) auto
    ultimately show ?thesis using False by auto
  next
    case True
    have "\<not> common_byte n x" if "x \<in> set (s # es)" "el_offset n + el_size n \<le> el_offset s" for x
    proof -
      have "end_byte n \<le> first_byte s"
        using that(2) "3.prems" by (simp add: word_le_nat_alt end_word first_byte_def)
      also have "\<dots> \<le> first_byte x"
        using that(1) "3.prems" ordered_first [of s es x] proper_bytes [of s] by fastforce
      finally show ?thesis by (simp add: common_byte_def)
    qed
    then show ?thesis using True 3 by (auto simp: overlaps_common_byte)
  qed
qed

text \<open>Parts that are entered in the order of their offsets keep the list ordered.\<close>

lemma scan_appends:
  assumes "proper n" and "list_all proper es" and "\<And>e. e \<in> set es \<Longrightarrow> first_byte e \<le> first_byte n"
    and "scan_elements n es = Inr es'"
  shows "es' = es @ [n]"
  using assms
proof (induction n es arbitrary: es' rule: scan_elements.induct)
  case (1 n)
  then show ?case by simp
next
  case (2 n e)
  then show ?case by (simp split: if_splits)
next
  case (3 n e s es)
  have "\<not> el_offset n + el_size n \<le> el_offset s"
    using "3.prems" proper_bytes [of n]
    by (auto simp: word_le_nat_alt end_word first_byte_def not_le intro: order.strict_trans1)
  then obtain l where l: "scan_elements n (s # es) = Inr l" "es' = e # l" "\<not> overlaps n e"
    using "3.prems"(4) by (cases "scan_elements n (s # es)") (auto split: if_splits)
  then show ?case using 3 \<open>\<not> el_offset n + el_size n \<le> el_offset s\<close> by simp
qed

definition disjoint_parts :: "element list \<Rightarrow> bool" where
  "disjoint_parts es \<longleftrightarrow> sorted_wrt (\<lambda>a b. \<not> common_byte b a) es"

lemma ordered_append:
  assumes "ordered es" and "es \<noteq> [] \<Longrightarrow> end_byte (last es) \<le> first_byte n"
  shows "ordered (es @ [n])"
  using assms by (induction es rule: ordered.induct) auto

lemma ordered_disjoint:
  assumes "ordered es" and "list_all proper es"
  shows "disjoint_parts es"
  using assms
proof (induction es)
  case Nil
  then show ?case by (simp add: disjoint_parts_def)
next
  case (Cons e es)
  have "ordered es" using Cons.prems(1) by (cases es) auto
  moreover have "\<not> common_byte x e" if "x \<in> set es" for x
    using ordered_first [OF Cons.prems that] by (simp add: common_byte_def)
  ultimately show ?case using Cons by (simp add: disjoint_parts_def)
qed

lemma enter_ascending:
  assumes "list_all proper (es @ ns)" and "ordered es" and "sorted (map first_byte (es @ ns))"
  shows "(\<exists>es'. enter_elements ns es = Inr es') \<longleftrightarrow> disjoint_parts (es @ ns)"
  using assms
proof (induction ns arbitrary: es)
  case Nil
  then show ?case by (simp add: ordered_disjoint)
next
  case (Cons n ns)
  have n: "proper n" "list_all proper es" and below: "\<And>e. e \<in> set es \<Longrightarrow> first_byte e \<le> first_byte n"
    using Cons.prems by (auto simp: sorted_append)
  have check: "check_overlaping_element n es = scan_elements n es"
    using n(1) by (simp add: check_overlaping_element_def proper_def)
  show ?case
  proof (cases "scan_elements n es")
    case (Inl e)
    then obtain x where "x \<in> set es" "common_byte n x"
      using scan_exact [OF n Cons.prems(2)] by auto
    then show ?thesis using Inl check by (auto simp: disjoint_parts_def sorted_wrt_append)
  next
    case (Inr es')
    have eq: "es' = es @ [n]" using scan_appends [OF n below Inr] .
    have no: "\<not> common_byte n x" if "x \<in> set es" for x
      using scan_exact [OF n Cons.prems(2)] Inr that by auto
    have "end_byte (last es) \<le> first_byte n" if "es \<noteq> []"
      using no [of "last es"] below [of "last es"] that proper_bytes [OF n(1)]
      by (auto simp: common_byte_def)
    then have "ordered (es @ [n])" using Cons.prems(2) by (intro ordered_append)
    then have "(\<exists>l. enter_elements ns (es @ [n]) = Inr l) \<longleftrightarrow> disjoint_parts ((es @ [n]) @ ns)"
      using Cons.prems by (intro Cons.IH) auto
    then show ?thesis using Inr check eq by simp
  qed
qed

text \<open>
  In another order the element that is entered before its successor goes in front of
  its predecessor, and a later part is not compared with all of them.
\<close>

definition part :: "string \<Rightarrow> nat \<Rightarrow> nat \<Rightarrow> element" where
  "part name offset sz = \<lparr>el_offset = of_nat offset, el_size = of_nat sz, el_name = name\<rparr>"

section \<open>Properties\<close>

text \<open>
  C40.  Parts of a file that are entered in the order of their offsets, none empty and none
  wrapping around, are accepted by \<open>check_overlaping_element\<close> exactly if no two of them
  have a byte in common.
\<close>

theorem ascending_parts_checked:
  assumes "list_all proper parts" and "sorted (map first_byte parts)"
  shows "(\<exists>es. enter_elements parts [] = Inr es) \<longleftrightarrow> disjoint_parts parts"
  using enter_ascending [of "[]" parts] assms by simp

theorem ascending_parts_checked_witness:
  "\<exists>es. enter_elements [part ''headers'' 0 100, part ''symbol table'' 100 24, part ''string table'' 124 8] [] =
     Inr es"
  by (rule iffD2 [OF ascending_parts_checked])
     (simp_all add: proper_def first_byte_def end_byte_def part_def disjoint_parts_def common_byte_def)

text \<open>
  In another order an overlap is missed: the part entered third goes in front of the
  first one, which leaves the list unordered, and the last part, which lies inside
  \<open>A\<close>, is put in front before it is compared with \<open>A\<close>.
\<close>

theorem overlap_missed:
  "\<exists>es. enter_elements [part ''A'' 0 10, part ''B'' 100 10, part ''C'' 50 10, part ''D'' 70 10,
     part ''F'' 5 3] [] = Inr es \<and> common_byte (part ''F'' 5 3) (part ''A'' 0 10)"
proof -
  have "isl (enter_elements [part ''A'' 0 10, part ''B'' 100 10, part ''C'' 50 10, part ''D'' 70 10,
     part ''F'' 5 3] []) = False" "common_byte (part ''F'' 5 3) (part ''A'' 0 10)"
    by code_simp+
  then show ?thesis by (metis isl_def sum.exhaust)
qed

end
