(* ===== verification/Mach_O_Check.thy ===== *)
theory Mach_O_Check
  imports Swap_Facts Overlap Macho_Tables
begin

text \<open>
  \<open>check_Mach_O\<close> of \<open>libstuff/ofile.c\<close>, which every tool runs on an object file before it uses it:
  a walk over the load commands that brings them into the byte order of the host, in place, and checks
  that all sizes and offsets stay inside the file.  The object is a byte string, a pointer into it an
  offset.  A command that the routine keeps a pointer to (\<open>st\<close>, \<open>dyst\<close>, \<open>rc\<close>, \<dots>) is not changed any more
  and is kept as its contents.  \<open>Fault\<close> is an access outside the object or through a null pointer.
\<close>

section \<open>Errors and state\<close>

text \<open>One constructor per form of message; a \<open>u32\<close> is the command, a \<open>nat\<close> its number.\<close>

datatype mach_error =
    Commands_past_file
  | Overlapping string element
  | Fat_cputype_differs
  | Command_past_commands nat
  | Command_not_multiple nat nat
  | Command_past_end nat
  | Command_size_zero nat
  | Command_too_small u32 nat
  | Command_size u32 nat
  | Command_twice u32
  | Sections_size u32 nat
  | Field_past_file u32 nat string
  | Segment_filesize nat
  | Section_past_file u32 nat nat string
  | Section_in_headers nat nat
  | Section_size nat nat
  | Section_below_segment nat nat
  | Section_above_segment nat nat
  | Versions_conflict u32
  | Not_catalyst
  | Three_build_versions
  | Platform_not_allowed nat
  | Platforms_differ
  | String_past_command u32 nat string
  | Flavor_past_command u32 nat
  | Count_past_command u32 nat
  | Flavor_count u32 nat u32 nat
  | Registers_past_command u32 u32 nat
  | Flavor_unknown nat u32 nat
  | Cputype_unknown u32 nat
  | Load_command_unknown nat
  | Dysymtab_alone
  | Symbols_past_table string
  | Init_module_past_table u32
  | Hints_differ
  | Sizeofcmds_differs

type_synonym 'a checked = "(mach_error, 'a) result"

abbreviation MH_CORE :: u32 where "MH_CORE \<equiv> 4"
abbreviation MH_DYLIB_STUB :: u32 where "MH_DYLIB_STUB \<equiv> 9"
abbreviation MH_DSYM :: u32 where "MH_DSYM \<equiv> 10"
abbreviation MH_SIM_SUPPORT :: u32 where "MH_SIM_SUPPORT \<equiv> 0x08000000"
abbreviation S_ZEROFILL :: u32 where "S_ZEROFILL \<equiv> 1"
abbreviation S_THREAD_LOCAL_ZEROFILL :: u32 where "S_THREAD_LOCAL_ZEROFILL \<equiv> 0x12"
abbreviation LC_FILESET_ENTRY :: u32 where "LC_FILESET_ENTRY \<equiv> 0x80000035"
abbreviation PLATFORM_MACOS :: u32 where "PLATFORM_MACOS \<equiv> 1"
abbreviation PLATFORM_MACCATALYST :: u32 where "PLATFORM_MACCATALYST \<equiv> 6"
abbreviation PLATFORM_IOSSIMULATOR :: u32 where "PLATFORM_IOSSIMULATOR \<equiv> 7"
abbreviation PLATFORM_TVOSSIMULATOR :: u32 where "PLATFORM_TVOSSIMULATOR \<equiv> 8"
abbreviation PLATFORM_WATCHOSSIMULATOR :: u32 where "PLATFORM_WATCHOSSIMULATOR \<equiv> 9"

text \<open>
  What does not change during the walk: the byte order of the host, whether the object has the other
  one, the header fields (the header of the other width is a null pointer, so its file type is
  \<open>None\<close>), the size of the object and what uninitialised locals hold.
\<close>

record mach_env =
  me_host :: endian
  me_swapped :: bool
  me_filetype :: "u32 option"
  me_filetype64 :: "u32 option"
  me_cputype :: u32
  me_flags :: u32
  me_sizeofhdrs :: u32
  me_size :: u32
  me_sizeof_nlist :: u32
  me_sizeof_dylib_module :: u32
  me_multiple :: nat
  me_stack :: "nat \<Rightarrow> nat \<Rightarrow> u32"

text \<open>
  The object, the parts entered, the commands kept, the commands seen of which there may be only one,
  and the messages that do not end the check.
\<close>

record mach_state =
  ms_object :: bytes
  ms_elements :: "element list"
  ms_st :: "symtab_command option"
  ms_dyst :: "dysymtab_command option"
  ms_rc :: "routines_command option"
  ms_rc64 :: "routines_command_64 option"
  ms_hints :: "twolevel_hints_command option"
  ms_vers :: "version_min_command option"
  ms_bv1 :: "build_version_command option"
  ms_bv2 :: "build_version_command option"
  ms_seen :: "u32 list"
  ms_messages :: "mach_error list"

section \<open>Structures and parts\<close>

text \<open>\<open>if(swapped) swap_\<dots>(\<dots>)\<close> on the \<open>n\<close> bytes at \<open>p\<close>, which the code reads in any case.\<close>

definition swap_in :: "mach_env \<Rightarrow> nat \<Rightarrow> nat \<Rightarrow> (bytes \<Rightarrow> bytes) \<Rightarrow> mach_state \<Rightarrow> mach_state checked" where
  "swap_in env p n f s =
     (case modify_at p n (if me_swapped env then f else id) (ms_object s) of
        Some m \<Rightarrow> Ok (s\<lparr>ms_object := m\<rparr>)
      | None \<Rightarrow> Fault)"

definition take_struct :: "nat \<Rightarrow> (endian \<Rightarrow> bytes \<Rightarrow> 'a) \<Rightarrow> (endian \<Rightarrow> 'a \<Rightarrow> bytes) \<Rightarrow> ('a \<Rightarrow> 'a) \<Rightarrow>
    mach_env \<Rightarrow> nat \<Rightarrow> mach_state \<Rightarrow> (mach_state \<times> 'a) checked" where
  "take_struct sz load store swap env p s =
     bind (swap_in env p sz (inplace load store swap (me_host env)) s) (\<lambda>s.
       Ok (s, load (me_host env) (subbytes p sz (ms_object s))))"

definition take_array :: "nat \<Rightarrow> (endian \<Rightarrow> bytes \<Rightarrow> 'a) \<Rightarrow> (endian \<Rightarrow> 'a \<Rightarrow> bytes) \<Rightarrow> (u32 \<Rightarrow> 'a list \<Rightarrow> 'a list) \<Rightarrow>
    mach_env \<Rightarrow> u32 \<Rightarrow> nat \<Rightarrow> mach_state \<Rightarrow> (mach_state \<times> 'a list) checked" where
  "take_array sz load store swap env n p s =
     bind (swap_in env p (unat n * sz) (swap_array sz load store swap n (me_host env)) s) (\<lambda>s.
       Ok (s, load_array sz load (unat n) (me_host env) (subbytes p (unat n * sz) (ms_object s))))"

definition enter_part :: "string \<Rightarrow> u32 \<Rightarrow> u32 \<Rightarrow> mach_state \<Rightarrow> mach_state checked" where
  "enter_part name offset n s =
     (case check_overlaping_element \<lparr>el_offset = offset, el_size = n, el_name = name\<rparr> (ms_elements s) of
        Inl e \<Rightarrow> Error (Overlapping name e)
      | Inr es \<Rightarrow> Ok (s\<lparr>ms_elements := es\<rparr>))"

text \<open>\<open>big_size\<close>: an offset in the file and what is behind it, in 64 bits.\<close>

definition inside_file :: "mach_env \<Rightarrow> mach_error \<Rightarrow> mach_error \<Rightarrow> u32 \<Rightarrow> u64 \<Rightarrow> unit checked" where
  "inside_file env starts ends offset n =
     bind (guard (\<not> offset > me_size env) starts) (\<lambda>_.
       guard (\<not> n + ucast offset > ucast (me_size env)) ends)"

text \<open>A table of \<open>n\<close> entries that a command places in the file.\<close>

definition check_table :: "mach_env \<Rightarrow> u32 \<Rightarrow> nat \<Rightarrow> string \<Rightarrow> u32 \<Rightarrow> u32 \<Rightarrow> u32 \<Rightarrow> mach_state \<Rightarrow> mach_state checked" where
  "check_table env cmd i name offset n entsize s =
     bind (inside_file env (Field_past_file cmd i name) (Field_past_file cmd i name) offset
             (ucast n * ucast entsize)) (\<lambda>_.
       enter_part name offset (n * entsize) s)"

section \<open>Segments\<close>

text \<open>Sections without contents in the file; for stubs and symbol files that is all of them.\<close>

definition no_contents :: "u32 \<Rightarrow> u32 \<Rightarrow> bool" where
  "no_contents filetype flags \<longleftrightarrow>
     filetype = MH_DYLIB_STUB \<or> filetype = MH_DSYM \<or> flags = S_ZEROFILL \<or> flags = S_THREAD_LOCAL_ZEROFILL"

definition check_relocs :: "mach_env \<Rightarrow> u32 \<Rightarrow> nat \<Rightarrow> nat \<Rightarrow> u32 \<Rightarrow> u32 \<Rightarrow> mach_state \<Rightarrow> mach_state checked" where
  "check_relocs env cmd i j reloff nreloc s =
     bind (inside_file env (Section_past_file cmd i j ''reloff'') (Section_past_file cmd i j ''nreloc'') reloff
             (ucast nreloc * 8)) (\<lambda>_.
       enter_part ''section relocation entries'' reloff (nreloc * 8) s)"

definition check_section :: "mach_env \<Rightarrow> u32 \<Rightarrow> nat \<Rightarrow> segment_command \<Rightarrow> nat \<Rightarrow> section_32 \<Rightarrow> mach_state \<Rightarrow> mach_state checked" where
  "check_section env filetype i sg j sc s =
     (let contents = \<not> no_contents filetype (s_flags sc); placed = (filetype \<noteq> MH_DYLIB_STUB \<and> filetype \<noteq> MH_DSYM)
      in bind (guard (\<not> (contents \<and> s_offset sc > me_size env)) (Section_past_file LC_SEGMENT i j ''offset'')) (\<lambda>_.
         bind (guard (\<not> (contents \<and> sg_fileoff sg = 0 \<and> s_offset sc < me_sizeofhdrs env \<and> s_size sc \<noteq> 0))
                 (Section_in_headers i j)) (\<lambda>_.
         bind (guard (\<not> (contents \<and> (ucast (s_offset sc) + ucast (s_size sc) :: u64) > ucast (me_size env)))
                 (Section_past_file LC_SEGMENT i j ''size'')) (\<lambda>_.
         bind (guard (\<not> (contents \<and> s_size sc > sg_filesize sg)) (Section_size i j)) (\<lambda>_.
         bind (guard (\<not> (placed \<and> s_size sc \<noteq> 0 \<and> s_addr sc < sg_vmaddr sg)) (Section_below_segment i j)) (\<lambda>_.
         bind (guard (\<not> (sg_vmsize sg \<noteq> 0 \<and> s_size sc \<noteq> 0 \<and>
                   (ucast (s_addr sc) + ucast (s_size sc) :: u64) > ucast (sg_vmaddr sg) + ucast (sg_vmsize sg)))
                 (Section_above_segment i j)) (\<lambda>_.
         bind (if contents then enter_part ''section contents'' (s_offset sc) (s_size sc) s else Ok s)
           (check_relocs env LC_SEGMENT i j (s_reloff sc) (s_nreloc sc)))))))))"

fun check_sections :: "mach_env \<Rightarrow> nat \<Rightarrow> segment_command \<Rightarrow> nat \<Rightarrow> section_32 list \<Rightarrow> mach_state \<Rightarrow> mach_state checked" where
  "check_sections env i sg j [] s = Ok s"
| "check_sections env i sg j (sc # scs) s =
     (case me_filetype env of
        None \<Rightarrow> Fault
      | Some filetype \<Rightarrow> bind (check_section env filetype i sg j sc s) (check_sections env i sg (Suc j) scs))"

definition mach_segment :: "mach_env \<Rightarrow> nat \<Rightarrow> nat \<Rightarrow> u32 \<Rightarrow> mach_state \<Rightarrow> mach_state checked" where
  "mach_segment env i lc cmdsize s =
     bind (guard (\<not> unat cmdsize < sizeof_segment_command) (Command_too_small LC_SEGMENT i)) (\<lambda>_.
     bind (take_struct sizeof_segment_command load_segment_command store_segment_command swap_segment_command env lc s) (\<lambda>(s, sg).
     bind (guard (unat (sg_cmdsize sg) = unat (sg_nsects sg) * sizeof_section_32 + sizeof_segment_command)
             (Sections_size LC_SEGMENT i)) (\<lambda>_.
     bind (inside_file env (Field_past_file LC_SEGMENT i ''fileoff'') (Field_past_file LC_SEGMENT i ''filesize'')
             (sg_fileoff sg) (ucast (sg_filesize sg))) (\<lambda>_.
     bind (guard (\<not> (sg_vmsize sg \<noteq> 0 \<and> sg_filesize sg > sg_vmsize sg)) (Segment_filesize i)) (\<lambda>_.
     bind (take_array sizeof_section_32 load_section_32 store_section_32 swap_section env (sg_nsects sg)
             (lc + sizeof_segment_command) s) (\<lambda>(s, scs).
       check_sections env i sg 0 scs s))))))"

text \<open>The sections of 64-bit segments are not compared with the segment.\<close>

definition check_section_64 :: "mach_env \<Rightarrow> u32 \<Rightarrow> nat \<Rightarrow> segment_command_64 \<Rightarrow> nat \<Rightarrow> section_64 \<Rightarrow> mach_state \<Rightarrow> mach_state checked" where
  "check_section_64 env filetype i sg j sc s =
     (let contents = \<not> no_contents filetype (s64_flags sc)
      in bind (guard (\<not> (contents \<and> s64_offset sc > me_size env)) (Section_past_file LC_SEGMENT_64 i j ''offset'')) (\<lambda>_.
         bind (guard (\<not> (contents \<and> sg64_fileoff sg = 0 \<and> s64_offset sc < me_sizeofhdrs env \<and> s64_size sc \<noteq> 0))
                 (Section_in_headers i j)) (\<lambda>_.
         bind (guard (\<not> (contents \<and> ucast (s64_offset sc) + s64_size sc > ucast (me_size env)))
                 (Section_past_file LC_SEGMENT_64 i j ''size'')) (\<lambda>_.
         bind (if contents then enter_part ''section contents'' (s64_offset sc) (ucast (s64_size sc)) s else Ok s)
           (check_relocs env LC_SEGMENT_64 i j (s64_reloff sc) (s64_nreloc sc))))))"

fun check_sections_64 :: "mach_env \<Rightarrow> nat \<Rightarrow> segment_command_64 \<Rightarrow> nat \<Rightarrow> section_64 list \<Rightarrow> mach_state \<Rightarrow> mach_state checked" where
  "check_sections_64 env i sg j [] s = Ok s"
| "check_sections_64 env i sg j (sc # scs) s =
     (case me_filetype64 env of
        None \<Rightarrow> Fault
      | Some filetype \<Rightarrow> bind (check_section_64 env filetype i sg j sc s) (check_sections_64 env i sg (Suc j) scs))"

definition mach_segment_64 :: "mach_env \<Rightarrow> nat \<Rightarrow> nat \<Rightarrow> u32 \<Rightarrow> mach_state \<Rightarrow> mach_state checked" where
  "mach_segment_64 env i lc cmdsize s =
     bind (guard (\<not> unat cmdsize < sizeof_segment_command_64) (Command_too_small LC_SEGMENT_64 i)) (\<lambda>_.
     bind (take_struct sizeof_segment_command_64 load_segment_command_64 store_segment_command_64 swap_segment_command_64 env lc s) (\<lambda>(s, sg).
     bind (guard (unat (sg64_cmdsize sg) = unat (sg64_nsects sg) * sizeof_section_64 + sizeof_segment_command_64)
             (Sections_size LC_SEGMENT_64 i)) (\<lambda>_.
     bind (guard (\<not> sg64_fileoff sg > ucast (me_size env)) (Field_past_file LC_SEGMENT_64 i ''fileoff'')) (\<lambda>_.
     bind (guard (\<not> sg64_fileoff sg + sg64_filesize sg > ucast (me_size env)) (Field_past_file LC_SEGMENT_64 i ''filesize'')) (\<lambda>_.
     bind (take_array sizeof_section_64 load_section_64 store_section_64 swap_section_64 env (sg64_nsects sg)
             (lc + sizeof_segment_command_64) s) (\<lambda>(s, scs).
       check_sections_64 env i sg 0 scs s))))))"

section \<open>Symbol tables\<close>

definition once :: "bool \<Rightarrow> u32 \<Rightarrow> unit checked" where
  "once seen cmd = guard (\<not> seen) (Command_twice cmd)"

definition mach_symtab :: "mach_env \<Rightarrow> nat \<Rightarrow> nat \<Rightarrow> u32 \<Rightarrow> mach_state \<Rightarrow> mach_state checked" where
  "mach_symtab env i lc cmdsize s =
     bind (guard (\<not> unat cmdsize < sizeof_symtab_command) (Command_too_small LC_SYMTAB i)) (\<lambda>_.
     bind (once (ms_st s \<noteq> None) LC_SYMTAB) (\<lambda>_.
     bind (take_struct sizeof_symtab_command load_symtab_command store_symtab_command swap_symtab_command env lc s) (\<lambda>(s, st).
     bind (guard (unat (st_cmdsize st) = sizeof_symtab_command) (Command_size LC_SYMTAB i)) (\<lambda>_.
     bind (check_table env LC_SYMTAB i ''symbol table'' (st_symoff st) (st_nsyms st) (me_sizeof_nlist env)
             (s\<lparr>ms_st := Some st\<rparr>))
       (check_table env LC_SYMTAB i ''string table'' (st_stroff st) (st_strsize st) 1)))))"

definition sizeof_dylib_reference :: u32 where
  "sizeof_dylib_reference = 4"

definition mach_dysymtab :: "mach_env \<Rightarrow> nat \<Rightarrow> nat \<Rightarrow> u32 \<Rightarrow> mach_state \<Rightarrow> mach_state checked" where
  "mach_dysymtab env i lc cmdsize s =
     bind (guard (\<not> unat cmdsize < sizeof_dysymtab_command) (Command_too_small LC_DYSYMTAB i)) (\<lambda>_.
     bind (once (ms_dyst s \<noteq> None) LC_DYSYMTAB) (\<lambda>_.
     bind (take_struct sizeof_dysymtab_command load_dysymtab_command store_dysymtab_command swap_dysymtab_command env lc s) (\<lambda>(s, dy).
     bind (guard (unat (dyst_cmdsize dy) = sizeof_dysymtab_command) (Command_size LC_DYSYMTAB i)) (\<lambda>_.
     bind (check_table env LC_DYSYMTAB i ''table of contents'' (dyst_tocoff dy) (dyst_ntoc dy) 8
             (s\<lparr>ms_dyst := Some dy\<rparr>)) (\<lambda>s.
     bind (check_table env LC_DYSYMTAB i ''module table'' (dyst_modtaboff dy) (dyst_nmodtab dy)
             (me_sizeof_dylib_module env) s) (\<lambda>s.
     bind (check_table env LC_DYSYMTAB i ''reference table'' (dyst_extrefsymoff dy) (dyst_nextrefsyms dy)
             sizeof_dylib_reference s) (\<lambda>s.
     bind (check_table env LC_DYSYMTAB i ''indirect table'' (dyst_indirectsymoff dy) (dyst_nindirectsyms dy) 4 s) (\<lambda>s.
     bind (check_table env LC_DYSYMTAB i ''external relocation table'' (dyst_extreloff dy) (dyst_nextrel dy) 8 s) (\<lambda>s.
       check_table env LC_DYSYMTAB i ''local relocation table'' (dyst_locreloff dy) (dyst_nlocrel dy) 8 s)))))))))"

definition mach_routines :: "mach_env \<Rightarrow> nat \<Rightarrow> nat \<Rightarrow> u32 \<Rightarrow> mach_state \<Rightarrow> mach_state checked" where
  "mach_routines env i lc cmdsize s =
     bind (guard (\<not> unat cmdsize < sizeof_routines_command) (Command_too_small LC_ROUTINES i)) (\<lambda>_.
     bind (once (ms_rc s \<noteq> None) LC_ROUTINES) (\<lambda>_.
     bind (take_struct sizeof_routines_command load_routines_command store_routines_command swap_routines_command env lc s) (\<lambda>(s, rc).
     bind (guard (unat (rc_cmdsize rc) = sizeof_routines_command) (Command_size LC_ROUTINES i)) (\<lambda>_.
       Ok (s\<lparr>ms_rc := Some rc\<rparr>)))))"

definition mach_routines_64 :: "mach_env \<Rightarrow> nat \<Rightarrow> nat \<Rightarrow> u32 \<Rightarrow> mach_state \<Rightarrow> mach_state checked" where
  "mach_routines_64 env i lc cmdsize s =
     bind (guard (\<not> unat cmdsize < sizeof_routines_command_64) (Command_too_small LC_ROUTINES_64 i)) (\<lambda>_.
     bind (once (ms_rc64 s \<noteq> None) LC_ROUTINES_64) (\<lambda>_.
     bind (take_struct sizeof_routines_command_64 load_routines_command_64 store_routines_command_64 swap_routines_command_64 env lc s) (\<lambda>(s, rc).
     bind (guard (unat (rc64_cmdsize rc) = sizeof_routines_command_64) (Command_size LC_ROUTINES_64 i)) (\<lambda>_.
       Ok (s\<lparr>ms_rc64 := Some rc\<rparr>)))))"

definition mach_hints :: "mach_env \<Rightarrow> nat \<Rightarrow> nat \<Rightarrow> u32 \<Rightarrow> mach_state \<Rightarrow> mach_state checked" where
  "mach_hints env i lc cmdsize s =
     bind (guard (\<not> unat cmdsize < sizeof_twolevel_hints_command) (Command_too_small LC_TWOLEVEL_HINTS i)) (\<lambda>_.
     bind (once (ms_hints s \<noteq> None) LC_TWOLEVEL_HINTS) (\<lambda>_.
     bind (take_struct sizeof_twolevel_hints_command load_twolevel_hints_command store_twolevel_hints_command swap_twolevel_hints_command env lc s) (\<lambda>(s, hints).
     bind (guard (unat (hints_cmdsize hints) = sizeof_twolevel_hints_command) (Command_size LC_TWOLEVEL_HINTS i)) (\<lambda>_.
       check_table env LC_TWOLEVEL_HINTS i ''two level hints'' (hints_offset hints) (hints_nhints hints) 4
         (s\<lparr>ms_hints := Some hints\<rparr>)))))"

text \<open>The data of the link editor: one case per command, one check.  That there is only one is tested before the size.\<close>

definition linkedit_commands :: "(u32 \<times> string) list" where
  "linkedit_commands =
     [(LC_SEGMENT_SPLIT_INFO, ''split info data''),
      (LC_ATOM_INFO, ''atom info''),
      (LC_CODE_SIGNATURE, ''code signature data''),
      (LC_FUNCTION_STARTS, ''function starts data''),
      (LC_DATA_IN_CODE, ''data in code info''),
      (LC_DYLIB_CODE_SIGN_DRS, ''dylib codesign designated requirements data''),
      (LC_LINKER_OPTIMIZATION_HINT, ''linker optimization hint''),
      (LC_DYLD_EXPORTS_TRIE, ''exports trie''),
      (LC_DYLD_CHAINED_FIXUPS, ''chained fixups'')]"

definition mach_linkedit :: "mach_env \<Rightarrow> u32 \<Rightarrow> string \<Rightarrow> nat \<Rightarrow> nat \<Rightarrow> u32 \<Rightarrow> mach_state \<Rightarrow> mach_state checked" where
  "mach_linkedit env cmd name i lc cmdsize s =
     bind (once (cmd \<in> set (ms_seen s)) cmd) (\<lambda>_.
     bind (guard (\<not> unat cmdsize < sizeof_linkedit_data_command) (Command_too_small cmd i)) (\<lambda>_.
     bind (take_struct sizeof_linkedit_data_command load_linkedit_data_command store_linkedit_data_command swap_linkedit_data_command env lc s) (\<lambda>(s, ld).
     bind (guard (unat (ld_cmdsize ld) = sizeof_linkedit_data_command) (Command_size cmd i)) (\<lambda>_.
       check_table env cmd i name (ld_dataoff ld) (ld_datasize ld) 1 (s\<lparr>ms_seen := cmd # ms_seen s\<rparr>)))))"

section \<open>Versions\<close>

definition mach_version_min :: "mach_env \<Rightarrow> u32 \<Rightarrow> nat \<Rightarrow> nat \<Rightarrow> u32 \<Rightarrow> mach_state \<Rightarrow> mach_state checked" where
  "mach_version_min env cmd i lc cmdsize s =
     bind (guard (\<not> unat cmdsize < sizeof_version_min_command) (Command_too_small cmd i)) (\<lambda>_.
     bind (once (ms_vers s \<noteq> None) cmd) (\<lambda>_.
     bind (guard (cmd = LC_VERSION_MIN_MACOSX \<or> ms_bv1 s = None) (Versions_conflict cmd)) (\<lambda>_.
     bind (take_struct sizeof_version_min_command load_version_min_command store_version_min_command swap_version_min_command env lc s) (\<lambda>(s, vers).
     bind (guard (\<not> unat (vc_cmdsize vers) < sizeof_version_min_command) (Command_too_small cmd i)) (\<lambda>_.
     bind (guard (\<not> (cmd = LC_VERSION_MIN_MACOSX \<and> map_option bv_platform (ms_bv1 s) = Some PLATFORM_MACOS))
             (Versions_conflict cmd)) (\<lambda>_.
       Ok (s\<lparr>ms_vers := Some vers\<rparr>)))))))"

definition sim_platform :: "u32 \<Rightarrow> bool" where
  "sim_platform p \<longleftrightarrow> p = PLATFORM_MACOS \<or> p = PLATFORM_MACCATALYST \<or> p = PLATFORM_IOSSIMULATOR \<or>
     p = PLATFORM_TVOSSIMULATOR \<or> p = PLATFORM_WATCHOSSIMULATOR"

definition mac_pair :: "u32 \<Rightarrow> u32 \<Rightarrow> bool" where
  "mac_pair p1 p2 \<longleftrightarrow>
     \<not> ((p1 \<noteq> PLATFORM_MACOS \<and> p1 \<noteq> PLATFORM_MACCATALYST) \<or>
        (p1 = PLATFORM_MACOS \<and> p2 \<noteq> PLATFORM_MACCATALYST) \<or> (p1 = PLATFORM_MACCATALYST \<and> p2 \<noteq> PLATFORM_MACOS))"

definition message :: "mach_error \<Rightarrow> mach_state \<Rightarrow> mach_state" where
  "message err s = s\<lparr>ms_messages := ms_messages s @ [err]\<rparr>"

text \<open>Three of the messages about platforms are printed and the check goes on.\<close>

definition build_platform :: "mach_env \<Rightarrow> nat \<Rightarrow> build_version_command \<Rightarrow> mach_state \<Rightarrow> mach_state" where
  "build_platform env i bv s =
     (let sim = (me_flags env AND MH_SIM_SUPPORT \<noteq> 0)
      in case ms_bv1 s of
           None \<Rightarrow>
             let s = s\<lparr>ms_bv1 := Some bv\<rparr>
             in if sim \<and> \<not> sim_platform (bv_platform bv) then message (Platform_not_allowed i) s else s
         | Some bv1 \<Rightarrow>
             let s = s\<lparr>ms_bv2 := Some bv\<rparr>
             in if mac_pair (bv_platform bv1) (bv_platform bv) then s
                else if \<not> sim then message Platforms_differ s
                else if \<not> sim_platform (bv_platform bv) then message (Platform_not_allowed i) s
                else s)"

definition mach_build_version :: "mach_env \<Rightarrow> nat \<Rightarrow> nat \<Rightarrow> u32 \<Rightarrow> mach_state \<Rightarrow> mach_state checked" where
  "mach_build_version env i lc cmdsize s =
     bind (guard (\<not> unat cmdsize < sizeof_build_version_command) (Command_too_small LC_BUILD_VERSION i)) (\<lambda>_.
     bind (guard (case ms_vers s of Some v \<Rightarrow> vc_cmd v = LC_VERSION_MIN_MACOSX | None \<Rightarrow> True) (Versions_conflict LC_BUILD_VERSION)) (\<lambda>_.
     let s = (if ms_bv1 s \<noteq> None \<and> ms_bv2 s \<noteq> None \<and> me_flags env AND MH_SIM_SUPPORT = 0
              then message Three_build_versions s else s)
     in bind (take_struct sizeof_build_version_command load_build_version_command store_build_version_command swap_build_version_command env lc s) (\<lambda>(s, bv).
        bind (guard (\<not> unat (bv_cmdsize bv) < sizeof_build_version_command + unat (bv_ntools bv) * sizeof_build_tool_version)
                (Command_too_small LC_BUILD_VERSION i)) (\<lambda>_.
        bind (take_array sizeof_build_tool_version load_build_tool_version store_build_tool_version swap_build_tool_version env
                (bv_ntools bv) (lc + sizeof_build_version_command) s) (\<lambda>(s, _).
        bind (guard (case ms_vers s of Some v \<Rightarrow> \<not> (vc_cmd v = LC_VERSION_MIN_MACOSX \<and> bv_platform bv \<noteq> PLATFORM_MACCATALYST) | None \<Rightarrow> True)
                Not_catalyst) (\<lambda>_.
          Ok (build_platform env i bv s)))))))"

section \<open>Commands that place one part in the file\<close>

definition mach_encryption :: "mach_env \<Rightarrow> nat \<Rightarrow> nat \<Rightarrow> u32 \<Rightarrow> mach_state \<Rightarrow> mach_state checked" where
  "mach_encryption env i lc cmdsize s =
     bind (guard (\<not> unat cmdsize < sizeof_encryption_info_command) (Command_too_small LC_ENCRYPTION_INFO i)) (\<lambda>_.
     bind (take_struct sizeof_encryption_info_command load_encryption_info_command store_encryption_info_command swap_encryption_command env lc s) (\<lambda>(s, ec).
     bind (guard (unat (ec_cmdsize ec) = sizeof_encryption_info_command) (Command_size LC_ENCRYPTION_INFO i)) (\<lambda>_.
     bind (inside_file env (Field_past_file LC_ENCRYPTION_INFO i ''cryptoff'') (Field_past_file LC_ENCRYPTION_INFO i ''cryptsize'')
             (ec_cryptoff ec) (ucast (ec_cryptsize ec))) (\<lambda>_.
       Ok s))))"

definition mach_encryption_64 :: "mach_env \<Rightarrow> nat \<Rightarrow> nat \<Rightarrow> u32 \<Rightarrow> mach_state \<Rightarrow> mach_state checked" where
  "mach_encryption_64 env i lc cmdsize s =
     bind (guard (\<not> unat cmdsize < sizeof_encryption_info_command_64) (Command_too_small LC_ENCRYPTION_INFO_64 i)) (\<lambda>_.
     bind (take_struct sizeof_encryption_info_command_64 load_encryption_info_command_64 store_encryption_info_command_64 swap_encryption_command_64 env lc s) (\<lambda>(s, ec).
     bind (guard (unat (ec64_cmdsize ec) = sizeof_encryption_info_command_64) (Command_size LC_ENCRYPTION_INFO_64 i)) (\<lambda>_.
     bind (inside_file env (Field_past_file LC_ENCRYPTION_INFO_64 i ''cryptoff'') (Field_past_file LC_ENCRYPTION_INFO_64 i ''cryptsize'')
             (ec64_cryptoff ec) (ucast (ec64_cryptsize ec))) (\<lambda>_.
       Ok s))))"

text \<open>An offset of 0 is not compared with the size of the file, but the part is entered.\<close>

definition check_dyld_part :: "mach_env \<Rightarrow> nat \<Rightarrow> string \<Rightarrow> u32 \<Rightarrow> u32 \<Rightarrow> mach_state \<Rightarrow> mach_state checked" where
  "check_dyld_part env i name offset n s =
     bind (if offset \<noteq> 0 then
             inside_file env (Field_past_file LC_DYLD_INFO i name) (Field_past_file LC_DYLD_INFO i name) offset (ucast n)
           else Ok ()) (\<lambda>_.
       enter_part name offset n s)"

definition mach_dyld_info :: "mach_env \<Rightarrow> u32 \<Rightarrow> nat \<Rightarrow> nat \<Rightarrow> u32 \<Rightarrow> mach_state \<Rightarrow> mach_state checked" where
  "mach_dyld_info env cmd i lc cmdsize s =
     bind (guard (\<not> unat cmdsize < sizeof_dyld_info_command) (Command_too_small cmd i)) (\<lambda>_.
     bind (take_struct sizeof_dyld_info_command load_dyld_info_command store_dyld_info_command swap_dyld_info_command env lc s) (\<lambda>(s, dc).
     bind (guard (unat (dc_cmdsize dc) = sizeof_dyld_info_command) (Command_size LC_DYLD_INFO i)) (\<lambda>_.
     bind (check_dyld_part env i ''dyld rebase info'' (dc_rebase_off dc) (dc_rebase_size dc) s) (\<lambda>s.
     bind (check_dyld_part env i ''dyld bind info'' (dc_bind_off dc) (dc_bind_size dc) s) (\<lambda>s.
     bind (check_dyld_part env i ''dyld bind info'' (dc_weak_bind_off dc) (dc_weak_bind_size dc) s) (\<lambda>s.
     bind (check_dyld_part env i ''dyld lazy bind info'' (dc_lazy_bind_off dc) (dc_lazy_bind_size dc) s) (\<lambda>s.
       check_dyld_part env i ''dyld export info'' (dc_export_off dc) (dc_export_size dc) s)))))))"

definition mach_symseg :: "mach_env \<Rightarrow> nat \<Rightarrow> nat \<Rightarrow> u32 \<Rightarrow> mach_state \<Rightarrow> mach_state checked" where
  "mach_symseg env i lc cmdsize s =
     bind (guard (\<not> unat cmdsize < sizeof_symseg_command) (Command_too_small LC_SYMSEG i)) (\<lambda>_.
     bind (take_struct sizeof_symseg_command load_symseg_command store_symseg_command swap_symseg_command env lc s) (\<lambda>(s, ss).
     bind (guard (unat (ss_cmdsize ss) = sizeof_symseg_command) (Command_size LC_SYMSEG i)) (\<lambda>_.
       check_table env LC_SYMSEG i ''symseg info'' (ss_offset ss) (ss_size ss) 1 s)))"

definition mach_note :: "mach_env \<Rightarrow> nat \<Rightarrow> nat \<Rightarrow> u32 \<Rightarrow> mach_state \<Rightarrow> mach_state checked" where
  "mach_note env i lc cmdsize s =
     bind (guard (unat cmdsize = sizeof_note_command) (Command_size LC_NOTE i)) (\<lambda>_.
     bind (take_struct sizeof_note_command load_note_command store_note_command swap_note_command env lc s) (\<lambda>(s, nc).
     bind (guard (\<not> nc_offset nc > ucast (me_size env)) (Field_past_file LC_NOTE i ''offset'')) (\<lambda>_.
     bind (guard (\<not> nc_offset nc + nc_size nc > ucast (me_size env)) (Field_past_file LC_NOTE i ''size'')) (\<lambda>_.
       Ok s))))"

section \<open>Commands with strings and commands that are only measured\<close>

text \<open>
  A row is the command, the size of its structure, its swap, the size that is asked for once it is
  swapped and where the offsets of strings are.  For \<open>LC_PREBOUND_DYLIB\<close> that size is the one of
  \<open>struct dylib_command\<close>.
\<close>

type_synonym string_row = "u32 \<times> nat \<times> (bytes \<Rightarrow> bytes) \<times> nat \<times> nat list"

definition library_strings :: "endian \<Rightarrow> string_row list" where
  "library_strings e =
     (let fvm = inplace load_fvmlib_command store_fvmlib_command swap_fvmlib_command e;
          dl = inplace load_dylib_command store_dylib_command swap_dylib_command e
      in [(LC_IDFVMLIB, sizeof_fvmlib_command, fvm, sizeof_fvmlib_command, [8]),
          (LC_LOADFVMLIB, sizeof_fvmlib_command, fvm, sizeof_fvmlib_command, [8]),
          (LC_ID_DYLIB, sizeof_dylib_command, dl, sizeof_dylib_command, [8]),
          (LC_LOAD_DYLIB, sizeof_dylib_command, dl, sizeof_dylib_command, [8]),
          (LC_LOAD_WEAK_DYLIB, sizeof_dylib_command, dl, sizeof_dylib_command, [8]),
          (LC_REEXPORT_DYLIB, sizeof_dylib_command, dl, sizeof_dylib_command, [8]),
          (LC_LOAD_UPWARD_DYLIB, sizeof_dylib_command, dl, sizeof_dylib_command, [8]),
          (LC_LAZY_LOAD_DYLIB, sizeof_dylib_command, dl, sizeof_dylib_command, [8])])"

definition sub_strings :: "endian \<Rightarrow> string_row list" where
  "sub_strings e =
     [(LC_SUB_FRAMEWORK, sizeof_sub_framework_command,
        inplace load_sub_framework_command store_sub_framework_command swap_sub_framework_command e,
        sizeof_sub_framework_command, [8]),
      (LC_SUB_UMBRELLA, sizeof_sub_umbrella_command,
        inplace load_sub_umbrella_command store_sub_umbrella_command swap_sub_umbrella_command e,
        sizeof_sub_umbrella_command, [8]),
      (LC_SUB_LIBRARY, sizeof_sub_library_command,
        inplace load_sub_library_command store_sub_library_command swap_sub_library_command e,
        sizeof_sub_library_command, [8]),
      (LC_SUB_CLIENT, sizeof_sub_client_command,
        inplace load_sub_client_command store_sub_client_command swap_sub_client_command e,
        sizeof_sub_client_command, [8])]"

definition linker_strings :: "endian \<Rightarrow> string_row list" where
  "linker_strings e =
     (let dyld = inplace load_dylinker_command store_dylinker_command swap_dylinker_command e
      in [(LC_PREBOUND_DYLIB, sizeof_prebound_dylib_command,
            inplace load_prebound_dylib_command store_prebound_dylib_command swap_prebound_dylib_command e,
            sizeof_dylib_command, [8, 16]),
          (LC_ID_DYLINKER, sizeof_dylinker_command, dyld, sizeof_dylinker_command, [8]),
          (LC_LOAD_DYLINKER, sizeof_dylinker_command, dyld, sizeof_dylinker_command, [8]),
          (LC_DYLD_ENVIRONMENT, sizeof_dylinker_command, dyld, sizeof_dylinker_command, [8]),
          (LC_RPATH, sizeof_rpath_command,
            inplace load_rpath_command store_rpath_command swap_rpath_command e, sizeof_rpath_command, [8]),
          (LC_FILESET_ENTRY, sizeof_fileset_entry_command,
            inplace load_fileset_entry_command store_fileset_entry_command swap_fileset_entry_command e,
            sizeof_fileset_entry_command, [24])])"

text \<open>Commands of which only the size is checked; the link options only by the same comparison twice.\<close>

definition measured_only :: "endian \<Rightarrow> string_row list" where
  "measured_only e =
     [(LC_MAIN, sizeof_entry_point_command,
        inplace load_entry_point_command store_entry_point_command swap_entry_point_command e, 0, []),
      (LC_SOURCE_VERSION, sizeof_source_version_command,
        inplace load_source_version_command store_source_version_command swap_source_version_command e, 0, []),
      (LC_IDENT, sizeof_ident_command,
        inplace load_ident_command store_ident_command swap_ident_command e, 0, []),
      (LC_LINKER_OPTION, sizeof_linker_option_command,
        inplace load_linker_option_command store_linker_option_command swap_linker_option_command e,
        sizeof_linker_option_command, [])]"

definition mach_strings :: "endian \<Rightarrow> string_row list" where
  "mach_strings e = library_strings e @ sub_strings e @ linker_strings e @ measured_only e"

fun strings_inside :: "mach_env \<Rightarrow> u32 \<Rightarrow> nat \<Rightarrow> nat \<Rightarrow> u32 \<Rightarrow> nat list \<Rightarrow> bytes \<Rightarrow> unit checked" where
  "strings_inside env cmd i lc cmdsize [] m = Ok ()"
| "strings_inside env cmd i lc cmdsize (off # offs) m =
     bind (read_u32 (me_host env) m (lc + off)) (\<lambda>v.
     bind (guard (\<not> v \<ge> cmdsize) (String_past_command cmd i ''offset'')) (\<lambda>_.
       strings_inside env cmd i lc cmdsize offs m))"

definition mach_string :: "mach_env \<Rightarrow> u32 \<Rightarrow> nat \<times> (bytes \<Rightarrow> bytes) \<times> nat \<times> nat list \<Rightarrow> nat \<Rightarrow> nat \<Rightarrow> u32 \<Rightarrow>
    mach_state \<Rightarrow> mach_state checked" where
  "mach_string env cmd row i lc cmdsize s =
     (case row of (sz, f, smallest, offs) \<Rightarrow>
        bind (guard (\<not> unat cmdsize < sz) (Command_too_small cmd i)) (\<lambda>_.
        bind (swap_in env lc sz f s) (\<lambda>s.
        bind (read_u32 (me_host env) (ms_object s) (lc + 4)) (\<lambda>swapped_size.
        bind (guard (\<not> unat swapped_size < smallest) (Command_too_small cmd i)) (\<lambda>_.
        bind (strings_inside env cmd i lc swapped_size offs (ms_object s)) (\<lambda>_.
          Ok s))))))"

text \<open>Commands of one size, of which there is only one.\<close>

definition single_commands :: "endian \<Rightarrow> (u32 \<times> nat \<times> (bytes \<Rightarrow> bytes)) list" where
  "single_commands e =
     [(LC_PREBIND_CKSUM, sizeof_prebind_cksum_command,
        inplace load_prebind_cksum_command store_prebind_cksum_command swap_prebind_cksum_command e),
      (LC_UUID, sizeof_uuid_command, inplace load_uuid_command store_uuid_command swap_uuid_command e)]"

definition mach_single :: "mach_env \<Rightarrow> u32 \<Rightarrow> nat \<times> (bytes \<Rightarrow> bytes) \<Rightarrow> nat \<Rightarrow> nat \<Rightarrow> u32 \<Rightarrow> mach_state \<Rightarrow> mach_state checked" where
  "mach_single env cmd row i lc cmdsize s =
     bind (guard (\<not> unat cmdsize < fst row) (Command_too_small cmd i)) (\<lambda>_.
     bind (once (cmd \<in> set (ms_seen s)) cmd) (\<lambda>_.
     bind (swap_in env lc (fst row) (snd row) s) (\<lambda>s.
     bind (read_u32 (me_host env) (ms_object s) (lc + 4)) (\<lambda>swapped_size.
     bind (guard (unat swapped_size = fst row) (Command_size cmd i)) (\<lambda>_.
       Ok (s\<lparr>ms_seen := cmd # ms_seen s\<rparr>))))))"

section \<open>Threads\<close>

text \<open>
  A case of the switch over the flavors: registers of a count of words and a size, with their swap, or,
  for the i860, words that are passed over.
\<close>

datatype flavor_case =
    Registers nat nat "(nat \<Rightarrow> u32) \<Rightarrow> bytes \<Rightarrow> bytes"
  | Passed_over

definition mach_m68k :: "endian \<Rightarrow> (u32 \<times> flavor_case) list" where
  "mach_m68k e =
     [(1, Registers (sizeof_m68k_thread_state_regs div 4) sizeof_m68k_thread_state_regs
            (\<lambda>_. inplace load_m68k_thread_state_regs store_m68k_thread_state_regs swap_m68k_thread_state_regs e)),
      (2, Registers (sizeof_m68k_thread_state_68882 div 4) sizeof_m68k_thread_state_68882
            (\<lambda>_. inplace load_m68k_thread_state_68882 store_m68k_thread_state_68882 swap_m68k_thread_state_68882 e)),
      (3, Registers (sizeof_m68k_thread_state_user_reg div 4) sizeof_m68k_thread_state_user_reg
            (\<lambda>_. inplace load_m68k_thread_state_user_reg store_m68k_thread_state_user_reg swap_m68k_thread_state_user_reg e))]"

definition mach_ppc :: "endian \<Rightarrow> (u32 \<times> flavor_case) list" where
  "mach_ppc e =
     [(1, Registers (sizeof_ppc_thread_state div 4) sizeof_ppc_thread_state
            (\<lambda>_. inplace load_ppc_thread_state store_ppc_thread_state swap_ppc_thread_state_t e))]"

definition mach_ppc64 :: "endian \<Rightarrow> (u32 \<times> flavor_case) list" where
  "mach_ppc64 e =
     [(5, Registers (sizeof_ppc_thread_state64 div 4) sizeof_ppc_thread_state64
            (\<lambda>_. inplace load_ppc_thread_state64 store_ppc_thread_state64 swap_ppc_thread_state64_t e))]"

definition mach_m88k :: "endian \<Rightarrow> (u32 \<times> flavor_case) list" where
  "mach_m88k e =
     [(1, Registers (sizeof_m88k_thread_state_grf div 4) sizeof_m88k_thread_state_grf
            (\<lambda>_. inplace load_m88k_thread_state_grf store_m88k_thread_state_grf swap_m88k_thread_state_grf_t e)),
      (2, Registers (sizeof_m88k_thread_state_xrf div 4) sizeof_m88k_thread_state_xrf (\<lambda>junk.
            inplace load_m88k_thread_state_xrf store_m88k_thread_state_xrf (swap_m88k_thread_state_xrf_t e True (junk 0) (junk 1)) e)),
      (3, Registers (sizeof_m88k_thread_state_user div 4) sizeof_m88k_thread_state_user
            (\<lambda>_. inplace load_m88k_thread_state_user store_m88k_thread_state_user swap_m88k_thread_state_user_t e)),
      (4, Registers (sizeof_m88110_thread_state_impl div 4) sizeof_m88110_thread_state_impl (\<lambda>junk.
            inplace load_m88110_thread_state_impl store_m88110_thread_state_impl
              (swap_m88110_thread_state_impl_t e True (junk 0) (junk 1) (junk 2)) e))]"

definition mach_i860 :: "endian \<Rightarrow> (u32 \<times> flavor_case) list" where
  "mach_i860 e = [(4, Passed_over)]"

definition mach_i386 :: "endian \<Rightarrow> (u32 \<times> flavor_case) list" where
  "mach_i386 e =
     (let regs = Registers (sizeof_i386_thread_state div 4) sizeof_i386_thread_state
                   (\<lambda>_. inplace load_i386_thread_state store_i386_thread_state swap_i386_thread_state e)
      in [(1, regs), (0xffffffff, regs),
          (2, Registers (sizeof_i386_float_state div 4) sizeof_i386_float_state (\<lambda>junk.
                inplace load_i386_float_state store_i386_float_state (swap_i386_float_state e True (ucast (junk 0)) (ucast (junk 1))) e)),
          (3, Registers (sizeof_i386_exception_state div 4) sizeof_i386_exception_state
                (\<lambda>_. inplace load_i386_exception_state store_i386_exception_state swap_i386_exception_state e))])"

definition mach_x86_64 :: "endian \<Rightarrow> (u32 \<times> flavor_case) list" where
  "mach_x86_64 e =
     [(4, Registers (sizeof_x86_thread_state64 div 4) sizeof_x86_thread_state64
            (\<lambda>_. inplace load_x86_thread_state64 store_x86_thread_state64 swap_x86_thread_state64 e))]"

definition mach_hppa :: "endian \<Rightarrow> (u32 \<times> flavor_case) list" where
  "mach_hppa e =
     [(1, Registers (sizeof_hp_pa_integer_thread_state div 4) sizeof_hp_pa_integer_thread_state
            (\<lambda>_. inplace load_hp_pa_integer_thread_state store_hp_pa_integer_thread_state swap_hppa_integer_thread_state e)),
      (2, Registers (sizeof_hp_pa_frame_thread_state div 4) sizeof_hp_pa_frame_thread_state
            (\<lambda>_. inplace load_hp_pa_frame_thread_state store_hp_pa_frame_thread_state swap_hppa_frame_thread_state e)),
      (3, Registers (sizeof_hp_pa_fp_thread_state div 4) sizeof_hp_pa_fp_thread_state
            (\<lambda>_. inplace load_hp_pa_fp_thread_state store_hp_pa_fp_thread_state swap_hppa_fp_thread_state e))]"

definition mach_sparc :: "endian \<Rightarrow> (u32 \<times> flavor_case) list" where
  "mach_sparc e =
     [(1, Registers (sizeof_sparc_thread_state_regs div 4) sizeof_sparc_thread_state_regs (\<lambda>junk.
            inplace load_sparc_thread_state_regs store_sparc_thread_state_regs (swap_sparc_thread_state_regs e True (junk 0)) e)),
      (2, Registers (sizeof_sparc_thread_state_fpu div 4) sizeof_sparc_thread_state_fpu (\<lambda>junk.
            inplace load_sparc_thread_state_fpu store_sparc_thread_state_fpu (swap_sparc_thread_state_fpu e True (junk 0)) e))]"

definition mach_arm :: "endian \<Rightarrow> (u32 \<times> flavor_case) list" where
  "mach_arm e =
     [(1, Registers (sizeof_arm_thread_state div 4) sizeof_arm_thread_state
            (\<lambda>_. inplace load_arm_thread_state store_arm_thread_state swap_arm_thread_state_t e))]"

definition mach_arm64 :: "endian \<Rightarrow> (u32 \<times> flavor_case) list" where
  "mach_arm64 e =
     [(6, Registers (sizeof_arm_thread_state64 div 4) sizeof_arm_thread_state64
            (\<lambda>_. inplace load_arm_thread_state64 store_arm_thread_state64 swap_arm_thread_state64_t e))]"

definition mach_flavors :: "endian \<Rightarrow> u32 \<Rightarrow> (u32 \<times> flavor_case) list option" where
  "mach_flavors e cputype =
     (if cputype = CPU_TYPE_MC680x0 then Some (mach_m68k e)
      else if cputype = CPU_TYPE_POWERPC \<or> cputype = CPU_TYPE_VEO then Some (mach_ppc e)
      else if cputype = CPU_TYPE_POWERPC64 then Some (mach_ppc64 e)
      else if cputype = CPU_TYPE_MC88000 then Some (mach_m88k e)
      else if cputype = CPU_TYPE_I860 then Some (mach_i860 e)
      else if cputype = CPU_TYPE_I386 then Some (mach_i386 e)
      else if cputype = CPU_TYPE_X86_64 then Some (mach_x86_64 e)
      else if cputype = CPU_TYPE_HPPA then Some (mach_hppa e)
      else if cputype = CPU_TYPE_SPARC then Some (mach_sparc e)
      else if cputype = CPU_TYPE_ARM then Some (mach_arm e)
      else if cputype = CPU_TYPE_ARM64 \<or> cputype = CPU_TYPE_ARM64_32 then Some (mach_arm64 e)
      else None)"

text \<open>A word that is swapped in place before it is read.\<close>

definition take_word :: "mach_env \<Rightarrow> nat \<Rightarrow> mach_state \<Rightarrow> (mach_state \<times> u32) checked" where
  "take_word env p s =
     bind (swap_in env p 4 (\<lambda>b. put32 (me_host env) (SWAP_INT (get32 (me_host env) b 0))) s) (\<lambda>s.
       Ok (s, get32 (me_host env) (ms_object s) p))"

text \<open>One flavor: the state and where the next one is.\<close>

definition flavor_body :: "mach_env \<Rightarrow> (u32 \<times> flavor_case) list \<Rightarrow> u32 \<Rightarrow> nat \<Rightarrow> nat \<Rightarrow> nat \<Rightarrow> nat \<Rightarrow> u32 \<Rightarrow> u32 \<Rightarrow>
    mach_state \<Rightarrow> (mach_state \<times> nat) checked" where
  "flavor_body env table cmd i nflavor state p flavor count s =
     (case map_of table flavor of
        Some (Registers n sz f) \<Rightarrow>
          bind (guard (unat count = n) (Flavor_count flavor nflavor cmd i)) (\<lambda>_.
          bind (guard (\<not> state + 8 + sz > p) (Registers_past_command flavor cmd i)) (\<lambda>_.
          bind (swap_in env (state + 8) sz (f (me_stack env (state + 8))) s) (\<lambda>s.
            Ok (s, state + 8 + sz))))
      | Some Passed_over \<Rightarrow> Ok (s, state + 8 + unat count * 4)
      | None \<Rightarrow>
          bind (guard (\<not> me_swapped env) (Flavor_unknown nflavor cmd i)) (\<lambda>_.
            Ok (s, state + 8 + unat count * 4)))"

definition check_flavor :: "mach_env \<Rightarrow> (u32 \<times> flavor_case) list \<Rightarrow> u32 \<Rightarrow> nat \<Rightarrow> nat \<Rightarrow> nat \<Rightarrow> nat \<Rightarrow> mach_state \<Rightarrow>
    (mach_state \<times> nat) checked" where
  "check_flavor env table cmd i nflavor state p s =
     bind (guard (\<not> state + 4 > p) (Flavor_past_command cmd i)) (\<lambda>_.
     bind (take_word env state s) (\<lambda>(s, flavor).
     bind (guard (\<not> state + 8 > p) (Count_past_command cmd i)) (\<lambda>_.
     bind (take_word env (state + 4) s) (\<lambda>(s, count).
       flavor_body env table cmd i nflavor state p flavor count s))))"

lemma flavor_body_moves:
  assumes "flavor_body env table cmd i nflavor state p flavor count s = Ok (s', state')"
  shows "state < state'"
proof (cases "map_of table flavor")
  case (Some c)
  then show ?thesis using assms by (cases c) (auto simp: flavor_body_def bind_iffs)
qed (use assms in \<open>auto simp: flavor_body_def bind_iffs\<close>)

lemma check_flavor_moves: "check_flavor env table cmd i nflavor state p s = Ok (s', state') \<Longrightarrow> state < state'"
  by (auto simp: check_flavor_def bind_iffs dest: flavor_body_moves)

function check_thread_flavors :: "mach_env \<Rightarrow> (u32 \<times> flavor_case) list \<Rightarrow> u32 \<Rightarrow> nat \<Rightarrow> nat \<Rightarrow> nat \<Rightarrow> nat \<Rightarrow> mach_state \<Rightarrow>
    mach_state checked" where
  "check_thread_flavors env table cmd i nflavor state p s =
     (if state < p then
        bind (check_flavor env table cmd i nflavor state p s) (\<lambda>r.
          check_thread_flavors env table cmd i (Suc nflavor) (snd r) p (fst r))
      else Ok s)"
  by pat_completeness auto
termination
  by (relation "measure (\<lambda>(env, table, cmd, i, nflavor, state, p, s). p - state)")
    (auto dest!: check_flavor_moves)

declare check_thread_flavors.simps [simp del]

definition mach_thread :: "mach_env \<Rightarrow> u32 \<Rightarrow> nat \<Rightarrow> nat \<Rightarrow> u32 \<Rightarrow> mach_state \<Rightarrow> mach_state checked" where
  "mach_thread env cmd i lc cmdsize s =
     bind (guard (\<not> unat cmdsize < sizeof_thread_command) (Command_too_small cmd i)) (\<lambda>_.
     bind (take_struct sizeof_thread_command load_thread_command store_thread_command swap_thread_command env lc s) (\<lambda>(s, ut).
       case mach_flavors (me_host env) (me_cputype env) of
         Some table \<Rightarrow> check_thread_flavors env table cmd i 0 (lc + sizeof_thread_command) (lc + unat (ut_cmdsize ut)) s
       | None \<Rightarrow> bind (guard (\<not> me_swapped env) (Cputype_unknown cmd i)) (\<lambda>_. Ok s)))"

section \<open>The walk\<close>

definition mach_command :: "mach_env \<Rightarrow> nat \<Rightarrow> nat \<Rightarrow> u32 \<Rightarrow> u32 \<Rightarrow> mach_state \<Rightarrow> mach_state checked" where
  "mach_command env i lc cmd cmdsize s =
     (case map_of linkedit_commands cmd of Some name \<Rightarrow> mach_linkedit env cmd name i lc cmdsize s | None \<Rightarrow>
     (case map_of (mach_strings (me_host env)) cmd of Some row \<Rightarrow> mach_string env cmd row i lc cmdsize s | None \<Rightarrow>
     (case map_of (single_commands (me_host env)) cmd of Some row \<Rightarrow> mach_single env cmd row i lc cmdsize s | None \<Rightarrow>
        if cmd = LC_SEGMENT then mach_segment env i lc cmdsize s
        else if cmd = LC_SEGMENT_64 then mach_segment_64 env i lc cmdsize s
        else if cmd = LC_SYMTAB then mach_symtab env i lc cmdsize s
        else if cmd = LC_DYSYMTAB then mach_dysymtab env i lc cmdsize s
        else if cmd = LC_ROUTINES then mach_routines env i lc cmdsize s
        else if cmd = LC_ROUTINES_64 then mach_routines_64 env i lc cmdsize s
        else if cmd = LC_TWOLEVEL_HINTS then mach_hints env i lc cmdsize s
        else if cmd \<in> {LC_VERSION_MIN_MACOSX, LC_VERSION_MIN_IPHONEOS, LC_VERSION_MIN_TVOS, LC_VERSION_MIN_WATCHOS} then
          mach_version_min env cmd i lc cmdsize s
        else if cmd = LC_BUILD_VERSION then mach_build_version env i lc cmdsize s
        else if cmd = LC_ENCRYPTION_INFO then mach_encryption env i lc cmdsize s
        else if cmd = LC_ENCRYPTION_INFO_64 then mach_encryption_64 env i lc cmdsize s
        else if cmd = LC_DYLD_INFO \<or> cmd = LC_DYLD_INFO_ONLY then mach_dyld_info env cmd i lc cmdsize s
        else if cmd = LC_SYMSEG then mach_symseg env i lc cmdsize s
        else if cmd = LC_UNIXTHREAD \<or> cmd = LC_THREAD then mach_thread env cmd i lc cmdsize s
        else if cmd = LC_NOTE then mach_note env i lc cmdsize s
        else Error (Load_command_unknown i))))"

text \<open>\<open>l = *lc\<close>, a copy, swapped if need be.\<close>

definition mach_load_command :: "mach_env \<Rightarrow> nat \<Rightarrow> mach_state \<Rightarrow> load_command checked" where
  "mach_load_command env lc s =
     bind (read_bytes (ms_object s) lc sizeof_load_command) (\<lambda>b.
       let l = load_load_command (me_host env) b in Ok (if me_swapped env then swap_load_command l else l))"

text \<open>64-bit core files may have thread commands of a size that is a multiple of 4 only.\<close>

definition core_thread :: "mach_env \<Rightarrow> load_command \<Rightarrow> bool" where
  "core_thread env l \<longleftrightarrow> me_filetype64 env = Some MH_CORE \<and> lc_cmd l = LC_THREAD \<and> unat (lc_cmdsize l) mod 4 = 0"

text \<open>\<open>limit\<close> is where the load commands end.\<close>

fun mach_commands :: "mach_env \<Rightarrow> nat \<Rightarrow> nat \<Rightarrow> nat \<Rightarrow> nat \<Rightarrow> mach_state \<Rightarrow> (mach_state \<times> nat) checked" where
  "mach_commands env limit 0 i lc s = Ok (s, lc)"
| "mach_commands env limit (Suc n) i lc s =
     bind (guard (\<not> lc + sizeof_load_command > limit) (Command_past_commands i)) (\<lambda>_.
     bind (mach_load_command env lc s) (\<lambda>l.
     bind (guard (unat (lc_cmdsize l) mod me_multiple env = 0 \<or> core_thread env l) (Command_not_multiple i (me_multiple env))) (\<lambda>_.
     bind (guard (\<not> lc + unat (lc_cmdsize l) > limit) (Command_past_end i)) (\<lambda>_.
     bind (guard (lc_cmdsize l \<noteq> 0) (Command_size_zero i)) (\<lambda>_.
     bind (mach_command env i lc (lc_cmd l) (lc_cmdsize l) s)
       (mach_commands env limit n (Suc i) (lc + unat (lc_cmdsize l))))))))"

section \<open>What the commands say of each other\<close>

definition symbols_inside :: "string \<Rightarrow> u32 \<Rightarrow> u32 \<Rightarrow> u32 \<Rightarrow> unit checked" where
  "symbols_inside name first n nsyms =
     bind (guard (\<not> (n \<noteq> 0 \<and> first > nsyms)) (Symbols_past_table name)) (\<lambda>_.
       guard (\<not> (n \<noteq> 0 \<and> (ucast first + ucast n :: u64) > ucast nsyms)) (Symbols_past_table name))"

definition check_symbols :: "symtab_command \<Rightarrow> dysymtab_command \<Rightarrow> mach_state \<Rightarrow> unit checked" where
  "check_symbols st dy s =
     bind (symbols_inside ''local'' (dyst_ilocalsym dy) (dyst_nlocalsym dy) (st_nsyms st)) (\<lambda>_.
     bind (symbols_inside ''extdef'' (dyst_iextdefsym dy) (dyst_nextdefsym dy) (st_nsyms st)) (\<lambda>_.
     bind (symbols_inside ''undef'' (dyst_iundefsym dy) (dyst_nundefsym dy) (st_nsyms st)) (\<lambda>_.
     bind (guard (case ms_rc s of Some rc \<Rightarrow> \<not> rc_init_module rc > dyst_nmodtab dy | None \<Rightarrow> True)
             (Init_module_past_table LC_ROUTINES)) (\<lambda>_.
     bind (guard (case ms_rc64 s of Some rc \<Rightarrow> \<not> rc64_init_module rc > ucast (dyst_nmodtab dy) | None \<Rightarrow> True)
             (Init_module_past_table LC_ROUTINES_64)) (\<lambda>_.
       guard (case ms_hints s of Some hints \<Rightarrow> hints_nhints hints = dyst_nundefsym dy | None \<Rightarrow> True) Hints_differ)))))"

definition check_together :: "mach_state \<Rightarrow> unit checked" where
  "check_together s =
     (case ms_st s of
        None \<Rightarrow> guard (ms_dyst s = None) Dysymtab_alone
      | Some st \<Rightarrow> (case ms_dyst s of None \<Rightarrow> Ok () | Some dy \<Rightarrow> check_symbols st dy s))"

section \<open>The routine\<close>

text \<open>What the caller knows of the object file, and what the routine finds out.\<close>

record mach_ofile =
  mo_is64 :: bool
  mo_swapped :: bool
  mo_fat_cputype :: "u32 option"

record mach_info =
  mi_cputype :: u32
  mi_cpusubtype :: u32
  mi_filetype :: u32
  mi_headers_swapped :: bool

definition first_mach_state :: "bytes \<Rightarrow> mach_state" where
  "first_mach_state m =
     \<lparr>ms_object = m, ms_elements = [], ms_st = None, ms_dyst = None, ms_rc = None, ms_rc64 = None,
      ms_hints = None, ms_vers = None, ms_bv1 = None, ms_bv2 = None, ms_seen = [], ms_messages = []\<rparr>"

text \<open>What is common to both widths, once the header is swapped and read.\<close>

definition check_body :: "mach_env \<Rightarrow> u32 option \<Rightarrow> nat \<Rightarrow> u32 \<Rightarrow> u32 \<Rightarrow> mach_state \<Rightarrow> mach_state checked" where
  "check_body env fat_cputype first ncmds sizeofcmds s =
     bind (enter_part ''Mach-O headers'' 0 (me_sizeofhdrs env) s) (\<lambda>s.
     bind (guard (case fat_cputype of Some c \<Rightarrow> c = me_cputype env | None \<Rightarrow> True) Fat_cputype_differs) (\<lambda>_.
     bind (mach_commands env (first + unat sizeofcmds) (unat ncmds) 0 first s) (\<lambda>(s, lc).
     bind (check_together s) (\<lambda>_.
     bind (guard (first + unat sizeofcmds = lc) Sizeofcmds_differs) (\<lambda>_.
       Ok s)))))"

text \<open>The environment that the header fields give.\<close>

definition mach_env_32 :: "endian \<Rightarrow> (nat \<Rightarrow> nat \<Rightarrow> u32) \<Rightarrow> bool \<Rightarrow> u32 \<Rightarrow> mach_header \<Rightarrow> mach_env" where
  "mach_env_32 e stack swapped filesize mh =
     \<lparr>me_host = e, me_swapped = swapped, me_filetype = Some (mh_filetype mh), me_filetype64 = None,
      me_cputype = mh_cputype mh, me_flags = mh_flags mh, me_sizeofhdrs = mh_sizeofcmds mh + 28, me_size = filesize,
      me_sizeof_nlist = 12, me_sizeof_dylib_module = 52, me_multiple = 4, me_stack = stack\<rparr>"

definition mach_env_64 :: "endian \<Rightarrow> (nat \<Rightarrow> nat \<Rightarrow> u32) \<Rightarrow> bool \<Rightarrow> u32 \<Rightarrow> mach_header_64 \<Rightarrow> mach_env" where
  "mach_env_64 e stack swapped filesize mh =
     \<lparr>me_host = e, me_swapped = swapped, me_filetype = None, me_filetype64 = Some (mh64_filetype mh),
      me_cputype = mh64_cputype mh, me_flags = mh64_flags mh, me_sizeofhdrs = mh64_sizeofcmds mh + 32, me_size = filesize,
      me_sizeof_nlist = 16, me_sizeof_dylib_module = 56, me_multiple = 8, me_stack = stack\<rparr>"

definition swap_header :: "bool \<Rightarrow> nat \<Rightarrow> (bytes \<Rightarrow> bytes) \<Rightarrow> bytes \<Rightarrow> bytes checked" where
  "swap_header swapped n f m =
     (case modify_at 0 n (if swapped then f else id) m of Some m \<Rightarrow> Ok m | None \<Rightarrow> Fault)"

definition check_Mach_O :: "endian \<Rightarrow> (nat \<Rightarrow> nat \<Rightarrow> u32) \<Rightarrow> mach_ofile \<Rightarrow> bytes \<Rightarrow> (mach_info \<times> mach_state) checked" where
  "check_Mach_O e stack ofile m =
     (let swapped = mo_swapped ofile; filesize = of_nat (length m) :: u32
      in if mo_is64 ofile then
           bind (swap_header swapped sizeof_mach_header_64 (inplace load_mach_header_64 store_mach_header_64 swap_mach_header_64 e) m) (\<lambda>m.
             let mh = load_mach_header_64 e (subbytes 0 sizeof_mach_header_64 m)
             in bind (guard (\<not> (ucast (mh64_sizeofcmds mh) + 32 :: u64) > ucast filesize) Commands_past_file) (\<lambda>_.
                bind (check_body (mach_env_64 e stack swapped filesize mh) (mo_fat_cputype ofile) sizeof_mach_header_64
                        (mh64_ncmds mh) (mh64_sizeofcmds mh) (first_mach_state m)) (\<lambda>s.
                  Ok (\<lparr>mi_cputype = mh64_cputype mh, mi_cpusubtype = mh64_cpusubtype mh, mi_filetype = mh64_filetype mh,
                       mi_headers_swapped = swapped\<rparr>, s))))
         else
           bind (swap_header swapped sizeof_mach_header (inplace load_mach_header store_mach_header swap_mach_header e) m) (\<lambda>m.
             let mh = load_mach_header e (subbytes 0 sizeof_mach_header m)
             in bind (guard (\<not> (ucast (mh_sizeofcmds mh) + 28 :: u64) > ucast filesize) Commands_past_file) (\<lambda>_.
                bind (check_body (mach_env_32 e stack swapped filesize mh) (mo_fat_cputype ofile) sizeof_mach_header
                        (mh_ncmds mh) (mh_sizeofcmds mh) (first_mach_state m)) (\<lambda>s.
                  Ok (\<lparr>mi_cputype = mh_cputype mh, mi_cpusubtype = mh_cpusubtype mh, mi_filetype = mh_filetype mh,
                       mi_headers_swapped = swapped\<rparr>, s)))))"

text \<open>
  \<open>swap_back_Mach_O\<close> runs \<open>swap_object_headers\<close> and does not look at what it returns: after an
  error the headers stay as they are.
\<close>

definition swap_back_Mach_O :: "endian \<Rightarrow> (nat \<Rightarrow> nat \<Rightarrow> u32) \<Rightarrow> bool \<Rightarrow> bool \<Rightarrow> bytes \<Rightarrow> bytes checked" where
  "swap_back_Mach_O e stack is64 headers_swapped m =
     (if headers_swapped then
        let n = (if is64 then sizeof_mach_header_64 else sizeof_mach_header)
        in case swap_object_headers e stack (take n m) (drop n m) of
             Ok (header, rest) \<Rightarrow> Ok (header @ rest)
           | Error _ \<Rightarrow> Ok m
           | Fault \<Rightarrow> Fault
      else Ok m)"

end
