(* ===== verification/Checkout.thy ===== *)
theory Checkout
  imports Mach_O_Check Checksums
begin

text \<open>
  \<open>libstuff/checkout.c\<close>: a tool that changes the symbolic information of an object file runs \<open>checkout\<close> first.
  It finds the commands that describe the information and refuses a file in which the tables are not in
  the order in which the tool will write them.  A command is kept as its contents; \<open>Fault\<close> is an access
  through a null pointer or outside the object.
\<close>

section \<open>Errors and the object\<close>

datatype checkout_error =
    More_than_one u32
  | More_than_one_segment string
  | Name_past_command nat
  | No_id_dylib
  | Hints_without_dysymtab
  | Hints_not_nundefsym
  | No_linkedit_segment
  | Linkedit_not_at_end
  | Bitcode_too_small
  | Bitcode_not_before
  | Bitcode_address
  | Out_of_place string
  | Linkedit_not_filled
  | Signature_not_at_end
  | Strings_not_at_end
  | Indirect_not_before_strings
  | Symbols_not_before_indirect
  | Symbols_not_at_end
  | Linkedit_not_covering

type_synonym 'a checkout = "(checkout_error, 'a) result"

abbreviation MH_DYLIB :: u32 where "MH_DYLIB \<equiv> 6"
abbreviation MH_KEXT_BUNDLE :: u32 where "MH_KEXT_BUNDLE \<equiv> 11"
abbreviation MH_DYLDLINK :: u32 where "MH_DYLDLINK \<equiv> 4"
abbreviation SG_FVMLIB :: u32 where "SG_FVMLIB \<equiv> 2"

text \<open>
  The fields of \<open>struct object\<close> that the routine uses.  The nine pointers to \<open>struct linkedit_data_command\<close>
  (\<open>code_sig_cmd\<close>, \<open>split_info_cmd\<close>, \<dots>) are one list, by command.  \<open>ob_dl_id\<close> is the local variable \<open>dl_id\<close>.
\<close>

record object =
  ob_object :: bytes
  ob_is64 :: bool
  ob_filetype :: u32
  ob_size :: u32
  ob_st :: "symtab_command option"
  ob_dyst :: "dysymtab_command option"
  ob_hints :: "twolevel_hints_command option"
  ob_data :: "(u32 \<times> linkedit_data_command) list"
  ob_dyld_info :: "dyld_info_command option"
  ob_encryption :: "encryption_info_command option"
  ob_encryption64 :: "encryption_info_command_64 option"
  ob_bitcode :: "segment_command option"
  ob_bitcode64 :: "segment_command_64 option"
  ob_linkedit :: "segment_command option"
  ob_linkedit64 :: "segment_command_64 option"
  ob_notes :: "note_command list"
  ob_dl_id :: "dylib_command option"
  ob_pad :: u32

section \<open>Finding the commands\<close>

definition linkedit_fields :: "u32 list" where
  "linkedit_fields =
     [LC_CODE_SIGNATURE, LC_SEGMENT_SPLIT_INFO, LC_FUNCTION_STARTS, LC_DATA_IN_CODE, LC_ATOM_INFO, LC_DYLIB_CODE_SIGN_DRS,
      LC_LINKER_OPTIMIZATION_HINT, LC_DYLD_EXPORTS_TRIE, LC_DYLD_CHAINED_FIXUPS]"

definition command_at :: "nat \<Rightarrow> (endian \<Rightarrow> bytes \<Rightarrow> 'a) \<Rightarrow> endian \<Rightarrow> object \<Rightarrow> nat \<Rightarrow> 'a checkout" where
  "command_at sz load e ob lc = bind (read_bytes (ob_object ob) lc sz) (\<lambda>b. Ok (load e b))"

text \<open>\<open>strcmp\<close> with a literal that is shorter than the field.\<close>

definition segname_is :: "string \<Rightarrow> bytes \<Rightarrow> bool" where
  "segname_is name segname \<longleftrightarrow> take (length name + 1) segname = map of_char name @ [0]"

definition find_segment :: "endian \<Rightarrow> nat \<Rightarrow> object \<Rightarrow> object checkout" where
  "find_segment e lc ob =
     bind (command_at sizeof_segment_command load_segment_command e ob lc) (\<lambda>sg.
       if segname_is ''__LINKEDIT'' (sg_segname sg) then
         bind (guard (ob_linkedit ob = None) (More_than_one_segment ''__LINKEDIT'')) (\<lambda>_. Ok (ob\<lparr>ob_linkedit := Some sg\<rparr>))
       else if segname_is ''__LLVM'' (sg_segname sg) then
         bind (guard (ob_bitcode ob = None) (More_than_one_segment ''__LLVM'')) (\<lambda>_. Ok (ob\<lparr>ob_bitcode := Some sg\<rparr>))
       else Ok ob)"

definition find_segment_64 :: "endian \<Rightarrow> nat \<Rightarrow> object \<Rightarrow> object checkout" where
  "find_segment_64 e lc ob =
     bind (command_at sizeof_segment_command_64 load_segment_command_64 e ob lc) (\<lambda>sg.
       if segname_is ''__LINKEDIT'' (sg64_segname sg) then
         bind (guard (ob_linkedit64 ob = None) (More_than_one_segment ''__LINKEDIT'')) (\<lambda>_. Ok (ob\<lparr>ob_linkedit64 := Some sg\<rparr>))
       else if segname_is ''__LLVM'' (sg64_segname sg) then
         bind (guard (ob_bitcode64 ob = None) (More_than_one_segment ''__LLVM'')) (\<lambda>_. Ok (ob\<lparr>ob_bitcode64 := Some sg\<rparr>))
       else Ok ob)"

definition find_id_dylib :: "endian \<Rightarrow> nat \<Rightarrow> nat \<Rightarrow> object \<Rightarrow> object checkout" where
  "find_id_dylib e i lc ob =
     bind (guard (ob_dl_id ob = None) (More_than_one LC_ID_DYLIB)) (\<lambda>_.
     bind (command_at sizeof_dylib_command load_dylib_command e ob lc) (\<lambda>dl.
     bind (guard (\<not> dl_name dl \<ge> dl_cmdsize dl) (Name_past_command i)) (\<lambda>_.
       Ok (ob\<lparr>ob_dl_id := Some dl\<rparr>))))"

definition find_command :: "endian \<Rightarrow> u32 \<Rightarrow> nat \<Rightarrow> nat \<Rightarrow> object \<Rightarrow> object checkout" where
  "find_command e cmd i lc ob =
     (if cmd = LC_SYMTAB then
        bind (guard (ob_st ob = None) (More_than_one cmd)) (\<lambda>_.
        bind (command_at sizeof_symtab_command load_symtab_command e ob lc) (\<lambda>st. Ok (ob\<lparr>ob_st := Some st\<rparr>)))
      else if cmd = LC_DYSYMTAB then
        bind (guard (ob_dyst ob = None) (More_than_one cmd)) (\<lambda>_.
        bind (command_at sizeof_dysymtab_command load_dysymtab_command e ob lc) (\<lambda>dyst. Ok (ob\<lparr>ob_dyst := Some dyst\<rparr>)))
      else if cmd = LC_TWOLEVEL_HINTS then
        bind (guard (ob_hints ob = None) (More_than_one cmd)) (\<lambda>_.
        bind (command_at sizeof_twolevel_hints_command load_twolevel_hints_command e ob lc) (\<lambda>hints. Ok (ob\<lparr>ob_hints := Some hints\<rparr>)))
      else if cmd \<in> set linkedit_fields then
        bind (guard (map_of (ob_data ob) cmd = None) (More_than_one cmd)) (\<lambda>_.
        bind (command_at sizeof_linkedit_data_command load_linkedit_data_command e ob lc) (\<lambda>ld. Ok (ob\<lparr>ob_data := (cmd, ld) # ob_data ob\<rparr>)))
      else if cmd = LC_DYLD_INFO \<or> cmd = LC_DYLD_INFO_ONLY then
        bind (guard (ob_dyld_info ob = None) (More_than_one LC_DYLD_INFO)) (\<lambda>_.
        bind (command_at sizeof_dyld_info_command load_dyld_info_command e ob lc) (\<lambda>dc. Ok (ob\<lparr>ob_dyld_info := Some dc\<rparr>)))
      else if cmd = LC_ENCRYPTION_INFO then
        bind (guard (ob_encryption ob = None) (More_than_one cmd)) (\<lambda>_.
        bind (command_at sizeof_encryption_info_command load_encryption_info_command e ob lc) (\<lambda>ec. Ok (ob\<lparr>ob_encryption := Some ec\<rparr>)))
      else if cmd = LC_ENCRYPTION_INFO_64 then
        bind (guard (ob_encryption64 ob = None) (More_than_one cmd)) (\<lambda>_.
        bind (command_at sizeof_encryption_info_command_64 load_encryption_info_command_64 e ob lc) (\<lambda>ec. Ok (ob\<lparr>ob_encryption64 := Some ec\<rparr>)))
      else if cmd = LC_SEGMENT then find_segment e lc ob
      else if cmd = LC_SEGMENT_64 then find_segment_64 e lc ob
      else if cmd = LC_ID_DYLIB then find_id_dylib e i lc ob
      else if cmd = LC_NOTE then
        bind (command_at sizeof_note_command load_note_command e ob lc) (\<lambda>nc. Ok (ob\<lparr>ob_notes := ob_notes ob @ [nc]\<rparr>))
      else Ok ob)"

fun find_commands :: "endian \<Rightarrow> nat \<Rightarrow> nat \<Rightarrow> nat \<Rightarrow> object \<Rightarrow> object checkout" where
  "find_commands e 0 i lc ob = Ok ob"
| "find_commands e (Suc n) i lc ob =
     bind (command_at sizeof_load_command load_load_command e ob lc) (\<lambda>l.
     bind (find_command e (lc_cmd l) i lc ob)
       (find_commands e n (Suc i) (lc + unat (lc_cmdsize l))))"

section \<open>The order of the tables\<close>

text \<open>A part that is to begin at \<open>offset\<close>: what \<open>order_error\<close> reports if it does not.\<close>

definition in_place :: "string \<Rightarrow> u32 \<Rightarrow> u64 \<Rightarrow> unit checkout" where
  "in_place name off offset = guard (ucast off = offset) (Out_of_place name)"

text \<open>A table of \<open>n\<close> entries, if there are any.\<close>

definition order_table :: "string \<Rightarrow> u32 \<Rightarrow> u32 \<Rightarrow> u64 \<Rightarrow> u64 \<Rightarrow> u64 checkout" where
  "order_table name off n entsize offset =
     (if n \<noteq> 0 then bind (in_place name off offset) (\<lambda>_. Ok (offset + ucast n * entsize)) else Ok offset)"

definition linkedit_start :: "object \<Rightarrow> u64 checkout" where
  "linkedit_start ob =
     (case ob_linkedit ob of
        None \<Rightarrow> Error No_linkedit_segment
      | Some sg \<Rightarrow>
          bind (guard (\<not> (sg_filesize sg \<noteq> 0 \<and> sg_fileoff sg + sg_filesize sg \<noteq> ob_size ob)) Linkedit_not_at_end) (\<lambda>_.
          case ob_bitcode ob of
            None \<Rightarrow> Ok (ucast (sg_fileoff sg))
          | Some bc \<Rightarrow>
              bind (guard (\<not> unat (sg_filesize bc) < 28) Bitcode_too_small) (\<lambda>_.
              bind (guard (sg_fileoff bc + sg_filesize bc = sg_fileoff sg) Bitcode_not_before) (\<lambda>_.
              bind (guard (sg_vmaddr bc + sg_vmsize bc = sg_vmaddr sg) Bitcode_address) (\<lambda>_.
                Ok (ucast (sg_fileoff sg)))))))"

definition linkedit_start_64 :: "object \<Rightarrow> u64 checkout" where
  "linkedit_start_64 ob =
     (case ob_linkedit64 ob of
        None \<Rightarrow> Error No_linkedit_segment
      | Some sg \<Rightarrow>
          bind (guard (\<not> (sg64_filesize sg \<noteq> 0 \<and> sg64_fileoff sg + sg64_filesize sg \<noteq> ucast (ob_size ob))) Linkedit_not_at_end) (\<lambda>_.
          case ob_bitcode64 ob of
            None \<Rightarrow> Ok (sg64_fileoff sg)
          | Some bc \<Rightarrow>
              bind (guard (\<not> unat (sg64_filesize bc) < 28) Bitcode_too_small) (\<lambda>_.
              bind (guard (sg64_fileoff bc + sg64_filesize bc = sg64_fileoff sg) Bitcode_not_before) (\<lambda>_.
              bind (guard (sg64_vmaddr bc + sg64_vmsize bc = sg64_vmaddr sg) Bitcode_address) (\<lambda>_.
                Ok (sg64_fileoff sg))))))"

text \<open>The end of each part of the information for \<open>dyld\<close> is computed in 32 bits.\<close>

definition dyld_info_end :: "dyld_info_command \<Rightarrow> u64 \<Rightarrow> u64" where
  "dyld_info_end dc offset =
     (if dc_export_size dc \<noteq> 0 then ucast (dc_export_off dc + dc_export_size dc)
      else if dc_lazy_bind_size dc \<noteq> 0 then ucast (dc_lazy_bind_off dc + dc_lazy_bind_size dc)
      else if dc_weak_bind_size dc \<noteq> 0 then ucast (dc_weak_bind_off dc + dc_weak_bind_size dc)
      else if dc_bind_size dc \<noteq> 0 then ucast (dc_bind_off dc + dc_bind_size dc)
      else if dc_rebase_size dc \<noteq> 0 then ucast (dc_rebase_off dc + dc_rebase_size dc)
      else offset)"

definition order_dyld_info :: "object \<Rightarrow> u64 \<Rightarrow> u64 checkout" where
  "order_dyld_info ob offset =
     (case ob_dyld_info ob of
        None \<Rightarrow> Ok offset
      | Some dc \<Rightarrow>
          bind (if dc_rebase_off dc \<noteq> 0 then in_place ''dyld_info'' (dc_rebase_off dc) offset
                else if dc_bind_off dc \<noteq> 0 then in_place ''dyld_info'' (dc_bind_off dc) offset
                else if dc_export_off dc \<noteq> 0 then
                  guard (\<not> (ucast (dc_export_off dc) \<noteq> offset \<and> dc_weak_bind_size dc \<noteq> 0 \<and> dc_lazy_bind_size dc \<noteq> 0))
                    (Out_of_place ''dyld_info'')
                else Ok ()) (\<lambda>_.
            Ok (dyld_info_end dc offset)))"

text \<open>Chained fixups and exports, and the data behind the local relocation entries.\<close>

definition order_fixups :: "string \<Rightarrow> u32 \<Rightarrow> object \<Rightarrow> u64 \<Rightarrow> u64 checkout" where
  "order_fixups name cmd ob offset =
     (case map_of (ob_data ob) cmd of
        None \<Rightarrow> Ok offset
      | Some ld \<Rightarrow>
          if ld_dataoff ld \<noteq> 0 then
            bind (in_place name (ld_dataoff ld) offset) (\<lambda>_. Ok (ucast (ld_dataoff ld + ld_datasize ld)))
          else Ok offset)"

definition order_data :: "string \<Rightarrow> u32 \<Rightarrow> object \<Rightarrow> u64 \<Rightarrow> u64 checkout" where
  "order_data name cmd ob offset =
     (case map_of (ob_data ob) cmd of
        None \<Rightarrow> Ok offset
      | Some ld \<Rightarrow>
          bind (guard (\<not> (ld_dataoff ld \<noteq> 0 \<and> ucast (ld_dataoff ld) \<noteq> offset)) (Out_of_place name)) (\<lambda>_.
            Ok (offset + ucast (ld_datasize ld))))"

definition order_symbols :: "dysymtab_command \<Rightarrow> unit checkout" where
  "order_symbols dy =
     bind (guard (\<not> (dyst_nlocalsym dy \<noteq> 0 \<and> dyst_ilocalsym dy \<noteq> 0)) (Out_of_place ''local symbols'')) (\<lambda>_.
     let isym = dyst_nlocalsym dy
     in bind (guard (\<not> (dyst_nextdefsym dy \<noteq> 0 \<and> dyst_iextdefsym dy \<noteq> isym)) (Out_of_place ''externally defined symbols'')) (\<lambda>_.
        let isym = isym + dyst_nextdefsym dy
        in guard (\<not> (dyst_nundefsym dy \<noteq> 0 \<and> dyst_iundefsym dy \<noteq> isym)) (Out_of_place ''undefined symbols'')))"

text \<open>
  A table that may begin at \<open>offset\<close> or, behind an odd number of indirect symbols, at \<open>rounded\<close>.  The state
  is \<open>offset\<close>, \<open>rounded_offset\<close> and \<open>input_indirectsym_pad\<close>.
\<close>

type_synonym place = "u64 \<times> u64 \<times> u32"

definition order_padded :: "string \<Rightarrow> u32 \<Rightarrow> u32 \<Rightarrow> u64 \<Rightarrow> place \<Rightarrow> place checkout" where
  "order_padded name off n entsize p =
     (case p of (offset, rounded, pad) \<Rightarrow>
        if n \<noteq> 0 then
          bind (guard (\<not> (ucast off \<noteq> offset \<and> ucast off \<noteq> rounded)) (Out_of_place name)) (\<lambda>_.
            if ucast off = offset then Ok (offset + ucast n * entsize, offset + ucast n * entsize, pad)
            else Ok (rounded + ucast n * entsize, rounded + ucast n * entsize, ucast (rounded - offset)))
        else Ok (offset, rounded, pad))"

text \<open>The module table of a 32-bit file is taken to be at \<open>offset\<close> in either case.\<close>

definition order_modules :: "object \<Rightarrow> dysymtab_command \<Rightarrow> place \<Rightarrow> place checkout" where
  "order_modules ob dy p =
     (if ob_is64 ob then order_padded ''module table'' (dyst_modtaboff dy) (dyst_nmodtab dy) 56 p
      else case p of (offset, rounded, pad) \<Rightarrow>
        if dyst_nmodtab dy \<noteq> 0 then
          bind (guard (\<not> (ucast (dyst_modtaboff dy) \<noteq> offset \<and> ucast (dyst_modtaboff dy) \<noteq> rounded)) (Out_of_place ''module table'')) (\<lambda>_.
            Ok (offset + ucast (dyst_nmodtab dy) * 52, offset + ucast (dyst_nmodtab dy) * 52, pad))
        else Ok (offset, rounded, pad))"

definition order_signature :: "object \<Rightarrow> place \<Rightarrow> place checkout" where
  "order_signature ob p =
     (case p of (offset, rounded, pad) \<Rightarrow>
        case map_of (ob_data ob) LC_CODE_SIGNATURE of
          None \<Rightarrow> Ok (offset, rounded, pad)
        | Some ld \<Rightarrow>
            let rounded = rnd rounded 16
            in bind (guard (ucast (ld_dataoff ld) = rounded) (Out_of_place ''code signature data'')) (\<lambda>_.
                 Ok (rounded + ucast (ld_datasize ld), rounded + ucast (ld_datasize ld), pad)))"

text \<open>The three groups of tables: before the symbols, from the symbols to the indirect symbols, behind them.\<close>

definition order_before :: "object \<Rightarrow> dysymtab_command \<Rightarrow> u64 \<Rightarrow> u64 checkout" where
  "order_before ob dy offset =
     bind (order_dyld_info ob offset) (\<lambda>offset.
     bind (order_fixups ''dyld chained fixups'' LC_DYLD_CHAINED_FIXUPS ob offset) (\<lambda>offset.
     bind (order_fixups ''dyld exports trie'' LC_DYLD_EXPORTS_TRIE ob offset) (\<lambda>offset.
     bind (order_table ''local relocation entries'' (dyst_locreloff dy) (dyst_nlocrel dy) 8 offset) (\<lambda>offset.
     bind (order_data ''split info data'' LC_SEGMENT_SPLIT_INFO ob offset) (\<lambda>offset.
     bind (order_data ''function starts data'' LC_FUNCTION_STARTS ob offset) (\<lambda>offset.
     bind (order_data ''data in code info'' LC_DATA_IN_CODE ob offset) (\<lambda>offset.
     bind (order_data ''atom info'' LC_ATOM_INFO ob offset) (\<lambda>offset.
     bind (order_data ''code signing DRs info'' LC_DYLIB_CODE_SIGN_DRS ob offset) (\<lambda>offset.
       order_data ''linker optimization hint info'' LC_LINKER_OPTIMIZATION_HINT ob offset)))))))))"

definition sizeof_symbol :: "object \<Rightarrow> u64" where
  "sizeof_symbol ob = (if ob_is64 ob then 16 else 12)"

definition order_middle :: "object \<Rightarrow> symtab_command \<Rightarrow> dysymtab_command \<Rightarrow> u64 \<Rightarrow> u64 checkout" where
  "order_middle ob st dy offset =
     bind (order_table ''symbol table'' (st_symoff st) (st_nsyms st) (sizeof_symbol ob) offset) (\<lambda>offset.
     bind (order_symbols dy) (\<lambda>_.
     bind (case ob_hints ob of
             None \<Rightarrow> Ok offset
           | Some hints \<Rightarrow> order_table ''hints table'' (hints_offset hints) (hints_nhints hints) 4 offset) (\<lambda>offset.
     bind (order_table ''external relocation entries'' (dyst_extreloff dy) (dyst_nextrel dy) 8 offset) (\<lambda>offset.
       order_table ''indirect symbol table'' (dyst_indirectsymoff dy) (dyst_nindirectsyms dy) 4 offset))))"

definition order_behind :: "object \<Rightarrow> symtab_command \<Rightarrow> dysymtab_command \<Rightarrow> u64 \<Rightarrow> place checkout" where
  "order_behind ob st dy offset =
     (let rounded = (if ob_is64 ob \<and> dyst_nindirectsyms dy mod 2 \<noteq> 0 then rnd offset 8 else offset)
      in bind (order_padded ''table of contents'' (dyst_tocoff dy) (dyst_ntoc dy) 8 (offset, rounded, 0)) (\<lambda>p.
         bind (order_modules ob dy p) (\<lambda>p.
         bind (order_padded ''reference table'' (dyst_extrefsymoff dy) (dyst_nextrefsyms dy) 4 p) (\<lambda>p.
         bind (order_padded ''string table'' (st_stroff st) (st_strsize st) 1 p)
           (order_signature ob)))))"

text \<open>\<open>object->st\<close> is used without a test for a null pointer.\<close>

definition dyld_order :: "object \<Rightarrow> dysymtab_command \<Rightarrow> object checkout" where
  "dyld_order ob dy =
     bind (if ob_is64 ob then linkedit_start_64 ob else linkedit_start ob) (\<lambda>offset.
     bind (order_before ob dy offset) (\<lambda>offset.
     case ob_st ob of
       None \<Rightarrow> Fault
     | Some st \<Rightarrow>
         bind (order_middle ob st dy offset) (\<lambda>offset.
         bind (order_behind ob st dy offset) (\<lambda>(offset, rounded, pad).
         bind (guard (\<not> (offset \<noteq> ucast (ob_size ob) \<and> rounded \<noteq> ucast (ob_size ob))) Linkedit_not_filled) (\<lambda>_.
           Ok (ob\<lparr>ob_pad := pad\<rparr>))))))"

section \<open>Symbols at the end of the file\<close>

text \<open>Where the tables have to end: at the end of the file or before the code signature.\<close>

definition end_before_signature :: "object \<Rightarrow> symtab_command \<Rightarrow> u32 checkout" where
  "end_before_signature ob st =
     (case map_of (ob_data ob) LC_CODE_SIGNATURE of
        None \<Rightarrow> Ok (ob_size ob)
      | Some ld \<Rightarrow>
          bind (guard (ld_dataoff ld + ld_datasize ld = ob_size ob) Signature_not_at_end) (\<lambda>_.
            let strend = st_stroff st + st_strsize st
            in Ok (if st_strsize st \<noteq> 0 \<and> ld_dataoff ld = ucast (rnd (ucast strend) 16) then strend else ld_dataoff ld)))"

text \<open>The string table; without a signature the size of the object becomes the end of the strings.\<close>

definition strings_at_end :: "symtab_command \<Rightarrow> u32 \<Rightarrow> object \<Rightarrow> (object \<times> u32) checkout" where
  "strings_at_end st end_off ob =
     (if st_strsize st \<noteq> 0 then
        let strend = st_stroff st + st_strsize st; rounded = ucast (rnd (ucast strend) 8)
        in bind (guard (\<not> (strend \<noteq> end_off \<and> rounded \<noteq> end_off)) Strings_not_at_end) (\<lambda>_.
             Ok (if rounded \<noteq> strend \<and> map_of (ob_data ob) LC_CODE_SIGNATURE = None then ob\<lparr>ob_size := strend\<rparr> else ob, st_stroff st))
      else Ok (ob, end_off))"

definition symbols_end :: "object \<Rightarrow> symtab_command \<Rightarrow> u64" where
  "symbols_end ob st = ucast (st_symoff st) + ucast (st_nsyms st) * sizeof_symbol ob"

definition indirect_before :: "symtab_command \<Rightarrow> dysymtab_command \<Rightarrow> u32 \<Rightarrow> object \<Rightarrow> object checkout" where
  "indirect_before st dy end_off ob =
     (let indirectend = dyst_indirectsymoff dy + dyst_nindirectsyms dy * 4;
          rounded = (if ob_is64 ob \<and> dyst_nindirectsyms dy mod 2 \<noteq> 0 then ucast (rnd (ucast indirectend) 8) else indirectend)
      in bind (guard (\<not> (indirectend \<noteq> end_off \<and> rounded \<noteq> end_off)) Indirect_not_before_strings) (\<lambda>_.
         bind (guard (symbols_end ob st = ucast (dyst_indirectsymoff dy)) Symbols_not_before_indirect) (\<lambda>_.
           Ok (ob\<lparr>ob_pad := end_off - indirectend\<rparr>))))"

definition linkedit_covers :: "object \<Rightarrow> unit checkout" where
  "linkedit_covers ob =
     (case ob_linkedit ob of
        None \<Rightarrow> Ok ()
      | Some sg \<Rightarrow>
          guard (\<not> (sg_flags sg AND SG_FVMLIB \<noteq> SG_FVMLIB \<and> sg_filesize sg \<noteq> 0 \<and> sg_fileoff sg + sg_filesize sg \<noteq> ob_size ob))
            Linkedit_not_covering)"

definition indirect_behind :: "object \<Rightarrow> symtab_command \<Rightarrow> dysymtab_command option" where
  "indirect_behind ob st =
     (case ob_dyst ob of
        Some dy \<Rightarrow> if dyst_nindirectsyms dy \<noteq> 0 \<and> dyst_indirectsymoff dy > st_symoff st then Some dy else None
      | None \<Rightarrow> None)"

definition symbol_string_at_end :: "object \<Rightarrow> object checkout" where
  "symbol_string_at_end ob =
     (case ob_st ob of
        None \<Rightarrow> Ok ob
      | Some st \<Rightarrow>
          if st_nsyms st = 0 then Ok ob
          else
            bind (end_before_signature ob st) (\<lambda>end_off.
            bind (strings_at_end st end_off ob) (\<lambda>(ob, end_off).
            bind (case indirect_behind ob st of
                    Some dy \<Rightarrow> indirect_before st dy end_off ob
                  | None \<Rightarrow> bind (guard (symbols_end ob st = ucast end_off) Symbols_not_at_end) (\<lambda>_. Ok ob)) (\<lambda>ob.
            bind (linkedit_covers ob) (\<lambda>_.
              Ok ob)))))"

section \<open>The routine\<close>

definition check_hints :: "object \<Rightarrow> unit checkout" where
  "check_hints ob =
     (case ob_hints ob of
        None \<Rightarrow> Ok ()
      | Some hints \<Rightarrow>
          if hints_nhints hints = 0 then Ok ()
          else case ob_dyst ob of
                 None \<Rightarrow> Error Hints_without_dysymtab
               | Some dy \<Rightarrow> guard (hints_nhints hints = dyst_nundefsym dy) Hints_not_nundefsym)"

text \<open>The fields that the routine sets up.\<close>

definition new_object :: "bool \<Rightarrow> u32 \<Rightarrow> u32 \<Rightarrow> u32 \<Rightarrow> bytes \<Rightarrow> object" where
  "new_object is64 filetype objsize pad m =
     \<lparr>ob_object = m, ob_is64 = is64, ob_filetype = filetype, ob_size = objsize, ob_st = None, ob_dyst = None, ob_hints = None,
      ob_data = [], ob_dyld_info = None, ob_encryption = None, ob_encryption64 = None, ob_bitcode = None, ob_bitcode64 = None,
      ob_linkedit = None, ob_linkedit64 = None, ob_notes = [], ob_dl_id = None, ob_pad = pad\<rparr>"

definition check_object :: "endian \<Rightarrow> bool \<Rightarrow> u32 \<Rightarrow> u32 \<Rightarrow> u32 \<Rightarrow> bytes \<Rightarrow> object checkout" where
  "check_object e is64 filetype objsize pad m =
     (let header = (if is64 then sizeof_mach_header_64 else sizeof_mach_header)
      in bind (read_u32 e m 16) (\<lambda>ncmds.
         bind (read_u32 e m 24) (\<lambda>flags.
         bind (find_commands e (unat ncmds) 0 header (new_object is64 filetype objsize pad m)) (\<lambda>ob.
         bind (guard (\<not> ((filetype = MH_DYLIB \<or> (filetype = MH_DYLIB_STUB \<and> ncmds > 0)) \<and> ob_dl_id ob = None)) No_id_dylib) (\<lambda>_.
         bind (check_hints ob) (\<lambda>_.
         case ob_dyst ob of
           None \<Rightarrow> symbol_string_at_end ob
         | Some dy \<Rightarrow>
             if filetype = MH_DYLIB then dyld_order ob dy
             else if flags AND MH_DYLDLINK \<noteq> 0 \<or> filetype = MH_KEXT_BUNDLE then dyld_order ob dy
             else symbol_string_at_end ob))))))"

text \<open>
  \<open>checkout\<close> runs over the architectures and the members of archives; what is not an object (\<open>None\<close>) is left
  alone.  The result is the objects with what has been found.
\<close>

datatype checkout_part =
    Archive_part "(u32 \<times> bool \<times> u32 \<times> bytes) option list"
  | Object_part u32 bool u32 bytes
  | Other_part

definition check_member_object :: "endian \<Rightarrow> (u32 \<times> bool \<times> u32 \<times> bytes) option \<Rightarrow> object option checkout" where
  "check_member_object e member =
     (case member of
        None \<Rightarrow> Ok None
      | Some (filetype, is64, pad, m) \<Rightarrow>
          bind (check_object e is64 filetype (of_nat (length m)) pad m) (\<lambda>ob. Ok (Some ob)))"

fun check_each :: "('a \<Rightarrow> 'b checkout) \<Rightarrow> 'a list \<Rightarrow> 'b list checkout" where
  "check_each f [] = Ok []"
| "check_each f (x # xs) = bind (f x) (\<lambda>y. bind (check_each f xs) (\<lambda>ys. Ok (y # ys)))"

definition checkout :: "endian \<Rightarrow> checkout_part list \<Rightarrow> object option list list checkout" where
  "checkout e archs =
     check_each (\<lambda>arch. case arch of
         Archive_part members \<Rightarrow> check_each (check_member_object e) members
       | Object_part filetype is64 pad m \<Rightarrow> check_each (check_member_object e) [Some (filetype, is64, pad, m)]
       | Other_part \<Rightarrow> Ok []) archs"

end
