(* ===== verification/Mach_O_Facts.thy ===== *)
theory Mach_O_Facts
  imports Mach_O_Check
begin

text \<open>
  What \<open>check_Mach_O\<close> makes sure of: it stays inside the object, and in an object it accepts the tables
  lie inside the file and the symbols inside the symbol table.
\<close>

section \<open>Steps that stay inside a command\<close>

text \<open>
  A step of the walk, as the interface of the checks: it does not fault, and it changes the object only
  between \<open>a\<close> and \<open>b\<close>.  \<open>st\<close> finds the state in its result.
\<close>

definition stays :: "nat \<Rightarrow> nat \<Rightarrow> ('a \<Rightarrow> mach_state) \<Rightarrow> mach_state \<Rightarrow> 'a checked \<Rightarrow> bool" where
  "stays a b st s r \<longleftrightarrow>
     r \<noteq> Fault \<and> (\<forall>x. r = Ok x \<longrightarrow> changed_within a b (ms_object s) (ms_object (st x)))"

lemma stays_bind:
  assumes "stays a b st s r" and "\<And>x. r = Ok x \<Longrightarrow> stays a b st' (st x) (f x)"
  shows "stays a b st' s (bind r f)"
  using assms by (cases r) (auto simp: stays_def intro: changed_within_trans)

lemma stays_bind_id:
  assumes "stays a b id s r" and "\<And>s'. r = Ok s' \<Longrightarrow> stays a b st s' (f s')"
  shows "stays a b st s (bind r f)"
  using assms by (auto intro: stays_bind)

lemma stays_bind_fst:
  assumes "stays a b fst s r" and "\<And>s' y. r = Ok (s', y) \<Longrightarrow> stays a b st s' (f (s', y))"
  shows "stays a b st s (bind r f)"
  using assms by (auto intro: stays_bind)

lemma stays_guard:
  assumes "c \<Longrightarrow> stays a b st s (f ())"
  shows "stays a b st s (bind (guard c err) f)"
  using assms by (simp add: guard_def stays_def)

lemma stays_unit:
  assumes "r \<noteq> Fault" and "r = Ok () \<Longrightarrow> stays a b st s (f ())"
  shows "stays a b st s (bind r f)"
  using assms by (cases r) (auto simp: stays_def)

lemma stays_Ok: "ms_object (st x) = ms_object s \<Longrightarrow> stays a b st s (Ok x)"
  by (simp add: stays_def)

lemma stays_Error: "stays a b st s (Error err)"
  by (simp add: stays_def)

lemma stays_from: "stays a b st s' r \<Longrightarrow> ms_object s' = ms_object s \<Longrightarrow> stays a b st s r"
  by (simp add: stays_def)

lemma stays_mono: "stays a b st s r \<Longrightarrow> a' \<le> a \<Longrightarrow> b \<le> b' \<Longrightarrow> stays a' b' st s r"
  by (auto simp: stays_def intro: changed_within_mono)

lemma stays_length: "stays a b st s r \<Longrightarrow> r = Ok x \<Longrightarrow> length (ms_object (st x)) = length (ms_object s)"
  by (simp add: stays_def changed_within_def)

lemma swap_in_Ok:
  assumes "p + n \<le> length (ms_object s)" and "\<And>b. length b = n \<Longrightarrow> length (f b) = n"
  obtains m where "swap_in env p n f s = Ok (s\<lparr>ms_object := m\<rparr>)" and "changed_within p (p + n) (ms_object s) m"
    and "subbytes p n m = (if me_swapped env then f else id) (subbytes p n (ms_object s))"
proof
  let ?g = "if me_swapped env then f else id"
  let ?m = "take p (ms_object s) @ ?g (subbytes p n (ms_object s)) @ drop (p + n) (ms_object s)"
  have len: "length (?g (subbytes p n (ms_object s))) = n" using assms by simp
  show "swap_in env p n f s = Ok (s\<lparr>ms_object := ?m\<rparr>)"
    using assms(1) by (simp add: swap_in_def modify_at_def)
  show "changed_within p (p + n) (ms_object s) ?m" using assms(1) len by (simp add: changed_within_def)
  show "subbytes p n ?m = ?g (subbytes p n (ms_object s))" using assms(1) len by (simp add: subbytes_def)
qed

lemma swap_in_stays:
  assumes "p + n \<le> length (ms_object s)" and "\<And>b. length b = n \<Longrightarrow> length (f b) = n"
    and "a \<le> p" and "p + n \<le> b"
  shows "stays a b id s (swap_in env p n f s)"
proof -
  obtain m where "swap_in env p n f s = Ok (s\<lparr>ms_object := m\<rparr>)" "changed_within p (p + n) (ms_object s) m"
    using swap_in_Ok [of p n s f env] assms(1,2) by metis
  then show ?thesis using assms(3,4) by (auto simp: stays_def intro: changed_within_mono)
qed

lemma take_struct_stays:
  assumes "p + sz \<le> length (ms_object s)" and "\<And>b. length b = sz \<Longrightarrow> length (inplace load store swap (me_host env) b) = sz"
    and "a \<le> p" and "p + sz \<le> b"
  shows "stays a b fst s (take_struct sz load store swap env p s)"
  unfolding take_struct_def
  by (rule stays_bind_id [OF swap_in_stays [OF assms]]) (simp_all add: stays_Ok)

lemma take_array_stays:
  assumes "p + unat n * sz \<le> length (ms_object s)"
    and "\<And>b. length b = unat n * sz \<Longrightarrow> length (swap_array sz load store swap n (me_host env) b) = unat n * sz"
    and "a \<le> p" and "p + unat n * sz \<le> b"
  shows "stays a b fst s (take_array sz load store swap env n p s)"
  unfolding take_array_def
  by (rule stays_bind_id [OF swap_in_stays [OF assms]]) (simp_all add: stays_Ok)

text \<open>Entering a part, and the comparisons, do not touch the object.\<close>

lemma enter_part_stays: "stays a b id s (enter_part name offset n s)"
  by (simp add: enter_part_def stays_def split: sum.splits)

lemma inside_file_no_fault: "inside_file env e1 e2 offset n \<noteq> Fault"
  by (simp add: inside_file_def bind_iffs)

lemma check_table_stays: "stays a b id s (check_table env cmd i name offset n entsize s)"
  unfolding check_table_def by (intro stays_unit inside_file_no_fault enter_part_stays)

lemma check_relocs_stays: "stays a b id s (check_relocs env cmd i j reloff nreloc s)"
  unfolding check_relocs_def by (intro stays_unit inside_file_no_fault enter_part_stays)

lemma check_dyld_part_stays: "stays a b id s (check_dyld_part env i name offset n s)"
  unfolding check_dyld_part_def
  by (intro stays_unit enter_part_stays) (simp add: inside_file_no_fault)

lemma contents_stays: "stays a b id s (if c then enter_part name offset n s else Ok s)"
  by (simp add: enter_part_stays stays_Ok)

lemma check_section_stays: "stays a b id s (check_section env filetype i sg j sc s)"
  unfolding check_section_def Let_def
  by (intro stays_guard stays_bind_id [OF contents_stays] check_relocs_stays)

lemma check_sections_stays:
  "me_filetype env \<noteq> None \<or> scs = [] \<Longrightarrow> stays a b id s (check_sections env i sg j scs s)"
proof (induction scs arbitrary: j s)
  case (Cons sc scs)
  then obtain filetype where "me_filetype env = Some filetype" by auto
  then show ?case
    using Cons.IH by (auto intro!: stays_bind_id [OF check_section_stays])
qed (simp add: stays_Ok)

lemma check_section_64_stays: "stays a b id s (check_section_64 env filetype i sg j sc s)"
  unfolding check_section_64_def Let_def
  by (intro stays_guard stays_bind_id [OF contents_stays] check_relocs_stays)

lemma check_sections_64_stays:
  "me_filetype64 env \<noteq> None \<or> scs = [] \<Longrightarrow> stays a b id s (check_sections_64 env i sg j scs s)"
proof (induction scs arbitrary: j s)
  case (Cons sc scs)
  then obtain filetype where "me_filetype64 env = Some filetype" by auto
  then show ?case
    using Cons.IH by (auto intro!: stays_bind_id [OF check_section_64_stays])
qed (simp add: stays_Ok)

section \<open>What is read is what the file says\<close>

text \<open>The byte order of the object.\<close>

definition file_order :: "mach_env \<Rightarrow> endian" where
  "file_order env = (if me_swapped env then flip (me_host env) else me_host env)"

context struct_codec
begin

lemma load_inplace:
  assumes "length m = sz"
  shows "load e (inplace load store swap e m) = load (flip e) m"
  by (simp add: inplace_def load_flip [OF assms, symmetric] load_store [OF assms])

lemma take_struct_reads:
  assumes "p + sz \<le> length (ms_object s)"
  obtains m where "take_struct sz load store swap env p s =
      Ok (s\<lparr>ms_object := m\<rparr>, load (file_order env) (subbytes p sz (ms_object s)))"
    and "changed_within p (p + sz) (ms_object s) m"
proof -
  obtain m where m: "swap_in env p sz (inplace load store swap (me_host env)) s = Ok (s\<lparr>ms_object := m\<rparr>)"
      "changed_within p (p + sz) (ms_object s) m"
      "subbytes p sz m = (if me_swapped env then inplace load store swap (me_host env) else id) (subbytes p sz (ms_object s))"
    by (rule swap_in_Ok [OF assms length_inplace])
  have "load (me_host env) (subbytes p sz m) = load (file_order env) (subbytes p sz (ms_object s))"
    using m(3) assms load_inplace by (simp add: file_order_def)
  then show ?thesis using m(1,2) by (intro that) (simp_all add: take_struct_def)
qed

lemma struct_stays:
  assumes "p + sz \<le> length (ms_object s)" and "a \<le> p" and "p + sz \<le> b"
  shows "stays a b fst s (take_struct sz load store swap env p s)"
  using assms by (intro take_struct_stays length_inplace)

lemma struct_value:
  assumes "take_struct sz load store swap env p s = Ok (s', x)"
  shows "x = load (file_order env) (subbytes p sz (ms_object s))"
proof -
  have "p + sz \<le> length (ms_object s)"
    using assms by (auto simp: take_struct_def bind_iffs swap_in_def modify_at_def split: if_splits)
  then obtain m where "take_struct sz load store swap env p s =
      Ok (s\<lparr>ms_object := m\<rparr>, load (file_order env) (subbytes p sz (ms_object s)))"
    by (rule take_struct_reads)
  then show ?thesis using assms by simp
qed

end

context command_codec
begin

lemma struct_cmdsize:
  assumes "take_struct sz load store swap env p s = Ok (s', x)"
  shows "cmdsize x = get32 (file_order env) (ms_object s) (p + 4)"
  using struct_value [OF assms] header_inside by (simp add: cmdsize_load get32_in_subbytes)

end

text \<open>A command that the walk has measured.\<close>

definition measured :: "mach_env \<Rightarrow> nat \<Rightarrow> u32 \<Rightarrow> mach_state \<Rightarrow> bool" where
  "measured env lc cmdsize s \<longleftrightarrow>
     lc + unat cmdsize \<le> length (ms_object s) \<and> cmdsize = get32 (file_order env) (ms_object s) (lc + 4)"

lemma measuredD: "measured env lc cmdsize s \<Longrightarrow> lc + unat cmdsize \<le> length (ms_object s)"
  unfolding measured_def by (rule conjunct1)

section \<open>Every command stays inside itself\<close>

lemma mach_segment_stays:
  assumes "measured env lc cmdsize s" and "me_filetype env \<noteq> None"
  shows "stays lc (lc + unat cmdsize) id s (mach_segment env i lc cmdsize s)"
proof -
  let ?take = "take_struct sizeof_segment_command load_segment_command store_segment_command swap_segment_command env lc"
  have rest: "stays lc (lc + unat cmdsize) id s'
      (bind (take_array sizeof_section_32 load_section_32 store_section_32 swap_section env (sg_nsects sg)
        (lc + sizeof_segment_command) s') (\<lambda>(s, scs). check_sections env i sg 0 scs s))"
    if "\<not> unat cmdsize < sizeof_segment_command" "?take s = Ok (s', sg)"
      "unat (sg_cmdsize sg) = unat (sg_nsects sg) * sizeof_section_32 + sizeof_segment_command" for s' sg
  proof -
    have "sg_cmdsize sg = cmdsize" using sg_cmd.struct_cmdsize [OF that(2)] assms(1) by (simp add: measured_def)
    moreover have "length (ms_object s') = length (ms_object s)"
      using stays_length [OF segment_command.struct_stays that(2)] that(1) measuredD [OF assms(1)] by fastforce
    ultimately show ?thesis
      using that(3) measuredD [OF assms(1)] assms(2)
      by (intro stays_bind_fst take_array_stays length_swap_sections)
        (auto intro: check_sections_stays)
  qed
  show ?thesis
    unfolding mach_segment_def
    using measuredD [OF assms(1)]
    by (intro stays_guard stays_bind_fst [OF segment_command.struct_stays])
      (auto intro!: stays_guard stays_unit inside_file_no_fault rest)
qed

lemma mach_segment_64_stays:
  assumes "measured env lc cmdsize s" and "me_filetype64 env \<noteq> None"
  shows "stays lc (lc + unat cmdsize) id s (mach_segment_64 env i lc cmdsize s)"
proof -
  let ?take = "take_struct sizeof_segment_command_64 load_segment_command_64 store_segment_command_64 swap_segment_command_64 env lc"
  have rest: "stays lc (lc + unat cmdsize) id s'
      (bind (take_array sizeof_section_64 load_section_64 store_section_64 swap_section_64 env (sg64_nsects sg)
        (lc + sizeof_segment_command_64) s') (\<lambda>(s, scs). check_sections_64 env i sg 0 scs s))"
    if "\<not> unat cmdsize < sizeof_segment_command_64" "?take s = Ok (s', sg)"
      "unat (sg64_cmdsize sg) = unat (sg64_nsects sg) * sizeof_section_64 + sizeof_segment_command_64" for s' sg
  proof -
    have "sg64_cmdsize sg = cmdsize" using sg64_cmd.struct_cmdsize [OF that(2)] assms(1) by (simp add: measured_def)
    moreover have "length (ms_object s') = length (ms_object s)"
      using stays_length [OF segment_command_64.struct_stays that(2)] that(1) measuredD [OF assms(1)] by fastforce
    ultimately show ?thesis
      using that(3) measuredD [OF assms(1)] assms(2)
      by (intro stays_bind_fst take_array_stays length_swap_sections)
        (auto intro: check_sections_64_stays)
  qed
  show ?thesis
    unfolding mach_segment_64_def
    using measuredD [OF assms(1)]
    by (intro stays_guard stays_bind_fst [OF segment_command_64.struct_stays])
      (auto intro!: stays_guard rest)
qed

lemmas step_stays = stays_guard stays_unit inside_file_no_fault check_table_stays stays_Ok

lemma once_no_fault: "once seen cmd \<noteq> Fault"
  by (simp add: once_def)

lemma check_table_after: "ms_object s' = ms_object s \<Longrightarrow> stays a b id s (check_table env cmd i name offset n entsize s')"
  by (rule stays_from [OF check_table_stays])

lemma mach_symtab_stays:
  "measured env lc cmdsize s \<Longrightarrow> stays lc (lc + unat cmdsize) id s (mach_symtab env i lc cmdsize s)"
  unfolding mach_symtab_def
  by (intro stays_guard stays_unit once_no_fault stays_bind_fst [OF symtab_command.struct_stays])
    (auto dest: measuredD intro!: stays_guard stays_bind_id check_table_after check_table_stays)

lemma mach_dysymtab_stays:
  "measured env lc cmdsize s \<Longrightarrow> stays lc (lc + unat cmdsize) id s (mach_dysymtab env i lc cmdsize s)"
  unfolding mach_dysymtab_def
  by (intro stays_guard stays_unit once_no_fault stays_bind_fst [OF dysymtab_command.struct_stays])
    (auto dest: measuredD intro!: stays_guard stays_bind_id check_table_after check_table_stays)

lemma mach_routines_stays:
  "measured env lc cmdsize s \<Longrightarrow> stays lc (lc + unat cmdsize) id s (mach_routines env i lc cmdsize s)"
  unfolding mach_routines_def
  by (intro stays_guard stays_unit once_no_fault stays_bind_fst [OF routines_command.struct_stays])
    (auto dest: measuredD intro!: stays_guard stays_Ok)

lemma mach_routines_64_stays:
  "measured env lc cmdsize s \<Longrightarrow> stays lc (lc + unat cmdsize) id s (mach_routines_64 env i lc cmdsize s)"
  unfolding mach_routines_64_def
  by (intro stays_guard stays_unit once_no_fault stays_bind_fst [OF routines_command_64.struct_stays])
    (auto dest: measuredD intro!: stays_guard stays_Ok)

lemma mach_hints_stays:
  "measured env lc cmdsize s \<Longrightarrow> stays lc (lc + unat cmdsize) id s (mach_hints env i lc cmdsize s)"
  unfolding mach_hints_def
  by (intro stays_guard stays_unit once_no_fault stays_bind_fst [OF twolevel_hints_command.struct_stays])
    (auto dest: measuredD intro!: stays_guard check_table_after)

lemma mach_linkedit_stays:
  "measured env lc cmdsize s \<Longrightarrow> stays lc (lc + unat cmdsize) id s (mach_linkedit env cmd name i lc cmdsize s)"
  unfolding mach_linkedit_def
  by (intro stays_guard stays_unit once_no_fault stays_bind_fst [OF linkedit_data_command.struct_stays])
    (auto dest: measuredD intro!: stays_guard check_table_after)

lemma mach_encryption_stays:
  "measured env lc cmdsize s \<Longrightarrow> stays lc (lc + unat cmdsize) id s (mach_encryption env i lc cmdsize s)"
  unfolding mach_encryption_def
  by (intro stays_guard stays_bind_fst [OF encryption_info_command.struct_stays])
    (auto dest: measuredD intro!: stays_guard stays_unit inside_file_no_fault stays_Ok)

lemma mach_dyld_info_stays:
  "measured env lc cmdsize s \<Longrightarrow> stays lc (lc + unat cmdsize) id s (mach_dyld_info env cmd i lc cmdsize s)"
  unfolding mach_dyld_info_def
  by (intro stays_guard stays_bind_fst [OF dyld_info_command.struct_stays])
    (auto dest: measuredD intro!: stays_guard stays_bind_id check_dyld_part_stays)

lemma mach_symseg_stays:
  "measured env lc cmdsize s \<Longrightarrow> stays lc (lc + unat cmdsize) id s (mach_symseg env i lc cmdsize s)"
  unfolding mach_symseg_def
  by (intro stays_guard stays_bind_fst [OF symseg_command.struct_stays])
    (auto dest: measuredD intro!: stays_guard check_table_stays)

lemma mach_note_stays:
  "measured env lc cmdsize s \<Longrightarrow> stays lc (lc + unat cmdsize) id s (mach_note env i lc cmdsize s)"
  unfolding mach_note_def
  by (intro stays_guard stays_bind_fst [OF note_command.struct_stays])
    (auto dest: measuredD intro!: stays_guard stays_Ok)

lemma row_ok_length: "row_ok e sz f \<Longrightarrow> length b = sz \<Longrightarrow> length (f b) = sz"
  by (simp add: row_ok_def)

lemma mach_version_min_stays:
  "measured env lc cmdsize s \<Longrightarrow> stays lc (lc + unat cmdsize) id s (mach_version_min env cmd i lc cmdsize s)"
  unfolding mach_version_min_def
  by (intro stays_guard stays_unit once_no_fault stays_bind_fst [OF take_struct_stays [OF _ row_ok_length [OF row_ok_version_min]]])
    (auto dest: measuredD intro!: stays_guard stays_Ok)

lemma mach_encryption_64_stays:
  "measured env lc cmdsize s \<Longrightarrow> stays lc (lc + unat cmdsize) id s (mach_encryption_64 env i lc cmdsize s)"
  unfolding mach_encryption_64_def
  by (intro stays_guard stays_bind_fst [OF take_struct_stays [OF _ row_ok_length [OF row_ok_encryption_64]]])
    (auto dest: measuredD intro!: stays_guard stays_unit inside_file_no_fault stays_Ok)

lemma ms_object_message [simp]: "ms_object (message err s) = ms_object s"
  by (simp add: message_def)

lemma ms_object_build_platform [simp]: "ms_object (build_platform env i bv s) = ms_object s"
  by (simp add: build_platform_def Let_def split: option.split)

lemma mach_build_version_stays:
  assumes "measured env lc cmdsize s"
  shows "stays lc (lc + unat cmdsize) id s (mach_build_version env i lc cmdsize s)"
proof -
  define t where "t = (if ms_bv1 s \<noteq> None \<and> ms_bv2 s \<noteq> None \<and> me_flags env AND MH_SIM_SUPPORT = 0
                       then message Three_build_versions s else s)"
  let ?take = "take_struct sizeof_build_version_command load_build_version_command store_build_version_command
                 swap_build_version_command env lc"
  have same: "ms_object t = ms_object s" by (simp add: t_def)
  have rest: "stays lc (lc + unat cmdsize) fst s'
      (take_array sizeof_build_tool_version load_build_tool_version store_build_tool_version swap_build_tool_version env
        (bv_ntools bv) (lc + sizeof_build_version_command) s')"
    if "\<not> unat cmdsize < sizeof_build_version_command" "?take t = Ok (s', bv)"
      "\<not> unat (bv_cmdsize bv) < sizeof_build_version_command + unat (bv_ntools bv) * sizeof_build_tool_version" for s' bv
  proof -
    have "bv_cmdsize bv = cmdsize"
      using bv_cmd.struct_cmdsize [OF that(2)] assms by (simp add: same measured_def)
    moreover have "length (ms_object s') = length (ms_object s)"
      using stays_length [OF build_version_command.struct_stays that(2), of lc "lc + unat cmdsize"] that(1) measuredD [OF assms] same
      by simp
    ultimately show ?thesis
      using that(3) measuredD [OF assms] by (intro take_array_stays length_swap_sections) auto
  qed
  have start: "stays lc (lc + unat cmdsize) fst t (?take t)" if "\<not> unat cmdsize < sizeof_build_version_command"
    using that measuredD [OF assms] same by (intro build_version_command.struct_stays) simp_all
  show ?thesis
    unfolding mach_build_version_def Let_def t_def [symmetric]
    by (intro stays_guard stays_from [OF stays_bind_fst [OF start]] same)
      (auto intro!: stays_guard stays_bind_fst [OF rest] stays_Ok)
qed

section \<open>Commands that only a table describes\<close>

lemma swap_in_row:
  assumes "row_ok (me_host env) sz f" and "p + sz \<le> length (ms_object s)"
  obtains m where "swap_in env p sz f s = Ok (s\<lparr>ms_object := m\<rparr>)" and "changed_within p (p + sz) (ms_object s) m"
    and "get32 (me_host env) m (p + 4) = get32 (file_order env) (ms_object s) (p + 4)"
proof -
  let ?e = "me_host env" and ?b = "subbytes p sz (ms_object s)"
  obtain m where m: "swap_in env p sz f s = Ok (s\<lparr>ms_object := m\<rparr>)" "changed_within p (p + sz) (ms_object s) m"
      "subbytes p sz m = (if me_swapped env then f else id) ?b"
    by (rule swap_in_Ok [OF assms(2) row_ok_length [OF assms(1)]])
  have sz: "4 + 4 \<le> sz" using assms(1) by (simp add: row_ok_def)
  have len: "length ?b = sz" "length (f ?b) = sz" using assms(2) row_ok_length [OF assms(1)] by simp_all
  then have "SWAP_INT (get32 ?e (f ?b) 4) = get32 ?e ?b 4"
    using assms(1) get_flip(2) [of 4 "f ?b" ?e] sz by (simp add: row_ok_def)
  then have "get32 ?e (f ?b) 4 = get32 (flip ?e) ?b 4"
    using get_flip(2) [of 4 ?b ?e] len(1) sz SWAP_INT_INT [of "get32 ?e (f ?b) 4"] by simp
  then have "get32 ?e (subbytes p sz m) 4 = get32 (file_order env) ?b 4"
    by (simp add: m(3) file_order_def)
  then show ?thesis using m(1,2) sz by (intro that) (simp_all add: get32_in_subbytes)
qed

lemma strings_inside_no_fault:
  "list_all (\<lambda>off. lc + off + 4 \<le> length m) offs \<Longrightarrow> strings_inside env cmd i lc cmdsize offs m \<noteq> Fault"
  by (induction offs) (auto simp: bind_iffs read_u32_def)

definition string_row_ok :: "endian \<Rightarrow> nat \<times> (bytes \<Rightarrow> bytes) \<times> nat \<times> nat list \<Rightarrow> bool" where
  "string_row_ok e row \<longleftrightarrow>
     (case row of (sz, f, smallest, offs) \<Rightarrow> row_ok e sz f \<and> list_all (\<lambda>off. off + 4 \<le> sz) offs)"

lemma mach_string_stays:
  assumes "measured env lc cmdsize s" and "string_row_ok (me_host env) row"
  shows "stays lc (lc + unat cmdsize) id s (mach_string env cmd row i lc cmdsize s)"
proof (cases row)
  case row: (fields sz f smallest offs)
  show ?thesis
  proof (cases "unat cmdsize < sz")
    case False
    then have inside: "lc + sz \<le> length (ms_object s)" using measuredD [OF assms(1)] by simp
    have ok: "row_ok (me_host env) sz f" using assms(2) row by (simp add: string_row_ok_def)
    obtain m where m: "swap_in env lc sz f s = Ok (s\<lparr>ms_object := m\<rparr>)" "changed_within lc (lc + sz) (ms_object s) m"
      by (rule swap_in_row [OF ok inside])
    have "list_all (\<lambda>off. lc + off + 4 \<le> length m) offs" "lc + 8 \<le> length m"
      using m(2) assms(2) row inside
      by (auto simp: string_row_ok_def row_ok_def changed_within_def list_all_iff)
    moreover have "changed_within lc (lc + unat cmdsize) (ms_object s) m"
      using m(2) False by (auto intro: changed_within_mono)
    ultimately show ?thesis
      using False row strings_inside_no_fault
      by (auto simp: mach_string_def m(1) stays_def guard_def bind_iffs read_u32_def)
  qed (simp add: row mach_string_def guard_def stays_def)
qed

lemma mach_single_stays:
  assumes "measured env lc cmdsize s" and "row_ok (me_host env) (fst row) (snd row)"
  shows "stays lc (lc + unat cmdsize) id s (mach_single env cmd row i lc cmdsize s)"
proof (cases "unat cmdsize < fst row")
  case False
  then have inside: "lc + fst row \<le> length (ms_object s)" using measuredD [OF assms(1)] by simp
  obtain m where m: "swap_in env lc (fst row) (snd row) s = Ok (s\<lparr>ms_object := m\<rparr>)"
      "changed_within lc (lc + fst row) (ms_object s) m"
    by (rule swap_in_row [OF assms(2) inside])
  have "lc + 8 \<le> length m" using m(2) assms(2) inside by (simp add: row_ok_def changed_within_def)
  moreover have "changed_within lc (lc + unat cmdsize) (ms_object s) m"
    using m(2) False by (auto intro: changed_within_mono)
  ultimately show ?thesis
    using False by (auto simp: mach_single_def m(1) stays_def once_def guard_def bind_iffs read_u32_def)
qed (simp add: mach_single_def guard_def stays_def)

interpretation fse_cmd: command_codec
    sizeof_fileset_entry_command load_fileset_entry_command store_fileset_entry_command swap_fileset_entry_command fse_cmd fse_cmdsize
  by unfold_locales (simp_all add: fileset_entry_command_defs)

lemmas mach_string_tables =
  mach_strings_def library_strings_def sub_strings_def linker_strings_def measured_only_def

lemma mach_strings_ok:
  assumes "map_of (mach_strings e) cmd = Some row"
  shows "string_row_ok e row"
proof -
  have "list_all (\<lambda>(c, sz, f, smallest, offs). row_ok e sz f) (mach_strings e)"
    by (simp add: mach_string_tables Let_def rows_ok fse_cmd.row_ok_inplace)
  moreover have "list_all (\<lambda>(c, sz, f, smallest, offs). list_all (\<lambda>off. off + 4 \<le> sz) offs) (mach_strings e)"
    by (simp add: mach_string_tables Let_def sizeof_fvmlib_command_def sizeof_dylib_command_def
        sizeof_sub_framework_command_def sizeof_sub_umbrella_command_def sizeof_sub_library_command_def
        sizeof_sub_client_command_def sizeof_prebound_dylib_command_def sizeof_dylinker_command_def
        sizeof_rpath_command_def sizeof_fileset_entry_command_def)
  ultimately show ?thesis
    using map_of_SomeD [OF assms] by (cases row) (auto simp: list_all_iff string_row_ok_def)
qed

lemma single_commands_ok: "map_of (single_commands e) cmd = Some row \<Longrightarrow> row_ok e (fst row) (snd row)"
proof -
  have "list_all (\<lambda>(c, row). row_ok e (fst row) (snd row)) (single_commands e)"
    by (simp add: single_commands_def rows_ok)
  then show "map_of (single_commands e) cmd = Some row \<Longrightarrow> row_ok e (fst row) (snd row)"
    by (auto simp: list_all_iff dest!: map_of_SomeD)
qed

section \<open>Threads\<close>

definition flavor_ok :: "flavor_case \<Rightarrow> bool" where
  "flavor_ok c \<longleftrightarrow> (\<forall>n sz f junk b. c = Registers n sz f \<longrightarrow> length b = sz \<longrightarrow> length (f junk b) = sz)"

definition flavors_ok :: "(u32 \<times> flavor_case) list \<Rightarrow> bool" where
  "flavors_ok table \<longleftrightarrow> list_all (\<lambda>(flavor, c). flavor_ok c) table"

lemma flavors_okD: "flavors_ok table \<Longrightarrow> map_of table flavor = Some c \<Longrightarrow> flavor_ok c"
  by (auto simp: flavors_ok_def list_all_iff dest!: map_of_SomeD)

lemmas mach_state_tables =
  mach_m68k_def mach_ppc_def mach_ppc64_def mach_m88k_def mach_i860_def mach_i386_def mach_x86_64_def
  mach_hppa_def mach_sparc_def mach_arm_def mach_arm64_def

lemma mach_flavors_ok: "mach_flavors e cputype = Some table \<Longrightarrow> flavors_ok table"
  by (auto simp: mach_flavors_def mach_state_tables flavors_ok_def flavor_ok_def length_states Let_def split: if_splits)

lemma take_word_stays:
  "q + 4 \<le> length (ms_object s) \<Longrightarrow> a \<le> q \<Longrightarrow> q + 4 \<le> b \<Longrightarrow> stays a b fst s (take_word env q s)"
  unfolding take_word_def by (intro stays_bind_id swap_in_stays) (simp_all add: stays_Ok)

lemma flavor_body_stays:
  assumes "flavors_ok table" and "p \<le> length (ms_object s)" and "a \<le> state"
  shows "stays a p fst s (flavor_body env table cmd i nflavor state p flavor count s)"
proof (cases "map_of table flavor")
  case (Some c)
  then show ?thesis
    using assms(2,3) flavors_okD [OF assms(1) Some]
    by (cases c) (auto simp: flavor_body_def flavor_ok_def intro!: stays_guard stays_bind_id swap_in_stays stays_Ok)
qed (auto simp: flavor_body_def intro!: stays_guard stays_Ok)

lemma check_flavor_stays:
  assumes "flavors_ok table" and "p \<le> length (ms_object s)" and "a \<le> state"
  shows "stays a p fst s (check_flavor env table cmd i nflavor state p s)"
proof -
  have second: "stays a p fst s1 (bind (take_word env (state + 4) s1) (\<lambda>(s, count).
        flavor_body env table cmd i nflavor state p flavor count s))"
    if "p \<le> length (ms_object s1)" "state + 8 \<le> p" for s1 flavor
    using that assms(1,3) stays_length [OF take_word_stays [of "state + 4" s1 a p]]
    by (intro stays_bind_fst take_word_stays) (auto intro!: flavor_body_stays)
  show ?thesis
    unfolding check_flavor_def
    using assms(2,3) stays_length [OF take_word_stays [of state s a p]]
    by (intro stays_guard stays_bind_fst take_word_stays) (auto intro!: stays_guard second)
qed

lemma check_thread_flavors_stays:
  assumes "flavors_ok table" and "p \<le> length (ms_object s)" and "a \<le> state"
  shows "stays a p id s (check_thread_flavors env table cmd i nflavor state p s)"
  using assms
proof (induction env table cmd i nflavor state p s rule: check_thread_flavors.induct)
  case (1 env table cmd i nflavor state p s)
  show ?case
  proof (cases "state < p")
    case True
    note flavor = check_flavor_stays [OF "1.prems"]
    have "stays a p id (fst r) (check_thread_flavors env table cmd i (Suc nflavor) (snd r) p (fst r))"
      if "check_flavor env table cmd i nflavor state p s = Ok r" for r
      using "1.IH" [OF True that "1.prems"(1)] stays_length [OF flavor that] "1.prems"(2,3)
        check_flavor_moves [of env table cmd i nflavor state p s "fst r" "snd r"] that
      by (simp add: id_def)
    then show ?thesis
      by (subst check_thread_flavors.simps) (auto simp: True intro: stays_bind [OF flavor])
  qed (simp add: check_thread_flavors.simps stays_Ok)
qed

lemma mach_thread_stays:
  assumes "measured env lc cmdsize s"
  shows "stays lc (lc + unat cmdsize) id s (mach_thread env cmd i lc cmdsize s)"
proof -
  let ?take = "take_struct sizeof_thread_command load_thread_command store_thread_command swap_thread_command env lc"
  have rest: "stays lc (lc + unat cmdsize) id s'
      (check_thread_flavors env table cmd i 0 (lc + sizeof_thread_command) (lc + unat (ut_cmdsize ut)) s')"
    if "\<not> unat cmdsize < sizeof_thread_command" "?take s = Ok (s', ut)" "mach_flavors (me_host env) (me_cputype env) = Some table"
    for s' ut table
  proof -
    have "ut_cmdsize ut = cmdsize" using ut_cmd.struct_cmdsize [OF that(2)] assms by (simp add: measured_def)
    moreover have "length (ms_object s') = length (ms_object s)"
      using stays_length [OF thread_command.struct_stays that(2), of lc "lc + unat cmdsize"] that(1) measuredD [OF assms] by simp
    ultimately show ?thesis
      using measuredD [OF assms] by (auto intro!: check_thread_flavors_stays mach_flavors_ok [OF that(3)])
  qed
  show ?thesis
    unfolding mach_thread_def
    using measuredD [OF assms]
    by (intro stays_guard stays_bind_fst [OF thread_command.struct_stays])
      (auto intro!: rest stays_guard stays_Ok split: option.split)
qed

section \<open>The walk stays inside the load commands\<close>

text \<open>The file type of segments of either width is taken from the header of that width.\<close>

definition own_width :: "mach_env \<Rightarrow> u32 \<Rightarrow> bool" where
  "own_width env cmd \<longleftrightarrow>
     (cmd = LC_SEGMENT \<longrightarrow> me_filetype env \<noteq> None) \<and> (cmd = LC_SEGMENT_64 \<longrightarrow> me_filetype64 env \<noteq> None)"

lemma stays_if:
  "(c \<Longrightarrow> stays a b st s x) \<Longrightarrow> (\<not> c \<Longrightarrow> stays a b st s y) \<Longrightarrow> stays a b st s (if c then x else y)"
  by simp

lemma mach_command_stays:
  assumes "measured env lc cmdsize s" and "own_width env cmd"
  shows "stays lc (lc + unat cmdsize) id s (mach_command env i lc cmd cmdsize s)"
proof -
  note commands = mach_segment_stays mach_segment_64_stays mach_symtab_stays mach_dysymtab_stays mach_routines_stays
    mach_routines_64_stays mach_hints_stays mach_version_min_stays mach_build_version_stays mach_encryption_stays
    mach_encryption_64_stays mach_dyld_info_stays mach_symseg_stays mach_thread_stays mach_note_stays stays_Error
  consider (linkedit) name where "map_of linkedit_commands cmd = Some name"
    | (strings) row where "map_of linkedit_commands cmd = None" "map_of (mach_strings (me_host env)) cmd = Some row"
    | (single) row where "map_of linkedit_commands cmd = None" "map_of (mach_strings (me_host env)) cmd = None"
        "map_of (single_commands (me_host env)) cmd = Some row"
    | (other) "map_of linkedit_commands cmd = None" "map_of (mach_strings (me_host env)) cmd = None"
        "map_of (single_commands (me_host env)) cmd = None"
    by (metis not_None_eq)
  then show ?thesis
  proof cases
    case linkedit
    then show ?thesis using mach_linkedit_stays [OF assms(1)] by (simp add: mach_command_def)
  next
    case strings
    then show ?thesis using mach_string_stays [OF assms(1) mach_strings_ok] by (simp add: mach_command_def)
  next
    case single
    then show ?thesis using mach_single_stays [OF assms(1) single_commands_ok] by (simp add: mach_command_def)
  next
    case other
    show ?thesis
      unfolding mach_command_def other option.case
      by (intro stays_if commands assms(1)) (use assms(2) in \<open>simp_all add: own_width_def\<close>)
  qed
qed

lemma mach_load_command_reads:
  assumes "lc + sizeof_load_command \<le> length (ms_object s)"
  obtains l where "mach_load_command env lc s = Ok l" and "lc_cmd l = cmd_at (file_order env) (ms_object s) lc"
    and "lc_cmdsize l = get32 (file_order env) (ms_object s) (lc + 4)"
proof -
  let ?b = "subbytes lc sizeof_load_command (ms_object s)"
  have "mach_load_command env lc s = Ok (load_load_command (file_order env) ?b)"
    using assms load_command.load_flip [of ?b "me_host env"]
    by (simp add: mach_load_command_def read_bytes_def file_order_def Let_def)
  then show ?thesis by (rule that) (simp_all add: load_command_defs get32_in_subbytes)
qed

lemma mach_commands_stays:
  assumes "limit \<le> length (ms_object s)"
    and "list_all (\<lambda>(cmd, k). own_width env cmd) (commands (file_order env) (ms_object s) n lc)"
  shows "stays lc limit fst s (mach_commands env limit n i lc s)"
  using assms
proof (induction n arbitrary: i lc s)
  case (Suc n)
  let ?o = "file_order env" and ?m = "ms_object s"
  show ?case
  proof (cases "lc + sizeof_load_command \<le> limit")
    case True
    obtain l where l: "mach_load_command env lc s = Ok l" "lc_cmd l = cmd_at ?o ?m lc" "lc_cmdsize l = get32 ?o ?m (lc + 4)"
      using mach_load_command_reads [of lc s env] True Suc.prems(1) by auto
    have next_step: "stays lc limit fst s (bind (mach_command env i lc (lc_cmd l) (lc_cmdsize l) s)
        (mach_commands env limit n (Suc i) (lc + unat (lc_cmdsize l))))"
      if fits: "lc + unat (lc_cmdsize l) \<le> limit"
    proof -
      have step: "stays lc (lc + unat (lc_cmdsize l)) id s (mach_command env i lc (lc_cmd l) (lc_cmdsize l) s)"
        using fits Suc.prems l(2,3) by (intro mach_command_stays) (auto simp: measured_def)
      have "stays (lc + unat (lc_cmdsize l)) limit fst s' (mach_commands env limit n (Suc i) (lc + unat (lc_cmdsize l)) s')"
        if "mach_command env i lc (lc_cmd l) (lc_cmdsize l) s = Ok s'" for s'
      proof -
        have "changed_within lc (lc + unat (lc_cmdsize l)) ?m (ms_object s')" using step that by (simp add: stays_def)
        then have "commands ?o (ms_object s') n (lc + unat (lc_cmdsize l)) = commands ?o ?m n (lc + unat (lc_cmdsize l))"
          by (intro commands_same changed_within_same_from)
        then show ?thesis using Suc.prems l(3) stays_length [OF step that] by (intro Suc.IH) auto
      qed
      then show ?thesis using step fits by (intro stays_bind_id) (auto intro: stays_mono)
    qed
    show ?thesis by (auto simp: l(1) intro!: stays_guard next_step)
  qed (simp add: guard_def stays_def)
qed (simp add: stays_Ok)

lemma check_together_no_fault: "check_together s \<noteq> Fault"
  by (auto simp: check_together_def check_symbols_def symbols_inside_def bind_iffs split: option.splits)

lemma check_body_stays:
  assumes "first + unat sizeofcmds \<le> length (ms_object s)"
    and "list_all (\<lambda>(cmd, k). own_width env cmd) (commands (file_order env) (ms_object s) (unat ncmds) first)"
  shows "stays first (first + unat sizeofcmds) id s (check_body env fat_cputype first ncmds sizeofcmds s)"
proof -
  have "stays first (first + unat sizeofcmds) fst s' (mach_commands env (first + unat sizeofcmds) (unat ncmds) 0 first s')"
    if "enter_part name offset k s = Ok s'" for name offset k s'
  proof -
    have "ms_object s' = ms_object s" using that by (auto simp: enter_part_def split: sum.splits)
    then show ?thesis using assms by (intro mach_commands_stays) simp_all
  qed
  then show ?thesis
    unfolding check_body_def
    by (intro stays_bind_id [OF enter_part_stays] stays_guard stays_bind_fst)
      (auto intro!: stays_unit check_together_no_fault stays_guard stays_Ok)
qed

text \<open>What is known of an object before its headers are swapped.\<close>

abbreviation object_order :: "endian \<Rightarrow> mach_ofile \<Rightarrow> endian" where
  "object_order e ofile \<equiv> (if mo_swapped ofile then flip e else e)"

abbreviation first_command :: "mach_ofile \<Rightarrow> nat" where
  "first_command ofile \<equiv> (if mo_is64 ofile then sizeof_mach_header_64 else sizeof_mach_header)"

definition object_commands :: "endian \<Rightarrow> mach_ofile \<Rightarrow> bytes \<Rightarrow> u32 list" where
  "object_commands e ofile m =
     (let order = object_order e ofile
      in map fst (commands order m (unat (get32 order m 16)) (first_command ofile)))"

text \<open>Where the load commands end.\<close>

definition end_of_commands :: "endian \<Rightarrow> mach_ofile \<Rightarrow> bytes \<Rightarrow> nat" where
  "end_of_commands e ofile m = first_command ofile + unat (get32 (object_order e ofile) m 20)"

context struct_codec
begin

lemma swap_header_reads:
  assumes "sz \<le> length m"
  obtains m' where "swap_header swapped sz (inplace load store swap e) m = Ok m'" and "changed_within 0 sz m m'"
    and "load e (subbytes 0 sz m') = load (if swapped then flip e else e) (subbytes 0 sz m)"
    and "swapped \<or> m' = m"
proof -
  let ?f = "if swapped then inplace load store swap e else id" and ?b = "subbytes 0 sz m"
  have b: "length ?b = sz" using assms by simp
  then have len: "length (?f ?b) = sz" using length_inplace by simp
  show ?thesis
  proof (rule that)
    show "swap_header swapped sz (inplace load store swap e) m = Ok (?f ?b @ drop sz m)"
      using assms by (simp add: swap_header_def modify_at_def)
    show "changed_within 0 sz m (?f ?b @ drop sz m)" using len assms by (simp add: changed_within_def)
    show "load e (subbytes 0 sz (?f ?b @ drop sz m)) = load (if swapped then flip e else e) ?b"
      using len b load_inplace by (simp add: subbytes_def)
    show "swapped \<or> ?f ?b @ drop sz m = m" by (simp add: subbytes_def)
  qed
qed

end

lemma commands_past_file:
  assumes "\<not> (ucast (n :: u32) + of_nat k :: u64) > ucast (of_nat (length m) :: u32)" and "k < 2 ^ 32"
  shows "k + unat n \<le> length m"
proof -
  have "unat (ucast n + of_nat k :: u64) = unat n + k"
    using assms(2) unsigned_less [of n, where 'a = nat]
    by (simp add: unat_word_ariths unsigned_of_nat unat_ucast_32_64 take_bit_eq_mod)
  moreover have "unat (of_nat (length m) :: u32) \<le> length m"
    by (simp add: unsigned_of_nat take_bit_eq_mod)
  ultimately show ?thesis
    using assms(1) by (simp add: word_less_nat_alt unat_ucast_32_64)
qed

lemma object_body_stays:
  assumes "changed_within 0 (first_command ofile) m m'" and "file_order env = object_order e ofile"
    and "own_width env = (\<lambda>cmd. cmd \<noteq> other)" and "other \<notin> set (object_commands e ofile m)"
    and "end_of_commands e ofile m \<le> length m"
  shows "stays (first_command ofile) (end_of_commands e ofile m) id (first_mach_state m')
    (check_body env fat_cputype (first_command ofile) (get32 (object_order e ofile) m 16) (get32 (object_order e ofile) m 20)
      (first_mach_state m'))"
proof -
  have "same_from (first_command ofile) m m'" using assms(1) by (rule changed_within_same_from)
  then have "commands (object_order e ofile) m' (unat (get32 (object_order e ofile) m 16)) (first_command ofile) =
      commands (object_order e ofile) m (unat (get32 (object_order e ofile) m 16)) (first_command ofile)"
    by (rule commands_same)
  moreover have "list_all (\<lambda>(cmd, k). own_width env cmd)
      (commands (object_order e ofile) m (unat (get32 (object_order e ofile) m 16)) (first_command ofile))"
    using assms(3,4) by (force simp: object_commands_def Let_def list_all_iff simp del: if_split)
  moreover have "length m' = length m" using assms(1) by (simp add: changed_within_def)
  ultimately show ?thesis
    using assms(2,5) unfolding end_of_commands_def
    by (intro check_body_stays) (simp_all add: first_mach_state_def del: if_split)
qed

lemma header_words:
  "sizeof_mach_header \<le> length m \<Longrightarrow> mh_ncmds (load_mach_header e (subbytes 0 sizeof_mach_header m)) = get32 e m 16"
  "sizeof_mach_header \<le> length m \<Longrightarrow> mh_sizeofcmds (load_mach_header e (subbytes 0 sizeof_mach_header m)) = get32 e m 20"
  "sizeof_mach_header_64 \<le> length m \<Longrightarrow> mh64_ncmds (load_mach_header_64 e (subbytes 0 sizeof_mach_header_64 m)) = get32 e m 16"
  "sizeof_mach_header_64 \<le> length m \<Longrightarrow> mh64_sizeofcmds (load_mach_header_64 e (subbytes 0 sizeof_mach_header_64 m)) = get32 e m 20"
  by (simp_all add: mach_header_defs mach_header_64_defs get32_in_subbytes)

lemma env_order [simp]:
  "file_order (mach_env_32 e stack swapped filesize mh) = (if swapped then flip e else e)"
  "file_order (mach_env_64 e stack swapped filesize mh64) = (if swapped then flip e else e)"
  by (simp_all add: file_order_def mach_env_32_def mach_env_64_def)

lemma env_width:
  "own_width (mach_env_32 e stack swapped filesize mh) = (\<lambda>cmd. cmd \<noteq> LC_SEGMENT_64)"
  "own_width (mach_env_64 e stack swapped filesize mh64) = (\<lambda>cmd. cmd \<noteq> LC_SEGMENT)"
  by (auto simp: own_width_def mach_env_32_def mach_env_64_def)

lemma commands_in_file:
  "mo_is64 ofile \<Longrightarrow> \<not> (ucast (get32 (object_order e ofile) m 20) + 32 :: u64) > ucast (of_nat (length m) :: u32) \<Longrightarrow>
     end_of_commands e ofile m \<le> length m"
  "\<not> mo_is64 ofile \<Longrightarrow> \<not> (ucast (get32 (object_order e ofile) m 20) + 28 :: u64) > ucast (of_nat (length m) :: u32) \<Longrightarrow>
     end_of_commands e ofile m \<le> length m"
  using commands_past_file [where n = "get32 (object_order e ofile) m 20" and k = 32 and m = m]
    commands_past_file [where n = "get32 (object_order e ofile) m 20" and k = 28 and m = m]
  by (simp_all add: end_of_commands_def sizeof_mach_header_def sizeof_mach_header_64_def)

text \<open>The environment in which the commands of an object are walked over.\<close>

definition object_env :: "endian \<Rightarrow> mach_ofile \<Rightarrow> bytes \<Rightarrow> mach_env \<Rightarrow> bool" where
  "object_env e ofile m env \<longleftrightarrow>
     file_order env = object_order e ofile \<and> me_size env = of_nat (length m) \<and>
     own_width env = (\<lambda>cmd. cmd \<noteq> (if mo_is64 ofile then LC_SEGMENT else LC_SEGMENT_64)) \<and>
     me_sizeof_nlist env = (if mo_is64 ofile then 16 else 12) \<and>
     me_sizeof_dylib_module env = (if mo_is64 ofile then 56 else 52) \<and> me_swapped env = mo_swapped ofile"

lemma check_Mach_O_runs:
  assumes "first_command ofile \<le> length m"
  obtains (past) "check_Mach_O e stack ofile m = Error Commands_past_file"
  | (walk) env m' info where "end_of_commands e ofile m \<le> length m" and "changed_within 0 (first_command ofile) m m'"
      and "object_env e ofile m env" and "mo_swapped ofile \<or> m' = m"
      and "check_Mach_O e stack ofile m =
        bind (check_body env (mo_fat_cputype ofile) (first_command ofile) (get32 (object_order e ofile) m 16)
          (get32 (object_order e ofile) m 20) (first_mach_state m')) (\<lambda>s. Ok (info, s))"
proof (cases "mo_is64 ofile")
  case True
  then have sz: "sizeof_mach_header_64 \<le> length m" using assms by simp
  let ?mh = "load_mach_header_64 (object_order e ofile) (subbytes 0 sizeof_mach_header_64 m)"
  obtain m' where m': "swap_header (mo_swapped ofile) sizeof_mach_header_64
        (inplace load_mach_header_64 store_mach_header_64 swap_mach_header_64 e) m = Ok m'"
      "changed_within 0 sizeof_mach_header_64 m m'"
      "load_mach_header_64 e (subbytes 0 sizeof_mach_header_64 m') = ?mh" "mo_swapped ofile \<or> m' = m"
    by (rule mach_header_64.swap_header_reads [OF sz])
  show ?thesis
  proof (cases "(ucast (get32 (object_order e ofile) m 20) + 32 :: u64) > ucast (of_nat (length m) :: u32)")
    case False
    show ?thesis
    proof (rule walk [of m' "mach_env_64 e stack (mo_swapped ofile) (of_nat (length m)) ?mh"])
      show "end_of_commands e ofile m \<le> length m" using True False by (rule commands_in_file)
      show "mo_swapped ofile \<or> m' = m" by (rule m'(4))
      show "object_env e ofile m (mach_env_64 e stack (mo_swapped ofile) (of_nat (length m)) ?mh)"
        using True by (simp add: object_env_def env_width) (simp add: mach_env_64_def)
    qed (use False in \<open>simp_all add: check_Mach_O_def m'(1-3) True header_words sz Let_def guard_def\<close>)
  qed (rule past, simp add: check_Mach_O_def m'(1-3) True header_words sz Let_def guard_def)
next
  case False
  then have sz: "sizeof_mach_header \<le> length m" using assms by simp
  let ?mh = "load_mach_header (object_order e ofile) (subbytes 0 sizeof_mach_header m)"
  obtain m' where m': "swap_header (mo_swapped ofile) sizeof_mach_header
        (inplace load_mach_header store_mach_header swap_mach_header e) m = Ok m'"
      "changed_within 0 sizeof_mach_header m m'"
      "load_mach_header e (subbytes 0 sizeof_mach_header m') = ?mh" "mo_swapped ofile \<or> m' = m"
    by (rule mach_header.swap_header_reads [OF sz])
  show ?thesis
  proof (cases "(ucast (get32 (object_order e ofile) m 20) + 28 :: u64) > ucast (of_nat (length m) :: u32)")
    case small: False
    show ?thesis
    proof (rule walk [of m' "mach_env_32 e stack (mo_swapped ofile) (of_nat (length m)) ?mh"])
      show "end_of_commands e ofile m \<le> length m" using False small by (rule commands_in_file)
      show "mo_swapped ofile \<or> m' = m" by (rule m'(4))
      show "object_env e ofile m (mach_env_32 e stack (mo_swapped ofile) (of_nat (length m)) ?mh)"
        using False by (simp add: object_env_def env_width) (simp add: mach_env_32_def)
    qed (use small in \<open>simp_all add: check_Mach_O_def m'(1-3) False header_words sz Let_def guard_def\<close>)
  qed (rule past, simp add: check_Mach_O_def m'(1-3) False header_words sz Let_def guard_def)
qed

lemma stays_object:
  assumes "stays a b id (first_mach_state m') r" and "changed_within 0 a m m'" and "a \<le> b"
  shows "r \<noteq> Fault" and "r = Ok s \<Longrightarrow> changed_within 0 b m (ms_object s)"
proof -
  show "r \<noteq> Fault" using assms(1) by (simp add: stays_def)
  assume "r = Ok s"
  then have "changed_within a b m' (ms_object s)" using assms(1) by (simp add: stays_def first_mach_state_def)
  then have "changed_within 0 b m' (ms_object s)" by (rule changed_within_mono) simp_all
  moreover have "changed_within 0 b m m'" using assms(3) by (auto intro: changed_within_mono [OF assms(2)])
  ultimately show "changed_within 0 b m (ms_object s)" by (rule changed_within_trans [rotated])
qed

section \<open>What an accepted command says of the file\<close>

text \<open>
  A table that the command at \<open>lc\<close> places in the file: its offset is the word at \<open>at\<close>, the number of
  its entries the word at \<open>n\<close>, and an entry has \<open>entsize\<close> bytes.
\<close>

fun table_in_file :: "endian \<Rightarrow> nat \<Rightarrow> bytes \<Rightarrow> nat \<Rightarrow> nat \<times> nat \<times> nat \<Rightarrow> bool" where
  "table_in_file e len m lc (at, n, entsize) \<longleftrightarrow>
     unat (get32 e m (lc + at)) + unat (get32 e m (lc + n)) * entsize \<le> len"

lemma inside_file_Ok:
  assumes "inside_file env e1 e2 offset n = Ok ()" and "unat n + unat offset < 2 ^ 64"
  shows "unat offset + unat n \<le> unat (me_size env)"
proof -
  have "unat (n + ucast offset) = unat n + unat offset"
    using assms(2) by (simp add: unat_word_ariths unat_ucast_32_64)
  then show ?thesis
    using assms(1) by (simp add: inside_file_def bind_iffs word_less_nat_alt unat_ucast_32_64)
qed

lemma table_product: "unat (ucast (n :: u32) * ucast (k :: u32) :: u64) = unat n * unat k"
  "unat n * unat k + unat (offset :: u32) < 2 ^ 64"
proof -
  have "unat n * unat k \<le> (2 ^ 32 - 1) * (2 ^ 32 - 1)"
    using unsigned_less [of n, where 'a = nat] unsigned_less [of k, where 'a = nat] by (intro mult_le_mono) simp_all
  then show *: "unat n * unat k + unat offset < 2 ^ 64"
    using unsigned_less [of offset, where 'a = nat] by simp
  then show "unat (ucast n * ucast k :: u64) = unat n * unat k"
    by (simp add: unat_word_ariths unat_ucast_32_64)
qed

lemma check_table_Ok:
  assumes "check_table env cmd i name offset n entsize s = Ok s'"
  shows "unat offset + unat n * unat entsize \<le> unat (me_size env)"
  using assms inside_file_Ok [of env _ _ offset "ucast n * ucast entsize"] table_product [of n entsize]
  by (auto simp: check_table_def bind_iffs)

lemma inside_32_Ok:
  "inside_file env e1 e2 offset (ucast (n :: u32)) = Ok () \<Longrightarrow> unat offset + unat n \<le> unat (me_size env)"
  using inside_file_Ok [of env e1 e2 offset "ucast n"] table_product(2) [of n 1 offset] by (simp add: unat_ucast_32_64)

lemma mach_symtab_tables:
  assumes "mach_symtab env i lc cmdsize s = Ok s'"
  shows "list_all (table_in_file (file_order env) (unat (me_size env)) (ms_object s) lc)
    [(8, 12, unat (me_sizeof_nlist env)), (16, 20, 1)]"
  using assms
  by (auto simp: mach_symtab_def bind_iffs dest!: check_table_Ok symtab_command.struct_value)
    (simp_all add: symtab_command_defs get32_in_subbytes)

lemma mach_dysymtab_tables:
  assumes "mach_dysymtab env i lc cmdsize s = Ok s'"
  shows "list_all (table_in_file (file_order env) (unat (me_size env)) (ms_object s) lc)
    [(32, 36, 8), (40, 44, unat (me_sizeof_dylib_module env)), (48, 52, 4), (56, 60, 4), (64, 68, 8), (72, 76, 8)]"
  using assms
  by (auto simp: mach_dysymtab_def bind_iffs dest!: check_table_Ok dysymtab_command.struct_value)
    (simp_all add: dysymtab_command_defs get32_in_subbytes sizeof_dylib_reference_def)

lemma mach_hints_tables:
  assumes "mach_hints env i lc cmdsize s = Ok s'"
  shows "list_all (table_in_file (file_order env) (unat (me_size env)) (ms_object s) lc) [(8, 12, 4)]"
  using assms
  by (auto simp: mach_hints_def bind_iffs dest!: check_table_Ok twolevel_hints_command.struct_value)
    (simp_all add: twolevel_hints_command_defs get32_in_subbytes)

lemma mach_linkedit_tables:
  assumes "mach_linkedit env cmd name i lc cmdsize s = Ok s'"
  shows "list_all (table_in_file (file_order env) (unat (me_size env)) (ms_object s) lc) [(8, 12, 1)]"
  using assms
  by (auto simp: mach_linkedit_def bind_iffs dest!: check_table_Ok linkedit_data_command.struct_value)
    (simp_all add: linkedit_data_command_defs get32_in_subbytes)

lemma mach_symseg_tables:
  assumes "mach_symseg env i lc cmdsize s = Ok s'"
  shows "list_all (table_in_file (file_order env) (unat (me_size env)) (ms_object s) lc) [(8, 12, 1)]"
  using assms
  by (auto simp: mach_symseg_def bind_iffs dest!: check_table_Ok symseg_command.struct_value)
    (simp_all add: symseg_command_defs get32_in_subbytes)

lemma mach_encryption_tables:
  assumes "mach_encryption env i lc cmdsize s = Ok s'"
  shows "list_all (table_in_file (file_order env) (unat (me_size env)) (ms_object s) lc) [(8, 12, 1)]"
  using assms
  by (auto simp: mach_encryption_def bind_iffs dest!: inside_32_Ok encryption_info_command.struct_value)
    (simp_all add: encryption_info_command_defs get32_in_subbytes)

lemma mach_segment_tables:
  assumes "mach_segment env i lc cmdsize s = Ok s'"
  shows "list_all (table_in_file (file_order env) (unat (me_size env)) (ms_object s) lc) [(32, 36, 1)]"
  using assms
  by (auto simp: mach_segment_def bind_iffs dest!: inside_32_Ok segment_command.struct_value)
    (simp_all add: segment_command_defs get32_in_subbytes)

section \<open>Every command of an accepted object has been checked\<close>

text \<open>A segment of the other width is accepted only if it has no sections.\<close>

lemma take_type [simp]:
  "take_struct sz load store swap (env\<lparr>me_filetype := t\<rparr>) = take_struct sz load store swap env"
  "take_struct sz load store swap (env\<lparr>me_filetype64 := t\<rparr>) = take_struct sz load store swap env"
  "take_array sz load store swaps (env\<lparr>me_filetype := t\<rparr>) = take_array sz load store swaps env"
  "take_array sz load store swaps (env\<lparr>me_filetype64 := t\<rparr>) = take_array sz load store swaps env"
  "inside_file (env\<lparr>me_filetype := t\<rparr>) = inside_file env"
  by (simp_all add: take_struct_def take_array_def swap_in_def inside_file_def fun_eq_iff)

lemma mach_segment_without_type:
  assumes "mach_segment env i lc cmdsize s = Ok s'" and "me_filetype env = None"
  shows "mach_segment (env\<lparr>me_filetype := Some t\<rparr>) i lc cmdsize s = Ok s'"
proof -
  have "check_sections env i sg 0 scs s = Ok s' \<Longrightarrow> check_sections (env\<lparr>me_filetype := Some t\<rparr>) i sg 0 scs s = Ok s'"
    for sg scs s
    using assms(2) by (cases scs) auto
  then show ?thesis using assms(1) by (fastforce simp: mach_segment_def bind_eq_Ok)
qed

lemma mach_segment_64_without_type:
  assumes "mach_segment_64 env i lc cmdsize s = Ok s'" and "me_filetype64 env = None"
  shows "mach_segment_64 (env\<lparr>me_filetype64 := Some t\<rparr>) i lc cmdsize s = Ok s'"
proof -
  have "check_sections_64 env i sg 0 scs s = Ok s' \<Longrightarrow> check_sections_64 (env\<lparr>me_filetype64 := Some t\<rparr>) i sg 0 scs s = Ok s'"
    for sg scs s
    using assms(2) by (cases scs) auto
  then show ?thesis using assms(1) by (fastforce simp: mach_segment_64_def bind_eq_Ok)
qed

lemma measured_type [simp]:
  "measured (env\<lparr>me_filetype := t\<rparr>) lc cmdsize s = measured env lc cmdsize s"
  "measured (env\<lparr>me_filetype64 := t\<rparr>) lc cmdsize s = measured env lc cmdsize s"
  by (simp_all add: measured_def file_order_def)

lemma mach_command_segment:
  "mach_command env i lc LC_SEGMENT cmdsize s = mach_segment env i lc cmdsize s"
  "mach_command env i lc LC_SEGMENT_64 cmdsize s = mach_segment_64 env i lc cmdsize s"
  by (simp_all add: mach_command_def linkedit_commands_def mach_string_tables single_commands_def Let_def)

lemma mach_command_changes:
  assumes "measured env lc cmdsize s" and "mach_command env i lc cmd cmdsize s = Ok s'"
  shows "changed_within lc (lc + unat cmdsize) (ms_object s) (ms_object s')"
proof -
  consider "own_width env cmd" | "cmd = LC_SEGMENT" "me_filetype env = None"
    | "cmd = LC_SEGMENT_64" "me_filetype64 env = None"
    by (auto simp: own_width_def)
  then show ?thesis
  proof cases
    case 1
    then show ?thesis using mach_command_stays [OF assms(1) 1] assms(2) by (simp add: stays_def)
  next
    case 2
    then have "mach_segment (env\<lparr>me_filetype := Some 0\<rparr>) i lc cmdsize s = Ok s'"
      using assms(2) by (simp add: mach_command_segment mach_segment_without_type)
    then show ?thesis
      using mach_segment_stays [of "env\<lparr>me_filetype := Some 0\<rparr>" lc cmdsize s i] assms(1) by (simp add: stays_def)
  next
    case 3
    then have "mach_segment_64 (env\<lparr>me_filetype64 := Some 0\<rparr>) i lc cmdsize s = Ok s'"
      using assms(2) by (simp add: mach_command_segment mach_segment_64_without_type)
    then show ?thesis
      using mach_segment_64_stays [of "env\<lparr>me_filetype64 := Some 0\<rparr>" lc cmdsize s i] assms(1) by (simp add: stays_def)
  qed
qed

text \<open>Where the commands are.\<close>

fun command_places :: "endian \<Rightarrow> bytes \<Rightarrow> nat \<Rightarrow> nat \<Rightarrow> (nat \<times> u32) list" where
  "command_places e m 0 lc = []"
| "command_places e m (Suc n) lc = (lc, cmd_at e m lc) # command_places e m n (lc + cmdsize_at e m lc)"

lemma command_places_same: "same_from lc m m' \<Longrightarrow> command_places e m' n lc = command_places e m n lc"
proof (induction n arbitrary: lc)
  case (Suc n)
  have "command_places e m' n (lc + k) = command_places e m n (lc + k)" for k
    using Suc.prems by (intro Suc.IH) (simp add: same_from_mono)
  then show ?case using Suc.prems by (simp add: get32_same)
qed simp

lemma command_places_after: "(p, cmd) \<in> set (command_places e m n lc) \<Longrightarrow> lc \<le> p"
  by (induction n arbitrary: lc) (auto dest: order_trans [rotated] add_leD1)

lemma mach_commands_Suc:
  assumes "mach_commands env limit (Suc n) i lc s = Ok (s', lc')" and "limit \<le> length (ms_object s)"
  obtains s1 where "measured env lc (get32 (file_order env) (ms_object s) (lc + 4)) s"
    and "lc + sizeof_load_command \<le> length (ms_object s)"
    and "mach_command env i lc (cmd_at (file_order env) (ms_object s) lc) (get32 (file_order env) (ms_object s) (lc + 4)) s = Ok s1"
    and "same_from (lc + cmdsize_at (file_order env) (ms_object s) lc) (ms_object s) (ms_object s1)"
    and "mach_commands env limit n (Suc i) (lc + cmdsize_at (file_order env) (ms_object s) lc) s1 = Ok (s', lc')"
proof -
  have header: "lc + sizeof_load_command \<le> length (ms_object s)"
    using assms by (auto simp: bind_iffs)
  then obtain l where l: "mach_load_command env lc s = Ok l" "lc_cmd l = cmd_at (file_order env) (ms_object s) lc"
      "lc_cmdsize l = get32 (file_order env) (ms_object s) (lc + 4)"
    by (rule mach_load_command_reads)
  obtain s1 where s1: "mach_command env i lc (lc_cmd l) (lc_cmdsize l) s = Ok s1" "lc + unat (lc_cmdsize l) \<le> limit"
      "mach_commands env limit n (Suc i) (lc + unat (lc_cmdsize l)) s1 = Ok (s', lc')"
    using assms(1) l(1) by (auto simp: bind_iffs)
  have measured: "measured env lc (lc_cmdsize l) s" using s1(2) l(3) assms(2) by (simp add: measured_def)
  show ?thesis
    using s1 measured header changed_within_same_from [OF mach_command_changes [OF measured s1(1)]] l(2,3)
    by (intro that) simp_all
qed

lemma mach_commands_visit:
  assumes "mach_commands env limit n i lc s = Ok (s', lc')" and "limit \<le> length (ms_object s)"
    and "(p, cmd) \<in> set (command_places (file_order env) (ms_object s) n lc)"
  shows "\<exists>j cmdsize s1 s2 k n' lc''. mach_command env j p cmd cmdsize s1 = Ok s2 \<and>
    same_from p (ms_object s) (ms_object s1) \<and> measured env p cmdsize s1 \<and>
    p + sizeof_load_command \<le> length (ms_object s1) \<and> mach_commands env limit n' k lc'' s2 = Ok (s', lc')"
  using assms
proof (induction n arbitrary: i lc s)
  case (Suc n)
  let ?e = "file_order env" and ?m = "ms_object s"
  obtain s1 where measured: "measured env lc (get32 ?e ?m (lc + 4)) s" "lc + sizeof_load_command \<le> length ?m"
    and step: "mach_command env i lc (cmd_at ?e ?m lc) (get32 ?e ?m (lc + 4)) s = Ok s1"
      "same_from (lc + cmdsize_at ?e ?m lc) ?m (ms_object s1)"
      "mach_commands env limit n (Suc i) (lc + cmdsize_at ?e ?m lc) s1 = Ok (s', lc')"
    using mach_commands_Suc [OF Suc.prems(1,2)] .
  consider "p = lc" "cmd = cmd_at ?e ?m lc" | "(p, cmd) \<in> set (command_places ?e ?m n (lc + cmdsize_at ?e ?m lc))"
    using Suc.prems(3) by auto
  then show ?case
  proof cases
    case 1
    then show ?thesis using step(1,3) measured unfolding same_from_def by blast
  next
    case 2
    then have "(p, cmd) \<in> set (command_places ?e (ms_object s1) n (lc + cmdsize_at ?e ?m lc))"
      by (simp add: command_places_same [OF step(2)])
    moreover have "limit \<le> length (ms_object s1)" using step(2) Suc.prems(2) by (simp add: same_from_def)
    ultimately obtain j cmdsize s2 s3 k n' lc'' where "mach_command env j p cmd cmdsize s2 = Ok s3"
        "same_from p (ms_object s1) (ms_object s2)" "measured env p cmdsize s2" "p + sizeof_load_command \<le> length (ms_object s2)"
        "mach_commands env limit n' k lc'' s3 = Ok (s', lc')"
      using Suc.IH [OF step(3)] by blast
    moreover have "same_from p ?m (ms_object s1)"
      using step(2) command_places_after [OF 2] by (rule same_from_mono)
    ultimately show ?thesis unfolding same_from_def by metis
  qed
qed simp

section \<open>Tables of accepted objects\<close>

text \<open>The tables that a command places in the file, by the layout of the format.\<close>

definition linkedit_places :: "u32 list" where
  "linkedit_places =
     [LC_SEGMENT_SPLIT_INFO, LC_ATOM_INFO, LC_CODE_SIGNATURE, LC_FUNCTION_STARTS, LC_DATA_IN_CODE, LC_DYLIB_CODE_SIGN_DRS,
      LC_LINKER_OPTIMIZATION_HINT, LC_DYLD_EXPORTS_TRIE, LC_DYLD_CHAINED_FIXUPS]"

definition file_tables :: "bool \<Rightarrow> u32 \<Rightarrow> (nat \<times> nat \<times> nat) list" where
  "file_tables is64 cmd =
     (if cmd = LC_SYMTAB then [(8, 12, if is64 then 16 else 12), (16, 20, 1)]
      else if cmd = LC_DYSYMTAB then
        [(32, 36, 8), (40, 44, if is64 then 56 else 52), (48, 52, 4), (56, 60, 4), (64, 68, 8), (72, 76, 8)]
      else if cmd = LC_TWOLEVEL_HINTS then [(8, 12, 4)]
      else if cmd = LC_SEGMENT then [(32, 36, 1)]
      else if cmd = LC_SYMSEG \<or> cmd = LC_ENCRYPTION_INFO \<or> cmd \<in> set linkedit_places then [(8, 12, 1)]
      else [])"

lemma mach_command_places:
  "mach_command env i lc LC_SYMTAB cmdsize s = mach_symtab env i lc cmdsize s"
  "mach_command env i lc LC_DYSYMTAB cmdsize s = mach_dysymtab env i lc cmdsize s"
  "mach_command env i lc LC_TWOLEVEL_HINTS cmdsize s = mach_hints env i lc cmdsize s"
  "mach_command env i lc LC_SYMSEG cmdsize s = mach_symseg env i lc cmdsize s"
  "mach_command env i lc LC_ENCRYPTION_INFO cmdsize s = mach_encryption env i lc cmdsize s"
  by (simp_all add: mach_command_def linkedit_commands_def mach_string_tables single_commands_def Let_def)

lemma mach_command_linkedit:
  assumes "cmd \<in> set linkedit_places"
  obtains name where "mach_command env i lc cmd cmdsize s = mach_linkedit env cmd name i lc cmdsize s"
proof -
  have "set linkedit_places = fst ` set linkedit_commands"
    by (simp add: linkedit_places_def linkedit_commands_def)
  then obtain name where "map_of linkedit_commands cmd = Some name"
    using assms by (metis map_of_eq_None_iff not_None_eq)
  then show ?thesis by (intro that) (simp add: mach_command_def)
qed

lemma mach_command_tables:
  assumes "mach_command env i lc cmd cmdsize s = Ok s'"
    and "me_sizeof_nlist env = (if is64 then 16 else 12)" and "me_sizeof_dylib_module env = (if is64 then 56 else 52)"
  shows "list_all (table_in_file (file_order env) (unat (me_size env)) (ms_object s) lc) (file_tables is64 cmd)"
proof -
  consider (linkedit) "cmd \<in> set linkedit_places" | (symtab) "cmd = LC_SYMTAB" | (dysymtab) "cmd = LC_DYSYMTAB"
    | (hints) "cmd = LC_TWOLEVEL_HINTS" | (segment) "cmd = LC_SEGMENT" | (symseg) "cmd = LC_SYMSEG"
    | (encryption) "cmd = LC_ENCRYPTION_INFO" | (none) "file_tables is64 cmd = []"
    unfolding file_tables_def by presburger
  then show ?thesis
  proof cases
    case linkedit
    then obtain name where "mach_linkedit env cmd name i lc cmdsize s = Ok s'"
      using mach_command_linkedit [of cmd env i lc cmdsize s] assms(1) by metis
    moreover have "file_tables is64 cmd = [(8, 12, 1)]"
      using linkedit by (auto simp: file_tables_def linkedit_places_def)
    ultimately show ?thesis using mach_linkedit_tables [of env cmd name i lc cmdsize s s'] by simp
  next
    case symtab
    then show ?thesis using mach_symtab_tables [of env i lc cmdsize s s'] assms
      by (simp add: mach_command_places file_tables_def split: if_splits)
  next
    case dysymtab
    then show ?thesis using mach_dysymtab_tables [of env i lc cmdsize s s'] assms
      by (simp add: mach_command_places file_tables_def split: if_splits)
  next
    case hints
    then show ?thesis using mach_hints_tables [of env i lc cmdsize s s'] assms
      by (simp add: mach_command_places file_tables_def)
  next
    case segment
    then show ?thesis using mach_segment_tables [of env i lc cmdsize s s'] assms
      by (simp add: mach_command_segment file_tables_def)
  next
    case symseg
    then show ?thesis using mach_symseg_tables [of env i lc cmdsize s s'] assms
      by (simp add: mach_command_places file_tables_def)
  next
    case encryption
    then show ?thesis using mach_encryption_tables [of env i lc cmdsize s s'] assms
      by (simp add: mach_command_places file_tables_def)
  qed simp
qed

definition object_places :: "endian \<Rightarrow> mach_ofile \<Rightarrow> bytes \<Rightarrow> (nat \<times> u32) list" where
  "object_places e ofile m =
     command_places (object_order e ofile) m (unat (get32 (object_order e ofile) m 16)) (first_command ofile)"

text \<open>The walk over an accepted object.\<close>

lemma accepted_walk:
  assumes "check_Mach_O e stack ofile m = Ok (info, s)"
  obtains env s0 lc where "object_env e ofile m env" and "same_from (first_command ofile) m (ms_object s0)"
    and "mach_commands env (end_of_commands e ofile m) (unat (get32 (object_order e ofile) m 16)) 0 (first_command ofile) s0 = Ok (s, lc)"
    and "end_of_commands e ofile m \<le> length m" and "check_together s = Ok ()" and "lc = end_of_commands e ofile m"
    and "ms_st s0 = None" and "mo_swapped ofile \<or> ms_object s0 = m"
proof -
  have "first_command ofile \<le> length m"
    using assms by (auto simp: check_Mach_O_def Let_def bind_iffs swap_header_def modify_at_def split: if_splits option.splits)
  then show ?thesis
  proof (cases rule: check_Mach_O_runs [where e = e and stack = stack])
    case (walk env m' info')
    obtain s0 where s0: "enter_part ''Mach-O headers'' 0 (me_sizeofhdrs env) (first_mach_state m') = Ok s0"
      and rest: "mach_commands env (end_of_commands e ofile m) (unat (get32 (object_order e ofile) m 16)) 0 (first_command ofile) s0 =
          Ok (s, end_of_commands e ofile m)" "check_together s = Ok ()"
      using assms unfolding walk(5) by (auto simp: check_body_def bind_iffs end_of_commands_def simp del: if_split)
    have "ms_object s0 = m'" "ms_st s0 = None"
      using s0 by (auto simp: enter_part_def first_mach_state_def split: sum.splits)
    then show ?thesis
      using that [OF walk(3) _ rest(1) walk(1) rest(2)] changed_within_same_from [OF walk(2)] walk(4) by simp
  qed (use assms in simp)
qed

lemma accepted_together: "check_Mach_O e stack ofile m = Ok (info, s) \<Longrightarrow> check_together s = Ok ()"
  by (rule accepted_walk)

text \<open>Each command has been checked on the bytes that it has in the file.\<close>

lemma accepted_visit:
  assumes "check_Mach_O e stack ofile m = Ok (info, s)" and "(lc, cmd) \<in> set (object_places e ofile m)"
  obtains env j cmdsize s1 s2 k n lc1 lc2 where "object_env e ofile m env" and "mach_command env j lc cmd cmdsize s1 = Ok s2"
    and "\<And>e' k. get32 e' (ms_object s1) (lc + k) = get32 e' m (lc + k)"
    and "mach_commands env (end_of_commands e ofile m) n k lc1 s2 = Ok (s, lc2)"
    and "lc + unat cmdsize \<le> length m" and "lc + sizeof_load_command \<le> length m" and "same_from lc m (ms_object s1)"
proof -
  obtain env s0 l where env: "object_env e ofile m env" and same: "same_from (first_command ofile) m (ms_object s0)"
    and walk: "mach_commands env (end_of_commands e ofile m) (unat (get32 (object_order e ofile) m 16)) 0 (first_command ofile) s0 = Ok (s, l)"
    and inside: "end_of_commands e ofile m \<le> length m"
    by (rule accepted_walk [OF assms(1)])
  have "file_order env = object_order e ofile" using env by (simp only: object_env_def)
  then have "(lc, cmd) \<in> set (command_places (file_order env) (ms_object s0) (unat (get32 (object_order e ofile) m 16)) (first_command ofile))"
    using assms(2) by (simp only: object_places_def command_places_same [OF same])
  then obtain j cmdsize s1 s2 k n lc1 where cmd: "mach_command env j lc cmd cmdsize s1 = Ok s2"
      "same_from lc (ms_object s0) (ms_object s1)" "mach_commands env (end_of_commands e ofile m) n k lc1 s2 = Ok (s, l)"
      "measured env lc cmdsize s1" "lc + sizeof_load_command \<le> length (ms_object s1)"
    using mach_commands_visit [OF walk] inside same unfolding same_from_def by metis
  have "first_command ofile \<le> lc" using assms(2) unfolding object_places_def by (rule command_places_after)
  then have "same_from lc m (ms_object s0)" by (rule same_from_mono [OF same])
  then have same_lc: "same_from lc m (ms_object s1)" using cmd(2) by (simp add: same_from_def)
  then have "get32 e' (ms_object s1) (lc + k) = get32 e' m (lc + k)" for e' k
    by (simp add: get32_same)
  moreover have "length (ms_object s1) = length m" using same_lc by (simp add: same_from_def)
  ultimately show ?thesis using that [OF env cmd(1) _ cmd(3)] measuredD [OF cmd(4)] cmd(5) same_lc by simp
qed

lemma of_nat_length_le: "unat (of_nat n :: u32) \<le> n"
  by (simp add: unsigned_of_nat take_bit_eq_mod)

section \<open>The commands that the routine keeps\<close>

text \<open>
  A property of the state during a walk in \<open>env\<close> that no command but \<open>LC_SYMTAB\<close> breaks: it outlives what is
  swapped in, it does not look at the parts entered, the versions or the messages, and it outlives the
  first dynamic symbol table, hints and routines.
\<close>

locale mach_frame =
  fixes env :: mach_env
    and P :: "mach_state \<Rightarrow> bool"
  assumes P_swap: "swap_in env p n f s = Ok s' \<Longrightarrow> P s \<Longrightarrow> P s'"
    and P_elements [simp]: "P (s\<lparr>ms_elements := es\<rparr>) = P s"
    and P_seen [simp]: "P (s\<lparr>ms_seen := cmds\<rparr>) = P s"
    and P_messages [simp]: "P (s\<lparr>ms_messages := errs\<rparr>) = P s"
    and P_vers [simp]: "P (s\<lparr>ms_vers := vers\<rparr>) = P s"
    and P_bv1 [simp]: "P (s\<lparr>ms_bv1 := bv\<rparr>) = P s"
    and P_bv2 [simp]: "P (s\<lparr>ms_bv2 := bv\<rparr>) = P s"
    and P_dyst: "ms_dyst s = None \<Longrightarrow> P s \<Longrightarrow> P (s\<lparr>ms_dyst := Some dyst\<rparr>)"
    and P_hints: "ms_hints s = None \<Longrightarrow> P s \<Longrightarrow> P (s\<lparr>ms_hints := Some hints\<rparr>)"
    and P_rc: "ms_rc s = None \<Longrightarrow> P s \<Longrightarrow> P (s\<lparr>ms_rc := Some rc\<rparr>)"
    and P_rc64: "ms_rc64 s = None \<Longrightarrow> P s \<Longrightarrow> P (s\<lparr>ms_rc64 := Some rc64\<rparr>)"

text \<open>One that no command breaks outlives the first symbol table too.\<close>

locale mach_invariant = mach_frame +
  assumes P_st: "ms_st s = None \<Longrightarrow> P s \<Longrightarrow> P (s\<lparr>ms_st := Some st\<rparr>)"

text \<open>Structures and parts change one field each.\<close>

lemma swap_in_state: "swap_in env p n f s = Ok s' \<Longrightarrow> \<exists>m. s' = s\<lparr>ms_object := m\<rparr>"
  by (auto simp: swap_in_def split: option.splits)

lemma take_struct_state: "take_struct sz load store swap env p s = Ok (s', x) \<Longrightarrow> \<exists>m. s' = s\<lparr>ms_object := m\<rparr>"
  by (auto simp: take_struct_def bind_iffs dest!: swap_in_state)

lemma take_array_state: "take_array sz load store swap env n p s = Ok (s', xs) \<Longrightarrow> \<exists>m. s' = s\<lparr>ms_object := m\<rparr>"
  by (auto simp: take_array_def bind_iffs dest!: swap_in_state)

lemma take_word_state: "take_word env p s = Ok (s', x) \<Longrightarrow> \<exists>m. s' = s\<lparr>ms_object := m\<rparr>"
  by (auto simp: take_word_def bind_iffs dest!: swap_in_state)

lemma enter_part_state: "enter_part name offset n s = Ok s' \<Longrightarrow> \<exists>es. s' = s\<lparr>ms_elements := es\<rparr>"
  by (auto simp: enter_part_def split: sum.splits)

lemma check_table_state: "check_table env cmd i name offset n entsize s = Ok s' \<Longrightarrow> \<exists>es. s' = s\<lparr>ms_elements := es\<rparr>"
  by (auto simp: check_table_def bind_iffs dest!: enter_part_state)

lemmas state_changes =
  swap_in_state take_struct_state take_array_state take_word_state enter_part_state check_table_state

context mach_frame
begin

lemma struct_keeps: "take_struct sz load store swap env p s = Ok (s', x) \<Longrightarrow> P s \<Longrightarrow> P s'"
  by (auto simp: take_struct_def bind_iffs dest: P_swap)

lemma kept_struct:
  assumes "take_struct sz load store swap env p s = Ok (s', x)" and "P s"
  shows "P s' \<and> ms_st s' = ms_st s \<and> ms_dyst s' = ms_dyst s \<and> ms_hints s' = ms_hints s \<and> ms_rc s' = ms_rc s \<and> ms_rc64 s' = ms_rc64 s"
  using struct_keeps [OF assms] take_struct_state [OF assms(1)] by auto

lemma array_keeps: "take_array sz load store swaps env k p s = Ok (s', xs) \<Longrightarrow> P s \<Longrightarrow> P s'"
  by (auto simp: take_array_def bind_iffs dest: P_swap)

lemma word_keeps: "take_word env p s = Ok (s', w) \<Longrightarrow> P s \<Longrightarrow> P s'"
  by (auto simp: take_word_def bind_iffs dest: P_swap)

lemmas swaps_keep = P_swap struct_keeps array_keeps word_keeps

lemmas parts_keep = enter_part_state check_table_state

lemma relocs_keep: "check_relocs env cmd i j reloff nreloc s = Ok s' \<Longrightarrow> P s \<Longrightarrow> P s'"
  by (auto simp: check_relocs_def bind_iffs dest!: parts_keep dest: swaps_keep)

lemma section_keeps: "check_section env filetype i sg j sc s = Ok s' \<Longrightarrow> P s \<Longrightarrow> P s'"
  by (auto simp: check_section_def Let_def bind_iffs split: if_splits dest!: parts_keep dest: relocs_keep)

lemma section_64_keeps: "check_section_64 env filetype i sg64 j sc64 s = Ok s' \<Longrightarrow> P s \<Longrightarrow> P s'"
  by (auto simp: check_section_64_def Let_def bind_iffs split: if_splits dest!: parts_keep dest: relocs_keep)

lemma sections_keep: "check_sections env i sg j scs s = Ok s' \<Longrightarrow> P s \<Longrightarrow> P s'"
  by (induction scs arbitrary: j s) (auto simp: bind_iffs split: option.splits dest: section_keeps)

lemma sections_64_keep: "check_sections_64 env i sg64 j scs64 s = Ok s' \<Longrightarrow> P s \<Longrightarrow> P s'"
  by (induction scs64 arbitrary: j s) (auto simp: bind_iffs split: option.splits dest: section_64_keeps)

lemma segment_keeps: "mach_segment env i lc cmdsize s = Ok s' \<Longrightarrow> P s \<Longrightarrow> P s'"
  by (auto simp: mach_segment_def bind_iffs dest: swaps_keep sections_keep)

lemma segment_64_keeps: "mach_segment_64 env i lc cmdsize s = Ok s' \<Longrightarrow> P s \<Longrightarrow> P s'"
  by (auto simp: mach_segment_64_def bind_iffs dest: swaps_keep sections_64_keep)

lemma dysymtab_keeps: "mach_dysymtab env i lc cmdsize s = Ok s' \<Longrightarrow> P s \<Longrightarrow> P s'"
  by (auto simp: mach_dysymtab_def once_def bind_iffs intro!: P_dyst dest!: parts_keep kept_struct)

lemma hints_keep: "mach_hints env i lc cmdsize s = Ok s' \<Longrightarrow> P s \<Longrightarrow> P s'"
  by (auto simp: mach_hints_def once_def bind_iffs intro!: P_hints dest!: parts_keep kept_struct)

lemma routines_keep: "mach_routines env i lc cmdsize s = Ok s' \<Longrightarrow> P s \<Longrightarrow> P s'"
  by (auto simp: mach_routines_def once_def bind_iffs intro!: P_rc dest!: parts_keep kept_struct)

lemma routines_64_keep: "mach_routines_64 env i lc cmdsize s = Ok s' \<Longrightarrow> P s \<Longrightarrow> P s'"
  by (auto simp: mach_routines_64_def once_def bind_iffs intro!: P_rc64 dest!: parts_keep kept_struct)

lemma linkedit_keeps: "mach_linkedit env cmd name i lc cmdsize s = Ok s' \<Longrightarrow> P s \<Longrightarrow> P s'"
  by (auto simp: mach_linkedit_def bind_iffs dest!: parts_keep dest: swaps_keep)

lemma version_min_keeps: "mach_version_min env cmd i lc cmdsize s = Ok s' \<Longrightarrow> P s \<Longrightarrow> P s'"
  by (auto simp: mach_version_min_def bind_iffs dest!: parts_keep dest: swaps_keep)

lemma message_keeps [simp]: "P (message err s) = P s"
  by (simp add: message_def)

lemma build_platform_keeps [simp]: "P (build_platform env i bv s) = P s"
  by (simp add: build_platform_def Let_def split: option.split)

lemma message_struct_keeps: "take_struct sz load store swap env p (message err s) = Ok (s', x) \<Longrightarrow> P s \<Longrightarrow> P s'"
  using struct_keeps [of sz load store swap p "message err s" s' x] by simp

lemma build_version_keeps: "mach_build_version env i lc cmdsize s = Ok s' \<Longrightarrow> P s \<Longrightarrow> P s'"
  by (auto simp: mach_build_version_def Let_def bind_iffs split: if_splits dest: message_struct_keeps swaps_keep)

lemma encryption_keeps: "mach_encryption env i lc cmdsize s = Ok s' \<Longrightarrow> P s \<Longrightarrow> P s'"
  by (auto simp: mach_encryption_def bind_iffs dest!: parts_keep dest: swaps_keep)

lemma encryption_64_keeps: "mach_encryption_64 env i lc cmdsize s = Ok s' \<Longrightarrow> P s \<Longrightarrow> P s'"
  by (auto simp: mach_encryption_64_def bind_iffs dest!: parts_keep dest: swaps_keep)

lemma dyld_part_keeps: "check_dyld_part env i name offset n s = Ok s' \<Longrightarrow> P s' = P s"
  by (auto simp: check_dyld_part_def bind_iffs dest!: parts_keep dest: swaps_keep)

lemma dyld_info_keeps: "mach_dyld_info env cmd i lc cmdsize s = Ok s' \<Longrightarrow> P s \<Longrightarrow> P s'"
  by (auto simp: mach_dyld_info_def bind_iffs dest!: dyld_part_keeps dest: struct_keeps)

lemma symseg_keeps: "mach_symseg env i lc cmdsize s = Ok s' \<Longrightarrow> P s \<Longrightarrow> P s'"
  by (auto simp: mach_symseg_def bind_iffs dest!: parts_keep dest: swaps_keep)

lemma note_keeps: "mach_note env i lc cmdsize s = Ok s' \<Longrightarrow> P s \<Longrightarrow> P s'"
  by (auto simp: mach_note_def bind_iffs dest!: parts_keep dest: swaps_keep)

lemma string_keeps: "mach_string env cmd row i lc cmdsize s = Ok s' \<Longrightarrow> P s \<Longrightarrow> P s'"
  by (cases row) (auto simp: mach_string_def bind_iffs dest!: parts_keep dest: swaps_keep)

lemma single_keeps: "mach_single env cmd row i lc cmdsize s = Ok s' \<Longrightarrow> P s \<Longrightarrow> P s'"
  by (auto simp: mach_single_def bind_iffs dest!: parts_keep dest: swaps_keep)

lemma flavor_body_keeps:
  assumes "flavor_body env table cmd i nflavor state p flavor count s = Ok (s', q)" and "P s"
  shows "P s'"
proof (cases "map_of table flavor")
  case (Some c)
  then show ?thesis using assms by (cases c) (auto simp: flavor_body_def bind_iffs dest!: parts_keep dest: swaps_keep)
qed (use assms in \<open>auto simp: flavor_body_def bind_iffs\<close>)

lemma flavor_keeps: "check_flavor env table cmd i nflavor state p s = Ok (s', q) \<Longrightarrow> P s \<Longrightarrow> P s'"
  by (auto simp: check_flavor_def bind_iffs dest!: flavor_body_keeps dest: swaps_keep)

lemma flavors_keep: "check_thread_flavors env table cmd i nflavor state p s = Ok s' \<Longrightarrow> P s \<Longrightarrow> P s'"
proof (induction "p - state" arbitrary: nflavor state s rule: less_induct)
  case less
  show ?case
  proof (cases "state < p")
    case True
    then obtain s1 q where flavor: "check_flavor env table cmd i nflavor state p s = Ok (s1, q)"
      and rest: "check_thread_flavors env table cmd i (Suc nflavor) q p s1 = Ok s'"
      using less.prems(1) by (subst (asm) check_thread_flavors.simps) (auto simp: bind_iffs)
    have "p - q < p - state" using check_flavor_moves [OF flavor] True by simp
    then show ?thesis using less.hyps rest flavor_keeps [OF flavor less.prems(2)] by blast
  qed (use less.prems in \<open>simp add: check_thread_flavors.simps\<close>)
qed

lemma thread_keeps: "mach_thread env cmd i lc cmdsize s = Ok s' \<Longrightarrow> P s \<Longrightarrow> P s'"
  by (auto simp: mach_thread_def bind_iffs split: option.splits dest: struct_keeps flavors_keep)

lemma other_command_keeps: "mach_command env i lc cmd cmdsize s = Ok s' \<Longrightarrow> cmd \<noteq> LC_SYMTAB \<Longrightarrow> P s \<Longrightarrow> P s'"
  unfolding mach_command_def
  by (auto split: option.splits if_splits intro: segment_keeps segment_64_keeps dysymtab_keeps hints_keep
      routines_keep routines_64_keep linkedit_keeps version_min_keeps build_version_keeps encryption_keeps
      encryption_64_keeps dyld_info_keeps symseg_keeps note_keeps string_keeps single_keeps thread_keeps)

lemma commands_without_symtab:
  assumes "mach_commands env limit n i lc s = Ok (s', lc')" and "limit \<le> length (ms_object s)"
    and "LC_SYMTAB \<notin> snd ` set (command_places (file_order env) (ms_object s) n lc)" and "P s"
  shows "P s'"
  using assms
proof (induction n arbitrary: i lc s)
  case (Suc n)
  let ?e = "file_order env" and ?m = "ms_object s"
  obtain s1 where s1: "mach_command env i lc (cmd_at ?e ?m lc) (get32 ?e ?m (lc + 4)) s = Ok s1"
      "same_from (lc + cmdsize_at ?e ?m lc) ?m (ms_object s1)"
      "mach_commands env limit n (Suc i) (lc + cmdsize_at ?e ?m lc) s1 = Ok (s', lc')"
    using mach_commands_Suc [OF Suc.prems(1,2)] .
  have "P s1" using other_command_keeps [OF s1(1)] Suc.prems(3,4) by (simp add: image_iff)
  then show ?case
    using Suc.IH [OF s1(3)] Suc.prems(2,3) s1(2) by (simp add: command_places_same [OF s1(2)] same_from_def)
qed simp

end

context mach_invariant
begin

lemma symtab_keeps: "mach_symtab env i lc cmdsize s = Ok s' \<Longrightarrow> P s \<Longrightarrow> P s'"
  by (auto simp: mach_symtab_def once_def bind_iffs intro!: P_st dest!: parts_keep kept_struct)

lemma command_keeps: "mach_command env i lc cmd cmdsize s = Ok s' \<Longrightarrow> P s \<Longrightarrow> P s'"
  using other_command_keeps [of i lc cmd cmdsize s s'] symtab_keeps [of i lc cmdsize s s']
  by (cases "cmd = LC_SYMTAB") (simp_all add: mach_command_places)

lemma commands_keep: "mach_commands env limit n i lc s = Ok (s', lc') \<Longrightarrow> P s \<Longrightarrow> P s'"
  by (induction n arbitrary: i lc s) (auto simp: bind_iffs dest: command_keeps)

end

text \<open>Once a symbol table, a dynamic symbol table or hints are kept, they stay; so does an object of the order of the host.\<close>

interpretation st_kept: mach_invariant env "\<lambda>s. ms_st s = Some st" for env st
  by unfold_locales (auto dest: swap_in_state)

interpretation dyst_kept: mach_invariant env "\<lambda>s. ms_dyst s = Some dyst" for env dyst
  by unfold_locales (auto dest: swap_in_state)

interpretation hints_kept: mach_invariant env "\<lambda>s. ms_hints s = Some hints" for env hints
  by unfold_locales (auto dest: swap_in_state)

lemma modify_at_id: "p + n \<le> length m \<Longrightarrow> modify_at p n id m = Some m"
  by (simp add: modify_at_def subbytes_def) (metis add.commute append_take_drop_id drop_drop)

lemma swap_in_unswapped: "swap_in env p n f s = Ok s' \<Longrightarrow> \<not> me_swapped env \<Longrightarrow> s' = s"
  using modify_at_id [of p n "ms_object s"] by (auto simp: swap_in_def modify_at_def split: if_splits)

interpretation object_kept: mach_invariant env "\<lambda>s. me_swapped env \<or> ms_object s = m" for env m
  by unfold_locales (auto dest: swap_in_unswapped)

text \<open>Only the command \<open>LC_SYMTAB\<close> gives a symbol table.\<close>

interpretation no_st: mach_frame env "\<lambda>s. ms_st s = None" for env
  by unfold_locales (auto dest: swap_in_state)

lemma symtab_kept:
  assumes "mach_symtab env i lc cmdsize s = Ok s'"
  shows "\<exists>st. ms_st s' = Some st \<and> st_nsyms st = get32 (file_order env) (ms_object s) (lc + 12)"
proof -
  obtain s1 st where "take_struct sizeof_symtab_command load_symtab_command store_symtab_command swap_symtab_command env lc s = Ok (s1, st)"
    and "ms_st s' = Some st"
    using assms by (auto simp: mach_symtab_def bind_iffs dest!: check_table_state)
  then show ?thesis using symtab_command.struct_value by (fastforce simp: symtab_command_defs get32_in_subbytes)
qed

lemma dysymtab_kept:
  assumes "mach_dysymtab env i lc cmdsize s = Ok s'"
  shows "ms_dyst s' = Some (load_dysymtab_command (file_order env) (subbytes lc sizeof_dysymtab_command (ms_object s)))"
  using assms
  by (auto simp: mach_dysymtab_def bind_iffs dest!: check_table_state dysymtab_command.struct_value)

lemma hints_are_kept:
  assumes "mach_hints env i lc cmdsize s = Ok s'"
  shows "ms_hints s' = Some (load_twolevel_hints_command (file_order env) (subbytes lc sizeof_twolevel_hints_command (ms_object s)))"
  using assms
  by (auto simp: mach_hints_def bind_iffs dest!: check_table_state twolevel_hints_command.struct_value)

lemma symbols_inside_Ok:
  assumes "symbols_inside name first n nsyms = Ok ()" and "n \<noteq> 0"
  shows "unat first + unat n \<le> unat nsyms"
proof -
  have "unat (ucast first + ucast n :: u64) = unat first + unat n"
    using unsigned_less [of first, where 'a = nat] unsigned_less [of n, where 'a = nat]
    by (simp add: unat_word_ariths unat_ucast_32_64)
  then show ?thesis
    using assms by (simp add: symbols_inside_def bind_iffs word_less_nat_alt unat_ucast_32_64)
qed

text \<open>What the routine keeps of an accepted object, by the words in the file.\<close>

lemma accepted_symtab:
  assumes "check_Mach_O e stack ofile m = Ok (info, s)" and "(lc, LC_SYMTAB) \<in> set (object_places e ofile m)"
  shows "\<exists>st. ms_st s = Some st \<and> st_nsyms st = get32 (object_order e ofile) m (lc + 12)"
  using assms
proof (rule accepted_visit)
  fix env j cmdsize s1 s2 k n lc1 lc2
  assume env: "object_env e ofile m env" and cmd: "mach_command env j lc LC_SYMTAB cmdsize s1 = Ok s2"
    and at: "\<And>e' k. get32 e' (ms_object s1) (lc + k) = get32 e' m (lc + k)"
    and walk: "mach_commands env (end_of_commands e ofile m) n k lc1 s2 = Ok (s, lc2)"
  obtain st where "ms_st s2 = Some st" "st_nsyms st = get32 (file_order env) (ms_object s1) (lc + 12)"
    using symtab_kept cmd unfolding mach_command_places by blast
  then show ?thesis using st_kept.commands_keep [OF walk] env by (auto simp: at object_env_def simp del: if_split)
qed

definition symbol_ranges :: "(nat \<times> nat) list" where
  "symbol_ranges = [(8, 12), (16, 20), (24, 28)]"

lemma accepted_dysymtab:
  assumes "check_Mach_O e stack ofile m = Ok (info, s)" and "(lc, LC_DYSYMTAB) \<in> set (object_places e ofile m)"
  shows "\<exists>dy. ms_dyst s = Some dy \<and>
    [(dyst_ilocalsym dy, dyst_nlocalsym dy), (dyst_iextdefsym dy, dyst_nextdefsym dy), (dyst_iundefsym dy, dyst_nundefsym dy)] =
    map (\<lambda>(first, n). (get32 (object_order e ofile) m (lc + first), get32 (object_order e ofile) m (lc + n))) symbol_ranges"
  using assms
proof (rule accepted_visit)
  fix env j cmdsize s1 s2 k n lc1 lc2
  assume env: "object_env e ofile m env" and cmd: "mach_command env j lc LC_DYSYMTAB cmdsize s1 = Ok s2"
    and at: "\<And>e' k. get32 e' (ms_object s1) (lc + k) = get32 e' m (lc + k)"
    and walk: "mach_commands env (end_of_commands e ofile m) n k lc1 s2 = Ok (s, lc2)"
  have "ms_dyst s = Some (load_dysymtab_command (file_order env) (subbytes lc sizeof_dysymtab_command (ms_object s1)))"
    using dyst_kept.commands_keep [OF walk] dysymtab_kept cmd unfolding mach_command_places by blast
  then show ?thesis
    using env by (simp add: at object_env_def symbol_ranges_def dysymtab_command_defs get32_in_subbytes del: if_split)
qed

lemma accepted_hints:
  assumes "check_Mach_O e stack ofile m = Ok (info, s)" and "(lc, LC_TWOLEVEL_HINTS) \<in> set (object_places e ofile m)"
  shows "\<exists>hints. ms_hints s = Some hints \<and> hints_nhints hints = get32 (object_order e ofile) m (lc + 12)"
  using assms
proof (rule accepted_visit)
  fix env j cmdsize s1 s2 k n lc1 lc2
  assume env: "object_env e ofile m env" and cmd: "mach_command env j lc LC_TWOLEVEL_HINTS cmdsize s1 = Ok s2"
    and at: "\<And>e' k. get32 e' (ms_object s1) (lc + k) = get32 e' m (lc + k)"
    and walk: "mach_commands env (end_of_commands e ofile m) n k lc1 s2 = Ok (s, lc2)"
  have "ms_hints s = Some (load_twolevel_hints_command (file_order env) (subbytes lc sizeof_twolevel_hints_command (ms_object s1)))"
    using hints_kept.commands_keep [OF walk] hints_are_kept cmd unfolding mach_command_places by blast
  then show ?thesis
    using env by (simp add: at object_env_def twolevel_hints_command_defs get32_in_subbytes del: if_split)
qed

end
