(* ===== verification/Checkout_Facts.thy ===== *)
theory Checkout_Facts
  imports Checkout Mach_O_Facts
begin

text \<open>
  What \<open>checkout\<close> makes sure of: in a file that it lets pass the tables of the link edit segment follow each
  other in the order in which they will be written.
\<close>

section \<open>Tables that follow each other\<close>

text \<open>Parts, each an offset and a size, in order and without overlap between \<open>a\<close> and \<open>b\<close>.\<close>

fun tiles :: "nat \<Rightarrow> (nat \<times> nat) list \<Rightarrow> nat \<Rightarrow> bool" where
  "tiles a [] b \<longleftrightarrow> a \<le> b"
| "tiles a (p # ps) b \<longleftrightarrow> a \<le> fst p \<and> tiles (fst p + snd p) ps b"

lemma tiles_append: "tiles a (ps @ qs) c \<longleftrightarrow> (\<exists>b. tiles a ps b \<and> tiles b qs c)"
proof (induction ps arbitrary: a)
  case Nil
  have "tiles a qs c" if "a \<le> b" "tiles b qs c" for b using that by (cases qs) auto
  then show ?case by auto
qed auto

lemma tiles_weaken: "tiles a ps b \<Longrightarrow> b \<le> c \<Longrightarrow> tiles a ps c"
  by (induction ps arbitrary: a) auto

lemma tiles_le: "tiles a ps b \<Longrightarrow> a \<le> b"
  by (induction ps arbitrary: a) force+

lemma tiles_inside: "tiles a ps b \<Longrightarrow> p \<in> set ps \<Longrightarrow> a \<le> fst p \<and> fst p + snd p \<le> b"
  by (induction ps arbitrary: a) (force dest: tiles_le)+

lemma tiles_sorted: "tiles a ps b \<Longrightarrow> sorted_wrt (\<lambda>p q. fst p + snd p \<le> fst q) ps"
  by (induction ps arbitrary: a) (auto dest: tiles_inside)

section \<open>The steps\<close>

text \<open>
  \<open>advances k ps x y\<close>: from the offset \<open>x\<close> the parts \<open>ps\<close> lead to \<open>y\<close>.  No step adds more than \<open>2 ^ 38\<close>, so \<open>k\<close> of
  them do not wrap around.
\<close>

definition low :: "nat \<Rightarrow> u64 \<Rightarrow> bool" where
  "low j x \<longleftrightarrow> unat x \<le> 2 ^ 32 + j * 2 ^ 38"

definition advances :: "nat \<Rightarrow> (nat \<times> nat) list \<Rightarrow> u64 \<Rightarrow> u64 \<Rightarrow> bool" where
  "advances k ps x y \<longleftrightarrow> (\<forall>j. j + k \<le> 100 \<longrightarrow> low j x \<longrightarrow> low (j + k) y \<and> tiles (unat x) ps (unat y))"

lemma advances_trans:
  assumes "advances k ps x y" and "advances l qs y z"
  shows "advances (k + l) (ps @ qs) x z"
proof -
  have "low (j + (k + l)) z \<and> tiles (unat x) (ps @ qs) (unat z)" if "j + (k + l) \<le> 100" "low j x" for j
  proof -
    have "j + k \<le> 100" using that(1) by simp
    then have "low (j + k) y \<and> tiles (unat x) ps (unat y)"
      using assms(1) that(2) unfolding advances_def by blast
    moreover have "j + k + l \<le> 100" using that(1) by simp
    ultimately have "low (j + k + l) z \<and> tiles (unat y) qs (unat z)"
      using assms(2) unfolding advances_def by blast
    then show ?thesis using \<open>low (j + k) y \<and> tiles (unat x) ps (unat y)\<close> by (auto simp: tiles_append add.assoc)
  qed
  then show ?thesis by (simp add: advances_def)
qed

lemma advances_as: "advances k ps x y \<Longrightarrow> k = l \<Longrightarrow> ps = qs \<Longrightarrow> advances l qs x y"
  by simp

lemma advances_refl: "advances k [] x x"
  by (auto simp: advances_def low_def)

lemma advance_unat:
  assumes "low j x" and "j < 100" and "unat entsize \<le> 56"
  shows "unat (x + ucast (n :: u32) * entsize) = unat x + unat n * unat entsize"
    and "low (Suc j) (x + ucast n * entsize)"
proof -
  have prod: "unat n * unat entsize \<le> 2 ^ 32 * 56"
    using assms(3) unsigned_less [of n, where 'a = nat] by (intro mult_le_mono) simp_all
  then show *: "unat (x + ucast n * entsize) = unat x + unat n * unat entsize"
    using assms(1,2) by (simp add: low_def unat_word_ariths unat_ucast_32_64)
  show "low (Suc j) (x + ucast n * entsize)"
    using prod assms(1) unfolding low_def * by simp
qed

definition part_of :: "u32 \<Rightarrow> u32 \<Rightarrow> nat \<Rightarrow> (nat \<times> nat) list" where
  "part_of off n entsize = (if n = 0 then [] else [(unat off, unat n * entsize)])"

lemma advances_part:
  assumes "unat x \<le> unat off" and "unat (ucast off :: u64) = unat off" and "unat entsize \<le> 56"
    and "y = ucast off + ucast n * entsize" and "low 0 (ucast off)"
  shows "advances 1 (part_of off n (unat entsize)) x y"
proof -
  have "unat y = unat off + unat n * unat entsize" "low 1 y"
    using advance_unat [OF assms(5) _ assms(3), of n] assms(2,4) by simp_all
  moreover have "low (Suc j) y" for j using \<open>low 1 y\<close> by (simp add: low_def)
  ultimately show ?thesis using assms(1) by (auto simp: advances_def part_of_def)
qed

lemma low_32: "low 0 (ucast (off :: u32))"
  using unsigned_less [of off, where 'a = nat] by (simp add: low_def unat_ucast_32_64)

lemma order_table_advances:
  assumes "order_table name off n entsize x = Ok y" and "unat entsize \<le> 56"
  shows "advances 1 (part_of off n (unat entsize)) x y"
proof (cases "n = 0")
  case False
  then have "x = ucast off" "y = ucast off + ucast n * entsize"
    using assms(1) by (auto simp: order_table_def in_place_def bind_iffs)
  then show ?thesis
    using assms(2) by (intro advances_part low_32) (simp_all add: unat_ucast_32_64)
qed (use assms in \<open>simp add: order_table_def part_of_def advances_refl\<close>)

definition data_part :: "object \<Rightarrow> u32 \<Rightarrow> (nat \<times> nat) list" where
  "data_part ob cmd =
     (case map_of (ob_data ob) cmd of
        Some ld \<Rightarrow> if ld_dataoff ld = 0 then [] else [(unat (ld_dataoff ld), unat (ld_datasize ld))]
      | None \<Rightarrow> [])"

text \<open>The data of the link editor does not wrap around, which \<open>check_Mach_O\<close> has checked.\<close>

definition data_fits :: "object \<Rightarrow> bool" where
  "data_fits ob \<longleftrightarrow> list_all (\<lambda>(cmd, ld). unat (ld_dataoff ld) + unat (ld_datasize ld) < 2 ^ 32) (ob_data ob)"

lemma order_data_advances:
  assumes "order_data name cmd ob x = Ok y"
  shows "advances 1 (data_part ob cmd) x y"
proof (cases "map_of (ob_data ob) cmd")
  case (Some ld)
  have y: "y = x + ucast (ld_datasize ld) * 1" and x: "ld_dataoff ld \<noteq> 0 \<Longrightarrow> x = ucast (ld_dataoff ld)"
    using assms Some by (auto simp: order_data_def bind_iffs)
  have "low (Suc j) y \<and> tiles (unat x) (data_part ob cmd) (unat y)" if "low j x" "j < 100" for j
    using advance_unat [OF that, of 1 "ld_datasize ld"] Some x unfolding y
    by (auto simp: data_part_def unat_ucast_32_64)
  then show ?thesis by (simp add: advances_def)
qed (use assms in \<open>simp add: order_data_def data_part_def advances_refl\<close>)

lemma order_fixups_advances:
  assumes "order_fixups name cmd ob x = Ok y" and "data_fits ob"
  shows "advances 1 (data_part ob cmd) x y"
proof (cases "map_of (ob_data ob) cmd")
  case (Some ld)
  show ?thesis
  proof (cases "ld_dataoff ld = 0")
    case False
    then have x: "x = ucast (ld_dataoff ld)" and y: "y = ucast (ld_dataoff ld + ld_datasize ld)"
      using assms(1) Some by (auto simp: order_fixups_def in_place_def bind_iffs)
    have "unat (ld_dataoff ld) + unat (ld_datasize ld) < 2 ^ 32"
      using map_of_SomeD [OF Some] assms(2) by (auto simp: data_fits_def list_all_iff)
    then have "unat y = unat x + unat (ld_datasize ld)"
      unfolding x y by (simp add: unat_ucast_32_64 unat_word_ariths)
    moreover have "low (Suc j) y" for j using low_32 [of "ld_dataoff ld + ld_datasize ld"] by (simp add: low_def y)
    ultimately show ?thesis using False Some by (auto simp: advances_def data_part_def x unat_ucast_32_64)
  qed (use assms Some in \<open>simp add: order_fixups_def data_part_def advances_refl\<close>)
qed (use assms in \<open>simp add: order_fixups_def data_part_def advances_refl\<close>)

section \<open>The groups of tables\<close>

definition before_parts :: "object \<Rightarrow> dysymtab_command \<Rightarrow> (nat \<times> nat) list" where
  "before_parts ob dy =
     data_part ob LC_DYLD_CHAINED_FIXUPS @ data_part ob LC_DYLD_EXPORTS_TRIE @ part_of (dyst_locreloff dy) (dyst_nlocrel dy) 8 @
     data_part ob LC_SEGMENT_SPLIT_INFO @ data_part ob LC_FUNCTION_STARTS @ data_part ob LC_DATA_IN_CODE @ data_part ob LC_ATOM_INFO @
     data_part ob LC_DYLIB_CODE_SIGN_DRS @ data_part ob LC_LINKER_OPTIMIZATION_HINT"

definition middle_parts :: "object \<Rightarrow> symtab_command \<Rightarrow> dysymtab_command \<Rightarrow> (nat \<times> nat) list" where
  "middle_parts ob st dy =
     part_of (st_symoff st) (st_nsyms st) (if ob_is64 ob then 16 else 12) @
     (case ob_hints ob of Some hints \<Rightarrow> part_of (hints_offset hints) (hints_nhints hints) 4 | None \<Rightarrow> []) @
     part_of (dyst_extreloff dy) (dyst_nextrel dy) 8 @ part_of (dyst_indirectsymoff dy) (dyst_nindirectsyms dy) 4"

definition behind_parts :: "object \<Rightarrow> symtab_command \<Rightarrow> dysymtab_command \<Rightarrow> (nat \<times> nat) list" where
  "behind_parts ob st dy =
     part_of (dyst_tocoff dy) (dyst_ntoc dy) 8 @ part_of (dyst_modtaboff dy) (dyst_nmodtab dy) (if ob_is64 ob then 56 else 52) @
     part_of (dyst_extrefsymoff dy) (dyst_nextrefsyms dy) 4 @ part_of (st_stroff st) (st_strsize st) 1 @
     (case map_of (ob_data ob) LC_CODE_SIGNATURE of
        Some ld \<Rightarrow> [(unat (ld_dataoff ld), unat (ld_datasize ld))]
      | None \<Rightarrow> [])"

text \<open>The tables of the link edit segment behind the information for \<open>dyld\<close>, in the order in which they are to be.\<close>

definition linkedit_parts :: "object \<Rightarrow> symtab_command \<Rightarrow> dysymtab_command \<Rightarrow> (nat \<times> nat) list" where
  "linkedit_parts ob st dy = before_parts ob dy @ middle_parts ob st dy @ behind_parts ob st dy"

lemma order_dyld_info_low: "order_dyld_info ob x = Ok y \<Longrightarrow> low 0 x \<Longrightarrow> low 0 y"
  by (auto simp: order_dyld_info_def bind_iffs dyld_info_end_def low_32 split: option.splits if_splits)

lemma order_before_advances:
  assumes "order_before ob dy x = Ok z" and "data_fits ob" and "low 0 x"
  obtains y where "low 0 y" and "advances 9 (before_parts ob dy) y z"
proof -
  obtain y y1 y2 y3 y4 y5 y6 y7 y8 where steps: "order_dyld_info ob x = Ok y"
      "order_fixups ''dyld chained fixups'' LC_DYLD_CHAINED_FIXUPS ob y = Ok y1"
      "order_fixups ''dyld exports trie'' LC_DYLD_EXPORTS_TRIE ob y1 = Ok y2"
      "order_table ''local relocation entries'' (dyst_locreloff dy) (dyst_nlocrel dy) 8 y2 = Ok y3"
      "order_data ''split info data'' LC_SEGMENT_SPLIT_INFO ob y3 = Ok y4"
      "order_data ''function starts data'' LC_FUNCTION_STARTS ob y4 = Ok y5"
      "order_data ''data in code info'' LC_DATA_IN_CODE ob y5 = Ok y6"
      "order_data ''atom info'' LC_ATOM_INFO ob y6 = Ok y7"
      "order_data ''code signing DRs info'' LC_DYLIB_CODE_SIGN_DRS ob y7 = Ok y8"
      "order_data ''linker optimization hint info'' LC_LINKER_OPTIMIZATION_HINT ob y8 = Ok z"
    using assms(1) by (auto simp: order_before_def bind_eq_Ok)
  note s = order_fixups_advances [OF steps(2) assms(2)] order_fixups_advances [OF steps(3) assms(2)]
    order_table_advances [OF steps(4)] order_data_advances [OF steps(5)] order_data_advances [OF steps(6)]
    order_data_advances [OF steps(7)] order_data_advances [OF steps(8)] order_data_advances [OF steps(9)]
    order_data_advances [OF steps(10)]
  have "advances 9 (before_parts ob dy) y z"
    by (rule advances_as [OF advances_trans [OF s(1) advances_trans [OF s(2) advances_trans [OF s(3) advances_trans [OF s(4)
      advances_trans [OF s(5) advances_trans [OF s(6) advances_trans [OF s(7) advances_trans [OF s(8,9)]]]]]]]]])
      (simp_all add: before_parts_def)
  then show ?thesis using order_dyld_info_low [OF steps(1) assms(3)] by (intro that)
qed

lemma order_middle_advances:
  assumes "order_middle ob st dy x = Ok y"
  shows "advances 4 (middle_parts ob st dy) x y"
proof -
  obtain y1 y2 y3 where steps: "order_table ''symbol table'' (st_symoff st) (st_nsyms st) (sizeof_symbol ob) x = Ok y1"
      "(case ob_hints ob of None \<Rightarrow> Ok y1
        | Some hints \<Rightarrow> order_table ''hints table'' (hints_offset hints) (hints_nhints hints) 4 y1) = Ok y2"
      "order_table ''external relocation entries'' (dyst_extreloff dy) (dyst_nextrel dy) 8 y2 = Ok y3"
      "order_table ''indirect symbol table'' (dyst_indirectsymoff dy) (dyst_nindirectsyms dy) 4 y3 = Ok y"
    using assms by (auto simp: order_middle_def bind_eq_Ok)
  have symbols: "advances 1 (part_of (st_symoff st) (st_nsyms st) (if ob_is64 ob then 16 else 12)) x y1"
    using order_table_advances [OF steps(1)] by (cases "ob_is64 ob") (simp_all add: sizeof_symbol_def)
  have hints: "advances 1 (case ob_hints ob of Some hints \<Rightarrow> part_of (hints_offset hints) (hints_nhints hints) 4 | None \<Rightarrow> []) y1 y2"
    using steps(2) order_table_advances [of "''hints table''" _ _ 4 y1 y2]
    by (cases "ob_hints ob") (auto simp: advances_refl)
  show ?thesis
    by (rule advances_as [OF advances_trans [OF symbols advances_trans [OF hints
      advances_trans [OF order_table_advances [OF steps(3)] order_table_advances [OF steps(4)]]]]])
      (simp_all add: middle_parts_def)
qed

section \<open>Tables behind the indirect symbols\<close>

lemma rnd_bounds:
  assumes "k < 64" and "unat x + (2 ^ k - 1) < 2 ^ 64"
  shows "unat x \<le> unat (rnd x (2 ^ k))" and "unat (rnd x (2 ^ k)) < unat x + 2 ^ k"
proof -
  have "unat (rnd x (2 ^ k)) = (unat x + (2 ^ k - 1)) div 2 ^ k * 2 ^ k"
    using assms unat_round [of k x] by (simp add: rnd_def rnd64_mask)
  then show "unat x \<le> unat (rnd x (2 ^ k))" and "unat (rnd x (2 ^ k)) < unat x + 2 ^ k"
    using round_up_nat [where v = "unat x" and k = k] by simp_all
qed

fun place_ok :: "object \<Rightarrow> place \<Rightarrow> bool" where
  "place_ok ob (offset, rounded, pad) \<longleftrightarrow> unat offset \<le> unat rounded \<and> (ob_is64 ob \<or> rounded = offset)"

definition place_advances :: "object \<Rightarrow> nat \<Rightarrow> (nat \<times> nat) list \<Rightarrow> place \<Rightarrow> place \<Rightarrow> bool" where
  "place_advances ob k ps p q \<longleftrightarrow>
     (\<forall>j. j + k \<le> 100 \<longrightarrow> low j (fst (snd p)) \<longrightarrow> place_ok ob p \<longrightarrow>
        low (j + k) (fst (snd q)) \<and> place_ok ob q \<and> tiles (unat (fst p)) ps (unat (fst q)))"

lemma place_advances_trans:
  assumes "place_advances ob k ps p q" and "place_advances ob l qs q r"
  shows "place_advances ob (k + l) (ps @ qs) p r"
proof -
  have "low (j + (k + l)) (fst (snd r)) \<and> place_ok ob r \<and> tiles (unat (fst p)) (ps @ qs) (unat (fst r))"
    if "j + (k + l) \<le> 100" "low j (fst (snd p))" "place_ok ob p" for j
  proof -
    have "j + k \<le> 100" "j + k + l \<le> 100" using that(1) by simp_all
    then have "low (j + k) (fst (snd q)) \<and> place_ok ob q \<and> tiles (unat (fst p)) ps (unat (fst q))"
      using assms(1) that(2,3) unfolding place_advances_def by blast
    moreover from this have "low (j + k + l) (fst (snd r)) \<and> place_ok ob r \<and> tiles (unat (fst q)) qs (unat (fst r))"
      using assms(2) \<open>j + k + l \<le> 100\<close> unfolding place_advances_def by blast
    ultimately show ?thesis by (auto simp: tiles_append add.assoc)
  qed
  then show ?thesis unfolding place_advances_def by blast
qed

lemma place_advances_as: "place_advances ob k ps p q \<Longrightarrow> k = l \<Longrightarrow> ps = qs \<Longrightarrow> place_advances ob l qs p q"
  by simp

lemma place_advances_refl: "place_advances ob k [] p p"
  by (cases p) (auto simp: place_advances_def low_def)

lemma place_advances_part:
  assumes "unat entsize \<le> 56" and "ucast off = x \<or> ucast off = r" and "n \<noteq> 0"
  shows "place_advances ob 1 (part_of off n (unat entsize)) (x, r, pad)
    (ucast off + ucast n * entsize, ucast off + ucast n * entsize, pad')"
proof -
  have "unat (ucast off + ucast n * entsize) = unat off + unat n * unat entsize" "low 1 (ucast off + ucast n * entsize)"
    using advance_unat [OF low_32 _ assms(1), of off n] by (simp_all add: unat_ucast_32_64)
  moreover have "unat x \<le> unat off" if "unat x \<le> unat r" using assms(2) that by (auto simp: unat_ucast_32_64)
  moreover have "low (Suc j) (ucast off + ucast n * entsize)" for j
    using \<open>low 1 _\<close> by (simp add: low_def)
  ultimately show ?thesis using assms(3) by (auto simp: place_advances_def part_of_def)
qed

lemma order_padded_advances:
  assumes "order_padded name off n entsize (x, r, pad) = Ok q" and "unat entsize \<le> 56"
  shows "place_advances ob 1 (part_of off n (unat entsize)) (x, r, pad) q"
proof (cases "n = 0")
  case False
  then have at: "ucast off = x \<or> ucast off = r"
    and q: "q = (if ucast off = x then (x + ucast n * entsize, x + ucast n * entsize, pad)
                 else (r + ucast n * entsize, r + ucast n * entsize, ucast (r - x)))"
    using assms(1) by (auto simp: order_padded_def bind_iffs split: if_splits)
  show ?thesis
  proof (cases "ucast off = x")
    case True
    then have "q = (ucast off + ucast n * entsize, ucast off + ucast n * entsize, pad)" using q by simp
    then show ?thesis using place_advances_part [OF assms(2) at False] by simp
  next
    case other: False
    then have "q = (ucast off + ucast n * entsize, ucast off + ucast n * entsize, ucast (r - x))" using q at by simp
    then show ?thesis using place_advances_part [OF assms(2) at False] by simp
  qed
qed (use assms in \<open>simp add: order_padded_def part_of_def place_advances_refl\<close>)

lemma order_modules_advances:
  assumes "order_modules ob dy (x, r, pad) = Ok q"
  shows "place_advances ob 1 (part_of (dyst_modtaboff dy) (dyst_nmodtab dy) (if ob_is64 ob then 56 else 52)) (x, r, pad) q"
proof (cases "ob_is64 ob \<or> dyst_nmodtab dy = 0")
  case True
  then show ?thesis
    using assms order_padded_advances [of "''module table''" "dyst_modtaboff dy" "dyst_nmodtab dy" 56 x r pad q]
    by (auto simp: order_modules_def part_of_def place_advances_refl split: if_splits)
next
  case False
  then have at: "ucast (dyst_modtaboff dy) = x \<or> ucast (dyst_modtaboff dy) = r"
    and q: "q = (x + ucast (dyst_nmodtab dy) * 52, x + ucast (dyst_nmodtab dy) * 52, pad)"
    using assms by (auto simp: order_modules_def bind_iffs)
  show ?thesis
  proof (cases "r = x")
    case True
    then show ?thesis
      using place_advances_part [of 52 "dyst_modtaboff dy" x r "dyst_nmodtab dy" ob pad pad] at q False by auto
  qed (use False in \<open>simp add: place_advances_def\<close>)
qed

lemma order_signature_advances:
  assumes "order_signature ob (x, r, pad) = Ok q"
  shows "place_advances ob 1 (case map_of (ob_data ob) LC_CODE_SIGNATURE of
      Some ld \<Rightarrow> [(unat (ld_dataoff ld), unat (ld_datasize ld))] | None \<Rightarrow> []) (x, r, pad) q"
proof (cases "map_of (ob_data ob) LC_CODE_SIGNATURE")
  case (Some ld)
  then have at: "ucast (ld_dataoff ld) = rnd r (2 ^ 4)"
    and q: "q = (ucast (ld_dataoff ld) + ucast (ld_datasize ld) * 1, ucast (ld_dataoff ld) + ucast (ld_datasize ld) * 1, pad)"
    using assms by (auto simp: order_signature_def Let_def bind_iffs)
  have next_one: "unat (fst q) = unat (ld_dataoff ld) + unat (ld_datasize ld)" "low 1 (fst q)"
    using advance_unat [OF low_32, of 1 "ld_dataoff ld" "ld_datasize ld"] by (simp_all add: q unat_ucast_32_64)
  have "unat r \<le> unat (ld_dataoff ld)" if "low j r" "j < 100" for j
  proof -
    have "unat r + (2 ^ 4 - 1) < 2 ^ 64" using that by (simp add: low_def)
    then have "unat r \<le> unat (rnd r (2 ^ 4))" by (intro rnd_bounds) simp_all
    then show ?thesis unfolding at [symmetric] by (simp only: unat_ucast_32_64)
  qed
  moreover have "low (Suc j) (fst q)" for j using next_one(2) by (simp add: low_def)
  ultimately show ?thesis using Some next_one(1) q by (fastforce simp: place_advances_def)
qed (use assms in \<open>simp add: order_signature_def place_advances_refl\<close>)

lemma order_behind_advances:
  assumes "order_behind ob st dy x = Ok q" and "low j x" and "j + 6 \<le> 100"
  shows "place_ok ob q \<and> tiles (unat x) (behind_parts ob st dy) (unat (fst q))"
proof -
  let ?r = "if ob_is64 ob \<and> dyst_nindirectsyms dy mod 2 \<noteq> 0 then rnd x 8 else x"
  obtain p1 p2 p3 p4 where steps: "order_padded ''table of contents'' (dyst_tocoff dy) (dyst_ntoc dy) 8 (x, ?r, 0) = Ok p1"
      "order_modules ob dy p1 = Ok p2" "order_padded ''reference table'' (dyst_extrefsymoff dy) (dyst_nextrefsyms dy) 4 p2 = Ok p3"
      "order_padded ''string table'' (st_stroff st) (st_strsize st) 1 p3 = Ok p4" "order_signature ob p4 = Ok q"
    using assms(1) by (auto simp: order_behind_def Let_def bind_eq_Ok)
  obtain x1 r1 d1 x2 r2 d2 x3 r3 d3 x4 r4 d4 where p: "p1 = (x1, r1, d1)" "p2 = (x2, r2, d2)" "p3 = (x3, r3, d3)" "p4 = (x4, r4, d4)"
    by (cases p1, cases p2, cases p3, cases p4) auto
  note s = order_padded_advances [OF steps(1), where ob = ob] order_modules_advances [OF steps(2) [unfolded p]]
    order_padded_advances [OF steps(3) [unfolded p], where ob = ob] order_padded_advances [OF steps(4) [unfolded p], where ob = ob]
    order_signature_advances [OF steps(5) [unfolded p]]
  have "place_advances ob 5 (behind_parts ob st dy) (x, ?r, 0) q"
    by (rule place_advances_as [OF place_advances_trans [OF s(1) [unfolded p] place_advances_trans [OF s(2)
      place_advances_trans [OF s(3) place_advances_trans [OF s(4) s(5)]]]]])
      (simp_all add: behind_parts_def)
  moreover have "unat x + (2 ^ 3 - 1) < 2 ^ 64" using assms(2,3) by (simp add: low_def)
  then have "unat x \<le> unat (rnd x (2 ^ 3))" "unat (rnd x (2 ^ 3)) < unat x + 2 ^ 3" by (rule rnd_bounds [rotated], simp)+
  then have "low (Suc j) ?r" "place_ok ob (x, ?r, 0)" using assms(2) by (auto simp: low_def)
  moreover have "Suc j + 5 \<le> 100" using assms(3) by simp
  ultimately show ?thesis unfolding place_advances_def by (metis fst_conv snd_conv)
qed

section \<open>Objects that are let through\<close>

lemma linkedit_start_low:
  assumes "linkedit_start ob = Ok x"
  shows "low 0 x"
  using assms by (auto simp: linkedit_start_def bind_iffs low_32 split: option.splits)

lemma linkedit_start_64_low:
  assumes "linkedit_start_64 ob = Ok x" and "\<And>sg. ob_linkedit64 ob = Some sg \<Longrightarrow> unat (sg64_fileoff sg) < 2 ^ 32"
  shows "low 0 x"
  using assms by (auto simp: linkedit_start_64_def bind_iffs low_def less_imp_le split: option.splits)

lemma dyld_order_tiles:
  assumes "dyld_order ob dy = Ok ob'" and "data_fits ob"
    and "\<And>sg. ob_linkedit64 ob = Some sg \<Longrightarrow> unat (sg64_fileoff sg) < 2 ^ 32"
  obtains st pad where "ob_st ob = Some st" and "ob' = ob\<lparr>ob_pad := pad\<rparr>" and "tiles 0 (linkedit_parts ob st dy) (unat (ob_size ob))"
proof -
  obtain x y z st q where st: "ob_st ob = Some st"
    and start: "(if ob_is64 ob then linkedit_start_64 ob else linkedit_start ob) = Ok x"
    and steps: "order_before ob dy x = Ok y" "order_middle ob st dy y = Ok z" "order_behind ob st dy z = Ok q"
    and end_at: "fst q = ucast (ob_size ob) \<or> fst (snd q) = ucast (ob_size ob)" and ob': "ob' = ob\<lparr>ob_pad := snd (snd q)\<rparr>"
    using assms(1) by (auto simp: dyld_order_def bind_eq_Ok split: option.splits)
  have "low 0 x" using start assms(3) linkedit_start_64_low linkedit_start_low by (auto split: if_splits)
  then obtain w where w: "low 0 w" "advances 9 (before_parts ob dy) w y"
    using order_before_advances [OF steps(1) assms(2)] by blast
  have "advances (9 + 4) (before_parts ob dy @ middle_parts ob st dy) w z"
    using w(2) order_middle_advances [OF steps(2)] by (rule advances_trans)
  then have z: "low (0 + (9 + 4)) z \<and> tiles (unat w) (before_parts ob dy @ middle_parts ob st dy) (unat z)"
    using w(1) unfolding advances_def by (elim allE [of _ 0]) simp
  have "place_ok ob q \<and> tiles (unat z) (behind_parts ob st dy) (unat (fst q))"
    using order_behind_advances [OF steps(3) conjunct1 [OF z]] by simp
  then have "tiles (unat w) (linkedit_parts ob st dy) (unat (fst q)) \<and> place_ok ob q"
    using z by (auto simp: linkedit_parts_def tiles_append)
  moreover from this have "unat (fst q) \<le> unat (ob_size ob)"
    using end_at by (cases q) (auto simp: unat_ucast_32_64)
  ultimately have "tiles (unat w) (linkedit_parts ob st dy) (unat (ob_size ob))"
    by (blast intro: tiles_weaken)
  then have "tiles 0 (linkedit_parts ob st dy) (unat (ob_size ob))"
    by (cases "linkedit_parts ob st dy") auto
  then show ?thesis using st ob' by (intro that)
qed

text \<open>The search for the commands leaves the size and the width of the object alone.\<close>

definition frame :: "object \<Rightarrow> u32 \<times> bool \<times> bytes" where
  "frame ob = (ob_size ob, ob_is64 ob, ob_object ob)"

definition found_in :: "object \<Rightarrow> object checkout \<Rightarrow> bool" where
  "found_in ob r \<longleftrightarrow> (case r of Ok ob' \<Rightarrow> frame ob' = frame ob | Error err \<Rightarrow> True | Fault \<Rightarrow> True)"

lemma found_inD: "found_in ob r \<Longrightarrow> r = Ok ob' \<Longrightarrow> frame ob' = frame ob"
  by (simp add: found_in_def)

lemma found_in_bind: "(\<And>x. found_in ob (f x)) \<Longrightarrow> found_in ob (bind r f)"
  by (cases r) (simp_all add: found_in_def)

lemma found_in_then:
  assumes "found_in ob r" and "\<And>ob1. found_in ob1 (f ob1)"
  shows "found_in ob (bind r f)"
proof (cases r)
  case (Ok ob1)
  then have "frame ob1 = frame ob" using assms(1) by (rule found_inD [rotated])
  then show ?thesis using assms(2) [of ob1] Ok by (simp add: found_in_def split: result.splits)
qed (simp_all add: found_in_def)

lemma found_in_if: "found_in ob r \<Longrightarrow> found_in ob r' \<Longrightarrow> found_in ob (if c then r else r')"
  by simp

lemma found_in_Ok: "frame ob' = frame ob \<Longrightarrow> found_in ob (Ok ob')"
  by (simp add: found_in_def)

lemma find_command_keeps: "found_in ob (find_command e cmd i lc ob)"
  unfolding find_command_def find_segment_def find_segment_64_def find_id_dylib_def
  by (intro found_in_if found_in_bind found_in_Ok) (simp_all add: frame_def)

lemma find_commands_keep: "found_in ob (find_commands e n i lc ob)"
proof (induction n arbitrary: i lc ob)
  case (Suc n)
  then show ?case unfolding find_commands.simps by (intro found_in_bind found_in_then [OF find_command_keeps])
qed (simp add: found_in_Ok)

lemma symbol_string_keeps:
  assumes "symbol_string_at_end ob = Ok ob'"
  shows "ob_dyst ob' = ob_dyst ob \<and> ob_st ob' = ob_st ob"
proof -
  have strings: "ob_dyst ob1 = ob_dyst ob \<and> ob_st ob1 = ob_st ob" if "strings_at_end st x ob = Ok (ob1, y)" for st x ob1 y
    using that by (auto simp: strings_at_end_def Let_def bind_eq_Ok split: if_splits)
  have indirect: "ob_dyst ob2 = ob_dyst ob1 \<and> ob_st ob2 = ob_st ob1" if "indirect_before st dy x ob1 = Ok ob2" for st dy x ob1 ob2
    using that by (auto simp: indirect_before_def Let_def bind_eq_Ok)
  show ?thesis
  proof (cases "ob_st ob")
    case (Some st)
    show ?thesis
    proof (cases "st_nsyms st = 0")
      case False
      then obtain x ob1 y where "strings_at_end st x ob = Ok (ob1, y)"
        "(case indirect_behind ob1 st of Some dy \<Rightarrow> indirect_before st dy y ob1
          | None \<Rightarrow> bind (guard (symbols_end ob1 st = ucast y) Symbols_not_at_end) (\<lambda>_. Ok ob1)) = Ok ob'"
        using assms Some by (auto simp: symbol_string_at_end_def bind_eq_Ok simp del: guard_iffs)
      then show ?thesis
        using strings indirect by (cases "indirect_behind ob1 st") (auto simp: bind_eq_Ok)
    qed (use assms Some in \<open>simp add: symbol_string_at_end_def\<close>)
  qed (use assms in \<open>simp add: symbol_string_at_end_def\<close>)
qed

lemma check_object_dylib:
  assumes "check_object e is64 MH_DYLIB objsize pad m = Ok ob'" and "ob_dyst ob' = Some dy"
  obtains ob where "dyld_order ob dy = Ok ob'" and "ob_size ob = objsize"
    and "find_commands e (unat (get32 e m 16)) 0 (if is64 then sizeof_mach_header_64 else sizeof_mach_header)
      (new_object is64 MH_DYLIB objsize pad m) = Ok ob"
proof -
  obtain n ob where "read_u32 e m 16 = (Ok n :: u32 checkout)"
    and search: "find_commands e (unat n) 0 (if is64 then sizeof_mach_header_64 else sizeof_mach_header)
      (new_object is64 MH_DYLIB objsize pad m) = Ok ob"
    and rest: "(case ob_dyst ob of None \<Rightarrow> symbol_string_at_end ob | Some dy \<Rightarrow> dyld_order ob dy) = Ok ob'"
    using assms(1) unfolding check_object_def Let_def bind_eq_Ok
    by (elim exE conjE) (erule (1) that, simp split: option.splits)
  then have found: "find_commands e (unat (get32 e m 16)) 0 (if is64 then sizeof_mach_header_64 else sizeof_mach_header)
      (new_object is64 MH_DYLIB objsize pad m) = Ok ob"
    by (simp add: read_u32_def split: if_splits)
  have ob: "ob_size ob = objsize"
    using found_inD [OF find_commands_keep found] by (simp add: frame_def new_object_def)
  show ?thesis
  proof (cases "ob_dyst ob")
    case None
    then have "ob_dyst ob' = None" using rest symbol_string_keeps by simp
    then show ?thesis using assms(2) by simp
  next
    case (Some dy')
    then have order: "dyld_order ob dy' = Ok ob'" using rest by simp
    then have "ob_dyst ob' = Some dy'" using Some by (auto simp: dyld_order_def bind_eq_Ok split: option.splits)
    then show ?thesis using that [OF _ ob found] order assms(2) by simp
  qed
qed

text \<open>
  In a dynamic library that \<open>checkout\<close> lets pass the tables of the link edit segment are in the documented order,
  no two overlap and they lie inside the file.
\<close>

lemma dylib_linkedit_in_order:
  assumes "check_object e is64 MH_DYLIB objsize pad m = Ok ob"
    and "ob_dyst ob = Some dy" and "ob_st ob = Some st" and "data_fits ob"
    and "\<And>sg. ob_linkedit64 ob = Some sg \<Longrightarrow> unat (sg64_fileoff sg) < 2 ^ 32"
  shows "sorted_wrt (\<lambda>p q. fst p + snd p \<le> fst q) (linkedit_parts ob st dy) \<and>
    (\<forall>p \<in> set (linkedit_parts ob st dy). fst p + snd p \<le> unat objsize)"
proof -
  obtain ob0 where ob0: "dyld_order ob0 dy = Ok ob" "ob_size ob0 = objsize"
    using check_object_dylib [OF assms(1,2)] .
  from ob0(1) obtain pad' where "ob = ob0\<lparr>ob_pad := pad'\<rparr>"
    by (auto simp: dyld_order_def bind_eq_Ok split: option.splits)
  then have same: "data_fits ob0" "ob_linkedit64 ob0 = ob_linkedit64 ob" "ob_st ob0 = ob_st ob"
      "linkedit_parts ob0 st dy = linkedit_parts ob st dy"
    using assms(4) by (simp_all add: data_fits_def linkedit_parts_def before_parts_def middle_parts_def behind_parts_def data_part_def)
  obtain st' where "ob_st ob0 = Some st'" "tiles 0 (linkedit_parts ob0 st' dy) (unat objsize)"
    using dyld_order_tiles [OF ob0(1) same(1)] assms(5) same(2) ob0(2) by metis
  then have "tiles 0 (linkedit_parts ob st dy) (unat objsize)" using same(3,4) assms(3) by simp
  then show ?thesis using tiles_sorted tiles_inside by blast
qed

text \<open>A 32-bit dynamic library with one symbol.\<close>

definition sample_dylib :: bytes where
  "sample_dylib = concat (map (put32 Little)
     ([0xfeedface, 7, 3, 6, 4, 188, 0] @
      [LC_ID_DYLIB, 28, 24, 0, 0, 0, 0x78] @
      [1, 56, 0x494c5f5f, 0x44454b4e, 0x00005449, 0, 0, 16, 216, 16, 0, 0, 0, 0] @
      [2, 24, 216, 1, 228, 4] @
      ([11, 80, 0, 0, 0, 1, 1] @ replicate 13 0) @
      [1, 0x10f, 0, 0x00005f00]))"

end
