(* ===== verification/Mach_O_Accepted.thy ===== *)
theory Mach_O_Accepted
  imports Mach_O_Facts
begin

text \<open>
  The properties of \<open>check_Mach_O\<close>: it stays inside the object, what an accepted object is known to fulfil,
  and the objects on which it reads through a null pointer, accepts sizes that wrap around or leaves
  headers swapped.
\<close>

section \<open>Objects to try it on\<close>

definition words :: "endian \<Rightarrow> u32 list \<Rightarrow> bytes" where
  "words e ws = concat (map (put32 e) ws)"

definition is_ok :: "'a checked \<Rightarrow> bool" where
  "is_ok r \<longleftrightarrow> (case r of Ok _ \<Rightarrow> True | Error _ \<Rightarrow> False | Fault \<Rightarrow> False)"

definition faults :: "'a checked \<Rightarrow> bool" where
  "faults r \<longleftrightarrow> (case r of Ok _ \<Rightarrow> False | Error _ \<Rightarrow> False | Fault \<Rightarrow> True)"

lemma is_okE: "is_ok r \<Longrightarrow> (\<And>info s. r = Ok (info, s) \<Longrightarrow> thesis) \<Longrightarrow> thesis"
  by (cases r) (auto simp: is_ok_def)

lemma faultsD: "faults r \<Longrightarrow> r = Fault"
  by (cases r) (auto simp: faults_def)

definition plain_ofile :: "bool \<Rightarrow> mach_ofile" where
  "plain_ofile is64 = \<lparr>mo_is64 = is64, mo_swapped = False, mo_fat_cputype = None\<rparr>"

lemma plain_ofile_simps [simp]:
  "mo_is64 (plain_ofile is64) = is64" "mo_swapped (plain_ofile is64) = False"
  by (simp_all add: plain_ofile_def)

text \<open>An object with one external symbol and an empty dynamic symbol table.\<close>

definition sample_object :: bytes where
  "sample_object = words Little
     ([0xfeedface, 7, 3, 1, 2, 104, 0] @
      [2, 24, 132, 1, 144, 4] @
      [11, 80, 0, 0, 0, 1, 1, 0, 0, 0, 0, 0, 0, 0, 0, 0, 0, 0, 0, 0] @
      [1, 0x10f, 0, 0x00005f00])"

lemma sample_accepted: "is_ok (check_Mach_O Little (\<lambda>_ _. 0) (plain_ofile False) sample_object)"
  by code_simp

lemma sample_places: "object_places Little (plain_ofile False) sample_object = [(28, LC_SYMTAB), (52, LC_DYSYMTAB)]"
  by code_simp

text \<open>A 32-bit object with a 64-bit segment of one section.\<close>

definition foreign_segment :: bytes where
  "foreign_segment = words Little
     ([0xfeedface, 7, 3, 1, 1, 152, 0] @ [LC_SEGMENT_64, 152] @ replicate 14 0 @ [1, 0] @ replicate 20 0)"

text \<open>A 64-bit segment at 16 whose size is eight bytes short of 2^64.\<close>

definition wrapping_segment :: bytes where
  "wrapping_segment = words Little
     ([0xfeedfacf, 0x01000007, 3, 1, 1, 72, 0, 0] @
      [LC_SEGMENT_64, 72] @ replicate 8 0 @ [16, 0, 0xfffffff8, 0xffffffff] @ replicate 4 0)"

text \<open>An object whose only command is \<open>LC_DYLD_CHAINED_FIXUPS\<close>.\<close>

definition chained_object :: "endian \<Rightarrow> bytes" where
  "chained_object e = words e [0xfeedface, 7, 3, 1, 1, 16, 0, LC_DYLD_CHAINED_FIXUPS, 16, 44, 0]"

section \<open>Properties\<close>

text \<open>
  C11.  On an object whose segments are of its own width \<open>check_Mach_O\<close> reads and writes only inside the object,
  whatever the bytes of the load commands are, and it changes only the headers.
\<close>

theorem check_Mach_O_stays_inside:
  assumes "first_command ofile \<le> length m"
    and "(if mo_is64 ofile then LC_SEGMENT else LC_SEGMENT_64) \<notin> set (object_commands e ofile m)"
  shows "check_Mach_O e stack ofile m \<noteq> Fault \<and>
    (\<forall>info s. check_Mach_O e stack ofile m = Ok (info, s) \<longrightarrow> changed_within 0 (end_of_commands e ofile m) m (ms_object s))"
  using assms(1)
proof (cases rule: check_Mach_O_runs [where e = e and stack = stack])
  case (walk env m' info)
  have "stays (first_command ofile) (end_of_commands e ofile m) id (first_mach_state m')
      (check_body env (mo_fat_cputype ofile) (first_command ofile) (get32 (object_order e ofile) m 16)
        (get32 (object_order e ofile) m 20) (first_mach_state m'))"
    using walk(1,2,3) assms(2) unfolding object_env_def by (intro object_body_stays) blast+
  note * = stays_object [OF this walk(2)]
  show ?thesis unfolding walk(5) using * by (auto simp: bind_iffs end_of_commands_def)
qed simp

theorem check_Mach_O_stays_inside_witness:
  "check_Mach_O Little (\<lambda>_ _. 0) (plain_ofile False) sample_object \<noteq> Fault"
proof -
  have "LC_SEGMENT_64 \<notin> set (object_commands Little (plain_ofile False) sample_object)"
    "sizeof_mach_header \<le> length sample_object"
    by code_simp+
  then show ?thesis
    using check_Mach_O_stays_inside [of "plain_ofile False" sample_object Little "\<lambda>_ _. 0"] by simp
qed

text \<open>
  C10.  In an object that \<open>check_Mach_O\<close> accepts every table that a load command places in the file lies inside the
  file: symbols and strings, the six tables of the dynamic symbol table, the hints, the data of the link
  editor, the contents of 32-bit segments.
\<close>

theorem accepted_tables_inside:
  assumes "check_Mach_O e stack ofile m = Ok (info, s)" and "(lc, cmd) \<in> set (object_places e ofile m)"
    and "table \<in> set (file_tables (mo_is64 ofile) cmd)"
  shows "table_in_file (object_order e ofile) (length m) m lc table"
  using assms(1,2)
proof (rule accepted_visit)
  fix env j cmdsize s1 s2
  assume env: "object_env e ofile m env" and cmd: "mach_command env j lc cmd cmdsize s1 = Ok s2"
    and at: "\<And>e' k. get32 e' (ms_object s1) (lc + k) = get32 e' m (lc + k)"
  have "table_in_file (file_order env) (unat (me_size env)) (ms_object s1) lc table"
    using mach_command_tables [OF cmd, of "mo_is64 ofile"] env assms(3) by (simp add: object_env_def list_all_iff)
  then show ?thesis
    using env of_nat_length_le [of "length m"] by (cases table) (auto simp: at object_env_def simp del: if_split)
qed

theorem accepted_tables_inside_witness:
  "table_in_file Little (length sample_object) sample_object 28 (8, 12, 12)"
proof -
  obtain info s where "check_Mach_O Little (\<lambda>_ _. 0) (plain_ofile False) sample_object = Ok (info, s)"
    using sample_accepted by (rule is_okE)
  from accepted_tables_inside [OF this, of 28 LC_SYMTAB "(8, 12, 12)"] show ?thesis
    by (simp add: sample_places file_tables_def)
qed

text \<open>
  C12.  In an accepted object the local, the external and the undefined symbols of the dynamic symbol table lie
  inside the symbol table, and there are as many two-level hints as undefined symbols.
\<close>

theorem accepted_symbols_inside:
  assumes "check_Mach_O e stack ofile m = Ok (info, s)"
    and "(p, LC_SYMTAB) \<in> set (object_places e ofile m)" and "(q, LC_DYSYMTAB) \<in> set (object_places e ofile m)"
  shows "(\<forall>(first, n) \<in> set symbol_ranges. get32 (object_order e ofile) m (q + n) \<noteq> 0 \<longrightarrow>
      unat (get32 (object_order e ofile) m (q + first)) + unat (get32 (object_order e ofile) m (q + n)) \<le>
      unat (get32 (object_order e ofile) m (p + 12))) \<and>
    (\<forall>r. (r, LC_TWOLEVEL_HINTS) \<in> set (object_places e ofile m) \<longrightarrow>
      get32 (object_order e ofile) m (r + 12) = get32 (object_order e ofile) m (q + 28))"
proof -
  obtain st where st: "ms_st s = Some st" "st_nsyms st = get32 (object_order e ofile) m (p + 12)"
    using accepted_symtab [OF assms(1,2)] by blast
  obtain dy where dy: "ms_dyst s = Some dy"
      "[(dyst_ilocalsym dy, dyst_nlocalsym dy), (dyst_iextdefsym dy, dyst_nextdefsym dy), (dyst_iundefsym dy, dyst_nundefsym dy)] =
       map (\<lambda>(first, n). (get32 (object_order e ofile) m (q + first), get32 (object_order e ofile) m (q + n))) symbol_ranges"
    using accepted_dysymtab [OF assms(1,3)] by (elim exE conjE)
  have "check_symbols st dy s = Ok ()"
    using accepted_together [OF assms(1)] st(1) dy(1) by (simp add: check_together_def)
  then have checks: "symbols_inside ''local'' (dyst_ilocalsym dy) (dyst_nlocalsym dy) (st_nsyms st) = Ok ()"
      "symbols_inside ''extdef'' (dyst_iextdefsym dy) (dyst_nextdefsym dy) (st_nsyms st) = Ok ()"
      "symbols_inside ''undef'' (dyst_iundefsym dy) (dyst_nundefsym dy) (st_nsyms st) = Ok ()"
    and hints: "case ms_hints s of Some hints \<Rightarrow> hints_nhints hints = dyst_nundefsym dy | None \<Rightarrow> True"
    by (simp_all add: check_symbols_def bind_eq_Ok)
  have inside: "\<forall>(first, n) \<in> set [(dyst_ilocalsym dy, dyst_nlocalsym dy), (dyst_iextdefsym dy, dyst_nextdefsym dy),
      (dyst_iundefsym dy, dyst_nundefsym dy)]. n \<noteq> 0 \<longrightarrow> unat first + unat n \<le> unat (st_nsyms st)"
    using checks [THEN symbols_inside_Ok] by simp
  have undef: "dyst_nundefsym dy = get32 (object_order e ofile) m (q + 28)"
    using dy(2) by (simp add: symbol_ranges_def)
  show ?thesis
  proof (intro conjI allI impI)
    show "\<forall>(first, n) \<in> set symbol_ranges. get32 (object_order e ofile) m (q + n) \<noteq> 0 \<longrightarrow>
      unat (get32 (object_order e ofile) m (q + first)) + unat (get32 (object_order e ofile) m (q + n)) \<le>
      unat (get32 (object_order e ofile) m (p + 12))"
      using inside unfolding dy(2) st(2) by (auto simp: symbol_ranges_def)
    show "get32 (object_order e ofile) m (r + 12) = get32 (object_order e ofile) m (q + 28)"
      if "(r, LC_TWOLEVEL_HINTS) \<in> set (object_places e ofile m)" for r
      using accepted_hints [OF assms(1) that] hints undef by auto
  qed
qed

theorem accepted_symbols_inside_witness:
  "unat (get32 Little sample_object (52 + 16)) + unat (get32 Little sample_object (52 + 20)) \<le>
     unat (get32 Little sample_object (28 + 12)) \<or> get32 Little sample_object (52 + 20) = 0"
proof -
  obtain info s where "check_Mach_O Little (\<lambda>_ _. 0) (plain_ofile False) sample_object = Ok (info, s)"
    using sample_accepted by (rule is_okE)
  from accepted_symbols_inside [OF this, of 28 52] show ?thesis
    by (auto simp: sample_places symbol_ranges_def)
qed

text \<open>
  A segment of the other width with a section makes \<open>check_Mach_O\<close> read the file type through a null
  pointer.
\<close>

theorem foreign_segment_faults:
  "check_Mach_O Little (\<lambda>_ _. 0) (plain_ofile False) foreign_segment = Fault"
proof -
  have "faults (check_Mach_O Little (\<lambda>_ _. 0) (plain_ofile False) foreign_segment)" by code_simp
  then show ?thesis by (rule faultsD)
qed

text \<open>
  The end of a 64-bit segment is computed modulo 2^64, and a segment that reaches far behind the file is accepted.
\<close>

theorem wrapping_segment_accepted:
  "is_ok (check_Mach_O Little (\<lambda>_ _. 0) (plain_ofile True) wrapping_segment) \<and>
   length wrapping_segment < unat (get64 Little wrapping_segment (32 + 40)) + unat (get64 Little wrapping_segment (32 + 48))"
proof
  show "is_ok (check_Mach_O Little (\<lambda>_ _. 0) (plain_ofile True) wrapping_segment)" by code_simp
  have "get64 Little wrapping_segment (32 + 48) = 0xfffffffffffffff8" "length wrapping_segment = 104" by code_simp+
  then show "length wrapping_segment <
      unat (get64 Little wrapping_segment (32 + 40)) + unat (get64 Little wrapping_segment (32 + 48))"
    by simp
qed

text \<open>
  \<open>swap_back_Mach_O\<close> is to undo the swapping of \<open>check_Mach_O\<close>; for an object with chained fixups it leaves
  the headers in the byte order of the host.
\<close>

theorem swap_back_leaves_swapped:
  "\<exists>info s. check_Mach_O Little (\<lambda>_ _. 0) \<lparr>mo_is64 = False, mo_swapped = True, mo_fat_cputype = None\<rparr> (chained_object Big) = Ok (info, s) \<and>
     swap_back_Mach_O Little (\<lambda>_ _. 0) False (mi_headers_swapped info) (ms_object s) = Ok (chained_object Little) \<and>
     chained_object Little \<noteq> chained_object Big"
proof -
  let ?check = "check_Mach_O Little (\<lambda>_ _. 0) \<lparr>mo_is64 = False, mo_swapped = True, mo_fat_cputype = None\<rparr> (chained_object Big)"
  have "(case ?check of Ok (info, s) \<Rightarrow> (mi_headers_swapped info, ms_object s) | _ \<Rightarrow> (False, [])) =
      (True, chained_object Little)"
    by code_simp
  then obtain info s where check: "?check = Ok (info, s)" "mi_headers_swapped info" "ms_object s = chained_object Little"
    by (auto split: result.splits prod.splits)
  have "swap_back_Mach_O Little (\<lambda>_ _. 0) False True (chained_object Little) = Ok (chained_object Little)"
    by code_simp
  moreover have "chained_object Little \<noteq> chained_object Big" by code_simp
  ultimately show ?thesis using check by (intro exI [of _ info] exI [of _ s]) simp
qed

end
