(* ===== verification/Accepted_Checkout.thy ===== *)
theory Accepted_Checkout
  imports Checkout_Facts Mach_O_Accepted
begin

text \<open>
  \<open>check_Mach_O\<close> and \<open>checkout\<close> together: on an object that the first accepts the second stays inside the file and
  never uses a missing symbol table, and what the first has checked is what the second relies on.
\<close>

section \<open>The search for the commands\<close>

text \<open>The bytes of a command that the search looks at.\<close>

definition find_size :: "u32 \<Rightarrow> nat" where
  "find_size cmd =
     (if cmd = LC_SYMTAB then sizeof_symtab_command
      else if cmd = LC_DYSYMTAB then sizeof_dysymtab_command
      else if cmd = LC_TWOLEVEL_HINTS then sizeof_twolevel_hints_command
      else if cmd \<in> set linkedit_fields then sizeof_linkedit_data_command
      else if cmd = LC_DYLD_INFO \<or> cmd = LC_DYLD_INFO_ONLY then sizeof_dyld_info_command
      else if cmd = LC_ENCRYPTION_INFO then sizeof_encryption_info_command
      else if cmd = LC_ENCRYPTION_INFO_64 then sizeof_encryption_info_command_64
      else if cmd = LC_SEGMENT then sizeof_segment_command
      else if cmd = LC_SEGMENT_64 then sizeof_segment_command_64
      else if cmd = LC_ID_DYLIB then sizeof_dylib_command
      else if cmd = LC_NOTE then sizeof_note_command
      else 0)"

lemma bind_no_fault: "r \<noteq> Fault \<Longrightarrow> (\<And>x. r = Ok x \<Longrightarrow> f x \<noteq> Fault) \<Longrightarrow> bind r f \<noteq> Fault"
  by (cases r) simp_all

lemma command_at_no_fault: "lc + sz \<le> length (ob_object ob) \<Longrightarrow> command_at sz load e ob lc \<noteq> Fault"
  by (simp add: command_at_def bind_iffs read_bytes_def)

lemma if_no_fault: "(c \<Longrightarrow> r \<noteq> Fault) \<Longrightarrow> (\<not> c \<Longrightarrow> r' \<noteq> Fault) \<Longrightarrow> (if c then r else r') \<noteq> Fault"
  by simp

lemma guard_no_fault: "guard c err \<noteq> Fault"
  by simp

lemma Ok_no_fault: "Ok x \<noteq> Fault"
  by simp

lemmas no_fault_steps = if_no_fault bind_no_fault guard_no_fault Ok_no_fault command_at_no_fault

lemma find_command_no_fault:
  assumes "lc + find_size cmd \<le> length (ob_object ob)"
  shows "find_command e cmd i lc ob \<noteq> Fault"
  unfolding find_command_def find_segment_def find_segment_64_def find_id_dylib_def
  by (intro no_fault_steps) (use assms in \<open>simp_all add: find_size_def\<close>)

text \<open>The search goes through the commands one by one.\<close>

lemma find_commands_Suc:
  assumes "find_commands e (Suc n) i lc ob = Ok ob'"
  obtains ob1 where "find_command e (cmd_at e (ob_object ob) lc) i lc ob = Ok ob1"
    and "find_commands e n (Suc i) (lc + cmdsize_at e (ob_object ob) lc) ob1 = Ok ob'" and "ob_object ob1 = ob_object ob"
proof -
  obtain ob1 where "find_command e (cmd_at e (ob_object ob) lc) i lc ob = Ok ob1"
      "find_commands e n (Suc i) (lc + cmdsize_at e (ob_object ob) lc) ob1 = Ok ob'"
    using assms by (auto simp: bind_iffs command_at_def load_load_command_def get32_in_subbytes sizeof_load_command_def)
  moreover from this(1) have "ob_object ob1 = ob_object ob"
    using found_inD [OF find_command_keeps] by (fastforce simp: frame_def)
  ultimately show ?thesis by (rule that)
qed

lemma find_commands_no_fault:
  assumes "\<forall>(p, c) \<in> set (command_places e (ob_object ob) n lc).
      p + sizeof_load_command \<le> length (ob_object ob) \<and> p + find_size c \<le> length (ob_object ob)"
  shows "find_commands e n i lc ob \<noteq> Fault"
  using assms
proof (induction n arbitrary: i lc ob)
  case (Suc n)
  have here: "lc + sizeof_load_command \<le> length (ob_object ob)"
    "lc + find_size (cmd_at e (ob_object ob) lc) \<le> length (ob_object ob)"
    using Suc.prems by simp_all
  have rest: "find_commands e n (Suc i) (lc + cmdsize_at e (ob_object ob) lc) ob1 \<noteq> Fault"
    if "find_command e (cmd_at e (ob_object ob) lc) i lc ob = Ok ob1" for ob1
  proof -
    have "ob_object ob1 = ob_object ob"
      using found_inD [OF find_command_keeps that] by (simp add: frame_def)
    then show ?thesis using Suc.prems by (intro Suc.IH) simp
  qed
  show ?case
    unfolding find_commands.simps
    using here find_command_no_fault [OF here(2)] rest
    by (auto simp: bind_iffs command_at_def read_bytes_def load_load_command_def get32_in_subbytes sizeof_load_command_def)
qed simp

lemma find_commands_invariant:
  assumes "find_commands e n i lc ob = Ok ob'" and "Q ob"
    and "\<And>p c j ob1 ob2. (p, c) \<in> set (command_places e (ob_object ob) n lc) \<Longrightarrow> ob_object ob1 = ob_object ob \<Longrightarrow>
      find_command e c j p ob1 = Ok ob2 \<Longrightarrow> Q ob1 \<Longrightarrow> Q ob2"
  shows "Q ob'"
  using assms
proof (induction n arbitrary: i lc ob)
  case (Suc n)
  obtain ob1 where ob1: "find_command e (cmd_at e (ob_object ob) lc) i lc ob = Ok ob1"
      "find_commands e n (Suc i) (lc + cmdsize_at e (ob_object ob) lc) ob1 = Ok ob'" "ob_object ob1 = ob_object ob"
    using find_commands_Suc [OF Suc.prems(1)] .
  have "Q ob1" using Suc.prems(3) [OF _ refl ob1(1)] Suc.prems(2) by simp
  then show ?case
  proof (rule Suc.IH [OF ob1(2)])
    fix p c j ob2 ob3
    assume "(p, c) \<in> set (command_places e (ob_object ob1) n (lc + cmdsize_at e (ob_object ob) lc))"
      and same: "ob_object ob2 = ob_object ob1" and step: "find_command e c j p ob2 = Ok ob3" and "Q ob2"
    then show "Q ob3" using Suc.prems(3) [OF _ _ step] ob1(3) by simp
  qed
qed simp


section \<open>Accepted commands are long enough\<close>

lemma mach_command_of:
  "mach_command env i lc LC_ENCRYPTION_INFO_64 cmdsize s = mach_encryption_64 env i lc cmdsize s"
  "mach_command env i lc LC_DYLD_INFO cmdsize s = mach_dyld_info env LC_DYLD_INFO i lc cmdsize s"
  "mach_command env i lc LC_DYLD_INFO_ONLY cmdsize s = mach_dyld_info env LC_DYLD_INFO_ONLY i lc cmdsize s"
  "mach_command env i lc LC_NOTE cmdsize s = mach_note env i lc cmdsize s"
  "mach_command env i lc LC_ID_DYLIB cmdsize s =
    mach_string env LC_ID_DYLIB (sizeof_dylib_command, inplace load_dylib_command store_dylib_command swap_dylib_command (me_host env),
      sizeof_dylib_command, [8]) i lc cmdsize s"
  by (simp_all add: mach_command_def linkedit_commands_def mach_string_tables single_commands_def Let_def)

lemma linkedit_fields_places: "set linkedit_fields = set linkedit_places"
  by (auto simp: linkedit_fields_def linkedit_places_def)

abbreviation sized_commands :: "u32 set" where
  "sized_commands \<equiv> {LC_SYMTAB, LC_DYSYMTAB, LC_TWOLEVEL_HINTS, LC_DYLD_INFO, LC_DYLD_INFO_ONLY, LC_ENCRYPTION_INFO,
     LC_ENCRYPTION_INFO_64, LC_SEGMENT, LC_SEGMENT_64, LC_ID_DYLIB, LC_NOTE}"

lemma find_size_none: "cmd \<notin> set linkedit_places \<Longrightarrow> cmd \<notin> sized_commands \<Longrightarrow> find_size cmd = 0"
  by (simp add: find_size_def linkedit_fields_places)

lemma guard_first: "bind (guard c err) f = Ok x \<Longrightarrow> c"
  by (simp add: bind_iffs)

lemma first_sizes:
  "mach_symtab env i lc cmdsize s = Ok s' \<Longrightarrow> sizeof_symtab_command \<le> unat cmdsize"
  "mach_dysymtab env i lc cmdsize s = Ok s' \<Longrightarrow> sizeof_dysymtab_command \<le> unat cmdsize"
  "mach_hints env i lc cmdsize s = Ok s' \<Longrightarrow> sizeof_twolevel_hints_command \<le> unat cmdsize"
  "mach_dyld_info env cmd i lc cmdsize s = Ok s' \<Longrightarrow> sizeof_dyld_info_command \<le> unat cmdsize"
  "mach_encryption env i lc cmdsize s = Ok s' \<Longrightarrow> sizeof_encryption_info_command \<le> unat cmdsize"
  "mach_encryption_64 env i lc cmdsize s = Ok s' \<Longrightarrow> sizeof_encryption_info_command_64 \<le> unat cmdsize"
  "mach_segment env i lc cmdsize s = Ok s' \<Longrightarrow> sizeof_segment_command \<le> unat cmdsize"
  "mach_segment_64 env i lc cmdsize s = Ok s' \<Longrightarrow> sizeof_segment_command_64 \<le> unat cmdsize"
  "mach_note env i lc cmdsize s = Ok s' \<Longrightarrow> sizeof_note_command \<le> unat cmdsize"
  "mach_string env cmd (sz, f, smallest, offs) i lc cmdsize s = Ok s' \<Longrightarrow> sz \<le> unat cmdsize"
  unfolding mach_symtab_def mach_dysymtab_def mach_hints_def mach_dyld_info_def mach_encryption_def mach_encryption_64_def
    mach_segment_def mach_segment_64_def mach_note_def mach_string_def prod.case
  by (drule guard_first, simp)+

lemma find_sizes:
  "find_size LC_SYMTAB = sizeof_symtab_command" "find_size LC_DYSYMTAB = sizeof_dysymtab_command"
  "find_size LC_TWOLEVEL_HINTS = sizeof_twolevel_hints_command" "find_size LC_DYLD_INFO = sizeof_dyld_info_command"
  "find_size LC_DYLD_INFO_ONLY = sizeof_dyld_info_command" "find_size LC_ENCRYPTION_INFO = sizeof_encryption_info_command"
  "find_size LC_ENCRYPTION_INFO_64 = sizeof_encryption_info_command_64" "find_size LC_SEGMENT = sizeof_segment_command"
  "find_size LC_SEGMENT_64 = sizeof_segment_command_64" "find_size LC_ID_DYLIB = sizeof_dylib_command"
  "find_size LC_NOTE = sizeof_note_command"
  by (simp_all add: find_size_def linkedit_fields_def)

lemma find_size_linkedit: "cmd \<in> set linkedit_places \<Longrightarrow> find_size cmd = sizeof_linkedit_data_command"
  by (auto simp: find_size_def linkedit_fields_places linkedit_places_def)

lemma sized_command: "mach_command env i lc cmd cmdsize s = Ok s' \<Longrightarrow> cmd \<in> sized_commands \<Longrightarrow> find_size cmd \<le> unat cmdsize"
  apply (elim insertE emptyE; hypsubst)
  apply (unfold find_sizes mach_command_places mach_command_segment mach_command_of)
  apply (erule first_sizes)+
  done

lemma mach_command_sizes:
  assumes "mach_command env i lc cmd cmdsize s = Ok s'"
  shows "find_size cmd \<le> unat cmdsize"
proof (cases "cmd \<in> set linkedit_places")
  case True
  then obtain name where "mach_linkedit env cmd name i lc cmdsize s = Ok s'"
    using mach_command_linkedit [of cmd env i lc cmdsize s] assms by metis
  then show ?thesis using True by (simp add: mach_linkedit_def bind_iffs find_size_linkedit)
next
  case False
  show ?thesis
  proof (cases "cmd \<in> sized_commands")
    case True
    with assms show ?thesis by (rule sized_command)
  next
    case no: False
    show ?thesis using find_size_none [OF False no] by (rule ord_eq_le_trans) (rule le0)
  qed
qed

lemma accepted_inside:
  assumes "check_Mach_O e stack ofile m = Ok (info, s)" and "(p, c) \<in> set (object_places e ofile m)"
  shows "p + sizeof_load_command \<le> length m \<and> p + find_size c \<le> length m"
  using assms
proof (rule accepted_visit)
  fix env j cmdsize s1 s2 k n lc1 lc2
  assume "mach_command env j p c cmdsize s1 = Ok s2" "p + unat cmdsize \<le> length m" "p + sizeof_load_command \<le> length m"
  then show ?thesis using mach_command_sizes [of env j p c cmdsize s1 s2] by simp
qed

section \<open>What the search finds\<close>

lemma find_segment_tables:
  "find_segment e lc ob = Ok ob' \<Longrightarrow> ob_st ob' = ob_st ob \<and> ob_dyst ob' = ob_dyst ob \<and> ob_data ob' = ob_data ob \<and> ob_linkedit64 ob' = ob_linkedit64 ob"
  "find_id_dylib e i lc ob = Ok ob' \<Longrightarrow> ob_st ob' = ob_st ob \<and> ob_dyst ob' = ob_dyst ob \<and> ob_data ob' = ob_data ob \<and> ob_linkedit64 ob' = ob_linkedit64 ob"
  "find_segment_64 e lc ob = Ok ob' \<Longrightarrow> ob_st ob' = ob_st ob \<and> ob_dyst ob' = ob_dyst ob \<and> ob_data ob' = ob_data ob \<and>
    (ob_linkedit64 ob' = ob_linkedit64 ob \<or>
     ob_linkedit64 ob' = Some (load_segment_command_64 e (subbytes lc sizeof_segment_command_64 (ob_object ob))))"
  by (auto simp: find_segment_def find_id_dylib_def find_segment_64_def bind_iffs command_at_def split: if_splits)

text \<open>The only places that give a symbol table, a dynamic symbol table, data of the link editor and the 64-bit segment.\<close>

lemma find_command_tables:
  assumes "find_command e cmd i lc ob = Ok ob'"
  shows "ob_st ob' = None \<longleftrightarrow> ob_st ob = None \<and> cmd \<noteq> LC_SYMTAB"
    and "ob_dyst ob' = None \<longleftrightarrow> ob_dyst ob = None \<and> cmd \<noteq> LC_DYSYMTAB"
    and "ob_data ob' = ob_data ob \<or> cmd \<in> set linkedit_fields \<and>
      ob_data ob' = (cmd, load_linkedit_data_command e (subbytes lc sizeof_linkedit_data_command (ob_object ob))) # ob_data ob"
    and "ob_linkedit64 ob' = ob_linkedit64 ob \<or> cmd = LC_SEGMENT_64 \<and>
      ob_linkedit64 ob' = Some (load_segment_command_64 e (subbytes lc sizeof_segment_command_64 (ob_object ob)))"
  using assms unfolding find_command_def
  by (auto simp: bind_iffs command_at_def dest!: find_segment_tables split: if_splits)

lemma find_commands_symtab:
  assumes "find_commands e n i lc ob = Ok ob'"
    and "ob_st ob \<noteq> None \<or> LC_SYMTAB \<in> snd ` set (command_places e (ob_object ob) n lc)"
  shows "ob_st ob' \<noteq> None"
  using assms
proof (induction n arbitrary: i lc ob)
  case (Suc n)
  obtain ob1 where ob1: "find_command e (cmd_at e (ob_object ob) lc) i lc ob = Ok ob1"
      "find_commands e n (Suc i) (lc + cmdsize_at e (ob_object ob) lc) ob1 = Ok ob'" "ob_object ob1 = ob_object ob"
    using find_commands_Suc [OF Suc.prems(1)] .
  have "ob_st ob1 \<noteq> None \<or> LC_SYMTAB \<in> snd ` set (command_places e (ob_object ob1) n (lc + cmdsize_at e (ob_object ob) lc))"
    using find_command_tables(1) [OF ob1(1)] Suc.prems(2) ob1(3) by auto
  then show ?case by (rule Suc.IH [OF ob1(2)])
qed simp

lemma find_commands_dysymtab:
  assumes "find_commands e n i lc ob = Ok ob'" and "ob_dyst ob = None" and "ob_dyst ob' \<noteq> None"
  shows "LC_DYSYMTAB \<in> snd ` set (command_places e (ob_object ob) n lc)"
proof -
  have "ob_dyst ob' \<noteq> None \<longrightarrow> LC_DYSYMTAB \<in> snd ` set (command_places e (ob_object ob) n lc)"
  proof (rule find_commands_invariant [OF assms(1)])
    fix p c j ob1 ob2
    assume "(p, c) \<in> set (command_places e (ob_object ob) n lc)" "find_command e c j p ob1 = Ok ob2"
      "ob_dyst ob1 \<noteq> None \<longrightarrow> LC_DYSYMTAB \<in> snd ` set (command_places e (ob_object ob) n lc)"
    then show "ob_dyst ob2 \<noteq> None \<longrightarrow> LC_DYSYMTAB \<in> snd ` set (command_places e (ob_object ob) n lc)"
      using find_command_tables(2) by force
  qed (simp add: assms(2))
  then show ?thesis using assms(3) by blast
qed

text \<open>Where the data of the link editor and the 64-bit segment come from.\<close>

definition found_at :: "endian \<Rightarrow> bytes \<Rightarrow> (nat \<times> u32) set \<Rightarrow> object \<Rightarrow> bool" where
  "found_at e m places ob \<longleftrightarrow>
     (\<forall>(c, ld) \<in> set (ob_data ob). c \<in> set linkedit_fields \<and>
        (\<exists>p. (p, c) \<in> places \<and> ld = load_linkedit_data_command e (subbytes p sizeof_linkedit_data_command m))) \<and>
     (\<forall>sg. ob_linkedit64 ob = Some sg \<longrightarrow>
        (\<exists>p. (p, LC_SEGMENT_64) \<in> places \<and> sg = load_segment_command_64 e (subbytes p sizeof_segment_command_64 m)))"

lemma find_commands_found_at:
  assumes "find_commands e n i lc ob = Ok ob'" and "ob_data ob = []" and "ob_linkedit64 ob = None"
  shows "found_at e (ob_object ob) (set (command_places e (ob_object ob) n lc)) ob'"
proof (rule find_commands_invariant [OF assms(1)])
  fix p c j ob1 ob2
  assume at: "(p, c) \<in> set (command_places e (ob_object ob) n lc)" "ob_object ob1 = ob_object ob"
    and step: "find_command e c j p ob1 = Ok ob2"
    and "found_at e (ob_object ob) (set (command_places e (ob_object ob) n lc)) ob1"
  then show "found_at e (ob_object ob) (set (command_places e (ob_object ob) n lc)) ob2"
    using find_command_tables(3,4) [OF step] at unfolding found_at_def by auto
qed (simp add: assms(2,3) found_at_def)

section \<open>What the checks have made sure of\<close>

lemma accepted_object_same:
  assumes "check_Mach_O e stack ofile m = Ok (info, s)" and "\<not> mo_swapped ofile"
  shows "ms_object s = m"
  using assms(1)
proof (rule accepted_walk)
  fix env s0 lc
  assume env: "object_env e ofile m env" and "mo_swapped ofile \<or> ms_object s0 = m"
    and walk: "mach_commands env (end_of_commands e ofile m) (unat (get32 (object_order e ofile) m 16)) 0 (first_command ofile) s0 = Ok (s, lc)"
  then have "me_swapped env \<or> ms_object s0 = m" using assms(2) by simp
  then show ?thesis using object_kept.commands_keep [OF walk] env assms(2) by (simp add: object_env_def)
qed

lemma accepted_symtab_present:
  assumes "check_Mach_O e stack ofile m = Ok (info, s)" and "LC_DYSYMTAB \<in> snd ` set (object_places e ofile m)"
  shows "LC_SYMTAB \<in> snd ` set (object_places e ofile m)"
  using assms(1)
proof (rule accepted_walk)
  fix env s0 lc
  assume env: "object_env e ofile m env" and same: "same_from (first_command ofile) m (ms_object s0)"
    and walk: "mach_commands env (end_of_commands e ofile m) (unat (get32 (object_order e ofile) m 16)) 0 (first_command ofile) s0 = Ok (s, lc)"
    and inside: "end_of_commands e ofile m \<le> length m" and together: "check_together s = Ok ()" and "ms_st s0 = None"
  have places: "command_places (file_order env) (ms_object s0) (unat (get32 (object_order e ofile) m 16)) (first_command ofile) =
      object_places e ofile m"
    using env unfolding object_env_def object_places_def by (simp only: command_places_same [OF same])
  obtain p where "(p, LC_DYSYMTAB) \<in> set (object_places e ofile m)" using assms(2) by auto
  then have "ms_dyst s \<noteq> None" using accepted_dysymtab [OF assms(1)] by auto
  then have "ms_st s \<noteq> None" using together by (auto simp: check_together_def split: option.splits)
  moreover have "ms_st s = None" if "LC_SYMTAB \<notin> snd ` set (object_places e ofile m)"
    using no_st.commands_without_symtab [OF walk] inside same that \<open>ms_st s0 = None\<close> unfolding places same_from_def by simp
  ultimately show ?thesis by metis
qed

lemma subbytes_same: "same_from p m m' \<Longrightarrow> subbytes p n m' = subbytes p n m"
  by (simp add: same_from_def subbytes_def)

lemma accepted_linkedit_fits:
  assumes "check_Mach_O e stack ofile m = Ok (info, s)" and "(p, c) \<in> set (object_places e ofile m)" and "c \<in> set linkedit_fields"
    and "ld = load_linkedit_data_command (object_order e ofile) (subbytes p sizeof_linkedit_data_command m)"
  shows "unat (ld_dataoff ld) + unat (ld_datasize ld) < 2 ^ 32"
  using assms(1,2)
proof (rule accepted_visit)
  fix env j cmdsize s1 s2
  assume env: "object_env e ofile m env" and cmd: "mach_command env j p c cmdsize s1 = Ok s2"
    and at: "\<And>e' k. get32 e' (ms_object s1) (p + k) = get32 e' m (p + k)"
  have "file_tables (mo_is64 ofile) c = [(8, 12, 1)]"
    using assms(3) by (auto simp: file_tables_def linkedit_fields_def linkedit_places_def)
  then have "table_in_file (file_order env) (unat (me_size env)) (ms_object s1) p (8, 12, 1)"
    using mach_command_tables [OF cmd, of "mo_is64 ofile"] env by (simp add: object_env_def)
  then have "unat (ld_dataoff ld) + unat (ld_datasize ld) \<le> unat (me_size env)"
    using env unfolding assms(4)
    by (simp add: at object_env_def linkedit_data_command_defs get32_in_subbytes del: if_split)
  also have "\<dots> < 2 ^ 32" using unsigned_less [of "me_size env"] by simp
  finally show ?thesis .
qed

lemma accepted_segment_64_low:
  assumes "check_Mach_O e stack ofile m = Ok (info, s)" and "(p, LC_SEGMENT_64) \<in> set (object_places e ofile m)"
    and "sg = load_segment_command_64 (object_order e ofile) (subbytes p sizeof_segment_command_64 m)"
  shows "unat (sg64_fileoff sg) < 2 ^ 32"
  using assms(1,2)
proof (rule accepted_visit)
  fix env j cmdsize s1 s2
  assume env: "object_env e ofile m env" and cmd: "mach_command env j p LC_SEGMENT_64 cmdsize s1 = Ok s2"
    and same: "same_from p m (ms_object s1)"
  obtain s3 sg' where sg': "take_struct sizeof_segment_command_64 load_segment_command_64 store_segment_command_64 swap_segment_command_64 env p s1 = Ok (s3, sg')"
      "\<not> sg64_fileoff sg' > ucast (me_size env)"
    using cmd by (auto simp: mach_command_segment mach_segment_64_def bind_iffs)
  have "sg' = sg"
    using segment_command_64.struct_value [OF sg'(1)] env unfolding assms(3) subbytes_same [OF same] object_env_def by simp
  then have "unat (sg64_fileoff sg) \<le> unat (me_size env)"
    using sg'(2) by (simp add: word_less_nat_alt unat_ucast_32_64)
  also have "\<dots> < 2 ^ 32" using unsigned_less [of "me_size env"] by simp
  finally show ?thesis .
qed

section \<open>The routine never faults\<close>

lemma in_place_no_fault: "in_place name off x \<noteq> Fault"
  by (simp add: in_place_def)

lemma order_no_fault:
  "order_table name off n entsize x \<noteq> Fault"
  "linkedit_start ob \<noteq> Fault" "linkedit_start_64 ob \<noteq> Fault"
  "order_dyld_info ob x \<noteq> Fault" "order_fixups name cmd ob x \<noteq> Fault" "order_data name cmd ob x \<noteq> Fault"
  "order_symbols dy \<noteq> Fault" "order_padded name off n entsize p \<noteq> Fault" "order_modules ob dy p \<noteq> Fault"
  "order_signature ob p \<noteq> Fault" "check_hints ob \<noteq> Fault"
  by (auto simp: order_table_def linkedit_start_def linkedit_start_64_def order_dyld_info_def order_fixups_def order_data_def
      order_symbols_def order_padded_def order_modules_def order_signature_def check_hints_def in_place_no_fault bind_iffs Let_def
      split: option.splits prod.splits)

lemma order_groups_no_fault:
  "order_before ob dy x \<noteq> Fault" "order_middle ob st dy x \<noteq> Fault" "order_behind ob st dy x \<noteq> Fault"
  by (auto simp: order_before_def order_middle_def order_behind_def order_no_fault bind_iffs Let_def split: option.splits)

lemma dyld_order_no_fault: "ob_st ob \<noteq> None \<Longrightarrow> dyld_order ob dy \<noteq> Fault"
  by (auto simp: dyld_order_def order_no_fault order_groups_no_fault bind_iffs split: option.splits)

lemma symbol_string_no_fault: "symbol_string_at_end ob \<noteq> Fault"
proof -
  have parts: "end_before_signature ob st \<noteq> Fault" "strings_at_end st x ob \<noteq> Fault" "indirect_before st dy x ob \<noteq> Fault"
    "linkedit_covers ob \<noteq> Fault" for ob st dy x
    by (auto simp: end_before_signature_def strings_at_end_def indirect_before_def linkedit_covers_def bind_iffs Let_def
        split: option.splits)
  show ?thesis
    unfolding symbol_string_at_end_def
    by (auto simp: parts bind_iffs split: option.splits)
qed

lemma check_object_no_fault:
  assumes "28 \<le> length m"
    and "find_commands e (unat (get32 e m 16)) 0 (if is64 then sizeof_mach_header_64 else sizeof_mach_header)
      (new_object is64 filetype objsize pad m) \<noteq> Fault"
    and "\<And>ob dy. find_commands e (unat (get32 e m 16)) 0 (if is64 then sizeof_mach_header_64 else sizeof_mach_header)
      (new_object is64 filetype objsize pad m) = Ok ob \<Longrightarrow> ob_dyst ob = Some dy \<Longrightarrow> ob_st ob \<noteq> None"
  shows "check_object e is64 filetype objsize pad m \<noteq> Fault"
proof -
  have reads: "read_u32 e m 16 = Ok (get32 e m 16)" "read_u32 e m 24 = Ok (get32 e m 24)"
    using assms(1) by (simp_all add: read_u32_def)
  show ?thesis
    unfolding check_object_def Let_def reads bind.simps
  proof (intro bind_no_fault assms(2))
    fix ob
    assume "find_commands e (unat (get32 e m 16)) 0 (if is64 then sizeof_mach_header_64 else sizeof_mach_header)
      (new_object is64 filetype objsize pad m) = Ok ob"
    then have "dyld_order ob dy \<noteq> Fault" if "ob_dyst ob = Some dy" for dy
      using that by (intro dyld_order_no_fault assms(3))
    then show "(case ob_dyst ob of None \<Rightarrow> symbol_string_at_end ob
        | Some dy \<Rightarrow> if filetype = MH_DYLIB then dyld_order ob dy
            else if get32 e m 24 AND MH_DYLDLINK \<noteq> 0 \<or> filetype = MH_KEXT_BUNDLE then dyld_order ob dy
            else symbol_string_at_end ob) \<noteq> Fault"
      by (simp add: symbol_string_no_fault split: option.split)
  qed (simp_all add: order_no_fault)
qed

section \<open>Together\<close>

lemma unswapped_places: "\<not> mo_swapped ofile \<Longrightarrow> object_places e ofile m = command_places e m (unat (get32 e m 16)) (first_command ofile)"
  by (simp add: object_places_def)

lemma accepted_header:
  assumes "check_Mach_O e stack ofile m = Ok (info, s)"
  shows "28 \<le> length m"
  using assms
proof (rule accepted_walk)
  assume "end_of_commands e ofile m \<le> length m"
  then show ?thesis by (simp add: end_of_commands_def sizeof_mach_header_def sizeof_mach_header_64_def split: if_splits)
qed

text \<open>The search in an accepted object of the order of the host.\<close>

abbreviation object_search :: "endian \<Rightarrow> mach_ofile \<Rightarrow> u32 \<Rightarrow> u32 \<Rightarrow> u32 \<Rightarrow> bytes \<Rightarrow> object checkout" where
  "object_search e ofile filetype objsize pad m \<equiv>
     find_commands e (unat (get32 e m 16)) 0 (first_command ofile) (new_object (mo_is64 ofile) filetype objsize pad m)"

lemma accepted_search:
  assumes acc: "check_Mach_O e stack ofile m = Ok (info, s)" and own: "\<not> mo_swapped ofile"
  shows "object_search e ofile filetype objsize pad m \<noteq> Fault"
    and "object_search e ofile filetype objsize pad m = Ok ob \<Longrightarrow> ob_dyst ob = Some dy \<Longrightarrow> ob_st ob \<noteq> None"
    and "object_search e ofile filetype objsize pad m = Ok ob \<Longrightarrow> data_fits ob"
    and "object_search e ofile filetype objsize pad m = Ok ob \<Longrightarrow> ob_linkedit64 ob = Some sg \<Longrightarrow> unat (sg64_fileoff sg) < 2 ^ 32"
proof -
  let ?new = "new_object (mo_is64 ofile) filetype objsize pad m"
  let ?places = "command_places e m (unat (get32 e m 16)) (first_command ofile)"
  have places: "object_places e ofile m = ?places" using own by (rule unswapped_places)
  have order: "object_order e ofile = e" using own by simp
  have new: "ob_object ?new = m" "ob_data ?new = []" "ob_dyst ?new = None" "ob_linkedit64 ?new = None"
    by (simp_all add: new_object_def)
  show "object_search e ofile filetype objsize pad m \<noteq> Fault"
    by (rule find_commands_no_fault) (use accepted_inside [OF acc] in \<open>auto simp only: new places\<close>)
  assume "object_search e ofile filetype objsize pad m = Ok ob"
  then have found: "find_commands e (unat (get32 e m 16)) 0 (first_command ofile) ?new = Ok ob" by simp
  have source: "found_at e m (set ?places) ob"
    using find_commands_found_at [OF found] by (simp only: new)
  show "ob_st ob \<noteq> None" if "ob_dyst ob = Some dy"
  proof -
    have "LC_DYSYMTAB \<in> snd ` set ?places"
      using find_commands_dysymtab [OF found] that by (simp only: new) simp
    then have "LC_SYMTAB \<in> snd ` set ?places"
      using accepted_symtab_present [OF acc] by (simp only: places)
    then show ?thesis using find_commands_symtab [OF found] by (simp only: new) simp
  qed
  show "data_fits ob"
    using source accepted_linkedit_fits [OF acc] unfolding found_at_def data_fits_def list_all_iff places order by fast
  show "unat (sg64_fileoff sg) < 2 ^ 32" if "ob_linkedit64 ob = Some sg"
    using source that accepted_segment_64_low [OF acc] unfolding found_at_def places order by blast
qed

lemma accepted_no_fault:
  assumes "check_Mach_O e stack ofile m = Ok (info, s)" and "\<not> mo_swapped ofile"
  shows "check_object e (mo_is64 ofile) filetype objsize pad m \<noteq> Fault"
  using accepted_header [OF assms(1)] accepted_search(1,2) [OF assms] by (rule check_object_no_fault)

text \<open>
  C14.  A tool that reads an object and then changes it runs \<open>check_Mach_O\<close> and \<open>checkout\<close> one after the other.  On an
  object of the byte order of the host that the first accepts, and has left as it was, the second reads only
  inside the object and uses no symbol table that is not there, whatever type and size it is told.
\<close>

theorem accepted_checkout_runs:
  assumes "check_Mach_O e stack ofile m = Ok (info, s)" and "\<not> mo_swapped ofile"
  shows "ms_object s = m \<and> check_object e (mo_is64 ofile) filetype objsize pad (ms_object s) \<noteq> Fault"
  using accepted_object_same [OF assms] accepted_no_fault [OF assms] by simp

lemma sample_dylib_accepted: "is_ok (check_Mach_O Little (\<lambda>_ _. 0) (plain_ofile False) sample_dylib)"
  by code_simp

lemma accepted_checkout_runs_witness:
  "\<exists>info s. check_Mach_O Little (\<lambda>_ _. 0) (plain_ofile False) sample_dylib = Ok (info, s) \<and>
    check_object Little False MH_DYLIB 232 0 (ms_object s) \<noteq> Fault"
proof -
  obtain info s where ok: "check_Mach_O Little (\<lambda>_ _. 0) (plain_ofile False) sample_dylib = Ok (info, s)"
    using sample_dylib_accepted by (rule is_okE)
  have "check_object Little False MH_DYLIB 232 0 (ms_object s) \<noteq> Fault"
    using accepted_checkout_runs [OF ok, unfolded plain_ofile_simps, of MH_DYLIB 232 0] by blast
  then show ?thesis using ok by blast
qed

text \<open>
  Without a dynamic symbol table only the end of the link edit segment is looked at: the symbols, if there are any, end
  where the strings begin.
\<close>

lemma symbols_end_nat:
  "unat (symbols_end ob st) = unat (st_symoff st) + unat (st_nsyms st) * (if ob_is64 ob then 16 else 12)"
proof -
  have "unat (st_symoff st) < 4294967296" "unat (st_nsyms st) < 4294967296"
    using unsigned_less [of "st_symoff st"] unsigned_less [of "st_nsyms st"] by simp_all
  then have fits: "unat (st_symoff st) + unat (st_nsyms st) * k < 18446744073709551616" if "k \<le> 16" for k
    using that mult_le_mono2 [OF that, of "unat (st_nsyms st)"] by linarith
  show ?thesis
    using fits [of 16] fits [of 12]
    by (cases "ob_is64 ob") (simp_all add: symbols_end_def sizeof_symbol_def unat_word_ariths unat_ucast_32_64)
qed

lemma symbol_string_adjacent:
  assumes "symbol_string_at_end ob = Ok ob'" and "ob_dyst ob = None" and "ob_st ob = Some st"
    and "st_nsyms st \<noteq> 0" and "st_strsize st \<noteq> 0"
  shows "unat (st_symoff st) + unat (st_nsyms st) * (if ob_is64 ob then 16 else 12) = unat (st_stroff st)"
proof -
  obtain end_off ob1 end1 where strings: "strings_at_end st end_off ob = Ok (ob1, end1)"
    and rest: "bind (case indirect_behind ob1 st of
          Some dy \<Rightarrow> indirect_before st dy end1 ob1
        | None \<Rightarrow> bind (guard (symbols_end ob1 st = ucast end1) Symbols_not_at_end) (\<lambda>_. Ok ob1)) (\<lambda>ob.
        bind (linkedit_covers ob) (\<lambda>_. Ok ob)) = Ok ob'"
    using assms(1,3,4) by (auto simp: symbol_string_at_end_def bind_eq_Ok)
  have ob1: "end1 = st_stroff st" "ob_dyst ob1 = None" "ob_is64 ob1 = ob_is64 ob"
    using strings assms(2,5) by (auto simp: strings_at_end_def bind_iffs Let_def split: if_splits)
  then have "symbols_end ob st = ucast (st_stroff st)"
    using rest by (auto simp: indirect_behind_def bind_iffs symbols_end_def sizeof_symbol_def)
  then have "unat (symbols_end ob st) = unat (st_stroff st)" by (simp only: unat_ucast_32_64)
  then show ?thesis by (simp only: symbols_end_nat)
qed

lemma dylib_without_dysymtab:
  assumes "check_object e is64 MH_DYLIB objsize pad m = Ok ob" and "ob_dyst ob = None" and "ob_st ob = Some st"
    and "st_nsyms st \<noteq> 0" and "st_strsize st \<noteq> 0"
  shows "unat (st_symoff st) + unat (st_nsyms st) * (if is64 then 16 else 12) = unat (st_stroff st)"
proof -
  obtain n :: u32 and ob0 where search: "find_commands e (unat n) 0 (if is64 then sizeof_mach_header_64 else sizeof_mach_header)
      (new_object is64 MH_DYLIB objsize pad m) = Ok ob0"
    and rest: "(case ob_dyst ob0 of None \<Rightarrow> symbol_string_at_end ob0 | Some dy \<Rightarrow> dyld_order ob0 dy) = Ok ob"
    using assms(1) unfolding check_object_def Let_def bind_eq_Ok
    by (elim exE conjE) (rule that, assumption, simp split: option.splits)
  have is64: "ob_is64 ob0 = is64"
    using found_inD [OF find_commands_keep search] by (simp add: frame_def new_object_def)
  have "ob_dyst ob = Some dy" if "ob_dyst ob0 = Some dy" for dy
    using rest that by (auto simp: dyld_order_def bind_eq_Ok split: option.splits)
  then have none: "ob_dyst ob0 = None" using assms(2) by (cases "ob_dyst ob0") auto
  then have at_end: "symbol_string_at_end ob0 = Ok ob" using rest by simp
  show ?thesis
    using symbol_string_adjacent [OF at_end none _ assms(4,5)] symbol_string_keeps [OF at_end] assms(3) is64 by simp
qed

text \<open>
  C13.  A dynamic library of the byte order of the host that \<open>check_Mach_O\<close> accepts and \<open>checkout\<close> lets pass: if it has
  a dynamic symbol table command, then it has a symbol table command too, and the tables of the link edit segment are in
  the documented order, no two overlap and they lie inside the file; if it has none, then its symbols, if it has any and a
  string table, end where the strings begin.
\<close>

theorem accepted_dylib_in_order:
  assumes "check_Mach_O e stack ofile m = Ok (info, s)" and "\<not> mo_swapped ofile"
    and "check_object e (mo_is64 ofile) MH_DYLIB objsize pad m = Ok ob"
  shows "case ob_dyst ob of
      Some dy \<Rightarrow> (\<exists>st. ob_st ob = Some st \<and> sorted_wrt (\<lambda>p q. fst p + snd p \<le> fst q) (linkedit_parts ob st dy) \<and>
        (\<forall>p \<in> set (linkedit_parts ob st dy). fst p + snd p \<le> unat objsize))
    | None \<Rightarrow> (\<forall>st. ob_st ob = Some st \<and> st_nsyms st \<noteq> 0 \<and> st_strsize st \<noteq> 0 \<longrightarrow>
        unat (st_symoff st) + unat (st_nsyms st) * (if mo_is64 ofile then 16 else 12) = unat (st_stroff st))"
proof (cases "ob_dyst ob")
  case None
  then show ?thesis using dylib_without_dysymtab [OF assms(3) None] by simp
next
  case (Some dy)
  obtain ob0 where ob0: "dyld_order ob0 dy = Ok ob" "object_search e ofile MH_DYLIB objsize pad m = Ok ob0"
    using check_object_dylib [OF assms(3) Some] .
  obtain st pad' where st: "ob_st ob0 = Some st" and same: "ob = ob0\<lparr>ob_pad := pad'\<rparr>"
    using ob0(1) by (auto simp: dyld_order_def bind_eq_Ok split: option.splits)
  have "data_fits ob" "\<And>sg. ob_linkedit64 ob = Some sg \<Longrightarrow> unat (sg64_fileoff sg) < 2 ^ 32"
    using accepted_search(3,4) [OF assms(1,2) ob0(2)] unfolding same by (simp_all add: data_fits_def)
  then show ?thesis using dylib_linkedit_in_order [OF assms(3) Some] st Some unfolding same by simp
qed

lemma sample_found:
  "case check_object Little False MH_DYLIB 232 0 sample_dylib of
      Ok ob \<Rightarrow> (case (ob_st ob, ob_dyst ob) of (Some st, Some dy) \<Rightarrow> (216, 12) \<in> set (linkedit_parts ob st dy) | _ \<Rightarrow> False)
    | Error _ \<Rightarrow> False | Fault \<Rightarrow> False"
  by code_simp

lemma accepted_dylib_in_order_witness:
  "\<exists>ob st dy. check_object Little False MH_DYLIB 232 0 sample_dylib = Ok ob \<and> (216, 12) \<in> set (linkedit_parts ob st dy) \<and>
    sorted_wrt (\<lambda>p q. fst p + snd p \<le> fst q) (linkedit_parts ob st dy)"
proof -
  obtain info s where ok: "check_Mach_O Little (\<lambda>_ _. 0) (plain_ofile False) sample_dylib = Ok (info, s)"
    using sample_dylib_accepted by (rule is_okE)
  obtain ob st dy where ob: "check_object Little False MH_DYLIB 232 0 sample_dylib = Ok ob" "ob_st ob = Some st" "ob_dyst ob = Some dy"
      "(216, 12) \<in> set (linkedit_parts ob st dy)"
    using sample_found by (auto split: result.splits option.splits)
  then show ?thesis using accepted_dylib_in_order [OF ok, of 232 0 ob] by auto
qed

end
