(* ===== verification/Hppa.thy ===== *)
theory Hppa
  imports Cctools_Prelude
begin

text \<open>
  \<open>libstuff/hppa.c\<close>: the field selectors and the displacement fields of HP-PA instructions, which scatter
  the bits of a number over the instruction.  A shift by the width of the word or more, which is undefined
  in C, is the value \<open>None\<close>.
\<close>

unbundle bit_operations_syntax

section \<open>Field selectors\<close>

definition calc_hppa_HILO :: "u32 \<Rightarrow> u32 \<Rightarrow> u32 \<times> u32" where
  "calc_hppa_HILO base offset =
     (let rounded = (offset + 0x2000 div 2) AND NOT (0x2000 - 1)
      in ((base + rounded) AND 0xfffff800, ((base + rounded) AND 0x7ff) + (offset - rounded)))"

section \<open>Assembling displacements\<close>

definition assemble_17 :: "u32 \<Rightarrow> u32 \<Rightarrow> u32 \<Rightarrow> u32" where
  "assemble_17 x y z =
     (let temp = push_bit 16 (z AND 1) OR push_bit 11 (x AND 0x1f) OR push_bit 10 (y AND 1) OR drop_bit 1 (y AND 0x7fe)
      in if z \<noteq> 0 then temp OR 0xfffe0000 else temp)"

definition assemble_21 :: "u32 \<Rightarrow> u32" where
  "assemble_21 x =
     (push_bit 20 (x AND 1) OR push_bit 8 (x AND 0xffe) OR drop_bit 7 (x AND 0xc000) OR drop_bit 14 (x AND 0x1f0000) OR
      drop_bit 12 (x AND 0x3000)) AND 0x1fffff"

definition assemble_12 :: "u32 \<Rightarrow> u32 \<Rightarrow> u32" where
  "assemble_12 x y = (push_bit 11 (y AND 1) OR push_bit 10 (x AND 1) OR drop_bit 1 (x AND 0x7fe)) AND 0xfff"

definition assemble_3 :: "u32 \<Rightarrow> u32" where
  "assemble_3 x = (push_bit 2 (x AND 1) OR drop_bit 1 (x AND 6)) AND 7"

text \<open>The loop that shifts ones into a word.\<close>

fun ones_loop :: "nat \<Rightarrow> u32 \<Rightarrow> u32" where
  "ones_loop 0 len_ones = len_ones"
| "ones_loop (Suc n) len_ones = ones_loop n (push_bit 1 len_ones OR 1)"

definition ones :: "nat \<Rightarrow> u32" where
  "ones n = ones_loop n 0"

definition sign_ext :: "u32 \<Rightarrow> nat \<Rightarrow> u32 option" where
  "sign_ext x len =
     (let len_ones = ones_loop len 0
      in if len = 0 \<or> 32 < len then None
         else if drop_bit (len - 1) x AND 1 \<noteq> 0 then Some ((NOT 0 XOR len_ones) OR (len_ones AND x))
         else Some (len_ones AND x))"

definition low_sign_ext :: "u32 \<Rightarrow> nat \<Rightarrow> u32 option" where
  "low_sign_ext x len =
     (if len = 0 \<or> 32 < len then None
      else sign_ext (push_bit (len - 1) (x AND 1) OR drop_bit 1 ((x AND 0xfffffffe) AND ones len)) len)"

section \<open>Taking displacements apart\<close>

definition dis_assemble_21 :: "u32 \<Rightarrow> u32" where
  "dis_assemble_21 as21 =
     drop_bit 20 (as21 AND 0x100000) OR drop_bit 8 (as21 AND 0x0ffe00) OR push_bit 7 (as21 AND 0x000180) OR
     push_bit 14 (as21 AND 0x00007c) OR push_bit 12 (as21 AND 0x000003)"

definition sign_unext :: "u32 \<Rightarrow> nat \<Rightarrow> u32" where
  "sign_unext x len = x AND ones len"

text \<open>\<open>1 << (len - 1)\<close> is a shift of an \<open>int\<close>.\<close>

definition low_sign_unext :: "u32 \<Rightarrow> nat \<Rightarrow> u32 option" where
  "low_sign_unext x len =
     (if len = 0 \<or> 31 < len then None
      else
        let len_ones = ones len; one_bit_at_len = push_bit (len - 1) 1; temp = sign_unext x len;
            sign = drop_bit (len - 1) (temp AND one_bit_at_len);
            rest = push_bit 1 (temp AND (len_ones XOR one_bit_at_len))
        in Some (rest OR sign))"

definition dis_assemble_17 :: "u32 \<Rightarrow> u32 \<times> u32 \<times> u32" where
  "dis_assemble_17 as17 =
     (drop_bit 11 (as17 AND 0x0f800), drop_bit 10 (as17 AND 0x00400) OR push_bit 1 (as17 AND 0x3ff), drop_bit 16 (as17 AND 0x10000))"

definition dis_assemble_3 :: "u32 \<Rightarrow> u32" where
  "dis_assemble_3 x = (drop_bit 2 (x AND 4) OR push_bit 1 (x AND 3)) AND 7"

definition dis_assemble_12 :: "u32 \<Rightarrow> u32 \<times> u32" where
  "dis_assemble_12 as12 =
     (push_bit 1 (as12 AND 0x3ff) OR drop_bit 10 (as12 AND 0x400), drop_bit 11 (as12 AND 0x800))"

section \<open>Bits\<close>

text \<open>Two words are equal if they agree in each of the 32 bits.\<close>

lemma u32_eqI:
  fixes v w :: u32
  assumes "list_all (\<lambda>n. bit v n = bit w n) [0..<32]"
  shows "v = w"
  using assms by (intro bit_word_eqI) (simp add: list_all_iff)

lemma bit_twice: "bit (a * 2 :: u32) n \<longleftrightarrow> n < 32 \<and> 0 < n \<and> bit a (n - 1)"
  using bit_double_iff [of a n] by (auto simp: mult.commute)

lemmas each_bit = upt_rec bit_simps bit_twice

lemma assemble_21_round_trip: "assemble_21 (dis_assemble_21 as21) = as21 AND 0x1fffff"
  by (rule u32_eqI) (simp add: assemble_21_def dis_assemble_21_def each_bit, (simp add: numeral_eq_Suc)?)

lemma dis_assemble_21_round_trip: "dis_assemble_21 (assemble_21 x) = x AND 0x1fffff"
  by (rule u32_eqI) (simp add: assemble_21_def dis_assemble_21_def each_bit, (simp add: numeral_eq_Suc)?)

lemma assemble_12_round_trip: "(case dis_assemble_12 as12 of (x, y) \<Rightarrow> assemble_12 x y) = as12 AND 0xfff"
  unfolding dis_assemble_12_def prod.case
  by (rule u32_eqI) (simp add: assemble_12_def each_bit, (simp add: numeral_eq_Suc)?)

lemma assemble_3_round_trip: "assemble_3 (dis_assemble_3 x) = x AND 7"
  by (rule u32_eqI) (simp add: assemble_3_def dis_assemble_3_def each_bit, (simp add: numeral_eq_Suc)?)

lemma ones_mask: "ones n = mask n"
proof -
  have "ones_loop n (mask k) = mask (k + n)" for k
  proof (induction n arbitrary: k)
    case (Suc n)
    have "push_bit 1 (mask k) OR 1 = (mask (Suc k) :: u32)"
      by (simp add: mask_Suc_double push_bit_eq_mult or.commute mult.commute)
    then show ?case using Suc.IH [of "Suc k"] by simp
  qed simp
  from this [of 0] show ?thesis by (simp add: ones_def)
qed

lemma split_sum: "(w AND NOT m) + (w AND m) = (w :: u32)"
proof -
  have "(w AND NOT m) AND (w AND m) = 0"
    by (rule bit_word_eqI) (auto simp: bit_simps)
  then have "(w AND NOT m) + (w AND m) = (w AND NOT m) OR (w AND m)"
    by (rule disjunctive_add_eq_or)
  also have "\<dots> = w" by (rule bit_word_eqI) (auto simp: bit_simps)
  finally show ?thesis .
qed

lemma half_round: "(0x2000 div 2 :: u32) = 0x1000"
  by code_simp

lemma low_13: "0x2000 - 1 = (0x1fff :: u32)"
  by simp

lemma high_21: "(0xfffff800 :: u32) = NOT 0x7ff"
  by code_simp

lemma HILO_sum: "fst (calc_hppa_HILO base offset) + snd (calc_hppa_HILO base offset) = base + offset"
proof -
  define r where "r = (offset + 0x2000 div 2) AND NOT (0x2000 - 1)"
  have "((base + r) AND 0xfffff800) + ((base + r) AND 0x7ff) = base + r"
    unfolding high_21 by (rule split_sum)
  then show ?thesis
    unfolding calc_hppa_HILO_def Let_def r_def [symmetric] fst_conv snd_conv by (simp only: algebra_simps)
qed

lemma HILO_right:
  "snd (calc_hppa_HILO base offset) =
    (base + ((offset + 0x1000) AND NOT 0x1fff) AND 0x7ff) + ((offset + 0x1000) AND 0x1fff) - 0x1000"
proof -
  define r :: u32 where "r = (offset + 0x1000) AND NOT 0x1fff"
  define q :: u32 where "q = (offset + 0x1000) AND 0x1fff"
  have "offset + 0x1000 = r + q" using split_sum [of "offset + 0x1000" "0x1fff"] by (simp add: r_def q_def)
  then have "offset - r = q - 0x1000" by (simp add: algebra_simps)
  then show ?thesis
    unfolding calc_hppa_HILO_def Let_def half_round low_13 snd_conv
    unfolding r_def [symmetric] q_def [symmetric] by simp
qed

lemma sign_ext_signed:
  assumes len: "0 < len" "len \<le> 32"
  shows "sign_ext x len = Some (signed_take_bit (len - 1) x)"
proof -
  have ones: "ones_loop len 0 = mask len" using ones_mask [of len] by (simp add: ones_def)
  have sign: "drop_bit (len - 1) x AND 1 \<noteq> 0 \<longleftrightarrow> bit x (len - 1)"
    by (simp add: and_one_eq bit_iff_odd_drop_bit odd_iff_mod_2_eq_one)
  have "signed_take_bit (len - 1) x =
      (if bit x (len - 1) then (NOT 0 XOR mask len) OR (mask len AND x) else mask len AND x)"
  proof (rule bit_word_eqI)
    fix n assume n: "n < LENGTH(32)"
    show "bit (signed_take_bit (len - 1) x) n =
        bit (if bit x (len - 1) then (NOT 0 XOR mask len) OR (mask len AND x) else mask len AND x) n"
      using len n by (cases "n < len - 1"; cases "n = len - 1") (auto simp: bit_simps)
  qed
  then show ?thesis using len unfolding sign_ext_def ones Let_def sign by simp
qed

lemma signed_sub:
  assumes "v \<le> 0x27fe"
  shows "sint (v - 0x1000 :: u32) = uint v - 0x1000"
proof -
  have v: "uint v \<le> 0x27fe" using assms by (simp add: word_le_def)
  have "sint (v - 0x1000) = signed_take_bit 31 (uint v - 0x1000)"
    using signed_take_bit_take_bit [of 31 32 "uint v - 0x1000"]
    by (simp add: sint_uint uint_word_ariths take_bit_eq_mod)
  also have "\<dots> = uint v - 0x1000" using v by (intro signed_take_bit_int_eq_self) auto
  finally show ?thesis .
qed

lemma HILO_parts:
  obtains p q :: u32 where "snd (calc_hppa_HILO base offset) = p + q - 0x1000" "p \<le> 0x7ff" "q \<le> 0x1fff"
proof
  show "snd (calc_hppa_HILO base offset) =
      (base + ((offset + 0x1000) AND NOT 0x1fff) AND 0x7ff) + ((offset + 0x1000) AND 0x1fff) - 0x1000"
    by (rule HILO_right)
qed (simp_all add: word_and_le1)

lemma HILO_right_fits:
  "- 0x1000 \<le> sint (snd (calc_hppa_HILO base offset))" "sint (snd (calc_hppa_HILO base offset)) < 0x17ff"
proof -
  obtain p q :: u32 where s: "snd (calc_hppa_HILO base offset) = p + q - 0x1000" and "p \<le> 0x7ff" "q \<le> 0x1fff"
    by (rule HILO_parts)
  then have "unat p \<le> 0x7ff" "unat q \<le> 0x1fff" by (simp_all add: word_le_nat_alt)
  then have "p + q \<le> 0x27fe" by (simp add: word_le_nat_alt unat_word_ariths)
  moreover have "uint (p + q) \<le> 0x27fe" using calculation by (simp add: word_le_def)
  ultimately show "- 0x1000 \<le> sint (snd (calc_hppa_HILO base offset))"
      "sint (snd (calc_hppa_HILO base offset)) < 0x17ff"
    by (simp_all add: s signed_sub)
qed

lemma HILO_left: "fst (calc_hppa_HILO base offset) AND 0x7ff = 0"
  unfolding calc_hppa_HILO_def Let_def fst_conv high_21 by (rule bit_word_eqI) (auto simp: bit_simps)

text \<open>
  C19.  The halves a left/right pair of relocations carries: the two add up to the address, the left half has
  its low 11 bits free for the right half of the instruction pair, and the right half fits the signed 14-bit
  field of the second instruction, for every base and offset.
\<close>

theorem calc_hppa_HILO_exact:
  "fst (calc_hppa_HILO base offset) + snd (calc_hppa_HILO base offset) = base + offset \<and>
   fst (calc_hppa_HILO base offset) AND 0x7ff = 0 \<and>
   sint (snd (calc_hppa_HILO base offset)) \<in> {- 0x1000..<0x17ff}"
  using HILO_sum HILO_left HILO_right_fits by simp

section \<open>Displacements there and back\<close>

lemma assemble_17_signed: "(case dis_assemble_17 as17 of (x, y, z) \<Rightarrow> assemble_17 x y z) = signed_take_bit 16 as17"
  unfolding dis_assemble_17_def prod.case
proof (rule u32_eqI)
  have z: "drop_bit 16 (as17 AND 0x10000) = of_bool (bit as17 16)"
    by (rule u32_eqI) (simp add: each_bit, (simp add: numeral_eq_Suc)?)
  show "list_all (\<lambda>n. bit (assemble_17 (drop_bit 11 (as17 AND 0x0f800))
      (drop_bit 10 (as17 AND 0x00400) OR push_bit 1 (as17 AND 0x3ff)) (drop_bit 16 (as17 AND 0x10000))) n =
      bit (signed_take_bit 16 as17) n) [0..<32]"
    unfolding z assemble_17_def Let_def
    by (cases "bit as17 16") (simp add: each_bit, (simp add: numeral_eq_Suc)?)+
qed

lemma all_but_one: "(0xfffffffe :: u32) = NOT 1"
  by code_simp

lemma bit_low_31: "bit (0x7fffffff :: int) n \<longleftrightarrow> n < 31"
proof -
  have "(0x7fffffff :: int) = mask 31" by (simp add: mask_eq_exp_minus_1)
  then show ?thesis by (simp only: bit_mask_iff) simp
qed

lemma bit_one_at: "bit (push_bit k (1 :: u32)) n \<longleftrightarrow> n < 32 \<and> n = k"
  by (auto simp: bit_push_bit_iff bit_1_iff simp del: push_bit_of_1)

lemma low_sign_round_trip:
  assumes len: "0 < len" "len \<le> 31"
  shows "Option.bind (low_sign_unext x len) (\<lambda>y. low_sign_ext y len) = Some (signed_take_bit (len - 1) x)"
proof -
  define y where "y = push_bit 1 ((x AND mask len) AND (mask len XOR push_bit (len - 1) 1)) OR
    drop_bit (len - 1) ((x AND mask len) AND push_bit (len - 1) 1)"
  define w where "w = push_bit (len - 1) (y AND 1) OR drop_bit 1 ((y AND 0xfffffffe) AND mask len)"
  have "low_sign_unext x len = Some y"
    using len unfolding low_sign_unext_def Let_def sign_unext_def ones_mask y_def by simp
  moreover have "low_sign_ext y len = Some (signed_take_bit (len - 1) w)"
    using len unfolding low_sign_ext_def ones_mask w_def by (simp only: sign_ext_signed) simp
  moreover have w: "bit w n = bit x n" if "n \<le> len - 1" for n
  proof -
    have y: "bit y (Suc n) = bit x n" if "n < len - 1" for n
      using that len unfolding y_def by (auto simp: bit_simps bit_twice bit_one_at simp del: push_bit_of_1)
    have y0: "bit y 0 = bit x (len - 1)"
      using len unfolding y_def by (auto simp: bit_simps bit_twice bit_one_at simp del: push_bit_of_1)
    show ?thesis
      using that len y [of n] y0 unfolding w_def all_but_one
      by (cases "n = len - 1") (auto simp: bit_simps bit_low_31)
  qed
  moreover have "signed_take_bit (len - 1) w = signed_take_bit (len - 1) x"
    by (rule bit_word_eqI) (simp add: bit_signed_take_bit_iff w min_def)
  ultimately show ?thesis by simp
qed

text \<open>
  C18.  Every displacement survives being taken apart into the fields of an instruction and assembled again:
  the 3-, 12- and 21-bit fields give back the low bits of the number, the 17-bit and the low-sign fields
  (1 to 31 bits) give it back sign-extended.
\<close>

theorem displacement_round_trips:
  "assemble_3 (dis_assemble_3 x) = x AND 7 \<and>
   (case dis_assemble_12 x of (w1, w) \<Rightarrow> assemble_12 w1 w) = x AND 0xfff \<and>
   (case dis_assemble_17 x of (w1, w2, w) \<Rightarrow> assemble_17 w1 w2 w) = signed_take_bit 16 x \<and>
   assemble_21 (dis_assemble_21 x) = x AND 0x1fffff \<and>
   (\<forall>len \<in> {1..31}. Option.bind (low_sign_unext x len) (\<lambda>y. low_sign_ext y len) = Some (signed_take_bit (len - 1) x))"
  using assemble_3_round_trip assemble_12_round_trip assemble_17_signed assemble_21_round_trip low_sign_round_trip
  by simp

text \<open>The last conjunct at the 14-bit displacement -4.\<close>

lemma displacement_round_trips_witness:
  "(14 :: nat) \<in> {1..31} \<and>
   Option.bind (low_sign_unext 0xfffffffc 14) (\<lambda>y. low_sign_ext y 14) = Some (signed_take_bit 13 0xfffffffc) \<and>
   low_sign_unext 0xfffffffc 14 = Some 0x3ff9"
proof -
  have len: "(14 :: nat) \<in> {1..31}" by simp
  have "\<forall>len \<in> {1..31}. Option.bind (low_sign_unext 0xfffffffc len) (\<lambda>y. low_sign_ext y len) =
      Some (signed_take_bit (len - 1) 0xfffffffc)"
    using displacement_round_trips [of "0xfffffffc"] by blast
  note bspec [OF this len]
  moreover have "low_sign_unext 0xfffffffc 14 = Some 0x3ff9" by code_simp
  moreover have "(14 :: nat) - 1 = 13" by simp
  ultimately show ?thesis using len by metis
qed

end
