(* ===== verification/Short_Name.thy ===== *)
theory Short_Name
  imports Outcomes
begin

text \<open>
  \<open>libstuff/guess_short_name.c\<close>: the short name of a dynamic library, from the name of its file.  A pointer into
  the name is an index; the name is without its final null character.  \<open>Fault\<close> is an access outside the name or
  outside what has been allocated.
\<close>

section \<open>Looking for characters\<close>

text \<open>The last \<open>c\<close> before the index \<open>p\<close>.\<close>

fun look_back :: "char \<Rightarrow> string \<Rightarrow> nat \<Rightarrow> nat option" where
  "look_back c name 0 = None"
| "look_back c name (Suc p) = (if name ! p = c then Some p else look_back c name p)"

definition look_back_for_slash :: "string \<Rightarrow> nat \<Rightarrow> nat option" where
  "look_back_for_slash name p = look_back (CHR ''/'') name p"

definition strrchr_at :: "string \<Rightarrow> char \<Rightarrow> nat option" where
  "strrchr_at s c = look_back c s (length s)"

fun strchr_at :: "string \<Rightarrow> char \<Rightarrow> nat option" where
  "strchr_at [] c = None"
| "strchr_at (x # s) c = (if x = c then Some 0 else map_option Suc (strchr_at s c))"

text \<open>\<open>strncmp\<close> with a literal of \<open>n\<close> characters.\<close>

definition starts_with :: "string \<Rightarrow> string \<Rightarrow> bool" where
  "starts_with word s \<longleftrightarrow> take (length word) s = word"

section \<open>Guessing\<close>

text \<open>The guess, whether it is a framework, and the suffix.\<close>

type_synonym short_name = "string option \<times> bool \<times> string option"

text \<open>The suffixes that are taken off; others are part of the name.\<close>

definition known_suffix :: "string \<Rightarrow> bool" where
  "known_suffix s \<longleftrightarrow> starts_with ''_debug'' s \<or> starts_with ''_profile'' s"

definition split_suffix :: "string \<Rightarrow> nat \<times> string option" where
  "split_suffix foo =
     (case strrchr_at foo (CHR ''_'') of
        None \<Rightarrow> (length foo, None)
      | Some i \<Rightarrow>
          let suffix = drop i foo; s = length suffix
          in if i = 0 \<or> s < 2 then (length foo, None)
             else if \<not> known_suffix suffix then (length foo, None)
             else (length foo - s, Some suffix))"

definition framework_at :: "string \<Rightarrow> string \<Rightarrow> nat \<Rightarrow> nat \<Rightarrow> bool" where
  "framework_at name foo l p \<longleftrightarrow> take l (drop p name) = take l foo \<and> starts_with ''.framework/'' (drop (p + l) name)"

text \<open>
  The name of a file \<open>Foo.qtx\<close> is copied to \<open>l + 1\<close> bytes, and the null character is written behind them.
\<close>

definition guess_qtx :: "string \<Rightarrow> string option \<Rightarrow> (unit, short_name) result" where
  "guess_qtx name suffix =
     (case strrchr_at name (CHR ''.'') of
        None \<Rightarrow> Fault
      | Some a \<Rightarrow>
          if drop a name \<noteq> ''.qtx'' then Ok (None, False, suffix)
          else case look_back_for_slash name a of
                 Some 0 \<Rightarrow> Ok (None, False, suffix)
               | _ \<Rightarrow> Fault)"

text \<open>
  What stands between \<open>p\<close> and \<open>a\<close>, without a known suffix at \<open>c\<close> and a version letter before the suffix.
\<close>

definition library_part :: "string \<Rightarrow> nat \<Rightarrow> nat \<Rightarrow> nat option \<Rightarrow> string option \<Rightarrow> (unit, short_name) result" where
  "library_part name p a c suffix =
     (let guess = (\<lambda>l. take (if 3 \<le> l \<and> name ! (p + l - 2) = CHR ''.'' then l - 2 else l) (drop p name))
      in case c of
           Some i \<Rightarrow>
             if i \<noteq> 0 \<and> known_suffix (drop (p + i) name) then
               if CHR ''.'' \<in> set (drop (p + i) name)
               then Ok (Some (guess i), False, Some (takeWhile (\<lambda>x. x \<noteq> CHR ''.'') (drop (p + i) name)))
               else Fault
             else Ok (Some (guess (a - p)), False, suffix)
         | None \<Rightarrow> Ok (Some (guess (a - p)), False, suffix))"

definition guess_library :: "string \<Rightarrow> string option \<Rightarrow> (unit, short_name) result" where
  "guess_library name suffix =
     (case strrchr_at name (CHR ''.'') of
        None \<Rightarrow> Ok (None, False, suffix)
      | Some a \<Rightarrow>
          if a = 0 then Ok (None, False, suffix)
          else if drop a name \<noteq> ''.dylib'' then guess_qtx name suffix
          else
            let a = (if 3 \<le> a \<and> name ! (a - 2) = CHR ''.'' then a - 2 else a)
            in case look_back_for_slash name a of
                 None \<Rightarrow> library_part name 0 a (strchr_at name (CHR ''_'')) suffix
               | Some b \<Rightarrow>
                   if b = 0 then Ok (None, False, suffix)
                   else library_part name (b + 1) a (strrchr_at (drop (b + 1) name) (CHR ''_'')) suffix)"

definition guess_framework :: "string \<Rightarrow> string \<Rightarrow> nat \<Rightarrow> nat \<Rightarrow> string option \<Rightarrow> (unit, short_name) result" where
  "guess_framework name foo l p suffix =
     (if framework_at name foo l p then Ok (Some (take l (drop p name)), True, suffix) else guess_library name suffix)"

text \<open>The forms \<open>Foo.framework/Foo\<close> and \<open>Foo.framework/Versions/A/Foo\<close>, from the last slash backwards.\<close>

definition guess_short_name :: "string \<Rightarrow> (unit, short_name) result" where
  "guess_short_name name =
     (case strrchr_at name (CHR ''/'') of
        None \<Rightarrow> guess_library name None
      | Some a \<Rightarrow>
          if a = 0 then guess_library name None
          else
            let foo = drop (a + 1) name; (l, suffix) = split_suffix foo
            in case look_back_for_slash name a of
                 None \<Rightarrow> guess_framework name foo l 0 suffix
               | Some b \<Rightarrow>
                   if framework_at name foo l (b + 1) then Ok (Some (take l (drop (b + 1) name)), True, suffix)
                   else if b = 0 then guess_library name suffix
                   else case look_back_for_slash name b of
                          None \<Rightarrow> guess_library name suffix
                        | Some c \<Rightarrow>
                            if c = 0 \<or> \<not> starts_with ''Versions/'' (drop (c + 1) name) then guess_library name suffix
                            else case look_back_for_slash name c of
                                   None \<Rightarrow> guess_framework name foo l 0 suffix
                                 | Some d \<Rightarrow> guess_framework name foo l (d + 1) suffix)"

section \<open>What the search finds\<close>

lemma look_back_none: "c \<notin> set u \<Longrightarrow> p = length u \<Longrightarrow> look_back c (u @ w) p = None"
proof (induction u arbitrary: p w rule: rev_induct)
  case (snoc x u)
  then have "look_back c (u @ x # w) (length u) = None" by simp
  then show ?case using snoc.prems by (auto simp: nth_append)
qed simp

lemma look_back_at: "c \<notin> set v \<Longrightarrow> p = length u + Suc (length v) \<Longrightarrow> look_back c (u @ c # v @ w) p = Some (length u)"
proof (induction v arbitrary: p w rule: rev_induct)
  case (snoc x v)
  then have "look_back c (u @ c # v @ x # w) (length u + Suc (length v)) = Some (length u)" by simp
  then show ?case using snoc.prems by (auto simp: nth_append)
qed (simp add: nth_append)

lemma strrchr_at: "c \<notin> set v \<Longrightarrow> strrchr_at (u @ c # v) c = Some (length u)"
  using look_back_at [of c v _ u "[]"] by (simp add: strrchr_at_def)

lemma strrchr_none: "c \<notin> set u \<Longrightarrow> strrchr_at u c = None"
  using look_back_none [of c u _ "[]"] by (simp add: strrchr_at_def)

section \<open>Frameworks\<close>

text \<open>A directory, as the first part of a path.\<close>

definition directory :: "string \<Rightarrow> bool" where
  "directory dir \<longleftrightarrow> dir = [] \<or> last dir = CHR ''/''"

lemma split_known:
  assumes "Foo \<noteq> []" and "CHR ''_'' \<notin> set (tl sfx)" and "known_suffix sfx"
  shows "split_suffix (Foo @ sfx) = (length Foo, Some sfx)"
proof -
  obtain v where v: "sfx = CHR ''_'' # v"
    using assms(3) by (cases sfx) (auto simp: known_suffix_def starts_with_def)
  have "2 \<le> length sfx" using assms(3) by (auto simp: known_suffix_def starts_with_def dest: arg_cong [where f = length])
  then show ?thesis
    using assms strrchr_at [of "CHR ''_''" v Foo] v by (auto simp: split_suffix_def Let_def)
qed

definition no_known_suffix :: "string \<Rightarrow> bool" where
  "no_known_suffix Foo \<longleftrightarrow> list_all (\<lambda>i. \<not> known_suffix (drop i Foo)) [0..<length Foo]"

lemma strrchr_inside: "strrchr_at s c = Some i \<Longrightarrow> i < length s"
proof -
  have "look_back c s p = Some i \<Longrightarrow> i < p" for p
    by (induction p) (auto split: if_splits)
  then show "strrchr_at s c = Some i \<Longrightarrow> i < length s" by (simp add: strrchr_at_def)
qed

lemma split_unknown: "no_known_suffix Foo \<Longrightarrow> split_suffix Foo = (length Foo, None)"
  by (auto simp: split_suffix_def no_known_suffix_def list_all_iff Let_def split: option.split dest: strrchr_inside)

text \<open>The suffixes that are allowed behind the name of a framework.\<close>

definition suffix_of :: "string \<Rightarrow> string \<Rightarrow> bool" where
  "suffix_of Foo sfx \<longleftrightarrow> sfx = [] \<and> no_known_suffix Foo \<or> known_suffix sfx \<and> CHR ''_'' \<notin> set (tl sfx)"

lemma split_suffix_of:
  assumes "Foo \<noteq> []" and "suffix_of Foo sfx"
  shows "split_suffix (Foo @ sfx) = (length Foo, if sfx = [] then None else Some sfx)"
proof -
  have "sfx \<noteq> []" if "known_suffix sfx" using that by (auto simp: known_suffix_def starts_with_def)
  then show ?thesis using assms split_known split_unknown by (auto simp: suffix_of_def)
qed

lemma framework_at_name:
  "framework_at (dir @ Foo @ ''.framework/'' @ w) (Foo @ sfx) (length Foo) (length dir)"
  by (simp add: framework_at_def starts_with_def)

lemma framework_at_take: "framework_at name (Foo @ sfx) (length Foo) p \<Longrightarrow> take (length Foo) (drop p name) = Foo"
  by (simp add: framework_at_def)

lemma slash_last: "CHR ''/'' \<notin> set v \<Longrightarrow> strrchr_at (u @ ''/'' @ v) (CHR ''/'') = Some (length u)"
  using strrchr_at [of "CHR ''/''" v u] by simp

lemma slash_back:
  "CHR ''/'' \<notin> set v \<Longrightarrow> p = length u + Suc (length v) \<Longrightarrow> look_back_for_slash (u @ ''/'' @ v @ w) p = Some (length u)"
  using look_back_at [of "CHR ''/''" v p u w] by (simp add: look_back_for_slash_def)

lemma slash_none: "CHR ''/'' \<notin> set u \<Longrightarrow> p = length u \<Longrightarrow> look_back_for_slash (u @ w) p = None"
  using look_back_none [of "CHR ''/''" u p w] by (simp add: look_back_for_slash_def)

text \<open>The slash before a part of the path is the end of the directory.\<close>

lemma slash_directory:
  assumes "directory dir" and "CHR ''/'' \<notin> set v" and "p = length dir + length v"
  shows "look_back_for_slash (dir @ v @ w) p = (if dir = [] then None else Some (length dir - 1))"
proof (cases dir rule: rev_cases)
  case Nil
  then show ?thesis using slash_none [of v p w] assms by simp
next
  case (snoc u c)
  then show ?thesis using slash_back [of v p u w] assms by (simp add: directory_def)
qed

lemma guess_framework_name:
  assumes "framework_at name (Foo @ sfx) (length Foo) p"
  shows "guess_framework name (Foo @ sfx) (length Foo) p s = Ok (Some Foo, True, s)"
  using assms framework_at_take [OF assms] by (simp add: guess_framework_def)

lemma short_framework:
  assumes "directory dir" and "Foo \<noteq> []" and "CHR ''/'' \<notin> set Foo \<union> set sfx" and "suffix_of Foo sfx"
  shows "guess_short_name (dir @ Foo @ ''.framework/'' @ Foo @ sfx) = Ok (Some Foo, True, if sfx = [] then None else Some sfx)"
proof -
  let ?name = "dir @ Foo @ ''.framework/'' @ Foo @ sfx"
  have a: "strrchr_at ?name (CHR ''/'') = Some (length dir + length Foo + 10)"
    using slash_last [of "Foo @ sfx" "dir @ Foo @ ''.framework''"] assms(3) by simp
  have b: "look_back_for_slash ?name (length dir + length Foo + 10) = (if dir = [] then None else Some (length dir - 1))"
    using slash_directory [of dir "Foo @ ''.framework''" "length dir + length Foo + 10" "''/'' @ Foo @ sfx"] assms(1,3) by simp
  have foo: "drop (length dir + length Foo + 10 + 1) ?name = Foo @ sfx" by simp
  have at: "framework_at ?name (Foo @ sfx) (length Foo) (length dir)" using framework_at_name [of dir Foo "Foo @ sfx" sfx] by simp
  show ?thesis
    unfolding guess_short_name_def a option.case foo split_suffix_of [OF assms(2,4)] Let_def prod.case b
    using at guess_framework_name [OF at] by (cases "dir = []") (simp_all add: framework_at_take)
qed

lemma drop_part: "n = length u \<Longrightarrow> drop n (u @ v) = v"
  by simp

lemma versions_framework:
  assumes "directory dir" and "Foo \<noteq> []" and "CHR ''/'' \<notin> set Foo \<union> set A \<union> set sfx" and "suffix_of Foo sfx"
  shows "guess_short_name (dir @ Foo @ ''.framework/Versions/'' @ A @ ''/'' @ Foo @ sfx) =
    Ok (Some Foo, True, if sfx = [] then None else Some sfx)"
proof -
  let ?name = "dir @ Foo @ ''.framework/Versions/'' @ A @ ''/'' @ Foo @ sfx" and ?n = "length dir + length Foo"
  have a: "strrchr_at ?name (CHR ''/'') = Some (?n + 20 + length A)"
    using slash_last [of "Foo @ sfx" "dir @ Foo @ ''.framework/Versions/'' @ A"] assms(3) by simp
  have b: "look_back_for_slash ?name (?n + 20 + length A) = Some (?n + 19)"
    using slash_back [of A "?n + 20 + length A" "dir @ Foo @ ''.framework/Versions''" "''/'' @ Foo @ sfx"] assms(3) by simp
  have c: "look_back_for_slash ?name (?n + 19) = Some (?n + 10)"
    using slash_back [of "''Versions''" "?n + 19" "dir @ Foo @ ''.framework''" "''/'' @ A @ ''/'' @ Foo @ sfx"] assms(3) by simp
  have d: "look_back_for_slash ?name (?n + 10) = (if dir = [] then None else Some (length dir - 1))"
    using slash_directory [of dir "Foo @ ''.framework''" "?n + 10" "''/Versions/'' @ A @ ''/'' @ Foo @ sfx"] assms(1,3) by simp
  have foo: "drop (?n + 20 + length A + 1) ?name = Foo @ sfx"
    using drop_part [of "?n + 20 + length A + 1" "dir @ Foo @ ''.framework/Versions/'' @ A @ ''/''" "Foo @ sfx"] by simp
  have versions: "starts_with ''Versions/'' (drop (?n + 10 + 1) ?name)" by (simp add: starts_with_def)
  have at: "framework_at ?name (Foo @ sfx) (length Foo) (length dir)"
    using framework_at_name [of dir Foo "''Versions/'' @ A @ ''/'' @ Foo @ sfx" sfx] by simp
  show ?thesis
    unfolding guess_short_name_def a option.case foo split_suffix_of [OF assms(2,4)] Let_def prod.case b c d
    using at versions guess_framework_name [OF at] framework_at_take [of ?name Foo sfx "?n + 19 + 1"]
    by (cases "dir = []") simp_all
qed

text \<open>
  C15.  The two forms of a framework give its name and its suffix, wherever the framework is, whatever the version
  is called and also if the name has an underbar that begins no known suffix.
\<close>

theorem framework_short_name:
  assumes "directory dir" and "Foo \<noteq> []" and "CHR ''/'' \<notin> set Foo \<union> set A \<union> set sfx" and "suffix_of Foo sfx"
  shows "guess_short_name (dir @ Foo @ ''.framework/Versions/'' @ A @ ''/'' @ Foo @ sfx) =
      Ok (Some Foo, True, if sfx = [] then None else Some sfx) \<and>
    guess_short_name (dir @ Foo @ ''.framework/'' @ Foo @ sfx) = Ok (Some Foo, True, if sfx = [] then None else Some sfx)"
  using versions_framework [OF assms] short_framework [OF assms(1,2) _ assms(4)] assms(3) by blast

lemma framework_short_name_witness:
  "directory ''/Library/'' \<and> suffix_of ''My_Kit'' ''_debug'' \<and>
   guess_short_name ''/Library/My_Kit.framework/Versions/A/My_Kit_debug'' = Ok (Some ''My_Kit'', True, Some ''_debug'')"
proof -
  have "directory ''/Library/''" "suffix_of ''My_Kit'' ''_debug''" by code_simp+
  then show ?thesis using framework_short_name [of "''/Library/''" "''My_Kit''" "''A''" "''_debug''"] by simp
qed

section \<open>Libraries\<close>

lemma strchr_none: "c \<notin> set s \<Longrightarrow> strchr_at s c = None"
  by (induction s) auto

lemma dot_last: "strrchr_at (u @ ''.dylib'') (CHR ''.'') = Some (length u)"
  using strrchr_at [of "CHR ''.''" "''dylib''" u] by simp

text \<open>
  The name of a library: a stem without a dot, a slash or an underbar, one of the two suffixes or none, and a
  version letter or none.
\<close>

definition library_suffix :: "string \<Rightarrow> bool" where
  "library_suffix sfx \<longleftrightarrow> sfx \<in> {[], ''_debug'', ''_profile''}"

definition version_letter :: "string \<Rightarrow> bool" where
  "version_letter v \<longleftrightarrow> v = [] \<or> length v = 2 \<and> hd v = CHR ''.'' \<and> last v \<notin> {CHR ''/'', CHR ''.'', CHR ''_''}"

definition library_stem :: "string \<Rightarrow> bool" where
  "library_stem lib \<longleftrightarrow> lib \<noteq> [] \<and> CHR ''/'' \<notin> set lib \<and> CHR ''.'' \<notin> set lib \<and> CHR ''_'' \<notin> set lib"

lemma version_letterE:
  assumes "version_letter v"
  obtains "v = []" | A where "v = [CHR ''.'', A]" "A \<noteq> CHR ''/''" "A \<noteq> CHR ''.''" "A \<noteq> CHR ''_''"
  using assms by (auto simp: version_letter_def length_Suc_conv numeral_2_eq_2)

lemma nth_part: "i < length u \<Longrightarrow> (dir @ u @ w) ! (length dir + i) = u ! i"
  by (simp add: nth_append)

lemma strchr_at_first: "c \<notin> set u \<Longrightarrow> strchr_at (u @ c # v) c = Some (length u)"
  by (induction u) auto

lemma no_dot: "library_stem lib \<Longrightarrow> i < length lib \<Longrightarrow> lib ! i \<noteq> CHR ''.''"
  unfolding library_stem_def by (metis nth_mem)

text \<open>What is before the suffix is the guess.\<close>

lemma library_part_stem:
  assumes "library_stem lib" and "library_suffix sfx" and "version_letter v" and "p = length dir"
    and "c = (if sfx = [] then None else Some (length lib))" and "a = p + length lib + length sfx"
  shows "library_part (dir @ lib @ sfx @ v @ ''.dylib'') p a c s = Ok (Some lib, False, if sfx = [] then s else Some sfx)"
proof -
  let ?name = "dir @ lib @ sfx @ v @ ''.dylib''"
  have "?name ! (p + length lib - 2) = lib ! (length lib - 2)" if "3 \<le> length lib"
    using that assms(4) nth_part [of "length lib - 2" lib dir] by simp
  then have "?name ! (p + length lib - 2) \<noteq> CHR ''.''" if "3 \<le> length lib"
    using that no_dot [OF assms(1), of "length lib - 2"] by simp
  then have guess: "take (if 3 \<le> length lib \<and> ?name ! (p + length lib - 2) = CHR ''.'' then length lib - 2 else length lib) (drop p ?name) = lib"
    using assms(4) by auto
  have behind: "drop (p + length lib) ?name = sfx @ v @ ''.dylib''" using assms(4) by simp
  have dot: "takeWhile (\<lambda>x. x \<noteq> CHR ''.'') (sfx @ v @ ''.dylib'') = sfx" "CHR ''.'' \<in> set (sfx @ v @ ''.dylib'')"
    using assms(2,3) by (auto simp: library_suffix_def elim!: version_letterE)
  have known: "sfx \<noteq> [] \<longrightarrow> known_suffix (sfx @ v @ ''.dylib'')"
    using assms(2) by (auto simp: known_suffix_def starts_with_def library_suffix_def)
  show ?thesis
  proof (cases "sfx = []")
    case True
    then show ?thesis using guess assms(5,6) by (simp add: library_part_def Let_def)
  next
    case False
    then have c: "c = Some (length lib)" and known: "known_suffix (sfx @ v @ ''.dylib'')" using assms(5) known by simp_all
    have "length lib \<noteq> 0" using assms(1) by (simp add: library_stem_def)
    then show ?thesis
      unfolding library_part_def Let_def c option.case behind
      by (simp only: False known dot guess if_True if_False simp_thms not_False_eq_True)
  qed
qed

lemma strrchr_underbar:
  assumes "library_stem lib" and "library_suffix sfx" and "version_letter v"
  shows "strrchr_at (lib @ sfx @ v @ ''.dylib'') (CHR ''_'') = (if sfx = [] then None else Some (length lib))"
    and "strchr_at (lib @ sfx @ v @ ''.dylib'') (CHR ''_'') = (if sfx = [] then None else Some (length lib))"
proof -
  have lib: "CHR ''_'' \<notin> set lib" using assms(1) by (simp add: library_stem_def)
  show "strrchr_at (lib @ sfx @ v @ ''.dylib'') (CHR ''_'') = (if sfx = [] then None else Some (length lib))"
  proof (cases "sfx = []")
    case True
    then show ?thesis
      using lib assms(3) strrchr_none [of "CHR ''_''" "lib @ v @ ''.dylib''"] by (auto elim!: version_letterE)
  next
    case False
    then show ?thesis
      using assms(2,3) strrchr_at [of "CHR ''_''" "tl sfx @ v @ ''.dylib''" lib]
      by (auto simp: library_suffix_def elim!: version_letterE)
  qed
  show "strchr_at (lib @ sfx @ v @ ''.dylib'') (CHR ''_'') = (if sfx = [] then None else Some (length lib))"
  proof (cases "sfx = []")
    case True
    then show ?thesis
      using lib assms(3) strchr_none [of "CHR ''_''" "lib @ v @ ''.dylib''"] by (auto elim!: version_letterE)
  next
    case False
    then show ?thesis
      using assms(2) lib strchr_at_first [of "CHR ''_''" lib "tl sfx @ v @ ''.dylib''"]
      by (auto simp: library_suffix_def)
  qed
qed

text \<open>The version letter is taken off, and nothing is taken for one that is not.\<close>

lemma not_version_letter:
  assumes "directory dir" and "library_stem lib" and "library_suffix sfx" and "3 \<le> length dir + length lib + length sfx"
  shows "(dir @ lib @ sfx @ w) ! (length dir + length lib + length sfx - 2) \<noteq> CHR ''.''"
proof -
  have lib: "lib \<noteq> []" using assms(2) by (simp add: library_stem_def)
  consider "sfx \<noteq> []" | "sfx = []" "2 \<le> length lib" | "sfx = []" "length lib = 1"
    using lib by (cases lib) (auto simp: Suc_le_eq)
  then show ?thesis
  proof cases
    case 1
    then show ?thesis
      using assms(3) nth_part [of "length sfx - 2" sfx "dir @ lib" w] by (auto simp: library_suffix_def)
  next
    case 2
    then show ?thesis
      using nth_part [of "length lib - 2" lib dir w] no_dot [OF assms(2), of "length lib - 2"] by simp
  next
    case 3
    then obtain u where "dir = u @ ''/''"
      using assms(1,4) by (cases dir rule: rev_cases) (auto simp: directory_def)
    then show ?thesis using 3 by (simp add: nth_append)
  qed
qed

lemma guess_library_name:
  assumes "directory dir" and "dir \<noteq> ''/''" and "library_stem lib" and "library_suffix sfx" and "version_letter v"
  shows "guess_library (dir @ lib @ sfx @ v @ ''.dylib'') s = Ok (Some lib, False, if sfx = [] then s else Some sfx)"
proof -
  let ?name = "dir @ lib @ sfx @ v @ ''.dylib''" and ?a = "length dir + length lib + length sfx"
  have dot: "strrchr_at ?name (CHR ''.'') = Some (?a + length v)"
    using dot_last [of "dir @ lib @ sfx @ v"] by (simp add: add.assoc)
  have ends: "drop (?a + length v) ?name = ''.dylib''"
    using drop_part [of "?a + length v" "dir @ lib @ sfx @ v" "''.dylib''"] by simp
  have "?a + length v \<noteq> 0" using assms(3) by (auto simp: library_stem_def)
  have letter: "(if 3 \<le> ?a + length v \<and> ?name ! (?a + length v - 2) = CHR ''.'' then ?a + length v - 2 else ?a + length v) = ?a"
    using assms(5)
  proof (rule version_letterE)
    assume "v = []"
    then show ?thesis using not_version_letter [OF assms(1,3,4), of "''.dylib''"] by auto
  next
    fix A assume v: "v = [CHR ''.'', A]"
    moreover have "?name ! ?a = CHR ''.''"
      using nth_part [of 0 v "dir @ lib @ sfx" "''.dylib''"] v by (simp add: add.assoc)
    moreover have "lib \<noteq> []" using assms(3) by (simp add: library_stem_def)
    ultimately show ?thesis by (cases lib) simp_all
  qed
  have slash: "look_back_for_slash ?name ?a = (if dir = [] then None else Some (length dir - 1))"
    using slash_directory [of dir "lib @ sfx" ?a "v @ ''.dylib''"] assms(1,3,4)
    by (auto simp: library_stem_def library_suffix_def)
  have "length dir - 1 \<noteq> 0" if "dir \<noteq> []"
    using that assms(1,2) by (cases dir rule: rev_cases) (auto simp: directory_def)
  moreover have "drop (length dir - 1 + 1) ?name = lib @ sfx @ v @ ''.dylib''" if "dir \<noteq> []"
    using that by (cases dir) simp_all
  moreover have "length dir - 1 + 1 = length dir" if "dir \<noteq> []" using that by simp
  ultimately have "(case if dir = [] then None else Some (length dir - 1) of
        None \<Rightarrow> library_part ?name 0 ?a (strchr_at ?name (CHR ''_'')) s
      | Some b \<Rightarrow> if b = 0 then Ok (None, False, s)
          else library_part ?name (b + 1) ?a (strrchr_at (drop (b + 1) ?name) (CHR ''_'')) s) =
      Ok (Some lib, False, if sfx = [] then s else Some sfx)"
    using strrchr_underbar [OF assms(3-5)] library_part_stem [OF assms(3-5), of _ dir _ ?a s]
    by (cases "dir = []") simp_all
  then show ?thesis
    using \<open>?a + length v \<noteq> 0\<close> ends
    unfolding guess_library_def dot option.case Let_def letter slash by simp
qed

lemma no_framework:
  assumes "CHR ''.'' \<notin> set dir" and "CHR ''/'' \<notin> set rest"
  shows "\<not> framework_at (dir @ rest) foo l p"
proof
  assume "framework_at (dir @ rest) foo l p"
  moreover have "length ''.framework/'' = 11" by simp
  ultimately have at: "take 11 (drop (p + l) (dir @ rest)) = ''.framework/''"
    unfolding framework_at_def starts_with_def by metis
  show False
  proof (cases "p + l < length dir")
    case True
    then have "drop (p + l) (dir @ rest) = dir ! (p + l) # drop (Suc (p + l)) (dir @ rest)"
      by (simp add: Cons_nth_drop_Suc [symmetric] nth_append)
    then have "dir ! (p + l) = CHR ''.''" using at by simp
    then show False using assms(1) True nth_mem by metis
  next
    case False
    have "CHR ''/'' \<in> set (take 11 (drop (p + l) (dir @ rest)))" unfolding at by simp
    then have "CHR ''/'' \<in> set (drop (p + l) (dir @ rest))" by (rule in_set_takeD)
    moreover have "drop (p + l) (dir @ rest) = drop (p + l - length dir) rest" using False by simp
    ultimately show False using assms(2) by (auto dest: in_set_dropD)
  qed
qed

lemma guess_no_framework:
  assumes "\<And>l p. \<not> framework_at name (drop (a + 1) name) l p" and "strrchr_at name (CHR ''/'') = Some a" and "a \<noteq> 0"
  shows "guess_short_name name = guess_library name (snd (split_suffix (drop (a + 1) name)))"
  using assms by (auto simp: guess_short_name_def guess_framework_def Let_def split: option.split prod.split)

lemma library_rest:
  assumes "library_stem lib" and "library_suffix sfx" and "version_letter v"
  shows "CHR ''/'' \<notin> set (lib @ sfx @ v @ ''.dylib'')"
  using assms by (auto simp: library_stem_def library_suffix_def elim!: version_letterE)

text \<open>
  C16.  A file \<open>libFoo.A.dylib\<close> or \<open>libFoo.dylib\<close>, with one of the two known suffixes or without one, is a library
  called \<open>libFoo\<close>, in every directory without a dot but the root.
\<close>

theorem library_short_name:
  assumes "directory dir" and "dir \<noteq> ''/''" and "CHR ''.'' \<notin> set dir"
    and "library_stem lib" and "library_suffix sfx" and "version_letter v"
  shows "guess_short_name (dir @ lib @ sfx @ v @ ''.dylib'') = Ok (Some lib, False, if sfx = [] then None else Some sfx)"
proof (cases dir rule: rev_cases)
  case Nil
  then show ?thesis
    using strrchr_none [OF library_rest [OF assms(4-6)]] guess_library_name [OF assms(1,2,4-6), of None]
    by (simp add: guess_short_name_def)
next
  case (snoc u c)
  then have dir: "dir = u @ ''/''" using assms(1) by (simp add: directory_def)
  let ?rest = "lib @ sfx @ v @ ''.dylib''"
  have a: "strrchr_at (dir @ ?rest) (CHR ''/'') = Some (length u)"
    using slash_last [OF library_rest [OF assms(4-6)], of u] dir by simp
  have "length u \<noteq> 0" using assms(2) dir by auto
  then have "guess_short_name (dir @ ?rest) = guess_library (dir @ ?rest) (snd (split_suffix ?rest))"
    using guess_no_framework [OF _ a] no_framework [OF assms(3) library_rest [OF assms(4-6)]] dir by simp
  moreover have "sfx = [] \<Longrightarrow> split_suffix ?rest = (length ?rest, None)"
    using strrchr_underbar(1) [OF assms(4-6)] by (simp add: split_suffix_def)
  ultimately show ?thesis
    using guess_library_name [OF assms(1,2,4-6)] by auto
qed

lemma library_short_name_witness:
  "directory ''/usr/lib/'' \<and> version_letter ''.B'' \<and>
   guess_short_name ''/usr/lib/libSystem_debug.B.dylib'' = Ok (Some ''libSystem'', False, Some ''_debug'')"
proof -
  have "directory ''/usr/lib/''" "version_letter ''.B''" "library_suffix ''_debug''" "library_stem ''libSystem''" by code_simp+
  then show ?thesis using library_short_name [of "''/usr/lib/''" "''libSystem''" "''_debug''" "''.B''"] by simp
qed

section \<open>QuickTime names\<close>

lemma strchr_found: "strchr_at s c = Some i \<Longrightarrow> i < length s \<and> s ! i = c"
  by (induction s arbitrary: i) (auto split: if_splits)

lemma strrchr_found: "strrchr_at s c = Some i \<Longrightarrow> i < length s \<and> s ! i = c"
proof -
  have "look_back c s p = Some i \<Longrightarrow> i < p \<and> s ! i = c" for p
    by (induction p) (auto split: if_splits)
  then show "strrchr_at s c = Some i \<Longrightarrow> i < length s \<and> s ! i = c" by (simp add: strrchr_at_def)
qed

lemma dot_behind:
  assumes "drop a name = ''.dylib''" and "n < length name" and "name ! n = CHR ''_''"
  shows "CHR ''.'' \<in> set (drop n name)"
proof (cases "a \<le> n")
  case True
  have "length (drop a name) = 6" unfolding assms(1) by simp
  then have "n - a < 6" using assms(2) True by simp
  moreover have "name ! n = ''.dylib'' ! (n - a)"
    using nth_drop [of a name "n - a"] assms(1,2) True by simp
  ultimately show ?thesis using assms(3) by (auto simp: less_Suc_eq numeral_eq_Suc)
next
  case False
  then have "set (drop a name) \<subseteq> set (drop n name)" by (intro set_drop_subset_set_drop) simp
  then show ?thesis using assms(1) by auto
qed

lemma library_part_no_fault:
  assumes "drop a name = ''.dylib''" and "\<And>i. c = Some i \<Longrightarrow> p + i < length name \<and> name ! (p + i) = CHR ''_''"
  shows "library_part name p a' c s \<noteq> Fault"
  using dot_behind [OF assms(1)] assms(2) by (auto simp: library_part_def Let_def split: option.split)

lemma guess_library_fault:
  assumes "guess_library name s = Fault"
  shows "\<exists>a. drop a name = ''.qtx''"
proof -
  have found: "strrchr_at (drop n name) c = Some i \<Longrightarrow> n + i < length name \<and> name ! (n + i) = c" for n c i
    using strrchr_found [of "drop n name" c i] by auto
  obtain a where a: "strrchr_at name (CHR ''.'') = Some a" "a \<noteq> 0"
    using assms by (auto simp: guess_library_def split: option.splits if_splits)
  have lib: "library_part name 0 a' (strchr_at name (CHR ''_'')) s \<noteq> Fault"
    "library_part name (b + 1) a' (strrchr_at (drop (b + 1) name) (CHR ''_'')) s \<noteq> Fault" if "drop a name = ''.dylib''" for a' b
    using strchr_found [of name "CHR ''_''"] found [of "b + 1" "CHR ''_''"] by (auto intro!: library_part_no_fault [OF that])
  show ?thesis
  proof (cases "drop a name = ''.dylib''")
    case True
    then show ?thesis using assms a lib [OF True]
      unfolding guess_library_def a(1) option.case Let_def by (simp split: option.splits if_splits)
  next
    case False
    then have "guess_qtx name s = Fault" using assms a by (simp add: guess_library_def)
    then show ?thesis using a(1) by (auto simp: guess_qtx_def split: if_splits)
  qed
qed

lemma guess_library_qtx:
  assumes "directory dir" and "dir \<noteq> ''/''" and "Foo \<noteq> []" and "CHR ''/'' \<notin> set Foo"
  shows "guess_library (dir @ Foo @ ''.qtx'') s = Fault"
proof -
  let ?name = "dir @ Foo @ ''.qtx''" and ?a = "length dir + length Foo"
  have dot: "strrchr_at ?name (CHR ''.'') = Some ?a"
    using strrchr_at [of "CHR ''.''" "''qtx''" "dir @ Foo"] by simp
  have ends: "drop ?a ?name = ''.qtx''" using drop_part [of ?a "dir @ Foo" "''.qtx''"] by simp
  have slash: "look_back_for_slash ?name ?a = (if dir = [] then None else Some (length dir - 1))"
    using slash_directory [OF assms(1,4), of ?a "''.qtx''"] by simp
  have "length dir - 1 \<noteq> 0" if "dir \<noteq> []"
    using that assms(1,2) by (cases dir rule: rev_cases) (auto simp: directory_def)
  then have "guess_qtx ?name s = Fault"
    unfolding guess_qtx_def dot option.case ends slash by (auto split: nat.split)
  then show ?thesis
    unfolding guess_library_def dot option.case ends using assms(3) by simp
qed

lemma guess_qtx_name:
  assumes "directory dir" and "dir \<noteq> ''/''" and "CHR ''.'' \<notin> set dir" and "Foo \<noteq> []" and "CHR ''/'' \<notin> set Foo"
  shows "guess_short_name (dir @ Foo @ ''.qtx'') = Fault"
proof (cases dir rule: rev_cases)
  case Nil
  then show ?thesis
    using strrchr_none [of "CHR ''/''" "Foo @ ''.qtx''"] guess_library_qtx [OF assms(1,2,4,5)] assms(5)
    by (simp add: guess_short_name_def)
next
  case (snoc u c)
  then have dir: "dir = u @ ''/''" using assms(1) by (simp add: directory_def)
  have rest: "CHR ''/'' \<notin> set (Foo @ ''.qtx'')" using assms(5) by simp
  have a: "strrchr_at (dir @ Foo @ ''.qtx'') (CHR ''/'') = Some (length u)"
    using slash_last [OF rest, of u] dir by simp
  have "length u \<noteq> 0" using assms(2) dir by auto
  then show ?thesis
    using guess_no_framework [OF _ a] no_framework [OF assms(3) rest] guess_library_qtx [OF assms(1,2,4,5)] dir by simp
qed

text \<open>Which names fault in the last part of the routine.\<close>

definition qtx_component :: "string \<Rightarrow> bool" where
  "qtx_component name \<longleftrightarrow> (\<exists>u. name = u @ ''.qtx'' \<and> u \<noteq> [] \<and> \<not> (hd u = CHR ''/'' \<and> CHR ''/'' \<notin> set (tl u)))"

lemma qtx_back_zero: "look_back_for_slash (u @ ''.qtx'') (length u) = Some 0 \<longleftrightarrow> u \<noteq> [] \<and> hd u = CHR ''/'' \<and> CHR ''/'' \<notin> set (tl u)"
proof (cases "CHR ''/'' \<in> set u")
  case True
  then obtain v w where u: "u = v @ CHR ''/'' # w" "CHR ''/'' \<notin> set w" by (metis split_list_last)
  then have "look_back_for_slash (u @ ''.qtx'') (length u) = Some (length v)"
    using slash_back [of w "length u" v "''.qtx''"] by simp
  then show ?thesis using u by (cases v) auto
next
  case False
  then have "look_back_for_slash (u @ ''.qtx'') (length u) = None" by (simp add: slash_none)
  then show ?thesis using False by (cases u) auto
qed

lemma guess_library_fault_iff: "guess_library name s = Fault \<longleftrightarrow> qtx_component name"
proof
  assume fault: "guess_library name s = Fault"
  then obtain u where u: "name = u @ ''.qtx''" using guess_library_fault append_take_drop_id by metis
  have dot: "strrchr_at name (CHR ''.'') = Some (length u)"
    using strrchr_at [of "CHR ''.''" "''qtx''" u] u by simp
  have ends: "drop (length u) name = ''.qtx''" using u by simp
  have "length u \<noteq> 0" and "guess_qtx name s = Fault"
    using fault unfolding guess_library_def dot option.case ends by (auto split: if_splits)
  then have "u \<noteq> []" and "look_back_for_slash name (length u) \<noteq> Some 0"
    unfolding guess_qtx_def dot option.case ends by auto
  then show "qtx_component name" using qtx_back_zero [of u] u by (auto simp: qtx_component_def)
next
  assume "qtx_component name"
  then obtain u where u: "name = u @ ''.qtx''" "u \<noteq> []" "\<not> (hd u = CHR ''/'' \<and> CHR ''/'' \<notin> set (tl u))"
    by (auto simp: qtx_component_def)
  have dot: "strrchr_at name (CHR ''.'') = Some (length u)"
    using strrchr_at [of "CHR ''.''" "''qtx''" u] u by simp
  have ends: "drop (length u) name = ''.qtx''" using u by simp
  have "look_back_for_slash name (length u) \<noteq> Some 0" using qtx_back_zero [of u] u by simp
  then have "guess_qtx name s = Fault"
    unfolding guess_qtx_def dot option.case ends by (auto split: option.split nat.split)
  then show "guess_library name s = Fault"
    unfolding guess_library_def dot option.case ends using u(2) by simp
qed

text \<open>A name is that of a framework or is left to the last part.\<close>

lemma guess_short_name_cases:
  "(\<exists>g s. guess_short_name name = Ok (Some g, True, s)) \<or> (\<exists>s. guess_short_name name = guess_library name s)"
  by (auto simp: guess_short_name_def guess_framework_def Let_def split: option.split prod.split)

lemma guess_short_name_root:
  assumes "CHR ''/'' \<notin> set Foo"
  shows "guess_short_name (''/'' @ Foo @ ''.qtx'') = Ok (None, False, None)"
proof -
  let ?name = "''/'' @ Foo @ ''.qtx''" and ?a = "Suc (length Foo)"
  have slash: "strrchr_at ?name (CHR ''/'') = Some 0" using slash_last [of "Foo @ ''.qtx''" "[]"] assms by simp
  have dot: "strrchr_at ?name (CHR ''.'') = Some ?a"
    using strrchr_at [of "CHR ''.''" "''qtx''" "''/'' @ Foo"] by simp
  have ends: "drop ?a ?name = ''.qtx''" by simp
  have "look_back_for_slash ?name ?a = Some 0" using qtx_back_zero [of "''/'' @ Foo"] assms by simp
  then have "guess_qtx ?name None = Ok (None, False, None)"
    unfolding guess_qtx_def dot option.case ends by simp
  then have "guess_library ?name None = Ok (None, False, None)"
    unfolding guess_library_def dot option.case ends by simp
  then show ?thesis unfolding guess_short_name_def slash by simp
qed

text \<open>
  C17.  The routine leaves the name or what it has allocated exactly for the names \<open>u.qtx\<close> that it does not take for
  those of a framework, where \<open>u\<close> is not empty and is not \<open>/Foo\<close> with \<open>Foo\<close> directly in the root, for which it finds no
  name.  So it does for each component \<open>Foo.qtx\<close>, one of the documented forms, in a directory without a dot other
  than the root.
\<close>

theorem short_name_faults:
  "(guess_short_name name = Fault \<longleftrightarrow>
      (\<exists>u. name = u @ ''.qtx'' \<and> u \<noteq> [] \<and> \<not> (hd u = CHR ''/'' \<and> CHR ''/'' \<notin> set (tl u))) \<and>
      (\<nexists>g s. guess_short_name name = Ok (Some g, True, s))) \<and>
   (\<forall>Foo. CHR ''/'' \<notin> set Foo \<longrightarrow> guess_short_name (''/'' @ Foo @ ''.qtx'') = Ok (None, False, None)) \<and>
   (\<forall>dir Foo. directory dir \<and> dir \<noteq> ''/'' \<and> CHR ''.'' \<notin> set dir \<and> Foo \<noteq> [] \<and> CHR ''/'' \<notin> set Foo \<longrightarrow>
      guess_short_name (dir @ Foo @ ''.qtx'') = Fault)"
proof -
  have "guess_short_name name = Fault \<longleftrightarrow> qtx_component name \<and> (\<nexists>g s. guess_short_name name = Ok (Some g, True, s))"
    using guess_short_name_cases [of name] guess_library_fault_iff [of name] by (metis result.distinct(3))
  then show ?thesis using guess_qtx_name guess_short_name_root unfolding qtx_component_def by blast
qed

lemma short_name_faults_witness:
  "directory ''/Library/QuickTime/'' \<and> CHR ''.'' \<notin> set ''/Library/QuickTime/'' \<and>
   guess_short_name ''/Library/QuickTime/Flip4Mac.qtx'' = Fault \<and> guess_short_name ''/Flip4Mac.qtx'' = Ok (None, False, None)"
proof -
  have "directory ''/Library/QuickTime/''" by code_simp
  then show ?thesis
    using short_name_faults [THEN conjunct2, THEN conjunct1, THEN spec [where x = "''Flip4Mac''"]]
      short_name_faults [THEN conjunct2, THEN conjunct2, THEN spec [where x = "''/Library/QuickTime/''"], THEN spec [where x = "''Flip4Mac''"]]
    by simp
qed

text \<open>Outside the root and behind a dot the name can be that of a framework.\<close>

lemma framework_qtx: "guess_short_name ''x.qtx.framework/x.qtx'' = Ok (Some ''x.qtx'', True, None)"
  by code_simp

text \<open>
  Without a directory the suffix is looked for from the first underbar, in a directory from the last one.
\<close>

lemma first_underbar:
  "guess_short_name ''lib_x_debug.dylib'' = Ok (Some ''lib_x_debug'', False, None)"
  "guess_short_name ''lib/lib_x_debug.dylib'' = Ok (Some ''lib_x'', False, Some ''_debug'')"
  "guess_short_name ''/libx.dylib'' = Ok (None, False, None)"
  by code_simp+

end
