(* ===== verification/Exports_Trie.thy ===== *)
theory Exports_Trie
  imports Outcomes
begin

text \<open>
  The trie of exported symbols: \<open>ld64/src/mach_o/ExportsTrie.cpp\<close> builds it, \<open>ld64/src/abstraction/MachOTrie.hpp\<close>
  reads it, and \<open>ld64/src/other/PruneTrie.cpp\<close> removes symbols from it for \<open>strip\<close>.  A name is its bytes without
  the final null character.  A pointer to a node is the index of the node in the vector \<open>allNodes\<close>; the
  \<open>trieOffset\<close> of the nodes is a list by that index.  \<open>Fault\<close> is an access outside the trie or outside a buffer.
\<close>

unbundle bit_operations_syntax

abbreviation EXPORT_SYMBOL_FLAGS_REEXPORT :: u64 where "EXPORT_SYMBOL_FLAGS_REEXPORT \<equiv> 0x08"
abbreviation EXPORT_SYMBOL_FLAGS_STUB_AND_RESOLVER :: u64 where "EXPORT_SYMBOL_FLAGS_STUB_AND_RESOLVER \<equiv> 0x10"

datatype trie_error =
    Duplicate_symbol bytes
  | Offset_mismatch
  | Uleb_beyond_trie
  | Uleb_too_big
  | Node_past_end
  | Terminal_past_end
  | Child_offset_0
  | Trie_larger

type_synonym 'a trie_result = "(trie_error, 'a) result"

section \<open>Numbers and strings\<close>

lemma unat_drop_less: "w \<noteq> 0 \<Longrightarrow> unat (drop_bit 7 w :: u64) < unat w"
  using unat_gt_0 [of w] by (simp add: unat_drop_bit_eq drop_bit_nat_def)

function uleb128_size :: "u64 \<Rightarrow> u32" where
  "uleb128_size value = (let value = drop_bit 7 value in if value \<noteq> 0 then uleb128_size value + 1 else 1)"
  by pat_completeness auto
termination
proof (relation "measure unat", goal_cases)
  case (2 v w)
  then have "v \<noteq> 0" by auto
  then show ?case using 2 unat_drop_less [of v] by simp
qed simp

declare uleb128_size.simps [simp del]

lemma low_7_bits: "(ucast (v AND 0x7f :: u64) :: u8) < 0x80"
proof -
  have "v AND 0x7f \<le> 0x7f" by (rule word_and_le1)
  then have "unat (v AND 0x7f) \<le> 0x7f" by (simp add: word_le_nat_alt)
  then show ?thesis by (simp add: word_less_nat_alt unsigned_ucast_eq take_bit_nat_eq_self)
qed

lemma high_bits_drop: "v AND NOT 0x7f \<noteq> 0 \<Longrightarrow> unat (drop_bit 7 (v AND NOT 0x7f) :: u64) < unat v"
  using unat_drop_less [of "v AND NOT 0x7f"] word_and_le2 [of v "NOT 0x7f"] by (simp add: word_le_nat_alt)

function append_uleb128 :: "u64 \<Rightarrow> bytes \<Rightarrow> bytes" where
  "append_uleb128 value out =
     (let byte = ucast (value AND 0x7f) :: u8; value = value AND NOT 0x7f;
          byte = (if value \<noteq> 0 then byte OR 0x80 else byte); out = out @ [byte]; value = drop_bit 7 value
      in if byte \<ge> 0x80 then append_uleb128 value out else out)"
  by pat_completeness auto
termination
proof (relation "measure (unat \<circ> fst)", goal_cases)
  case (2 v out byte w byte' out' u)
  then have "w \<noteq> 0" using low_7_bits [of v] by (auto simp: not_le split: if_splits)
  then show ?case using 2 high_bits_drop [of v] by simp
qed simp

declare append_uleb128.simps [simp del]

definition append_string :: "bytes \<Rightarrow> bytes \<Rightarrow> bytes" where
  "append_string s out = out @ s @ [0]"

section \<open>Building: the nodes\<close>

record export_symbol =
  ex_name :: bytes
  ex_offset :: u64
  ex_flags :: u64
  ex_other :: u64
  ex_importName :: bytes

text \<open>What a terminal node carries is a stride of the buffer \<open>terminalBuffer\<close>.\<close>

record writer_entry =
  we_name :: bytes
  we_offset :: u32
  we_size :: u32

definition no_entry :: writer_entry where
  "no_entry = \<lparr>we_name = [], we_offset = 0, we_size = 0\<rparr>"

definition payload :: "bytes \<Rightarrow> writer_entry \<Rightarrow> bytes" where
  "payload terminalBuffer e = subbytes (unat (we_offset e)) (unat (we_size e)) terminalBuffer"

datatype trie_node =
  Node (nd_id: nat) (nd_cummulative: bytes) (nd_children: "(bytes \<times> trie_node) list") (nd_entry: writer_entry)

text \<open>The first character of a string, or the null character behind it.\<close>

definition first_char :: "bytes \<Rightarrow> u8" where
  "first_char s = hd (s @ [0])"

fun common_prefix :: "bytes \<Rightarrow> bytes \<Rightarrow> nat \<Rightarrow> nat option" where
  "common_prefix s tail 0 = None"
| "common_prefix s tail (Suc k) = (if take (Suc k) s = take (Suc k) tail then Some (Suc k) else common_prefix s tail k)"

fun trie_weight :: "trie_node \<Rightarrow> nat" and edges_weight :: "(bytes \<times> trie_node) list \<Rightarrow> nat" where
  "trie_weight (Node i c es t) = 1 + edges_weight es"
| "edges_weight [] = 0"
| "edges_weight ((s, v) # es) = 1 + 2 * length s + trie_weight v + edges_weight es"

lemma common_prefix_less: "common_prefix s tail k = Some len \<Longrightarrow> 0 < len \<and> len \<le> k"
  by (induction k) (auto split: if_splits)

text \<open>
  \<open>n\<close> is the size of \<open>allNodes\<close>.  \<open>add_edges\<close> is the loop over the children; it is \<open>None\<close> if it ends without having
  found one that begins like the name.
\<close>

function add_entry :: "writer_entry \<Rightarrow> nat \<Rightarrow> trie_node \<Rightarrow> (trie_node \<times> nat) trie_result"
  and add_edges :: "writer_entry \<Rightarrow> nat \<Rightarrow> bytes \<Rightarrow> bytes \<Rightarrow> (bytes \<times> trie_node) list \<Rightarrow> ((bytes \<times> trie_node) list \<times> nat) trie_result option" where
  "add_entry e n (Node i c es t) =
     (let tail = drop (length c) (we_name e)
      in case add_edges e n c tail es of
           Some r \<Rightarrow> bind r (\<lambda>(es, n). Ok (Node i c es t, n))
         | None \<Rightarrow>
             if tail = [] \<and> we_size t \<noteq> 0 then Error (Duplicate_symbol (we_name e))
             else Ok (Node i c (es @ [(tail, Node n (we_name e) [] e)]) t, n + 1))"
| "add_edges e n c tail [] = None"
| "add_edges e n c tail ((s, child) # es) =
     (if first_char s \<noteq> first_char tail then map_option (\<lambda>r. bind r (\<lambda>(es, n). Ok ((s, child) # es, n))) (add_edges e n c tail es)
      else if take (length s) tail = s then Some (bind (add_entry e n child) (\<lambda>(child, n). Ok ((s, child) # es, n)))
      else
        case common_prefix s tail (length s - 1) of
          Some len \<Rightarrow>
            let cNode = Node n (take (length c + len) (we_name e)) [(drop len s, child)] no_entry
            in Some (bind (add_entry e (n + 1) cNode) (\<lambda>(cNode, n). Ok ((take len s, cNode) # es, n)))
        | None \<Rightarrow> map_option (\<lambda>r. bind r (\<lambda>(es, n). Ok ((s, child) # es, n))) (add_edges e n c tail es))"
  by pat_completeness auto
termination
  by (relation "measure (\<lambda>x. case x of Inl (e, n, v) \<Rightarrow> trie_weight v | Inr (e, n, c, tail, es) \<Rightarrow> edges_weight es)")
    (auto dest: common_prefix_less)

fun add_entries :: "writer_entry list \<Rightarrow> trie_node \<Rightarrow> nat \<Rightarrow> (trie_node \<times> nat) trie_result" where
  "add_entries [] v n = Ok (v, n)"
| "add_entries (e # es) v n = bind (add_entry e n v) (\<lambda>(v, n). add_entries es v n)"

fun nodes_of :: "trie_node \<Rightarrow> trie_node list" and nodes_of_edges :: "(bytes \<times> trie_node) list \<Rightarrow> trie_node list" where
  "nodes_of (Node i c es t) = Node i c es t # nodes_of_edges es"
| "nodes_of_edges [] = []"
| "nodes_of_edges ((s, v) # es) = nodes_of v @ nodes_of_edges es"

text \<open>The vector, in the order in which the nodes have been made.\<close>

definition all_nodes :: "trie_node \<Rightarrow> nat \<Rightarrow> trie_node list" where
  "all_nodes start n = map (\<lambda>i. hd (filter (\<lambda>v. nd_id v = i) (nodes_of start))) [0..<n]"

section \<open>Building: the offsets\<close>

definition node_size :: "u32 list \<Rightarrow> trie_node \<Rightarrow> u32" where
  "node_size offs v =
     (let size = (if we_name (nd_entry v) \<noteq> [] then we_size (nd_entry v) + uleb128_size (ucast (we_size (nd_entry v))) else 1)
      in fold (\<lambda>(s, w) size. size + (of_nat (length s) + 1 + uleb128_size (ucast (offs ! nd_id w)))) (nd_children v) (size + 1))"

text \<open>One round of the loop, and the loop; the result of a round is the offsets and whether one has changed.\<close>

fun update_offsets :: "trie_node list \<Rightarrow> u32 \<Rightarrow> u32 list \<Rightarrow> u32 list \<times> bool" where
  "update_offsets [] curOffset offs = (offs, False)"
| "update_offsets (v # vs) curOffset offs =
     (let size = node_size offs v; changed = (offs ! nd_id v \<noteq> curOffset);
          (offs, again) = update_offsets vs (curOffset + size) (offs[nd_id v := curOffset])
      in (offs, changed \<or> again))"

partial_function (option) assign_offsets :: "trie_node list \<Rightarrow> u32 list \<Rightarrow> u32 list option" where
  "assign_offsets nodes offs =
     (case update_offsets nodes 0 offs of (offs', again) \<Rightarrow> if again then assign_offsets nodes offs' else Some offs')"

declare assign_offsets.simps [code]

section \<open>Building: the bytes\<close>

definition append_to_stream :: "bytes \<Rightarrow> u32 list \<Rightarrow> trie_node \<Rightarrow> bytes \<Rightarrow> bytes" where
  "append_to_stream terminalBuffer offs v out =
     (let out = (if we_name (nd_entry v) \<noteq> []
                 then append_uleb128 (ucast (we_size (nd_entry v))) out @ payload terminalBuffer (nd_entry v)
                 else out @ [0]);
          out = out @ [of_nat (length (nd_children v))]
      in fold (\<lambda>(s, w) out. append_uleb128 (ucast (offs ! nd_id w)) (append_string s out)) (nd_children v) out)"

fun append_nodes :: "bytes \<Rightarrow> u32 list \<Rightarrow> trie_node list \<Rightarrow> bytes \<Rightarrow> bytes trie_result" where
  "append_nodes terminalBuffer offs [] out = Ok out"
| "append_nodes terminalBuffer offs (v # vs) out =
     bind (guard (unat (offs ! nd_id v) = length out) Offset_mismatch) (\<lambda>_.
       append_nodes terminalBuffer offs vs (append_to_stream terminalBuffer offs v out))"

function pad_to_8 :: "bytes \<Rightarrow> bytes" where
  "pad_to_8 out = (if length out mod 8 \<noteq> 0 then pad_to_8 (out @ [0]) else out)"
  by pat_completeness auto
termination
  by (relation "measure (\<lambda>out. (8 - length out mod 8) mod 8)") (auto simp: mod_Suc)

declare pad_to_8.simps [simp del]

definition buildTrieBytes :: "writer_entry list \<Rightarrow> bytes \<Rightarrow> bytes trie_result option" where
  "buildTrieBytes entries terminalBuffer =
     (case add_entries entries (Node 0 [] [] no_entry) 1 of
        Ok (start, n) \<Rightarrow>
          map_option (\<lambda>offs. bind (append_nodes terminalBuffer offs (all_nodes start n) []) (\<lambda>out. Ok (pad_to_8 out)))
            (assign_offsets (all_nodes start n) (replicate n 0))
      | Error err \<Rightarrow> Some (Error err)
      | Fault \<Rightarrow> Some Fault)"

text \<open>\<open>exportToEntry\<close> appends what the terminal node will carry to the buffer.\<close>

definition exportToEntry :: "export_symbol \<Rightarrow> bytes \<Rightarrow> writer_entry \<times> bytes" where
  "exportToEntry ex temp =
     (let tempStartLen = length temp;
          temp = (if ex_name ex \<noteq> [] then
                    if ex_flags ex AND EXPORT_SYMBOL_FLAGS_REEXPORT \<noteq> 0 then
                      append_string (if ex_importName ex = ex_name ex then [] else ex_importName ex)
                        (append_uleb128 (ex_other ex) (append_uleb128 (ex_flags ex) temp))
                    else if ex_flags ex AND EXPORT_SYMBOL_FLAGS_STUB_AND_RESOLVER \<noteq> 0 then
                      append_uleb128 (ex_other ex) (append_uleb128 (ex_offset ex) (append_uleb128 (ex_flags ex) temp))
                    else append_uleb128 (ex_offset ex) (append_uleb128 (ex_flags ex) temp)
                  else temp)
      in (\<lparr>we_name = ex_name ex, we_offset = of_nat tempStartLen, we_size = of_nat (length temp - tempStartLen)\<rparr>, temp))"

fun export_entries :: "export_symbol list \<Rightarrow> bytes \<Rightarrow> writer_entry list \<times> bytes" where
  "export_entries [] temp = ([], temp)"
| "export_entries (ex # exs) temp =
     (let (e, temp) = exportToEntry ex temp; (es, temp) = export_entries exs temp in (e # es, temp))"

definition ExportsTrie :: "export_symbol list \<Rightarrow> bytes trie_result option" where
  "ExportsTrie exports = (case export_entries exports [] of (entries, temp) \<Rightarrow> buildTrieBytes entries temp)"

section \<open>Reading\<close>

text \<open>A number at \<open>p\<close>, and the position behind it.\<close>

function uleb_slices :: "bytes \<Rightarrow> nat \<Rightarrow> nat \<Rightarrow> u64 \<Rightarrow> (u64 \<times> nat) trie_result" where
  "uleb_slices m p k result =
     (if p = length m then Error Uleb_beyond_trie
      else if p > length m then Fault
      else
        let slice = ucast (m ! p AND 0x7f) :: u64
        in if k \<ge> 64 \<or> drop_bit k (push_bit k slice) \<noteq> slice then Error Uleb_too_big
           else
             let result = result OR push_bit k slice
             in if m ! p AND 0x80 \<noteq> 0 then uleb_slices m (p + 1) (k + 7) result else Ok (result, p + 1))"
  by pat_completeness auto
termination
  by (relation "measure (\<lambda>(m, p, _, _). length m - p)") auto

declare uleb_slices.simps [simp del]

definition read_uleb128_trie :: "bytes \<Rightarrow> nat \<Rightarrow> (u64 \<times> nat) trie_result" where
  "read_uleb128_trie m p = uleb_slices m p 0 0"

text \<open>An entry; the name under which it is imported is a pointer into the trie.\<close>

record trie_entry =
  te_name :: bytes
  te_address :: u64
  te_flags :: u64
  te_other :: u64
  te_importName :: "nat option"

text \<open>What is read of a terminal node, and the position of the node.\<close>

definition terminal_entry :: "bytes \<Rightarrow> nat \<Rightarrow> bytes \<Rightarrow> (nat \<times> trie_entry) trie_result" where
  "terminal_entry m p name =
     bind (read_uleb128_trie m p) (\<lambda>(flags, q).
       if flags AND EXPORT_SYMBOL_FLAGS_REEXPORT \<noteq> 0 then
         bind (read_uleb128_trie m q) (\<lambda>(other, q).
           Ok (p, \<lparr>te_name = name, te_address = 0, te_flags = flags, te_other = other, te_importName = Some q\<rparr>))
       else
         bind (read_uleb128_trie m q) (\<lambda>(address, q).
         bind (if flags AND EXPORT_SYMBOL_FLAGS_STUB_AND_RESOLVER \<noteq> 0 then read_uleb128_trie m q else Ok (0, q)) (\<lambda>(other, q).
           Ok (p, \<lparr>te_name = name, te_address = address, te_flags = flags, te_other = other, te_importName = None\<rparr>))))"

text \<open>
  The first part of \<open>processExportNode\<close>: the number of children and where they begin.  The string is \<open>None\<close> as long
  as nothing has been written to it.  The sum of a pointer and a size is taken not to wrap around.
\<close>

definition node_header :: "bytes \<Rightarrow> nat \<Rightarrow> bytes option \<Rightarrow> (nat \<times> trie_entry) list \<Rightarrow> (nat \<times> nat \<times> (nat \<times> trie_entry) list) trie_result" where
  "node_header m p cummulative out =
     bind (guard (\<not> p \<ge> length m) Node_past_end) (\<lambda>_.
     bind (read_uleb128_trie m p) (\<lambda>(terminalSize, p).
     let children = p + unat terminalSize
     in bind (if terminalSize \<noteq> 0 then
                case cummulative of
                  None \<Rightarrow> Fault
                | Some name \<Rightarrow> bind (terminal_entry m p name) (\<lambda>e. Ok (out @ [e]))
              else Ok out) (\<lambda>out.
        bind (guard (\<not> children > length m) Terminal_past_end) (\<lambda>_.
        bind (within (children < length m) ()) (\<lambda>_.
          Ok (unat (m ! children), children + 1, out))))))"

text \<open>The string of an edge is copied behind the string so far, into a buffer as long as the trie.\<close>

function edge_string :: "bytes \<Rightarrow> nat \<Rightarrow> bytes \<Rightarrow> (bytes \<times> nat) trie_result" where
  "edge_string m s cummulative =
     (if s \<ge> length m \<or> length cummulative \<ge> length m then Fault
      else if m ! s \<noteq> 0 then edge_string m (s + 1) (cummulative @ [m ! s])
      else Ok (cummulative, s + 1))"
  by pat_completeness auto
termination
  by (relation "measure (\<lambda>(m, s, _). length m - s)") auto

declare edge_string.simps [simp del]

text \<open>
  The loop over the children.  Nothing keeps the offset of a child from leading back, so the function need not
  return.
\<close>

partial_function (option) process_children ::
    "bytes \<Rightarrow> nat \<Rightarrow> nat \<Rightarrow> bytes \<Rightarrow> (nat \<times> trie_entry) list \<Rightarrow> (nat \<times> trie_entry) list trie_result option" where
  "process_children m count s cummulative out =
     (if count = 0 then Some (Ok out)
      else
        case bind (edge_string m s cummulative) (\<lambda>(name, s).
             bind (read_uleb128_trie m s) (\<lambda>(v, s).
             let childNodeOffset = ucast v :: u32
             in bind (guard (childNodeOffset \<noteq> 0) Child_offset_0) (\<lambda>_.
                bind (node_header m (unat childNodeOffset) (Some name) out) (\<lambda>h.
                  Ok (name, s, h))))) of
          Error err \<Rightarrow> Some (Error err)
        | Fault \<Rightarrow> Some Fault
        | Ok (name, s', count', children, out') \<Rightarrow>
            Option.bind (process_children m count' children name out') (\<lambda>r.
              case r of
                Error err \<Rightarrow> Some (Error err)
              | Fault \<Rightarrow> Some Fault
              | Ok out'' \<Rightarrow> process_children m (count - 1) s' cummulative out''))"

declare process_children.simps [code]

definition parseTrie :: "bytes \<Rightarrow> trie_entry list trie_result option" where
  "parseTrie m =
     (if m = [] then Some (Ok [])
      else
        (case node_header m 0 None [] of
           Error err \<Rightarrow> Some (Error err)
         | Fault \<Rightarrow> Some Fault
         | Ok (count, children, out) \<Rightarrow>
             map_option (\<lambda>r. bind r (\<lambda>out. Ok (map snd (sort_key fst out)))) (process_children m count children [] out)))"

section \<open>Pruning\<close>

text \<open>The string at a pointer into the trie.\<close>

definition string_at :: "bytes \<Rightarrow> nat \<Rightarrow> bytes trie_result" where
  "string_at m p = (if 0 \<in> set (drop p m) then Ok (takeWhile (\<lambda>b. b \<noteq> 0) (drop p m)) else Fault)"

definition old_export :: "bytes \<Rightarrow> trie_entry \<Rightarrow> export_symbol trie_result" where
  "old_export m e =
     bind (case te_importName e of None \<Rightarrow> Ok [] | Some p \<Rightarrow> string_at m p) (\<lambda>importName.
       Ok \<lparr>ex_name = te_name e, ex_offset = te_address e, ex_flags = te_flags e, ex_other = te_other e, ex_importName = importName\<rparr>)"

fun old_exports :: "bytes \<Rightarrow> trie_entry list \<Rightarrow> export_symbol list trie_result" where
  "old_exports m [] = Ok []"
| "old_exports m (e # es) = bind (old_export m e) (\<lambda>ex. bind (old_exports m es) (\<lambda>exs. Ok (ex # exs)))"

text \<open>The new trie in the place of the old one, and its size.\<close>

definition write_back :: "bytes \<Rightarrow> bytes \<Rightarrow> (bytes \<times> u32) trie_result" where
  "write_back m trieBytes =
     (let trieAlign = (if length m mod 8 \<noteq> 0 then 4 else 8); trieSize = length trieBytes;
          triePadding = (if trieSize mod trieAlign \<noteq> 0 then trieAlign - trieSize mod trieAlign else 0);
          trie_new_size = of_nat (trieSize + triePadding) :: u32
      in bind (guard (\<not> trie_new_size > of_nat (length m)) Trie_larger) (\<lambda>_.
         bind (within (trieSize \<le> length m) ()) (\<lambda>_.
           Ok (trieBytes @ replicate (length m - trieSize) 0, trie_new_size))))"

definition prune_trie :: "(bytes \<Rightarrow> bool) \<Rightarrow> bytes \<Rightarrow> (bytes \<times> u32) trie_result option" where
  "prune_trie prune m =
     Option.bind (parseTrie m) (\<lambda>r.
       case r of
         Error err \<Rightarrow> Some (Error err)
       | Fault \<Rightarrow> Some Fault
       | Ok exports \<Rightarrow>
           let kept = filter (\<lambda>e. \<not> prune (te_name e)) exports
           in if length kept = length exports then Some (Ok (m, of_nat (length m)))
              else
                (case old_exports m kept of
                   Error err \<Rightarrow> Some (Error err)
                 | Fault \<Rightarrow> Some Fault
                 | Ok exs \<Rightarrow> map_option (\<lambda>r. bind r (write_back m)) (ExportsTrie exs)))"

end
