(* ===== verification/Trie_Build.thy ===== *)
theory Trie_Build
  imports Exports_Trie Leb128 "HOL-Library.Multiset"
begin

text \<open>
  The nodes that \<open>ExportsTrie\<close> makes: what a trie contains after a symbol has been added, and that its strings fit
  together.
\<close>

section \<open>Numbers\<close>

lemma unat_drop_7: "unat (drop_bit 7 v :: u64) = unat v div 128"
  by (simp add: unat_drop_bit_eq drop_bit_nat_def)

lemma drop_7_zero: "drop_bit 7 v = (0 :: u64) \<longleftrightarrow> unat v < 128"
  using unat_drop_7 [of v] by (metis div_eq_0_iff unat_eq_0 zero_neq_numeral)

lemma u64_mask_7: "(0x7f :: u64) = mask 7"
  by (simp add: mask_eq_exp_minus_1)

lemma unat_low_7: "unat (v AND 0x7f :: u64) = unat v mod 128"
  unfolding u64_mask_7 take_bit_eq_mask [symmetric] by (simp add: unsigned_take_bit_eq take_bit_nat_def)

lemma drop_high: "drop_bit 7 (v AND NOT 0x7f) = (drop_bit 7 v :: u64)"
  unfolding u64_mask_7 by (rule bit_word_eqI) (auto simp: bit_simps dest: bit_imp_le_length)

lemma high_zero: "v AND NOT 0x7f = (0 :: u64) \<longleftrightarrow> unat v < 128"
proof
  assume "v AND NOT 0x7f = 0"
  then have "drop_bit 7 v = 0" using drop_high [of v] by simp
  then show "unat v < 128" by (simp add: drop_7_zero)
next
  assume "unat v < 128"
  then have "drop_bit 7 v = 0" by (simp add: drop_7_zero)
  moreover have "v AND NOT (mask 7) = push_bit 7 (drop_bit 7 v)"
    by (rule bit_word_eqI) (auto simp: bit_simps)
  ultimately show "v AND NOT 0x7f = 0" unfolding u64_mask_7 by simp
qed

lemma low_byte_u8: "(ucast (v AND 0x7f :: u64) :: u8) = of_nat (unat v mod 128)"
proof -
  have "(ucast (v AND 0x7f :: u64) :: u8) = of_nat (unat (v AND 0x7f))" by simp
  then show ?thesis by (simp only: unat_low_7)
qed

lemma high_bit_set: "(b OR 0x80 :: u8) \<ge> 0x80"
  using word_and_le2 [of "b OR 0x80" "0x80"] by (simp add: word_ao_absorbs)

lemma append_uleb128_low:
  assumes "unat v < 128"
  shows "append_uleb128 v out = out @ [of_nat (unat v)]"
proof -
  have "\<not> (of_nat (unat v mod 128) :: u8) \<ge> 0x80" using low_7_bits [of v] unfolding low_byte_u8 by (simp only: not_le)
  then have "append_uleb128 v out = out @ [of_nat (unat v mod 128)]"
    using assms by (subst append_uleb128.simps) (simp only: Let_def low_byte_u8 high_zero simp_thms if_True if_False)
  then show ?thesis using assms by simp
qed

lemma append_uleb128_high:
  assumes "\<not> unat v < 128"
  shows "append_uleb128 v out = append_uleb128 (drop_bit 7 v) (out @ [of_nat (unat v mod 128) OR 0x80])"
  using assms high_bit_set [of "of_nat (unat v mod 128)"]
  by (subst append_uleb128.simps) (simp only: Let_def low_byte_u8 high_zero drop_high simp_thms if_True if_False)

lemma append_uleb128_encode: "append_uleb128 v out = out @ uleb_encode (unat v)"
proof (induction "unat v" arbitrary: v out rule: less_induct)
  case less
  show ?case
  proof (cases "unat v < 128")
    case True
    then show ?thesis by (simp add: append_uleb128_low uleb_encode.simps)
  next
    case False
    then have "append_uleb128 (drop_bit 7 v) (out @ [of_nat (unat v mod 128) OR 0x80])
      = (out @ [of_nat (unat v mod 128) OR 0x80]) @ uleb_encode (unat v div 128)"
      using less [of "drop_bit 7 v"] by (simp only: unat_drop_7)
    then show ?thesis using False by (simp add: append_uleb128_high uleb_encode.simps [of "unat v"])
  qed
qed

lemma uleb_encode_nonempty [simp]: "uleb_encode n \<noteq> []"
  by (simp add: uleb_encode.simps [of n])

lemma uleb_length_mono: "m \<le> n \<Longrightarrow> length (uleb_encode m) \<le> length (uleb_encode n)"
proof (induction m arbitrary: n rule: uleb_encode.induct)
  case (1 m)
  show ?case
  proof (cases "m < 128")
    case True
    then show ?thesis by (simp add: uleb_encode.simps [of m] uleb_encode.simps [of n])
  next
    case False
    then have "length (uleb_encode (m div 128)) \<le> length (uleb_encode (n div 128))"
      using 1(2) by (intro 1(1) div_le_mono)
    then show ?thesis using False 1(2) by (simp add: uleb_encode.simps [of m] uleb_encode.simps [of n])
  qed
qed

lemma uleb_length_less: "n < 128 ^ k \<Longrightarrow> 0 < k \<Longrightarrow> length (uleb_encode n) \<le> k"
proof (induction k arbitrary: n)
  case (Suc k)
  show ?case
  proof (cases "n < 128")
    case False
    then have "n div 128 < 128 ^ k" "0 < k" using Suc.prems by (auto simp: less_mult_imp_div_less mult.commute intro: Nat.gr0I)
    then show ?thesis using Suc.IH [of "n div 128"] False by (simp add: uleb_encode.simps [of n])
  qed (simp add: uleb_encode.simps)
qed simp

lemma u64_uleb_length: "length (uleb_encode (unat (v :: u64))) \<le> 10"
proof -
  have "unat v < 2 ^ 64" using unsigned_less [of v] by simp
  also have "\<dots> \<le> 128 ^ 10" by simp
  finally show ?thesis by (rule uleb_length_less) simp
qed

lemma u32_uleb_length: "length (uleb_encode (unat (v :: u32))) \<le> 5"
proof -
  have "unat v < 2 ^ 32" using unsigned_less [of v] by simp
  also have "\<dots> \<le> 128 ^ 5" by simp
  finally show ?thesis by (rule uleb_length_less) simp
qed

lemma uleb128_size_encode: "uleb128_size v = of_nat (length (uleb_encode (unat v)))"
proof (induction v rule: uleb128_size.induct)
  case (1 v)
  show ?case
  proof (cases "unat v < 128")
    case True
    then show ?thesis by (subst uleb128_size.simps) (simp add: Let_def drop_7_zero uleb_encode.simps)
  next
    case False
    then have "uleb128_size (drop_bit 7 v) = of_nat (length (uleb_encode (unat v div 128)))"
      using 1 [OF refl] by (simp add: drop_7_zero unat_drop_7)
    then show ?thesis
      using False by (subst uleb128_size.simps) (simp add: Let_def drop_7_zero uleb_encode.simps [of "unat v"])
  qed
qed

text \<open>The reader of the trie is the one of the bind opcodes, with other errors.\<close>

lemma uleb_slices_loop:
  assumes "uleb_loop m p k r = (v, q, None)"
  shows "uleb_slices m p k r = Ok (v, q)"
  using assms
proof (induction m p k r rule: uleb_loop.induct)
  case (1 m p k r)
  have p: "p < length m" using 1(2) by (subst (asm) uleb_loop.simps) (auto split: if_splits)
  show ?case using 1 p
    by (subst uleb_slices.simps, subst (asm) (2) uleb_loop.simps) (auto simp: Let_def split: if_splits)
qed

lemma read_uleb_encoded:
  assumes "drop p m = uleb_encode n @ post" and "n < 2 ^ 64"
  shows "read_uleb128_trie m p = Ok (of_nat n, p + length (uleb_encode n))"
  using uleb_slices_loop uleb_loop_encoded [OF assms(1), of 0 0] assms(2) by (simp add: read_uleb128_trie_def)

text \<open>Parts of a buffer by what begins at a position.\<close>

lemma drop_behind: "drop p m = xs @ ys \<Longrightarrow> drop (p + length xs) m = ys"
  by (metis append_eq_conv_conj add.commute drop_drop)

lemma drop_inside: "drop p m = x # ys \<Longrightarrow> p < length m \<and> m ! p = x"
  by (metis drop_all hd_drop_conv_nth leI list.distinct(1) list.sel(1))

section \<open>What a trie contains\<close>

abbreviation terminal :: "trie_node \<Rightarrow> bool" where
  "terminal v \<equiv> we_name (nd_entry v) \<noteq> []"

definition labels :: "trie_node list \<Rightarrow> (nat \<times> writer_entry) multiset" where
  "labels vs = mset (map (\<lambda>w. (nd_id w, nd_entry w)) vs)"

text \<open>The string of a node is the one of its parent followed by the one of the edge; \<open>forbidden\<close> are characters that no name has.\<close>

fun trie_ok :: "u8 set \<Rightarrow> bytes \<Rightarrow> trie_node \<Rightarrow> bool" and edges_ok :: "u8 set \<Rightarrow> bytes \<Rightarrow> (bytes \<times> trie_node) list \<Rightarrow> bool" where
  "trie_ok forbidden c (Node i c' es t) \<longleftrightarrow>
     c' = c \<and> (t = no_entry \<or> we_name t = c \<and> c \<noteq> [] \<and> we_size t \<noteq> 0) \<and>
     distinct (map (first_char \<circ> fst) es) \<and> edges_ok forbidden c es"
| "edges_ok forbidden c [] \<longleftrightarrow> True"
| "edges_ok forbidden c ((s, v) # es) \<longleftrightarrow> set s \<inter> forbidden = {} \<and> trie_ok forbidden (c @ s) v \<and> edges_ok forbidden c es"

text \<open>How long the nodes can be, whatever the offsets are.\<close>

fun trie_bound :: "trie_node \<Rightarrow> nat" and edges_bound :: "(bytes \<times> trie_node) list \<Rightarrow> nat" where
  "trie_bound (Node i c es t) = (if we_name t \<noteq> [] then unat (we_size t) + 6 else 2) + edges_bound es"
| "edges_bound [] = 0"
| "edges_bound ((s, v) # es) = length s + 6 + trie_bound v + edges_bound es"

definition entry_bound :: "writer_entry \<Rightarrow> bool \<Rightarrow> nat" where
  "entry_bound e split = length (we_name e) + unat (we_size e) + (if split then 20 else 12)"

text \<open>An entry that can be added: it has a name, without a forbidden character, and something to carry.\<close>

definition entry_ok :: "u8 set \<Rightarrow> writer_entry \<Rightarrow> bool" where
  "entry_ok forbidden e \<longleftrightarrow> we_name e \<noteq> [] \<and> set (we_name e) \<inter> forbidden = {} \<and> we_size e \<noteq> 0"

lemma no_entry_simps [simp]: "we_name no_entry = []" "we_size no_entry = 0"
  by (simp_all add: no_entry_def)

lemma labels_simps [simp]:
  "labels [] = {#}"
  "labels (v # vs) = add_mset (nd_id v, nd_entry v) (labels vs)"
  "labels (vs @ ws) = labels vs + labels ws"
  by (simp_all add: labels_def)

lemma nodes_of_edges_append [simp]: "nodes_of_edges (es @ fs) = nodes_of_edges es @ nodes_of_edges fs"
  by (induction es) auto

lemma edges_ok_append [simp]: "edges_ok Z c (es @ fs) \<longleftrightarrow> edges_ok Z c es \<and> edges_ok Z c fs"
  by (induction es) auto

lemma edges_bound_append [simp]: "edges_bound (es @ fs) = edges_bound es + edges_bound fs"
  by (induction es) auto

lemma first_char_simps [simp]: "first_char [] = 0" "first_char (x # xs) = x"
  by (simp_all add: first_char_def)

lemma first_char_zero: "0 \<notin> set s \<Longrightarrow> first_char s = 0 \<longleftrightarrow> s = []"
  by (cases s) auto

lemma first_char_take: "0 < k \<Longrightarrow> first_char (take k s) = first_char s"
  by (cases s; cases k) auto

section \<open>The longest common prefix\<close>

lemma common_prefix_Some:
  "common_prefix s tail k = Some len \<Longrightarrow> take len s = take len tail \<and> (\<forall>j. len < j \<and> j \<le> k \<longrightarrow> take j s \<noteq> take j tail)"
  by (induction k) (auto split: if_splits simp: le_Suc_eq)

lemma common_prefix_None: "common_prefix s tail k = None \<Longrightarrow> 0 < k \<Longrightarrow> take 1 s \<noteq> take 1 tail"
  by (induction k) (auto split: if_splits, (case_tac k; auto)?)

lemma first_char_equal:
  assumes "first_char s = first_char tail" and "0 \<notin> set s" and "s \<noteq> []"
  shows "take 1 s = take 1 tail" "tail \<noteq> []"
  using assms by (cases s; cases tail; auto)+

lemma common_prefix_found:
  assumes "first_char s = first_char tail" and "0 \<notin> set s" and "take (length s) tail \<noteq> s"
  obtains len where "common_prefix s tail (length s - 1) = Some len" and "0 < len" and "len < length s"
    and "take len s = take len tail" and "first_char (drop len s) \<noteq> first_char (drop len tail)"
proof -
  have s: "s \<noteq> []" using assms(3) by auto
  note first = first_char_equal [OF assms(1,2) s]
  have "length s - 1 \<noteq> 0"
  proof
    assume "length s - 1 = 0"
    then have "length s = 1" using s by (cases s) auto
    then show False using first(1) assms(3) by simp
  qed
  then obtain len where len: "common_prefix s tail (length s - 1) = Some len"
    using common_prefix_None [of s tail "length s - 1"] first(1) by (cases "common_prefix s tail (length s - 1)") auto
  note bounds = common_prefix_less [OF len] and common = common_prefix_Some [OF len]
  have less: "len < length s" using bounds s by (cases s) auto
  have "first_char (drop len s) \<noteq> first_char (drop len tail)"
  proof
    assume eq: "first_char (drop len s) = first_char (drop len tail)"
    have "0 \<notin> set (drop len s)" using assms(2) set_drop_subset [of len s] by blast
    then have "take 1 (drop len s) = take 1 (drop len tail)" using first_char_equal(1) [OF eq] less by simp
    then have "take (Suc len) s = take (Suc len) tail"
      using common by (metis One_nat_def Suc_eq_plus1_left add.commute take_add)
    moreover have "Suc len \<le> length s - 1 \<or> Suc len = length s" using less by auto
    ultimately show False using common assms(3) by auto
  qed
  then show thesis using that len bounds less common by blast
qed

section \<open>Adding a symbol\<close>

text \<open>The new nodes: \<open>split\<close> is whether an edge has been divided.\<close>

definition new_labels :: "writer_entry \<Rightarrow> nat \<Rightarrow> bool \<Rightarrow> (nat \<times> writer_entry) multiset" where
  "new_labels e n split = (if split then {#(n, no_entry), (n + 1, e)#} else {#(n, e)#})"

definition next_id :: "nat \<Rightarrow> bool \<Rightarrow> nat" where
  "next_id n split = (if split then n + 2 else n + 1)"

definition node_added :: "u8 set \<Rightarrow> bytes \<Rightarrow> writer_entry \<Rightarrow> nat \<Rightarrow> trie_node \<Rightarrow> bool \<Rightarrow> trie_node \<Rightarrow> bool" where
  "node_added Z c e n v split v' \<longleftrightarrow>
     trie_ok Z c v' \<and> labels (nodes_of v') = labels (nodes_of v) + new_labels e n split \<and> nd_id v' = nd_id v \<and>
     nd_entry v' = nd_entry v \<and> trie_bound v' \<le> trie_bound v + entry_bound e split"

definition edges_added ::
    "u8 set \<Rightarrow> bytes \<Rightarrow> writer_entry \<Rightarrow> nat \<Rightarrow> (bytes \<times> trie_node) list \<Rightarrow> bool \<Rightarrow> (bytes \<times> trie_node) list \<Rightarrow> bool" where
  "edges_added Z c e n es split es' \<longleftrightarrow>
     edges_ok Z c es' \<and> labels (nodes_of_edges es') = labels (nodes_of_edges es) + new_labels e n split \<and>
     map (first_char \<circ> fst) es' = map (first_char \<circ> fst) es \<and> edges_bound es' \<le> edges_bound es + entry_bound e split"

lemma edges_added_skip:
  "edges_added Z c e n es split es' \<Longrightarrow> set s \<inter> Z = {} \<Longrightarrow> trie_ok Z (c @ s) v \<Longrightarrow>
    edges_added Z c e n ((s, v) # es) split ((s, v) # es')"
  by (auto simp: edges_added_def)

lemma edges_added_here:
  "node_added Z (c @ s) e n v split v' \<Longrightarrow> set s \<inter> Z = {} \<Longrightarrow> edges_ok Z c es \<Longrightarrow>
    edges_added Z c e n ((s, v) # es) split ((s, v') # es)"
  by (auto simp: edges_added_def node_added_def)

lemma nodes_of_root: "labels (nodes_of v) = add_mset (nd_id v, nd_entry v) (labels (nodes_of_edges (nd_children v)))"
  by (cases v) auto

text \<open>A name that ends at a node, or goes on with a character with which no edge begins, becomes a leaf below it.\<close>

lemma add_leaf:
  assumes v: "trie_ok Z c (Node i c es t)" and e: "entry_ok Z e" and name: "we_name e = c @ tail"
    and first: "first_char tail \<notin> (first_char \<circ> fst) ` set es" and other: "we_name t \<noteq> we_name e"
    and none: "add_edges e n c tail es = None"
  shows "\<exists>v'. add_entry e n (Node i c es t) = Ok (v', n + 1) \<and> node_added Z c e n (Node i c es t) False v'"
proof -
  have t: "tail = [] \<Longrightarrow> we_size t = 0" using v name other by auto
  then have "add_entry e n (Node i c es t) = Ok (Node i c (es @ [(tail, Node n (we_name e) [] e)]) t, n + 1)"
    using none name by auto
  moreover have "node_added Z c e n (Node i c es t) False (Node i c (es @ [(tail, Node n (we_name e) [] e)]) t)"
    using v e name first by (auto simp: node_added_def new_labels_def entry_ok_def entry_bound_def)
  ultimately show ?thesis by blast
qed

text \<open>An edge that begins like the name, and does not go on like it, is divided.\<close>

lemma add_split:
  assumes s: "set s \<inter> Z = {}" and Z: "0 \<in> Z" and child: "trie_ok Z (c @ s) child" and es: "edges_ok Z c es"
    and e: "entry_ok Z e" and name: "we_name e = c @ tail"
    and first: "first_char s = first_char tail" and differ: "take (length s) tail \<noteq> s"
  shows "\<exists>es'. add_edges e n c tail ((s, child) # es) = Some (Ok (es', n + 2)) \<and>
    edges_added Z c e n ((s, child) # es) True es'"
proof -
  have zero: "0 \<notin> set s" using s Z by auto
  obtain len where len: "common_prefix s tail (length s - 1) = Some len" "0 < len" "len < length s"
      "take len s = take len tail" and next_char: "first_char (drop len s) \<noteq> first_char (drop len tail)"
    using common_prefix_found [OF first zero differ] .
  define d where "d = take (length c + len) (we_name e)"
  define tail' where "tail' = drop len tail"
  have tail_len: "len \<le> length tail" using len(3,4) by (metis length_take min.cobounded1 min.absorb2 nat_less_le)
  have d: "d = c @ take len s" using name len(4) by (simp add: d_def)
  have name': "we_name e = d @ tail'" using name len(4) by (simp add: d tail'_def)
  have drop_d: "drop (length d) (we_name e) = tail'" using name' by simp
  define cNode where "cNode = Node n d [(drop len s, child)] no_entry"
  have parts: "c @ s = d @ drop len s" by (simp add: d)
  have sub: "set (take len s) \<inter> Z = {}" "set (drop len s) \<inter> Z = {}"
    using s set_take_subset [of len s] set_drop_subset [of len s] by blast+
  have ok: "trie_ok Z d cNode" using child sub by (simp add: cNode_def parts)
  obtain v' where v': "add_entry e (n + 1) cNode = Ok (v', n + 2)" "node_added Z d e (n + 1) cNode False v'"
    using add_leaf [OF ok [unfolded cNode_def] e name', of "n + 1"] next_char e
    by (auto simp: cNode_def tail'_def entry_ok_def)
  have "labels (nodes_of cNode) = add_mset (n, no_entry) (labels (nodes_of child))" by (simp add: cNode_def)
  then have "edges_added Z c e n ((s, child) # es) True ((take len s, v') # es)"
    using v'(2) sub(1) es len(2,3)
    by (auto simp: edges_added_def node_added_def new_labels_def entry_bound_def first_char_take cNode_def d)
  moreover have "add_edges e n c tail ((s, child) # es) = Some (Ok ((take len s, v') # es, n + 2))"
    using first differ len(1) v'(1) by (simp add: cNode_def d_def)
  ultimately show ?thesis by blast
qed

lemma add_entry_step:
  assumes Z: "0 \<in> Z" and e: "entry_ok Z e"
  shows "trie_ok Z c v \<Longrightarrow> (\<exists>tail. we_name e = c @ tail) \<Longrightarrow> \<forall>w\<in>set (nodes_of v). we_name (nd_entry w) \<noteq> we_name e \<Longrightarrow>
      \<exists>v' split. add_entry e n v = Ok (v', next_id n split) \<and> node_added Z c e n v split v'"
    and "edges_ok Z c es \<Longrightarrow> we_name e = c @ tail \<Longrightarrow> \<forall>w\<in>set (nodes_of_edges es). we_name (nd_entry w) \<noteq> we_name e \<Longrightarrow>
      add_edges e n c tail es = None \<and> first_char tail \<notin> (first_char \<circ> fst) ` set es \<or>
      (\<exists>es' split. add_edges e n c tail es = Some (Ok (es', next_id n split)) \<and> edges_added Z c e n es split es')"
proof (induction e\<equiv>e n v and e\<equiv>e n c tail es arbitrary: c rule: add_entry_add_edges.induct)
  case (1 n i c' es t)
  then obtain tail where name: "we_name e = c @ tail" and c': "c' = c" by auto
  have es: "edges_ok Z c es" and other: "\<forall>w\<in>set (nodes_of_edges es). we_name (nd_entry w) \<noteq> we_name e"
    and t: "we_name t \<noteq> we_name e"
    using 1(2,4) by auto
  have tail: "drop (length c') (we_name e) = tail" using name c' by simp
  consider (leaf) "add_edges e n c tail es = None" "first_char tail \<notin> (first_char \<circ> fst) ` set es"
    | (below) es' split where "add_edges e n c tail es = Some (Ok (es', next_id n split))" "edges_added Z c e n es split es'"
    using 1(1) [OF tail [symmetric], unfolded c', OF es name other] by auto
  then show ?case
  proof cases
    case leaf
    then show ?thesis
      using add_leaf [OF 1(2) [unfolded c'] e name leaf(2) t leaf(1)] by (metis c' next_id_def)
  next
    case below
    have "add_entry e n (Node i c es t) = Ok (Node i c es' t, next_id n split)" using below(1) name by simp
    moreover have "node_added Z c e n (Node i c es t) split (Node i c es' t)"
      using below(2) 1(2) by (auto simp: node_added_def edges_added_def)
    ultimately show ?thesis unfolding c' by blast
  qed
next
  case (2 n c tail)
  then show ?case by simp
next
  case (3 n c tail s child es)
  have s: "set s \<inter> Z = {}" and child: "trie_ok Z (c @ s) child" and es: "edges_ok Z c es" using 3(5) by auto
  have other: "\<forall>w\<in>set (nodes_of child). we_name (nd_entry w) \<noteq> we_name e"
    "\<forall>w\<in>set (nodes_of_edges es). we_name (nd_entry w) \<noteq> we_name e"
    using 3(7) by auto
  consider (skip) "first_char s \<noteq> first_char tail"
    | (here) "first_char s = first_char tail" "take (length s) tail = s"
    | (split) "first_char s = first_char tail" "take (length s) tail \<noteq> s"
    by blast
  then show ?case
  proof cases
    case skip
    from 3(1) [OF skip es 3(6) other(2)] show ?thesis
    proof (elim disjE exE conjE)
      fix es' split
      assume "add_edges e n c tail es = Some (Ok (es', next_id n split))" and "edges_added Z c e n es split es'"
      then show ?thesis using skip edges_added_skip [OF _ s child] by (intro disjI2 exI conjI) auto
    qed (use skip in auto)
  next
    case here
    then have "we_name e = (c @ s) @ drop (length s) tail" using 3(6) by (metis append_assoc append_take_drop_id)
    then obtain child' split where "add_entry e n child = Ok (child', next_id n split)" "node_added Z (c @ s) e n child split child'"
      using 3(2) [OF _ _ child _ other(1)] here by auto
    then show ?thesis using here edges_added_here [OF _ s es] by (intro disjI2 exI conjI) auto
  next
    case split
    then show ?thesis using add_split [OF s Z child es e 3(6)] by (metis next_id_def)
  qed
qed

lemma trie_ok_nodes:
  "trie_ok Z c v \<Longrightarrow> w \<in> set (nodes_of v) \<Longrightarrow> trie_ok Z (nd_cummulative w) w"
  "edges_ok Z c es \<Longrightarrow> w \<in> set (nodes_of_edges es) \<Longrightarrow> trie_ok Z (nd_cummulative w) w"
  by (induction v and es arbitrary: c and c rule: nodes_of_nodes_of_edges.induct) auto

section \<open>Adding the symbols\<close>

text \<open>The entries of the nodes by their index in the vector.\<close>

definition trie_of :: "u8 set \<Rightarrow> writer_entry list \<Rightarrow> nat \<Rightarrow> trie_node \<Rightarrow> bool" where
  "trie_of Z L n v \<longleftrightarrow>
     trie_ok Z [] v \<and> length L = n \<and> labels (nodes_of v) = mset (zip [0..<n] L) \<and> nd_id v = 0 \<and> nd_entry v = no_entry"

abbreviation named :: "writer_entry \<Rightarrow> bool" where
  "named e \<equiv> we_name e \<noteq> []"

lemma zip_upt_snoc: "length L = n \<Longrightarrow> zip [0..<n + 1] (L @ [x]) = zip [0..<n] L @ [(n, x)]"
  by (simp add: zip_append1)

lemma trie_of_label:
  assumes "trie_of Z L n v" and "w \<in> set (nodes_of v)"
  shows "nd_id w < n \<and> L ! nd_id w = nd_entry w"
proof -
  have "(nd_id w, nd_entry w) \<in># labels (nodes_of v)" using assms(2) by (auto simp: labels_def)
  then have "(nd_id w, nd_entry w) \<in> set (zip [0..<n] L)" using assms(1) by (auto simp: trie_of_def)
  then show ?thesis using assms(1) by (auto simp: in_set_zip trie_of_def)
qed

lemma trie_of_step:
  assumes v: "trie_of Z L n v" and Z: "0 \<in> Z" and e: "entry_ok Z e" and new: "we_name e \<notin> we_name ` set (filter named L)"
  shows "\<exists>v' n' L'. add_entry e n v = Ok (v', n') \<and> trie_of Z L' n' v' \<and> filter named L' = filter named L @ [e] \<and>
    trie_bound v' \<le> trie_bound v + entry_bound e True"
proof -
  have "\<forall>w\<in>set (nodes_of v). we_name (nd_entry w) \<noteq> we_name e"
  proof
    fix w assume "w \<in> set (nodes_of v)"
    then have "nd_entry w \<in> set L" using trie_of_label [OF v] v by (metis nth_mem trie_of_def)
    then have "named (nd_entry w) \<Longrightarrow> we_name (nd_entry w) \<in> we_name ` set (filter named L)" by simp
    then show "we_name (nd_entry w) \<noteq> we_name e" using new e by (metis entry_ok_def)
  qed
  then obtain v' split where add: "add_entry e n v = Ok (v', next_id n split)" "node_added Z [] e n v split v'"
    using add_entry_step(1) [OF Z e, of "[]" v n] v by (auto simp: trie_of_def)
  define L' where "L' = (if split then L @ [no_entry] @ [e] else L @ [e])"
  have "mset (zip [0..<next_id n split] L') = mset (zip [0..<n] L) + new_labels e n split"
    using v zip_upt_snoc [of L n] zip_upt_snoc [of "L @ [no_entry]" "n + 1"]
    by (simp add: L'_def next_id_def new_labels_def trie_of_def)
  then have "trie_of Z L' (next_id n split) v'"
    using add(2) v by (simp add: trie_of_def node_added_def L'_def next_id_def)
  moreover have "filter named L' = filter named L @ [e]" using e by (simp add: L'_def entry_ok_def)
  moreover have "trie_bound v' \<le> trie_bound v + entry_bound e True"
    using add(2) by (simp add: node_added_def entry_bound_def split: if_splits)
  ultimately show ?thesis using add(1) by blast
qed

lemma add_entries_trie_of:
  assumes Z: "0 \<in> Z"
  shows "trie_of Z L n v \<Longrightarrow> \<forall>e\<in>set es. entry_ok Z e \<Longrightarrow> distinct (map we_name (filter named L @ es)) \<Longrightarrow>
    \<exists>v' n' L'. add_entries es v n = Ok (v', n') \<and> trie_of Z L' n' v' \<and> filter named L' = filter named L @ es \<and>
      trie_bound v' \<le> trie_bound v + (\<Sum>e\<leftarrow>es. entry_bound e True)"
proof (induction es arbitrary: L n v)
  case (Cons e es)
  obtain v' n' L' where step: "add_entry e n v = Ok (v', n')" "trie_of Z L' n' v'" "filter named L' = filter named L @ [e]"
      "trie_bound v' \<le> trie_bound v + entry_bound e True"
    using trie_of_step [OF Cons.prems(1) Z, of e] Cons.prems(2,3) by auto
  obtain w m M where "add_entries es v' n' = Ok (w, m)" "trie_of Z M m w" "filter named M = filter named L' @ es"
      "trie_bound w \<le> trie_bound v' + (\<Sum>e\<leftarrow>es. entry_bound e True)"
    using Cons.IH [OF step(2)] Cons.prems(2,3) step(3) by auto
  then show ?case using step by (intro exI [of _ w] exI [of _ m] exI [of _ M]) simp
qed auto

lemma empty_trie: "trie_of Z [no_entry] 1 (Node 0 [] [] no_entry)"
  by (simp add: trie_of_def)

lemma add_entries_empty:
  assumes "0 \<in> Z" and "\<forall>e\<in>set es. entry_ok Z e" and "distinct (map we_name es)"
  obtains v n L where "add_entries es (Node 0 [] [] no_entry) 1 = Ok (v, n)" and "trie_of Z L n v"
    and "filter named L = es" and "trie_bound v \<le> 2 + (\<Sum>e\<leftarrow>es. entry_bound e True)"
  using add_entries_trie_of [OF assms(1) empty_trie assms(2)] assms(3) by auto

section \<open>The vector of the nodes\<close>

lemma trie_of_ids:
  assumes "trie_of Z L n v"
  shows "mset (map nd_id (nodes_of v)) = mset [0..<n]"
proof -
  have "image_mset fst (labels (nodes_of v)) = mset (map fst (zip [0..<n] L))"
    using assms by (simp only: trie_of_def mset_map)
  moreover have "image_mset fst (labels (nodes_of v)) = mset (map nd_id (nodes_of v))"
    by (simp add: labels_def image_mset.compositionality comp_def)
  ultimately show ?thesis using assms by (simp only: trie_of_def map_fst_zip length_upt minus_nat.diff_0)
qed

lemma trie_of_inj:
  assumes "trie_of Z L n v"
  shows "distinct (map nd_id (nodes_of v))" "nd_id ` set (nodes_of v) = {0..<n}"
proof -
  show "distinct (map nd_id (nodes_of v))"
    using mset_eq_imp_distinct_iff [OF trie_of_ids [OF assms]] by simp
  show "nd_id ` set (nodes_of v) = {0..<n}"
    using mset_eq_setD [OF trie_of_ids [OF assms]] by (simp only: set_map set_upt)
qed

lemma all_nodes_at:
  assumes v: "trie_of Z L n v" and w: "w \<in> set (nodes_of v)"
  shows "all_nodes v n ! nd_id w = w"
proof -
  have n: "nd_id w < n" using trie_of_label [OF v w] by simp
  have "w \<in> set (filter (\<lambda>u. nd_id u = nd_id w) (nodes_of v))" using w by simp
  then have "hd (filter (\<lambda>u. nd_id u = nd_id w) (nodes_of v)) \<in> set (filter (\<lambda>u. nd_id u = nd_id w) (nodes_of v))"
    by (metis empty_iff hd_in_set list.set(1))
  then have "hd (filter (\<lambda>u. nd_id u = nd_id w) (nodes_of v)) = w"
    using trie_of_inj(1) [OF v] w by (auto simp: distinct_map inj_on_def)
  then show ?thesis using n by (simp add: all_nodes_def)
qed

lemma all_nodes_nth:
  assumes "trie_of Z L n v" and "i < n"
  shows "all_nodes v n ! i \<in> set (nodes_of v)" "nd_id (all_nodes v n ! i) = i" "nd_entry (all_nodes v n ! i) = L ! i"
proof -
  obtain w where "w \<in> set (nodes_of v)" "nd_id w = i"
    using trie_of_inj(2) [OF assms(1)] assms(2) by (metis atLeast0LessThan imageE lessThan_iff)
  then show "all_nodes v n ! i \<in> set (nodes_of v)" "nd_id (all_nodes v n ! i) = i" "nd_entry (all_nodes v n ! i) = L ! i"
    using all_nodes_at [OF assms(1)] trie_of_label [OF assms(1)] by auto
qed

lemma length_all_nodes [simp]: "length (all_nodes v n) = n"
  by (simp add: all_nodes_def)

lemma all_nodes_ids:
  assumes "trie_of Z L n v"
  shows "map nd_id (all_nodes v n) = [0..<n]"
  by (rule nth_equalityI) (use all_nodes_nth(2) [OF assms] in auto)

lemma all_nodes_entries:
  assumes "trie_of Z L n v"
  shows "map nd_entry (all_nodes v n) = L"
  by (rule nth_equalityI) (use all_nodes_nth(3) [OF assms] assms in \<open>auto simp: trie_of_def\<close>)

lemma mset_all_nodes:
  assumes "trie_of Z L n v"
  shows "mset (all_nodes v n) = mset (nodes_of v)"
proof (rule iffD1 [OF set_eq_iff_mset_eq_distinct])
  show "distinct (all_nodes v n)" using all_nodes_ids [OF assms] by (metis distinct_map distinct_upt)
  show "distinct (nodes_of v)" using trie_of_inj(1) [OF assms] by (simp add: distinct_map)
  show "set (all_nodes v n) = set (nodes_of v)"
  proof
    show "set (all_nodes v n) \<subseteq> set (nodes_of v)" using all_nodes_nth(1) [OF assms] by (auto simp: in_set_conv_nth)
    show "set (nodes_of v) \<subseteq> set (all_nodes v n)"
      using all_nodes_at [OF assms] trie_of_label [OF assms] by (metis length_all_nodes nth_mem subsetI)
  qed
qed

end
