(* ===== verification/Trie_Offsets.thy ===== *)
theory Trie_Offsets
  imports Trie_Build
begin

text \<open>
  The offsets of the nodes of an exports trie: the size of a node depends on the offsets of its children, so they are
  computed until none changes.  The theory shows that this ends, and that the stream then has every node at its
  offset.
\<close>

section \<open>The bytes of a node\<close>

definition edge_bytes :: "u32 list \<Rightarrow> bytes \<times> trie_node \<Rightarrow> bytes" where
  "edge_bytes offs = (\<lambda>(s, w). s @ [0] @ uleb_encode (unat (offs ! nd_id w)))"

definition node_bytes :: "bytes \<Rightarrow> u32 list \<Rightarrow> trie_node \<Rightarrow> bytes" where
  "node_bytes buf offs v =
     (if terminal v then uleb_encode (unat (we_size (nd_entry v))) @ payload buf (nd_entry v) else [0]) @
     [of_nat (length (nd_children v))] @ concat (map (edge_bytes offs) (nd_children v))"

definition node_len :: "u32 list \<Rightarrow> trie_node \<Rightarrow> nat" where
  "node_len offs v =
     (if terminal v then unat (we_size (nd_entry v)) + length (uleb_encode (unat (we_size (nd_entry v)))) else 1) + 1 +
     (\<Sum>e\<leftarrow>nd_children v. length (edge_bytes offs e))"

definition node_bound :: "trie_node \<Rightarrow> nat" where
  "node_bound v = (if terminal v then unat (we_size (nd_entry v)) + 6 else 2) + (\<Sum>(s, w)\<leftarrow>nd_children v. length s + 6)"

definition payload_ok :: "bytes \<Rightarrow> trie_node \<Rightarrow> bool" where
  "payload_ok buf v \<longleftrightarrow> (terminal v \<longrightarrow> length (payload buf (nd_entry v)) = unat (we_size (nd_entry v)))"

lemma unat_ucast_u32_u64 [simp]: "unat (ucast (v :: u32) :: u64) = unat v"
  by (simp add: unsigned_ucast_eq take_bit_nat_eq_self order.strict_trans2 [OF unsigned_less])

lemma length_node_bytes: "payload_ok buf v \<Longrightarrow> length (node_bytes buf offs v) = node_len offs v"
  by (simp add: node_bytes_def node_len_def payload_ok_def length_concat comp_def)

lemma append_edges:
  "fold (\<lambda>(s, w) out. append_uleb128 (ucast (offs ! nd_id w :: u32)) (append_string s out)) es out =
    out @ concat (map (edge_bytes offs) es)"
  by (induction es arbitrary: out) (auto simp: append_uleb128_encode append_string_def edge_bytes_def)

lemma append_to_stream_bytes: "append_to_stream buf offs v out = out @ node_bytes buf offs v"
  unfolding append_to_stream_def Let_def append_edges by (simp add: append_uleb128_encode node_bytes_def)

lemma node_size_edges:
  "fold (\<lambda>(s, w) k. k + (of_nat (length s) + 1 + uleb128_size (ucast (offs ! nd_id w :: u32)))) es (k :: u32) =
    k + of_nat (\<Sum>e\<leftarrow>es. length (edge_bytes offs e))"
  by (induction es arbitrary: k) (auto simp: uleb128_size_encode edge_bytes_def algebra_simps)

lemma node_size_len: "node_size offs v = of_nat (node_len offs v)"
  unfolding node_size_def Let_def node_size_edges by (simp add: node_len_def uleb128_size_encode)

lemma edges_len_bound: "(\<Sum>e\<leftarrow>es. length (edge_bytes offs e)) \<le> (\<Sum>(s, w)\<leftarrow>es. length s + 6)"
proof (rule sum_list_mono)
  fix e
  show "length (edge_bytes offs e) \<le> (case e of (s, w) \<Rightarrow> length s + 6)"
    using u32_uleb_length [of "offs ! nd_id (snd e)"] by (cases e) (auto simp: edge_bytes_def)
qed

lemma node_len_bound: "node_len offs v \<le> node_bound v"
  using edges_len_bound [of offs "nd_children v"] u32_uleb_length [of "we_size (nd_entry v)"]
  by (simp add: node_len_def node_bound_def)

lemma unat_node_size: "node_bound v < 2 ^ 32 \<Longrightarrow> unat (node_size offs v) = node_len offs v"
  using node_len_bound [of offs v] by (simp add: node_size_len unsigned_of_nat take_bit_nat_eq_self)

lemma nodes_bound:
  "(\<Sum>w\<leftarrow>nodes_of v. node_bound w) = trie_bound v"
  "(\<Sum>w\<leftarrow>nodes_of_edges es. node_bound w) + (\<Sum>(s, w)\<leftarrow>es. length s + 6) = edges_bound es"
  by (induction v and es rule: trie_bound_edges_bound.induct) (auto simp: node_bound_def)

section \<open>One round\<close>

text \<open>Every node is where the ones before it end.\<close>

fun laid_out :: "u32 list \<Rightarrow> trie_node list \<Rightarrow> nat \<Rightarrow> bool" where
  "laid_out offs [] p \<longleftrightarrow> True"
| "laid_out offs (v # vs) p \<longleftrightarrow> unat (offs ! nd_id v) = p \<and> laid_out offs vs (p + node_len offs v)"

definition children_below :: "nat \<Rightarrow> trie_node list \<Rightarrow> bool" where
  "children_below n vs \<longleftrightarrow> (\<forall>v\<in>set vs. \<forall>e\<in>set (nd_children v). nd_id (snd e) < n)"

abbreviation bound_from :: "u32 \<Rightarrow> trie_node list \<Rightarrow> bool" where
  "bound_from cur vs \<equiv> unat cur + (\<Sum>v\<leftarrow>vs. node_bound v) < 2 ^ 32"

lemma bound_from_next:
  assumes "bound_from cur (v # vs)"
  shows "unat (cur + node_size offs v) = unat cur + node_len offs v" "bound_from (cur + node_size offs v) vs"
proof -
  have size: "unat (node_size offs v) = node_len offs v" using assms by (intro unat_node_size) simp
  show "unat (cur + node_size offs v) = unat cur + node_len offs v"
    using assms node_len_bound [of offs v] size by (subst unat_add_lem [THEN iffD1]) auto
  then show "bound_from (cur + node_size offs v) vs" using assms node_len_bound [of offs v] by simp
qed

lemma update_offsets_Cons:
  "update_offsets (v # vs) cur offs =
    (fst (update_offsets vs (cur + node_size offs v) (offs[nd_id v := cur])),
     offs ! nd_id v \<noteq> cur \<or> snd (update_offsets vs (cur + node_size offs v) (offs[nd_id v := cur])))"
  by (simp add: Let_def split: prod.split)

declare update_offsets.simps(2) [simp del]

lemma length_update_offsets [simp]: "length (fst (update_offsets vs cur offs)) = length offs"
  by (induction vs arbitrary: cur offs) (auto simp: update_offsets_Cons)

lemma update_offsets_fixed:
  assumes "bound_from cur vs" and "\<not> snd (update_offsets vs cur offs)"
  shows "fst (update_offsets vs cur offs) = offs \<and> laid_out offs vs (unat cur)"
  using assms
proof (induction vs arbitrary: cur)
  case (Cons v vs)
  note next_v = bound_from_next [OF Cons.prems(1), of offs]
  have same: "offs ! nd_id v = cur" using Cons.prems(2) by (simp add: update_offsets_Cons)
  then have "offs[nd_id v := cur] = offs" by auto
  then show ?case using Cons.IH [OF next_v(2)] Cons.prems(2) next_v(1) same by (auto simp: update_offsets_Cons)
qed simp

lemma update_offsets_other: "i \<notin> nd_id ` set vs \<Longrightarrow> fst (update_offsets vs cur offs) ! i = offs ! i"
  by (induction vs arbitrary: cur offs) (auto simp: update_offsets_Cons)

lemma update_offsets_changed:
  assumes "snd (update_offsets vs cur offs)" and "distinct (map nd_id vs)" and "\<forall>v\<in>set vs. nd_id v < length offs"
  shows "fst (update_offsets vs cur offs) \<noteq> offs"
  using assms
proof (induction vs arbitrary: cur)
  case (Cons v vs)
  show ?case
  proof (cases "offs ! nd_id v = cur")
    case True
    then have "offs[nd_id v := cur] = offs" by auto
    then show ?thesis using Cons True by (simp add: update_offsets_Cons)
  next
    case False
    have "fst (update_offsets (v # vs) cur offs) ! nd_id v = cur"
      using Cons.prems(2,3) update_offsets_other [of "nd_id v" vs] by (simp add: update_offsets_Cons)
    then show ?thesis using False by metis
  qed
qed simp

lemma node_len_mono:
  assumes "list_all2 (\<le>) offs offs'" and "\<forall>e\<in>set (nd_children v). nd_id (snd e) < length offs"
  shows "node_len offs v \<le> node_len offs' v"
proof -
  have "(\<Sum>e\<leftarrow>nd_children v. length (edge_bytes offs e)) \<le> (\<Sum>e\<leftarrow>nd_children v. length (edge_bytes offs' e))"
  proof (rule sum_list_mono)
    fix e assume "e \<in> set (nd_children v)"
    then have "offs ! nd_id (snd e) \<le> offs' ! nd_id (snd e)" using assms by (auto simp: list_all2_conv_all_nth)
    then show "length (edge_bytes offs e) \<le> length (edge_bytes offs' e)"
      using uleb_length_mono by (cases e) (auto simp: edge_bytes_def word_le_nat_alt)
  qed
  then show ?thesis by (simp add: node_len_def)
qed

lemma update_offsets_mono:
  assumes "list_all2 (\<le>) offs offs'" and "cur \<le> cur'" and "bound_from cur' vs" and "children_below (length offs) vs"
  shows "list_all2 (\<le>) (fst (update_offsets vs cur offs)) (fst (update_offsets vs cur' offs'))"
  using assms
proof (induction vs arbitrary: cur cur' offs offs')
  case (Cons v vs)
  have "bound_from cur (v # vs)" using Cons.prems(2,3) by (simp add: word_le_nat_alt)
  note below = bound_from_next [OF this, of offs] and above = bound_from_next [OF Cons.prems(3), of offs']
  have "node_len offs v \<le> node_len offs' v"
    using node_len_mono [OF Cons.prems(1)] Cons.prems(4) by (simp add: children_below_def)
  then have "cur + node_size offs v \<le> cur' + node_size offs' v"
    using below(1) above(1) Cons.prems(2) by (simp add: word_le_nat_alt)
  moreover have "list_all2 (\<le>) (offs[nd_id v := cur]) (offs'[nd_id v := cur'])"
    using Cons.prems(1,2) by (rule list_all2_update_cong)
  ultimately show ?case
    using Cons.IH above(2) Cons.prems(4) by (simp add: update_offsets_Cons children_below_def)
qed simp

section \<open>The loop\<close>

lemma sum_strict:
  assumes "list_all2 (\<le>) xs ys" and "xs \<noteq> ys"
  shows "(\<Sum>x\<leftarrow>xs. unat x) < (\<Sum>y\<leftarrow>ys. unat (y :: u32))"
  using assms
proof (induction xs ys rule: list_all2_induct)
  case (Cons x xs y ys)
  have le: "(\<Sum>x\<leftarrow>xs. unat x) \<le> (\<Sum>y\<leftarrow>ys. unat y)" using Cons(3) by (cases "xs = ys") auto
  show ?case
  proof (cases "x = y")
    case False
    then have "unat x < unat y" using Cons(1) by (metis order.not_eq_order_implies_strict word_less_nat_alt)
    then show ?thesis using le by simp
  qed (use Cons in auto)
qed simp

lemma sum_u32_bound: "(\<Sum>x\<leftarrow>xs. unat (x :: u32)) \<le> length xs * 2 ^ 32"
proof (induction xs)
  case (Cons x xs)
  then show ?case using unsigned_less [of x, where 'a = nat] by simp
qed simp

lemma assign_offsets_ends:
  assumes "bound_from 0 vs" and "distinct (map nd_id vs)" and "\<forall>v\<in>set vs. nd_id v < length offs"
    and "children_below (length offs) vs" and "list_all2 (\<le>) offs (fst (update_offsets vs 0 offs))"
  shows "\<exists>offs'. assign_offsets vs offs = Some offs' \<and> length offs' = length offs \<and> laid_out offs' vs 0"
  using assms(3-5)
proof (induction "length offs * 2 ^ 32 - (\<Sum>x\<leftarrow>offs. unat x)" arbitrary: offs rule: less_induct)
  case less
  obtain offs' again where round: "update_offsets vs 0 offs = (offs', again)" by fastforce
  have len: "length offs' = length offs" using length_update_offsets [of vs 0 offs] round by simp
  show ?case
  proof (cases again)
    case False
    then show ?thesis
      using update_offsets_fixed [OF assms(1), of offs] round by (subst assign_offsets.simps) simp
  next
    case True
    have "offs' \<noteq> offs" using update_offsets_changed [OF _ assms(2) less(2), of 0] round True by auto
    then have "(\<Sum>x\<leftarrow>offs. unat x) < (\<Sum>x\<leftarrow>offs'. unat x)" using sum_strict less(4) round by auto
    then have smaller: "length offs' * 2 ^ 32 - (\<Sum>x\<leftarrow>offs'. unat x) < length offs * 2 ^ 32 - (\<Sum>x\<leftarrow>offs. unat x)"
      using sum_u32_bound [of offs'] len by simp
    have "list_all2 (\<le>) offs' (fst (update_offsets vs 0 offs'))"
      using update_offsets_mono [OF less(4) _ assms(1) less(3), of 0] round by simp
    then obtain offs'' where "assign_offsets vs offs' = Some offs''" "length offs'' = length offs'" "laid_out offs'' vs 0"
      using less(1) [OF smaller] less(2,3) len by auto
    then show ?thesis using round True len by (subst assign_offsets.simps) simp
  qed
qed

section \<open>The stream\<close>

abbreviation stream :: "bytes \<Rightarrow> u32 list \<Rightarrow> trie_node list \<Rightarrow> bytes" where
  "stream buf offs vs \<equiv> concat (map (node_bytes buf offs) vs)"

lemma append_nodes_stream:
  assumes "laid_out offs vs (length out)" and "\<forall>v\<in>set vs. payload_ok buf v"
  shows "append_nodes buf offs vs out = Ok (out @ stream buf offs vs)"
  using assms by (induction vs arbitrary: out) (auto simp: append_to_stream_bytes length_node_bytes guard_def)

lemma pad_to_8_zeros: "\<exists>k<8. pad_to_8 out = out @ replicate k 0 \<and> (length out + k) mod 8 = 0"
proof (induction "(8 - length out mod 8) mod 8" arbitrary: out rule: less_induct)
  case less
  show ?case
  proof (cases "length out mod 8 = 0")
    case True
    then show ?thesis by (subst pad_to_8.simps) (auto intro!: exI [of _ 0])
  next
    case False
    have pad: "pad_to_8 out = pad_to_8 (out @ [0])" using False by (subst pad_to_8.simps) simp
    have "(8 - length (out @ [0]) mod 8) mod 8 < (8 - length out mod 8) mod 8" using False by (auto simp: mod_Suc)
    then obtain k where k: "pad_to_8 (out @ [0]) = (out @ [0]) @ replicate k 0" "k < 8" "(length out + Suc k) mod 8 = 0"
      using less [of "out @ [0]"] by auto
    have "Suc k \<noteq> 8" using k(3) False by auto
    then show ?thesis using k pad by (intro exI [of _ "Suc k"]) auto
  qed
qed

lemma laid_out_at:
  assumes "laid_out offs (as @ v # bs) p" and "\<forall>w\<in>set as. payload_ok buf w"
  shows "unat (offs ! nd_id v) = p + length (stream buf offs as)"
  using assms by (induction as arbitrary: p) (auto simp: length_node_bytes)

text \<open>A node is found in the stream at its offset.\<close>

lemma laid_out_stream:
  assumes "laid_out offs vs 0" and "\<forall>v\<in>set vs. payload_ok buf v" and "v \<in> set vs"
  shows "\<exists>rest. drop (unat (offs ! nd_id v)) (stream buf offs vs @ post) = node_bytes buf offs v @ rest"
proof -
  obtain as bs where vs: "vs = as @ v # bs" using assms(3) by (meson split_list)
  then have "unat (offs ! nd_id v) = length (stream buf offs as)"
    using laid_out_at [of offs as v bs 0 buf] assms(1,2) by simp
  then show ?thesis using vs by simp
qed

text \<open>The offsets are different, and only the first is zero.\<close>

lemma laid_out_after: "laid_out offs vs p \<Longrightarrow> w \<in> set vs \<Longrightarrow> p \<le> unat (offs ! nd_id w)"
  by (induction vs arbitrary: p) fastforce+

lemma node_len_positive: "2 \<le> node_len offs v"
  using length_greater_0_conv [of "uleb_encode (unat (we_size (nd_entry v)))"] by (simp add: node_len_def del: length_greater_0_conv)

lemma laid_out_sorted:
  "laid_out offs vs p \<Longrightarrow> sorted_wrt (\<lambda>v w. unat (offs ! nd_id v) + node_len offs v \<le> unat (offs ! nd_id w)) vs"
proof (induction vs arbitrary: p)
  case (Cons v vs)
  then show ?case using laid_out_after [of offs vs "p + node_len offs v"] by fastforce
qed simp

section \<open>A trie that has been built\<close>

lemma nodes_of_self: "v \<in> set (nodes_of v)"
  by (cases v) simp

lemma nodes_of_edge: "(s, w) \<in> set es \<Longrightarrow> w \<in> set (nodes_of_edges es)"
  using nodes_of_self by (induction es) auto

lemma nodes_of_children:
  "w \<in> set (nodes_of v) \<Longrightarrow> (s, u) \<in> set (nd_children w) \<Longrightarrow> u \<in> set (nodes_of v)"
  "w \<in> set (nodes_of_edges es) \<Longrightarrow> (s, u) \<in> set (nd_children w) \<Longrightarrow> u \<in> set (nodes_of_edges es)"
  by (induction v and es rule: nodes_of_nodes_of_edges.induct) (auto intro: nodes_of_edge)

text \<open>The entries, and the buffer with what they carry.\<close>

definition buildable :: "u8 set \<Rightarrow> writer_entry list \<Rightarrow> bytes \<Rightarrow> bool" where
  "buildable Z es buf \<longleftrightarrow>
     0 \<in> Z \<and> (\<forall>e\<in>set es. entry_ok Z e \<and> length (payload buf e) = unat (we_size e)) \<and> distinct (map we_name es) \<and>
     2 + (\<Sum>e\<leftarrow>es. entry_bound e True) < 2 ^ 32"

definition trie_built :: "u8 set \<Rightarrow> writer_entry list \<Rightarrow> bytes \<Rightarrow> writer_entry list \<Rightarrow> nat \<Rightarrow> trie_node \<Rightarrow> u32 list \<Rightarrow> bool" where
  "trie_built Z es buf L n v offs \<longleftrightarrow>
     trie_of Z L n v \<and> filter named L = es \<and> (\<forall>w\<in>set (nodes_of v). payload_ok buf w) \<and>
     laid_out offs (all_nodes v n) 0"

lemma replicate_zero_le: "length offs = n \<Longrightarrow> list_all2 (\<le>) (replicate n (0 :: u32)) offs"
  by (simp add: list_all2_conv_all_nth)

lemma length_stream_bound:
  "\<forall>w\<in>set vs. payload_ok buf w \<Longrightarrow> length (stream buf offs vs) \<le> (\<Sum>w\<leftarrow>vs. node_bound w)"
proof (induction vs)
  case (Cons v vs)
  then show ?case using node_len_bound [of offs v] by (simp add: length_node_bytes)
qed simp

lemma build_ok:
  assumes "buildable Z es buf"
  obtains L n v offs k where "trie_built Z es buf L n v offs"
    and "buildTrieBytes es buf = Some (Ok (stream buf offs (all_nodes v n) @ replicate k 0))"
    and "length (stream buf offs (all_nodes v n) @ replicate k 0) mod 8 = 0"
    and "length (stream buf offs (all_nodes v n) @ replicate k 0) \<le> 10 + (\<Sum>e\<leftarrow>es. entry_bound e True)"
    and "add_entries es (Node 0 [] [] no_entry) 1 = Ok (v, n)"
    and "assign_offsets (all_nodes v n) (replicate n 0) = Some offs"
proof -
  obtain v n L where add: "add_entries es (Node 0 [] [] no_entry) 1 = Ok (v, n)" and v: "trie_of Z L n v"
      and L: "filter named L = es" and bound: "trie_bound v \<le> 2 + (\<Sum>e\<leftarrow>es. entry_bound e True)"
    using add_entries_empty [of Z es] assms by (auto simp: buildable_def)
  let ?nodes = "all_nodes v n"
  have set_nodes: "set ?nodes = set (nodes_of v)" using mset_eq_setD [OF mset_all_nodes [OF v]] .
  have payloads: "\<forall>w\<in>set (nodes_of v). payload_ok buf w"
  proof
    fix w assume "w \<in> set (nodes_of v)"
    then have "nd_entry w \<in> set L" using trie_of_label [OF v] v by (metis nth_mem trie_of_def)
    then have "terminal w \<Longrightarrow> nd_entry w \<in> set es" using L by auto
    then show "payload_ok buf w" using assms by (auto simp: payload_ok_def buildable_def)
  qed
  have sum: "(\<Sum>w\<leftarrow>?nodes. node_bound w) = trie_bound v"
    using mset_all_nodes [OF v] nodes_bound(1) [of v] by (metis mset_map sum_mset_sum_list)
  then have from0: "bound_from 0 ?nodes" using bound assms by (simp add: buildable_def)
  have len: "length (stream buf offs ?nodes) \<le> 2 + (\<Sum>e\<leftarrow>es. entry_bound e True)" for offs
    using length_stream_bound [of ?nodes buf offs] payloads set_nodes sum bound by simp
  have "\<exists>offs. assign_offsets ?nodes (replicate n 0) = Some offs \<and> length offs = length (replicate n (0 :: u32)) \<and>
      laid_out offs ?nodes 0"
  proof (rule assign_offsets_ends [OF from0])
    show "distinct (map nd_id ?nodes)" using all_nodes_ids [OF v] by simp
    show "\<forall>w\<in>set ?nodes. nd_id w < length (replicate n (0 :: u32))"
      using set_nodes trie_of_label [OF v] by simp
    show "children_below (length (replicate n (0 :: u32))) ?nodes"
      using set_nodes nodes_of_children(1) trie_of_label [OF v] by (fastforce simp: children_below_def)
    show "list_all2 (\<le>) (replicate n 0) (fst (update_offsets ?nodes 0 (replicate n 0)))"
      by (rule replicate_zero_le) simp
  qed
  then obtain offs where offs: "assign_offsets ?nodes (replicate n 0) = Some offs" "laid_out offs ?nodes 0" by blast
  have "append_nodes buf offs ?nodes [] = Ok (stream buf offs ?nodes)"
    using append_nodes_stream [of offs ?nodes "[]" buf] offs(2) payloads set_nodes by simp
  moreover obtain k where k: "k < 8" "pad_to_8 (stream buf offs ?nodes) = stream buf offs ?nodes @ replicate k 0"
      "(length (stream buf offs ?nodes) + k) mod 8 = 0"
    by (rule exE [OF pad_to_8_zeros [of "stream buf offs ?nodes"]]) (elim conjE)
  ultimately have trie: "buildTrieBytes es buf = Some (Ok (stream buf offs ?nodes @ replicate k 0))"
    using add offs(1) by (simp add: buildTrieBytes_def)
  have built: "trie_built Z es buf L n v offs" using v L payloads offs(2) by (simp add: trie_built_def)
  have aligned: "length (stream buf offs ?nodes @ replicate k 0) mod 8 = 0" using k(3) by simp
  have "length (stream buf offs ?nodes @ replicate k 0) \<le> 10 + (\<Sum>e\<leftarrow>es. entry_bound e True)"
    using len [of offs] k(1) unfolding length_append length_replicate by linarith
  then show thesis by (rule that [OF built trie aligned _ add offs(1)])
qed

text \<open>
  C9.  The symbols that \<open>ExportsTrie\<close> is given become the terminal nodes of its trie, one for each and in the same
  order, whatever the order of the names is: none is taken for a duplicate, every node that is made is found once in
  the vector of the nodes, and the string of a terminal node is the name of its symbol.
\<close>

theorem symbols_become_nodes:
  assumes "0 \<in> Z" and "\<forall>e\<in>set es. entry_ok Z e" and "distinct (map we_name es)"
  shows "\<exists>v n. add_entries es (Node 0 [] [] no_entry) 1 = Ok (v, n) \<and>
    map nd_entry (filter terminal (all_nodes v n)) = es \<and> mset (all_nodes v n) = mset (nodes_of v) \<and>
    map nd_id (all_nodes v n) = [0..<n] \<and> trie_ok Z [] v \<and>
    map nd_cummulative (filter terminal (all_nodes v n)) = map we_name es"
proof -
  obtain v n L where add: "add_entries es (Node 0 [] [] no_entry) 1 = Ok (v, n)" and v: "trie_of Z L n v" and L: "filter named L = es"
    using add_entries_empty [OF assms] by metis
  have entries: "map nd_entry (filter terminal (all_nodes v n)) = es"
    using all_nodes_entries [OF v] L by (auto simp: filter_map comp_def)
  have ok: "trie_ok Z [] v" using v by (simp add: trie_of_def)
  have "nd_cummulative w = we_name (nd_entry w)" if "w \<in> set (all_nodes v n)" "terminal w" for w
  proof -
    have "trie_ok Z (nd_cummulative w) w"
      using trie_ok_nodes(1) [OF ok] that(1) mset_eq_setD [OF mset_all_nodes [OF v]] by simp
    then show ?thesis using that(2) by (cases w) auto
  qed
  then have "map nd_cummulative (filter terminal (all_nodes v n)) = map we_name (map nd_entry (filter terminal (all_nodes v n)))"
    by simp
  then show ?thesis using add entries mset_all_nodes [OF v] all_nodes_ids [OF v] ok by auto
qed

text \<open>
  C8.  The loop of \<open>buildTrieBytes\<close> that computes the offsets ends, although the size of a node depends on the
  offsets of its children and these may stand before it or behind it: from zeros the offsets only grow, and as long as
  the nodes fit in 32 bits they settle.  Then every node begins where the one before it ends.
\<close>

theorem offsets_settle:
  assumes "buildable Z es buf"
  shows "\<exists>v n offs. add_entries es (Node 0 [] [] no_entry) 1 = Ok (v, n) \<and>
    assign_offsets (all_nodes v n) (replicate n 0) = Some offs \<and> laid_out offs (all_nodes v n) 0"
proof -
  obtain L n v offs where "trie_built Z es buf L n v offs" "add_entries es (Node 0 [] [] no_entry) 1 = Ok (v, n)"
      "assign_offsets (all_nodes v n) (replicate n 0) = Some offs"
    using build_ok [OF assms] by metis
  then show ?thesis by (auto simp: trie_built_def)
qed

section \<open>Witnesses\<close>

text \<open>The names \<open>_ab\<close>, \<open>_a\<close>, \<open>_ac\<close>: an edge is divided, and then a name ends at an inner node.\<close>

abbreviation sample_entries :: "writer_entry list" where
  "sample_entries \<equiv>
     [\<lparr>we_name = [95, 97, 98], we_offset = 0, we_size = 2\<rparr>, \<lparr>we_name = [95, 97], we_offset = 2, we_size = 2\<rparr>,
      \<lparr>we_name = [95, 97, 99], we_offset = 4, we_size = 3\<rparr>]"

abbreviation sample_buffer :: bytes where
  "sample_buffer \<equiv> [0, 16, 0, 32, 0, 128, 1]"

lemma sample_buildable: "buildable {0, 255} sample_entries sample_buffer"
  by (simp add: buildable_def entry_ok_def entry_bound_def payload_def subbytes_def)

theorem symbols_become_nodes_witness:
  "\<exists>v n. add_entries sample_entries (Node 0 [] [] no_entry) 1 = Ok (v, n) \<and>
    map nd_entry (filter terminal (all_nodes v n)) = sample_entries \<and>
    map nd_cummulative (filter terminal (all_nodes v n)) = [[95, 97, 98], [95, 97], [95, 97, 99]]"
proof -
  have "\<forall>e\<in>set sample_entries. entry_ok {0, 255} e" "distinct (map we_name sample_entries)"
    by (simp_all add: entry_ok_def)
  from symbols_become_nodes [OF _ this] show ?thesis by auto
qed

theorem offsets_settle_witness:
  "\<exists>v n offs. add_entries sample_entries (Node 0 [] [] no_entry) 1 = Ok (v, n) \<and>
    assign_offsets (all_nodes v n) (replicate n 0) = Some offs \<and> laid_out offs (all_nodes v n) 0"
  by (rule offsets_settle [OF sample_buildable])

end
