(* ===== verification/Trie_Round_Trip.thy ===== *)
theory Trie_Round_Trip
  imports Trie_Offsets
begin

text \<open>
  An exports trie that has been built is read back: \<open>parseTrie\<close> returns the symbols in the order in which they have
  been added, and \<open>prune_trie\<close> leaves a trie of the ones that are kept.
\<close>

section \<open>Reading a node\<close>

definition payload_at :: "u32 list \<Rightarrow> trie_node \<Rightarrow> nat" where
  "payload_at offs w = unat (offs ! nd_id w) + length (uleb_encode (unat (we_size (nd_entry w))))"

text \<open>A node that is at its offset in \<open>m\<close>; \<open>found\<close> is what the reader makes of its entry.\<close>

definition node_at :: "bytes \<Rightarrow> bytes \<Rightarrow> u32 list \<Rightarrow> (trie_node \<Rightarrow> nat \<times> trie_entry) \<Rightarrow> trie_node \<Rightarrow> bool" where
  "node_at m buf offs found w \<longleftrightarrow>
     (\<exists>rest. drop (unat (offs ! nd_id w)) m = node_bytes buf offs w @ rest) \<and> payload_ok buf w \<and>
     length (nd_children w) < 256 \<and> length (nd_cummulative w) < length m \<and>
     (\<forall>e\<in>set (nd_children w). offs ! nd_id (snd e) \<noteq> 0) \<and>
     (terminal w \<longrightarrow> we_size (nd_entry w) \<noteq> 0 \<and> terminal_entry m (payload_at offs w) (nd_cummulative w) = Ok (found w))"

lemma node_header_at:
  assumes w: "node_at m buf offs found w"
    and name: "cummulative = Some (nd_cummulative w) \<or> cummulative = None \<and> \<not> terminal w"
  shows "\<exists>q rest. node_header m (unat (offs ! nd_id w)) cummulative out =
      Ok (length (nd_children w), q, out @ (if terminal w then [found w] else [])) \<and>
    drop q m = concat (map (edge_bytes offs) (nd_children w)) @ rest"
proof -
  define sz where "sz = (if terminal w then we_size (nd_entry w) else 0)"
  define pl where "pl = (if terminal w then payload buf (nd_entry w) else [])"
  let ?p = "unat (offs ! nd_id w)"
  let ?q = "?p + length (uleb_encode (unat sz))"
  let ?edges = "concat (map (edge_bytes offs) (nd_children w))"
  obtain rest where "drop ?p m = node_bytes buf offs w @ rest" using w by (auto simp: node_at_def)
  moreover have "node_bytes buf offs w = uleb_encode (unat sz) @ pl @ [of_nat (length (nd_children w))] @ ?edges"
    by (simp add: node_bytes_def sz_def pl_def uleb_encode.simps [of 0])
  ultimately have at: "drop ?p m = uleb_encode (unat sz) @ pl @ of_nat (length (nd_children w)) # ?edges @ rest" by simp
  have pl: "length pl = unat sz" using w by (simp add: pl_def sz_def node_at_def payload_ok_def)
  have start: "?p < length m" using at by (metis append_is_Nil_conv drop_all leI list.distinct(1))
  have "unat sz < 2 ^ 64" using unsigned_less [of sz, where 'a = nat] by simp
  then have read: "read_uleb128_trie m ?p = Ok (of_nat (unat sz), ?q)" using read_uleb_encoded [OF at] by simp
  have sz: "unat (of_nat (unat sz) :: u64) = unat sz"
    using unsigned_less [of sz, where 'a = nat] by (simp add: unsigned_of_nat take_bit_nat_eq_self)
  then have zero: "(of_nat (unat sz) :: u64) = 0 \<longleftrightarrow> \<not> terminal w"
    using w by (metis node_at_def sz_def unat_eq_0 unsigned_0)
  have children: "drop (?q + unat sz) m = of_nat (length (nd_children w)) # ?edges @ rest"
    using drop_behind [OF drop_behind [OF at]] pl by simp
  note inside = drop_inside [OF children]
  have behind: "drop (?q + unat sz + 1) m = ?edges @ rest"
    using children by (metis Suc_eq_plus1 drop_Suc list.sel(3) tl_drop)
  have count: "unat (of_nat (length (nd_children w)) :: u8) = length (nd_children w)"
    using w by (simp add: node_at_def unsigned_of_nat take_bit_nat_eq_self)
  have entry: "terminal w \<Longrightarrow> terminal_entry m ?q (nd_cummulative w) = Ok (found w)"
    using w by (simp add: node_at_def sz_def payload_at_def)
  have "node_header m ?p cummulative out =
      Ok (length (nd_children w), ?q + unat sz + 1, out @ (if terminal w then [found w] else []))"
    using start read sz zero name inside entry count
    by (auto simp: node_header_def Let_def guard_def within_def)
  then show ?thesis using behind by blast
qed

section \<open>Reading a trie\<close>

lemma edge_string_read:
  assumes "drop q m = s @ 0 # rest" and "0 \<notin> set s" and "length (c @ s) < length m"
  shows "edge_string m q c = Ok (c @ s, q + length s + 1)"
  using assms
proof (induction s arbitrary: q c)
  case Nil
  then show ?case using drop_inside [of q m 0 rest] by (subst edge_string.simps) simp
next
  case (Cons x s)
  then have "drop (q + 1) m = s @ 0 # rest" using drop_behind [of q m "[x]"] by simp
  then show ?case
    using Cons drop_inside [of q m x "s @ 0 # rest"] by (subst edge_string.simps) simp
qed

lemma child_offset_u32 [simp]: "ucast (ucast (x :: u32) :: u64) = x"
  by (rule bit_word_eqI) (simp add: bit_simps)

lemma process_children_at:
  assumes Z: "0 \<in> Z"
  shows "trie_ok Z c v \<Longrightarrow> \<forall>w\<in>set (nodes_of v). node_at m buf offs found w \<Longrightarrow>
      \<exists>count q out'. node_header m (unat (offs ! nd_id v)) (Some c) out = Ok (count, q, out') \<and>
        process_children m count q c out' = Some (Ok (out @ map found (filter terminal (nodes_of v))))"
    and "edges_ok Z c es \<Longrightarrow> \<forall>w\<in>set (nodes_of_edges es). node_at m buf offs found w \<Longrightarrow>
      \<forall>e\<in>set es. offs ! nd_id (snd e) \<noteq> 0 \<Longrightarrow> drop q m = concat (map (edge_bytes offs) es) @ rest \<Longrightarrow>
      process_children m (length es) q c out = Some (Ok (out @ map found (filter terminal (nodes_of_edges es))))"
proof (induction v and es arbitrary: c out and c out q rest rule: nodes_of_nodes_of_edges.induct)
  case (1 i c' es t)
  let ?v = "Node i c' es t"
  have v: "node_at m buf offs found ?v" and c': "c' = c" and es: "edges_ok Z c es" using 1(2,3) by auto
  obtain q rest where header: "node_header m (unat (offs ! nd_id ?v)) (Some c) out =
      Ok (length es, q, out @ (if terminal ?v then [found ?v] else []))" "drop q m = concat (map (edge_bytes offs) es) @ rest"
    using node_header_at [OF v, of "Some c" out] c' by auto
  have "process_children m (length es) q c (out @ (if terminal ?v then [found ?v] else [])) =
      Some (Ok (out @ map found (filter terminal (nodes_of ?v))))"
    using 1(1) [OF es _ _ header(2)] 1(3) v by (simp add: node_at_def)
  then show ?case using header(1) by blast
next
  case 2
  then show ?case by (subst process_children.simps) simp
next
  case (3 s v es)
  have s: "0 \<notin> set s" and v: "trie_ok Z (c @ s) v" and es: "edges_ok Z c es" using 3(3) Z by auto
  have nodes: "\<forall>w\<in>set (nodes_of v). node_at m buf offs found w" "\<forall>w\<in>set (nodes_of_edges es). node_at m buf offs found w"
    using 3(4) by auto
  have cum: "nd_cummulative v = c @ s" using v by (cases v) simp
  have "length (c @ s) < length m" using nodes(1) nodes_of_self [of v] cum by (metis node_at_def)
  moreover have at: "drop q m = s @ 0 # uleb_encode (unat (offs ! nd_id v)) @ concat (map (edge_bytes offs) es) @ rest"
    using 3(6) by (simp add: edge_bytes_def)
  ultimately have name: "edge_string m q c = Ok (c @ s, q + length s + 1)" using edge_string_read s by blast
  have after_name: "drop (q + length s + 1) m = uleb_encode (unat (offs ! nd_id v)) @ concat (map (edge_bytes offs) es) @ rest"
    using drop_behind [of q m "s @ [0]"] at by simp
  have "unat (offs ! nd_id v) < 2 ^ 64" using unsigned_less [of "offs ! nd_id v", where 'a = nat] by simp
  then have read: "read_uleb128_trie m (q + length s + 1) =
      Ok (of_nat (unat (offs ! nd_id v)), q + length s + 1 + length (uleb_encode (unat (offs ! nd_id v))))"
    using read_uleb_encoded [OF after_name] by simp
  obtain count p out' where child: "node_header m (unat (offs ! nd_id v)) (Some (c @ s)) out = Ok (count, p, out')"
      "process_children m count p (c @ s) out' = Some (Ok (out @ map found (filter terminal (nodes_of v))))"
    using 3(1) [OF v nodes(1)] by blast
  have rest: "process_children m (length es) (q + length s + 1 + length (uleb_encode (unat (offs ! nd_id v)))) c
      (out @ map found (filter terminal (nodes_of v))) =
    Some (Ok ((out @ map found (filter terminal (nodes_of v))) @ map found (filter terminal (nodes_of_edges es))))"
    using 3(2) [OF es nodes(2) _ drop_behind [OF after_name]] 3(5) by simp
  have "offs ! nd_id v \<noteq> 0" using 3(5) by simp
  then show ?case
    using name read child rest by (subst process_children.simps) (simp add: guard_def Let_def)
qed

section \<open>A built trie has its nodes in place\<close>

lemma edges_ok_strings: "edges_ok Z c es \<Longrightarrow> e \<in> set es \<Longrightarrow> set (fst e) \<inter> Z = {}"
  by (induction es) auto

text \<open>With a character that no name has there are at most 255 children.\<close>

lemma children_less_256:
  assumes "trie_ok Z c w" and "b \<in> Z" and "b \<noteq> 0"
  shows "length (nd_children w) < 256"
proof -
  let ?firsts = "map (first_char \<circ> fst) (nd_children w)"
  have w: "distinct ?firsts" "edges_ok Z c (nd_children w)" using assms(1) by (cases w; auto)+
  have "b \<notin> set ?firsts"
  proof
    assume "b \<in> set ?firsts"
    then obtain e where e: "e \<in> set (nd_children w)" "first_char (fst e) = b" by auto
    then have "b \<in> set (fst e)" using assms(3) by (cases "fst e") auto
    then show False using edges_ok_strings [OF w(2) e(1)] assms(2) by auto
  qed
  then have "set ?firsts \<subset> UNIV" by auto
  then have "card (set ?firsts) < card (UNIV :: u8 set)" by (intro psubset_card_mono) auto
  then show ?thesis using distinct_card [OF w(1)] by (simp add: card_word)
qed

definition strings_len :: "(bytes \<times> trie_node) list \<Rightarrow> nat" where
  "strings_len es = (\<Sum>e\<leftarrow>es. length (fst e))"

lemma cummulative_length:
  "trie_ok Z c v \<Longrightarrow> w \<in> set (nodes_of v) \<Longrightarrow>
    length (nd_cummulative w) \<le> length c + (\<Sum>u\<leftarrow>nodes_of v. strings_len (nd_children u))"
  "edges_ok Z c es \<Longrightarrow> w \<in> set (nodes_of_edges es) \<Longrightarrow>
    length (nd_cummulative w) \<le> length c + strings_len es + (\<Sum>u\<leftarrow>nodes_of_edges es. strings_len (nd_children u))"
  by (induction v and es arbitrary: c and c rule: nodes_of_nodes_of_edges.induct) (fastforce simp: strings_len_def)+

lemma strings_node_len: "strings_len (nd_children w) < node_len offs w"
proof -
  have "strings_len (nd_children w) \<le> (\<Sum>e\<leftarrow>nd_children w. length (edge_bytes offs e))"
    unfolding strings_len_def by (rule sum_list_mono) (auto simp: edge_bytes_def)
  then show ?thesis by (simp add: node_len_def)
qed

lemma trie_built_nodes:
  "trie_built Z es buf L n v offs \<Longrightarrow> mset (all_nodes v n) = mset (nodes_of v)"
  "trie_built Z es buf L n v offs \<Longrightarrow> set (all_nodes v n) = set (nodes_of v)"
  unfolding trie_built_def by (metis mset_all_nodes, metis mset_all_nodes mset_eq_setD)

lemma trie_built_length:
  assumes built: "trie_built Z es buf L n v offs" and w: "w \<in> set (nodes_of v)"
  shows "length (nd_cummulative w) < length (stream buf offs (all_nodes v n))"
proof -
  have "length (stream buf offs (all_nodes v n)) = (\<Sum>u\<leftarrow>all_nodes v n. node_len offs u)"
    using built trie_built_nodes(2) [OF built] by (auto simp: length_concat trie_built_def length_node_bytes intro: arg_cong [of _ _ sum_list])
  also have "\<dots> = (\<Sum>u\<leftarrow>nodes_of v. node_len offs u)"
    using trie_built_nodes(1) [OF built] by (metis mset_map sum_mset_sum_list)
  also have "\<dots> > (\<Sum>u\<leftarrow>nodes_of v. strings_len (nd_children u))"
    using nodes_of_self [of v] by (intro sum_list_strict_mono) (auto simp: strings_node_len)
  finally show ?thesis
    using cummulative_length(1) [OF _ w, of Z "[]"] built by (simp add: trie_built_def trie_of_def)
qed

lemma child_offset_not_0:
  assumes built: "trie_built Z es buf L n v offs" and w: "w \<in> set (nodes_of v)" and e: "e \<in> set (nd_children w)"
  shows "offs ! nd_id (snd e) \<noteq> 0"
proof -
  have v: "trie_of Z L n v" and laid: "laid_out offs (all_nodes v n) 0" using built by (auto simp: trie_built_def)
  have "snd e \<in> set (nodes_of_edges (nd_children v))"
    using w e nodes_of_edge nodes_of_children(2) by (cases v; cases e) auto
  moreover have "distinct (0 # map nd_id (nodes_of_edges (nd_children v)))"
    using trie_of_inj(1) [OF v] v by (cases v) (auto simp: trie_of_def)
  ultimately have id: "0 < nd_id (snd e)" by (metis distinct.simps(2) gr0I image_eqI set_map)
  have u: "snd e \<in> set (nodes_of v)" using w e nodes_of_children(1) by (cases e) auto
  have "nd_id (snd e) < n" using trie_of_label [OF v u] by simp
  then have "unat (offs ! nd_id (all_nodes v n ! 0)) + node_len offs (all_nodes v n ! 0) \<le> unat (offs ! nd_id (snd e))"
    using sorted_wrt_nth_less [OF laid_out_sorted [OF laid] id] all_nodes_at [OF v u] by simp
  then show ?thesis using node_len_positive [of offs "all_nodes v n ! 0"] by auto
qed

lemma trie_built_at:
  assumes built: "trie_built Z es buf L n v offs" and Z: "b \<in> Z" "b \<noteq> 0" and w: "w \<in> set (nodes_of v)"
    and found: "terminal w \<Longrightarrow>
      terminal_entry (stream buf offs (all_nodes v n) @ post) (payload_at offs w) (nd_cummulative w) = Ok (found w)"
  shows "node_at (stream buf offs (all_nodes v n) @ post) buf offs found w"
proof -
  have v: "trie_of Z L n v" and laid: "laid_out offs (all_nodes v n) 0" and payloads: "\<forall>w\<in>set (all_nodes v n). payload_ok buf w"
    using built trie_built_nodes(2) [OF built] by (auto simp: trie_built_def)
  have ok: "trie_ok Z (nd_cummulative w) w" using v w trie_ok_nodes(1) by (auto simp: trie_of_def)
  have "w \<in> set (all_nodes v n)" using trie_built_nodes(2) [OF built] w by simp
  then have "\<exists>rest. drop (unat (offs ! nd_id w)) (stream buf offs (all_nodes v n) @ post) = node_bytes buf offs w @ rest"
    and "payload_ok buf w"
    using laid_out_stream [OF laid payloads] payloads by auto
  moreover have "terminal w \<longrightarrow> we_size (nd_entry w) \<noteq> 0" using ok by (cases w) auto
  ultimately show ?thesis
    using children_less_256 [OF ok Z] trie_built_length [OF built w] child_offset_not_0 [OF built w] found
    by (auto simp: node_at_def)
qed

section \<open>The symbols\<close>

text \<open>What the terminal node of a symbol carries, and what is read of it.\<close>

definition export_payload :: "export_symbol \<Rightarrow> bytes" where
  "export_payload ex =
     uleb_encode (unat (ex_flags ex)) @
     (if ex_flags ex AND EXPORT_SYMBOL_FLAGS_REEXPORT \<noteq> 0 then
        uleb_encode (unat (ex_other ex)) @ (if ex_importName ex = ex_name ex then [] else ex_importName ex) @ [0]
      else
        uleb_encode (unat (ex_offset ex)) @
        (if ex_flags ex AND EXPORT_SYMBOL_FLAGS_STUB_AND_RESOLVER \<noteq> 0 then uleb_encode (unat (ex_other ex)) else []))"

definition normal_export :: "export_symbol \<Rightarrow> export_symbol" where
  "normal_export ex =
     (if ex_flags ex AND EXPORT_SYMBOL_FLAGS_REEXPORT \<noteq> 0 then
        ex\<lparr>ex_offset := 0, ex_importName := (if ex_importName ex = ex_name ex then [] else ex_importName ex)\<rparr>
      else
        ex\<lparr>ex_other := (if ex_flags ex AND EXPORT_SYMBOL_FLAGS_STUB_AND_RESOLVER \<noteq> 0 then ex_other ex else 0),
           ex_importName := []\<rparr>)"

lemma exportToEntry_payload:
  "ex_name ex \<noteq> [] \<Longrightarrow> exportToEntry ex temp =
    (\<lparr>we_name = ex_name ex, we_offset = of_nat (length temp), we_size = of_nat (length (export_payload ex))\<rparr>,
     temp @ export_payload ex)"
  by (simp add: exportToEntry_def Let_def export_payload_def append_uleb128_encode append_string_def)

text \<open>The entry of a symbol in a buffer.\<close>

definition entry_of :: "bytes \<Rightarrow> writer_entry \<Rightarrow> export_symbol \<Rightarrow> bool" where
  "entry_of buf e ex \<longleftrightarrow>
     we_name e = ex_name ex \<and> payload buf e = export_payload ex \<and> unat (we_size e) = length (export_payload ex)"

lemma subbytes_stride: "subbytes (length xs) (length ys) (xs @ ys @ zs) = ys"
  by (simp add: subbytes_def)

lemma export_entries_of:
  assumes "\<forall>ex\<in>set exs. ex_name ex \<noteq> []" and "length temp + (\<Sum>ex\<leftarrow>exs. length (export_payload ex)) < 2 ^ 32"
  shows "\<exists>es. export_entries exs temp = (es, temp @ concat (map export_payload exs)) \<and>
    list_all2 (entry_of (temp @ concat (map export_payload exs))) es exs"
  using assms
proof (induction exs arbitrary: temp)
  case (Cons ex exs)
  let ?e = "\<lparr>we_name = ex_name ex, we_offset = of_nat (length temp), we_size = of_nat (length (export_payload ex))\<rparr>"
  obtain es where es: "export_entries exs (temp @ export_payload ex) = (es, (temp @ export_payload ex) @ concat (map export_payload exs))"
      "list_all2 (entry_of ((temp @ export_payload ex) @ concat (map export_payload exs))) es exs"
    using Cons.IH [of "temp @ export_payload ex"] Cons.prems by auto
  have "unat (of_nat (length temp) :: u32) = length temp"
    "unat (of_nat (length (export_payload ex)) :: u32) = length (export_payload ex)"
    using Cons.prems(2) by (auto simp: unsigned_of_nat intro!: take_bit_nat_eq_self)
  then have "entry_of (temp @ export_payload ex @ concat (map export_payload exs)) ?e ex"
    by (simp add: entry_of_def payload_def subbytes_stride)
  then show ?case using es Cons.prems(1) exportToEntry_payload [of ex temp] by simp
qed simp

text \<open>Reading what a terminal node carries.\<close>

lemma read_u64_encoded:
  "drop p m = uleb_encode (unat v) @ post \<Longrightarrow> read_uleb128_trie m p = Ok (v, p + length (uleb_encode (unat v)))"
  using read_uleb_encoded [of p m "unat v" post] unsigned_less [of v, where 'a = nat] by simp

definition reads_back :: "bytes \<Rightarrow> trie_entry \<Rightarrow> export_symbol \<Rightarrow> bool" where
  "reads_back m te ex \<longleftrightarrow> te_name te = ex_name ex \<and> old_export m te = Ok (normal_export ex)"

lemma string_at_read:
  assumes "drop p m = s @ 0 # rest" and "0 \<notin> set s"
  shows "string_at m p = Ok s"
proof -
  have "takeWhile (\<lambda>b. b \<noteq> 0) (s @ 0 # rest) = s" using assms(2) by (subst takeWhile_append2) auto
  then show ?thesis using assms(1) by (simp add: string_at_def)
qed

lemma terminal_entry_read:
  assumes at: "drop p m = export_payload ex @ rest" and import_name: "0 \<notin> set (ex_importName ex)"
  shows "\<exists>te. terminal_entry m p (ex_name ex) = Ok (p, te) \<and> reads_back m te ex"
proof (cases "ex_flags ex AND EXPORT_SYMBOL_FLAGS_REEXPORT \<noteq> 0")
  case True
  let ?import = "if ex_importName ex = ex_name ex then [] else ex_importName ex"
  have flags: "drop p m = uleb_encode (unat (ex_flags ex)) @ uleb_encode (unat (ex_other ex)) @ ?import @ 0 # rest"
    using at True by (simp add: export_payload_def)
  note other = drop_behind [OF flags]
  note str = drop_behind [OF other]
  have "string_at m (p + length (uleb_encode (unat (ex_flags ex))) + length (uleb_encode (unat (ex_other ex)))) = Ok ?import"
    using string_at_read [OF str] import_name by auto
  then show ?thesis
    using True read_u64_encoded [OF flags] read_u64_encoded [OF other]
    by (auto simp: terminal_entry_def reads_back_def old_export_def normal_export_def)
next
  case False
  let ?other = "if ex_flags ex AND EXPORT_SYMBOL_FLAGS_STUB_AND_RESOLVER \<noteq> 0 then uleb_encode (unat (ex_other ex)) else []"
  have flags: "drop p m = uleb_encode (unat (ex_flags ex)) @ uleb_encode (unat (ex_offset ex)) @ ?other @ rest"
    using at False by (simp add: export_payload_def)
  note address = drop_behind [OF flags]
  note other = drop_behind [OF address]
  show ?thesis
  proof (cases "ex_flags ex AND EXPORT_SYMBOL_FLAGS_STUB_AND_RESOLVER \<noteq> 0")
    case True
    then have "read_uleb128_trie m (p + length (uleb_encode (unat (ex_flags ex))) + length (uleb_encode (unat (ex_offset ex)))) =
      Ok (ex_other ex, p + length (uleb_encode (unat (ex_flags ex))) + length (uleb_encode (unat (ex_offset ex))) +
        length (uleb_encode (unat (ex_other ex))))"
      using read_u64_encoded other by simp
    then show ?thesis
      using True False read_u64_encoded [OF flags] read_u64_encoded [OF address]
      by (simp add: terminal_entry_def reads_back_def old_export_def normal_export_def)
  next
    case no_other: False
    then show ?thesis
      using False read_u64_encoded [OF flags] read_u64_encoded [OF address]
      by (simp add: terminal_entry_def reads_back_def old_export_def normal_export_def)
  qed
qed

section \<open>The round trip\<close>

text \<open>
  The symbols have different names, none of them empty, there is a character that no name has, the names under which
  symbols are imported are without null characters, and the trie is small enough for its 32-bit offsets.
\<close>

definition trie_size_bound :: "export_symbol list \<Rightarrow> nat" where
  "trie_size_bound exs = 10 + (\<Sum>ex\<leftarrow>exs. length (ex_name ex) + length (export_payload ex) + 20)"

definition exports_ok :: "u8 \<Rightarrow> export_symbol list \<Rightarrow> bool" where
  "exports_ok b exs \<longleftrightarrow>
     b \<noteq> 0 \<and> distinct (map ex_name exs) \<and>
     (\<forall>ex\<in>set exs. ex_name ex \<noteq> [] \<and> 0 \<notin> set (ex_name ex) \<and> b \<notin> set (ex_name ex) \<and> 0 \<notin> set (ex_importName ex)) \<and>
     trie_size_bound exs < 2 ^ 32"

lemma payload_sum_bound: "(\<Sum>ex\<leftarrow>exs. length (export_payload ex)) \<le> trie_size_bound exs"
  by (induction exs) (auto simp: trie_size_bound_def)

lemma export_payload_nonempty: "export_payload ex \<noteq> []"
  by (simp add: export_payload_def)

lemma entry_of_size: "entry_of buf e ex \<Longrightarrow> we_size e \<noteq> 0"
  using export_payload_nonempty [of ex] by (auto simp: entry_of_def)

lemma list_all2_member: "list_all2 P xs ys \<Longrightarrow> x \<in> set xs \<Longrightarrow> \<exists>y\<in>set ys. P x y"
  by (induction rule: list_all2_induct) auto

lemma exports_buildable:
  assumes "exports_ok b exs"
  obtains es buf where "export_entries exs [] = (es, buf)" and "list_all2 (entry_of buf) es exs" and "buildable {0, b} es buf"
    and "10 + (\<Sum>e\<leftarrow>es. entry_bound e True) = trie_size_bound exs"
proof -
  obtain es buf where es: "export_entries exs [] = (es, buf)" "list_all2 (entry_of buf) es exs"
    using export_entries_of [of exs "[]"] payload_sum_bound [of exs] assms by (auto simp: exports_ok_def)
  have names: "map we_name es = map ex_name exs" using es(2) by (induction rule: list_all2_induct) (auto simp: entry_of_def)
  have "\<forall>e\<in>set es. entry_ok {0, b} e \<and> length (payload buf e) = unat (we_size e)"
  proof
    fix e assume "e \<in> set es"
    then obtain ex where "ex \<in> set exs" "entry_of buf e ex" using list_all2_member [OF es(2)] by auto
    then show "entry_ok {0, b} e \<and> length (payload buf e) = unat (we_size e)"
      using assms entry_of_size by (auto simp: entry_ok_def entry_of_def exports_ok_def)
  qed
  moreover have size: "10 + (\<Sum>e\<leftarrow>es. entry_bound e True) = trie_size_bound exs"
    using es(2) by (induction rule: list_all2_induct) (auto simp: entry_of_def entry_bound_def trie_size_bound_def)
  ultimately have "buildable {0, b} es buf" using assms names by (simp add: buildable_def exports_ok_def)
  then show thesis using that es size by blast
qed

text \<open>The entries are sorted by the offsets of their nodes, which is the order in which they have been added.\<close>

lemma payload_at_before:
  assumes "unat (offs ! nd_id v) + node_len offs v \<le> unat (offs ! nd_id w)" and "terminal v"
  shows "payload_at offs v < payload_at offs w"
proof -
  have "length (uleb_encode (unat (we_size (nd_entry v)))) \<le> node_len offs v" using assms(2) by (simp add: node_len_def)
  moreover have "0 < length (uleb_encode (unat (we_size (nd_entry w))))" by simp
  ultimately show ?thesis using assms(1) unfolding payload_at_def by linarith
qed

lemma sort_found:
  assumes built: "trie_built Z es buf L n v offs" and found: "\<forall>w\<in>set (nodes_of v). terminal w \<longrightarrow> fst (found w) = payload_at offs w"
  shows "sort_key fst (map found (filter terminal (nodes_of v))) = map found (filter terminal (all_nodes v n))"
proof -
  let ?ws = "filter terminal (all_nodes v n)"
  have keys: "map fst (map found ?ws) = map (payload_at offs) ?ws"
    using found trie_built_nodes(2) [OF built] by auto
  have "sorted_wrt (\<lambda>v w. unat (offs ! nd_id v) + node_len offs v \<le> unat (offs ! nd_id w)) (all_nodes v n)"
    using laid_out_sorted built by (auto simp: trie_built_def)
  then have "sorted_wrt (\<lambda>v w. payload_at offs v < payload_at offs w) ?ws"
    using payload_at_before by (intro sorted_wrt_mono_rel [OF _ sorted_wrt_filter]) auto
  then have strict: "sorted_wrt (<) (map fst (map found ?ws))" unfolding keys by (simp add: sorted_wrt_map)
  show ?thesis
  proof (rule sort_key_inj_key_eq)
    show same: "mset (map found (filter terminal (nodes_of v))) = mset (map found ?ws)"
      using trie_built_nodes(1) [OF built] by (simp add: mset_filter)
    show "inj_on fst (set (map found (filter terminal (nodes_of v))))"
      using strict mset_eq_setD [OF same] by (metis distinct_map strict_sorted_iff)
    show "sorted (map fst (map found ?ws))" using strict by (simp add: strict_sorted_iff)
  qed
qed

text \<open>What is read of a terminal node.\<close>

definition found_in :: "bytes \<Rightarrow> u32 list \<Rightarrow> trie_node \<Rightarrow> nat \<times> trie_entry" where
  "found_in m offs w = (case terminal_entry m (payload_at offs w) (nd_cummulative w) of Ok x \<Rightarrow> x | _ \<Rightarrow> undefined)"

lemma found_terminal:
  assumes at: "drop (unat (offs ! nd_id w)) m = node_bytes buf offs w @ rest" and w: "terminal w"
    and ex: "entry_of buf (nd_entry w) ex" "nd_cummulative w = ex_name ex" "0 \<notin> set (ex_importName ex)"
  shows "\<exists>te. terminal_entry m (payload_at offs w) (nd_cummulative w) = Ok (found_in m offs w) \<and>
    found_in m offs w = (payload_at offs w, te) \<and> reads_back m te ex"
proof -
  have "drop (unat (offs ! nd_id w)) m =
      uleb_encode (unat (we_size (nd_entry w))) @ export_payload ex @ of_nat (length (nd_children w)) #
        concat (map (edge_bytes offs) (nd_children w)) @ rest"
    using at w ex(1) by (simp add: node_bytes_def entry_of_def)
  then obtain te where "terminal_entry m (payload_at offs w) (ex_name ex) = Ok (payload_at offs w, te)" "reads_back m te ex"
    using terminal_entry_read [OF drop_behind ex(3)] unfolding payload_at_def by blast
  then show ?thesis using ex(2) by (simp add: found_in_def)
qed

lemma terminal_nodes_entries:
  assumes built: "trie_built Z es buf L n v offs" and exs: "list_all2 (entry_of buf) es exs"
  shows "list_all2 (\<lambda>w ex. entry_of buf (nd_entry w) ex) (filter terminal (all_nodes v n)) exs"
proof -
  have "map nd_entry (all_nodes v n) = L" using all_nodes_entries built by (auto simp: trie_built_def)
  then have "map nd_entry (filter terminal (all_nodes v n)) = es"
    using built by (auto simp: trie_built_def filter_map comp_def)
  then show ?thesis using exs by (metis list_all2_map1)
qed

lemma old_exports_read:
  "list_all2 (reads_back m) tes exs \<Longrightarrow> old_exports m tes = Ok (map normal_export exs) \<and> map te_name tes = map ex_name exs"
  by (induction rule: list_all2_induct) (auto simp: reads_back_def)

lemma parse_built:
  assumes built: "trie_built {0, b} es buf L n v offs" and exs: "list_all2 (entry_of buf) es exs" and ok: "exports_ok b exs"
    and m: "m = stream buf offs (all_nodes v n) @ post"
  shows "\<exists>tes. parseTrie m = Some (Ok tes) \<and> list_all2 (reads_back m) tes exs"
proof -
  let ?Z = "{0, b} :: u8 set"
  let ?found = "found_in m offs"
  have v: "trie_of ?Z L n v" and laid: "laid_out offs (all_nodes v n) 0" and payloads: "\<forall>w\<in>set (all_nodes v n). payload_ok buf w"
    using built trie_built_nodes(2) [OF built] by (auto simp: trie_built_def)
  note terminals = terminal_nodes_entries [OF built exs]
  have read: "\<exists>te. terminal_entry m (payload_at offs w) (nd_cummulative w) = Ok (?found w) \<and>
      ?found w = (payload_at offs w, te) \<and> reads_back m te ex"
    if w: "w \<in> set (all_nodes v n)" "terminal w" and e: "entry_of buf (nd_entry w) ex" "ex \<in> set exs" for w ex
  proof -
    obtain rest where "drop (unat (offs ! nd_id w)) m = node_bytes buf offs w @ rest"
      using laid_out_stream [OF laid payloads w(1)] unfolding m by blast
    moreover have "trie_ok ?Z (nd_cummulative w) w"
      using trie_ok_nodes(1) v w(1) trie_built_nodes(2) [OF built] by (auto simp: trie_of_def)
    then have "nd_cummulative w = ex_name ex" using w(2) e(1) by (cases w) (auto simp: entry_of_def)
    moreover have "0 \<notin> set (ex_importName ex)" using ok e(2) by (auto simp: exports_ok_def)
    ultimately show ?thesis using found_terminal w(2) e(1) by blast
  qed
  have entry: "\<exists>ex\<in>set exs. entry_of buf (nd_entry w) ex" if "w \<in> set (all_nodes v n)" "terminal w" for w
  proof -
    have "w \<in> set (filter terminal (all_nodes v n))" using that by simp
    then show ?thesis using list_all2_member [OF terminals] by simp
  qed
  have nodes: "\<forall>w\<in>set (nodes_of v). node_at m buf offs ?found w"
  proof
    fix w assume w: "w \<in> set (nodes_of v)"
    have "terminal w \<Longrightarrow> terminal_entry m (payload_at offs w) (nd_cummulative w) = Ok (?found w)"
      using entry read w trie_built_nodes(2) [OF built] by blast
    then show "node_at m buf offs ?found w"
      using trie_built_at [OF built _ _ w, of b] ok unfolding m exports_ok_def by blast
  qed
  have root: "nd_id v = 0" "\<not> terminal v" "edges_ok ?Z [] (nd_children v)"
    using v by (cases v; auto simp: trie_of_def)+
  have "0 < n" using trie_of_label [OF v nodes_of_self] by simp
  then have "unat (offs ! nd_id v) = 0"
    using laid all_nodes_at [OF v nodes_of_self] root(1) length_all_nodes [of v n]
    by (cases "all_nodes v n") (auto simp del: length_all_nodes)
  then obtain q rest where header: "node_header m 0 None [] = Ok (length (nd_children v), q, [])"
      "drop q m = concat (map (edge_bytes offs) (nd_children v)) @ rest"
    using node_header_at [of m buf offs ?found v None "[]"] nodes nodes_of_self root(2) by auto
  have below: "\<forall>w\<in>set (nodes_of_edges (nd_children v)). node_at m buf offs ?found w"
    and same: "filter terminal (nodes_of v) = filter terminal (nodes_of_edges (nd_children v))"
    using nodes root(2) by (cases v; auto)+
  have "process_children m (length (nd_children v)) q [] [] =
      Some (Ok (map ?found (filter terminal (nodes_of_edges (nd_children v)))))"
    using process_children_at(2) [OF _ root(3) below _ header(2), of "[]"] nodes nodes_of_self [of v] by (auto simp: node_at_def)
  moreover have "sort_key fst (map ?found (filter terminal (nodes_of v))) = map ?found (filter terminal (all_nodes v n))"
    using read entry trie_built_nodes(2) [OF built] by (intro sort_found [OF built]) fastforce
  moreover have "m \<noteq> []" using nodes nodes_of_self [of v] by (auto simp: node_at_def)
  ultimately have "parseTrie m = Some (Ok (map (snd \<circ> ?found) (filter terminal (all_nodes v n))))"
    using header(1) same by (simp add: parseTrie_def)
  moreover have "list_all2 (reads_back m) (map (snd \<circ> ?found) (filter terminal (all_nodes v n))) exs"
    unfolding list_all2_map1 using terminals
  proof (rule list.rel_mono_strong)
    fix w ex
    assume "w \<in> set (filter terminal (all_nodes v n))" "ex \<in> set exs" "entry_of buf (nd_entry w) ex"
    then show "reads_back m ((snd \<circ> ?found) w) ex" using read [of w ex] by auto
  qed
  ultimately show ?thesis by blast
qed


lemma exports_trie:
  assumes "exports_ok b exs"
  obtains trie where "ExportsTrie exs = Some (Ok trie)" and "length trie mod 8 = 0" and "length trie \<le> trie_size_bound exs"
    and "\<And>post. \<exists>tes. parseTrie (trie @ post) = Some (Ok tes) \<and> list_all2 (reads_back (trie @ post)) tes exs"
proof -
  obtain es buf where es: "export_entries exs [] = (es, buf)" "list_all2 (entry_of buf) es exs" "buildable {0, b} es buf"
      "10 + (\<Sum>e\<leftarrow>es. entry_bound e True) = trie_size_bound exs"
    using exports_buildable [OF assms] .
  obtain L n v offs k where built: "trie_built {0, b} es buf L n v offs"
      and trie: "buildTrieBytes es buf = Some (Ok (stream buf offs (all_nodes v n) @ replicate k 0))"
      and len: "length (stream buf offs (all_nodes v n) @ replicate k 0) mod 8 = 0"
        "length (stream buf offs (all_nodes v n) @ replicate k 0) \<le> trie_size_bound exs"
    using build_ok [OF es(3)] es(4) by metis
  have "\<exists>tes. parseTrie ((stream buf offs (all_nodes v n) @ replicate k 0) @ post) = Some (Ok tes) \<and>
      list_all2 (reads_back ((stream buf offs (all_nodes v n) @ replicate k 0) @ post)) tes exs" for post
    using parse_built [OF built es(2) assms, of _ "replicate k 0 @ post"] by simp
  then show thesis using that [OF _ len] es(1) trie by (simp add: ExportsTrie_def)
qed

text \<open>
  C5.  The round trip through the exports trie: \<open>ExportsTrie\<close> builds a trie from symbols with different names, and
  \<open>parseTrie\<close> reads exactly these symbols out of it, in the order in which they have been given, whatever follows
  the trie in the file.  A symbol reads the same up to the fields that its kind does not store: the address of a
  re-exported symbol, its \<open>other\<close> and \<open>importName\<close> if it is neither re-exported nor a resolver, and an import name
  that repeats the name.
\<close>

theorem exports_trie_round_trip:
  assumes "exports_ok b exs"
  shows "\<exists>trie. ExportsTrie exs = Some (Ok trie) \<and>
    (\<forall>post. \<exists>entries. parseTrie (trie @ post) = Some (Ok entries) \<and> map te_name entries = map ex_name exs \<and>
      old_exports (trie @ post) entries = Ok (map normal_export exs))"
proof -
  obtain trie where "ExportsTrie exs = Some (Ok trie)"
      and "\<And>post. \<exists>tes. parseTrie (trie @ post) = Some (Ok tes) \<and> list_all2 (reads_back (trie @ post)) tes exs"
    using exports_trie [OF assms] by metis
  then show ?thesis using old_exports_read by blast
qed

section \<open>Pruning\<close>

lemma normal_export_simps [simp]:
  "ex_name (normal_export ex) = ex_name ex" "ex_flags (normal_export ex) = ex_flags ex"
  "export_payload (normal_export ex) = export_payload ex" "normal_export (normal_export ex) = normal_export ex"
  "0 \<notin> set (ex_importName ex) \<Longrightarrow> 0 \<notin> set (ex_importName (normal_export ex))"
  by (auto simp: normal_export_def export_payload_def)

lemma trie_size_bound_filter: "trie_size_bound (map normal_export (filter P exs)) \<le> trie_size_bound exs"
  by (induction exs) (auto simp: trie_size_bound_def)

lemma exports_ok_filter: "exports_ok b exs \<Longrightarrow> exports_ok b (map normal_export (filter P exs))"
  using trie_size_bound_filter [of P exs] by (auto simp: exports_ok_def comp_def distinct_map_filter)

lemma filter_reads_back:
  assumes "list_all2 (reads_back m) tes exs"
  shows "list_all2 (reads_back m) (filter (\<lambda>e. \<not> prune (te_name e)) tes) (filter (\<lambda>ex. \<not> prune (ex_name ex)) exs)"
  using assms by (induction rule: list_all2_induct) (auto simp: reads_back_def)

lemma write_back_aligned:
  assumes "length new mod 8 = 0" and "length new < 2 ^ 32" and "length m < 2 ^ 32"
  shows "write_back m new =
    (if length new \<le> length m then Ok (new @ replicate (length m - length new) 0, of_nat (length new)) else Error Trie_larger)"
proof -
  have "length new mod 4 = 0" using assms(1) by presburger
  then show ?thesis
    using assms by (simp add: write_back_def Let_def guard_def within_def word_less_nat_alt unsigned_of_nat take_bit_nat_eq_self)
qed

text \<open>
  C6.  \<open>prune_trie\<close> on a trie that \<open>ExportsTrie\<close> has built always returns and never reads or writes outside the trie.
  It either reports that the new trie would be larger, or the trie it leaves in the same place has exactly the symbols
  that are not to be pruned, in their old order and unchanged.
\<close>

theorem prune_trie_keeps:
  assumes "exports_ok b exs" and "ExportsTrie exs = Some (Ok trie)"
  shows "prune_trie prune trie = Some (Error Trie_larger) \<or>
    (\<exists>trie' size' entries. prune_trie prune trie = Some (Ok (trie', size')) \<and> length trie' = length trie \<and>
      parseTrie trie' = Some (Ok entries) \<and>
      old_exports trie' entries = Ok (map normal_export (filter (\<lambda>ex. \<not> prune (ex_name ex)) exs)))"
proof -
  let ?kept = "filter (\<lambda>ex. \<not> prune (ex_name ex)) exs"
  have len: "length trie < 2 ^ 32" and read: "\<exists>tes. parseTrie trie = Some (Ok tes) \<and> list_all2 (reads_back trie) tes exs"
    using exports_trie [OF assms(1)] assms by (metis append_Nil2 exports_ok_def le_less_trans option.inject result.inject(1))+
  then obtain tes where tes: "parseTrie trie = Some (Ok tes)" "list_all2 (reads_back trie) tes exs" by blast
  note same = list_all2_lengthD [OF tes(2)] list_all2_lengthD [OF filter_reads_back [OF tes(2), of prune]]
  note old = old_exports_read [OF filter_reads_back [OF tes(2), of prune]]
  show ?thesis
  proof (cases "length (filter (\<lambda>e. \<not> prune (te_name e)) tes) = length tes")
    case True
    then have "filter (\<lambda>e. \<not> prune (te_name e)) tes = tes" by (metis filter_id_conv length_filter_less order_less_irrefl)
    then show ?thesis using True tes old by (auto simp: prune_trie_def Let_def)
  next
    case False
    obtain new where new: "ExportsTrie (map normal_export ?kept) = Some (Ok new)" "length new mod 8 = 0"
        "length new \<le> trie_size_bound (map normal_export ?kept)"
        "\<And>post. \<exists>tes. parseTrie (new @ post) = Some (Ok tes) \<and> list_all2 (reads_back (new @ post)) tes (map normal_export ?kept)"
      using exports_trie [OF exports_ok_filter [OF assms(1), of "\<lambda>ex. \<not> prune (ex_name ex)"]] by metis
    have "length new < 2 ^ 32" using new(3) exports_ok_filter [OF assms(1)] by (metis exports_ok_def le_less_trans)
    note written = write_back_aligned [OF new(2) this len]
    have pruned: "prune_trie prune trie = Some (write_back trie new)"
      using False tes old new(1) by (simp add: prune_trie_def Let_def)
    show ?thesis
    proof (cases "length new \<le> length trie")
      case True
      obtain entries where "parseTrie (new @ replicate (length trie - length new) 0) = Some (Ok entries)"
          "list_all2 (reads_back (new @ replicate (length trie - length new) 0)) entries (map normal_export ?kept)"
        using new(4) by blast
      then show ?thesis using pruned written True old_exports_read by (fastforce simp: comp_def)
    qed (simp add: pruned written)
  qed
qed

section \<open>Witnesses\<close>

abbreviation sample_exports :: "export_symbol list" where
  "sample_exports \<equiv>
     [\<lparr>ex_name = [95, 97, 98], ex_offset = 16, ex_flags = 0, ex_other = 0, ex_importName = []\<rparr>,
      \<lparr>ex_name = [95, 97], ex_offset = 0, ex_flags = 8, ex_other = 1, ex_importName = [95, 99]\<rparr>,
      \<lparr>ex_name = [95, 97, 99], ex_offset = 300, ex_flags = 16, ex_other = 64, ex_importName = []\<rparr>]"

abbreviation sample_trie :: bytes where
  "sample_trie \<equiv>
     [0, 1, 95, 97, 0, 10, 2, 0, 16, 0, 0, 3, 98, 0, 6, 0, 20, 99, 0, 27, 5, 8, 1, 95, 99, 0, 0, 4, 16, 172, 2, 64, 0,
      0, 0, 0, 0, 0, 0, 0]"

lemma sample_exports_ok: "exports_ok 255 sample_exports"
  by (simp add: exports_ok_def trie_size_bound_def export_payload_def uleb_encode.simps)

lemma sample_trie_built: "ExportsTrie sample_exports = Some (Ok sample_trie)"
  by code_simp

theorem exports_trie_round_trip_witness:
  "\<exists>entries. parseTrie sample_trie = Some (Ok entries) \<and> map te_name entries = [[95, 97, 98], [95, 97], [95, 97, 99]]"
  using exports_trie_round_trip [OF sample_exports_ok] sample_trie_built by (auto dest: spec [of _ "[]"])

abbreviation sample_prune :: "bytes \<Rightarrow> bool" where
  "sample_prune \<equiv> \<lambda>name. name = [95, 97]"

lemma sample_not_larger: "prune_trie sample_prune sample_trie \<noteq> Some (Error Trie_larger)"
  by code_simp

theorem prune_trie_keeps_witness:
  "\<exists>trie' size' entries. prune_trie sample_prune sample_trie = Some (Ok (trie', size')) \<and>
    parseTrie trie' = Some (Ok entries) \<and> old_exports trie' entries = Ok [sample_exports ! 0, sample_exports ! 2]"
proof -
  have "map normal_export (filter (\<lambda>ex. \<not> sample_prune (ex_name ex)) sample_exports) = [sample_exports ! 0, sample_exports ! 2]"
    by (simp add: normal_export_def)
  then show ?thesis
    using prune_trie_keeps [OF sample_exports_ok sample_trie_built, of sample_prune] sample_not_larger by metis
qed

end
