(* ===== verification/Rebase_Info.thy ===== *)
theory Rebase_Info
  imports Exports_Trie
begin

text \<open>
  The rebase opcodes: \<open>RebaseInfoAtom\<close> of \<open>ld64/src/ld/LinkEdit.hpp\<close> writes them for the addresses that the dynamic
  linker has to slide, and \<open>hasTextRelocInRange\<close> of \<open>ld64/src/other/machochecker.cpp\<close> runs them.  \<open>w\<close> is
  \<open>sizeof(pint_t)\<close>, 4 or 8.  The phases of the encoder work on an array in place with a pointer \<open>dst\<close> that never
  passes \<open>src\<close>; they are functions on lists here.  \<open>ByteStream::append_uleb128\<close> and \<open>read_uleb128\<close> of
  \<open>machochecker.cpp\<close> have the same text as those of the exports trie.
\<close>

unbundle bit_operations_syntax

abbreviation REBASE_OPCODE_MASK :: u8 where "REBASE_OPCODE_MASK \<equiv> 0xf0"
abbreviation REBASE_IMMEDIATE_MASK :: u8 where "REBASE_IMMEDIATE_MASK \<equiv> 0x0f"
abbreviation REBASE_TYPE_POINTER :: u8 where "REBASE_TYPE_POINTER \<equiv> 1"
abbreviation REBASE_OPCODE_DONE :: u8 where "REBASE_OPCODE_DONE \<equiv> 0x00"
abbreviation REBASE_OPCODE_SET_TYPE_IMM :: u8 where "REBASE_OPCODE_SET_TYPE_IMM \<equiv> 0x10"
abbreviation REBASE_OPCODE_SET_SEGMENT_AND_OFFSET_ULEB :: u8 where "REBASE_OPCODE_SET_SEGMENT_AND_OFFSET_ULEB \<equiv> 0x20"
abbreviation REBASE_OPCODE_ADD_ADDR_ULEB :: u8 where "REBASE_OPCODE_ADD_ADDR_ULEB \<equiv> 0x30"
abbreviation REBASE_OPCODE_ADD_ADDR_IMM_SCALED :: u8 where "REBASE_OPCODE_ADD_ADDR_IMM_SCALED \<equiv> 0x40"
abbreviation REBASE_OPCODE_DO_REBASE_IMM_TIMES :: u8 where "REBASE_OPCODE_DO_REBASE_IMM_TIMES \<equiv> 0x50"
abbreviation REBASE_OPCODE_DO_REBASE_ULEB_TIMES :: u8 where "REBASE_OPCODE_DO_REBASE_ULEB_TIMES \<equiv> 0x60"
abbreviation REBASE_OPCODE_DO_REBASE_ADD_ADDR_ULEB :: u8 where "REBASE_OPCODE_DO_REBASE_ADD_ADDR_ULEB \<equiv> 0x70"
abbreviation REBASE_OPCODE_DO_REBASE_ULEB_TIMES_SKIPPING_ULEB :: u8
  where "REBASE_OPCODE_DO_REBASE_ULEB_TIMES_SKIPPING_ULEB \<equiv> 0x80"

datatype link_error =
    Address_outside_segments
  | Unsupported_rebase_type

type_synonym 'a link_result = "(link_error, 'a) result"

section \<open>Segments of the output\<close>

record final_section =
  fs_segmentName :: bytes
  fs_address :: u64
  fs_size :: u64

text \<open>
  The first and the last section of the segment so far.  A segment is looked at when the next one begins, so the
  last segment is never found.
\<close>

fun find_in_segments ::
    "u64 \<Rightarrow> final_section list \<Rightarrow> (final_section \<times> final_section) option \<Rightarrow> u32 \<Rightarrow> (u64 \<times> u64 \<times> u32) option" where
  "find_in_segments addr [] cur segIndex = None"
| "find_in_segments addr (sect # sects) cur segIndex =
     (case cur of
        None \<Rightarrow> find_in_segments addr sects (Some (sect, sect)) segIndex
      | Some (first, lastSection) \<Rightarrow>
          if fs_segmentName first = fs_segmentName sect then find_in_segments addr sects (Some (first, sect)) segIndex
          else if addr \<ge> fs_address first \<and> addr < fs_address lastSection + fs_size lastSection then
            Some (fs_address first, fs_address lastSection + fs_size lastSection, segIndex)
          else find_in_segments addr sects (Some (sect, sect)) (segIndex + 1))"

definition findSegment :: "final_section list \<Rightarrow> u64 \<Rightarrow> (u64 \<times> u64 \<times> u32) option" where
  "findSegment sections addr = find_in_segments addr sections None 0"

section \<open>The encoder\<close>

record rebase_info =
  ri_type :: u8
  ri_address :: u64

record rebase_tmp =
  rt_opcode :: u8
  rt_operand1 :: u64
  rt_operand2 :: u64

abbreviation rebase_tmp1 :: "u8 \<Rightarrow> u64 \<Rightarrow> rebase_tmp" where
  "rebase_tmp1 op p1 \<equiv> \<lparr>rt_opcode = op, rt_operand1 = p1, rt_operand2 = 0\<rparr>"

text \<open>The opcodes that move to an address, and the segment then.\<close>

definition rebase_move ::
    "final_section list \<Rightarrow> u64 \<Rightarrow> u64 \<times> u64 \<times> u32 \<Rightarrow> u64 \<Rightarrow> (rebase_tmp list \<times> u64 \<times> u64 \<times> u32) link_result" where
  "rebase_move sections address seg addr =
     (case seg of (curSegStart, curSegEnd, curSegIndex) \<Rightarrow>
        if address \<noteq> addr then
          if addr < curSegStart \<or> addr \<ge> curSegEnd then
            (case findSegment sections addr of
               None \<Rightarrow> Error Address_outside_segments
             | Some (curSegStart, curSegEnd, curSegIndex) \<Rightarrow>
                 Ok ([\<lparr>rt_opcode = REBASE_OPCODE_SET_SEGMENT_AND_OFFSET_ULEB, rt_operand1 = ucast curSegIndex,
                       rt_operand2 = addr - curSegStart\<rparr>], curSegStart, curSegEnd, curSegIndex))
          else Ok ([rebase_tmp1 REBASE_OPCODE_ADD_ADDR_ULEB (addr - address)], seg)
        else Ok ([], seg))"

fun rebase_mid ::
    "final_section list \<Rightarrow> u64 \<Rightarrow> u64 \<times> u64 \<times> u32 \<Rightarrow> u8 \<Rightarrow> u64 \<Rightarrow> rebase_info list \<Rightarrow> rebase_tmp list link_result" where
  "rebase_mid sections w seg type address [] = Ok [rebase_tmp1 REBASE_OPCODE_DONE 0]"
| "rebase_mid sections w seg type address (it # its) =
     bind (rebase_move sections address seg (ri_address it)) (\<lambda>(moves, seg).
       let next = ri_address it + w; next = (if next \<ge> fst (snd seg) then 0 else next)
       in bind (rebase_mid sections w seg (ri_type it) next its) (\<lambda>mid.
            Ok ((if type \<noteq> ri_type it then [rebase_tmp1 REBASE_OPCODE_SET_TYPE_IMM (ucast (ri_type it))] else []) @
                moves @ rebase_tmp1 REBASE_OPCODE_DO_REBASE_ULEB_TIMES 1 # mid)))"

text \<open>Phase 1: runs of pointers.\<close>

fun take_run :: "u64 \<Rightarrow> rebase_tmp list \<Rightarrow> u64 \<times> rebase_tmp list" where
  "take_run n [] = (n, [])"
| "take_run n (x # xs) =
     (if rt_opcode x = REBASE_OPCODE_DO_REBASE_ULEB_TIMES then take_run (n + rt_operand1 x) xs else (n, x # xs))"

lemma take_run_length: "length (snd (take_run n xs)) \<le> length xs"
  by (induction n xs rule: take_run.induct) auto

function pack_runs :: "rebase_tmp list \<Rightarrow> rebase_tmp list" where
  "pack_runs [] = []"
| "pack_runs (x # xs) =
     (if rt_opcode x = REBASE_OPCODE_DONE then [x]
      else if rt_opcode x = REBASE_OPCODE_DO_REBASE_ULEB_TIMES \<and> rt_operand1 x = 1 then
        x\<lparr>rt_operand1 := fst (take_run (rt_operand1 x) xs)\<rparr> # pack_runs (snd (take_run (rt_operand1 x) xs))
      else x # pack_runs xs)"
  by pat_completeness auto
termination
  using take_run_length by (relation "measure length") (auto simp: le_imp_less_Suc)

text \<open>Phase 2: a rebase and the addition behind it.\<close>

function combine_pairs :: "rebase_tmp list \<Rightarrow> rebase_tmp list" where
  "combine_pairs [] = []"
| "combine_pairs (x # xs) =
     (if rt_opcode x = REBASE_OPCODE_DONE then [x]
      else if rt_opcode x = REBASE_OPCODE_DO_REBASE_ULEB_TIMES \<and> rt_operand1 x = 1 \<and>
        xs \<noteq> [] \<and> rt_opcode (hd xs) = REBASE_OPCODE_ADD_ADDR_ULEB then
        x\<lparr>rt_opcode := REBASE_OPCODE_DO_REBASE_ADD_ADDR_ULEB, rt_operand1 := rt_operand1 (hd xs)\<rparr> # combine_pairs (tl xs)
      else x # combine_pairs xs)"
  by pat_completeness auto
termination
  by (relation "measure length") auto

text \<open>Phase 3: three or more with the same addition.\<close>

definition same_step :: "u64 \<Rightarrow> rebase_tmp \<Rightarrow> bool" where
  "same_step delta x \<longleftrightarrow> rt_opcode x = REBASE_OPCODE_DO_REBASE_ADD_ADDR_ULEB \<and> rt_operand1 x = delta"

fun take_steps :: "u64 \<Rightarrow> u64 \<Rightarrow> rebase_tmp list \<Rightarrow> u64 \<times> rebase_tmp list" where
  "take_steps delta n [] = (n, [])"
| "take_steps delta n (x # xs) = (if same_step delta x then take_steps delta (n + 1) xs else (n, x # xs))"

lemma take_steps_length: "length (snd (take_steps delta n xs)) \<le> length xs"
  by (induction delta n xs rule: take_steps.induct) auto

function skip_runs :: "rebase_tmp list \<Rightarrow> rebase_tmp list" where
  "skip_runs [] = []"
| "skip_runs (x # xs) =
     (let delta = rt_operand1 x
      in if rt_opcode x = REBASE_OPCODE_DONE then [x]
         else if rt_opcode x = REBASE_OPCODE_DO_REBASE_ADD_ADDR_ULEB \<and> length xs \<ge> 2 \<and>
           same_step delta (xs ! 0) \<and> same_step delta (xs ! 1) then
           x\<lparr>rt_opcode := REBASE_OPCODE_DO_REBASE_ULEB_TIMES_SKIPPING_ULEB,
             rt_operand1 := fst (take_steps delta 1 xs), rt_operand2 := delta\<rparr> # skip_runs (snd (take_steps delta 1 xs))
         else x # skip_runs xs)"
  by pat_completeness auto
termination
  using take_steps_length by (relation "measure length") (auto simp: le_imp_less_Suc)

text \<open>Phase 4: immediate operands.\<close>

definition rebase_immediate :: "u64 \<Rightarrow> rebase_tmp \<Rightarrow> rebase_tmp" where
  "rebase_immediate w p =
     (if rt_opcode p = REBASE_OPCODE_ADD_ADDR_ULEB \<and> rt_operand1 p < 15 * w \<and> rt_operand1 p mod w = 0 then
        p\<lparr>rt_opcode := REBASE_OPCODE_ADD_ADDR_IMM_SCALED, rt_operand1 := rt_operand1 p div w\<rparr>
      else if rt_opcode p = REBASE_OPCODE_DO_REBASE_ULEB_TIMES \<and> rt_operand1 p < 15 then
        p\<lparr>rt_opcode := REBASE_OPCODE_DO_REBASE_IMM_TIMES\<rparr>
      else p)"

fun use_immediates :: "u64 \<Rightarrow> rebase_tmp list \<Rightarrow> rebase_tmp list" where
  "use_immediates w [] = []"
| "use_immediates w (p # ps) =
     (if rt_opcode p = REBASE_OPCODE_DONE then p # ps else rebase_immediate w p # use_immediates w ps)"

text \<open>The bytes; \<open>REBASE_OPCODE_DONE\<close> ends the list and is not written.\<close>

definition append_rebase :: "rebase_tmp \<Rightarrow> bytes \<Rightarrow> bytes" where
  "append_rebase x out =
     (let op = rt_opcode x
      in if op \<in> {REBASE_OPCODE_SET_TYPE_IMM, REBASE_OPCODE_ADD_ADDR_IMM_SCALED, REBASE_OPCODE_DO_REBASE_IMM_TIMES} then
           out @ [ucast (ucast op OR rt_operand1 x)]
         else if op = REBASE_OPCODE_SET_SEGMENT_AND_OFFSET_ULEB then
           append_uleb128 (rt_operand2 x) (out @ [ucast (ucast op OR rt_operand1 x)])
         else if op \<in> {REBASE_OPCODE_ADD_ADDR_ULEB, REBASE_OPCODE_DO_REBASE_ULEB_TIMES,
             REBASE_OPCODE_DO_REBASE_ADD_ADDR_ULEB} then append_uleb128 (rt_operand1 x) (out @ [op])
         else if op = REBASE_OPCODE_DO_REBASE_ULEB_TIMES_SKIPPING_ULEB then
           append_uleb128 (rt_operand2 x) (append_uleb128 (rt_operand1 x) (out @ [op]))
         else out)"

fun append_rebases :: "rebase_tmp list \<Rightarrow> bytes \<Rightarrow> bytes" where
  "append_rebases [] out = out"
| "append_rebases (x # xs) out = (if rt_opcode x = REBASE_OPCODE_DONE then out else append_rebases xs (append_rebase x out))"

function pad_to_size :: "nat \<Rightarrow> bytes \<Rightarrow> bytes" where
  "pad_to_size alignment out =
     (if alignment \<noteq> 0 \<and> length out mod alignment \<noteq> 0 then pad_to_size alignment (out @ [0]) else out)"
  by pat_completeness auto
termination
  by (relation "measure (\<lambda>(n, out). (n - length out mod n) mod n)") (auto simp: mod_Suc intro!: diff_less_mono2)

declare pad_to_size.simps [simp del]

definition rebase_encodeV1 :: "final_section list \<Rightarrow> u64 \<Rightarrow> rebase_info list \<Rightarrow> bytes link_result" where
  "rebase_encodeV1 sections w info =
     bind (rebase_mid sections w (0, 0, 0) 0 (- 1) info) (\<lambda>mid.
       Ok (pad_to_size (unat w) (append_rebases (use_immediates w (skip_runs (combine_pairs (pack_runs mid)))) [])))"

text \<open>
  \<open>encode\<close>: with linked lists the rebases are part of the binding information.  The order of the sort is the type, then
  the address; equal elements are the same.
\<close>

definition rebase_encode :: "bool \<Rightarrow> bool \<Rightarrow> bool \<Rightarrow> bool \<Rightarrow> final_section list \<Rightarrow> u64 \<Rightarrow> rebase_info list \<Rightarrow> bytes link_result" where
  "rebase_encode pie pieDisabled linkedLists unaligned sections w info =
     (let info' = sort_key ri_type (sort_key ri_address info)
      in if pie \<and> pieDisabled then Ok []
         else if info = [] then Ok []
         else if linkedLists \<and> \<not> unaligned then
           (if ri_type (last info') \<noteq> REBASE_TYPE_POINTER then Error Unsupported_rebase_type else Ok [])
         else rebase_encodeV1 sections w info')"

section \<open>The checker\<close>

datatype checker_error =
    Malformed_uleb128
  | Uleb128_too_big
  | Segment_index_out_of_range
  | Bad_rebase_opcode

type_synonym 'a checker_result = "(checker_error, 'a) result"

fun checker_error_of :: "trie_error \<Rightarrow> checker_error" where
  "checker_error_of Uleb_beyond_trie = Malformed_uleb128"
| "checker_error_of _ = Uleb128_too_big"

definition checker_uleb128 :: "bytes \<Rightarrow> nat \<Rightarrow> (u64 \<times> nat) checker_result" where
  "checker_uleb128 m p =
     (case read_uleb128_trie m p of Ok r \<Rightarrow> Ok r | Error err \<Rightarrow> Error (checker_error_of err) | Fault \<Rightarrow> Fault)"

text \<open>The comparison lets the index behind the last segment pass.\<close>

definition segStartAddr :: "u64 list \<Rightarrow> u8 \<Rightarrow> u64 checker_result" where
  "segStartAddr segments segIndex =
     bind (guard (\<not> unat segIndex > length segments) Segment_index_out_of_range) (\<lambda>_.
       within (unat segIndex < length segments) (segments ! unat segIndex))"

text \<open>An address of type \<open>pint_t\<close>.\<close>

definition pint :: "u64 \<Rightarrow> u64 \<Rightarrow> u64" where
  "pint w a = (if w = 4 then ucast (ucast a :: u32) else a)"

text \<open>The loop over the rebases of one opcode: whether one is hit, and the offset behind it.\<close>

fun rebase_times :: "(u64 \<Rightarrow> bool) \<Rightarrow> u64 \<Rightarrow> u64 \<Rightarrow> u64 \<Rightarrow> nat \<Rightarrow> u64 \<Rightarrow> bool \<times> u64" where
  "rebase_times hit w segStart step 0 segOffset = (False, segOffset)"
| "rebase_times hit w segStart step (Suc n) segOffset =
     (if hit (pint w (segStart + segOffset)) then (True, segOffset)
      else rebase_times hit w segStart step n (segOffset + step))"

text \<open>One opcode at \<open>p\<close>; the result is \<open>None\<close> if the loop is left with a hit.\<close>

definition rebase_step ::
    "(u64 \<Rightarrow> bool) \<Rightarrow> u64 \<Rightarrow> u64 list \<Rightarrow> bytes \<Rightarrow> u8 \<Rightarrow> nat \<Rightarrow> u64 \<Rightarrow> u64 \<Rightarrow> (nat \<times> u64 \<times> u64) option checker_result" where
  "rebase_step hit w segments m b p segStart segOffset =
     (let immediate = b AND REBASE_IMMEDIATE_MASK; opcode = b AND REBASE_OPCODE_MASK;
          run = (\<lambda>n step p. case rebase_times hit w segStart step n segOffset of
                   (found, segOffset) \<Rightarrow> Ok (if found then None else Some (p, segStart, segOffset)))
      in if opcode = REBASE_OPCODE_SET_TYPE_IMM then Ok (Some (p, segStart, segOffset))
         else if opcode = REBASE_OPCODE_SET_SEGMENT_AND_OFFSET_ULEB then
           bind (segStartAddr segments immediate) (\<lambda>segStart.
           bind (checker_uleb128 m p) (\<lambda>(segOffset, p). Ok (Some (p, segStart, segOffset))))
         else if opcode = REBASE_OPCODE_ADD_ADDR_ULEB then
           bind (checker_uleb128 m p) (\<lambda>(v, p). Ok (Some (p, segStart, segOffset + v)))
         else if opcode = REBASE_OPCODE_ADD_ADDR_IMM_SCALED then Ok (Some (p, segStart, segOffset + ucast immediate * w))
         else if opcode = REBASE_OPCODE_DO_REBASE_IMM_TIMES then run (unat immediate) w p
         else if opcode = REBASE_OPCODE_DO_REBASE_ULEB_TIMES then
           bind (checker_uleb128 m p) (\<lambda>(count, p). run (unat (ucast count :: u32)) w p)
         else if opcode = REBASE_OPCODE_DO_REBASE_ADD_ADDR_ULEB then
           (if hit (pint w (segStart + segOffset)) then Ok None
            else bind (checker_uleb128 m p) (\<lambda>(v, p). Ok (Some (p, segStart, segOffset + (v + w)))))
         else if opcode = REBASE_OPCODE_DO_REBASE_ULEB_TIMES_SKIPPING_ULEB then
           bind (checker_uleb128 m p) (\<lambda>(count, p).
           bind (checker_uleb128 m p) (\<lambda>(skip, p). run (unat (ucast count :: u32)) (ucast (ucast skip :: u32) + w) p))
         else Error Bad_rebase_opcode)"

lemma uleb_slices_ahead: "uleb_slices m p k r = Ok (v, q) \<Longrightarrow> p < q"
proof (induction m p k r rule: uleb_slices.induct)
  case (1 m p k r)
  show ?case
    using 1(2) 1(1) [OF _ _ refl _ refl] by (subst (asm) uleb_slices.simps) (fastforce simp: Let_def split: if_splits)
qed

lemma checker_uleb128_ahead: "checker_uleb128 m p = Ok (v, q) \<Longrightarrow> p < q"
  by (auto simp: checker_uleb128_def read_uleb128_trie_def dest: uleb_slices_ahead split: result.splits)

text \<open>A step does not move back.\<close>

definition ahead :: "nat \<Rightarrow> (nat \<times> u64 \<times> u64) option checker_result \<Rightarrow> bool" where
  "ahead p r \<longleftrightarrow> (\<forall>q s a. r = Ok (Some (q, s, a)) \<longrightarrow> p \<le> q)"

lemma ahead_simps [simp]:
  "ahead p (Ok None)" "ahead p (Error err)" "ahead p Fault" "ahead p (Ok (Some (q, s, a))) \<longleftrightarrow> p \<le> q"
  by (simp_all add: ahead_def)

lemma ahead_if: "ahead p r \<Longrightarrow> ahead p r' \<Longrightarrow> ahead p (if b then r else r')"
  by simp

lemma ahead_bind: "(\<And>z. x = Ok z \<Longrightarrow> ahead p (f z)) \<Longrightarrow> ahead p (bind x f)"
  by (cases x) auto

lemma ahead_run:
  "p \<le> q \<Longrightarrow> ahead p (case r of (found, segOffset) \<Rightarrow> Ok (if found then None else Some (q, segStart, segOffset)))"
  by (simp split: prod.split)

lemma rebase_step_ahead: "ahead p (rebase_step hit w segments m b p s a)"
  unfolding rebase_step_def Let_def
  by (intro ahead_if ahead_bind ahead_run;
      fastforce intro!: ahead_bind ahead_run dest!: checker_uleb128_ahead simp del: split_paired_All)

lemmas rebase_step_measure = rebase_step_ahead [unfolded ahead_def, rule_format]

text \<open>The loop; \<open>p\<close> is compared with the end of the opcodes before each.\<close>

function rebase_scan :: "(u64 \<Rightarrow> bool) \<Rightarrow> u64 \<Rightarrow> u64 list \<Rightarrow> bytes \<Rightarrow> nat \<Rightarrow> u64 \<Rightarrow> u64 \<Rightarrow> bool checker_result" where
  "rebase_scan hit w segments m p segStart segOffset =
     (if p \<ge> length m \<or> m ! p AND REBASE_OPCODE_MASK = REBASE_OPCODE_DONE then Ok False
      else
        (case rebase_step hit w segments m (m ! p) (p + 1) segStart segOffset of
           Error err \<Rightarrow> Error err
         | Fault \<Rightarrow> Fault
         | Ok None \<Rightarrow> Ok True
         | Ok (Some (p, segStart, segOffset)) \<Rightarrow> rebase_scan hit w segments m p segStart segOffset))"
  by pat_completeness auto
termination
  by (relation "measure (\<lambda>(hit, w, segments, m, p, _). length m - p)") (auto dest!: rebase_step_measure)

declare rebase_scan.simps [simp del]

text \<open>
  The addresses of the local relocations are given with the base they are relative to.  Without dyld information there
  are no opcodes.
\<close>

definition hasTextRelocInRange ::
    "u64 \<Rightarrow> u64 list \<Rightarrow> u64 \<Rightarrow> u64 list \<Rightarrow> bytes option \<Rightarrow> u64 \<Rightarrow> u64 \<Rightarrow> bool checker_result" where
  "hasTextRelocInRange w localRelocations relocBase segments rebases rangeStart rangeEnd =
     (if \<exists>r\<in>set localRelocations. rangeStart \<le> pint w (r + relocBase) \<and> pint w (r + relocBase) < rangeEnd then Ok True
      else
        (case rebases of
           None \<Rightarrow> Ok False
         | Some m \<Rightarrow> rebase_scan (\<lambda>addr. rangeStart \<le> addr \<and> addr < rangeEnd) w segments m 0 0 0))"

end
