(* ===== verification/Rebase_Facts.thy ===== *)
theory Rebase_Facts
  imports Rebase_Info Trie_Build
begin

text \<open>
  The rebase opcodes that the linker writes and the checker that runs them: the phases of the encoder keep the
  addresses that the opcodes stand for, and the checker finds exactly the addresses that were given to the encoder.
\<close>

section \<open>What the opcodes stand for\<close>

lemma run_sum: "(a :: u64) + s + of_nat k * s = a + (1 + of_nat k) * s"
  by (simp add: algebra_simps)

lemma run_count: "(n :: u64) + 1 + of_nat k = n + of_nat (Suc k)"
  by simp

text \<open>The addresses of \<open>n\<close> rebases at a distance.\<close>

fun sites_run :: "u64 \<Rightarrow> u64 \<Rightarrow> nat \<Rightarrow> u64 list" where
  "sites_run a step 0 = []"
| "sites_run a step (Suc n) = a # sites_run (a + step) step n"

text \<open>The addresses that an opcode rebases, and the address behind it.\<close>

definition rebase_op :: "u64 list \<Rightarrow> u64 \<Rightarrow> rebase_tmp \<Rightarrow> u64 \<Rightarrow> u64 list \<times> u64" where
  "rebase_op vm w x a =
     (let op = rt_opcode x; n = rt_operand1 x
      in if op = REBASE_OPCODE_SET_SEGMENT_AND_OFFSET_ULEB then ([], vm ! unat n + rt_operand2 x)
         else if op = REBASE_OPCODE_ADD_ADDR_ULEB then ([], a + n)
         else if op = REBASE_OPCODE_ADD_ADDR_IMM_SCALED then ([], a + n * w)
         else if op = REBASE_OPCODE_DO_REBASE_IMM_TIMES \<or> op = REBASE_OPCODE_DO_REBASE_ULEB_TIMES then
           (sites_run a w (unat n), a + n * w)
         else if op = REBASE_OPCODE_DO_REBASE_ADD_ADDR_ULEB then ([a], a + (n + w))
         else if op = REBASE_OPCODE_DO_REBASE_ULEB_TIMES_SKIPPING_ULEB then
           (sites_run a (rt_operand2 x + w) (unat n), a + n * (rt_operand2 x + w))
         else ([], a))"

fun rebase_sites :: "u64 list \<Rightarrow> u64 \<Rightarrow> rebase_tmp list \<Rightarrow> u64 \<Rightarrow> u64 list" where
  "rebase_sites vm w [] a = []"
| "rebase_sites vm w (x # xs) a =
     (if rt_opcode x = REBASE_OPCODE_DONE then []
      else fst (rebase_op vm w x a) @ rebase_sites vm w xs (snd (rebase_op vm w x a)))"

text \<open>Operands that fit their encoding, and what the checker reads of it.\<close>

definition op_ok :: "u64 list \<Rightarrow> rebase_tmp \<Rightarrow> bool" where
  "op_ok vm x \<longleftrightarrow>
     (let op = rt_opcode x; n = unat (rt_operand1 x)
      in op = REBASE_OPCODE_DONE \<or> op = REBASE_OPCODE_SET_TYPE_IMM \<and> n < 16 \<or>
         op = REBASE_OPCODE_SET_SEGMENT_AND_OFFSET_ULEB \<and> n < 16 \<and> n < length vm \<or>
         op = REBASE_OPCODE_ADD_ADDR_ULEB \<and> n < 2 ^ 32 \<or> op = REBASE_OPCODE_ADD_ADDR_IMM_SCALED \<and> n < 16 \<or>
         op = REBASE_OPCODE_DO_REBASE_IMM_TIMES \<and> n < 16 \<or> op = REBASE_OPCODE_DO_REBASE_ULEB_TIMES \<and> n < 2 ^ 32 \<or>
         op = REBASE_OPCODE_DO_REBASE_ADD_ADDR_ULEB \<and> n < 2 ^ 32 \<or>
         op = REBASE_OPCODE_DO_REBASE_ULEB_TIMES_SKIPPING_ULEB \<and> n < 2 ^ 32 \<and> unat (rt_operand2 x) < 2 ^ 32)"

lemma sites_run_add: "sites_run a step (m + n) = sites_run a step m @ sites_run (a + of_nat m * step) step n"
  by (induction m arbitrary: a) (auto simp: algebra_simps)

section \<open>The phases keep the addresses\<close>

text \<open>Phase 1.\<close>

definition single_times :: "rebase_tmp list \<Rightarrow> bool" where
  "single_times xs \<longleftrightarrow> (\<forall>x\<in>set xs. rt_opcode x = REBASE_OPCODE_DO_REBASE_ULEB_TIMES \<longrightarrow> rt_operand1 x = 1)"

lemma take_run_sites:
  assumes "single_times xs"
  shows "\<exists>k rest. take_run n xs = (n + of_nat k, rest) \<and> rest = drop k xs \<and> k \<le> length xs \<and>
    (\<forall>a. rebase_sites vm w xs a = sites_run a w k @ rebase_sites vm w rest (a + of_nat k * w))"
  using assms
proof (induction n xs rule: take_run.induct)
  case (2 n x xs)
  show ?case
  proof (cases "rt_opcode x = REBASE_OPCODE_DO_REBASE_ULEB_TIMES")
    case True
    then have x: "rt_operand1 x = 1" using 2(2) by (simp add: single_times_def)
    obtain k where k: "take_run (n + rt_operand1 x) xs = (n + rt_operand1 x + of_nat k, drop k xs)" "k \<le> length xs"
        "\<forall>a. rebase_sites vm w xs a = sites_run a w k @ rebase_sites vm w (drop k xs) (a + of_nat k * w)"
      using 2(1) [OF True] 2(2) by (auto simp: single_times_def)
    have "rebase_op vm w x a = ([a], a + w)" for a using True x by (simp add: rebase_op_def)
    then show ?thesis
      using True k x by (intro exI [of _ "Suc k"] exI [of _ "drop k xs"]) (simp add: run_sum)
  qed (auto intro: exI [of _ 0])
qed auto

lemma single_times_drop: "single_times xs \<Longrightarrow> single_times (drop k xs)"
  by (meson in_set_dropD single_times_def)

lemma pack_runs_sites:
  "single_times xs \<Longrightarrow> length xs < 2 ^ 32 \<Longrightarrow> rebase_sites vm w (pack_runs xs) a = rebase_sites vm w xs a"
proof (induction xs arbitrary: a rule: pack_runs.induct)
  case (2 x xs)
  have xs: "single_times xs" "length xs < 2 ^ 32" using 2(3,4) by (auto simp: single_times_def)
  show ?case
  proof (cases "rt_opcode x = REBASE_OPCODE_DO_REBASE_ULEB_TIMES \<and> rt_operand1 x = 1")
    case True
    obtain k where k: "take_run (rt_operand1 x) xs = (1 + of_nat k, drop k xs)" "k \<le> length xs"
        "\<forall>a. rebase_sites vm w xs a = sites_run a w k @ rebase_sites vm w (drop k xs) (a + of_nat k * w)"
      using take_run_sites [OF xs(1), of "rt_operand1 x" vm w] True by auto
    have "unat (1 + of_nat k :: u64) = Suc k"
      using k(2) xs(2) by (simp add: unsigned_of_nat take_bit_nat_eq_self flip: of_nat_Suc)
    then have op: "rebase_op vm w (x\<lparr>rt_operand1 := 1 + of_nat k\<rparr>) a = (sites_run a w (Suc k), a + (1 + of_nat k) * w)"
      using True by (simp add: rebase_op_def)
    have one: "rebase_op vm w x a = ([a], a + w)" using True by (simp add: rebase_op_def)
    have "rebase_sites vm w (pack_runs (drop k xs)) b = rebase_sites vm w (drop k xs) b" for b
      using 2(1) [of b] True k single_times_drop [OF xs(1)] xs(2) by simp
    then show ?thesis using True k(1,3) op one by (simp add: run_sum)
  next
    case False
    then show ?thesis using 2(2) xs by auto
  qed
qed simp

text \<open>Phase 2.\<close>

lemma combine_pairs_sites: "rebase_sites vm w (combine_pairs xs) a = rebase_sites vm w xs a"
proof (induction xs arbitrary: a rule: combine_pairs.induct)
  case (2 x xs)
  show ?case
  proof (cases "rt_opcode x = REBASE_OPCODE_DO_REBASE_ULEB_TIMES \<and> rt_operand1 x = 1 \<and>
      xs \<noteq> [] \<and> rt_opcode (hd xs) = REBASE_OPCODE_ADD_ADDR_ULEB")
    case True
    then obtain y ys where "xs = y # ys" by (cases xs) auto
    then show ?thesis using True 2(1) by (simp add: rebase_op_def add.assoc add.commute [of w])
  next
    case False
    then show ?thesis using 2(2) by auto
  qed
qed simp

text \<open>Phase 3.\<close>

lemma take_steps_sites:
  "\<exists>k rest. take_steps delta n xs = (n + of_nat k, rest) \<and> rest = drop k xs \<and> k \<le> length xs \<and>
    (\<forall>a. rebase_sites vm w xs a =
      sites_run a (delta + w) k @ rebase_sites vm w rest (a + of_nat k * (delta + w)))"
proof (induction delta n xs rule: take_steps.induct)
  case (2 delta n x xs)
  show ?case
  proof (cases "same_step delta x")
    case True
    obtain k where k: "take_steps delta (n + 1) xs = (n + 1 + of_nat k, drop k xs)" "k \<le> length xs"
        "\<forall>a. rebase_sites vm w xs a = sites_run a (delta + w) k @ rebase_sites vm w (drop k xs) (a + of_nat k * (delta + w))"
      using 2 [OF True] by auto
    have "rebase_op vm w x a = ([a], a + (delta + w))" for a using True by (simp add: rebase_op_def same_step_def)
    then show ?thesis
      using True k by (intro exI [of _ "Suc k"] exI [of _ "drop k xs"]) (simp add: run_sum same_step_def)
  qed (auto intro: exI [of _ 0])
qed auto

lemma skip_runs_sites: "length xs < 2 ^ 32 \<Longrightarrow> rebase_sites vm w (skip_runs xs) a = rebase_sites vm w xs a"
proof (induction xs arbitrary: a rule: skip_runs.induct)
  case (2 x xs)
  let ?d = "rt_operand1 x"
  show ?case
  proof (cases "rt_opcode x = REBASE_OPCODE_DO_REBASE_ADD_ADDR_ULEB \<and> length xs \<ge> 2 \<and> same_step ?d (xs ! 0) \<and> same_step ?d (xs ! 1)")
    case True
    obtain k where k: "take_steps ?d 1 xs = (1 + of_nat k, drop k xs)" "k \<le> length xs"
        "\<forall>a. rebase_sites vm w xs a = sites_run a (?d + w) k @ rebase_sites vm w (drop k xs) (a + of_nat k * (?d + w))"
      using take_steps_sites [of ?d 1 xs vm w] by auto
    have "unat (1 + of_nat k :: u64) = Suc k"
      using k(2) 2(3) by (simp add: unsigned_of_nat take_bit_nat_eq_self flip: of_nat_Suc)
    then have op: "rebase_op vm w (x\<lparr>rt_opcode := REBASE_OPCODE_DO_REBASE_ULEB_TIMES_SKIPPING_ULEB,
        rt_operand1 := 1 + of_nat k, rt_operand2 := ?d\<rparr>) a = (sites_run a (?d + w) (Suc k), a + (1 + of_nat k) * (?d + w))"
      by (simp add: rebase_op_def)
    have one: "rebase_op vm w x a = ([a], a + (?d + w))" using True by (simp add: rebase_op_def)
    have "rebase_sites vm w (skip_runs (drop k xs)) b = rebase_sites vm w (drop k xs) b" for b
      using 2(1) [OF refl, of b] True k 2(3) by simp
    then show ?thesis using True k(1,3) op one by (simp add: Let_def run_sum)
  next
    case False
    then show ?thesis using 2(2) [OF refl] 2(3) by (auto simp: Let_def)
  qed
qed simp

text \<open>Phase 4.\<close>

lemma rebase_immediate_op: "rebase_op vm w (rebase_immediate w x) a = rebase_op vm w x a"
proof -
  have "rt_operand1 x div w * w = rt_operand1 x" if "rt_operand1 x mod w = 0"
    using div_mult_mod_eq [of "rt_operand1 x" w] that by simp
  then show ?thesis by (simp add: rebase_immediate_def rebase_op_def)
qed

lemma rebase_immediate_done: "rt_opcode (rebase_immediate w x) = REBASE_OPCODE_DONE \<longleftrightarrow> rt_opcode x = REBASE_OPCODE_DONE"
  by (auto simp: rebase_immediate_def)

lemma use_immediates_sites: "rebase_sites vm w (use_immediates w xs) a = rebase_sites vm w xs a"
  by (induction xs arbitrary: a) (auto simp: rebase_immediate_op rebase_immediate_done)


section \<open>The operands fit\<close>

lemma pack_runs_length: "length (pack_runs xs) \<le> length xs"
proof (induction xs rule: pack_runs.induct)
  case (2 x xs)
  then show ?case using take_run_length [of "rt_operand1 x" xs] by (cases "rt_opcode x = REBASE_OPCODE_DONE") (auto intro: le_trans)
qed simp

lemma combine_pairs_length: "length (combine_pairs xs) \<le> length xs"
proof (induction xs rule: combine_pairs.induct)
  case (2 x xs)
  then show ?case by (cases xs) (auto intro: le_trans)
qed simp

lemma pack_runs_ok:
  "single_times xs \<Longrightarrow> length xs < 2 ^ 32 \<Longrightarrow> \<forall>x\<in>set xs. op_ok vm x \<Longrightarrow> \<forall>x\<in>set (pack_runs xs). op_ok vm x"
proof (induction xs rule: pack_runs.induct)
  case (2 x xs)
  have xs: "single_times xs" using 2(3) by (simp add: single_times_def)
  show ?case
  proof (cases "rt_opcode x = REBASE_OPCODE_DO_REBASE_ULEB_TIMES \<and> rt_operand1 x = 1")
    case True
    obtain k where k: "take_run (rt_operand1 x) xs = (1 + of_nat k, drop k xs)" "k \<le> length xs"
      using take_run_sites [OF xs, of "rt_operand1 x" vm 0] True by auto
    have "unat (1 + of_nat k :: u64) = Suc k"
      using k(2) 2(4) by (simp add: unsigned_of_nat take_bit_nat_eq_self flip: of_nat_Suc)
    then have "op_ok vm (x\<lparr>rt_operand1 := 1 + of_nat k\<rparr>)" using True k(2) 2(4) by (simp add: op_ok_def)
    moreover have "\<forall>x\<in>set (pack_runs (drop k xs)). op_ok vm x"
    proof -
      have "\<forall>x\<in>set (drop k xs). op_ok vm x" using 2(5) by (auto dest: in_set_dropD)
      then show ?thesis using 2(1) True k single_times_drop [OF xs, of k] 2(4) by simp
    qed
    ultimately show ?thesis using True k(1) by simp
  next
    case False
    then show ?thesis using 2(2,4,5) xs by auto
  qed
qed simp

lemma combine_pairs_ok: "\<forall>x\<in>set xs. op_ok vm x \<Longrightarrow> \<forall>x\<in>set (combine_pairs xs). op_ok vm x"
proof (induction xs rule: combine_pairs.induct)
  case (2 x xs)
  show ?case
  proof (cases "rt_opcode x = REBASE_OPCODE_DO_REBASE_ULEB_TIMES \<and> rt_operand1 x = 1 \<and>
      xs \<noteq> [] \<and> rt_opcode (hd xs) = REBASE_OPCODE_ADD_ADDR_ULEB")
    case True
    then obtain y ys where xs: "xs = y # ys" by (cases xs) auto
    have "op_ok vm y" using 2(3) xs by simp
    then have "op_ok vm (x\<lparr>rt_opcode := REBASE_OPCODE_DO_REBASE_ADD_ADDR_ULEB, rt_operand1 := rt_operand1 y\<rparr>)"
      using True xs by (auto simp: op_ok_def)
    then show ?thesis using True 2(1,3) xs by simp
  next
    case False
    then show ?thesis using 2(2,3) by auto
  qed
qed simp

lemma skip_runs_ok: "length xs < 2 ^ 32 \<Longrightarrow> \<forall>x\<in>set xs. op_ok vm x \<Longrightarrow> \<forall>x\<in>set (skip_runs xs). op_ok vm x"
proof (induction xs rule: skip_runs.induct)
  case (2 x xs)
  let ?d = "rt_operand1 x"
  show ?case
  proof (cases "rt_opcode x = REBASE_OPCODE_DO_REBASE_ADD_ADDR_ULEB \<and> length xs \<ge> 2 \<and> same_step ?d (xs ! 0) \<and> same_step ?d (xs ! 1)")
    case True
    obtain k where k: "take_steps ?d 1 xs = (1 + of_nat k, drop k xs)" "k \<le> length xs"
      using take_steps_sites [of ?d 1 xs vm 0] by auto
    have "unat (1 + of_nat k :: u64) = Suc k"
      using k(2) 2(3) by (simp add: unsigned_of_nat take_bit_nat_eq_self flip: of_nat_Suc)
    moreover have "unat ?d < 2 ^ 32" using True 2(4) by (simp add: op_ok_def)
    ultimately have "op_ok vm (x\<lparr>rt_opcode := REBASE_OPCODE_DO_REBASE_ULEB_TIMES_SKIPPING_ULEB,
        rt_operand1 := 1 + of_nat k, rt_operand2 := ?d\<rparr>)"
      using k(2) 2(3) by (simp add: op_ok_def)
    moreover have "\<forall>x\<in>set (skip_runs (drop k xs)). op_ok vm x"
    proof -
      have "\<forall>x\<in>set (drop k xs). op_ok vm x" using 2(4) by (auto dest: in_set_dropD)
      then show ?thesis using 2(1) [OF refl] True k 2(3) by simp
    qed
    ultimately show ?thesis using True k(1) by (simp add: Let_def)
  next
    case False
    then show ?thesis using 2(2) [OF refl] 2(3,4) by (auto simp: Let_def)
  qed
qed simp

lemma rebase_immediate_ok:
  assumes "op_ok vm x" and "w = 4 \<or> w = 8"
  shows "op_ok vm (rebase_immediate w x)"
proof -
  have "unat (rt_operand1 x div w) < 16" if "rt_operand1 x < 15 * w"
  proof -
    have "unat (rt_operand1 x) < 15 * unat w" using that assms(2) by (auto simp: word_less_nat_alt)
    then show ?thesis using assms(2) by (auto simp: unat_div less_mult_imp_div_less)
  qed
  then show ?thesis using assms(1) by (auto simp: rebase_immediate_def op_ok_def Let_def word_less_nat_alt)
qed

lemma use_immediates_ok:
  "\<forall>x\<in>set xs. op_ok vm x \<Longrightarrow> w = 4 \<or> w = 8 \<Longrightarrow> \<forall>x\<in>set (use_immediates w xs). op_ok vm x"
  by (induction xs) (auto simp: rebase_immediate_ok)

text \<open>The four phases together.\<close>

definition optimized :: "u64 \<Rightarrow> rebase_tmp list \<Rightarrow> rebase_tmp list" where
  "optimized w mid = use_immediates w (skip_runs (combine_pairs (pack_runs mid)))"

lemma optimized_keeps:
  assumes "single_times mid" and "length mid < 2 ^ 32" and "\<forall>x\<in>set mid. op_ok vm x" and "w = 4 \<or> w = 8"
  shows "rebase_sites vm w (optimized w mid) a = rebase_sites vm w mid a" "\<forall>x\<in>set (optimized w mid). op_ok vm x"
proof -
  have "length (combine_pairs (pack_runs mid)) < 2 ^ 32"
    using assms(2) combine_pairs_length [of "pack_runs mid"] pack_runs_length [of mid] by linarith
  then show "rebase_sites vm w (optimized w mid) a = rebase_sites vm w mid a" "\<forall>x\<in>set (optimized w mid). op_ok vm x"
    using use_immediates_ok [OF skip_runs_ok [OF _ combine_pairs_ok [OF pack_runs_ok [OF assms(1-3)]]] assms(4)]
      pack_runs_sites [OF assms(1,2)]
    by (simp_all add: optimized_def use_immediates_sites skip_runs_sites combine_pairs_sites)
qed

section \<open>Running the bytes\<close>

lemma append_rebase_bytes: "append_rebase x out = out @ append_rebase x []"
  by (simp add: append_rebase_def Let_def append_uleb128_encode)

lemma append_rebases_bytes: "append_rebases xs out = out @ append_rebases xs []"
proof (induction xs arbitrary: out)
  case (Cons x xs)
  show ?case
    using append_rebase_bytes [of x out] Cons [of "append_rebase x out"] Cons [of "append_rebase x []"] by simp
qed simp

lemma checker_read:
  "drop p m = uleb_encode (unat v) @ rest \<Longrightarrow> checker_uleb128 m p = Ok (v, p + length (uleb_encode (unat v)))"
  using read_uleb_encoded [of p m "unat v" rest] unsigned_less [of v, where 'a = nat] by (simp add: checker_uleb128_def)

lemma rebase_times_sites:
  "fst (rebase_times hit w s step n off) \<longleftrightarrow> (\<exists>y\<in>set (sites_run (s + off) step n). hit (pint w y))"
  "\<not> (\<exists>y\<in>set (sites_run (s + off) step n). hit (pint w y)) \<Longrightarrow> snd (rebase_times hit w s step n off) = off + of_nat n * step"
  by (induction n arbitrary: off) (auto simp: algebra_simps)

text \<open>The two halves of an opcode byte.\<close>

lemma nibble_masks: "(0x0f :: u8) = mask 4" "(0xf0 :: u8) = NOT (mask 4)"
  by (simp_all add: mask_eq_exp_minus_1)

lemma opcode_byte:
  fixes n :: u64
  assumes n: "unat n < 16" and op: "op AND 0x0f = (0 :: u8)"
  shows "(ucast (ucast op OR n) :: u8) AND 0xf0 = op" "(ucast (ucast op OR n) :: u8) AND 0x0f = ucast n"
proof -
  have "take_bit 4 n = n" using n by (simp add: word_unat_eq_iff unsigned_take_bit_eq take_bit_nat_eq_self)
  then have "\<not> bit n i" if "4 \<le> i" for i using that by (metis bit_take_bit_iff not_le)
  then have high: "\<not> bit (ucast n :: u8) i" if "4 \<le> i" for i using that by (simp add: bit_simps)
  have low: "\<not> bit op i" if "i < 4" for i
  proof -
    have "op AND mask 4 = 0" using op unfolding nibble_masks .
    then have "\<not> bit (op AND mask 4) i" by (simp only: bit_0_eq bot_apply bot_bool_def not_False_eq_True)
    then show ?thesis using that by (simp add: bit_simps)
  qed
  have low': "4 \<le> i" if "bit op i" for i using low that by (meson not_le)
  have high': "i < 4" if "bit (ucast n :: u8) i" for i using high that by (meson not_le)
  have byte: "(ucast (ucast op OR n) :: u8) = op OR ucast n" by (rule bit_word_eqI) (auto simp: bit_simps)
  show "(ucast (ucast op OR n) :: u8) AND 0xf0 = op" unfolding byte nibble_masks
    by (rule bit_word_eqI) (auto simp: bit_and_iff bit_or_iff bit_not_iff bit_mask_iff dest: high' low')
  show "(ucast (ucast op OR n) :: u8) AND 0x0f = ucast n" unfolding byte nibble_masks
    by (rule bit_word_eqI) (auto simp: bit_and_iff bit_or_iff bit_mask_iff dest: high' low')
qed

text \<open>One opcode of the bytes that the encoder has written.\<close>

lemma sites_run_hit:
  "(case rebase_times hit w s step n off of (found, segOffset) \<Rightarrow> Ok (if found then None else Some (q, s, segOffset))) =
    Ok (if \<exists>y\<in>set (sites_run (s + off) step n). hit (pint w y) then None else Some (q, s, off + of_nat n * step))"
  using rebase_times_sites(1) [of hit w s step n off] rebase_times_sites(2) [of s off step n hit w] by (auto simp: prod.case_eq_if)

lemma unat_count: "unat (v :: u64) < 2 ^ 32 \<Longrightarrow> unat (ucast v :: u32) = unat v"
  by (simp add: unsigned_ucast_eq unsigned_take_bit_eq take_bit_nat_eq_self)

lemma ucast_skip: "unat (v :: u64) < 2 ^ 32 \<Longrightarrow> ucast (ucast v :: u32) = v"
  by (simp add: word_unat_eq_iff unat_count unsigned_ucast_eq unsigned_take_bit_eq take_bit_nat_eq_self)

lemma unat_low_nibble: "unat (n :: u64) < 16 \<Longrightarrow> unat (ucast n :: u8) = unat n"
  by (simp add: unsigned_ucast_eq unsigned_take_bit_eq take_bit_nat_eq_self)

lemma ucast_low_nibble: "unat (n :: u64) < 16 \<Longrightarrow> ucast (ucast n :: u8) = n"
  by (simp add: word_unat_eq_iff unat_low_nibble unsigned_ucast_eq unsigned_take_bit_eq take_bit_nat_eq_self)

lemma sum_exists [simp]: "\<exists>s' off'. s' + off' = (x :: u64)"
  by (intro exI [of _ x] exI [of _ 0]) simp

lemma rebase_step_written:
  assumes ok: "op_ok vm x" and op: "rt_opcode x \<noteq> REBASE_OPCODE_DONE" and at: "drop p m = append_rebase x [] @ rest"
  shows "p < length m \<and> m ! p AND REBASE_OPCODE_MASK = rt_opcode x \<and>
    (\<exists>s' off'. s' + off' = snd (rebase_op vm w x (s + off)) \<and>
      rebase_step hit w vm m (m ! p) (p + 1) s off =
        Ok (if \<exists>y\<in>set (fst (rebase_op vm w x (s + off))). hit (pint w y) then None
            else Some (p + length (append_rebase x []), s', off')))"
proof -
  let ?n = "rt_operand1 x"
  consider (set_type) "rt_opcode x = 0x10" "unat ?n < 16"
    | (segment) "rt_opcode x = 0x20" "unat ?n < 16" "unat ?n < length vm"
    | (add) "rt_opcode x = 0x30" "unat ?n < 2 ^ 32"
    | (add_imm) "rt_opcode x = 0x40" "unat ?n < 16"
    | (imm_times) "rt_opcode x = 0x50" "unat ?n < 16"
    | (times) "rt_opcode x = 0x60" "unat ?n < 2 ^ 32"
    | (do_add) "rt_opcode x = 0x70" "unat ?n < 2 ^ 32"
    | (skipping) "rt_opcode x = 0x80" "unat ?n < 2 ^ 32" "unat (rt_operand2 x) < 2 ^ 32"
    using ok op by (auto simp: op_ok_def Let_def)
  then show ?thesis
  proof cases
    case set_type
    have "drop p m = ucast (ucast (0x10 :: u8) OR ?n) # rest" using at set_type by (simp add: append_rebase_def)
    then show ?thesis using drop_inside [of p m] opcode_byte [of ?n "0x10"] set_type
      by (simp add: append_rebase_def rebase_step_def rebase_op_def Let_def)
  next
    case segment
    have bytes: "drop p m = ucast (ucast (0x20 :: u8) OR ?n) # uleb_encode (unat (rt_operand2 x)) @ rest"
      using at segment by (simp add: append_rebase_def append_uleb128_encode)
    note read = checker_read [OF drop_behind [of p m "[_]", simplified, OF bytes]]
    show ?thesis using drop_inside [OF bytes] read opcode_byte [of ?n "0x20"] segment
      by (simp add: append_rebase_def append_uleb128_encode rebase_step_def rebase_op_def Let_def segStartAddr_def guard_def within_def unat_low_nibble)
  next
    case add
    have bytes: "drop p m = 0x30 # uleb_encode (unat ?n) @ rest"
      using at add by (simp add: append_rebase_def append_uleb128_encode)
    note read = checker_read [OF drop_behind [of p m "[_]", simplified, OF bytes]]
    show ?thesis using drop_inside [OF bytes] read add
      by (simp add: append_rebase_def append_uleb128_encode rebase_step_def rebase_op_def Let_def)
  next
    case add_imm
    have "drop p m = ucast (ucast (0x40 :: u8) OR ?n) # rest" using at add_imm by (simp add: append_rebase_def)
    then show ?thesis using drop_inside [of p m] opcode_byte [of ?n "0x40"] add_imm
      by (simp add: append_rebase_def rebase_step_def rebase_op_def Let_def ucast_low_nibble)
  next
    case imm_times
    have "drop p m = ucast (ucast (0x50 :: u8) OR ?n) # rest" using at imm_times by (simp add: append_rebase_def)
    then show ?thesis using drop_inside [of p m] opcode_byte [of ?n "0x50"] imm_times
      by (simp add: append_rebase_def rebase_step_def rebase_op_def Let_def unat_low_nibble sites_run_hit)
  next
    case times
    have bytes: "drop p m = 0x60 # uleb_encode (unat ?n) @ rest"
      using at times by (simp add: append_rebase_def append_uleb128_encode)
    note read = checker_read [OF drop_behind [of p m "[_]", simplified, OF bytes]]
    show ?thesis using drop_inside [OF bytes] read times
      by (simp add: append_rebase_def append_uleb128_encode rebase_step_def rebase_op_def Let_def unat_count sites_run_hit)
  next
    case do_add
    have bytes: "drop p m = 0x70 # uleb_encode (unat ?n) @ rest"
      using at do_add by (simp add: append_rebase_def append_uleb128_encode)
    note read = checker_read [OF drop_behind [of p m "[_]", simplified, OF bytes]]
    show ?thesis using drop_inside [OF bytes] read do_add
      by (simp add: append_rebase_def append_uleb128_encode rebase_step_def rebase_op_def Let_def)
  next
    case skipping
    have bytes: "drop p m = 0x80 # uleb_encode (unat ?n) @ uleb_encode (unat (rt_operand2 x)) @ rest"
      using at skipping by (simp add: append_rebase_def append_uleb128_encode)
    note behind = drop_behind [of p m "[_]", simplified, OF bytes]
    note read = checker_read [OF behind] checker_read [OF drop_behind [OF behind]]
    show ?thesis using drop_inside [OF bytes] read skipping
      by (simp add: append_rebase_def append_uleb128_encode rebase_step_def rebase_op_def Let_def unat_count ucast_skip sites_run_hit)
  qed
qed

text \<open>All opcodes; what follows is padding.\<close>

lemma rebase_scan_written:
  assumes "\<forall>x\<in>set xs. op_ok vm x" and "drop p m = append_rebases xs [] @ replicate k 0"
  shows "rebase_scan hit w vm m p s off = Ok (\<exists>y\<in>set (rebase_sites vm w xs (s + off)). hit (pint w y))"
  using assms
proof (induction xs arbitrary: p s off)
  case Nil
  then have "p \<ge> length m \<or> m ! p = 0" by (metis append_rebases.simps(1) append_Nil drop_inside drop_eq_Nil not_le replicate_Suc replicate_0 old.nat.exhaust)
  then show ?case by (subst rebase_scan.simps) auto
next
  case (Cons x xs)
  show ?case
  proof (cases "rt_opcode x = REBASE_OPCODE_DONE")
    case True
    then have "p \<ge> length m \<or> m ! p = 0"
      using Cons.prems(2) by (metis append_rebases.simps(2) append_Nil drop_inside drop_eq_Nil not_le replicate_Suc replicate_0 old.nat.exhaust)
    then show ?thesis using True by (subst rebase_scan.simps) auto
  next
    case False
    have at: "drop p m = append_rebase x [] @ append_rebases xs [] @ replicate k 0"
      using Cons.prems(2) False append_rebases_bytes [of xs "append_rebase x []"] by simp
    have ok: "op_ok vm x" using Cons.prems(1) by simp
    obtain s' off' where step: "p < length m" "m ! p AND REBASE_OPCODE_MASK = rt_opcode x"
        "s' + off' = snd (rebase_op vm w x (s + off))"
        "rebase_step hit w vm m (m ! p) (p + 1) s off =
          Ok (if \<exists>y\<in>set (fst (rebase_op vm w x (s + off))). hit (pint w y) then None
            else Some (p + length (append_rebase x []), s', off'))"
      using rebase_step_written [OF ok False at, where s = s and off = off and hit = hit and w = w] by blast
    have rest: "rebase_scan hit w vm m (p + length (append_rebase x [])) s' off' =
        Ok (\<exists>y\<in>set (rebase_sites vm w xs (s' + off')). hit (pint w y))"
      using Cons.IH [OF _ drop_behind [OF at]] Cons.prems(1) by simp
    show ?thesis
    proof (cases "\<exists>y\<in>set (fst (rebase_op vm w x (s + off))). hit (pint w y)")
      case True
      then show ?thesis using False step by (subst rebase_scan.simps) auto
    next
      case no: False
      have "rebase_scan hit w vm m p s off = rebase_scan hit w vm m (p + length (append_rebase x [])) s' off'"
        using False step no by (subst rebase_scan.simps) simp
      then show ?thesis using rest no False step(3) by auto
    qed
  qed
qed

section \<open>The opcodes before the phases\<close>

text \<open>An address is in a segment that the checker knows, and that is small enough.\<close>

definition in_segment :: "final_section list \<Rightarrow> u64 list \<Rightarrow> u64 \<Rightarrow> u64 \<Rightarrow> bool" where
  "in_segment sections vm w addr \<longleftrightarrow>
     (case findSegment sections addr of
        None \<Rightarrow> False
      | Some (start, stop, i) \<Rightarrow>
          unat i < 16 \<and> unat i < length vm \<and> vm ! unat i = start \<and> unat stop \<le> unat start + 2 ^ 32 \<and>
          unat stop + unat w < 2 ^ 64)"

lemma find_in_segments_bounds:
  "find_in_segments addr sects cur i = Some (start, stop, j) \<Longrightarrow> start \<le> addr \<and> addr < stop"
  by (induction addr sects cur i rule: find_in_segments.induct) (auto split: option.splits if_splits)

text \<open>
  The state of the loop: \<open>a\<close> is where the opcodes so far have led.  The address is forgotten at the end of a segment,
  which is safe as long as the next one is not in this segment.
\<close>

definition ready :: "u64 \<Rightarrow> u64 \<times> u64 \<times> u32 \<Rightarrow> u64 \<Rightarrow> u64 \<Rightarrow> u64 \<Rightarrow> bool" where
  "ready w seg address a addr \<longleftrightarrow>
     (case seg of (start, stop, i) \<Rightarrow>
        if start \<le> addr \<and> addr < stop then
          address = a \<and> a \<le> addr \<and> start \<le> a \<and> unat stop \<le> unat start + 2 ^ 32 \<and> unat stop + unat w < 2 ^ 64
        else address \<noteq> addr)"

lemma rebase_move_ready:
  assumes r: "ready w seg address a addr" and i: "in_segment sections vm w addr"
  shows "\<exists>moves start stop j. rebase_move sections address seg addr = Ok (moves, start, stop, j) \<and>
    start \<le> addr \<and> addr < stop \<and> unat stop \<le> unat start + 2 ^ 32 \<and> unat stop + unat w < 2 ^ 64 \<and>
    length moves \<le> 1 \<and> (\<forall>x\<in>set moves. op_ok vm x \<and> rt_opcode x \<noteq> REBASE_OPCODE_DONE \<and> rt_opcode x \<noteq> REBASE_OPCODE_DO_REBASE_ULEB_TIMES) \<and>
    (\<forall>xs. rebase_sites vm w (moves @ xs) a = rebase_sites vm w xs addr)"
proof -
  obtain start stop i where seg: "seg = (start, stop, i)" by (cases seg)
  show ?thesis
  proof (cases "start \<le> addr \<and> addr < stop")
    case True
    then have at: "address = a" "a \<le> addr" "start \<le> a" "unat stop \<le> unat start + 2 ^ 32" "unat stop + unat w < 2 ^ 64"
      using r seg by (auto simp: ready_def)
    have "unat (addr - a) < 2 ^ 32"
      using at True by (simp add: unat_sub word_le_nat_alt word_less_nat_alt)
    then have "op_ok vm (rebase_tmp1 REBASE_OPCODE_ADD_ADDR_ULEB (addr - a))" by (simp add: op_ok_def)
    then show ?thesis using True at seg
      by (cases "a = addr") (auto simp: rebase_move_def not_le not_less rebase_op_def)
  next
    case False
    obtain start' stop' j where find: "findSegment sections addr = Some (start', stop', j)"
      and j: "unat j < 16" "unat j < length vm" "vm ! unat j = start'" "unat stop' \<le> unat start' + 2 ^ 32"
        "unat stop' + unat w < 2 ^ 64"
      using i by (auto simp: in_segment_def split: option.splits)
    have bounds: "start' \<le> addr" "addr < stop'"
      using find_in_segments_bounds find unfolding findSegment_def by blast+
    have "unat (ucast j :: u64) = unat j" by (rule unat_ucast_32_64)
    then show ?thesis using False r seg find j bounds
      by (auto simp: rebase_move_def ready_def not_le not_less rebase_op_def op_ok_def)
  qed
qed

lemma ready_next:
  assumes "start \<le> addr" and "addr < stop" and "unat stop \<le> unat start + 2 ^ 32" and "unat stop + unat w < 2 ^ 64"
    and "unat addr + unat w \<le> unat b" and "w \<noteq> 0"
  shows "ready w (start, stop, j) (if addr + w \<ge> stop then 0 else addr + w) (addr + w) b"
proof -
  have sum: "unat (addr + w) = unat addr + unat w"
    using assms(2,4) by (intro unat_add_lem [THEN iffD1]) (simp add: word_less_nat_alt)
  have "unat w \<noteq> 0" using assms(6) by (simp add: unat_eq_0)
  then have "unat b \<noteq> 0" using assms(5) by linarith
  then have "b \<noteq> 0" by auto
  then show ?thesis using assms(1-5) sum by (auto simp: ready_def word_le_nat_alt word_less_nat_alt)
qed

definition apart :: "u64 \<Rightarrow> u64 list \<Rightarrow> bool" where
  "apart w addrs \<longleftrightarrow> sorted_wrt (\<lambda>x y. unat x + unat w \<le> unat y) addrs"

lemma rebase_mid_written:
  assumes w: "w \<noteq> 0"
  shows "\<forall>it\<in>set its. in_segment sections vm w (ri_address it) \<and> unat (ri_type it) < 16 \<Longrightarrow> apart w (map ri_address its) \<Longrightarrow>
    its = [] \<or> ready w seg address a (ri_address (hd its)) \<Longrightarrow>
    \<exists>mid. rebase_mid sections w seg type address its = Ok mid \<and> (\<forall>x\<in>set mid. op_ok vm x) \<and> single_times mid \<and>
      length mid \<le> 3 * length its + 1 \<and> rebase_sites vm w mid a = map ri_address its"
proof (induction its arbitrary: seg type address a)
  case Nil
  then show ?case by (simp add: op_ok_def single_times_def)
next
  case (Cons it its)
  let ?addr = "ri_address it"
  obtain moves start stop j where move: "rebase_move sections address seg ?addr = Ok (moves, start, stop, j)"
      "start \<le> ?addr" "?addr < stop" "unat stop \<le> unat start + 2 ^ 32" "unat stop + unat w < 2 ^ 64" "length moves \<le> 1"
      "\<forall>x\<in>set moves. op_ok vm x \<and> rt_opcode x \<noteq> REBASE_OPCODE_DONE \<and> rt_opcode x \<noteq> REBASE_OPCODE_DO_REBASE_ULEB_TIMES"
      "\<forall>xs. rebase_sites vm w (moves @ xs) a = rebase_sites vm w xs ?addr"
    using rebase_move_ready [of w seg address a ?addr sections vm] Cons.prems(1,3) by auto
  let ?next = "if ?addr + w \<ge> stop then 0 else ?addr + w"
  have "its = [] \<or> ready w (start, stop, j) ?next (?addr + w) (ri_address (hd its))"
    using Cons.prems(2) ready_next [OF move(2-5) _ w] by (cases its) (auto simp: apart_def)
  then obtain mid where mid: "rebase_mid sections w (start, stop, j) (ri_type it) ?next its = Ok mid" "\<forall>x\<in>set mid. op_ok vm x"
      "single_times mid" "length mid \<le> 3 * length its + 1" "rebase_sites vm w mid (?addr + w) = map ri_address its"
    using Cons.IH [of "(start, stop, j)" ?next "?addr + w" "ri_type it"] Cons.prems(1,2) by (auto simp: apart_def)
  define types where "types = (if type \<noteq> ri_type it then [rebase_tmp1 REBASE_OPCODE_SET_TYPE_IMM (ucast (ri_type it))] else [])"
  define out where "out = types @ moves @ rebase_tmp1 REBASE_OPCODE_DO_REBASE_ULEB_TIMES 1 # mid"
  have written: "rebase_mid sections w seg type address (it # its) = Ok out"
    using move(1) mid(1) by (simp add: Let_def types_def out_def)
  have "unat (ucast (ri_type it) :: u64) = unat (ri_type it)"
    by (simp add: unsigned_ucast_eq take_bit_nat_eq_self less_trans [OF unsigned_less])
  then have "\<forall>x\<in>set types. op_ok vm x" using Cons.prems(1) by (simp add: types_def op_ok_def)
  moreover have "op_ok vm (rebase_tmp1 REBASE_OPCODE_DO_REBASE_ULEB_TIMES 1)" by (simp add: op_ok_def)
  ultimately have "\<forall>x\<in>set out. op_ok vm x" using move(7) mid(2) by (auto simp only: out_def set_append list.set ball_Un ball_simps)
  moreover have "single_times out" using move(7) mid(3) by (auto simp: out_def types_def single_times_def)
  moreover have "length out \<le> 3 * length (it # its) + 1" using move(6) mid(4) by (simp add: out_def types_def)
  moreover have "rebase_sites vm w (types @ xs) a = rebase_sites vm w xs a" for xs
    by (simp add: types_def rebase_op_def)
  then have "rebase_sites vm w out a = map ri_address (it # its)"
    using move(8) mid(5) by (simp add: out_def rebase_op_def)
  ultimately show ?case using written by blast
qed

section \<open>The linker and the checker\<close>

text \<open>
  Rebases that can be written: of one type, apart from each other, in segments smaller than 4 GB that the checker
  numbers as the linker does.
\<close>

definition rebases_ok :: "final_section list \<Rightarrow> u64 list \<Rightarrow> u64 \<Rightarrow> rebase_info list \<Rightarrow> bool" where
  "rebases_ok sections vm w info \<longleftrightarrow>
     (w = 4 \<or> w = 8) \<and> (\<forall>it\<in>set info. in_segment sections vm w (ri_address it) \<and> unat (ri_type it) < 16) \<and>
     (\<exists>type. \<forall>it\<in>set info. ri_type it = type) \<and> apart w (sort (map ri_address info)) \<and> 3 * length info + 1 < 2 ^ 32"

lemma pad_to_size_zeros: "\<exists>k. pad_to_size n out = out @ replicate k 0"
proof (induction n out rule: pad_to_size.induct)
  case (1 n out)
  show ?case
  proof (cases "n \<noteq> 0 \<and> length out mod n \<noteq> 0")
    case True
    then obtain k where "pad_to_size n (out @ [0]) = (out @ [0]) @ replicate k 0" using 1 by blast
    then have "pad_to_size n out = out @ replicate (Suc k) 0" using True by (subst pad_to_size.simps) simp
    then show ?thesis by blast
  next
    case False
    then have "pad_to_size n out = out @ replicate 0 0" by (subst pad_to_size.simps) auto
    then show ?thesis by blast
  qed
qed

lemma same_type_sorted: "\<forall>it\<in>set its. ri_type it = type \<Longrightarrow> sorted (map ri_type its)"
  by (induction its) auto

lemma sorted_rebases:
  assumes "\<forall>it\<in>set info. ri_type it = type"
  shows "map ri_address (sort_key ri_type (sort_key ri_address info)) = sort (map ri_address info)"
proof -
  have "sort_key ri_type (sort_key ri_address info) = sort_key ri_address info"
    using assms by (intro sort_key_id_if_sorted same_type_sorted [of _ type]) simp
  moreover have "map ri_address (sort_key ri_address info) = sort (map ri_address info)"
    by (rule properties_for_sort [symmetric]) simp_all
  ultimately show ?thesis by simp
qed

lemma rebase_encodeV1_written:
  assumes "rebases_ok sections vm w info" and "map ri_address its = sort (map ri_address info)" and "set its = set info"
  shows "\<exists>m. rebase_encodeV1 sections w its = Ok m \<and>
    (\<forall>hit. rebase_scan hit w vm m 0 0 0 = Ok (\<exists>it\<in>set info. hit (pint w (ri_address it))))"
proof -
  have w: "w = 4 \<or> w = 8" and info: "\<forall>it\<in>set its. in_segment sections vm w (ri_address it) \<and> unat (ri_type it) < 16"
    and apart: "apart w (map ri_address its)"
    using assms by (auto simp: rebases_ok_def)
  have "length its = length info" using arg_cong [OF assms(2), of length] by simp
  then have len: "3 * length its + 1 < 2 ^ 32" using assms(1) by (simp add: rebases_ok_def)
  have "its = [] \<or> ready w (0, 0, 0) (- 1) 0 (ri_address (hd its))"
  proof (cases its)
    case (Cons it rest)
    then obtain start stop j where "findSegment sections (ri_address it) = Some (start, stop, j)"
      using info by (auto simp: in_segment_def split: option.splits)
    then have "ri_address it < stop" using find_in_segments_bounds unfolding findSegment_def by blast
    then have "ri_address it \<noteq> - 1" using word_n1_ge [of stop] by auto
    then show ?thesis using Cons by (auto simp: ready_def)
  qed simp
  then obtain mid where mid: "rebase_mid sections w (0, 0, 0) 0 (- 1) its = Ok mid" "\<forall>x\<in>set mid. op_ok vm x" "single_times mid"
      "length mid \<le> 3 * length its + 1" "rebase_sites vm w mid 0 = map ri_address its"
    using rebase_mid_written [OF _ info apart, of "(0, 0, 0)" "- 1" 0 0] w by auto
  have "length mid < 2 ^ 32" using mid(4) len by linarith
  note kept = optimized_keeps [OF mid(3) this mid(2) w]
  obtain k where k: "rebase_encodeV1 sections w its = Ok (append_rebases (optimized w mid) [] @ replicate k 0)"
    using mid(1) pad_to_size_zeros [of "unat w" "append_rebases (optimized w mid) []"] by (auto simp: rebase_encodeV1_def optimized_def)
  have "rebase_scan hit w vm (append_rebases (optimized w mid) [] @ replicate k 0) 0 0 0 =
      Ok (\<exists>it\<in>set info. hit (pint w (ri_address it)))" for hit
    using rebase_scan_written [OF kept(2), of 0 _ k hit w 0 0] kept(1) [of 0] mid(5) assms(3) by simp
  then show ?thesis using k by blast
qed

text \<open>
  C7.  The linker's rebase opcodes reach the checker: for addresses of one type in segments below 4 GB, with room for a
  pointer between each other, \<open>RebaseInfoAtom::encode\<close> succeeds, and \<open>hasTextRelocInRange\<close>, which runs the opcodes,
  reports a range if and only if one of the addresses, or one of the local relocations, is in it.  None of the four
  optimizations of the encoder loses an address or adds one.
\<close>

theorem rebases_found:
  assumes "rebases_ok sections vm w info" and "\<not> (pie \<and> pieDisabled)" and "unaligned \<or> \<not> linkedLists"
  shows "\<exists>m. rebase_encode pie pieDisabled linkedLists unaligned sections w info = Ok m \<and>
    (\<forall>relocs base rangeStart rangeEnd. hasTextRelocInRange w relocs base vm (Some m) rangeStart rangeEnd =
      Ok ((\<exists>r\<in>set relocs. rangeStart \<le> pint w (r + base) \<and> pint w (r + base) < rangeEnd) \<or>
        (\<exists>it\<in>set info. rangeStart \<le> pint w (ri_address it) \<and> pint w (ri_address it) < rangeEnd)))"
proof (cases "info = []")
  case True
  then show ?thesis
    using assms(2) by (auto simp: rebase_encode_def hasTextRelocInRange_def rebase_scan.simps)
next
  case False
  obtain type where type: "\<forall>it\<in>set info. ri_type it = type" using assms(1) by (auto simp: rebases_ok_def)
  obtain m where m: "rebase_encodeV1 sections w (sort_key ri_type (sort_key ri_address info)) = Ok m"
      "\<forall>hit. rebase_scan hit w vm m 0 0 0 = Ok (\<exists>it\<in>set info. hit (pint w (ri_address it)))"
    using rebase_encodeV1_written [OF assms(1) sorted_rebases [OF type]] by auto
  then have "rebase_encode pie pieDisabled linkedLists unaligned sections w info = Ok m"
    using False assms(2,3) by (auto simp: rebase_encode_def Let_def)
  then show ?thesis using m(2) by (auto simp: hasTextRelocInRange_def)
qed

section \<open>Examples\<close>

text \<open>Three segments, the last one is never found.\<close>

abbreviation sample_sections :: "final_section list" where
  "sample_sections \<equiv>
     [\<lparr>fs_segmentName = [65], fs_address = 0x1000, fs_size = 0x1000\<rparr>,
      \<lparr>fs_segmentName = [66], fs_address = 0x2000, fs_size = 0x800\<rparr>,
      \<lparr>fs_segmentName = [66], fs_address = 0x2800, fs_size = 0x100\<rparr>,
      \<lparr>fs_segmentName = [67], fs_address = 0x4000, fs_size = 0x1000\<rparr>]"

abbreviation sample_rebases :: "rebase_info list" where
  "sample_rebases \<equiv>
     map (\<lambda>a. \<lparr>ri_type = 1, ri_address = a\<rparr>) [0x2000, 0x1010, 0x1020, 0x1030, 0x1038, 0x1ff8, 0x28f8]"

lemma sample_rebases_ok: "rebases_ok sample_sections [0x1000, 0x2000, 0x4000] 8 sample_rebases"
  by (simp add: rebases_ok_def in_segment_def findSegment_def apart_def)

theorem rebases_found_witness:
  "\<exists>m. rebase_encode True False False False sample_sections 8 sample_rebases = Ok m \<and>
    hasTextRelocInRange 8 [] 0 [0x1000, 0x2000, 0x4000] (Some m) 0x1030 0x1031 = Ok True \<and>
    hasTextRelocInRange 8 [] 0 [0x1000, 0x2000, 0x4000] (Some m) 0x1031 0x1038 = Ok False"
proof -
  obtain m where "rebase_encode True False False False sample_sections 8 sample_rebases = Ok m"
      "\<forall>relocs base rangeStart rangeEnd. hasTextRelocInRange 8 relocs base [0x1000, 0x2000, 0x4000] (Some m) rangeStart rangeEnd =
        Ok ((\<exists>r\<in>set relocs. rangeStart \<le> pint 8 (r + base) \<and> pint 8 (r + base) < rangeEnd) \<or>
          (\<exists>it\<in>set sample_rebases. rangeStart \<le> pint 8 (ri_address it) \<and> pint 8 (ri_address it) < rangeEnd))"
    using rebases_found [OF sample_rebases_ok, of True False False False] by auto
  then show ?thesis by (intro exI [of _ m]) (simp add: pint_def)
qed

text \<open>
  At the end of a segment the encoder forgets the address and takes 0 for it, but not the segment.  A rebase of
  another type that lies in the same segment is then given relative to 0.
\<close>

theorem second_type_misplaced:
  "rebase_encodeV1 sample_sections 4 [\<lparr>ri_type = 1, ri_address = 0x1ffc\<rparr>, \<lparr>ri_type = 2, ri_address = 0x1000\<rparr>] =
     Ok [0x11, 0x20, 0xfc, 0x1f, 0x51, 0x12, 0x30, 0x80, 0x20, 0x51, 0, 0]"
  "hasTextRelocInRange 4 [] 0 [0x1000, 0x2000, 0x4000]
     (Some [0x11, 0x20, 0xfc, 0x1f, 0x51, 0x12, 0x30, 0x80, 0x20, 0x51, 0, 0]) 0x1000 0x1004 = Ok False"
  "hasTextRelocInRange 4 [] 0 [0x1000, 0x2000, 0x4000]
     (Some [0x11, 0x20, 0xfc, 0x1f, 0x51, 0x12, 0x30, 0x80, 0x20, 0x51, 0, 0]) 0x3000 0x3004 = Ok True"
  by code_simp+

text \<open>The index behind the last segment passes the check of the checker.\<close>

theorem segment_behind_last: "hasTextRelocInRange 8 [] 0 [0x1000] (Some [0x21, 0]) 0 0 = Fault"
  by code_simp

end
