(* ===== verification/Spec2Isabelle.thy ===== *)
theory Spec2Isabelle
  imports Macho_Tables Swap_Contents Version_Number Toc_Byte_Sex Best_Arch Lipo Bind_Facts Accepted_Checkout Hppa Short_Name Trie_Round_Trip Rebase_Facts
begin

text \<open>
  Verification of the object file library of cctools-port, of \<open>lipo\<close>, of the bind opcodes, of the exports trie and of the
  rebase opcodes.

  \<^bold>\<open>The program.\<close>  cctools is the collection of Mach-O tools (assembler, \<open>lipo\<close>, \<open>libtool\<close>,
  \<open>strip\<close>, \<open>nm\<close>, \<open>otool\<close>, \<dots>).  All of them rest on \<open>src/cctools/libstuff\<close>: a tool maps a
  file, finds its slice of a fat file (\<open>arch.c\<close>, \<open>best_arch.c\<close>), brings the headers and tables
  into the byte order of the host (\<open>swap_headers.c\<close>, \<open>bytesex.c\<close>), checks them (\<open>ofile.c\<close>),
  changes them, swaps them back and writes the file.  This development models that library
  from the bottom up, the tool \<open>lipo\<close>, which creates fat files and takes them apart, the
  interpreter in \<open>otool\<close> that lists what the dynamic linker binds, and the trie of the exported symbols
  that the linker \<open>ld64\<close> builds and \<open>strip\<close> prunes, and the rebase opcodes that it writes and \<open>machochecker\<close> runs.

  \<^bold>\<open>Conventions.\<close>  A C integer is a word of its width, a file or a part of it is a list of
  bytes, a structure is a record with a \<open>load\<close> (the fields that a host of a byte order
  reads) and a \<open>store\<close>.  The byte order of the host is the argument \<open>e\<close>; \<open>flip e\<close> is the other
  one.  An access outside a buffer, which is undefined in C, is the value \<open>Fault\<close> or \<open>None\<close>;
  an error message is a value of an error type.  What an uninitialised local variable
  holds is an argument (\<open>sr\<close>, \<open>stack\<close>, \<dots>) that the theorems quantify over.

  \<^bold>\<open>The theories.\<close>
  \<^item> \<open>Cctools_Prelude\<close>: types, collections of simplification rules, the outcome type with its
    \<open>bind\<close>, lemmas on bytes and words.
  \<^item> \<open>Byte_Swap\<close>: \<open>SWAP_SHORT\<close>, \<open>SWAP_INT\<close>, \<open>SWAP_LONG_LONG\<close>, \<dots> of \<open>include/stuff/bytesex.h\<close> and
    \<open>bytesex.c\<close>, reading and writing words in either byte order, and the locales
    \<open>struct_layout\<close> (a structure that covers its bytes) and \<open>struct_codec\<close> (with a swap routine
    that does what it should).  Each structure below is an interpretation of one of them:
    of the first only where the routine loses a field.
  \<^item> \<open>Macho_Headers\<close>, \<open>Macho_Commands\<close>, \<open>Macho_Tables\<close>, \<open>Thread_States\<close>, \<open>Thread_States_2\<close>: the
    structures of \<open>mach-o/loader.h\<close> and its relatives and the routines of \<open>bytesex.c\<close>, one
    definition \<open>swap_\<dots>\<close> per routine.
  \<^item> \<open>Bit_Fields\<close>, \<open>Thread_States_3\<close>: structures with bit-fields.  A bit-field is a position in
    its word that depends on the byte order; the routines move the fields through a
    mirrored structure.  The locales \<open>moved_fields\<close> and \<open>reversed_fields\<close> state when this keeps
    the fields, and are interpreted for relocation entries, hints, references and the
    control registers.
  \<^item> \<open>Macho_Constants\<close>: the constants of the load commands and processors.
  \<^item> \<open>Swap_Check\<close>, \<open>Swap_Pass\<close>: the two passes of \<open>swap_object_headers\<close> (\<open>swap_headers.c\<close>).  A
    \<open>switch\<close> over commands whose cases differ only in a size or a structure is a table.
  \<^item> \<open>Swap_Facts\<close>, \<open>Swap_Contents\<close>: what the two passes together do.  The locale
    \<open>command_codec\<close> is a structure that starts with a command and its size.
  \<^item> \<open>Arch\<close>, \<open>Best_Arch\<close>: \<open>arch.c\<close> and \<open>best_arch.c\<close>.
  \<^item> \<open>C_Strings\<close>, \<open>Version_Number\<close>: \<open>strtoul\<close> and \<open>strchr\<close> of the C library, and
    \<open>version_number.c\<close>.
  \<^item> \<open>Checksums\<close>: \<open>rnd.c\<close>, \<open>hash_string.c\<close>, \<open>crc32.c\<close>.
  \<^item> \<open>Toc_Byte_Sex\<close>: \<open>get_toc_byte_sex.c\<close>.
  \<^item> \<open>Overlap\<close>: \<open>check_overlaping_element\<close> of \<open>ofile.c\<close>.
  \<^item> \<open>Mach_O_Check\<close>: \<open>check_Mach_O\<close> and \<open>swap_back_Mach_O\<close> of \<open>ofile.c\<close>, one definition per load command and one
    table of register states per processor; the object is a field of the state and is swapped in place.
  \<^item> \<open>Mach_O_Facts\<close>, \<open>Mach_O_Accepted\<close>: every step of the walk stays inside its command, every command of an
    accepted object has been checked on the bytes of the file, and what follows.  The locale \<open>mach_invariant\<close>
    is a property of the state that no command breaks; it is interpreted for the symbol table, the
    dynamic symbol table and the hints that the routine keeps.
  \<^item> \<open>Checkout\<close>, \<open>Checkout_Facts\<close>: \<open>checkout.c\<close>, which finds the commands of the symbolic information and
    refuses a file whose tables are not in the order in which they will be written; the steps of
    \<open>dyld_order\<close> are one definition each, and each is shown to lead from the end of one table to the
    end of the next.
  \<^item> \<open>Accepted_Checkout\<close>: \<open>check_Mach_O\<close> followed by \<open>checkout\<close>.
  \<^item> \<open>Hppa\<close>, \<open>Short_Name\<close>: \<open>hppa.c\<close>, the displacement fields of HP-PA instructions, and
    \<open>guess_short_name.c\<close>, the short names of frameworks and libraries.
  \<^item> \<open>Outcomes\<close>: values, errors and faults, for the tools.
  \<^item> \<open>Seg_Align\<close>: \<open>align.c\<close>, the alignment that the segments of an object file need.
  \<^item> \<open>Lipo_Archive\<close>, \<open>Lipo_Input\<close>, \<open>Lipo_Create\<close>, \<open>Lipo_Print\<close>, \<open>Lipo_Args\<close>, \<open>Lipo\<close>: \<open>misc/lipo.c\<close>,
    in this order \<open>check_archive\<close>; \<open>process_input_file\<close> and \<open>process_replace_file\<close>; \<open>create_fat\<close>;
    what \<open>-info\<close>, \<open>-detailed_info\<close> and \<open>-archs\<close> print; the arguments; \<open>main\<close>, as a function of the
    arguments and the files.  The state of the tool is the list of thin files.  The C library's
    \<open>qsort\<close> and the LTO library are parameters.
  \<^item> \<open>Lipo_Facts\<close>, \<open>Lipo_Round_Trip\<close>: the layout of a fat file, and reading what was written.
  \<^item> \<open>Leb128\<close>, \<open>Bind_Info\<close>, \<open>Bind_Facts\<close>: \<open>otool/dyld_bind_info.c\<close>, the readers of variable-length
    numbers, the interpreter of the bind opcodes with one definition per opcode, and what its two
    passes have to do with each other.
  \<^item> \<open>Exports_Trie\<close>: the builder of \<open>ld64/src/mach_o/ExportsTrie.cpp\<close>, the reader of
    \<open>ld64/src/abstraction/MachOTrie.hpp\<close> and \<open>prune_trie\<close> of \<open>ld64/src/other/PruneTrie.cpp\<close>.  The nodes form a
    tree whose nodes carry their index in the vector \<open>allNodes\<close>; offsets are a list by that index.
  \<^item> \<open>Trie_Build\<close>, \<open>Trie_Offsets\<close>, \<open>Trie_Round_Trip\<close>: what a trie contains after symbols have been added; the
    loop over the offsets ends and the stream has every node at its offset; reading gives the symbols back.
  \<^item> \<open>Rebase_Info\<close>, \<open>Rebase_Facts\<close>: \<open>RebaseInfoAtom\<close> of \<open>ld64/src/ld/LinkEdit.hpp\<close> and the interpreter in
    \<open>ld64/src/other/machochecker.cpp\<close>; every phase of the encoder keeps the addresses that the opcodes stand for.

  \<^bold>\<open>What is shown.\<close>  For the swap routines: what the other host reads from a swapped
  structure or table is what this host read before, for all routines but those that lose
  a field, for which the loss is shown.  For \<open>swap_object_headers\<close>: load commands accepted by
  the first pass form a chain, the first pass stays within 64 bytes of them, the second
  pass changes only bytes of the load commands and keeps the sequence of commands for the
  other host, provided the commands that the first pass does not bound are large enough;
  that this condition is needed is shown by examples.  For the selection of a slice: it
  has the right processor, an exact match is preferred, the i386 family always finds one,
  a PowerPC host can run what is picked, and combining is an upper bound.  The parsers and
  numeric routines are compared with a printed form, a bit-serial definition or a
  least multiple.  The check for overlaps is exact on parts in ascending order only.  \<open>check_Mach_O\<close> stays
  inside the object if no segment is of the other width, and in an object that it accepts the tables lie
  inside the file and the symbols inside the symbol table; 64-bit segments whose end wraps around are
  accepted, which is shown by an example.  \<open>checkout\<close>, run on an accepted object, stays inside it, and the
  tables of a dynamic library with a dynamic symbol table that passes both are in order and disjoint.  For \<open>lipo\<close>: a fat
  file that is created is read back with the same slices, a run of \<open>-create\<close> followed by one of \<open>-thin\<close>
  gives the input back, \<open>-extract\<close> and \<open>-remove\<close> are filters of the slices, and the members of an accepted
  archive agree on their processor, from the first one with a cputype other than 0 on.  For the bind opcodes: numbers are read exactly, and without the chained
  format the two passes give what one would; with it they need not, which is shown by examples.  For the exports
  trie: symbols with different names become its terminal nodes, the offsets settle, what is built is read back in
  the order in which it was added, and pruning leaves exactly the symbols that are kept; the trie must fit in 32 bits
  and there must be a character that no name has.  For the rebase opcodes: the checker finds exactly the addresses
  that the linker was given; that one type of rebases is needed for this is shown by an example.

  \<^bold>\<open>Loops.\<close>  Most recursions are structural or have a measure: the walk over commands goes
  by their number, the walk over the states of a thread by the bytes left, a pass over the bind
  opcodes by those left, a chain of pointers by what is left of its page.  Loops that need not end
  (the walk over an archive in \<open>lipo\<close>, shifting out zeros, the offsets of the exports trie and the walk over one)
  are partial functions, and that they end, or do not, is proved: the offsets only grow from one round to the next and
  are below \<open>2^32\<close>.  There is no fuel.

  \<^bold>\<open>Where the model decides.\<close>  A string that has no null character in its buffer ends with the buffer (\<open>cstring\<close>, and so
  the size field of an archive member at the very end of a file, \<open>ar_size\<close>); the C library would read on.  \<open>std::sort\<close> in
  \<open>parseTrie\<close> is a stable sort, which can differ only on entries with equal offsets; the builder makes none.  \<open>crc32\<close> has no
  value for \<open>2^31\<close> bytes or more, where its \<open>int\<close> counter overflows.

  \<^bold>\<open>Not modelled.\<close>  Messages and their text, but for the reports of \<open>lipo\<close>; memory allocation; mapping
  files; the rest of \<open>ld64\<close>, which is a C++ program of its own.  Planned, in this order: the rest of \<open>ofile.c\<close> (fat and archive
  iteration), \<open>breakout.c\<close> and \<open>writeout.c\<close>, \<open>libmacho\<close>, the archive tools,
  chained fixups, the machine-independent part of the assembler.
\<close>

section \<open>An object file to evaluate\<close>

text \<open>
  A little-endian i386 object with two load commands, \<open>LC_UUID\<close> and \<open>LC_RPATH\<close> with the
  path \<open>/x\<close>, and the 64-bit x86-64 one.
\<close>

definition example_header :: bytes where
  "example_header = put32 Little 0xfeedface @ put32 Little 7 @ put32 Little 3 @ put32 Little 1 @
     put32 Little 2 @ put32 Little 40 @ put32 Little 0"

definition example_header_64 :: bytes where
  "example_header_64 = put32 Little 0xfeedfacf @ put32 Little 0x1000007 @ put32 Little 3 @
     put32 Little 1 @ put32 Little 2 @ put32 Little 40 @ put32 Little 0 @ put32 Little 0"

definition example_commands :: bytes where
  "example_commands =
     put32 Little 0x1b @ put32 Little 24 @ [1, 2, 3, 4, 5, 6, 7, 8, 9, 10, 11, 12, 13, 14, 15, 16] @
     put32 Little 0x8000001c @ put32 Little 16 @ put32 Little 12 @ [0x2f, 0x78, 0, 0]"

section \<open>Swapping the headers of an object file\<close>

text \<open>
  C1.  \<open>swap_object_headers\<close> on a 32-bit object: when the checks of the first pass
  accept the load commands and the commands that the checks do not bound are large
  enough, the routine succeeds; it changes nothing behind the load commands, a host of
  the other byte order reads the same mach header from the result, and it walks the
  same sequence of commands and sizes.
\<close>

theorem swap_object_headers_32:
  assumes "length header = sizeof_mach_header" and "mh = load_mach_header e header"
    and "mh_magic mh = MH_MAGIC"
    and "check_commands e m (unat (mh_sizeofcmds mh)) 4 (mh_cputype mh) (mh_cpusubtype mh)
           (unat (mh_ncmds mh)) 0 0 = Ok ()"
    and "commands_fit e m (mh_cputype mh) (unat (mh_ncmds mh)) 0"
    and "unat (mh_sizeofcmds mh) \<le> length m"
  shows "\<exists>header' m'. swap_object_headers e stack header m = Ok (header', m') \<and>
           load_mach_header (flip e) header' = mh \<and>
           changed_within 0 (unat (mh_sizeofcmds mh)) m m' \<and>
           commands (flip e) m' (unat (mh_ncmds mh)) 0 = commands e m (unat (mh_ncmds mh)) 0"
proof -
  let ?swap = "inplace load_mach_header store_mach_header swap_mach_header e"
  obtain m' where m': "swap_commands e stack (mh_cputype mh) (unat (mh_ncmds mh)) 0 m = Ok m'"
      "changed_within 0 (unat (mh_sizeofcmds mh)) m m'"
      "commands (flip e) m' (unat (mh_ncmds mh)) 0 = commands e m (unat (mh_ncmds mh)) 0"
    using swap_commands_Ok [OF assms(4-6)] by blast
  have magic: "read32 e header 0 = Ok MH_MAGIC"
    using assms(1-3) by (simp add: read32_def mach_header_defs)
  have "swap_at 0 sizeof_mach_header ?swap header = Ok (?swap header)"
    using assms(1) by (simp add: swap_at_def modify_at_def)
  then have "swap_object_headers e stack header m = Ok (?swap header, m')"
    using magic assms m'(1) by (simp add: swap_object_headers_def swap_headers_32_def)
  moreover have "load_mach_header (flip e) (?swap header) = mh"
    using mach_header.inplace_load assms(1,2) by simp
  ultimately show ?thesis using m' by blast
qed

theorem swap_object_headers_32_witness:
  "\<exists>header' m'. swap_object_headers Little (\<lambda>_ _. 0) example_header example_commands = Ok (header', m') \<and>
     commands Big m' 2 0 = [(LC_UUID, 24), (LC_RPATH, 16)]"
proof -
  let ?mh = "load_mach_header Little example_header"
  have "length example_header = sizeof_mach_header" "mh_magic ?mh = MH_MAGIC"
      "unat (mh_sizeofcmds ?mh) = 40" "unat (mh_ncmds ?mh) = 2"
      "check_commands Little example_commands 40 4 (mh_cputype ?mh) (mh_cpusubtype ?mh) 2 0 0 = Ok ()"
      "commands_fit Little example_commands (mh_cputype ?mh) 2 0" "40 \<le> length example_commands"
      "commands Little example_commands 2 0 = [(LC_UUID, 24), (LC_RPATH, 16)]"
    by code_simp+
  then show ?thesis
    using swap_object_headers_32 [OF _ refl, of example_header Little example_commands "\<lambda>_ _. 0"]
    by auto
qed

text \<open>
  C2.  The same for a 64-bit object, whose commands are multiples of eight bytes.
\<close>

theorem swap_object_headers_64:
  assumes "length header = sizeof_mach_header_64" and "mh64 = load_mach_header_64 e header"
    and "mh64_magic mh64 \<noteq> MH_MAGIC"
    and "check_commands e m (unat (mh64_sizeofcmds mh64)) 8 (mh64_cputype mh64)
           (mh64_cpusubtype mh64) (unat (mh64_ncmds mh64)) 0 0 = Ok ()"
    and "commands_fit e m (mh64_cputype mh64) (unat (mh64_ncmds mh64)) 0"
    and "unat (mh64_sizeofcmds mh64) \<le> length m"
  shows "\<exists>header' m'. swap_object_headers e stack header m = Ok (header', m') \<and>
           load_mach_header_64 (flip e) header' = mh64 \<and>
           changed_within 0 (unat (mh64_sizeofcmds mh64)) m m' \<and>
           commands (flip e) m' (unat (mh64_ncmds mh64)) 0 = commands e m (unat (mh64_ncmds mh64)) 0"
proof -
  let ?swap = "inplace load_mach_header_64 store_mach_header_64 swap_mach_header_64 e"
  obtain m' where m': "swap_commands e stack (mh64_cputype mh64) (unat (mh64_ncmds mh64)) 0 m = Ok m'"
      "changed_within 0 (unat (mh64_sizeofcmds mh64)) m m'"
      "commands (flip e) m' (unat (mh64_ncmds mh64)) 0 = commands e m (unat (mh64_ncmds mh64)) 0"
    using swap_commands_Ok [OF assms(4-6)] by blast
  have magic: "read32 e header 0 = Ok (mh64_magic mh64)"
    using assms(1,2) by (simp add: read32_def mach_header_64_defs)
  have "swap_at 0 sizeof_mach_header_64 ?swap header = Ok (?swap header)"
    using assms(1) by (simp add: swap_at_def modify_at_def)
  then have "swap_object_headers e stack header m = Ok (?swap header, m')"
    using magic assms m'(1) by (simp add: swap_object_headers_def swap_headers_64_def)
  moreover have "load_mach_header_64 (flip e) (?swap header) = mh64"
    using mach_header_64.inplace_load assms(1,2) by simp
  ultimately show ?thesis using m' by blast
qed

theorem swap_object_headers_64_witness:
  "\<exists>header' m'. swap_object_headers Little (\<lambda>_ _. 0) example_header_64 example_commands = Ok (header', m') \<and>
     commands Big m' 2 0 = [(LC_UUID, 24), (LC_RPATH, 16)]"
proof -
  let ?mh = "load_mach_header_64 Little example_header_64"
  have "length example_header_64 = sizeof_mach_header_64" "mh64_magic ?mh \<noteq> MH_MAGIC"
      "unat (mh64_sizeofcmds ?mh) = 40" "unat (mh64_ncmds ?mh) = 2"
      "check_commands Little example_commands 40 8 (mh64_cputype ?mh) (mh64_cpusubtype ?mh) 2 0 0 = Ok ()"
      "commands_fit Little example_commands (mh64_cputype ?mh) 2 0" "40 \<le> length example_commands"
      "commands Little example_commands 2 0 = [(LC_UUID, 24), (LC_RPATH, 16)]"
    by code_simp+
  then show ?thesis
    using swap_object_headers_64 [OF _ refl, of example_header_64 Little example_commands "\<lambda>_ _. 0"]
    by auto
qed

text \<open>
  C20.  The first pass accepts only a chain of commands: each header readable, each
  size positive and a multiple of \<open>align\<close>, one behind the other and the last one ending
  exactly at \<open>sizeofcmds\<close>.
\<close>

theorem accepted_commands_chain:
  assumes "check_commands e m sizeofcmds align cputype cpusubtype ncmds i lc = Ok ()"
  shows "command_chain e m align ncmds lc sizeofcmds"
  using assms by (rule check_commands_chain)

theorem accepted_commands_chain_witness: "command_chain Little example_commands 8 2 0 40"
  by (rule accepted_commands_chain [where cputype = 7 and cpusubtype = 3 and i = 0]) code_simp

text \<open>
  C21.  The first pass never reads further than 64 bytes behind the load commands,
  whatever they hold.
\<close>

theorem checks_stay_near:
  assumes "sizeofcmds + 64 \<le> length m" and "align = 4 \<or> align = 8"
  shows "check_commands e m sizeofcmds align cputype cpusubtype ncmds 0 0 \<noteq> Fault"
  using assms by (intro check_commands_no_fault) auto

theorem checks_stay_near_witness:
  "check_commands Big (replicate 64 0xff) 0 4 7 3 5 0 0 \<noteq> Fault"
  by (rule checks_stay_near) simp_all

text \<open>
  The bound above is needed: a command's own check reads its number of sections
  before the command is known to hold one, so an accepted-looking header alone reads
  outside a buffer of exactly \<open>sizeofcmds\<close> bytes.
\<close>

theorem checks_over_read:
  "check_commands Little (put32 Little LC_SEGMENT @ put32 Little 8) 8 4 7 3 1 0 0 = Fault"
  by code_simp

text \<open>
  The checks are not enough for the second pass: a \<open>LC_MAIN\<close> command of eight bytes
  is accepted, and swapping it writes behind the buffer.
\<close>

theorem accepted_but_faults:
  "check_commands Little (put32 Little LC_MAIN @ put32 Little 8) 8 8 0x1000007 3 1 0 0 = Ok () \<and>
   swap_commands Little stack 0x1000007 1 0 (put32 Little LC_MAIN @ put32 Little 8) = Fault"
  by (rule conjI; code_simp)

text \<open>
  A second one: the floating-point registers of a PowerPC thread are accepted
  alone, but swapping them runs on into an exception state that is not there.
\<close>

theorem ppc_float_falls_through:
  assumes "length regs = sizeof_ppc_float_state"
    and "m = put32 Big LC_UNIXTHREAD @ put32 Big 280 @ put32 Big 2 @ put32 Big 66 @ regs"
  shows "check_commands Big m 280 4 CPU_TYPE_POWERPC 0 1 0 0 = Ok () \<and>
         swap_commands Big stack CPU_TYPE_POWERPC 1 0 m = Fault"
proof -
  have len: "length m = 280" using assms by (simp add: ppc_float_state_defs)
  have words: "get32 Big m 0 = LC_UNIXTHREAD" "get32 Big m 4 = 280" "get32 Big m 8 = 2"
      "get32 Big m 12 = 66"
    using assms(2) by (simp_all add: byte_simps)
  have rows: "map_of exact_commands LC_UNIXTHREAD = None" "map_of string_commands LC_UNIXTHREAD = None"
      "map_of (swap_rows Big) LC_UNIXTHREAD = None"
    by (simp_all add: exact_commands_def exact_tables string_commands_def string_tables
        swap_rows_def swap_tables)
  have ppc: "map_of ppc_flavors 2 = Some (66, 264)"
    by (simp add: ppc_flavors_def ppc_float_state_defs)
  have "check_flavors Big m ppc_flavors True LC_UNIXTHREAD 0 0 8 280 = Ok ()"
    using len words ppc by (simp add: check_flavors.simps read32_def)
  then have "check_command Big m 280 CPU_TYPE_POWERPC 0 0 0 LC_UNIXTHREAD 280 = Ok ()"
    using rows by (simp add: check_command_def check_thread_def)
  moreover have "swap_thread Big stack CPU_TYPE_POWERPC 0 280 m = Fault"
    using len words by (intro ppc_float_thread_fault) (simp_all add: ppc_float_state_defs thread_states_def)
  ultimately show ?thesis
    using len words rows by (simp add: read32_def swap_command_def guard_def)
qed

theorem ppc_float_falls_through_witness:
  "\<exists>m. check_commands Big m 280 4 CPU_TYPE_POWERPC 0 1 0 0 = Ok () \<and>
     swap_commands Big (\<lambda>_ _. 0) CPU_TYPE_POWERPC 1 0 m = Fault"
proof -
  have "length (replicate 264 (0 :: u8)) = sizeof_ppc_float_state" by (simp add: ppc_float_state_defs)
  from ppc_float_falls_through [OF this refl] show ?thesis by blast
qed

text \<open>
  The second pass has cases for \<open>LC_DYLD_EXPORTS_TRIE\<close> and \<open>LC_DYLD_CHAINED_FIXUPS\<close>
  that it never reaches: the first pass rejects both as unknown.
\<close>

theorem newer_linkedit_rejected:
  assumes "cmd = LC_DYLD_EXPORTS_TRIE \<or> cmd = LC_DYLD_CHAINED_FIXUPS"
  shows "check_command e m sizeofcmds cputype cpusubtype i lc cmd cmdsize = Error (Unknown_command i)
    \<and> map_of (swap_rows e) cmd \<noteq> None"
  using assms rejected_commands by (auto simp: swap_rows_def swap_tables)

theorem newer_linkedit_rejected_witness:
  "check_command Little [] 16 7 3 0 0 LC_DYLD_EXPORTS_TRIE 16 = Error (Unknown_command 0)"
  using newer_linkedit_rejected [of LC_DYLD_EXPORTS_TRIE] by simp

section \<open>Tables of an object file\<close>

text \<open>
  C28.  \<open>swap_relocation_info\<close> towards the other byte order: the other host sees in
  every entry what this host saw before, be it a scattered entry or one with
  bit-fields, whatever the uninitialised local structure held.
\<close>

theorem relocation_swapped_out:
  "map (view_relocation (flip e) \<circ> load_relocation_info (flip e) \<circ> store_relocation_info e)
     (take n (swap_relocation_info e False sr n relocs)) =
   map (view_relocation e) (take n relocs)"
  using swap_relocation_info_out [of e n sr relocs] by (simp add: comp_def load_other_host)

text \<open>
  Swapping relocation entries to the other byte order and back is the identity.
\<close>

theorem relocation_round_trip:
  "swap_relocation_info e True sr' n (swap_relocation_info e False sr n relocs) = relocs"
  by (rule swap_relocation_info_twice)

text \<open>
  \<open>swap_twolevel_hint\<close>: the other host finds the fields \<open>isub_image\<close> and \<open>itoc\<close> of
  every swapped hint, and swapping back restores the hints.
\<close>

theorem twolevel_hint_swapped:
  assumes "i < 2" and "k < n" and "n \<le> length hints"
  shows "bf_get (flip e) twolevel_hint_fields i (SWAP_INT (swap_twolevel_hint e False shint n hints ! k)) =
           bf_get e twolevel_hint_fields i (hints ! k) \<and>
         swap_twolevel_hint e True shint' n (swap_twolevel_hint e False shint n hints) = hints"
  using assms swap_twolevel_hint_out swap_twolevel_hint_twice by blast

theorem twolevel_hint_swapped_witness:
  "bf_get Big twolevel_hint_fields 1 (SWAP_INT (swap_twolevel_hint Little False 0 1 [0x1234] ! 0)) =
     bf_get Little twolevel_hint_fields 1 0x1234"
  using twolevel_hint_swapped [of 1 0 1 "[0x1234]" Little 0 0] by simp

text \<open>
  \<open>swap_dylib_reference\<close>: the other host finds \<open>isym\<close> and \<open>flags\<close> of every swapped
  reference, and swapping back restores the references.
\<close>

theorem dylib_reference_swapped:
  assumes "i < 2" and "k < n" and "n \<le> length refs"
  shows "bf_get (flip e) dylib_reference_fields i
           (SWAP_INT (swap_dylib_reference e False sref n refs ! k)) =
           bf_get e dylib_reference_fields i (refs ! k) \<and>
         swap_dylib_reference e True sref' n (swap_dylib_reference e False sref n refs) = refs"
  using assms swap_dylib_reference_out swap_dylib_reference_twice by blast

theorem dylib_reference_swapped_witness:
  "bf_get Big dylib_reference_fields 0 (SWAP_INT (swap_dylib_reference Little False 7 1 [0x1234] ! 0)) =
     bf_get Little dylib_reference_fields 0 0x1234"
  using dylib_reference_swapped [of 0 0 1 "[0x1234]" Little 7 0] by simp

text \<open>
  C32.  \<open>swap_nlist\<close> and \<open>swap_nlist_64\<close>: a symbol table swapped in place reads the same
  on the other host.
\<close>

theorem symbol_table_swapped:
  assumes "length b = unat nsyms * sizeof_nlist" and "length b64 = unat nsyms * sizeof_nlist_64"
  shows "load_array sizeof_nlist load_nlist (unat nsyms) (flip e)
           (swap_array sizeof_nlist load_nlist store_nlist swap_nlist nsyms e b) =
         load_array sizeof_nlist load_nlist (unat nsyms) e b \<and>
         load_array sizeof_nlist_64 load_nlist_64 (unat nsyms) (flip e)
           (swap_array sizeof_nlist_64 load_nlist_64 store_nlist_64 swap_nlist_64 nsyms e b64) =
         load_array sizeof_nlist_64 load_nlist_64 (unat nsyms) e b64"
  using assms nlist.swap_array_read [of swap_nlist] nlist_64.swap_array_read [of swap_nlist_64]
  by (simp add: swap_nlist_def swap_nlist_64_def)

theorem symbol_table_swapped_witness:
  "load_array sizeof_nlist load_nlist 1 Big
     (swap_array sizeof_nlist load_nlist store_nlist swap_nlist 1 Little [1, 0, 0, 0, 15, 1, 0, 2, 0, 0, 0, 9]) =
   load_array sizeof_nlist load_nlist 1 Little [1, 0, 0, 0, 15, 1, 0, 2, 0, 0, 0, 9]"
  using symbol_table_swapped [of "[1, 0, 0, 0, 15, 1, 0, 2, 0, 0, 0, 9]" 1 "replicate 16 0" Little]
  by (simp add: nlist_defs nlist_64_defs)

section \<open>Fields that the swap routines lose\<close>

text \<open>
  \<open>swap_data_in_code_entry\<close> runs the 16-bit fields through the 32-bit macro: both
  are zero afterwards.
\<close>

theorem data_in_code_lost:
  "dice_length (swap_data_in_code_entry_entry x) = 0 \<and> dice_kind (swap_data_in_code_entry_entry x) = 0"
proof -
  have "ucast (SWAP_INT (ucast (h :: u16))) = (0 :: u16)" for h
    unfolding SWAP_INT_def byte_masks by (rule bit_word_eqI) (auto simp: bit_simps dest: bit_imp_le_length)
  then show ?thesis by (simp add: swap_data_in_code_entry_entry_def)
qed

text \<open>
  \<open>swap_encryption_command_64\<close> overwrites \<open>cryptid\<close> with the swapped \<open>pad\<close>: the other
  host reads the pad word as the encryption identifier.
\<close>

theorem encryption_64_cryptid_lost:
  assumes "length b = sizeof_encryption_info_command_64"
  shows "ec64_cryptid (load_encryption_info_command_64 (flip e)
           (inplace load_encryption_info_command_64 store_encryption_info_command_64
              swap_encryption_command_64 e b)) =
         ec64_pad (load_encryption_info_command_64 e b)"
  using assms by (simp add: inplace_def encryption_info_command_64_defs byte_simps)

theorem encryption_64_cryptid_lost_witness:
  "ec64_cryptid (load_encryption_info_command_64 Big
     (inplace load_encryption_info_command_64 store_encryption_info_command_64
        swap_encryption_command_64 Little (replicate 16 0 @ [1, 0, 0, 0, 0, 0, 0, 0]))) = 0"
  using encryption_64_cryptid_lost [of "replicate 16 0 @ [1, 0, 0, 0, 0, 0, 0, 0]" Little]
  by (simp add: encryption_info_command_64_defs byte_simps get32_def subbytes_def)

section \<open>Contents of the load commands\<close>

text \<open>
  C29.  A segment command with its sections: the swapped command stays inside its bytes, and
  a host of the other byte order reads the same segment and the same sections from it; in
  a 64-bit segment all but the field \<open>reserved3\<close> of every section, which is left alone.
\<close>

theorem segments_swapped:
  assumes "nsects = get32 e m (lc + 48)"
    and "lc + sizeof_segment_command + unat nsects * sizeof_section_32 \<le> length m"
    and "nsects64 = get32 e m64 (lc + 64)"
    and "lc + sizeof_segment_command_64 + unat nsects64 * sizeof_section_64 \<le> length m64"
  shows "\<exists>m' m64'. swap_segment e lc m = Ok m' \<and> swap_segment_64 e lc m64 = Ok m64' \<and>
    changed_within lc (lc + sizeof_segment_command + unat nsects * sizeof_section_32) m m' \<and>
    load_segment_command (flip e) (subbytes lc sizeof_segment_command m') =
      load_segment_command e (subbytes lc sizeof_segment_command m) \<and>
    load_array sizeof_section_32 load_section_32 (unat nsects) (flip e)
      (subbytes (lc + sizeof_segment_command) (unat nsects * sizeof_section_32) m') =
    load_array sizeof_section_32 load_section_32 (unat nsects) e
      (subbytes (lc + sizeof_segment_command) (unat nsects * sizeof_section_32) m) \<and>
    changed_within lc (lc + sizeof_segment_command_64 + unat nsects64 * sizeof_section_64) m64 m64' \<and>
    load_segment_command_64 (flip e) (subbytes lc sizeof_segment_command_64 m64') =
      load_segment_command_64 e (subbytes lc sizeof_segment_command_64 m64) \<and>
    load_array sizeof_section_64 load_section_64 (unat nsects64) (flip e)
      (subbytes (lc + sizeof_segment_command_64) (unat nsects64 * sizeof_section_64) m64') =
    map reserved3_swapped (load_array sizeof_section_64 load_section_64 (unat nsects64) e
      (subbytes (lc + sizeof_segment_command_64) (unat nsects64 * sizeof_section_64) m64))"
  by (rule swap_segment_contents [OF assms(1,2)], rule swap_segment_64_contents [OF assms(3,4)]) blast

theorem segments_swapped_witness:
  "\<exists>m'. swap_segment Little 0 (replicate 56 0) = Ok m' \<and> length m' = 56"
proof -
  have "get32 Little (replicate 56 0) (0 + 48) = 0" "get32 Little (replicate 72 0) (0 + 64) = 0" by code_simp+
  then show ?thesis
    using segments_swapped [OF refl _ refl, of 0 Little "replicate 56 0" "replicate 72 0"]
    by (auto simp: segment_command_defs segment_command_64_defs changed_within_def)
qed

text \<open>
  A structure in a buffer that a swap routine has gone over: the other host reads from it what this host has read.
\<close>

definition reads_same :: "nat \<Rightarrow> (endian \<Rightarrow> bytes \<Rightarrow> 'a) \<Rightarrow> (endian \<Rightarrow> 'a \<Rightarrow> bytes) \<Rightarrow> ('a \<Rightarrow> 'a) \<Rightarrow> bool" where
  "reads_same sz load store swap \<longleftrightarrow>
     (\<forall>e b. length b = sz \<longrightarrow> load (flip e) (inplace load store swap e b) = load e b)"

lemma reads_sameI:
  "(\<And>e b. length b = sz \<Longrightarrow> load (flip e) (inplace load store swap e b) = load e b) \<Longrightarrow> reads_same sz load store swap"
  by (simp add: reads_same_def)

lemma lossy_commands:
  "length b = sizeof_version_min_command \<Longrightarrow>
    load_version_min_command (flip e) (inplace load_version_min_command store_version_min_command swap_version_min_command e b) =
    (load_version_min_command e b)\<lparr>vc_sdk := SWAP_INT (vc_sdk (load_version_min_command e b))\<rparr>"
  "length b = sizeof_encryption_info_command_64 \<Longrightarrow>
    load_encryption_info_command_64 (flip e)
      (inplace load_encryption_info_command_64 store_encryption_info_command_64 swap_encryption_command_64 e b) =
    (load_encryption_info_command_64 e b)
      \<lparr>ec64_cryptid := ec64_pad (load_encryption_info_command_64 e b),
       ec64_pad := SWAP_INT (ec64_pad (load_encryption_info_command_64 e b))\<rparr>"
  by (simp_all add: inplace_def version_min_command_defs encryption_info_command_64_defs byte_simps)

text \<open>
  C30.  All routines \<open>swap_\<dots>_command\<close> of \<open>bytesex.c\<close>, each for the fixed part of one load command.  For 32 of them the
  other host reads the same fields from the swapped structure.  For the two others it does not:
  \<open>swap_version_min_command\<close> leaves \<open>sdk\<close> in the old byte order, and \<open>swap_encryption_command_64\<close> replaces \<open>cryptid\<close> by
  \<open>pad\<close>, which it leaves in the old byte order; all other fields are read the same.
\<close>

theorem commands_read_the_same:
  "reads_same sizeof_load_command load_load_command store_load_command swap_load_command \<and>
   reads_same sizeof_segment_command load_segment_command store_segment_command swap_segment_command \<and>
   reads_same sizeof_segment_command_64 load_segment_command_64 store_segment_command_64 swap_segment_command_64 \<and>
   reads_same sizeof_symtab_command load_symtab_command store_symtab_command swap_symtab_command \<and>
   reads_same sizeof_dysymtab_command load_dysymtab_command store_dysymtab_command swap_dysymtab_command \<and>
   reads_same sizeof_symseg_command load_symseg_command store_symseg_command swap_symseg_command \<and>
   reads_same sizeof_fvmlib_command load_fvmlib_command store_fvmlib_command swap_fvmlib_command \<and>
   reads_same sizeof_dylib_command load_dylib_command store_dylib_command swap_dylib_command \<and>
   reads_same sizeof_sub_framework_command load_sub_framework_command store_sub_framework_command swap_sub_framework_command \<and>
   reads_same sizeof_sub_umbrella_command load_sub_umbrella_command store_sub_umbrella_command swap_sub_umbrella_command \<and>
   reads_same sizeof_sub_library_command load_sub_library_command store_sub_library_command swap_sub_library_command \<and>
   reads_same sizeof_sub_client_command load_sub_client_command store_sub_client_command swap_sub_client_command \<and>
   reads_same sizeof_prebound_dylib_command load_prebound_dylib_command store_prebound_dylib_command swap_prebound_dylib_command \<and>
   reads_same sizeof_dylinker_command load_dylinker_command store_dylinker_command swap_dylinker_command \<and>
   reads_same sizeof_fvmfile_command load_fvmfile_command store_fvmfile_command swap_fvmfile_command \<and>
   reads_same sizeof_thread_command load_thread_command store_thread_command swap_thread_command \<and>
   reads_same sizeof_ident_command load_ident_command store_ident_command swap_ident_command \<and>
   reads_same sizeof_routines_command load_routines_command store_routines_command swap_routines_command \<and>
   reads_same sizeof_routines_command_64 load_routines_command_64 store_routines_command_64 swap_routines_command_64 \<and>
   reads_same sizeof_twolevel_hints_command load_twolevel_hints_command store_twolevel_hints_command swap_twolevel_hints_command \<and>
   reads_same sizeof_prebind_cksum_command load_prebind_cksum_command store_prebind_cksum_command swap_prebind_cksum_command \<and>
   reads_same sizeof_uuid_command load_uuid_command store_uuid_command swap_uuid_command \<and>
   reads_same sizeof_linkedit_data_command load_linkedit_data_command store_linkedit_data_command swap_linkedit_data_command \<and>
   reads_same sizeof_build_version_command load_build_version_command store_build_version_command swap_build_version_command \<and>
   reads_same sizeof_rpath_command load_rpath_command store_rpath_command swap_rpath_command \<and>
   reads_same sizeof_encryption_info_command load_encryption_info_command store_encryption_info_command swap_encryption_command \<and>
   reads_same sizeof_linker_option_command load_linker_option_command store_linker_option_command swap_linker_option_command \<and>
   reads_same sizeof_dyld_info_command load_dyld_info_command store_dyld_info_command swap_dyld_info_command \<and>
   reads_same sizeof_entry_point_command load_entry_point_command store_entry_point_command swap_entry_point_command \<and>
   reads_same sizeof_source_version_command load_source_version_command store_source_version_command swap_source_version_command \<and>
   reads_same sizeof_note_command load_note_command store_note_command swap_note_command \<and>
   reads_same sizeof_fileset_entry_command load_fileset_entry_command store_fileset_entry_command swap_fileset_entry_command \<and>
   (length b = sizeof_version_min_command \<longrightarrow>
      load_version_min_command (flip e) (inplace load_version_min_command store_version_min_command swap_version_min_command e b) =
      (load_version_min_command e b)\<lparr>vc_sdk := SWAP_INT (vc_sdk (load_version_min_command e b))\<rparr>) \<and>
   (length b = sizeof_encryption_info_command_64 \<longrightarrow>
      load_encryption_info_command_64 (flip e)
        (inplace load_encryption_info_command_64 store_encryption_info_command_64 swap_encryption_command_64 e b) =
      (load_encryption_info_command_64 e b)
        \<lparr>ec64_cryptid := ec64_pad (load_encryption_info_command_64 e b),
         ec64_pad := SWAP_INT (ec64_pad (load_encryption_info_command_64 e b))\<rparr>)"
  by (intro conjI impI lossy_commands;
      (assumption | rule
        load_command.inplace_load [THEN reads_sameI]
        segment_command.inplace_load [THEN reads_sameI]
        segment_command_64.inplace_load [THEN reads_sameI]
        symtab_command.inplace_load [THEN reads_sameI]
        dysymtab_command.inplace_load [THEN reads_sameI]
        symseg_command.inplace_load [THEN reads_sameI]
        fvmlib_command.inplace_load [THEN reads_sameI]
        dylib_command.inplace_load [THEN reads_sameI]
        sub_framework_command.inplace_load [THEN reads_sameI]
        sub_umbrella_command.inplace_load [THEN reads_sameI]
        sub_library_command.inplace_load [THEN reads_sameI]
        sub_client_command.inplace_load [THEN reads_sameI]
        prebound_dylib_command.inplace_load [THEN reads_sameI]
        dylinker_command.inplace_load [THEN reads_sameI]
        fvmfile_command.inplace_load [THEN reads_sameI]
        thread_command.inplace_load [THEN reads_sameI]
        ident_command.inplace_load [THEN reads_sameI]
        routines_command.inplace_load [THEN reads_sameI]
        routines_command_64.inplace_load [THEN reads_sameI]
        twolevel_hints_command.inplace_load [THEN reads_sameI]
        prebind_cksum_command.inplace_load [THEN reads_sameI]
        uuid_command.inplace_load [THEN reads_sameI]
        linkedit_data_command.inplace_load [THEN reads_sameI]
        build_version_command.inplace_load [THEN reads_sameI]
        rpath_command.inplace_load [THEN reads_sameI]
        encryption_info_command.inplace_load [THEN reads_sameI]
        linker_option_command.inplace_load [THEN reads_sameI]
        dyld_info_command.inplace_load [THEN reads_sameI]
        entry_point_command.inplace_load [THEN reads_sameI]
        source_version_command.inplace_load [THEN reads_sameI]
        note_command.inplace_load [THEN reads_sameI]
        fileset_entry_command.inplace_load [THEN reads_sameI]
      | erule lossy_commands))

theorem commands_read_the_same_witness:
  "load_uuid_command Big (inplace load_uuid_command store_uuid_command swap_uuid_command Little
     (take 24 example_commands)) = load_uuid_command Little (take 24 example_commands)"
proof -
  have "length (take 24 example_commands) = sizeof_uuid_command" by code_simp
  moreover have "reads_same sizeof_uuid_command load_uuid_command store_uuid_command swap_uuid_command"
    using commands_read_the_same by blast
  ultimately show ?thesis unfolding reads_same_def by (metis flip.simps(1))
qed

section \<open>Register states\<close>

text \<open>The two states with padding behind the registers, which the routines leave alone.\<close>

lemma padded_states:
  "reads_same sizeof_arm_thread_state64 load_arm_thread_state64 store_arm_thread_state64 swap_arm_thread_state64_t"
  "reads_same sizeof_i860_thread_state_regs load_i860_thread_state_regs store_i860_thread_state_regs swap_i860_thread_state_regs"
  by (simp_all add: reads_same_def inplace_def arm_thread_state64_defs i860_thread_state_regs_defs byte_simps)

text \<open>The three words of each 96-bit register, in the opposite order.\<close>

fun exchange_outer :: "u32 list \<Rightarrow> u32 list" where
  "exchange_outer (a # b # c # ws) = c # b # a # exchange_outer ws"
| "exchange_outer ws = ws"

lemma exchange_outer_words: "length ws mod 3 = 0 \<Longrightarrow> map SWAP_INT (swap_m68k_fp_regs ws) = exchange_outer ws"
  by (induction ws rule: exchange_outer.induct) auto

lemma SWAP_INT_low_half: "ucast (SWAP_INT (ucast (w :: u16))) = (0 :: u16)"
  by (rule bit_word_eqI) (auto simp: SWAP_INT_def byte_masks bit_simps dest: bit_imp_le_length)

lemma SWAP_SHORT_0: "SWAP_SHORT 0 = 0"
  by (simp add: SWAP_SHORT_def)

lemma lossy_states:
  "length b = sizeof_i386_exception_state \<Longrightarrow>
      load_i386_exception_state (flip e) (inplace load_i386_exception_state store_i386_exception_state swap_i386_exception_state e b) =
      (load_i386_exception_state e b)
        \<lparr>i386exc_trapno := 0, i386exc_cpu := SWAP_SHORT (i386exc_cpu (load_i386_exception_state e b))\<rparr>"
  "length b = sizeof_hp_pa_frame_thread_state \<Longrightarrow>
      load_hp_pa_frame_thread_state (flip e)
        (inplace load_hp_pa_frame_thread_state store_hp_pa_frame_thread_state swap_hppa_frame_thread_state e b) =
      (load_hp_pa_frame_thread_state e b)
        \<lparr>hppafr_ts_alignment_trap_reflect := SWAP_INT (hppafr_ts_alignment_trap_reflect (load_hp_pa_frame_thread_state e b)),
         hppafr_ts_execution_trap_reflect := SWAP_INT (hppafr_ts_execution_trap_reflect (load_hp_pa_frame_thread_state e b))\<rparr>"
  "length b = sizeof_m68k_thread_state_68882 \<Longrightarrow>
      load_m68k_thread_state_68882 (flip e)
        (inplace load_m68k_thread_state_68882 store_m68k_thread_state_68882 swap_m68k_thread_state_68882 e b) =
      (load_m68k_thread_state_68882 e b)\<lparr>m68kfp_regs := exchange_outer (m68kfp_regs (load_m68k_thread_state_68882 e b))\<rparr>"
  by (simp_all add: inplace_def i386_exception_state_defs hp_pa_frame_thread_state_defs m68k_thread_state_68882_defs byte_simps
      SWAP_INT_low_half SWAP_SHORT_0 exchange_outer_words)

text \<open>
  C31.  The routines for the register states that are modelled and have no bit-fields.  For fifteen of them the other host
  reads the same registers from the swapped state.  For the three others: of an i386 exception state the other host
  reads \<open>trapno\<close> as 0 and \<open>cpu\<close> in the old byte order; of an HP-PA frame state it reads the last two registers in the
  old byte order; of a 68882 state it reads the three words of each floating-point register in the opposite order; the
  other registers of the three are read the same.
\<close>

theorem registers_read_the_same:
  "reads_same sizeof_i386_thread_state load_i386_thread_state store_i386_thread_state swap_i386_thread_state \<and>
   reads_same sizeof_x86_thread_state64 load_x86_thread_state64 store_x86_thread_state64 swap_x86_thread_state64 \<and>
   reads_same sizeof_arm_thread_state load_arm_thread_state store_arm_thread_state swap_arm_thread_state_t \<and>
   reads_same sizeof_arm_thread_state64 load_arm_thread_state64 store_arm_thread_state64 swap_arm_thread_state64_t \<and>
   reads_same sizeof_ppc_thread_state load_ppc_thread_state store_ppc_thread_state swap_ppc_thread_state_t \<and>
   reads_same sizeof_ppc_thread_state64 load_ppc_thread_state64 store_ppc_thread_state64 swap_ppc_thread_state64_t \<and>
   reads_same sizeof_ppc_float_state load_ppc_float_state store_ppc_float_state swap_ppc_float_state_t \<and>
   reads_same sizeof_ppc_exception_state load_ppc_exception_state store_ppc_exception_state swap_ppc_exception_state_t \<and>
   reads_same sizeof_hp_pa_integer_thread_state load_hp_pa_integer_thread_state store_hp_pa_integer_thread_state swap_hppa_integer_thread_state \<and>
   reads_same sizeof_hp_pa_fp_thread_state load_hp_pa_fp_thread_state store_hp_pa_fp_thread_state swap_hppa_fp_thread_state \<and>
   reads_same sizeof_m68k_thread_state_regs load_m68k_thread_state_regs store_m68k_thread_state_regs swap_m68k_thread_state_regs \<and>
   reads_same sizeof_m68k_thread_state_user_reg load_m68k_thread_state_user_reg store_m68k_thread_state_user_reg swap_m68k_thread_state_user_reg \<and>
   reads_same sizeof_m88k_thread_state_grf load_m88k_thread_state_grf store_m88k_thread_state_grf swap_m88k_thread_state_grf_t \<and>
   reads_same sizeof_m88k_thread_state_user load_m88k_thread_state_user store_m88k_thread_state_user swap_m88k_thread_state_user_t \<and>
   reads_same sizeof_i860_thread_state_regs load_i860_thread_state_regs store_i860_thread_state_regs swap_i860_thread_state_regs \<and>
   (length b = sizeof_i386_exception_state \<longrightarrow>
      load_i386_exception_state (flip e) (inplace load_i386_exception_state store_i386_exception_state swap_i386_exception_state e b) =
      (load_i386_exception_state e b)
        \<lparr>i386exc_trapno := 0, i386exc_cpu := SWAP_SHORT (i386exc_cpu (load_i386_exception_state e b))\<rparr>) \<and>
   (length b = sizeof_hp_pa_frame_thread_state \<longrightarrow>
      load_hp_pa_frame_thread_state (flip e)
        (inplace load_hp_pa_frame_thread_state store_hp_pa_frame_thread_state swap_hppa_frame_thread_state e b) =
      (load_hp_pa_frame_thread_state e b)
        \<lparr>hppafr_ts_alignment_trap_reflect := SWAP_INT (hppafr_ts_alignment_trap_reflect (load_hp_pa_frame_thread_state e b)),
         hppafr_ts_execution_trap_reflect := SWAP_INT (hppafr_ts_execution_trap_reflect (load_hp_pa_frame_thread_state e b))\<rparr>) \<and>
   (length b = sizeof_m68k_thread_state_68882 \<longrightarrow>
      load_m68k_thread_state_68882 (flip e)
        (inplace load_m68k_thread_state_68882 store_m68k_thread_state_68882 swap_m68k_thread_state_68882 e b) =
      (load_m68k_thread_state_68882 e b)\<lparr>m68kfp_regs := exchange_outer (m68kfp_regs (load_m68k_thread_state_68882 e b))\<rparr>)"
  by (intro conjI impI padded_states;
      (erule lossy_states | rule
        i386_thread_state.inplace_load [THEN reads_sameI]
        x86_thread_state64.inplace_load [THEN reads_sameI]
        arm_thread_state.inplace_load [THEN reads_sameI]
        ppc_thread_state.inplace_load [THEN reads_sameI]
        ppc_thread_state64.inplace_load [THEN reads_sameI]
        ppc_float_state.inplace_load [THEN reads_sameI]
        ppc_exception_state.inplace_load [THEN reads_sameI]
        hp_pa_integer_thread_state.inplace_load [THEN reads_sameI]
        hp_pa_fp_thread_state.inplace_load [THEN reads_sameI]
        m68k_thread_state_regs.inplace_load [THEN reads_sameI]
        m68k_thread_state_user_reg.inplace_load [THEN reads_sameI]
        m88k_thread_state_grf.inplace_load [THEN reads_sameI]
        m88k_thread_state_user.inplace_load [THEN reads_sameI];
      assumption))

theorem registers_read_the_same_witness:
  "load_arm_thread_state Big (inplace load_arm_thread_state store_arm_thread_state swap_arm_thread_state_t Little
     (replicate 68 7)) = load_arm_thread_state Little (replicate 68 7)"
proof -
  have "length (replicate 68 (7 :: u8)) = sizeof_arm_thread_state" by (simp add: arm_thread_state_defs)
  moreover have "reads_same sizeof_arm_thread_state load_arm_thread_state store_arm_thread_state swap_arm_thread_state_t"
    using registers_read_the_same by blast
  ultimately show ?thesis unfolding reads_same_def by (metis flip.simps(1))
qed

end
